(* ===== verification/Prelude.thy ===== *)
theory Prelude
  imports Main
    "HOL-Library.Word"
    "HOL-Library.Sublist"
    "HOL-Library.List_Lexorder"
    "HOL-Library.Product_Lexorder"
begin

text \<open>
  Shared vocabulary of the development: Python text and byte strings, the dynamic values that
  cross the JSON and helper boundaries, exceptions as values, and the generic lemmas on lists
  and results that the component theories use.

  \<^item> A Python \<open>str\<close> is a list of code points (\<open>pystr\<close>), so \<open>length\<close> counts what
    \<open>len\<close> counts and surrogates or characters beyond ASCII are ordinary elements. A literal
    is written \<open>lit ''abc''\<close>.
  \<^item> A Python \<open>bytes\<close> object is a list of 8-bit words.
  \<^item> A call that may raise returns \<open>exn + 'a\<close>; the exception carries its class, not its
    message.
\<close>

section \<open>Text, bytes and exceptions\<close>

type_synonym pystr = "nat list"
type_synonym bytes = "8 word list"

definition lit :: "string \<Rightarrow> pystr" where
  "lit s = map of_char s"

lemma lit_eq_iff [simp]: "lit s = lit t \<longleftrightarrow> s = t"
  unfolding lit_def by (rule inj_map_eq_map) (simp add: inj_def)

lemma lit_Nil [simp]: "lit [] = []"
  by (simp add: lit_def)

lemma lit_eq_Nil_iff [simp]: "lit s = [] \<longleftrightarrow> s = []" "[] = lit s \<longleftrightarrow> s = []"
  by (auto simp: lit_def)

lemma length_lit [simp]: "length (lit s) = length s"
  by (simp add: lit_def)

text \<open>
  The exception classes that the modelled modules raise. \<open>RuleError\<close> and its subclasses extend
  \<open>ValueError\<close>, as do \<open>UnicodeError\<close> and its subclasses; the classes of \<open>auth.py\<close> extend
  \<open>AuthenticationError\<close>, which extends \<open>RuntimeError\<close>. In \<open>protocol.py\<close>, \<open>ProtocolError\<close> extends
  \<open>ValueError\<close> and has the subclasses \<open>FrameTooLarge\<close> and \<open>StreamError\<close>, the latter with
  \<open>StreamTooLarge\<close> and \<open>StreamTruncated\<close>; \<open>ConnectionClosed\<close> extends \<open>EOFError\<close>. \<open>FileNotFoundError\<close> and
  \<open>TimeoutError\<close> are \<open>OSError\<close>s; \<open>RuleSnapshotError\<close>, \<open>FilterBridgeError\<close> and \<open>FilterClientError\<close> extend
  \<open>RuntimeError\<close>. \<open>ConfigError\<close> and \<open>InvalidMaddyArgument\<close> extend \<open>ValueError\<close>; \<open>MaddyError\<close> extends \<open>RuntimeError\<close> and has
  subclasses of its own. \<open>DoesNotReturn\<close> is not an exception: it is the outcome of a call whose loop never
  ends.
\<close>

datatype maddy_error =
    UnspecificMaddyError
  | StaleMessageCursor
  | VersionParseError
  | UnsupportedVersion
  | UnsupportedCapability
  | CapabilityFingerprintError
  | LegacyLDAPUnsafe
  | RuntimeConfigUnsafe
  | CommandLaunchError
  | CommandTimeout
  | CommandOutputLimit
  | CommandInputError
  | CommandFailed
  | PartialOperationError "string list" "bool option"

datatype exn =
    ValueError
  | TypeError
  | UnicodeEncodeError
  | UnicodeDecodeError
  | LookupError
  | RecursionError
  | RuntimeError
  | RuleValidationError
  | RuleMessageError
  | RuleMessageLimitError
  | AuthenticationError
  | AccountExistsError
  | AccountNotFoundError
  | EnrollmentStateError
  | InvalidChallengeError
  | InvalidSecondFactorError
  | InvalidPasskeyError
  | StepUpRequiredError
  | InvalidSessionError
  | AuthenticationDataError
  | LoginRateLimitedError int
  | PasskeyLimitError
  | MailRuleLimitError
  | MailRuleNotFoundError
  | MailRuleConflictError
  | IntegrityError
  | StructError
  | IndexError
  | OverflowError
  | WebAuthnException
  | DoesNotReturn
  | HTTPRequestTimeout
  | HTTPBadRequest
  | UnicodeError
  | KeyError
  | OSError
  | FileNotFoundError
  | TimeoutError
  | ProtocolError
  | FrameTooLarge
  | StreamError
  | StreamTooLarge
  | StreamTruncated
  | ConnectionClosed
  | RuleSnapshotError
  | FilterBridgeError
  | FilterClientError
  | ConfigError
  | InvalidMaddyArgument
  | MaddyError maddy_error

type_synonym 'a res = "exn + 'a"

fun is_value_error :: "exn \<Rightarrow> bool" where
  "is_value_error ValueError = True"
| "is_value_error UnicodeEncodeError = True"
| "is_value_error UnicodeDecodeError = True"
| "is_value_error RuleValidationError = True"
| "is_value_error RuleMessageError = True"
| "is_value_error RuleMessageLimitError = True"
| "is_value_error UnicodeError = True"
| "is_value_error ProtocolError = True"
| "is_value_error FrameTooLarge = True"
| "is_value_error StreamError = True"
| "is_value_error StreamTooLarge = True"
| "is_value_error StreamTruncated = True"
| "is_value_error ConfigError = True"
| "is_value_error InvalidMaddyArgument = True"
| "is_value_error _ = False"

definition is_os_error :: "exn \<Rightarrow> bool" where
  "is_os_error e \<longleftrightarrow> e \<in> {OSError, FileNotFoundError, TimeoutError}"

definition is_maddy_error :: "exn \<Rightarrow> bool" where
  "is_maddy_error e = (case e of MaddyError _ \<Rightarrow> True | _ \<Rightarrow> False)"

section \<open>Results\<close>

named_theorems res_simps \<open>inversion of the result combinators\<close>

definition bind_res :: "'a res \<Rightarrow> ('a \<Rightarrow> 'b res) \<Rightarrow> 'b res" where
  "bind_res r f = (case r of Inl e \<Rightarrow> Inl e | Inr x \<Rightarrow> f x)"

lemma bind_res_simps [simp]:
  "bind_res (Inl e) f = Inl e"
  "bind_res (Inr x) f = f x"
  by (simp_all add: bind_res_def)

lemma bind_res_Inr_iff [res_simps]:
  "bind_res r f = Inr y \<longleftrightarrow> (\<exists>x. r = Inr x \<and> f x = Inr y)"
  by (cases r) auto

lemma bind_res_cong [fundef_cong]:
  "r = r' \<Longrightarrow> (\<And>x. r' = Inr x \<Longrightarrow> f x = g x) \<Longrightarrow> bind_res r f = bind_res r' g"
  by (cases r') auto

definition guard_res :: "bool \<Rightarrow> exn \<Rightarrow> unit res" where
  "guard_res b e = (if b then Inr () else Inl e)"

lemma guard_res_simps [simp]:
  "guard_res True e = Inr ()"
  "guard_res False e = Inl e"
  by (simp_all add: guard_res_def)

lemma guard_res_Inr_iff [res_simps]: "guard_res b e = Inr u \<longleftrightarrow> b"
  by (simp add: guard_res_def)

text \<open>A comprehension over calls that may raise stops at the first exception.\<close>

fun traverse :: "('a \<Rightarrow> 'b res) \<Rightarrow> 'a list \<Rightarrow> 'b list res" where
  "traverse f [] = Inr []"
| "traverse f (x # xs) = bind_res (f x) (\<lambda>y. bind_res (traverse f xs) (\<lambda>ys. Inr (y # ys)))"

lemma traverse_Inr_iff [res_simps]:
  "traverse f xs = Inr ys \<longleftrightarrow> list_all2 (\<lambda>x y. f x = Inr y) xs ys"
  by (induction xs arbitrary: ys) (auto simp: res_simps list_all2_Cons1)

lemma traverse_cong [fundef_cong]:
  "xs = ys \<Longrightarrow> (\<And>x. x \<in> set ys \<Longrightarrow> f x = g x) \<Longrightarrow> traverse f xs = traverse g ys"
  by (induction xs arbitrary: ys) (auto simp: bind_res_def split: sum.splits)

lemma traverse_Inr_map:
  "(\<And>x. x \<in> set xs \<Longrightarrow> f x = Inr (g x)) \<Longrightarrow> traverse f xs = Inr (map g xs)"
  by (induction xs) auto

lemma traverse_unit:
  "bind_res (traverse f xs) (\<lambda>_. Inr ()) = Inr () \<longleftrightarrow> (\<forall>x \<in> set xs. \<exists>y. f x = Inr y)"
proof (induction xs)
  case (Cons x xs)
  then show ?case by (cases "f x"; cases "traverse f xs") auto
qed simp

section \<open>Maxima\<close>

lemma foldr_max_le_iff: "foldr max xs (0 :: nat) \<le> b \<longleftrightarrow> (\<forall>x \<in> set xs. x \<le> b)"
  by (induction xs) auto

lemma foldr_max_ge: "x \<in> set xs \<Longrightarrow> x \<le> foldr max xs (0 :: nat)"
  using foldr_max_le_iff [of xs "foldr max xs 0"] by simp

lemma foldr_max_mem: "foldr max xs (0 :: nat) \<in> insert 0 (set xs)"
  by (induction xs) (auto simp: max_def)

section \<open>Dynamic values\<close>

text \<open>
  Values whose Python type the code inspects at run time. A \<open>dict\<close> is the list of its items
  in insertion order; a float is kept by its \<open>repr\<close> since no modelled code computes with it;
  any other object is known by its type name only.
\<close>

datatype pyval =
    PyNone
  | PyBool bool
  | PyInt int
  | PyFloat string
  | PyStr pystr
  | PyBytes bytes
  | PyList "pyval list"
  | PyTuple "pyval list"
  | PySet "pyval list"
  | PyDict "(pyval \<times> pyval) list"
  | PyOther string

section \<open>String operations of the language\<close>

definition isascii :: "pystr \<Rightarrow> bool" where
  "isascii s \<longleftrightarrow> list_all (\<lambda>c. c < 128) s"

text \<open>The code points \<open>str.isspace\<close> accepts, which \<open>str.strip()\<close> removes.\<close>

definition isspace :: "nat \<Rightarrow> bool" where
  "isspace c \<longleftrightarrow> (9 \<le> c \<and> c \<le> 13) \<or> (28 \<le> c \<and> c \<le> 32) \<or> c = 133 \<or> c = 160 \<or> c = 5760
     \<or> (8192 \<le> c \<and> c \<le> 8202) \<or> c = 8232 \<or> c = 8233 \<or> c = 8239 \<or> c = 8287 \<or> c = 12288"

definition lstrip :: "pystr \<Rightarrow> pystr" where
  "lstrip s = dropWhile isspace s"

definition rstrip :: "pystr \<Rightarrow> pystr" where
  "rstrip s = rev (dropWhile isspace (rev s))"

definition strip :: "pystr \<Rightarrow> pystr" where
  "strip s = rstrip (lstrip s)"

definition lower_char :: "nat \<Rightarrow> nat" where
  "lower_char c = (if 65 \<le> c \<and> c \<le> 90 then c + 32 else c)"

text \<open>\<open>str.lower\<close> on ASCII text.\<close>

definition lower :: "pystr \<Rightarrow> pystr" where
  "lower s = map lower_char s"

definition is_lower_alpha :: "nat \<Rightarrow> bool" where
  "is_lower_alpha c \<longleftrightarrow> 97 \<le> c \<and> c \<le> 122"

definition is_upper_alpha :: "nat \<Rightarrow> bool" where
  "is_upper_alpha c \<longleftrightarrow> 65 \<le> c \<and> c \<le> 90"

definition is_digit :: "nat \<Rightarrow> bool" where
  "is_digit c \<longleftrightarrow> 48 \<le> c \<and> c \<le> 57"

definition is_ascii_alnum :: "nat \<Rightarrow> bool" where
  "is_ascii_alnum c \<longleftrightarrow> is_lower_alpha c \<or> is_upper_alpha c \<or> is_digit c"

lemmas char_class_defs = is_lower_alpha_def is_upper_alpha_def is_digit_def is_ascii_alnum_def

text \<open>\<open>re.fullmatch\<close> of one character class repeated at least once.\<close>

definition fullmatch_plus :: "(nat \<Rightarrow> bool) \<Rightarrow> pystr \<Rightarrow> bool" where
  "fullmatch_plus p s \<longleftrightarrow> s \<noteq> [] \<and> list_all p s"

text \<open>\<open>str.split(sep)\<close> for a one-character separator.\<close>

fun split_on :: "nat \<Rightarrow> pystr \<Rightarrow> pystr list" where
  "split_on c [] = [[]]"
| "split_on c (x # xs) =
     (if x = c then [] # split_on c xs
      else case split_on c xs of [] \<Rightarrow> [[x]] | y # ys \<Rightarrow> (x # y) # ys)"

text \<open>\<open>str.rsplit(sep, 1)\<close> for a one-character separator that occurs in the text.\<close>

definition rsplit_once :: "nat \<Rightarrow> pystr \<Rightarrow> pystr \<times> pystr" where
  "rsplit_once c s =
     (rev (tl (dropWhile (\<lambda>x. x \<noteq> c) (rev s))), rev (takeWhile (\<lambda>x. x \<noteq> c) (rev s)))"

fun join_on :: "nat \<Rightarrow> pystr list \<Rightarrow> pystr" where
  "join_on c [] = []"
| "join_on c [x] = x"
| "join_on c (x # y # ys) = x @ c # join_on c (y # ys)"

text \<open>The definitions a concrete evaluation of text unfolds.\<close>

lemmas text_eval = lit_def isascii_def isspace_def lstrip_def rstrip_def strip_def
  lower_char_def lower_def char_class_defs fullmatch_plus_def rsplit_once_def suffix_to_prefix
  sublist_Cons_right

section \<open>Lemmas on text\<close>

lemma split_on_not_Nil [simp]: "split_on c xs \<noteq> []"
  by (induction xs) (auto split: list.splits)

lemma split_on_absent: "c \<notin> set xs \<Longrightarrow> split_on c xs = [xs]"
  by (induction xs) auto

lemma split_on_app: "c \<notin> set xs \<Longrightarrow> split_on c (xs @ c # ys) = xs # split_on c ys"
  by (induction xs) auto

lemma split_on_member: "x \<in> set xs \<Longrightarrow> x \<noteq> c \<Longrightarrow> \<exists>w \<in> set (split_on c xs). x \<in> set w"
  by (induction xs) (auto split: list.splits)

lemma join_on_Cons: "ys \<noteq> [] \<Longrightarrow> join_on c (y # ys) = y @ c # join_on c ys"
  by (cases ys) auto

lemma join_split [simp]: "join_on c (split_on c xs) = xs"
proof (induction xs)
  case Nil
  show ?case by simp
next
  case (Cons x xs)
  obtain y ys where y: "split_on c xs = y # ys"
    by (cases "split_on c xs") auto
  from Cons.IH y show ?case
    by (cases ys) (auto simp: join_on_Cons)
qed

lemma split_on_map:
  "(\<And>x. x \<in> set xs \<Longrightarrow> f x = c \<longleftrightarrow> x = c) \<Longrightarrow> split_on c (map f xs) = map (map f) (split_on c xs)"
  by (induction xs) (auto split: list.splits)

lemma lower_char_idem [simp]: "lower_char (lower_char c) = lower_char c"
  by (simp add: lower_char_def)

lemma lower_idem [simp]: "lower (lower s) = lower s"
  by (simp add: lower_def)

lemma length_lower [simp]: "length (lower s) = length s"
  by (simp add: lower_def)

lemma lower_eq_Nil_iff [simp]: "lower s = [] \<longleftrightarrow> s = []"
  by (simp add: lower_def)

lemma lower_append [simp]: "lower (s @ t) = lower s @ lower t"
  by (simp add: lower_def)

lemma lower_Cons [simp]: "lower (c # s) = lower_char c # lower s"
  by (simp add: lower_def)

lemma lower_char_isspace [simp]: "isspace (lower_char c) = isspace c"
  by (auto simp: lower_char_def isspace_def)

lemma isascii_lower [simp]: "isascii (lower s) = isascii s"
  by (auto simp: isascii_def lower_def lower_char_def list_all_iff)

lemma strip_lower: "strip (lower s) = lower (strip s)"
proof -
  have c: "isspace \<circ> lower_char = isspace" by (rule ext) simp
  show ?thesis
    by (simp add: strip_def lstrip_def rstrip_def lower_def dropWhile_map rev_map c)
qed

lemma strip_decomp: "\<exists>a b. s = a @ strip s @ b \<and> list_all isspace a \<and> list_all isspace b"
proof -
  let ?l = "dropWhile isspace s"
  have "s = takeWhile isspace s @ ?l" by simp
  moreover have "?l = strip s @ rev (takeWhile isspace (rev ?l))"
    unfolding strip_def rstrip_def lstrip_def
    by (metis rev_append rev_rev_ident takeWhile_dropWhile_id)
  ultimately have "s = takeWhile isspace s @ strip s @ rev (takeWhile isspace (rev ?l))"
    by metis
  moreover have "list_all isspace (takeWhile isspace s)"
    by (auto simp: list_all_iff dest: set_takeWhileD)
  moreover have "list_all isspace (rev (takeWhile isspace (rev ?l)))"
    by (auto simp: list_all_iff dest: set_takeWhileD)
  ultimately show ?thesis by blast
qed

lemma strip_id_iff:
  "s \<noteq> [] \<Longrightarrow> strip s = s \<longleftrightarrow> \<not> isspace (hd s) \<and> \<not> isspace (last s)"
proof (intro iffI conjI)
  assume ne: "s \<noteq> []" and eq: "strip s = s"
  have d: "dropWhile isspace (rev (dropWhile isspace s)) = rev s"
    using eq unfolding strip_def rstrip_def lstrip_def by (metis rev_rev_ident)
  from d have len: "length s \<le> length (dropWhile isspace s)"
    using length_dropWhile_le [of isspace "rev (dropWhile isspace s)"] by simp
  have id: "dropWhile isspace s = s"
    using len by (metis append_Nil append_eq_conv_conj drop_all dropWhile_eq_drop
        length_dropWhile_le order_antisym takeWhile_dropWhile_id length_append add_cancel_left_left
        length_0_conv)
  then show "\<not> isspace (hd s)" using ne by (metis hd_dropWhile)
  from d id have "dropWhile isspace (rev s) = rev s" by simp
  then show "\<not> isspace (last s)" using ne by (metis hd_dropWhile hd_rev rev_is_Nil_conv)
next
  assume ne: "s \<noteq> []" and h: "\<not> isspace (hd s) \<and> \<not> isspace (last s)"
  from h ne have "dropWhile isspace s = s" by (cases s) auto
  moreover from h ne have "dropWhile isspace (rev s) = rev s"
    by (metis dropWhile_eq_self_iff hd_rev)
  ultimately show "strip s = s" by (simp add: strip_def rstrip_def lstrip_def)
qed

lemma rsplit_once_app:
  "c \<notin> set d \<Longrightarrow> rsplit_once c (l @ c # d) = (l, d)"
proof -
  assume c: "c \<notin> set d"
  then have "takeWhile (\<lambda>x. x \<noteq> c) (rev d @ c # rev l) = rev d"
    by (subst takeWhile_append2) auto
  moreover from c have "dropWhile (\<lambda>x. x \<noteq> c) (rev d @ c # rev l) = c # rev l"
    by (subst dropWhile_append2) auto
  ultimately show ?thesis by (simp add: rsplit_once_def)
qed

lemma rsplit_once_decomp:
  "c \<in> set s \<Longrightarrow> \<exists>l d. s = l @ c # d \<and> c \<notin> set d \<and> rsplit_once c s = (l, d)"
  using split_list_last [of c s] rsplit_once_app by metis

section \<open>Codecs\<close>

text \<open>
  The interface between a strict reader of untrusted documents and the printer of the values
  it accepts. The laws are the two directions of the contract; every client that re-reads what
  it printed (rule documents, identities, opaque tokens, recovery codes) uses the lemmas below.
\<close>

locale codec =
  fixes parse :: "'d \<Rightarrow> 'a res"
    and print :: "'a \<Rightarrow> 'd"
    and valid :: "'a \<Rightarrow> bool"
  assumes parse_print: "valid x \<Longrightarrow> parse (print x) = Inr x"
    and parse_valid: "parse d = Inr x \<Longrightarrow> valid x"
begin

lemma reparse: "parse d = Inr x \<Longrightarrow> parse (print x) = Inr x"
  using parse_print parse_valid by blast

lemma print_inj: "valid x \<Longrightarrow> valid y \<Longrightarrow> print x = print y \<Longrightarrow> x = y"
  using parse_print by (metis sum.inject(2))

lemma valid_iff: "valid x \<longleftrightarrow> (\<exists>d. parse d = Inr x)"
  using parse_print parse_valid by blast

end

end
