(* ===== verification/Filing_Rules.thy ===== *)
theory Filing_Rules
  imports Prelude
begin

text \<open>
  \<open>rules.py\<close>, first half: the typed condition tree of a mail filing rule, its strict parser
  and printer (\<open>condition_from_mapping\<close>, \<open>condition_to_mapping\<close>), the node and depth budget,
  compilation and the three-valued matcher.

  Case folding of non-ASCII text needs the interpreter's Unicode tables, which are a parameter
  (\<open>uni\<close>) of the definitions that fold; on ASCII text folding is lower-casing.
\<close>

section \<open>Limits and enumerations\<close>

definition MAX_RULE_DEPTH :: nat where "MAX_RULE_DEPTH = 8"
definition MAX_RULE_NODES :: nat where "MAX_RULE_NODES = 100"
definition MAX_RULE_VALUE_CHARACTERS :: nat where "MAX_RULE_VALUE_CHARACTERS = 2048"
definition MAX_RULE_VALUE_BYTES :: nat where "MAX_RULE_VALUE_BYTES = 8 * 1024"
definition MAX_HEADER_NAME_CHARACTERS :: nat where "MAX_HEADER_NAME_CHARACTERS = 78"
definition MAX_TARGET_MAILBOX_CHARACTERS :: nat where "MAX_TARGET_MAILBOX_CHARACTERS = 255"
definition MAX_TARGET_MAILBOX_BYTES :: nat where "MAX_TARGET_MAILBOX_BYTES = 1024"

lemmas rule_limits = MAX_RULE_DEPTH_def MAX_RULE_NODES_def MAX_RULE_VALUE_CHARACTERS_def
  MAX_RULE_VALUE_BYTES_def MAX_HEADER_NAME_CHARACTERS_def MAX_TARGET_MAILBOX_CHARACTERS_def
  MAX_TARGET_MAILBOX_BYTES_def

datatype StringField = FROM | TO | CC | BCC | REPLY_TO | SUBJECT | LIST_ID | HEADER
datatype NumericField = SIZE
datatype BooleanField = HAS_ATTACHMENT
datatype StringOperator =
  EQUALS | NOT_EQUALS | CONTAINS | NOT_CONTAINS | STARTS_WITH | ENDS_WITH | EXISTS
datatype NumericOperator = EQ | LT | LTE | GT | GTE
datatype BooleanOperator = BOOL_EQ

fun StringField_value :: "StringField \<Rightarrow> pystr" where
  "StringField_value FROM = lit ''from''"
| "StringField_value TO = lit ''to''"
| "StringField_value CC = lit ''cc''"
| "StringField_value BCC = lit ''bcc''"
| "StringField_value REPLY_TO = lit ''reply_to''"
| "StringField_value SUBJECT = lit ''subject''"
| "StringField_value LIST_ID = lit ''list_id''"
| "StringField_value HEADER = lit ''header''"

fun NumericField_value :: "NumericField \<Rightarrow> pystr" where
  "NumericField_value SIZE = lit ''size''"

fun BooleanField_value :: "BooleanField \<Rightarrow> pystr" where
  "BooleanField_value HAS_ATTACHMENT = lit ''has_attachment''"

fun StringOperator_value :: "StringOperator \<Rightarrow> pystr" where
  "StringOperator_value EQUALS = lit ''equals''"
| "StringOperator_value NOT_EQUALS = lit ''not_equals''"
| "StringOperator_value CONTAINS = lit ''contains''"
| "StringOperator_value NOT_CONTAINS = lit ''not_contains''"
| "StringOperator_value STARTS_WITH = lit ''starts_with''"
| "StringOperator_value ENDS_WITH = lit ''ends_with''"
| "StringOperator_value EXISTS = lit ''exists''"

fun NumericOperator_value :: "NumericOperator \<Rightarrow> pystr" where
  "NumericOperator_value EQ = lit ''eq''"
| "NumericOperator_value LT = lit ''lt''"
| "NumericOperator_value LTE = lit ''lte''"
| "NumericOperator_value GT = lit ''gt''"
| "NumericOperator_value GTE = lit ''gte''"

fun BooleanOperator_value :: "BooleanOperator \<Rightarrow> pystr" where
  "BooleanOperator_value BOOL_EQ = lit ''eq''"

definition StringField_members :: "StringField list" where
  "StringField_members = [FROM, TO, CC, BCC, REPLY_TO, SUBJECT, LIST_ID, HEADER]"

definition StringOperator_members :: "StringOperator list" where
  "StringOperator_members =
     [EQUALS, NOT_EQUALS, CONTAINS, NOT_CONTAINS, STARTS_WITH, ENDS_WITH, EXISTS]"

definition NumericOperator_members :: "NumericOperator list" where
  "NumericOperator_members = [EQ, LT, LTE, GT, GTE]"

text \<open>\<open>enum_type(value)\<close>: the member with that value; anything else is rejected.\<close>

definition enum_value :: "('e \<Rightarrow> pystr) \<Rightarrow> 'e list \<Rightarrow> pyval \<Rightarrow> 'e res" where
  "enum_value val members v =
     (case v of
        PyStr s \<Rightarrow> (case find (\<lambda>m. val m = s) members of
                     Some m \<Rightarrow> Inr m | None \<Rightarrow> Inl RuleValidationError)
      | _ \<Rightarrow> Inl RuleValidationError)"

section \<open>Text validation\<close>

text \<open>The general categories Cc and Cs of the Unicode database.\<close>

definition is_control_or_surrogate :: "nat \<Rightarrow> bool" where
  "is_control_or_surrogate c \<longleftrightarrow> c < 32 \<or> (127 \<le> c \<and> c < 160) \<or> (55296 \<le> c \<and> c \<le> 57343)"

definition utf8_char_length :: "nat \<Rightarrow> nat" where
  "utf8_char_length c = (if c < 128 then 1 else if c < 2048 then 2 else if c < 65536 then 3 else 4)"

definition utf8_length :: "pystr \<Rightarrow> nat" where
  "utf8_length s = sum_list (map utf8_char_length s)"

definition validate_text :: "nat \<Rightarrow> nat \<Rightarrow> pyval \<Rightarrow> pystr res" where
  "validate_text maximum_characters maximum_bytes value =
     (case value of
        PyStr s \<Rightarrow>
          if s = [] then Inl RuleValidationError
          else if list_ex is_control_or_surrogate s then Inl RuleValidationError
          else if length s > maximum_characters \<or> utf8_length s > maximum_bytes
            then Inl RuleValidationError
          else Inr s
      | _ \<Rightarrow> Inl RuleValidationError)"

definition HEADER_NAME_RE :: "nat \<Rightarrow> bool" where
  "HEADER_NAME_RE c \<longleftrightarrow> is_ascii_alnum c \<or> c \<in> set (lit ''!#$%&*+.^_`|~-'') \<or> c = 39"

definition casefold :: "(pystr \<Rightarrow> pystr) \<Rightarrow> pystr \<Rightarrow> pystr" where
  "casefold uni s = (if isascii s then lower s else uni s)"

definition validate_header_name :: "(pystr \<Rightarrow> pystr) \<Rightarrow> pyval \<Rightarrow> pystr res" where
  "validate_header_name uni value =
     bind_res (validate_text MAX_HEADER_NAME_CHARACTERS MAX_HEADER_NAME_CHARACTERS value)
       (\<lambda>name. if \<not> fullmatch_plus HEADER_NAME_RE name then Inl RuleValidationError
               else Inr (casefold uni name))"

definition validate_target_mailbox :: "pyval \<Rightarrow> pystr res" where
  "validate_target_mailbox value =
     bind_res (validate_text MAX_TARGET_MAILBOX_CHARACTERS MAX_TARGET_MAILBOX_BYTES value)
       (\<lambda>mailbox. if mailbox \<noteq> strip mailbox then Inl RuleValidationError else Inr mailbox)"

section \<open>The condition tree\<close>

datatype Condition =
    AndCondition "Condition list"
  | OrCondition "Condition list"
  | NotCondition Condition
  | StringCondition StringField StringOperator "pystr option" "pystr option"
  | NumericCondition NumericField NumericOperator int
  | BooleanCondition BooleanField BooleanOperator bool

text \<open>The constructors with the checks of their \<open>__post_init__\<close>.\<close>

definition mk_AndCondition :: "Condition list \<Rightarrow> Condition res" where
  "mk_AndCondition cs = (if cs = [] then Inl RuleValidationError else Inr (AndCondition cs))"

definition mk_OrCondition :: "Condition list \<Rightarrow> Condition res" where
  "mk_OrCondition cs = (if cs = [] then Inl RuleValidationError else Inr (OrCondition cs))"

definition mk_StringCondition ::
  "(pystr \<Rightarrow> pystr) \<Rightarrow> StringField \<Rightarrow> StringOperator \<Rightarrow> pyval \<Rightarrow> pyval \<Rightarrow> Condition res" where
  "mk_StringCondition uni string_field operator value header =
     bind_res
       (if string_field = HEADER then map_sum id Some (validate_header_name uni header)
        else if header \<noteq> PyNone then Inl RuleValidationError
        else Inr None)
       (\<lambda>h. bind_res
          (if operator = EXISTS
           then (if value \<noteq> PyNone then Inl RuleValidationError else Inr None)
           else map_sum id Some (validate_text MAX_RULE_VALUE_CHARACTERS MAX_RULE_VALUE_BYTES value))
          (\<lambda>v. Inr (StringCondition string_field operator v h)))"

definition mk_NumericCondition :: "pyval \<Rightarrow> pyval \<Rightarrow> pyval \<Rightarrow> Condition res" where
  "mk_NumericCondition field_value operator value =
     bind_res (enum_value NumericField_value [SIZE] field_value) (\<lambda>f.
     bind_res (enum_value NumericOperator_value NumericOperator_members operator) (\<lambda>operator'.
       case value of
         PyInt n \<Rightarrow> if 0 \<le> n \<and> n \<le> 2 ^ 63 - 1 then Inr (NumericCondition f operator' n)
                    else Inl RuleValidationError
       | _ \<Rightarrow> Inl RuleValidationError))"

definition mk_BooleanCondition :: "pyval \<Rightarrow> pyval \<Rightarrow> pyval \<Rightarrow> Condition res" where
  "mk_BooleanCondition field_value operator value =
     bind_res (enum_value BooleanField_value [HAS_ATTACHMENT] field_value) (\<lambda>f.
     bind_res (enum_value BooleanOperator_value [BOOL_EQ] operator) (\<lambda>operator'.
       case value of
         PyBool b \<Rightarrow> Inr (BooleanCondition f operator' b)
       | _ \<Rightarrow> Inl RuleValidationError))"

section \<open>The node and depth budget\<close>

fun cond_nodes :: "Condition \<Rightarrow> nat" where
  "cond_nodes (AndCondition cs) = Suc (sum_list (map cond_nodes cs))"
| "cond_nodes (OrCondition cs) = Suc (sum_list (map cond_nodes cs))"
| "cond_nodes (NotCondition c) = Suc (cond_nodes c)"
| "cond_nodes _ = 1"

fun cond_depth :: "Condition \<Rightarrow> nat" where
  "cond_depth (AndCondition cs) = Suc (foldr max (map cond_depth cs) 0)"
| "cond_depth (OrCondition cs) = Suc (foldr max (map cond_depth cs) 0)"
| "cond_depth (NotCondition c) = Suc (cond_depth c)"
| "cond_depth _ = 1"

lemma cond_nodes_pos [simp]: "0 < cond_nodes c"
  by (cases c) auto

text \<open>
  The explicit stack of \<open>_validate_condition_budget\<close>; the top of the stack is the head of the
  list, and \<open>extend\<close> pushes the children so that the last one is popped first.
\<close>

fun budget_children :: "Condition \<Rightarrow> nat \<Rightarrow> (Condition \<times> nat) list" where
  "budget_children (AndCondition cs) depth = rev (map (\<lambda>c. (c, depth + 1)) cs)"
| "budget_children (OrCondition cs) depth = rev (map (\<lambda>c. (c, depth + 1)) cs)"
| "budget_children (NotCondition c) depth = [(c, depth + 1)]"
| "budget_children _ depth = []"

lemma budget_children_nodes:
  "sum_list (map (\<lambda>p. cond_nodes (fst p)) (budget_children c d)) = cond_nodes c - 1"
  by (cases c) (auto simp: rev_map [symmetric] comp_def)

function budget_loop :: "(Condition \<times> nat) list \<Rightarrow> nat \<Rightarrow> unit res" where
  "budget_loop [] nodes = Inr ()"
| "budget_loop ((node, depth) # stack) nodes =
     (if nodes + 1 > MAX_RULE_NODES then Inl RuleValidationError
      else if depth > MAX_RULE_DEPTH then Inl RuleValidationError
      else budget_loop (budget_children node depth @ stack) (nodes + 1))"
  by pat_completeness auto
termination
proof (relation "measure (\<lambda>(stack, nodes). sum_list (map (\<lambda>p. cond_nodes (fst p)) stack))", goal_cases)
  case (2 node depth stack nodes)
  show ?case
    using cond_nodes_pos [of node] budget_children_nodes [of node depth]
    by (simp only: in_measure case_prod_conv map_append sum_list_append list.map sum_list.Cons
        comp_apply fst_conv)
qed simp

definition validate_condition_budget :: "Condition \<Rightarrow> unit res" where
  "validate_condition_budget c = budget_loop [(c, 1)] 0"

lemma budget_children_depth:
  "(\<forall>(k, d') \<in> set (budget_children c d). d' + cond_depth k \<le> b + 1) \<and> d \<le> b
     \<longleftrightarrow> d + cond_depth c \<le> b + 1"
proof (cases c)
  case (AndCondition cs)
  have "foldr max (map cond_depth cs) 0 \<le> b - d \<longleftrightarrow> (\<forall>x\<in>set cs. cond_depth x \<le> b - d)"
    by (simp add: foldr_max_le_iff)
  then show ?thesis unfolding AndCondition by (cases "d \<le> b") auto
next
  case (OrCondition cs)
  have "foldr max (map cond_depth cs) 0 \<le> b - d \<longleftrightarrow> (\<forall>x\<in>set cs. cond_depth x \<le> b - d)"
    by (simp add: foldr_max_le_iff)
  then show ?thesis unfolding OrCondition by (cases "d \<le> b") auto
qed auto

lemma budget_loop_iff:
  "n \<le> MAX_RULE_NODES \<Longrightarrow> budget_loop stack n = Inr () \<longleftrightarrow>
     n + sum_list (map (\<lambda>p. cond_nodes (fst p)) stack) \<le> MAX_RULE_NODES
     \<and> (\<forall>(c, d) \<in> set stack. d + cond_depth c \<le> MAX_RULE_DEPTH + 1)"
proof (induction stack n rule: budget_loop.induct)
  case (1 nodes)
  then show ?case by simp
next
  case (2 node depth stack nodes)
  obtain k where k: "cond_nodes node = Suc k"
    using cond_nodes_pos [of node] by (cases "cond_nodes node") auto
  have kids: "sum_list (map (\<lambda>p. cond_nodes (fst p)) (budget_children node depth)) = k"
    using budget_children_nodes [of node depth] k by simp
  have dep: "(\<forall>(k, d') \<in> set (budget_children node depth). d' + cond_depth k \<le> MAX_RULE_DEPTH + 1)
      \<and> depth \<le> MAX_RULE_DEPTH \<longleftrightarrow> depth + cond_depth node \<le> MAX_RULE_DEPTH + 1"
    by (rule budget_children_depth)
  show ?case
  proof (cases "nodes + 1 > MAX_RULE_NODES \<or> depth > MAX_RULE_DEPTH")
    case True
    have "0 < cond_depth node" by (cases node) auto
    with True k show ?thesis by auto
  next
    case False
    then have "budget_loop ((node, depth) # stack) nodes
        = budget_loop (budget_children node depth @ stack) (nodes + 1)" by simp
    also have "\<dots> = Inr () \<longleftrightarrow>
        nodes + 1 + sum_list (map (\<lambda>p. cond_nodes (fst p)) (budget_children node depth @ stack)) \<le> MAX_RULE_NODES
        \<and> (\<forall>(c, d) \<in> set (budget_children node depth @ stack). d + cond_depth c \<le> MAX_RULE_DEPTH + 1)"
      using False "2.IH" by auto
    also have "\<dots> \<longleftrightarrow> nodes + sum_list (map (\<lambda>p. cond_nodes (fst p)) ((node, depth) # stack)) \<le> MAX_RULE_NODES
        \<and> (\<forall>(c, d) \<in> set ((node, depth) # stack). d + cond_depth c \<le> MAX_RULE_DEPTH + 1)"
      using k kids dep False by (auto simp: ball_Un)
    finally show ?thesis .
  qed
qed

lemma validate_condition_budget_iff:
  "validate_condition_budget c = Inr () \<longleftrightarrow> cond_nodes c \<le> MAX_RULE_NODES \<and> cond_depth c \<le> MAX_RULE_DEPTH"
  unfolding validate_condition_budget_def by (subst budget_loop_iff) auto

lemma validate_condition_budget_cases:
  "validate_condition_budget c = Inr () \<or> validate_condition_budget c = Inl RuleValidationError"
proof -
  have "budget_loop stack n = Inr () \<or> budget_loop stack n = Inl RuleValidationError" for stack n
    by (induction stack n rule: budget_loop.induct) auto
  then show ?thesis by (simp add: validate_condition_budget_def)
qed

section \<open>Parsing and printing conditions\<close>

fun keys_as_text :: "(pyval \<times> pyval) list \<Rightarrow> (pystr \<times> pyval) list option" where
  "keys_as_text [] = Some []"
| "keys_as_text ((PyStr k, v) # items) = map_option ((#) (k, v)) (keys_as_text items)"
| "keys_as_text _ = None"

definition require_mapping :: "pyval \<Rightarrow> (pystr \<times> pyval) list res" where
  "require_mapping value =
     (case value of
        PyDict items \<Rightarrow>
          (case keys_as_text items of Some m \<Rightarrow> Inr m | None \<Rightarrow> Inl RuleValidationError)
      | _ \<Rightarrow> Inl RuleValidationError)"

definition require_keys :: "(pystr \<times> pyval) list \<Rightarrow> pystr set \<Rightarrow> pystr set \<Rightarrow> unit res" where
  "require_keys mapping required optional =
     (let keys = set (map fst mapping) in
      if keys \<noteq> required \<union> (keys \<inter> optional) \<or> \<not> required \<subseteq> keys then Inl RuleValidationError
      else Inr ())"

text \<open>\<open>mapping.get(key)\<close>: \<open>None\<close> when the key is absent.\<close>

definition py_get :: "(pystr \<times> pyval) list \<Rightarrow> pystr \<Rightarrow> pyval" where
  "py_get mapping key = (case map_of mapping key of None \<Rightarrow> PyNone | Some v \<Rightarrow> v)"

definition parse_test_condition ::
  "(pystr \<Rightarrow> pystr) \<Rightarrow> (pystr \<times> pyval) list \<Rightarrow> Condition res" where
  "parse_test_condition uni mapping =
     (let field_value = py_get mapping (lit ''field'') in
      bind_res
        (if field_value \<in> set (map (PyStr \<circ> StringField_value) StringField_members)
         then
           bind_res (enum_value StringField_value StringField_members field_value) (\<lambda>string_field.
           bind_res (enum_value StringOperator_value StringOperator_members
                       (py_get mapping (lit ''operator''))) (\<lambda>string_operator.
           bind_res
             (require_keys mapping
                ({lit ''field'', lit ''operator''}
                 \<union> (if string_field = HEADER then {lit ''header''} else {})
                 \<union> (if string_operator \<noteq> EXISTS then {lit ''value''} else {})) {}) (\<lambda>_.
             mk_StringCondition uni string_field string_operator
               (py_get mapping (lit ''value'')) (py_get mapping (lit ''header'')))))
         else if field_value = PyStr (NumericField_value SIZE)
         then
           bind_res (require_keys mapping {lit ''field'', lit ''operator'', lit ''value''} {}) (\<lambda>_.
             mk_NumericCondition field_value (py_get mapping (lit ''operator''))
               (py_get mapping (lit ''value'')))
         else if field_value = PyStr (BooleanField_value HAS_ATTACHMENT)
         then
           bind_res (require_keys mapping {lit ''field'', lit ''operator'', lit ''value''} {}) (\<lambda>_.
             mk_BooleanCondition field_value (py_get mapping (lit ''operator''))
               (py_get mapping (lit ''value'')))
         else Inl RuleValidationError)
        (\<lambda>condition. bind_res (validate_condition_budget condition) (\<lambda>_. Inr condition)))"

fun as_sequence :: "pyval \<Rightarrow> pyval list option" where
  "as_sequence (PyList xs) = Some xs"
| "as_sequence (PyTuple xs) = Some xs"
| "as_sequence _ = None"

function condition_from_mapping :: "(pystr \<Rightarrow> pystr) \<Rightarrow> nat \<Rightarrow> pyval \<Rightarrow> Condition res" where
  "condition_from_mapping uni depth document =
     (if depth > MAX_RULE_DEPTH then Inl RuleValidationError
      else
        bind_res (require_mapping document) (\<lambda>mapping.
          case map_of mapping (lit ''op'') of
            None \<Rightarrow> parse_test_condition uni mapping
          | Some (PyStr operation) \<Rightarrow>
              if operation = lit ''and'' \<or> operation = lit ''or'' then
                bind_res (require_keys mapping {lit ''op'', lit ''conditions''} {}) (\<lambda>_.
                case as_sequence (py_get mapping (lit ''conditions'')) of
                  None \<Rightarrow> Inl RuleValidationError
                | Some children \<Rightarrow>
                    if length children > MAX_RULE_NODES then Inl RuleValidationError
                    else
                      bind_res (traverse (condition_from_mapping uni (depth + 1)) children) (\<lambda>parsed.
                      bind_res (if operation = lit ''and'' then mk_AndCondition parsed
                                else mk_OrCondition parsed) (\<lambda>condition.
                      bind_res (validate_condition_budget condition) (\<lambda>_. Inr condition))))
              else if operation = lit ''not'' then
                bind_res (require_keys mapping {lit ''op'', lit ''condition''} {}) (\<lambda>_.
                bind_res (condition_from_mapping uni (depth + 1) (py_get mapping (lit ''condition'')))
                  (\<lambda>child.
                     bind_res (validate_condition_budget (NotCondition child))
                       (\<lambda>_. Inr (NotCondition child))))
              else Inl RuleValidationError
          | Some _ \<Rightarrow> Inl RuleValidationError))"
  by pat_completeness auto
termination
  by (relation "measure (\<lambda>(uni, depth, document). Suc MAX_RULE_DEPTH - depth)") auto

declare condition_from_mapping.simps [simp del]

fun condition_to_mapping :: "Condition \<Rightarrow> pyval" where
  "condition_to_mapping (AndCondition cs) =
     PyDict [(PyStr (lit ''conditions''), PyList (map condition_to_mapping cs)),
             (PyStr (lit ''op''), PyStr (lit ''and''))]"
| "condition_to_mapping (OrCondition cs) =
     PyDict [(PyStr (lit ''conditions''), PyList (map condition_to_mapping cs)),
             (PyStr (lit ''op''), PyStr (lit ''or''))]"
| "condition_to_mapping (NotCondition c) =
     PyDict [(PyStr (lit ''condition''), condition_to_mapping c),
             (PyStr (lit ''op''), PyStr (lit ''not''))]"
| "condition_to_mapping (StringCondition f operator value header) =
     PyDict ([(PyStr (lit ''field''), PyStr (StringField_value f)),
              (PyStr (lit ''operator''), PyStr (StringOperator_value operator))]
             @ (case header of None \<Rightarrow> [] | Some h \<Rightarrow> [(PyStr (lit ''header''), PyStr h)])
             @ (case value of None \<Rightarrow> [] | Some v \<Rightarrow> [(PyStr (lit ''value''), PyStr v)]))"
| "condition_to_mapping (NumericCondition f operator n) =
     PyDict [(PyStr (lit ''field''), PyStr (NumericField_value f)),
             (PyStr (lit ''operator''), PyStr (NumericOperator_value operator)),
             (PyStr (lit ''value''), PyInt n)]"
| "condition_to_mapping (BooleanCondition f operator b) =
     PyDict [(PyStr (lit ''field''), PyStr (BooleanField_value f)),
             (PyStr (lit ''operator''), PyStr (BooleanOperator_value operator)),
             (PyStr (lit ''value''), PyBool b)]"

section \<open>Rules\<close>

record Rule =
  condition :: Condition
  target_mailbox :: pystr

definition mk_Rule :: "Condition \<Rightarrow> pyval \<Rightarrow> Rule res" where
  "mk_Rule c target =
     bind_res (validate_condition_budget c) (\<lambda>_.
     bind_res (validate_target_mailbox target) (\<lambda>mailbox.
       Inr \<lparr>condition = c, target_mailbox = mailbox\<rparr>))"

definition Rule_from_mapping :: "(pystr \<Rightarrow> pystr) \<Rightarrow> pyval \<Rightarrow> Rule res" where
  "Rule_from_mapping uni document =
     bind_res (require_mapping document) (\<lambda>mapping.
     bind_res (require_keys mapping {lit ''condition'', lit ''target_mailbox''} {}) (\<lambda>_.
     bind_res (condition_from_mapping uni 1 (py_get mapping (lit ''condition''))) (\<lambda>c.
       mk_Rule c (py_get mapping (lit ''target_mailbox'')))))"

definition Rule_to_mapping :: "Rule \<Rightarrow> pyval" where
  "Rule_to_mapping r =
     PyDict [(PyStr (lit ''condition''), condition_to_mapping (condition r)),
             (PyStr (lit ''target_mailbox''), PyStr (target_mailbox r))]"

section \<open>Compilation and matching\<close>

datatype CompiledCondition =
    CompiledAnd "CompiledCondition list"
  | CompiledOr "CompiledCondition list"
  | CompiledNot CompiledCondition
  | CompiledString StringField StringOperator "pystr option" "pystr option"
  | CompiledNumeric NumericOperator int
  | CompiledBoolean bool

fun compile_condition :: "(pystr \<Rightarrow> pystr) \<Rightarrow> Condition \<Rightarrow> CompiledCondition" where
  "compile_condition uni (AndCondition cs) = CompiledAnd (map (compile_condition uni) cs)"
| "compile_condition uni (OrCondition cs) = CompiledOr (map (compile_condition uni) cs)"
| "compile_condition uni (NotCondition c) = CompiledNot (compile_condition uni c)"
| "compile_condition uni (StringCondition f operator value header) =
     CompiledString f operator (map_option (casefold uni) value) header"
| "compile_condition uni (NumericCondition f operator value) = CompiledNumeric operator value"
| "compile_condition uni (BooleanCondition f operator value) = CompiledBoolean value"

record CompiledRule =
  compiled_from :: Rule
  compiled_condition :: CompiledCondition

definition compile_rule :: "(pystr \<Rightarrow> pystr) \<Rightarrow> Rule \<Rightarrow> CompiledRule res" where
  "compile_rule uni rule =
     bind_res (validate_condition_budget (condition rule)) (\<lambda>_.
       Inr \<lparr>compiled_from = rule, compiled_condition = compile_condition uni (condition rule)\<rparr>)"

definition compile_rules :: "(pystr \<Rightarrow> pystr) \<Rightarrow> Rule list \<Rightarrow> CompiledRule list res" where
  "compile_rules uni rules = traverse (compile_rule uni) rules"

record RuleMessage =
  headers :: "(pystr \<times> pystr) list"
  message_size :: int
  has_attachment :: bool
  envelope_sender :: "pystr option"
  envelope_recipients :: "pystr list"

definition header_values :: "(pystr \<Rightarrow> pystr) \<Rightarrow> RuleMessage \<Rightarrow> pystr \<Rightarrow> pystr list" where
  "header_values uni m name =
     map snd (filter (\<lambda>(key, value). key = casefold uni name) (headers m))"

fun field_header_name :: "StringField \<Rightarrow> pystr option \<Rightarrow> pystr" where
  "field_header_name FROM header = lit ''from''"
| "field_header_name TO header = lit ''to''"
| "field_header_name CC header = lit ''cc''"
| "field_header_name BCC header = lit ''bcc''"
| "field_header_name REPLY_TO header = lit ''reply-to''"
| "field_header_name SUBJECT header = lit ''subject''"
| "field_header_name LIST_ID header = lit ''list-id''"
| "field_header_name HEADER header = (case header of Some h \<Rightarrow> h | None \<Rightarrow> [])"

definition string_values ::
  "(pystr \<Rightarrow> pystr) \<Rightarrow> RuleMessage \<Rightarrow> StringField \<Rightarrow> pystr option \<Rightarrow> pystr list" where
  "string_values uni m field_name header =
     header_values uni m (field_header_name field_name header)
     @ (if field_name = FROM
        then (case envelope_sender m of Some s \<Rightarrow> [s] | None \<Rightarrow> [])
        else if field_name = TO then envelope_recipients m
        else [])"

datatype Truth = FALSE | TRUE | UNKNOWN

definition truth_of :: "bool \<Rightarrow> Truth" where
  "truth_of b = (if b then TRUE else FALSE)"

definition string_matched :: "StringOperator \<Rightarrow> pystr \<Rightarrow> pystr list \<Rightarrow> bool" where
  "string_matched operator value values =
     (case operator of
        EQUALS \<Rightarrow> list_ex (\<lambda>candidate. candidate = value) values
      | NOT_EQUALS \<Rightarrow> list_all (\<lambda>candidate. candidate \<noteq> value) values
      | CONTAINS \<Rightarrow> list_ex (sublist value) values
      | NOT_CONTAINS \<Rightarrow> list_all (\<lambda>candidate. \<not> sublist value candidate) values
      | STARTS_WITH \<Rightarrow> list_ex (prefix value) values
      | ENDS_WITH \<Rightarrow> list_ex (suffix value) values
      | EXISTS \<Rightarrow> False)"

definition string_result ::
  "(pystr \<Rightarrow> pystr) \<Rightarrow> StringField \<Rightarrow> StringOperator \<Rightarrow> pystr option \<Rightarrow> pystr option
     \<Rightarrow> RuleMessage \<Rightarrow> Truth" where
  "string_result uni f operator value header m =
     (let values = string_values uni m f header in
      if operator = EXISTS then truth_of (values \<noteq> [])
      else case value of
        None \<Rightarrow> UNKNOWN
      | Some v \<Rightarrow> if values = [] then UNKNOWN else truth_of (string_matched operator v values))"

definition numeric_result :: "NumericOperator \<Rightarrow> int \<Rightarrow> RuleMessage \<Rightarrow> Truth" where
  "numeric_result operator value m =
     truth_of (case operator of
        EQ \<Rightarrow> message_size m = value
      | LT \<Rightarrow> message_size m < value
      | LTE \<Rightarrow> message_size m \<le> value
      | GT \<Rightarrow> message_size m > value
      | GTE \<Rightarrow> message_size m \<ge> value)"

text \<open>The two short-circuiting loops over the results of the children.\<close>

fun and_loop :: "bool \<Rightarrow> Truth list \<Rightarrow> Truth" where
  "and_loop saw_unknown [] = (if saw_unknown then UNKNOWN else TRUE)"
| "and_loop saw_unknown (r # rs) =
     (if r = FALSE then FALSE else and_loop (saw_unknown \<or> r = UNKNOWN) rs)"

fun or_loop :: "bool \<Rightarrow> Truth list \<Rightarrow> Truth" where
  "or_loop saw_unknown [] = (if saw_unknown then UNKNOWN else FALSE)"
| "or_loop saw_unknown (r # rs) =
     (if r = TRUE then TRUE else or_loop (saw_unknown \<or> r = UNKNOWN) rs)"

fun negate :: "Truth \<Rightarrow> Truth" where
  "negate TRUE = FALSE"
| "negate FALSE = TRUE"
| "negate UNKNOWN = UNKNOWN"

fun evaluate_condition :: "(pystr \<Rightarrow> pystr) \<Rightarrow> CompiledCondition \<Rightarrow> RuleMessage \<Rightarrow> Truth" where
  "evaluate_condition uni (CompiledString f operator value header) m =
     string_result uni f operator value header m"
| "evaluate_condition uni (CompiledNumeric operator value) m = numeric_result operator value m"
| "evaluate_condition uni (CompiledBoolean value) m = truth_of (has_attachment m = value)"
| "evaluate_condition uni (CompiledNot c) m = negate (evaluate_condition uni c m)"
| "evaluate_condition uni (CompiledAnd cs) m =
     and_loop False (map (\<lambda>c. evaluate_condition uni c m) cs)"
| "evaluate_condition uni (CompiledOr cs) m =
     or_loop False (map (\<lambda>c. evaluate_condition uni c m) cs)"

definition matches :: "(pystr \<Rightarrow> pystr) \<Rightarrow> CompiledRule \<Rightarrow> RuleMessage \<Rightarrow> bool" where
  "matches uni r m \<longleftrightarrow> evaluate_condition uni (compiled_condition r) m = TRUE"

fun evaluate_message :: "(pystr \<Rightarrow> pystr) \<Rightarrow> CompiledRule list \<Rightarrow> RuleMessage \<Rightarrow> pystr option" where
  "evaluate_message uni [] m = None"
| "evaluate_message uni (r # rs) m =
     (if matches uni r m then Some (target_mailbox (compiled_from r))
      else evaluate_message uni rs m)"

end
