(* ===== verification/Filing_Rules_Correct.thy ===== *)
theory Filing_Rules_Correct
  imports Filing_Rules
begin

text \<open>
  Correctness of the rule documents and of the matcher of \<open>rules.py\<close>: the parser accepts
  exactly the well-formed conditions within budget and re-reads what the printer wrote, the
  budget loop decides node count and depth, and the compiled matcher computes strong Kleene
  logic over the conditions of the source tree.
\<close>

section \<open>Well-formed conditions\<close>

definition valid_text_value :: "nat \<Rightarrow> nat \<Rightarrow> pystr \<Rightarrow> bool" where
  "valid_text_value maximum_characters maximum_bytes s \<longleftrightarrow>
     s \<noteq> [] \<and> \<not> list_ex is_control_or_surrogate s
     \<and> length s \<le> maximum_characters \<and> utf8_length s \<le> maximum_bytes"

definition valid_header_name :: "pystr \<Rightarrow> bool" where
  "valid_header_name h \<longleftrightarrow>
     valid_text_value MAX_HEADER_NAME_CHARACTERS MAX_HEADER_NAME_CHARACTERS h
     \<and> fullmatch_plus HEADER_NAME_RE h \<and> lower h = h"

fun wf_condition :: "Condition \<Rightarrow> bool" where
  "wf_condition (AndCondition cs) \<longleftrightarrow> cs \<noteq> [] \<and> (\<forall>c \<in> set cs. wf_condition c)"
| "wf_condition (OrCondition cs) \<longleftrightarrow> cs \<noteq> [] \<and> (\<forall>c \<in> set cs. wf_condition c)"
| "wf_condition (NotCondition c) \<longleftrightarrow> wf_condition c"
| "wf_condition (StringCondition f operator value header) \<longleftrightarrow>
     (case header of None \<Rightarrow> f \<noteq> HEADER | Some h \<Rightarrow> f = HEADER \<and> valid_header_name h)
     \<and> (case value of None \<Rightarrow> operator = EXISTS
        | Some v \<Rightarrow> operator \<noteq> EXISTS
            \<and> valid_text_value MAX_RULE_VALUE_CHARACTERS MAX_RULE_VALUE_BYTES v)"
| "wf_condition (NumericCondition f operator n) \<longleftrightarrow> 0 \<le> n \<and> n \<le> 2 ^ 63 - 1"
| "wf_condition (BooleanCondition f operator b) \<longleftrightarrow> True"

definition within_budget :: "Condition \<Rightarrow> bool" where
  "within_budget c \<longleftrightarrow> cond_nodes c \<le> MAX_RULE_NODES \<and> cond_depth c \<le> MAX_RULE_DEPTH"

definition wf_rule :: "Rule \<Rightarrow> bool" where
  "wf_rule r \<longleftrightarrow> wf_condition (condition r) \<and> within_budget (condition r)
     \<and> valid_text_value MAX_TARGET_MAILBOX_CHARACTERS MAX_TARGET_MAILBOX_BYTES (target_mailbox r)
     \<and> strip (target_mailbox r) = target_mailbox r"

lemma validate_text_Inr_iff [res_simps]:
  "validate_text mc mb v = Inr s \<longleftrightarrow> v = PyStr s \<and> valid_text_value mc mb s"
  by (auto simp: validate_text_def valid_text_value_def split: pyval.splits)

lemma header_name_ascii: "fullmatch_plus HEADER_NAME_RE h \<Longrightarrow> isascii h"
  by (auto simp: fullmatch_plus_def HEADER_NAME_RE_def isascii_def list_all_iff char_class_defs
      lit_def)

lemma header_name_re_lower [simp]: "HEADER_NAME_RE (lower_char c) = HEADER_NAME_RE c"
  by (auto simp: HEADER_NAME_RE_def lower_char_def char_class_defs lit_def)

lemma utf8_char_length_lower [simp]: "utf8_char_length (lower_char c) = utf8_char_length c"
  by (simp add: utf8_char_length_def lower_char_def)

lemma control_lower [simp]: "is_control_or_surrogate (lower_char c) = is_control_or_surrogate c"
  by (auto simp: is_control_or_surrogate_def lower_char_def)

lemma valid_text_value_lower [simp]: "valid_text_value mc mb (lower s) = valid_text_value mc mb s"
proof -
  have "utf8_length (lower s) = utf8_length s"
    by (simp add: utf8_length_def lower_def comp_def)
  moreover have "list_ex is_control_or_surrogate (lower s) = list_ex is_control_or_surrogate s"
    by (induction s) (simp_all add: lower_def)
  ultimately show ?thesis by (simp add: valid_text_value_def)
qed

lemma fullmatch_header_lower [simp]:
  "fullmatch_plus HEADER_NAME_RE (lower s) = fullmatch_plus HEADER_NAME_RE s"
  by (simp add: fullmatch_plus_def lower_def list_all_iff)

lemma validate_header_name_valid:
  "validate_header_name uni v = Inr h \<Longrightarrow> valid_header_name h"
  by (auto simp: validate_header_name_def valid_header_name_def res_simps casefold_def
      header_name_ascii split: if_splits)

lemma validate_header_name_id:
  "valid_header_name h \<Longrightarrow> validate_header_name uni (PyStr h) = Inr h"
  by (simp add: validate_header_name_def valid_header_name_def casefold_def header_name_ascii
      validate_text_def valid_text_value_def)

lemma enum_value_id [simp]:
  "enum_value StringField_value StringField_members (PyStr (StringField_value f)) = Inr f"
  "enum_value StringOperator_value StringOperator_members (PyStr (StringOperator_value sop)) = Inr sop"
  "enum_value NumericField_value [SIZE] (PyStr (NumericField_value nf)) = Inr nf"
  "enum_value NumericOperator_value NumericOperator_members (PyStr (NumericOperator_value nop)) = Inr nop"
  "enum_value BooleanField_value [HAS_ATTACHMENT] (PyStr (BooleanField_value bf)) = Inr bf"
  "enum_value BooleanOperator_value [BOOL_EQ] (PyStr (BooleanOperator_value bop)) = Inr bop"
       apply (cases f; simp add: enum_value_def StringField_members_def)
      apply (cases sop; simp add: enum_value_def StringOperator_members_def)
     apply (cases nf; simp add: enum_value_def)
    apply (cases nop; simp add: enum_value_def NumericOperator_members_def)
   apply (cases bf; simp add: enum_value_def)
  apply (cases bop; simp add: enum_value_def)
  done

lemmas enum_value_literal [simp] =
  enum_value_id(1) [of HEADER, simplified StringField_value.simps]
  enum_value_id(2) [of EXISTS, simplified StringOperator_value.simps]
  enum_value_id(3) [of SIZE, simplified NumericField_value.simps]
  enum_value_id(5) [of HAS_ATTACHMENT, simplified BooleanField_value.simps]
  enum_value_id(6) [of BOOL_EQ, simplified BooleanOperator_value.simps]

section \<open>The parser and the printer\<close>

lemma budgeted_Inr_iff:
  "bind_res (validate_condition_budget c) (\<lambda>_. Inr c) = Inr c' \<longleftrightarrow> c' = c \<and> within_budget c"
  using validate_condition_budget_iff [of c] by (auto simp: res_simps within_budget_def)

lemma mk_StringCondition_wf:
  "mk_StringCondition uni f sop v h = Inr c \<Longrightarrow> wf_condition c"
  by (auto simp: mk_StringCondition_def res_simps map_sum_def split: if_splits sum.splits
      dest: validate_header_name_valid)

lemma mk_NumericCondition_wf: "mk_NumericCondition f nop v = Inr c \<Longrightarrow> wf_condition c"
  by (cases v) (auto simp: mk_NumericCondition_def res_simps split: if_splits)

lemma mk_BooleanCondition_wf: "mk_BooleanCondition f bop v = Inr c \<Longrightarrow> wf_condition c"
  by (cases v) (auto simp: mk_BooleanCondition_def res_simps split: if_splits)

lemma parse_test_condition_valid:
  assumes "parse_test_condition uni mapping = Inr c"
  shows "wf_condition c \<and> within_budget c"
proof -
  from assms have "within_budget c"
    by (auto simp: parse_test_condition_def Let_def bind_res_Inr_iff [of "if _ then _ else _"]
        budgeted_Inr_iff)
  moreover from assms have "wf_condition c"
    unfolding parse_test_condition_def Let_def bind_res_Inr_iff [of "if _ then _ else _"]
      budgeted_Inr_iff
    by (auto simp: res_simps split: if_splits
        dest: mk_StringCondition_wf mk_NumericCondition_wf mk_BooleanCondition_wf)
  ultimately show ?thesis by simp
qed

lemma condition_from_mapping_cases:
  assumes "condition_from_mapping uni depth document = Inr c"
  obtains
    (test) mapping where "\<not> depth > MAX_RULE_DEPTH" "require_mapping document = Inr mapping"
      "map_of mapping (lit ''op'') = None" "parse_test_condition uni mapping = Inr c"
  | (logical) mapping operation children parsed where
      "\<not> depth > MAX_RULE_DEPTH" "require_mapping document = Inr mapping"
      "map_of mapping (lit ''op'') = Some (PyStr operation)"
      "operation = lit ''and'' \<or> operation = lit ''or''"
      "require_keys mapping {lit ''op'', lit ''conditions''} {} = Inr ()"
      "as_sequence (py_get mapping (lit ''conditions'')) = Some children"
      "\<not> length children > MAX_RULE_NODES"
      "traverse (condition_from_mapping uni (depth + 1)) children = Inr parsed"
      "c = AndCondition parsed \<or> c = OrCondition parsed" "parsed \<noteq> []" "within_budget c"
  | (negation) mapping child where
      "\<not> depth > MAX_RULE_DEPTH" "require_mapping document = Inr mapping"
      "map_of mapping (lit ''op'') = Some (PyStr (lit ''not''))"
      "require_keys mapping {lit ''op'', lit ''condition''} {} = Inr ()"
      "condition_from_mapping uni (depth + 1) (py_get mapping (lit ''condition'')) = Inr child"
      "c = NotCondition child" "within_budget c"
proof -
  from assms obtain mapping where d: "\<not> depth > MAX_RULE_DEPTH"
      and m: "require_mapping document = Inr mapping"
    by (subst (asm) condition_from_mapping.simps) (auto simp: res_simps split: if_splits)
  show thesis
  proof (cases "map_of mapping (lit ''op'')")
    case None
    with assms d m test show thesis
      by (subst (asm) condition_from_mapping.simps) simp
  next
    case (Some v)
    then obtain operation where v: "v = PyStr operation"
      using assms d m by (subst (asm) condition_from_mapping.simps) (cases v; simp)
    have eq: "condition_from_mapping uni depth document = Inr c"
      by (rule assms)
    show thesis
    proof (cases "operation = lit ''and'' \<or> operation = lit ''or''")
      case True
      with eq d m Some v obtain children parsed where
        "require_keys mapping {lit ''op'', lit ''conditions''} {} = Inr ()"
        "as_sequence (py_get mapping (lit ''conditions'')) = Some children"
        "\<not> length children > MAX_RULE_NODES"
        "traverse (condition_from_mapping uni (depth + 1)) children = Inr parsed"
        "bind_res (if operation = lit ''and'' then mk_AndCondition parsed
                   else mk_OrCondition parsed) (\<lambda>condition.
           bind_res (validate_condition_budget condition) (\<lambda>_. Inr condition)) = Inr c"
        by (subst (asm) condition_from_mapping.simps)
          (auto simp: bind_res_Inr_iff [of "require_keys _ _ _"] bind_res_Inr_iff [of "traverse _ _"]
            split: option.splits if_splits)
      moreover from this(5) have "c = AndCondition parsed \<or> c = OrCondition parsed" "parsed \<noteq> []"
          "within_budget c"
        by (auto simp: bind_res_Inr_iff [of "if _ then _ else _"] budgeted_Inr_iff mk_AndCondition_def
            mk_OrCondition_def split: if_splits)
      ultimately show thesis using logical d m Some v True by blast
    next
      case False
      with eq d m Some v obtain child where
        "operation = lit ''not''"
        "require_keys mapping {lit ''op'', lit ''condition''} {} = Inr ()"
        "condition_from_mapping uni (depth + 1) (py_get mapping (lit ''condition'')) = Inr child"
        "c = NotCondition child" "within_budget c"
        by (subst (asm) condition_from_mapping.simps)
          (auto simp: bind_res_Inr_iff [of "require_keys _ _ _"]
            bind_res_Inr_iff [of "condition_from_mapping _ _ _"] budgeted_Inr_iff split: if_splits)
      then show thesis using negation d m Some v by blast
    qed
  qed
qed

lemma condition_from_mapping_budget:
  "condition_from_mapping uni depth d = Inr c \<Longrightarrow> within_budget c"
  by (erule condition_from_mapping_cases) (simp_all add: parse_test_condition_valid)

lemma condition_from_mapping_wf:
  "condition_from_mapping uni depth d = Inr c \<Longrightarrow> wf_condition c"
proof (induction uni depth d arbitrary: c rule: condition_from_mapping.induct)
  case (1 uni depth document)
  from "1.prems" show ?case
  proof (cases rule: condition_from_mapping_cases)
    case test
    then show ?thesis by (simp add: parse_test_condition_valid)
  next
    case (logical mapping operation children parsed)
    have "wf_condition p" if "p \<in> set parsed" for p
    proof -
      from logical(8) have "list_all2 (\<lambda>x y. condition_from_mapping uni (depth + 1) x = Inr y) children parsed"
        by (simp add: traverse_Inr_iff)
      with that obtain d where "d \<in> set children" "condition_from_mapping uni (depth + 1) d = Inr p"
        by (fastforce simp: list_all2_conv_all_nth in_set_conv_nth)
      then show ?thesis using "1.IH"(1) logical by blast
    qed
    with logical show ?thesis by auto
  next
    case (negation mapping child)
    have "lit ''not'' \<noteq> lit ''and'' \<and> lit ''not'' \<noteq> lit ''or''" by simp
    then have "wf_condition child" using "1.IH"(2) negation by blast
    with negation show ?thesis by simp
  qed
qed

lemma validate_text_id:
  "valid_text_value mc mb s \<Longrightarrow> validate_text mc mb (PyStr s) = Inr s"
  by (simp add: res_simps)

lemma string_condition_roundtrip:
  "wf_condition (StringCondition f sop value header) \<Longrightarrow>
     parse_test_condition uni
       ([(lit ''field'', PyStr (StringField_value f)),
         (lit ''operator'', PyStr (StringOperator_value sop))]
        @ (case header of None \<Rightarrow> [] | Some h \<Rightarrow> [(lit ''header'', PyStr h)])
        @ (case value of None \<Rightarrow> [] | Some v \<Rightarrow> [(lit ''value'', PyStr v)]))
     = Inr (StringCondition f sop value header)"
proof -
  assume wf: "wf_condition (StringCondition f sop value header)"
  have b: "validate_condition_budget (StringCondition f sop value header) = Inr ()"
    by (simp add: validate_condition_budget_iff rule_limits)
  have f: "PyStr (StringField_value f) \<in> set (map (PyStr \<circ> StringField_value) StringField_members)"
    by (cases f) (simp_all add: StringField_members_def)
  show ?thesis
    using wf b f
    by (cases header; cases "value")
      (simp_all add: parse_test_condition_def Let_def py_get_def require_keys_def
        mk_StringCondition_def validate_header_name_id validate_text_id insert_commute del: set_map)
qed

lemma keys_as_text_string_items:
  "keys_as_text
     ([(PyStr a, x), (PyStr b, y)] @ (case header of None \<Rightarrow> [] | Some h \<Rightarrow> [(PyStr c, PyStr h)])
       @ (case value of None \<Rightarrow> [] | Some v \<Rightarrow> [(PyStr d, PyStr v)]))
   = Some ([(a, x), (b, y)] @ (case header of None \<Rightarrow> [] | Some h \<Rightarrow> [(c, PyStr h)])
       @ (case value of None \<Rightarrow> [] | Some v \<Rightarrow> [(d, PyStr v)]))"
  by (cases header; cases "value") auto

lemma sum_list_member_le: "x \<in> set xs \<Longrightarrow> f x \<le> sum_list (map f xs)" for f :: "'a \<Rightarrow> nat"
  by (simp add: member_le_sum_list)

lemma length_le_sum_nodes: "length cs \<le> sum_list (map cond_nodes cs)"
proof (induction cs)
  case Nil
  show ?case by simp
next
  case (Cons c cs)
  have "1 \<le> cond_nodes c" using cond_nodes_pos [of c] by linarith
  with Cons show ?case by simp
qed

lemma and_or_roundtrip_aux:
  assumes "cond_nodes (AndCondition cs) \<le> MAX_RULE_NODES"
    and "depth + cond_depth (AndCondition cs) \<le> MAX_RULE_DEPTH + 1" and "c \<in> set cs"
  shows "cond_nodes c \<le> MAX_RULE_NODES" "depth + 1 + cond_depth c \<le> MAX_RULE_DEPTH + 1"
    "length cs \<le> MAX_RULE_NODES"
proof -
  from assms(1) have sum: "sum_list (map cond_nodes cs) \<le> MAX_RULE_NODES" by simp
  with sum_list_member_le [OF assms(3), of cond_nodes] show "cond_nodes c \<le> MAX_RULE_NODES"
    by linarith
  have "cond_depth c \<le> foldr max (map cond_depth cs) 0"
    using assms(3) by (intro foldr_max_ge) simp
  with assms(2) show "depth + 1 + cond_depth c \<le> MAX_RULE_DEPTH + 1" by simp
  from sum length_le_sum_nodes [of cs] show "length cs \<le> MAX_RULE_NODES" by linarith
qed

lemma logical_roundtrip:
  assumes "cs \<noteq> []" "1 \<le> depth" "operation = lit ''and'' \<or> operation = lit ''or''"
    and "c = (if operation = lit ''and'' then AndCondition cs else OrCondition cs)"
    and "cond_nodes c \<le> MAX_RULE_NODES" "depth + cond_depth c \<le> MAX_RULE_DEPTH + 1"
    and IH: "\<And>k. k \<in> set cs \<Longrightarrow> cond_nodes k \<le> MAX_RULE_NODES \<Longrightarrow>
      depth + 1 + cond_depth k \<le> MAX_RULE_DEPTH + 1 \<Longrightarrow>
      condition_from_mapping uni (depth + 1) (condition_to_mapping k) = Inr k"
  shows "condition_from_mapping uni depth
    (PyDict [(PyStr (lit ''conditions''), PyList (map condition_to_mapping cs)),
             (PyStr (lit ''op''), PyStr operation)]) = Inr c"
proof -
  have n: "cond_nodes (AndCondition cs) \<le> MAX_RULE_NODES"
      "depth + cond_depth (AndCondition cs) \<le> MAX_RULE_DEPTH + 1"
    using assms(3-6) by (auto split: if_splits)
  have "condition_from_mapping uni (depth + 1) (condition_to_mapping k) = Inr k"
    if "k \<in> set cs" for k
    using IH [OF that] and_or_roundtrip_aux [OF n that] by simp
  then have tr: "traverse (condition_from_mapping uni (depth + 1)) (map condition_to_mapping cs) = Inr cs"
    by (auto simp: traverse_Inr_iff list_all2_conv_all_nth)
  have len: "length cs \<le> MAX_RULE_NODES"
    using and_or_roundtrip_aux(3) [OF n] assms(1) by (cases cs) auto
  have "cond_depth c \<le> MAX_RULE_DEPTH" using assms(2,6) by linarith
  with assms(5) have b: "validate_condition_budget c = Inr ()"
    by (simp add: validate_condition_budget_iff)
  have "cond_depth c > 0" by (cases c) auto
  then have d: "\<not> depth > MAX_RULE_DEPTH" using assms(6) by linarith
  have mk: "(if operation = lit ''and'' then mk_AndCondition cs else mk_OrCondition cs) = Inr c"
    using assms(1,3,4) by (auto simp: mk_AndCondition_def mk_OrCondition_def)
  show ?thesis
    using assms(3) tr len b d mk
    by (subst condition_from_mapping.simps)
      (auto simp: require_mapping_def py_get_def require_keys_def)
qed

lemma condition_roundtrip:
  "wf_condition c \<Longrightarrow> 1 \<le> depth \<Longrightarrow> cond_nodes c \<le> MAX_RULE_NODES \<Longrightarrow>
     depth + cond_depth c \<le> MAX_RULE_DEPTH + 1 \<Longrightarrow>
     condition_from_mapping uni depth (condition_to_mapping c) = Inr c"
proof (induction c arbitrary: depth)
  case (AndCondition cs)
  show ?case
    unfolding condition_to_mapping.simps
    by (rule logical_roundtrip) (use AndCondition in auto)
next
  case (OrCondition cs)
  show ?case
    unfolding condition_to_mapping.simps
    by (rule logical_roundtrip) (use OrCondition in auto)
next
  case (NotCondition c)
  have "condition_from_mapping uni (depth + 1) (condition_to_mapping c) = Inr c"
    using NotCondition by auto
  moreover have "validate_condition_budget (NotCondition c) = Inr ()"
    using NotCondition.prems by (auto simp: validate_condition_budget_iff)
  ultimately show ?case
    using NotCondition.prems
    by (subst condition_from_mapping.simps)
      (simp add: require_mapping_def py_get_def require_keys_def insert_commute)
next
  case (StringCondition f sop v h)
  then show ?case
    using string_condition_roundtrip [of f sop v h uni]
    by (subst condition_from_mapping.simps)
      (cases h; cases v; simp add: require_mapping_def)
next
  case (NumericCondition f nop n)
  have "validate_condition_budget (NumericCondition f nop n) = Inr ()"
    by (simp add: validate_condition_budget_iff rule_limits)
  with NumericCondition show ?case
    by (subst condition_from_mapping.simps, cases f)
      (simp add: require_mapping_def parse_test_condition_def Let_def py_get_def require_keys_def
        mk_NumericCondition_def StringField_members_def)
next
  case (BooleanCondition f bop b)
  have "validate_condition_budget (BooleanCondition f bop b) = Inr ()"
    by (simp add: validate_condition_budget_iff rule_limits)
  with BooleanCondition show ?case
    by (subst condition_from_mapping.simps, cases f, cases bop)
      (simp add: require_mapping_def parse_test_condition_def Let_def py_get_def require_keys_def
        mk_BooleanCondition_def StringField_members_def)
qed

section \<open>The rule documents as a codec\<close>

interpretation condition_codec: codec "condition_from_mapping uni 1" condition_to_mapping
  "\<lambda>c. wf_condition c \<and> within_budget c"
  by unfold_locales
    (auto simp: condition_roundtrip within_budget_def condition_from_mapping_wf
      dest: condition_from_mapping_budget)

lemma Rule_roundtrip: "wf_rule r \<Longrightarrow> Rule_from_mapping uni (Rule_to_mapping r) = Inr r"
proof -
  assume wf: "wf_rule r"
  then have "condition_from_mapping uni 1 (condition_to_mapping (condition r)) = Inr (condition r)"
    by (intro condition_codec.parse_print) (simp add: wf_rule_def)
  moreover from wf have "validate_condition_budget (condition r) = Inr ()"
    by (simp add: validate_condition_budget_iff wf_rule_def within_budget_def)
  moreover from wf have "validate_target_mailbox (PyStr (target_mailbox r)) = Inr (target_mailbox r)"
    by (simp add: validate_target_mailbox_def wf_rule_def validate_text_id)
  ultimately show ?thesis
    by (simp add: Rule_from_mapping_def Rule_to_mapping_def require_mapping_def py_get_def
        require_keys_def mk_Rule_def)
qed

lemma Rule_from_mapping_wf: "Rule_from_mapping uni d = Inr r \<Longrightarrow> wf_rule r"
  by (auto simp: Rule_from_mapping_def mk_Rule_def validate_target_mailbox_def wf_rule_def res_simps
      condition_from_mapping_wf condition_from_mapping_budget split: if_splits)

interpretation rule_codec: codec "Rule_from_mapping uni" Rule_to_mapping wf_rule
  by unfold_locales (rule Rule_roundtrip, assumption, rule Rule_from_mapping_wf)

section \<open>Strong Kleene logic\<close>

text \<open>The truth values in their logical order, \<open>FALSE < UNKNOWN < TRUE\<close>.\<close>

fun truth_rank :: "Truth \<Rightarrow> nat" where
  "truth_rank FALSE = 0"
| "truth_rank UNKNOWN = 1"
| "truth_rank TRUE = 2"

lemma truth_rank_inj: "truth_rank a = truth_rank b \<longleftrightarrow> a = b"
  by (cases a; cases b) auto

instantiation Truth :: linorder
begin

definition less_eq_Truth :: "Truth \<Rightarrow> Truth \<Rightarrow> bool" where
  "less_eq_Truth a b \<longleftrightarrow> truth_rank a \<le> truth_rank b"

definition less_Truth :: "Truth \<Rightarrow> Truth \<Rightarrow> bool" where
  "less_Truth a b \<longleftrightarrow> truth_rank a < truth_rank b"

instance
  by standard (auto simp: less_eq_Truth_def less_Truth_def truth_rank_inj)

end

lemma truth_le_simps [simp]:
  "FALSE \<le> a" "a \<le> TRUE" "a \<le> FALSE \<longleftrightarrow> a = FALSE" "TRUE \<le> a \<longleftrightarrow> a = TRUE"
  "UNKNOWN \<le> a \<longleftrightarrow> a \<noteq> FALSE" "a \<le> UNKNOWN \<longleftrightarrow> a \<noteq> TRUE"
  by (cases a; simp add: less_eq_Truth_def)+

lemma foldr_shift:
  "min r (foldr min rs z) = foldr min rs (min r z)"
  "max r (foldr max rs z) = foldr max rs (max r z)" for r :: "'a::linorder"
  by (induction rs) (simp_all add: min.left_commute max.left_commute)

lemma and_loop_min: "and_loop b rs = foldr min rs (if b then UNKNOWN else TRUE)"
proof (induction b rs rule: and_loop.induct)
  case (2 b r rs)
  have "foldr min rs FALSE = FALSE" by (induction rs) (simp_all add: min_def)
  with 2 show ?case
    by (cases r; cases b; simp add: foldr_shift; simp add: min_def)
qed simp

lemma or_loop_max: "or_loop b rs = foldr max rs (if b then UNKNOWN else FALSE)"
proof (induction b rs rule: or_loop.induct)
  case (2 b r rs)
  have "foldr max rs TRUE = TRUE" by (induction rs) (simp_all add: max_def)
  with 2 show ?case
    by (cases r; cases b; simp add: foldr_shift; simp add: max_def)
qed simp

lemma negate_antimono: "negate (min a b) = max (negate a) (negate b)"
    "negate (max a b) = min (negate a) (negate b)"
  by (cases a; cases b; simp add: min_def max_def)+

text \<open>
  The reference semantics: each test as a statement about the set of candidate values of the
  source condition, the connectives as infimum, supremum and reflection of the truth order.
\<close>

fun test_holds :: "StringOperator \<Rightarrow> pystr \<Rightarrow> pystr set \<Rightarrow> bool" where
  "test_holds EQUALS v V \<longleftrightarrow> v \<in> V"
| "test_holds NOT_EQUALS v V \<longleftrightarrow> v \<notin> V"
| "test_holds CONTAINS v V \<longleftrightarrow> (\<exists>w \<in> V. sublist v w)"
| "test_holds NOT_CONTAINS v V \<longleftrightarrow> \<not> (\<exists>w \<in> V. sublist v w)"
| "test_holds STARTS_WITH v V \<longleftrightarrow> (\<exists>w \<in> V. prefix v w)"
| "test_holds ENDS_WITH v V \<longleftrightarrow> (\<exists>w \<in> V. suffix v w)"
| "test_holds EXISTS v V \<longleftrightarrow> V \<noteq> {}"

fun size_holds :: "NumericOperator \<Rightarrow> int \<Rightarrow> int \<Rightarrow> bool" where
  "size_holds EQ n k \<longleftrightarrow> n = k"
| "size_holds LT n k \<longleftrightarrow> n < k"
| "size_holds LTE n k \<longleftrightarrow> n < k \<or> n = k"
| "size_holds GT n k \<longleftrightarrow> \<not> (n < k \<or> n = k)"
| "size_holds GTE n k \<longleftrightarrow> \<not> n < k"

fun kleene :: "(pystr \<Rightarrow> pystr) \<Rightarrow> RuleMessage \<Rightarrow> Condition \<Rightarrow> Truth" where
  "kleene uni m (AndCondition cs) = foldr min (map (kleene uni m) cs) TRUE"
| "kleene uni m (OrCondition cs) = foldr max (map (kleene uni m) cs) FALSE"
| "kleene uni m (NotCondition c) = negate (kleene uni m c)"
| "kleene uni m (StringCondition f sop v h) =
     (let V = set (string_values uni m f h) in
      case v of
        None \<Rightarrow> if sop = EXISTS then truth_of (V \<noteq> {}) else UNKNOWN
      | Some t \<Rightarrow> if sop = EXISTS then truth_of (V \<noteq> {})
                  else if V = {} then UNKNOWN
                  else truth_of (test_holds sop (casefold uni t) V))"
| "kleene uni m (NumericCondition f nop n) = truth_of (size_holds nop (message_size m) n)"
| "kleene uni m (BooleanCondition f bop b) = truth_of (has_attachment m \<longleftrightarrow> b)"

lemma string_matched_set:
  "sop \<noteq> EXISTS \<Longrightarrow> string_matched sop v vs = test_holds sop v (set vs)"
  by (cases sop) (auto simp: string_matched_def list_ex_iff list_all_iff)

lemma evaluate_compile: "evaluate_condition uni (compile_condition uni c) m = kleene uni m c"
proof (induction c)
  case (AndCondition cs)
  then have "map (\<lambda>c. evaluate_condition uni c m) (map (compile_condition uni) cs) = map (kleene uni m) cs"
    by simp
  then show ?case by (simp add: and_loop_min del: map_map)
next
  case (OrCondition cs)
  then have "map (\<lambda>c. evaluate_condition uni c m) (map (compile_condition uni) cs) = map (kleene uni m) cs"
    by simp
  then show ?case by (simp add: or_loop_max del: map_map)
next
  case (StringCondition f sop v h)
  show ?case
    by (cases v) (auto simp: string_result_def string_matched_set Let_def)
next
  case (NumericCondition f nop n)
  show ?case by (cases nop) (auto simp: numeric_result_def truth_of_def)
qed simp_all

section \<open>Properties\<close>

text \<open>
  C14. The compiled matcher computes the three-valued meaning of the source condition: for
  every condition tree and every message, evaluating the compiled tree gives the strong Kleene
  value of the tree, in which a conjunction is the infimum and a disjunction the supremum of
  the values of its children, a test on a missing value is unknown, and comparisons are made
  against the case-folded operand.
\<close>

theorem matcher_is_kleene:
  "compile_rule uni r = Inr cr \<Longrightarrow>
     matches uni cr m \<longleftrightarrow> kleene uni m (condition r) = TRUE"
  by (auto simp: compile_rule_def matches_def evaluate_compile res_simps)

text \<open>Witness: a rule on a missing header under negation stays unmatched.\<close>

definition sample_rule :: Rule where
  "sample_rule = \<lparr>condition = NotCondition (AndCondition
       [StringCondition SUBJECT CONTAINS (Some (lit ''Report'')) None,
        NumericCondition SIZE LT 100]),
     target_mailbox = lit ''Filed''\<rparr>"

definition sample_message :: RuleMessage where
  "sample_message = \<lparr>headers = [(lit ''subject'', lit ''weekly report'')], message_size = 200,
     has_attachment = False, envelope_sender = None, envelope_recipients = []\<rparr>"

theorem matcher_is_kleene_witness:
  "matches id \<lparr>compiled_from = sample_rule,
      compiled_condition = compile_condition id (condition sample_rule)\<rparr> sample_message
     \<longleftrightarrow> kleene id sample_message (condition sample_rule) = TRUE"
proof (rule matcher_is_kleene)
  have "validate_condition_budget (condition sample_rule) = Inr ()"
    by (simp add: validate_condition_budget_iff sample_rule_def rule_limits)
  then show "compile_rule id sample_rule = Inr \<lparr>compiled_from = sample_rule,
      compiled_condition = compile_condition id (condition sample_rule)\<rparr>"
    by (simp add: compile_rule_def)
qed

text \<open>
  C15. The strict parser and the printer of conditions are inverse: what \<open>condition_to_mapping\<close>
  prints for an accepted condition is parsed back to that condition, and every parsed
  condition is well-formed and within the node and depth budget.
\<close>

theorem condition_document_roundtrip:
  "condition_from_mapping uni 1 d = Inr c \<Longrightarrow>
     condition_from_mapping uni 1 (condition_to_mapping c) = Inr c
     \<and> wf_condition c \<and> cond_nodes c \<le> 100 \<and> cond_depth c \<le> 8"
proof -
  assume p: "condition_from_mapping uni 1 d = Inr c"
  have "wf_condition c \<and> within_budget c" by (rule condition_codec.parse_valid [OF p])
  then show ?thesis
    using condition_codec.reparse [OF p] by (simp add: within_budget_def rule_limits)
qed

text \<open>Witness: a header test whose header name is given in mixed case.\<close>

theorem condition_document_roundtrip_witness:
  "condition_from_mapping id 1
      (condition_to_mapping (StringCondition HEADER EXISTS None (Some (lit ''x-tag'')))) =
    Inr (StringCondition HEADER EXISTS None (Some (lit ''x-tag'')))"
proof -
  have "validate_header_name id (PyStr (lit ''X-Tag'')) = Inr (lit ''x-tag'')"
    by (simp add: validate_header_name_def validate_text_def casefold_def HEADER_NAME_RE_def
        is_control_or_surrogate_def utf8_length_def utf8_char_length_def rule_limits text_eval)
  moreover have mem: "PyStr (lit ''header'') \<in> set (map (\<lambda>f. PyStr (StringField_value f)) StringField_members)"
    by (simp add: StringField_members_def)
  moreover have "validate_condition_budget
      (StringCondition HEADER EXISTS None (Some (lit ''x-tag''))) = Inr ()"
    by (simp add: validate_condition_budget_iff rule_limits)
  ultimately have "condition_from_mapping id 1
      (PyDict [(PyStr (lit ''field''), PyStr (lit ''header'')),
               (PyStr (lit ''operator''), PyStr (lit ''exists'')),
               (PyStr (lit ''header''), PyStr (lit ''X-Tag''))]) =
      Inr (StringCondition HEADER EXISTS None (Some (lit ''x-tag'')))"
    by (subst condition_from_mapping.simps)
      (simp add: require_mapping_def parse_test_condition_def Let_def py_get_def require_keys_def
        mk_StringCondition_def rule_limits mem)
  from condition_document_roundtrip [OF this] show ?thesis by simp
qed

text \<open>
  The explicit-stack budget check decides the budget: it accepts a condition exactly when
  the tree has at most 100 nodes and is at most 8 levels deep, and otherwise raises
  \<open>RuleValidationError\<close>.
\<close>

lemma budget_decides:
  "validate_condition_budget c =
     (if cond_nodes c \<le> 100 \<and> cond_depth c \<le> 8 then Inr () else Inl RuleValidationError)"
  using validate_condition_budget_iff [of c] validate_condition_budget_cases [of c]
  by (auto simp: rule_limits)

text \<open>
  Rules are tried in their order and the first match wins: \<open>evaluate_message\<close> returns the
  target of the first rule that matches, and nothing when none does.
\<close>

lemma evaluate_message_first_match:
  "(evaluate_message uni rs m = Some t \<longleftrightarrow>
      (\<exists>i < length rs. matches uni (rs ! i) m \<and> target_mailbox (compiled_from (rs ! i)) = t
         \<and> (\<forall>j < i. \<not> matches uni (rs ! j) m)))
   \<and> (evaluate_message uni rs m = None \<longleftrightarrow> (\<forall>r \<in> set rs. \<not> matches uni r m))"
proof (induction rs)
  case Nil
  show ?case by simp
next
  case (Cons r rs)
  show ?case
  proof (cases "matches uni r m")
    case True
    then show ?thesis by (fastforce simp: nth_Cons split: nat.splits)
  next
    case False
    have "(\<exists>i < length (r # rs). matches uni ((r # rs) ! i) m
          \<and> target_mailbox (compiled_from ((r # rs) ! i)) = t \<and> (\<forall>j < i. \<not> matches uni ((r # rs) ! j) m))
      \<longleftrightarrow> (\<exists>i < length rs. matches uni (rs ! i) m
          \<and> target_mailbox (compiled_from (rs ! i)) = t \<and> (\<forall>j < i. \<not> matches uni (rs ! j) m))"
      using False by (simp add: Ex_less_Suc2 All_less_Suc2)
    with False Cons show ?thesis by simp
  qed
qed

text \<open>Witness: a size rule that does not match, then one that does.\<close>

definition size_rule :: "NumericOperator \<Rightarrow> int \<Rightarrow> string \<Rightarrow> CompiledRule" where
  "size_rule nop n t = \<lparr>compiled_from = \<lparr>condition = NumericCondition SIZE nop n,
      target_mailbox = lit t\<rparr>,
     compiled_condition = compile_condition id (NumericCondition SIZE nop n)\<rparr>"

lemma evaluate_message_first_match_example:
  "evaluate_message id [size_rule LT 100 ''Small'', size_rule GT 100 ''Large''] sample_message
     = Some (lit ''Large'')"
  by (rule evaluate_message_first_match [THEN conjunct1, THEN iffD2], rule exI [of _ 1])
    (simp add: size_rule_def sample_message_def matches_def numeric_result_def truth_of_def)

text \<open>
  De Morgan's law holds for matching, so rewriting a negated group does not change where a
  message is filed: the negation of a conjunction and the disjunction of the negations match
  exactly the same messages, and dually.
\<close>

lemma matcher_de_morgan:
  "evaluate_condition uni (compile_condition uni (NotCondition (AndCondition cs))) m =
     evaluate_condition uni (compile_condition uni (OrCondition (map NotCondition cs))) m
   \<and> evaluate_condition uni (compile_condition uni (NotCondition (OrCondition cs))) m =
     evaluate_condition uni (compile_condition uni (AndCondition (map NotCondition cs))) m"
proof -
  have "negate (foldr min ts TRUE) = foldr max (map negate ts) FALSE"
    and "negate (foldr max ts FALSE) = foldr min (map negate ts) TRUE" for ts
    by (induction ts) (simp_all add: negate_antimono)
  then show ?thesis
    by (simp add: evaluate_compile comp_def and_loop_min or_loop_max)
qed

end
