(* ===== verification/Binary_Text.thy ===== *)
theory Binary_Text
  imports Prelude
begin

text \<open>
  The binary-to-text encodings \<open>auth.py\<close> takes from the standard library: \<open>bytes.hex\<close> and
  \<open>bytes.fromhex\<close>, \<open>base64.b32encode\<close> and \<open>b32decode\<close>, \<open>base64.urlsafe_b64encode\<close> and \<open>b64decode\<close>,
  and the big-endian integers of \<open>struct\<close>. All encodings go through the list of bits, most
  significant first; the lemmas at the end invert them.
\<close>

section \<open>Bits\<close>

fun to_bits :: "nat \<Rightarrow> nat \<Rightarrow> bool list" where
  "to_bits 0 v = []"
| "to_bits (Suc n) v = to_bits n (v div 2) @ [odd v]"

definition of_bits :: "bool list \<Rightarrow> nat" where
  "of_bits bs = foldl (\<lambda>a b. 2 * a + of_bool b) 0 bs"

function chunks :: "nat \<Rightarrow> 'a list \<Rightarrow> 'a list list" where
  "chunks n xs = (if n = 0 \<or> xs = [] then [] else take n xs # chunks n (drop n xs))"
  by auto
termination by (relation "measure (length \<circ> snd)") auto

declare chunks.simps [simp del]

definition byte_bits :: "bytes \<Rightarrow> bool list" where
  "byte_bits bs = concat (map (\<lambda>w. to_bits 8 (unat w)) bs)"

definition bits_byte :: "bool list \<Rightarrow> bytes" where
  "bits_byte bs = map (\<lambda>c. of_nat (of_bits c)) (chunks 8 (take (8 * (length bs div 8)) bs))"

section \<open>Alphabets\<close>

text \<open>
  Encoding in groups of \<open>n\<close> bits, the last one filled with zeros; decoding drops the bits that
  do not fill a byte. The padding characters are not part of the encoded text here, as the
  callers strip or append them.
\<close>

definition encode_digits :: "nat \<Rightarrow> pystr \<Rightarrow> bytes \<Rightarrow> pystr" where
  "encode_digits n alphabet bs =
     (let bits = byte_bits bs;
          fill = (n - length bits mod n) mod n
      in map (\<lambda>c. alphabet ! of_bits c) (chunks n (bits @ replicate fill False)))"

fun digit_value :: "pystr \<Rightarrow> nat \<Rightarrow> nat option" where
  "digit_value [] c = None"
| "digit_value (a # as) c = (if a = c then Some 0 else map_option Suc (digit_value as c))"

definition decode_digits :: "nat \<Rightarrow> pystr \<Rightarrow> pystr \<Rightarrow> bytes option" where
  "decode_digits n alphabet s =
     map_option (\<lambda>vs. bits_byte (concat (map (to_bits n) vs)))
       (those (map (digit_value alphabet) s))"

definition ascii_upper :: pystr where "ascii_upper = [65..<91]"
definition ascii_lower :: pystr where "ascii_lower = [97..<123]"

definition hex_alphabet :: pystr where "hex_alphabet = [48..<58] @ [97..<103]"
definition base32_alphabet :: pystr where "base32_alphabet = ascii_upper @ [50..<56]"
definition base64url_alphabet :: pystr where
  "base64url_alphabet = ascii_upper @ ascii_lower @ [48..<58] @ [45, 95]"

definition hex :: "bytes \<Rightarrow> pystr" where "hex = encode_digits 4 hex_alphabet"
definition fromhex :: "pystr \<Rightarrow> bytes option" where "fromhex = decode_digits 4 hex_alphabet"
definition b32encode :: "bytes \<Rightarrow> pystr" where "b32encode = encode_digits 5 base32_alphabet"
definition b32decode :: "pystr \<Rightarrow> bytes option" where "b32decode = decode_digits 5 base32_alphabet"
definition urlsafe_b64encode :: "bytes \<Rightarrow> pystr" where
  "urlsafe_b64encode = encode_digits 6 base64url_alphabet"
definition urlsafe_b64decode :: "pystr \<Rightarrow> bytes option" where
  "urlsafe_b64decode = decode_digits 6 base64url_alphabet"

lemmas alphabet_defs = hex_alphabet_def base32_alphabet_def base64url_alphabet_def
  ascii_upper_def ascii_lower_def

text \<open>\<open>struct.pack('>Q', v)\<close> and \<open>struct.unpack('>I', b)\<close>, both big-endian.\<close>

fun be_bytes :: "nat \<Rightarrow> int \<Rightarrow> bytes" where
  "be_bytes 0 v = []"
| "be_bytes (Suc n) v = be_bytes n (v div 256) @ [of_int v]"

definition be_value :: "bytes \<Rightarrow> nat" where
  "be_value bs = foldl (\<lambda>a b. 256 * a + unat b) 0 bs"

text \<open>\<open>s.encode('ascii')\<close> of text known to be ASCII.\<close>

definition ascii_bytes :: "pystr \<Rightarrow> bytes" where
  "ascii_bytes s = map of_nat s"

section \<open>Bits invert\<close>

lemma length_to_bits [simp]: "length (to_bits n v) = n"
  by (induction n arbitrary: v) auto

lemma of_bits_snoc [simp]: "of_bits (bs @ [b]) = 2 * of_bits bs + of_bool b"
  by (simp add: of_bits_def)

lemma of_bits_Nil [simp]: "of_bits [] = 0"
  by (simp add: of_bits_def)

lemma of_bits_bound: "of_bits bs < 2 ^ length bs"
  by (induction bs rule: rev_induct) (auto simp: of_bool_def)

lemma to_bits_of_bits [simp]: "to_bits (length bs) (of_bits bs) = bs"
  by (induction bs rule: rev_induct) auto

lemma of_bits_to_bits: "v < 2 ^ n \<Longrightarrow> of_bits (to_bits n v) = v"
  by (induction n arbitrary: v) auto

lemma chunks_simps:
  "chunks n [] = []"
  "0 < n \<Longrightarrow> xs \<noteq> [] \<Longrightarrow> chunks n xs = take n xs # chunks n (drop n xs)"
  by (simp_all add: chunks.simps)

lemma concat_chunks: "0 < n \<Longrightarrow> concat (chunks n xs) = xs"
  by (induction n xs rule: chunks.induct) (subst chunks.simps, simp)

lemma length_in_chunks: "n dvd length xs \<Longrightarrow> c \<in> set (chunks n xs) \<Longrightarrow> length c = n"
proof (induction n xs rule: chunks.induct)
  case (1 n xs)
  show ?case
  proof (cases "n = 0 \<or> xs = []")
    case True
    with 1 show ?thesis by (simp add: chunks.simps)
  next
    case False
    from False 1(2) have "n \<le> length xs" by (simp add: dvd_imp_le)
    moreover from False 1(3) have "c = take n xs \<or> c \<in> set (chunks n (drop n xs))"
      by (subst (asm) chunks.simps) simp
    moreover have "n dvd length (drop n xs)" using 1(2) by (auto simp: dvd_diff_nat)
    ultimately show ?thesis using 1(1) False by auto
  qed
qed

lemma chunks_concat:
  "0 < n \<Longrightarrow> (\<And>c. c \<in> set cs \<Longrightarrow> length c = n) \<Longrightarrow> chunks n (concat cs) = cs"
proof (induction cs)
  case Nil
  show ?case by (simp add: chunks_simps)
next
  case (Cons c cs)
  then have "length c = n" "chunks n (concat cs) = cs" by auto
  moreover from this(1) Cons.prems(1) have "concat (c # cs) \<noteq> []" by auto
  ultimately show ?case
    using Cons.prems(1) by (simp add: chunks_simps(2))
qed

lemma length_byte_bits [simp]: "length (byte_bits bs) = 8 * length bs"
  by (induction bs) (simp_all add: byte_bits_def)

lemma unat_byte: "unat (w :: 8 word) < 256"
  using unsigned_less [of w, where 'a = nat] by simp

lemma bits_byte_bits: "length fill < 8 \<Longrightarrow> bits_byte (byte_bits bs @ fill) = bs"
proof -
  assume "length fill < 8"
  then have "8 * (length (byte_bits bs @ fill) div 8) = length (byte_bits bs)" by simp
  then have "bits_byte (byte_bits bs @ fill) = map (\<lambda>c. of_nat (of_bits c)) (chunks 8 (byte_bits bs))"
    by (simp add: bits_byte_def)
  also have "chunks 8 (byte_bits bs) = map (\<lambda>w. to_bits 8 (unat w)) bs"
    unfolding byte_bits_def by (rule chunks_concat) auto
  also have "map (\<lambda>c. of_nat (of_bits c)) (map (\<lambda>w. to_bits 8 (unat w)) bs) = bs"
    by (simp add: comp_def of_bits_to_bits unat_byte)
  finally show ?thesis .
qed

lemma length_bits_byte: "length (bits_byte bs) = length bs div 8"
proof -
  let ?t = "take (8 * (length bs div 8)) bs"
  have "length (chunks 8 ?t) * 8 = length (concat (chunks 8 ?t))"
  proof -
    have "\<And>c. c \<in> set (chunks 8 ?t) \<Longrightarrow> length c = 8"
      by (rule length_in_chunks [of 8 ?t]) auto
    then have "map length (chunks 8 ?t) = replicate (length (chunks 8 ?t)) 8"
      by (metis length_map map_replicate_const map_cong)
    then show ?thesis by (simp add: length_concat sum_list_replicate)
  qed
  also have "\<dots> = 8 * (length bs div 8)" by (simp add: concat_chunks)
  finally show ?thesis by (simp add: bits_byte_def)
qed

section \<open>The alphabets invert\<close>

lemma dvd_fill: "0 < n \<Longrightarrow> n dvd L + (n - L mod n) mod n" for n :: nat
proof (cases "L mod n = 0")
  case False
  assume n: "0 < n"
  then have "L mod n \<le> n" by simp
  moreover have "L = n * (L div n) + L mod n" by simp
  ultimately have "L + (n - L mod n) = n * (L div n) + n" by linarith
  then have "n dvd L + (n - L mod n)" by simp
  with False n show ?thesis by simp
qed auto

lemma digit_value_nth: "distinct as \<Longrightarrow> i < length as \<Longrightarrow> digit_value as (as ! i) = Some i"
  by (induction as arbitrary: i) (auto simp: nth_Cons split: nat.splits)

lemma digit_value_mem: "c \<in> set as \<Longrightarrow> \<exists>i < length as. digit_value as c = Some i"
  by (induction as) fastforce+

lemma those_map_Some: "those (map (\<lambda>x. Some (f x)) xs) = Some (map f xs)"
  by (induction xs) auto

lemma decode_encode:
  assumes "0 < n" "n \<le> 8" "distinct alphabet" "length alphabet = 2 ^ n"
  shows "decode_digits n alphabet (encode_digits n alphabet bs) = Some bs"
proof -
  define fill where "fill = replicate ((n - length (byte_bits bs) mod n) mod n) False"
  define cs where "cs = chunks n (byte_bits bs @ fill)"
  have dvd: "n dvd length (byte_bits bs @ fill)"
    unfolding fill_def length_append length_replicate by (rule dvd_fill) (rule assms)
  have len: "\<And>c. c \<in> set cs \<Longrightarrow> length c = n"
    unfolding cs_def by (rule length_in_chunks [OF dvd])
  have "\<And>c. c \<in> set cs \<Longrightarrow> digit_value alphabet (alphabet ! of_bits c) = Some (of_bits c)"
    using len assms by (intro digit_value_nth) (auto intro: order.strict_trans2 [OF of_bits_bound])
  then have "those (map (digit_value alphabet) (map (\<lambda>c. alphabet ! of_bits c) cs)) = Some (map of_bits cs)"
    by (simp add: comp_def those_map_Some cong: map_cong)
  moreover have "map (to_bits n) (map of_bits cs) = cs"
    using len by (intro map_idI [of cs "to_bits n \<circ> of_bits", unfolded map_map [symmetric]])
      (metis comp_apply to_bits_of_bits)
  moreover have "concat cs = byte_bits bs @ fill"
    unfolding cs_def using assms(1) by (rule concat_chunks)
  moreover have "length fill < 8" unfolding fill_def length_replicate
    by (rule less_le_trans [OF mod_less_divisor]) (use assms in auto)
  moreover have "encode_digits n alphabet bs = map (\<lambda>c. alphabet ! of_bits c) cs"
    by (simp add: encode_digits_def Let_def cs_def fill_def)
  ultimately show ?thesis
    by (simp add: decode_digits_def bits_byte_bits del: map_map)
qed

lemma hex_inverse [simp]: "fromhex (hex bs) = Some bs"
  unfolding hex_def fromhex_def by (rule decode_encode) (simp_all add: alphabet_defs)

lemma b32_inverse [simp]: "b32decode (b32encode bs) = Some bs"
  unfolding b32encode_def b32decode_def by (rule decode_encode) (simp_all add: alphabet_defs)

lemma urlsafe_b64_inverse [simp]: "urlsafe_b64decode (urlsafe_b64encode bs) = Some bs"
  unfolding urlsafe_b64encode_def urlsafe_b64decode_def
  by (rule decode_encode) (simp_all add: alphabet_defs)

section \<open>Shapes of the encodings\<close>

lemma length_chunks: "0 < n \<Longrightarrow> n dvd length xs \<Longrightarrow> length (chunks n xs) = length xs div n"
proof -
  assume n: "0 < n" "n dvd length xs"
  have "map length (chunks n xs) = replicate (length (chunks n xs)) n"
    by (rule map_replicate_const [of n "chunks n xs", symmetric, THEN trans, symmetric])
      (use length_in_chunks [OF n(2)] in \<open>auto intro: map_cong\<close>)
  then have "length (concat (chunks n xs)) = length (chunks n xs) * n"
    by (simp add: length_concat sum_list_replicate)
  with n show ?thesis by (simp add: concat_chunks)
qed

lemma set_encode_digits:
  assumes "0 < n" "length alphabet = 2 ^ n"
  shows "set (encode_digits n alphabet bs) \<subseteq> set alphabet"
proof -
  define bits where "bits = byte_bits bs @ replicate ((n - length (byte_bits bs) mod n) mod n) False"
  have "n dvd length bits"
    unfolding bits_def length_append length_replicate by (rule dvd_fill) (rule assms)
  then have "\<And>c. c \<in> set (chunks n bits) \<Longrightarrow> of_bits c < length alphabet"
    using of_bits_bound length_in_chunks assms(2) by metis
  moreover have "encode_digits n alphabet bs = map (\<lambda>c. alphabet ! of_bits c) (chunks n bits)"
    by (simp add: encode_digits_def bits_def Let_def)
  ultimately show ?thesis by auto
qed

lemma length_encode_digits:
  assumes "0 < n"
  shows "length (encode_digits n alphabet bs) =
    (8 * length bs + (n - 8 * length bs mod n) mod n) div n"
proof -
  have "n dvd length (byte_bits bs @ replicate ((n - length (byte_bits bs) mod n) mod n) False)"
    unfolding length_append length_replicate by (rule dvd_fill) (rule assms)
  from length_chunks [OF assms this] show ?thesis
    by (simp add: encode_digits_def Let_def)
qed

end
