(* ===== verification/Identity.thy ===== *)
theory Identity
  imports Prelude
begin

text \<open>
  \<open>identity.py\<close>: the canonical mailbox identity. The two regular expressions are character
  classes, the validation of the local part and of the domain are the two guarded blocks of
  \<open>canonicalize_email\<close>. The lemmas show that a canonical identity is a fixed point, that two
  spellings which differ only in case or surrounding white space have one identity, and which
  shape every identity has.
\<close>

section \<open>Definitions\<close>

abbreviation (input) at_sign :: nat where "at_sign \<equiv> 64"
abbreviation (input) dot :: nat where "dot \<equiv> 46"
abbreviation (input) hyphen :: nat where "hyphen \<equiv> 45"

definition EMAIL_LOCAL_PATTERN :: "nat \<Rightarrow> bool" where
  "EMAIL_LOCAL_PATTERN c \<longleftrightarrow>
     is_ascii_alnum c \<or> c \<in> set (lit ''!#$%&*+/=?^_`{|}~.-'') \<or> c = 39"

definition DOMAIN_LABEL_PATTERN :: "nat \<Rightarrow> bool" where
  "DOMAIN_LABEL_PATTERN c \<longleftrightarrow> is_ascii_alnum c \<or> c = hyphen"

text \<open>The guard on the local part; \<open>endswith\<close> and \<open>startswith\<close> compare one character.\<close>

definition invalid_local :: "pystr \<Rightarrow> bool" where
  "invalid_local loc \<longleftrightarrow>
     loc = []
     \<or> length loc > 64
     \<or> prefix [dot] loc
     \<or> suffix [dot] loc
     \<or> sublist [dot, dot] loc
     \<or> \<not> fullmatch_plus EMAIL_LOCAL_PATTERN loc"

definition invalid_label :: "pystr \<Rightarrow> bool" where
  "invalid_label label \<longleftrightarrow>
     label = []
     \<or> length label > 63
     \<or> prefix [hyphen] label
     \<or> suffix [hyphen] label
     \<or> \<not> fullmatch_plus DOMAIN_LABEL_PATTERN label"

definition invalid_domain :: "pystr \<Rightarrow> bool" where
  "invalid_domain domain \<longleftrightarrow>
     domain = [] \<or> length domain > 253 \<or> prefix [dot] domain \<or> suffix [dot] domain"

definition canonicalize_text :: "pystr \<Rightarrow> pystr res" where
  "canonicalize_text v =
     (let normalized = strip v in
      if normalized = [] \<or> length normalized > 254 \<or> \<not> isascii normalized then Inl ValueError
      else if count_list normalized at_sign \<noteq> 1 then Inl ValueError
      else
        let (loc, domain) = rsplit_once at_sign normalized in
        if invalid_local loc then Inl ValueError
        else if invalid_domain domain then Inl ValueError
        else if list_ex invalid_label (split_on dot domain) then Inl ValueError
        else Inr (lower loc @ at_sign # lower domain))"

definition canonicalize_email :: "pyval \<Rightarrow> pystr res" where
  "canonicalize_email value =
     (case value of PyStr v \<Rightarrow> canonicalize_text v | _ \<Rightarrow> Inl ValueError)"

lemmas identity_eval = EMAIL_LOCAL_PATTERN_def DOMAIN_LABEL_PATTERN_def invalid_local_def
  invalid_label_def invalid_domain_def

section \<open>Invariance under lower-casing\<close>

lemma email_local_pattern_lower [simp]:
  "EMAIL_LOCAL_PATTERN (lower_char c) = EMAIL_LOCAL_PATTERN c"
  by (auto simp: EMAIL_LOCAL_PATTERN_def lower_char_def char_class_defs lit_def)

lemma domain_label_pattern_lower [simp]:
  "DOMAIN_LABEL_PATTERN (lower_char c) = DOMAIN_LABEL_PATTERN c"
  by (auto simp: DOMAIN_LABEL_PATTERN_def lower_char_def char_class_defs)

lemma lower_char_punct [simp]:
  "lower_char c = 64 \<longleftrightarrow> c = 64" "lower_char c = 46 \<longleftrightarrow> c = 46" "lower_char c = 45 \<longleftrightarrow> c = 45"
  "64 = lower_char c \<longleftrightarrow> c = 64" "46 = lower_char c \<longleftrightarrow> c = 46" "45 = lower_char c \<longleftrightarrow> c = 45"
  by (auto simp: lower_char_def)

lemma fullmatch_plus_lower:
  "(\<And>c. p (lower_char c) = p c) \<Longrightarrow> fullmatch_plus p (lower s) = fullmatch_plus p s"
  by (simp add: fullmatch_plus_def lower_def list_all_iff)

lemma lower_Nil [simp]: "lower [] = []"
  by (simp add: lower_def)

lemma prefix_single: "prefix [c] s \<longleftrightarrow> s \<noteq> [] \<and> hd s = c"
  by (cases s) auto

lemma suffix_single: "suffix [c] s \<longleftrightarrow> s \<noteq> [] \<and> last s = c"
  by (cases s rule: rev_cases) (auto simp: suffix_def)

lemma prefix_single_lower [simp]:
  "prefix [46] (lower s) = prefix [46] s" "prefix [45] (lower s) = prefix [45] s"
  by (cases s; simp)+

lemma suffix_single_lower [simp]:
  "suffix [46] (lower s) = suffix [46] s" "suffix [45] (lower s) = suffix [45] s"
  by (cases s rule: rev_cases; simp add: suffix_single)+

lemma sublist_dots_lower [simp]: "sublist [46, 46] (lower s) = sublist [46, 46] s"
  by (induction s) (simp_all add: sublist_Cons_right)

lemma punct_in_lower [simp]:
  "64 \<in> set (lower s) \<longleftrightarrow> 64 \<in> set s" "46 \<in> set (lower s) \<longleftrightarrow> 46 \<in> set s"
  by (induction s; simp)+

lemma invalid_lower [simp]:
  "invalid_local (lower s) = invalid_local s"
  "invalid_label (lower s) = invalid_label s"
  "invalid_domain (lower s) = invalid_domain s"
  by (simp_all add: invalid_local_def invalid_label_def invalid_domain_def fullmatch_plus_lower)

lemma invalid_labels_lower [simp]:
  "list_ex invalid_label (split_on 46 (lower d)) = list_ex invalid_label (split_on 46 d)"
proof -
  have "split_on 46 (lower d) = map lower (split_on 46 d)"
    unfolding lower_def by (subst split_on_map) (auto simp: lower_def)
  then show ?thesis by (simp add: list_ex_iff)
qed

lemma count_at_lower [simp]: "count_list (lower s) 64 = count_list s 64"
  by (induction s) simp_all

section \<open>The decomposition of an accepted address\<close>

lemma count_list_split:
  "count_list s c = 1 \<Longrightarrow> \<exists>l d. s = l @ c # d \<and> c \<notin> set l \<and> c \<notin> set d \<and> rsplit_once c s = (l, d)"
proof -
  assume one: "count_list s c = 1"
  then have "c \<in> set s" by (metis count_notin zero_neq_one)
  then obtain l d where s: "s = l @ c # d" "c \<notin> set d" "rsplit_once c s = (l, d)"
    using rsplit_once_decomp by metis
  with one have "count_list l c = 0" by simp
  with s show ?thesis by (metis count_list_0_iff)
qed

lemma canonicalize_text_Inr_iff:
  "canonicalize_text v = Inr e \<longleftrightarrow>
     (\<exists>l d. strip v = l @ 64 # d \<and> 64 \<notin> set l \<and> 64 \<notin> set d
        \<and> length (strip v) \<le> 254 \<and> isascii (strip v)
        \<and> \<not> invalid_local l \<and> \<not> invalid_domain d \<and> \<not> list_ex invalid_label (split_on 46 d)
        \<and> e = lower l @ 64 # lower d)"
  (is "?L \<longleftrightarrow> ?R")
proof
  assume L: ?L
  then have "count_list (strip v) 64 = 1"
    by (auto simp: canonicalize_text_def Let_def split: if_splits)
  then obtain l d where d: "strip v = l @ 64 # d" "64 \<notin> set l" "64 \<notin> set d"
      "rsplit_once 64 (strip v) = (l, d)"
    using count_list_split by metis
  with L show ?R
    unfolding canonicalize_text_def Let_def by (auto split: if_splits)
next
  assume ?R
  then obtain l d where d: "strip v = l @ 64 # d" "64 \<notin> set l" "64 \<notin> set d"
      "length (strip v) \<le> 254" "isascii (strip v)"
      "\<not> invalid_local l" "\<not> invalid_domain d" "\<not> list_ex invalid_label (split_on 46 d)"
      "e = lower l @ 64 # lower d" by blast
  moreover have "rsplit_once 64 (l @ 64 # d) = (l, d)"
    using d by (intro rsplit_once_app)
  moreover have "count_list (strip v) 64 = 1"
    using d by (simp add: count_list_0_iff)
  ultimately show ?L
    unfolding canonicalize_text_def Let_def by simp
qed

lemma pattern_not_space:
  "EMAIL_LOCAL_PATTERN c \<Longrightarrow> \<not> isspace c"
  "DOMAIN_LABEL_PATTERN c \<Longrightarrow> \<not> isspace c"
  by (auto simp: EMAIL_LOCAL_PATTERN_def DOMAIN_LABEL_PATTERN_def char_class_defs isspace_def lit_def)

lemma split_on_last_char:
  "d \<noteq> [] \<Longrightarrow> last d \<noteq> c \<Longrightarrow> \<exists>w \<in> set (split_on c d). last d \<in> set w"
proof (induction d)
  case Nil
  then show ?case by simp
next
  case (Cons x d)
  show ?case
  proof (cases "d = []")
    case True
    with Cons.prems show ?thesis by simp
  next
    case False
    with Cons obtain w where "w \<in> set (split_on c d)" "last d \<in> set w" by auto
    with False show ?thesis by (cases "split_on c d") auto
  qed
qed

lemma canonical_text_stripped:
  assumes "\<not> invalid_local l" "\<not> invalid_domain d" "\<not> list_ex invalid_label (split_on 46 d)"
  shows "strip (l @ 64 # d) = l @ 64 # d"
proof -
  have l: "l \<noteq> []" "\<not> isspace (hd l)"
    using assms(1) by (cases l; auto simp: invalid_local_def fullmatch_plus_def pattern_not_space)+
  have d: "d \<noteq> []" "last d \<noteq> 46"
    using assms(2) by (cases d rule: rev_cases; auto simp: invalid_domain_def)+
  then obtain w where w: "w \<in> set (split_on 46 d)" "last d \<in> set w"
    using split_on_last_char by blast
  with assms(3) have "DOMAIN_LABEL_PATTERN (last d)"
    by (auto simp: list_ex_iff invalid_label_def fullmatch_plus_def list_all_iff)
  then have "\<not> isspace (last d)" by (rule pattern_not_space)
  with l d show ?thesis by (subst strip_id_iff) auto
qed

section \<open>Properties\<close>

text \<open>
  A canonical identity is a fixed point: canonicalising the result of
  \<open>canonicalize_email\<close> again returns it unchanged.
\<close>

lemma canonicalize_email_idem:
  "canonicalize_email v = Inr e \<Longrightarrow> canonicalize_email (PyStr e) = Inr e"
proof -
  assume "canonicalize_email v = Inr e"
  then obtain t where t: "canonicalize_text t = Inr e"
    by (auto simp: canonicalize_email_def split: pyval.splits)
  then obtain l d where d: "strip t = l @ 64 # d" "64 \<notin> set l" "64 \<notin> set d"
      "length (strip t) \<le> 254" "isascii (strip t)"
      "\<not> invalid_local l" "\<not> invalid_domain d" "\<not> list_ex invalid_label (split_on 46 d)"
      "e = lower l @ 64 # lower d"
    unfolding canonicalize_text_Inr_iff by blast
  have e: "e = lower (strip t)" using d by (simp add: lower_char_def)
  have "strip e = e" using d canonical_text_stripped [of "lower l" "lower d"] by simp
  moreover have "64 \<notin> set (lower l)" "64 \<notin> set (lower d)"
    using d by simp_all
  moreover have "length e \<le> 254" "isascii e" using d(4,5) e by simp_all
  ultimately have "canonicalize_text e = Inr e"
    unfolding canonicalize_text_Inr_iff using d(6-9)
    by (intro exI [of _ "lower l"] exI [of _ "lower d"]) (simp only: invalid_lower
        invalid_labels_lower lower_idem simp_thms)
  then show ?thesis by (simp add: canonicalize_email_def)
qed

text \<open>Witness: a mixed-case address with surrounding spaces.\<close>

lemma canonicalize_email_idem_example:
  "canonicalize_email (PyStr (lit '' Bob@Mail.Example '')) = Inr (lit ''bob@mail.example'')
   \<and> canonicalize_email (PyStr (lit ''bob@mail.example'')) = Inr (lit ''bob@mail.example'')"
proof -
  have "canonicalize_email (PyStr (lit '' Bob@Mail.Example '')) = Inr (lit ''bob@mail.example'')"
    by (simp add: canonicalize_email_def canonicalize_text_def text_eval identity_eval)
  with canonicalize_email_idem [OF this] show ?thesis by simp
qed

text \<open>
  Two texts that differ only in letter case and surrounding white space have the same
  outcome: the same identity, or the same rejection.
\<close>

lemma canonicalize_email_case_insensitive:
  "lower (strip v) = lower (strip w) \<Longrightarrow>
     canonicalize_email (PyStr v) = canonicalize_email (PyStr w)"
proof -
  have key: "canonicalize_text v =
      (let n = lower (strip v) in
       if n = [] \<or> length n > 254 \<or> \<not> isascii n then Inl ValueError
       else if count_list n 64 \<noteq> 1 then Inl ValueError
       else let (l, d) = rsplit_once 64 n in
         if invalid_local l then Inl ValueError
         else if invalid_domain d then Inl ValueError
         else if list_ex invalid_label (split_on 46 d) then Inl ValueError
         else Inr (l @ 64 # d))" for v
  proof (cases "count_list (strip v) 64 = 1")
    case True
    then obtain l d where s: "strip v = l @ 64 # d" "64 \<notin> set l" "64 \<notin> set d"
        "rsplit_once 64 (strip v) = (l, d)"
      using count_list_split by metis
    then have "64 \<notin> set (lower d)" by simp
    then have "rsplit_once 64 (lower l @ 64 # lower d) = (lower l, lower d)"
      by (rule rsplit_once_app)
    moreover have "lower (strip v) = lower l @ 64 # lower d"
      using s(1) by (simp add: lower_char_def)
    ultimately have r: "rsplit_once 64 (lower (strip v)) = (lower l, lower d)" by simp
    show ?thesis
      unfolding canonicalize_text_def Let_def s(4) r by simp
  next
    case False
    then show ?thesis unfolding canonicalize_text_def Let_def by simp
  qed
  assume "lower (strip v) = lower (strip w)"
  then show ?thesis by (simp add: canonicalize_email_def key)
qed

text \<open>Witness: an upper-case address and its lower-case spelling with a trailing newline.\<close>

lemma canonicalize_email_case_insensitive_witness:
  "canonicalize_email (PyStr (lit ''A@B.C'')) = canonicalize_email (PyStr (lit ''a@b.c'' @ [10]))"
  by (rule canonicalize_email_case_insensitive)
    (simp add: text_eval)

end
