(* ===== verification/Store_Monad.thy ===== *)
theory Store_Monad
  imports Prelude
begin

text \<open>
  Actions on the authentication store. \<open>auth.py\<close> is a class over one SQLite connection, a clock
  and a source of random bytes; each method reads the clock, draws random bytes, runs SQL
  statements inside \<open>with self._transaction()\<close> and raises exceptions. An action here takes the
  store (database contents, number of draws, number of clock readings, open/closed flag) to a
  result or an exception and the store left behind.

  The second half holds the weakest-precondition rules on database contents, with one
  postcondition for normal and one for exceptional exit, and what an operation that keeps an invariant is.
\<close>

section \<open>The store and its actions\<close>

record 'd store =
  db :: 'd
  draws :: nat
  readings :: nat
  closed :: bool

type_synonym ('d, 'a) act = "'d store \<Rightarrow> 'a res \<times> 'd store"

definition returnA :: "'a \<Rightarrow> ('d, 'a) act" where
  "returnA x s = (Inr x, s)"

definition raiseA :: "exn \<Rightarrow> ('d, 'a) act" where
  "raiseA e s = (Inl e, s)"

definition bindA :: "('d, 'a) act \<Rightarrow> ('a \<Rightarrow> ('d, 'b) act) \<Rightarrow> ('d, 'b) act" where
  "bindA m f s = (case m s of (Inl e, t) \<Rightarrow> (Inl e, t) | (Inr x, t) \<Rightarrow> f x t)"

definition seqA :: "('d, 'a) act \<Rightarrow> ('d, 'b) act \<Rightarrow> ('d, 'b) act" where
  "seqA m n = bindA m (\<lambda>_. n)"

text \<open>A call that does not touch the store.\<close>

definition liftE :: "'a res \<Rightarrow> ('d, 'a) act" where
  "liftE r s = (r, s)"

definition guardA :: "bool \<Rightarrow> exn \<Rightarrow> ('d, unit) act" where
  "guardA b e = liftE (guard_res b e)"

text \<open>\<open>try: m except ...: handler\<close>; the handler re-raises what it does not name.\<close>

definition tryA :: "('d, 'a) act \<Rightarrow> (exn \<Rightarrow> ('d, 'a) act) \<Rightarrow> ('d, 'a) act" where
  "tryA m h s = (case m s of (Inl e, t) \<Rightarrow> h e t | (Inr x, t) \<Rightarrow> (Inr x, t))"

text \<open>Queries and statements on the database contents.\<close>

definition selectA :: "('d \<Rightarrow> 'a) \<Rightarrow> ('d, 'a) act" where
  "selectA q s = (Inr (q (db s)), s)"

definition executeA :: "('d \<Rightarrow> ('a \<times> 'd) res) \<Rightarrow> ('d, 'a) act" where
  "executeA f s = (case f (db s) of Inl e \<Rightarrow> (Inl e, s) | Inr (x, d) \<Rightarrow> (Inr x, s\<lparr>db := d\<rparr>))"

text \<open>\<open>for x in xs\<close> over statements.\<close>

fun forA :: "'x list \<Rightarrow> ('x \<Rightarrow> ('d, unit) act) \<Rightarrow> ('d, unit) act" where
  "forA [] f = returnA ()"
| "forA (x # xs) f = seqA (f x) (forA xs f)"

text \<open>\<open>tuple(f(x) for x in xs)\<close> over statements.\<close>

fun mapA :: "('x \<Rightarrow> ('d, 'y) act) \<Rightarrow> 'x list \<Rightarrow> ('d, 'y list) act" where
  "mapA f [] = returnA []"
| "mapA f (x # xs) = bindA (f x) (\<lambda>y. bindA (mapA f xs) (\<lambda>ys. returnA (y # ys)))"

text \<open>\<open>_require_open\<close> and \<open>_transaction\<close>: an exception inside rolls the database back.\<close>

definition require_open :: "('d, unit) act" where
  "require_open s = (if closed s then Inl RuntimeError else Inr (), s)"

definition transaction :: "('d, 'a) act \<Rightarrow> ('d, 'a) act" where
  "transaction body s =
     (if closed s then (Inl RuntimeError, s)
      else case body s of
        (Inl e, t) \<Rightarrow> (Inl e, t\<lparr>db := db s\<rparr>)
      | (Inr x, t) \<Rightarrow> (Inr x, t))"

definition close :: "('d, unit) act" where
  "close s = (Inr (), s\<lparr>closed := True\<rparr>)"

text \<open>
  A clock reading. A finite float is \<open>m / 2^k\<close>; \<open>int(value)\<close> then truncates to the quotient. Readings
  are below \<open>2^63\<close>, the range of SQLite's integers, beyond which storing them would raise.
\<close>

datatype clock_reading = ClockInt int | ClockFloat int nat | ClockNonFinite | ClockOther

fun reading_seconds :: "clock_reading \<Rightarrow> int res" where
  "reading_seconds (ClockInt v) = (if v < 0 then Inl ValueError else Inr v)"
| "reading_seconds (ClockFloat m k) = (if m < 0 then Inl ValueError else Inr (m div 2 ^ k))"
| "reading_seconds ClockNonFinite = Inl ValueError"
| "reading_seconds ClockOther = Inl ValueError"

definition now_locked :: "(nat \<Rightarrow> clock_reading) \<Rightarrow> ('d, int) act" where
  "now_locked clock s = (reading_seconds (clock (readings s)), s\<lparr>readings := Suc (readings s)\<rparr>)"

definition draw_bytes :: "(nat \<Rightarrow> nat \<Rightarrow> pyval) \<Rightarrow> nat \<Rightarrow> ('d, bytes) act" where
  "draw_bytes source n s =
     ((case source (draws s) n of
         PyBytes b \<Rightarrow> if length b = n then Inr b else Inl ValueError
       | _ \<Rightarrow> Inl ValueError),
      s\<lparr>draws := Suc (draws s)\<rparr>)"

lemma bindA_Inr:
  "bindA m f s = (Inr y, t) \<longleftrightarrow> (\<exists>x u. m s = (Inr x, u) \<and> f x u = (Inr y, t))"
  by (auto simp: bindA_def split: prod.splits sum.splits)

section \<open>Weakest preconditions on database contents\<close>

text \<open>
  \<open>wp m Q E d\<close>: from every store with contents \<open>d\<close>, a normal exit of \<open>m\<close> with value \<open>x\<close> leaves
  contents that satisfy \<open>Q x\<close>, an exception \<open>e\<close> leaves contents that satisfy \<open>E e\<close>.
\<close>

definition wp :: "('d, 'a) act \<Rightarrow> ('a \<Rightarrow> 'd \<Rightarrow> bool) \<Rightarrow> (exn \<Rightarrow> 'd \<Rightarrow> bool) \<Rightarrow> 'd \<Rightarrow> bool" where
  "wp m Q E d \<longleftrightarrow>
     (\<forall>s. db s = d \<longrightarrow> (case m s of (Inl e, t) \<Rightarrow> E e (db t) | (Inr x, t) \<Rightarrow> Q x (db t)))"

named_theorems wp_rules \<open>introduction rules for weakest preconditions\<close>

lemma wpI:
  "(\<And>s e t. db s = d \<Longrightarrow> m s = (Inl e, t) \<Longrightarrow> E e (db t)) \<Longrightarrow>
   (\<And>s x t. db s = d \<Longrightarrow> m s = (Inr x, t) \<Longrightarrow> Q x (db t)) \<Longrightarrow> wp m Q E d"
  by (auto simp: wp_def split: prod.splits sum.splits)

lemma wpD:
  "wp m Q E (db s) \<Longrightarrow> m s = (Inr x, t) \<Longrightarrow> Q x (db t)"
  "wp m Q E (db s) \<Longrightarrow> m s = (Inl e, t) \<Longrightarrow> E e (db t)"
  by (auto simp: wp_def dest!: spec [of _ s])

lemma wp_outcome:
  "wp m Q E (db s) \<Longrightarrow> m s = (r, t) \<Longrightarrow> case r of Inl e \<Rightarrow> E e (db t) | Inr x \<Rightarrow> Q x (db t)"
  by (auto simp: wp_def split: sum.splits dest!: spec [of _ s])

lemma wp_mono:
  "wp m Q E d \<Longrightarrow> (\<And>x d'. Q x d' \<Longrightarrow> Q' x d') \<Longrightarrow> (\<And>e d'. E e d' \<Longrightarrow> E' e d') \<Longrightarrow> wp m Q' E' d"
  by (fastforce simp: wp_def split: prod.splits sum.splits)

lemma wp_conj:
  "wp m Q E d \<Longrightarrow> wp m Q' E' d \<Longrightarrow> wp m (\<lambda>x d. Q x d \<and> Q' x d) (\<lambda>e d. E e d \<and> E' e d) d"
  by (fastforce simp: wp_def split: prod.splits sum.splits)

lemma wp_return [wp_rules]: "Q x d \<Longrightarrow> wp (returnA x) Q E d"
  by (simp add: wp_def returnA_def)

lemma wp_raise [wp_rules]: "E e d \<Longrightarrow> wp (raiseA e) Q E d"
  by (simp add: wp_def raiseA_def)

lemma wp_bind [wp_rules]: "wp m (\<lambda>x. wp (f x) Q E) E d \<Longrightarrow> wp (bindA m f) Q E d"
  by (fastforce simp: wp_def bindA_def split: prod.splits sum.splits)

lemma wp_seq [wp_rules]: "wp m (\<lambda>_. wp n Q E) E d \<Longrightarrow> wp (seqA m n) Q E d"
  by (simp add: seqA_def wp_bind)

lemma wp_lift [wp_rules]:
  "(\<And>x. r = Inr x \<Longrightarrow> Q x d) \<Longrightarrow> (\<And>e. r = Inl e \<Longrightarrow> E e d) \<Longrightarrow> wp (liftE r) Q E d"
  by (cases r) (auto simp: wp_def liftE_def)

lemma wp_guard [wp_rules]:
  "(b \<Longrightarrow> Q () d) \<Longrightarrow> (\<not> b \<Longrightarrow> E e d) \<Longrightarrow> wp (guardA b e) Q E d"
  by (cases b) (auto simp: wp_def guardA_def liftE_def)

lemma wp_try [wp_rules]: "wp m Q (\<lambda>e. wp (h e) Q E) d \<Longrightarrow> wp (tryA m h) Q E d"
  by (fastforce simp: wp_def tryA_def split: prod.splits sum.splits)

lemma wp_select [wp_rules]: "Q (q d) d \<Longrightarrow> wp (selectA q) Q E d"
  by (auto simp: wp_def selectA_def)

lemma wp_execute:
  "(\<And>x d'. f d = Inr (x, d') \<Longrightarrow> Q x d') \<Longrightarrow> (\<And>e. f d = Inl e \<Longrightarrow> E e d) \<Longrightarrow> wp (executeA f) Q E d"
  by (auto simp: wp_def executeA_def split: sum.splits prod.splits)

lemma wp_if [wp_rules]:
  "(b \<Longrightarrow> wp m Q E d) \<Longrightarrow> (\<not> b \<Longrightarrow> wp n Q E d) \<Longrightarrow> wp (if b then m else n) Q E d"
  by simp

lemma wp_option [wp_rules]:
  "(v = None \<Longrightarrow> wp m Q E d) \<Longrightarrow> (\<And>x. v = Some x \<Longrightarrow> wp (f x) Q E d) \<Longrightarrow>
     wp (case v of None \<Rightarrow> m | Some x \<Rightarrow> f x) Q E d"
  by (cases v) auto

lemma wp_prod [wp_rules]:
  "(\<And>x y. v = (x, y) \<Longrightarrow> wp (f x y) Q E d) \<Longrightarrow> wp (case v of (x, y) \<Rightarrow> f x y) Q E d"
  by (cases v) auto

lemma wp_let [wp_rules]: "wp (f v) Q E d \<Longrightarrow> wp (let x = v in f x) Q E d"
  by simp

lemma wp_open [wp_rules]: "Q () d \<Longrightarrow> E RuntimeError d \<Longrightarrow> wp require_open Q E d"
  by (auto simp: wp_def require_open_def)

lemma wp_close [wp_rules]: "Q () d \<Longrightarrow> wp close Q E d"
  by (auto simp: wp_def close_def)

lemma wp_now [wp_rules]:
  "(\<And>now. 0 \<le> now \<Longrightarrow> Q now d) \<Longrightarrow> E ValueError d \<Longrightarrow> wp (now_locked clock) Q E d"
proof (rule wpI)
  fix s e and t :: "'a store"
  assume "E ValueError d" "db s = d" "now_locked clock s = (Inl e, t)"
  then show "E e (db t)"
    by (cases "clock (readings s)") (auto simp: now_locked_def split: if_splits)
next
  fix s x and t :: "'a store"
  assume "\<And>now. 0 \<le> now \<Longrightarrow> Q now d" "db s = d" "now_locked clock s = (Inr x, t)"
  then show "Q x (db t)"
    by (cases "clock (readings s)")
      (auto simp: now_locked_def pos_imp_zdiv_nonneg_iff split: if_splits)
qed

lemma wp_draw [wp_rules]:
  "(\<And>b. length b = n \<Longrightarrow> Q b d) \<Longrightarrow> E ValueError d \<Longrightarrow> wp (draw_bytes source n) Q E d"
  by (rule wpI) (auto simp: draw_bytes_def split: pyval.splits if_splits)

lemma wp_transaction [wp_rules]:
  "wp m Q (\<lambda>e _. E e d) d \<Longrightarrow> E RuntimeError d \<Longrightarrow> wp (transaction m) Q E d"
  by (fastforce simp: wp_def transaction_def split: prod.splits sum.splits if_splits)

lemma wp_for:
  assumes "I xs d" "\<And>x ys d. I (x # ys) d \<Longrightarrow> wp (f x) (\<lambda>_. I ys) E d"
    and "\<And>d. I [] d \<Longrightarrow> Q () d"
  shows "wp (forA xs f) Q E d"
  using assms(1)
proof (induction xs arbitrary: d)
  case Nil
  then show ?case using assms(3) by (simp add: wp_return)
next
  case (Cons x xs)
  have "wp (f x) (\<lambda>_. I xs) E d" by (rule assms(2)) (rule Cons.prems)
  then have "wp (f x) (\<lambda>_. wp (forA xs f) Q E) E d"
    by (rule wp_mono) (use Cons.IH in auto)
  then show ?case by (simp add: wp_seq)
qed

text \<open>A loop whose body keeps the contents in an invariant.\<close>

lemma wp_for_inv:
  "I d \<Longrightarrow> (\<And>x d. x \<in> set xs \<Longrightarrow> I d \<Longrightarrow> wp (f x) (\<lambda>_. I) E d) \<Longrightarrow> (\<And>d. I d \<Longrightarrow> Q () d) \<Longrightarrow>
     wp (forA xs f) Q E d"
  by (rule wp_for [where I = "\<lambda>ys d. set ys \<subseteq> set xs \<and> I d"]) (auto intro: wp_mono)

lemma wp_mapA_inv:
  assumes "I d" "\<And>x d. x \<in> set xs \<Longrightarrow> I d \<Longrightarrow> wp (f x) (\<lambda>_. I) E d" "\<And>ys d. I d \<Longrightarrow> Q ys d"
  shows "wp (mapA f xs) Q E d"
  using assms
proof (induction xs arbitrary: d Q)
  case Nil
  then show ?case by (simp add: wp_return)
next
  case (Cons x xs)
  have step: "wp (f x) (\<lambda>_. I) E d" by (rule Cons.prems(2)) (simp_all add: Cons.prems)
  have rest: "wp (mapA f xs) (\<lambda>ys. wp (returnA (y # ys)) Q E) E d'" if "I d'" for y d'
    by (rule Cons.IH) (use Cons.prems that in \<open>auto intro: wp_return\<close>)
  show ?case
    by (simp, rule wp_bind, rule wp_mono [OF step]) (auto intro!: wp_bind rest)
qed

section \<open>Invariants\<close>

definition preserves :: "('d \<Rightarrow> bool) \<Rightarrow> ('d, 'a) act \<Rightarrow> bool" where
  "preserves I m \<longleftrightarrow> (\<forall>d. I d \<longrightarrow> wp m (\<lambda>_. I) (\<lambda>_. I) d)"

lemma preservesI: "(\<And>d. I d \<Longrightarrow> wp m (\<lambda>_. I) (\<lambda>_. I) d) \<Longrightarrow> preserves I m"
  by (simp add: preserves_def)

lemma preservesD: "preserves I m \<Longrightarrow> I (db s) \<Longrightarrow> I (db (snd (m s)))"
proof -
  assume p: "preserves I m" and i: "I (db s)"
  obtain r t where m: "m s = (r, t)" by (cases "m s")
  from p i have "wp m (\<lambda>_. I) (\<lambda>_. I) (db s)" by (simp add: preserves_def)
  from wpD [OF this] m show ?thesis by (cases r) auto
qed

section \<open>Rows\<close>

text \<open>
  One SQL table is the list of its rows in scan order. \<open>ok others r\<close> says that row \<open>r\<close> meets the
  table's CHECK, PRIMARY KEY, UNIQUE and REFERENCES clauses beside the rows \<open>others\<close>; a
  statement that breaks one raises \<open>IntegrityError\<close>. An UPDATE checks each row as it writes it.
\<close>

definition insert_row :: "('r list \<Rightarrow> 'r \<Rightarrow> bool) \<Rightarrow> 'r \<Rightarrow> 'r list \<Rightarrow> 'r list res" where
  "insert_row ok r rows = (if ok rows r then Inr (rows @ [r]) else Inl IntegrityError)"

fun update_loop ::
  "('r list \<Rightarrow> 'r \<Rightarrow> bool) \<Rightarrow> ('r \<Rightarrow> bool) \<Rightarrow> ('r \<Rightarrow> 'r) \<Rightarrow> 'r list \<Rightarrow> 'r list \<Rightarrow> 'r list res" where
  "update_loop ok P f seen [] = Inr seen"
| "update_loop ok P f seen (r # rs) =
     (if P r then
        if ok (seen @ rs) (f r) then update_loop ok P f (seen @ [f r]) rs else Inl IntegrityError
      else update_loop ok P f (seen @ [r]) rs)"

definition update_rows ::
  "('r list \<Rightarrow> 'r \<Rightarrow> bool) \<Rightarrow> ('r \<Rightarrow> bool) \<Rightarrow> ('r \<Rightarrow> 'r) \<Rightarrow> 'r list \<Rightarrow> 'r list res" where
  "update_rows ok P f rows = update_loop ok P f [] rows"

definition set_where :: "('r \<Rightarrow> bool) \<Rightarrow> ('r \<Rightarrow> 'r) \<Rightarrow> 'r list \<Rightarrow> 'r list" where
  "set_where P f rows = map (\<lambda>r. if P r then f r else r) rows"

definition delete_rows :: "('r \<Rightarrow> bool) \<Rightarrow> 'r list \<Rightarrow> 'r list" where
  "delete_rows P rows = filter (\<lambda>r. \<not> P r) rows"

definition rowcount :: "('r \<Rightarrow> bool) \<Rightarrow> 'r list \<Rightarrow> nat" where
  "rowcount P rows = length (filter P rows)"

text \<open>\<open>fetchone()\<close>.\<close>

definition fetchone :: "('r \<Rightarrow> bool) \<Rightarrow> 'r list \<Rightarrow> 'r option" where
  "fetchone P rows = find P rows"

lemma insert_row_Inr_iff [res_simps]:
  "insert_row ok r rows = Inr rows' \<longleftrightarrow> ok rows r \<and> rows' = rows @ [r]"
  by (auto simp: insert_row_def)

lemma update_loop_Inr: "update_loop ok P f seen rs = Inr rows \<Longrightarrow> rows = seen @ set_where P f rs"
  by (induction rs arbitrary: seen) (fastforce simp: set_where_def split: if_splits)+

lemma update_rows_Inr: "update_rows ok P f rows = Inr rows' \<Longrightarrow> rows' = set_where P f rows"
  unfolding update_rows_def by (drule update_loop_Inr) simp

lemma update_loop_ok:
  assumes "\<And>pre r post. rs = pre @ r # post \<Longrightarrow> P r \<Longrightarrow> ok (seen @ set_where P f pre @ post) (f r)"
  shows "update_loop ok P f seen rs = Inr (seen @ set_where P f rs)"
  using assms
proof (induction rs arbitrary: seen)
  case Nil
  show ?case by (simp add: set_where_def)
next
  case (Cons r rs)
  let ?r = "if P r then f r else r"
  have "ok ((seen @ [?r]) @ set_where P f pre @ post) (f q)"
    if "rs = pre @ q # post" "P q" for pre q post
    using Cons.prems [of "r # pre" q post] that by (simp add: set_where_def)
  then have "update_loop ok P f (seen @ [?r]) rs = Inr ((seen @ [?r]) @ set_where P f rs)"
    by (rule Cons.IH)
  moreover have "P r \<Longrightarrow> ok (seen @ rs) (f r)"
    using Cons.prems [of "[]" r rs] by (simp add: set_where_def)
  ultimately show ?case by (auto simp: set_where_def)
qed

text \<open>An UPDATE succeeds when every row it writes meets the constraints at that moment.\<close>

lemma update_rows_ok:
  "(\<And>pre r post. rows = pre @ r # post \<Longrightarrow> P r \<Longrightarrow> ok (set_where P f pre @ post) (f r)) \<Longrightarrow>
     update_rows ok P f rows = Inr (set_where P f rows)"
  using update_loop_ok [of rows P ok "[]" f] by (simp add: update_rows_def)

lemma set_where_simps [simp]:
  "set_where P f [] = []"
  "set_where P f (xs @ ys) = set_where P f xs @ set_where P f ys"
  "set_where P f (x # xs) = (if P x then f x else x) # set_where P f xs"
  "length (set_where P f xs) = length xs"
  by (simp_all add: set_where_def)

lemma set_set_where: "set (set_where P f rows) = (\<lambda>r. if P r then f r else r) ` set rows"
  by (simp add: set_where_def)

lemma map_set_where:
  "(\<And>r. r \<in> set rows \<Longrightarrow> P r \<Longrightarrow> g (f r) = g r) \<Longrightarrow> map g (set_where P f rows) = map g rows"
  by (simp add: set_where_def)

lemma set_delete_rows [simp]: "set (delete_rows P rows) = {r \<in> set rows. \<not> P r}"
  by (simp add: delete_rows_def)

lemma delete_rows_none: "(\<And>r. r \<in> set rows \<Longrightarrow> \<not> P r) \<Longrightarrow> delete_rows P rows = rows"
  by (simp add: delete_rows_def)

lemma distinct_map_delete_rows: "distinct (map g rows) \<Longrightarrow> distinct (map g (delete_rows P rows))"
  by (simp add: delete_rows_def distinct_map_filter)

lemma rowcount_delete_rows: "rowcount Q (delete_rows P rows) \<le> rowcount Q rows"
  by (induction rows) (auto simp: rowcount_def delete_rows_def)

lemma rowcount_append [simp]: "rowcount P (xs @ ys) = rowcount P xs + rowcount P ys"
  by (simp add: rowcount_def)

lemma rowcount_simps [simp]:
  "rowcount P [] = 0" "rowcount P (x # xs) = (if P x then 1 else 0) + rowcount P xs"
  by (simp_all add: rowcount_def)

lemma rowcount_set_where:
  "(\<And>r. r \<in> set rows \<Longrightarrow> P r \<Longrightarrow> Q (f r) = Q r) \<Longrightarrow> rowcount Q (set_where P f rows) = rowcount Q rows"
  by (induction rows) auto

lemma fetchone_Some: "fetchone P rows = Some r \<Longrightarrow> r \<in> set rows \<and> P r"
  by (auto simp: fetchone_def find_Some_iff)

lemma fetchone_None_iff: "fetchone P rows = None \<longleftrightarrow> (\<forall>r \<in> set rows. \<not> P r)"
  by (auto simp: fetchone_def find_None_iff)

text \<open>On a key column a query has at most one answer.\<close>

lemma key_unique: "distinct (map k rows) \<Longrightarrow> r \<in> set rows \<Longrightarrow> q \<in> set rows \<Longrightarrow> k r = k q \<Longrightarrow> r = q"
  by (auto simp: distinct_map inj_on_def)

lemma fetchone_key:
  "distinct (map k rows) \<Longrightarrow> r \<in> set rows \<Longrightarrow> k r = v \<Longrightarrow> fetchone (\<lambda>q. k q = v) rows = Some r"
  by (cases "fetchone (\<lambda>q. k q = v) rows")
    (auto simp: fetchone_None_iff dest!: fetchone_Some dest: key_unique)

lemma rowcount_key: "distinct (map k rows) \<Longrightarrow> rowcount (\<lambda>q. k q = v) rows \<le> 1"
  by (induction rows) (auto simp: rowcount_def filter_empty_conv image_iff)

lemma rowcount_pos_iff: "0 < rowcount P rows \<longleftrightarrow> (\<exists>r \<in> set rows. P r)"
  by (auto simp: rowcount_def filter_empty_conv)

end
