(* ===== verification/Auth_Codec.thy ===== *)
theory Auth_Codec
  imports Binary_Text Identity Store_Monad
begin

text \<open>
  The module-level functions of \<open>auth.py\<close>: limits, argument validators, opaque tokens, TOTP
  secrets and codes, recovery codes and key derivation. \<open>auth_env\<close> collects what an \<open>AuthStore\<close>
  is constructed with (clock, random source, master key, issuer, WebAuthn configuration) and
  the primitives of other packages (HMAC, AES-GCM, WebAuthn) and of the interpreter's C
  libraries that the store calls; they stay parameters.
\<close>

section \<open>Limits\<close>

definition TOTP_PERIOD_SECONDS :: int where "TOTP_PERIOD_SECONDS = 30"
definition TOTP_WINDOW :: int where "TOTP_WINDOW = 1"
definition TOTP_SECRET_BYTES :: nat where "TOTP_SECRET_BYTES = 20"
definition RECOVERY_CODE_COUNT :: nat where "RECOVERY_CODE_COUNT = 10"
definition CHALLENGE_LIFETIME_SECONDS :: int where "CHALLENGE_LIFETIME_SECONDS = 5 * 60"
definition CHALLENGE_FAILURE_LIMIT :: int where "CHALLENGE_FAILURE_LIMIT = 5"
definition SESSION_IDLE_SECONDS :: int where "SESSION_IDLE_SECONDS = 72 * 60 * 60"
definition SESSION_ABSOLUTE_SECONDS :: int where "SESSION_ABSOLUTE_SECONDS = 30 * 24 * 60 * 60"
definition STEP_UP_SECONDS :: int where "STEP_UP_SECONDS = 5 * 60"
definition MAX_SESSIONS_PER_ACCOUNT :: nat where "MAX_SESSIONS_PER_ACCOUNT = 5"
definition MAX_PASSKEYS_PER_ACCOUNT :: nat where "MAX_PASSKEYS_PER_ACCOUNT = 10"
definition TOKEN_BYTES :: nat where "TOKEN_BYTES = 32"
definition ACCOUNT_ID_BYTES :: nat where "ACCOUNT_ID_BYTES = 16"
definition SESSION_ID_BYTES :: nat where "SESSION_ID_BYTES = 16"
definition AES_GCM_NONCE_BYTES :: nat where "AES_GCM_NONCE_BYTES = 12"
definition MAX_CHALLENGES_PER_ACCOUNT :: nat where "MAX_CHALLENGES_PER_ACCOUNT = 5"
definition MAX_PASSKEY_CHALLENGES_PER_ACCOUNT :: nat where "MAX_PASSKEY_CHALLENGES_PER_ACCOUNT = 5"
definition MAX_ANONYMOUS_PASSKEY_LOGIN_CHALLENGES :: nat where
  "MAX_ANONYMOUS_PASSKEY_LOGIN_CHALLENGES = 256"
definition MAX_RATE_LIMIT_ROWS :: nat where "MAX_RATE_LIMIT_ROWS = 1024"
definition MAX_CREDENTIAL_ID_BYTES :: nat where "MAX_CREDENTIAL_ID_BYTES = 1024"
definition MAX_PASSKEY_NAME_LENGTH :: nat where "MAX_PASSKEY_NAME_LENGTH = 100"
definition MAX_USER_AGENT_LENGTH :: nat where "MAX_USER_AGENT_LENGTH = 512"
definition MAX_MAIL_RULES_PER_ACCOUNT :: nat where "MAX_MAIL_RULES_PER_ACCOUNT = 100"
definition MAX_MAIL_RULE_RUNS_PER_ACCOUNT :: nat where "MAX_MAIL_RULE_RUNS_PER_ACCOUNT = 100"
definition MAX_MAIL_RULE_EXPRESSION_BYTES :: nat where "MAX_MAIL_RULE_EXPRESSION_BYTES = 32 * 1024"
definition MAX_MAIL_RULE_STATE_BYTES :: nat where "MAX_MAIL_RULE_STATE_BYTES = 64 * 1024"

lemmas auth_limits = TOTP_PERIOD_SECONDS_def TOTP_WINDOW_def TOTP_SECRET_BYTES_def
  RECOVERY_CODE_COUNT_def CHALLENGE_LIFETIME_SECONDS_def CHALLENGE_FAILURE_LIMIT_def
  SESSION_IDLE_SECONDS_def SESSION_ABSOLUTE_SECONDS_def STEP_UP_SECONDS_def
  MAX_SESSIONS_PER_ACCOUNT_def MAX_PASSKEYS_PER_ACCOUNT_def TOKEN_BYTES_def ACCOUNT_ID_BYTES_def
  SESSION_ID_BYTES_def AES_GCM_NONCE_BYTES_def MAX_CHALLENGES_PER_ACCOUNT_def
  MAX_PASSKEY_CHALLENGES_PER_ACCOUNT_def MAX_ANONYMOUS_PASSKEY_LOGIN_CHALLENGES_def
  MAX_RATE_LIMIT_ROWS_def MAX_CREDENTIAL_ID_BYTES_def MAX_PASSKEY_NAME_LENGTH_def
  MAX_USER_AGENT_LENGTH_def MAX_MAIL_RULES_PER_ACCOUNT_def MAX_MAIL_RULE_RUNS_PER_ACCOUNT_def
  MAX_MAIL_RULE_EXPRESSION_BYTES_def MAX_MAIL_RULE_STATE_BYTES_def

section \<open>Roles and enrollment states\<close>

datatype Role = ADMIN | USER

datatype EnrollmentState = REQUIRED | PENDING | ACTIVE

section \<open>The environment of a store\<close>

text \<open>
  A parsed WebAuthn response and the outcome of its verification, as \<open>py_webauthn\<close> returns
  them: only the attributes the store reads.
\<close>

record WebAuthnResponse =
  raw_id :: bytes
  user_handle :: "bytes option"
  response_transports :: "pystr list"

record VerifiedCredential =
  verified_credential_id :: bytes
  verified_public_key :: bytes
  verified_sign_count :: int
  verified_device_type :: pystr
  verified_backed_up :: bool
  verified_user :: bool

record auth_env =
  hmac_sha256 :: "bytes \<Rightarrow> bytes \<Rightarrow> bytes"
  hmac_sha1 :: "bytes \<Rightarrow> bytes \<Rightarrow> bytes"
  aesgcm_encrypt :: "bytes \<Rightarrow> bytes \<Rightarrow> bytes \<Rightarrow> bytes \<Rightarrow> bytes"
  aesgcm_decrypt :: "bytes \<Rightarrow> bytes \<Rightarrow> bytes \<Rightarrow> bytes \<Rightarrow> bytes option"
  ip_address :: "pystr \<Rightarrow> pystr option"
  upper_nonascii :: "nat \<Rightarrow> pystr"
  isalnum_nonascii :: "nat \<Rightarrow> bool"
  clock :: "nat \<Rightarrow> clock_reading"
  random_source :: "nat \<Rightarrow> nat \<Rightarrow> pyval"
  master_key :: bytes
  issuer :: pystr
  webauthn_rp_id :: "pystr option"
  webauthn_origin :: "pystr option"
  parse_registration_credential_json :: "pyval \<Rightarrow> WebAuthnResponse res"
  parse_authentication_credential_json :: "pyval \<Rightarrow> WebAuthnResponse res"
  verify_registration :: "WebAuthnResponse \<Rightarrow> bytes \<Rightarrow> pystr \<Rightarrow> pystr \<Rightarrow> VerifiedCredential res"
  verify_authentication ::
    "WebAuthnResponse \<Rightarrow> bytes \<Rightarrow> pystr \<Rightarrow> pystr \<Rightarrow> bytes \<Rightarrow> int \<Rightarrow> VerifiedCredential res"
  registration_options :: "pystr \<Rightarrow> pystr \<Rightarrow> bytes \<Rightarrow> pystr \<Rightarrow> bytes \<Rightarrow> bytes list \<Rightarrow> pyval res"
  authentication_options :: "pystr \<Rightarrow> bytes \<Rightarrow> bytes list \<Rightarrow> pyval res"
  json_dumps :: "pyval \<Rightarrow> pystr res"
  json_dumps_ascii :: "pyval \<Rightarrow> pystr res"
  json_loads :: "pystr \<Rightarrow> pyval res"

section \<open>Validators\<close>

definition is_hex_char :: "nat \<Rightarrow> bool" where
  "is_hex_char c \<longleftrightarrow> is_digit c \<or> (97 \<le> c \<and> c \<le> 102)"

definition hex_identifier :: "pystr \<Rightarrow> bool" where
  "hex_identifier s \<longleftrightarrow> length s = 32 \<and> list_all is_hex_char s"

definition is_token_char :: "nat \<Rightarrow> bool" where
  "is_token_char c \<longleftrightarrow> is_ascii_alnum c \<or> c = 95 \<or> c = 45"

definition OPAQUE_TOKEN_PATTERN :: "pystr \<Rightarrow> bool" where
  "OPAQUE_TOKEN_PATTERN s \<longleftrightarrow> length s = 43 \<and> list_all is_token_char s"

definition coerce_role :: "pyval \<Rightarrow> Role res" where
  "coerce_role value =
     (if value = PyStr (lit ''admin'') then Inr ADMIN
      else if value = PyStr (lit ''user'') then Inr USER
      else Inl ValueError)"

definition coerce_bool :: "pyval \<Rightarrow> bool res" where
  "coerce_bool value = (case value of PyBool b \<Rightarrow> Inr b | _ \<Rightarrow> Inl ValueError)"

text \<open>
  The five identifier validators share one pattern, \<open>[0-9a-f]{32}\<close>, and differ in the message.
\<close>

definition validate_identifier :: "pyval \<Rightarrow> pystr res" where
  "validate_identifier value =
     (case value of
        PyStr s \<Rightarrow> if hex_identifier s then Inr s else Inl ValueError
      | _ \<Rightarrow> Inl ValueError)"

definition validate_account_id :: "pyval \<Rightarrow> pystr res" where
  "validate_account_id = validate_identifier"

definition validate_session_id :: "pyval \<Rightarrow> pystr res" where
  "validate_session_id = validate_identifier"

definition validate_passkey_public_id :: "pyval \<Rightarrow> pystr res" where
  "validate_passkey_public_id = validate_identifier"

definition validate_mail_rule_id :: "pyval \<Rightarrow> pystr res" where
  "validate_mail_rule_id = validate_identifier"

definition validate_mail_rule_run_id :: "pyval \<Rightarrow> pystr res" where
  "validate_mail_rule_run_id = validate_identifier"

lemmas identifier_defs = validate_account_id_def validate_session_id_def
  validate_passkey_public_id_def validate_mail_rule_id_def validate_mail_rule_run_id_def

text \<open>Characters in \<open>'\r\n\0'\<close>, and the control characters below U+0020 with U+007F.\<close>

definition is_line_control :: "nat \<Rightarrow> bool" where
  "is_line_control c \<longleftrightarrow> c = 13 \<or> c = 10 \<or> c = 0"

definition is_ascii_control :: "nat \<Rightarrow> bool" where
  "is_ascii_control c \<longleftrightarrow> c < 32 \<or> c = 127"

definition validate_issuer :: "pyval \<Rightarrow> pystr res" where
  "validate_issuer value =
     (case value of
        PyStr v \<Rightarrow>
          (let i = strip v in
           if i = [] \<or> 64 < length i \<or> \<not> isascii i \<or> 58 \<in> set i \<or> list_ex is_ascii_control i
           then Inl ValueError else Inr i)
      | _ \<Rightarrow> Inl ValueError)"

definition normalize_passkey_name :: "pyval \<Rightarrow> pystr res" where
  "normalize_passkey_name value =
     (case value of
        PyStr v \<Rightarrow>
          (let n = strip v in
           if n = [] \<or> MAX_PASSKEY_NAME_LENGTH < length n \<or> list_ex is_line_control n
           then Inl ValueError else Inr n)
      | _ \<Rightarrow> Inl ValueError)"

definition canonical_ip :: "auth_env \<Rightarrow> pyval \<Rightarrow> pystr res" where
  "canonical_ip env value =
     (case value of
        PyStr v \<Rightarrow> (case ip_address env (strip v) of None \<Rightarrow> Inl ValueError | Some a \<Rightarrow> Inr a)
      | _ \<Rightarrow> Inl ValueError)"

definition normalize_session_metadata ::
  "auth_env \<Rightarrow> pyval \<Rightarrow> pyval \<Rightarrow> (pystr option \<times> pystr option) res" where
  "normalize_session_metadata env client_ip user_agent =
     bind_res (if client_ip = PyNone then Inr None
               else bind_res (canonical_ip env client_ip) (\<lambda>a. Inr (Some a))) (\<lambda>ip.
     case user_agent of
       PyNone \<Rightarrow> Inr (ip, None)
     | PyStr v \<Rightarrow>
         (let ua = strip v in
          if ua = [] then Inr (ip, None)
          else if MAX_USER_AGENT_LENGTH < length ua \<or> list_ex is_line_control ua
          then Inl ValueError else Inr (ip, Some ua))
     | _ \<Rightarrow> Inl ValueError)"

definition normalize_mail_rule_name :: "pyval \<Rightarrow> pystr res" where
  "normalize_mail_rule_name value =
     (case value of
        PyStr v \<Rightarrow>
          (let n = strip v in
           if length n < 1 \<or> 128 < length n \<or> list_ex is_ascii_control n
           then Inl ValueError else Inr n)
      | _ \<Rightarrow> Inl ValueError)"

definition normalize_mailbox_metadata :: "pyval \<Rightarrow> pystr res" where
  "normalize_mailbox_metadata value =
     (case value of
        PyStr v \<Rightarrow>
          (if length v < 1 \<or> 255 < length v \<or> v \<noteq> strip v \<or> list_ex is_ascii_control v
           then Inl ValueError else Inr v)
      | _ \<Rightarrow> Inl ValueError)"

section \<open>Opaque tokens\<close>

definition encode_opaque_token :: "bytes \<Rightarrow> pystr" where
  "encode_opaque_token value = urlsafe_b64encode value"

definition decode_opaque_token :: "pyval \<Rightarrow> bytes option" where
  "decode_opaque_token value =
     (case value of
        PyStr s \<Rightarrow>
          (if OPAQUE_TOKEN_PATTERN s then
             case urlsafe_b64decode s of
               Some b \<Rightarrow> if length b = TOKEN_BYTES then Some b else None
             | None \<Rightarrow> None
           else None)
      | _ \<Rightarrow> None)"

text \<open>\<open>_opaque_digest\<close>: a token of the wrong shape is digested as the empty text.\<close>

definition bounded_token :: "pyval \<Rightarrow> pystr" where
  "bounded_token token =
     (case token of PyStr s \<Rightarrow> if OPAQUE_TOKEN_PATTERN s then s else [] | _ \<Rightarrow> [])"

definition opaque_digest :: "auth_env \<Rightarrow> bytes \<Rightarrow> pyval \<Rightarrow> bytes" where
  "opaque_digest env key token = hmac_sha256 env key (ascii_bytes (bounded_token token))"

section \<open>Keys\<close>

definition derive_key :: "auth_env \<Rightarrow> string \<Rightarrow> bytes" where
  "derive_key env label =
     hmac_sha256 env (master_key env) (ascii_bytes (lit ''maddyweb-auth-v1'') @ 0 # ascii_bytes (lit label))"

definition encryption_key :: "auth_env \<Rightarrow> bytes" where
  "encryption_key env = derive_key env ''totp-encryption''"
definition challenge_digest_key :: "auth_env \<Rightarrow> bytes" where
  "challenge_digest_key env = derive_key env ''challenge-digest''"
definition passkey_challenge_digest_key :: "auth_env \<Rightarrow> bytes" where
  "passkey_challenge_digest_key env = derive_key env ''passkey-challenge-digest''"
definition session_digest_key :: "auth_env \<Rightarrow> bytes" where
  "session_digest_key env = derive_key env ''session-digest''"
definition recovery_digest_key :: "auth_env \<Rightarrow> bytes" where
  "recovery_digest_key env = derive_key env ''recovery-digest''"
definition rate_digest_key :: "auth_env \<Rightarrow> bytes" where
  "rate_digest_key env = derive_key env ''rate-digest''"

definition totp_aad :: "pystr \<Rightarrow> pystr \<Rightarrow> bytes" where
  "totp_aad account_id canonical_email =
     ascii_bytes (lit ''maddyweb-totp-seed-v1'') @ 0 # ascii_bytes account_id @ 0 # ascii_bytes canonical_email"

section \<open>TOTP\<close>

definition encode_totp_secret :: "bytes \<Rightarrow> pystr" where
  "encode_totp_secret value = b32encode value"

definition upper_char :: "nat \<Rightarrow> nat" where
  "upper_char c = (if 97 \<le> c \<and> c \<le> 122 then c - 32 else c)"

definition upper :: "auth_env \<Rightarrow> pystr \<Rightarrow> pystr" where
  "upper env s = concat (map (\<lambda>c. if c < 128 then [upper_char c] else upper_nonascii env c) s)"

text \<open>
  \<open>''.join(value.upper().split())\<close> removes all white space. \<open>base64.b32decode\<close> of 32 characters
  gives 20 bytes only when none of them is padding: with padding it raises or gives fewer
  bytes, and either way \<open>decode_totp_secret\<close> raises \<open>ValueError\<close>.
\<close>

definition decode_totp_secret :: "auth_env \<Rightarrow> pyval \<Rightarrow> bytes res" where
  "decode_totp_secret env value =
     (case value of
        PyStr v \<Rightarrow>
          (if v = [] then Inl ValueError
           else let normalized = filter (\<lambda>c. \<not> isspace c) (upper env v) in
             if \<not> isascii normalized \<or> length normalized \<noteq> 32 then Inl ValueError
             else case b32decode normalized of
               None \<Rightarrow> Inl ValueError
             | Some b \<Rightarrow> if length b \<noteq> TOTP_SECRET_BYTES then Inl ValueError else Inr b)
      | _ \<Rightarrow> Inl ValueError)"

definition six_digits :: "nat \<Rightarrow> pystr" where
  "six_digits n = map (\<lambda>i. 48 + n div 10 ^ i mod 10) [5, 4, 3, 2, 1, 0]"

text \<open>
  \<open>_totp_for_counter\<close>: dynamic truncation of the HMAC-SHA1 of the counter. \<open>struct\<close> refuses a
  counter outside 64 bits and a slice that is not four bytes long.
\<close>

definition totp_for_counter :: "auth_env \<Rightarrow> bytes \<Rightarrow> int \<Rightarrow> pystr res" where
  "totp_for_counter env secret counter =
     (if counter < 0 \<or> 2 ^ 64 \<le> counter then Inl StructError
      else let digest = hmac_sha1 env secret (be_bytes 8 counter) in
        if digest = [] then Inl IndexError
        else let offset = unat (last digest) mod 16;
                 window = take 4 (drop offset digest)
          in if length window \<noteq> 4 then Inl StructError
             else Inr (six_digits (be_value window mod 2 ^ 31 mod 1000000)))"

text \<open>\<open>range(max(0, current - TOTP_WINDOW), current + TOTP_WINDOW + 1)\<close>, the last match wins.\<close>

fun match_counters :: "auth_env \<Rightarrow> bytes \<Rightarrow> pystr \<Rightarrow> int option \<Rightarrow> int list \<Rightarrow> int option res" where
  "match_counters env secret bounded matching [] = Inr matching"
| "match_counters env secret bounded matching (c # cs) =
     bind_res (totp_for_counter env secret c) (\<lambda>code.
       match_counters env secret bounded (if code = bounded then Some c else matching) cs)"

definition matching_totp_counter :: "auth_env \<Rightarrow> bytes \<Rightarrow> pyval \<Rightarrow> int \<Rightarrow> int option res" where
  "matching_totp_counter env secret code now =
     (let bounded = (case code of PyStr s \<Rightarrow> if length s = 6 \<and> isascii s then s else [] | _ \<Rightarrow> []);
          current = now div TOTP_PERIOD_SECONDS
      in match_counters env secret bounded None
           [max 0 (current - TOTP_WINDOW)..current + TOTP_WINDOW])"

text \<open>\<open>quote(text, safe='')\<close> and the value quoting of \<open>urlencode\<close> on ASCII text.\<close>

definition is_unreserved :: "nat \<Rightarrow> bool" where
  "is_unreserved c \<longleftrightarrow> is_ascii_alnum c \<or> c = 95 \<or> c = 46 \<or> c = 45 \<or> c = 126"

definition upper_hex_digit :: "nat \<Rightarrow> nat" where
  "upper_hex_digit v = (if v < 10 then 48 + v else 55 + v)"

definition percent_encode :: "nat \<Rightarrow> pystr" where
  "percent_encode c = [37, upper_hex_digit (c div 16), upper_hex_digit (c mod 16)]"

definition quote :: "pystr \<Rightarrow> pystr" where
  "quote s = concat (map (\<lambda>c. if is_unreserved c then [c] else percent_encode c) s)"

definition quote_plus :: "pystr \<Rightarrow> pystr" where
  "quote_plus s =
     concat (map (\<lambda>c. if c = 32 then [43] else if is_unreserved c then [c] else percent_encode c) s)"

definition totp_provisioning_uri :: "auth_env \<Rightarrow> pyval \<Rightarrow> pyval \<Rightarrow> pyval \<Rightarrow> pystr res" where
  "totp_provisioning_uri env issuer_value email secret =
     bind_res (validate_issuer issuer_value) (\<lambda>normalized_issuer.
     bind_res (canonicalize_email email) (\<lambda>canonical.
     bind_res (decode_totp_secret env secret) (\<lambda>b.
     Inr (lit ''otpauth://totp/'' @ quote (normalized_issuer @ 58 # canonical) @ lit ''?secret=''
          @ quote_plus (encode_totp_secret b) @ lit ''&issuer='' @ quote_plus normalized_issuer
          @ lit ''&algorithm=SHA1&digits=6&period=30''))))"

section \<open>Recovery codes\<close>

text \<open>
  No code point beyond ASCII lower-cases into a hexadecimal digit or a hyphen, so ASCII
  lower-casing decides the pattern for every text.
\<close>

definition normalize_recovery_code :: "pyval \<Rightarrow> pystr res" where
  "normalize_recovery_code value =
     (case value of
        PyStr v \<Rightarrow>
          (let normalized = filter (\<lambda>c. c \<noteq> 45) (lower (strip v)) in
           if hex_identifier normalized then Inr normalized else Inl ValueError)
      | _ \<Rightarrow> Inl ValueError)"

text \<open>\<open>'-'.join(raw[index : index + 4] for index in range(0, 32, 4))\<close>.\<close>

definition format_recovery_code :: "pystr \<Rightarrow> pystr" where
  "format_recovery_code raw = join_on 45 (chunks 4 raw)"

definition validate_recovery_code_set :: "pyval list \<Rightarrow> pystr list res" where
  "validate_recovery_code_set values =
     (if length values \<noteq> RECOVERY_CODE_COUNT then Inl ValueError
      else bind_res (traverse normalize_recovery_code values) (\<lambda>normalized.
        if card (set normalized) \<noteq> RECOVERY_CODE_COUNT then Inl ValueError else Inr normalized))"

definition recovery_digest :: "auth_env \<Rightarrow> pystr \<Rightarrow> pystr \<Rightarrow> bytes" where
  "recovery_digest env account_id normalized_code =
     hmac_sha256 env (recovery_digest_key env) (ascii_bytes account_id @ 0 # ascii_bytes normalized_code)"

section \<open>JSON columns\<close>

text \<open>The length of \<open>encoded.encode('utf-8')\<close>; a surrogate cannot be encoded.\<close>

definition utf8_size :: "pystr \<Rightarrow> nat" where
  "utf8_size s = sum_list (map (\<lambda>c. if c < 128 then 1 else if c < 2048 then 2
     else if c < 65536 then 3 else 4) s)"

definition is_surrogate :: "nat \<Rightarrow> bool" where
  "is_surrogate c \<longleftrightarrow> 55296 \<le> c \<and> c \<le> 57343"

definition canonical_json_object :: "auth_env \<Rightarrow> nat \<Rightarrow> pyval \<Rightarrow> pystr res" where
  "canonical_json_object env maximum_bytes value =
     (case value of
        PyDict _ \<Rightarrow>
          (case json_dumps env value of
             Inl e \<Rightarrow> if is_value_error e \<or> e = TypeError then Inl ValueError else Inl e
           | Inr encoded \<Rightarrow>
               if list_ex is_surrogate encoded then Inl UnicodeEncodeError
               else if utf8_size encoded < 2 \<or> maximum_bytes < utf8_size encoded then Inl ValueError
               else Inr encoded)
      | _ \<Rightarrow> Inl ValueError)"

definition json_object_from_database :: "auth_env \<Rightarrow> pystr \<Rightarrow> pyval res" where
  "json_object_from_database env value =
     (case json_loads env value of
        Inl e \<Rightarrow> if is_value_error e \<or> e = TypeError then Inl AuthenticationDataError else Inl e
      | Inr parsed \<Rightarrow> (case parsed of PyDict _ \<Rightarrow> Inr parsed | _ \<Rightarrow> Inl AuthenticationDataError))"

end
