(* ===== verification/Auth_Schema.thy ===== *)
theory Auth_Schema
  imports Auth_Codec
begin

text \<open>
  The tables of the authentication database, from the SQL schema strings of \<open>auth.py\<close>, with the
  constraints SQLite enforces (PRIMARY KEY, UNIQUE, CHECK, REFERENCES with ON DELETE CASCADE or
  SET NULL), the dataclasses the methods return and the conversions from rows. \<open>auth_metadata\<close> holds
  the schema version and key verifier and is not touched by the operations modelled here;
  \<open>session_id\<close> is present in every row because opening the store fills it in.
\<close>

section \<open>Rows\<close>

record auth_account =
  account_id :: pystr
  canonical_email :: pystr
  role :: Role
  password_change_required :: bool
  enrollment_state :: EnrollmentState
  totp_nonce :: "bytes option"
  totp_ciphertext :: "bytes option"
  enrollment_challenge_digest :: "bytes option"
  totp_last_counter :: int
  created_at :: int
  updated_at :: int

record recovery_code =
  rc_account :: pystr
  code_digest :: bytes
  rc_created_at :: int

record pending_challenge =
  pc_digest :: bytes
  pc_account :: pystr
  pc_created_at :: int
  pc_expires_at :: int
  pc_failure_count :: int

record auth_session =
  session_digest :: bytes
  s_account :: pystr
  s_created_at :: int
  last_seen_at :: int
  absolute_expires_at :: int
  step_up_until :: int
  session_id :: pystr
  client_ip :: "pystr option"
  user_agent :: "pystr option"

datatype rate_scope = GLOBAL | IP | ACCOUNT | PAIR

record rate_limit =
  rl_scope :: rate_scope
  identity_digest :: bytes
  rl_account :: "pystr option"
  account_identity_digest :: "bytes option"
  window_started_at :: int
  attempt_count :: int

record passkey_credential =
  credential_id :: bytes
  public_id :: pystr
  pk_account :: pystr
  public_key :: bytes
  sign_count :: int
  pk_name :: pystr
  device_type :: pystr
  backed_up :: bool
  transports :: pystr
  pk_created_at :: int
  last_used_at :: "int option"

datatype passkey_purpose = Registration | Login | StepUp

record passkey_challenge =
  pkc_digest :: bytes
  purpose :: passkey_purpose
  pkc_account :: "pystr option"
  pkc_session :: "bytes option"
  pkc_created_at :: int
  pkc_expires_at :: int
  pkc_failure_count :: int

record mail_rule =
  rule_id :: pystr
  mr_account :: pystr
  mr_name :: pystr
  enabled :: bool
  position :: int
  expression_json :: pystr
  mr_target :: pystr
  stop_processing :: bool
  revision :: int
  mr_created_at :: int
  mr_updated_at :: int

datatype run_status = Queued | Running | Completed | Failed | Cancelled

record mail_rule_run =
  run_id :: pystr
  run_account :: pystr
  run_rule :: "pystr option"
  rule_revision :: int
  rule_snapshot_json :: pystr
  state_json :: pystr
  run_status :: run_status
  scanned :: int
  matched :: int
  moved :: int
  failed :: int
  run_created_at :: int
  started_at :: "int option"
  run_updated_at :: int
  finished_at :: "int option"
  error_code :: "pystr option"

record auth_db =
  accounts :: "auth_account list"
  recovery_codes :: "recovery_code list"
  pending_challenges :: "pending_challenge list"
  sessions :: "auth_session list"
  rate_limits :: "rate_limit list"
  passkey_credentials :: "passkey_credential list"
  passkey_challenges :: "passkey_challenge list"
  mail_rules :: "mail_rule list"
  mail_rule_runs :: "mail_rule_run list"

type_synonym 'a auth_act = "(auth_db, 'a) act"

definition empty_db :: auth_db where
  "empty_db = \<lparr>accounts = [], recovery_codes = [], pending_challenges = [], sessions = [],
     rate_limits = [], passkey_credentials = [], passkey_challenges = [], mail_rules = [],
     mail_rule_runs = []\<rparr>"

section \<open>Constraints\<close>

text \<open>
  A CHECK refuses a row only when its expression is false: \<open>length(x) = n\<close> is NULL when the column
  is NULL, and a conjunction of true and NULL terms is NULL, which SQLite lets pass. So the table
  alone does not force a nonce on a pending or active account, nor a digest on a pending one.
\<close>

definition sql_length_is :: "nat \<Rightarrow> bytes option \<Rightarrow> bool option" where
  "sql_length_is n x = map_option (\<lambda>b. length b = n) x"

definition not_false :: "bool option \<Rightarrow> bool" where
  "not_false x \<longleftrightarrow> x \<noteq> Some False"

lemma not_false_length: "not_false (sql_length_is n x) \<longleftrightarrow> (\<forall>b. x = Some b \<longrightarrow> length b = n)"
  by (cases x) (auto simp: not_false_def sql_length_is_def)

definition account_check :: "auth_account \<Rightarrow> bool" where
  "account_check a \<longleftrightarrow> length (account_id a) = 32 \<and> - 1 \<le> totp_last_counter a
     \<and> (case enrollment_state a of
          REQUIRED \<Rightarrow> totp_nonce a = None \<and> totp_ciphertext a = None
            \<and> enrollment_challenge_digest a = None \<and> totp_last_counter a = - 1
        | PENDING \<Rightarrow> not_false (sql_length_is 12 (totp_nonce a)) \<and> totp_ciphertext a \<noteq> None
            \<and> not_false (sql_length_is 32 (enrollment_challenge_digest a))
        | ACTIVE \<Rightarrow> not_false (sql_length_is 12 (totp_nonce a)) \<and> totp_ciphertext a \<noteq> None
            \<and> enrollment_challenge_digest a = None)"

text \<open>The referenced key columns.\<close>

abbreviation account_ids :: "auth_db \<Rightarrow> pystr set" where
  "account_ids d \<equiv> account_id ` set (accounts d)"
abbreviation session_digests :: "auth_db \<Rightarrow> bytes set" where
  "session_digests d \<equiv> session_digest ` set (sessions d)"
abbreviation rule_ids :: "auth_db \<Rightarrow> pystr set" where
  "rule_ids d \<equiv> rule_id ` set (mail_rules d)"

definition account_conflict :: "auth_account \<Rightarrow> auth_account \<Rightarrow> bool" where
  "account_conflict a b \<longleftrightarrow> account_id a = account_id b \<or> canonical_email a = canonical_email b"

definition recovery_code_check :: "pystr set \<Rightarrow> recovery_code \<Rightarrow> bool" where
  "recovery_code_check ids r \<longleftrightarrow> rc_account r \<in> ids \<and> length (code_digest r) = 32"

definition recovery_code_conflict :: "recovery_code \<Rightarrow> recovery_code \<Rightarrow> bool" where
  "recovery_code_conflict r q \<longleftrightarrow> rc_account r = rc_account q \<and> code_digest r = code_digest q"

definition pending_challenge_check :: "pystr set \<Rightarrow> pending_challenge \<Rightarrow> bool" where
  "pending_challenge_check ids c \<longleftrightarrow> pc_account c \<in> ids \<and> length (pc_digest c) = 32
     \<and> 0 \<le> pc_failure_count c \<and> pc_failure_count c \<le> 5"

definition pending_challenge_conflict :: "pending_challenge \<Rightarrow> pending_challenge \<Rightarrow> bool" where
  "pending_challenge_conflict c q \<longleftrightarrow> pc_digest c = pc_digest q"

definition session_check :: "pystr set \<Rightarrow> auth_session \<Rightarrow> bool" where
  "session_check ids s \<longleftrightarrow> s_account s \<in> ids \<and> length (session_digest s) = 32
     \<and> length (session_id s) = 32
     \<and> (case user_agent s of None \<Rightarrow> True | Some u \<Rightarrow> length u \<le> 512)"

definition session_conflict :: "auth_session \<Rightarrow> auth_session \<Rightarrow> bool" where
  "session_conflict s q \<longleftrightarrow> session_digest s = session_digest q \<or> session_id s = session_id q"

definition rate_limit_check :: "pystr set \<Rightarrow> rate_limit \<Rightarrow> bool" where
  "rate_limit_check ids r \<longleftrightarrow> length (identity_digest r) = 32
     \<and> (case rl_account r of None \<Rightarrow> True | Some i \<Rightarrow> i \<in> ids)
     \<and> (case account_identity_digest r of None \<Rightarrow> True | Some x \<Rightarrow> length x = 32)
     \<and> 0 < attempt_count r"

definition rate_limit_conflict :: "rate_limit \<Rightarrow> rate_limit \<Rightarrow> bool" where
  "rate_limit_conflict r q \<longleftrightarrow> rl_scope r = rl_scope q \<and> identity_digest r = identity_digest q"

definition passkey_credential_check :: "pystr set \<Rightarrow> passkey_credential \<Rightarrow> bool" where
  "passkey_credential_check ids p \<longleftrightarrow> pk_account p \<in> ids
     \<and> 1 \<le> length (credential_id p) \<and> length (credential_id p) \<le> 1024
     \<and> length (public_id p) = 32 \<and> public_key p \<noteq> [] \<and> 0 \<le> sign_count p
     \<and> 1 \<le> length (pk_name p) \<and> length (pk_name p) \<le> 100
     \<and> device_type p \<in> {lit ''single_device'', lit ''multi_device''}"

definition passkey_credential_conflict :: "passkey_credential \<Rightarrow> passkey_credential \<Rightarrow> bool" where
  "passkey_credential_conflict p q \<longleftrightarrow> credential_id p = credential_id q \<or> public_id p = public_id q"

definition passkey_challenge_check :: "pystr set \<Rightarrow> bytes set \<Rightarrow> passkey_challenge \<Rightarrow> bool" where
  "passkey_challenge_check ids digests c \<longleftrightarrow> length (pkc_digest c) = 32
     \<and> 0 \<le> pkc_failure_count c \<and> pkc_failure_count c \<le> 5
     \<and> (case pkc_account c of None \<Rightarrow> purpose c = Login
        | Some i \<Rightarrow> purpose c \<noteq> Login \<and> i \<in> ids)
     \<and> (case pkc_session c of None \<Rightarrow> purpose c = Login
        | Some x \<Rightarrow> purpose c \<noteq> Login \<and> x \<in> digests)"

definition passkey_challenge_conflict :: "passkey_challenge \<Rightarrow> passkey_challenge \<Rightarrow> bool" where
  "passkey_challenge_conflict c q \<longleftrightarrow> pkc_digest c = pkc_digest q"

definition mail_rule_check :: "pystr set \<Rightarrow> mail_rule \<Rightarrow> bool" where
  "mail_rule_check ids r \<longleftrightarrow> mr_account r \<in> ids \<and> length (rule_id r) = 32
     \<and> 1 \<le> length (mr_name r) \<and> length (mr_name r) \<le> 128 \<and> 0 \<le> position r
     \<and> 2 \<le> length (expression_json r) \<and> length (expression_json r) \<le> 32768
     \<and> 1 \<le> length (mr_target r) \<and> length (mr_target r) \<le> 255 \<and> 1 \<le> revision r"

definition mail_rule_conflict :: "mail_rule \<Rightarrow> mail_rule \<Rightarrow> bool" where
  "mail_rule_conflict r q \<longleftrightarrow> rule_id r = rule_id q
     \<or> (mr_account r = mr_account q \<and> position r = position q)"

definition active_run :: "mail_rule_run \<Rightarrow> bool" where
  "active_run r \<longleftrightarrow> run_status r = Queued \<or> run_status r = Running"

definition mail_rule_run_check :: "pystr set \<Rightarrow> pystr set \<Rightarrow> mail_rule_run \<Rightarrow> bool" where
  "mail_rule_run_check ids rules r \<longleftrightarrow> run_account r \<in> ids
     \<and> (case run_rule r of None \<Rightarrow> True | Some i \<Rightarrow> i \<in> rules)
     \<and> length (run_id r) = 32 \<and> 1 \<le> rule_revision r
     \<and> 2 \<le> length (rule_snapshot_json r) \<and> length (rule_snapshot_json r) \<le> 65536
     \<and> 2 \<le> length (state_json r) \<and> length (state_json r) \<le> 65536
     \<and> 0 \<le> scanned r \<and> 0 \<le> matched r \<and> 0 \<le> moved r \<and> 0 \<le> failed r
     \<and> (case error_code r of None \<Rightarrow> True | Some e \<Rightarrow> 1 \<le> length e \<and> length e \<le> 64)"

definition mail_rule_run_conflict :: "mail_rule_run \<Rightarrow> mail_rule_run \<Rightarrow> bool" where
  "mail_rule_run_conflict r q \<longleftrightarrow> run_id r = run_id q
     \<or> (active_run r \<and> active_run q \<and> run_account r = run_account q)"

text \<open>
  A row is admitted beside the rows \<open>others\<close> when it meets the table's CHECK and REFERENCES
  clauses and shares no key with any of them.
\<close>

definition row_ok :: "('r \<Rightarrow> bool) \<Rightarrow> ('r \<Rightarrow> 'r \<Rightarrow> bool) \<Rightarrow> 'r list \<Rightarrow> 'r \<Rightarrow> bool" where
  "row_ok chk conflict others r \<longleftrightarrow> chk r \<and> list_all (\<lambda>q. \<not> conflict r q) others"

abbreviation account_ok :: "auth_account list \<Rightarrow> auth_account \<Rightarrow> bool" where
  "account_ok \<equiv> row_ok account_check account_conflict"
abbreviation recovery_code_ok :: "auth_db \<Rightarrow> recovery_code list \<Rightarrow> recovery_code \<Rightarrow> bool" where
  "recovery_code_ok d \<equiv> row_ok (recovery_code_check (account_ids d)) recovery_code_conflict"
abbreviation pending_challenge_ok :: "auth_db \<Rightarrow> pending_challenge list \<Rightarrow> pending_challenge \<Rightarrow> bool" where
  "pending_challenge_ok d \<equiv> row_ok (pending_challenge_check (account_ids d)) pending_challenge_conflict"
abbreviation session_ok :: "auth_db \<Rightarrow> auth_session list \<Rightarrow> auth_session \<Rightarrow> bool" where
  "session_ok d \<equiv> row_ok (session_check (account_ids d)) session_conflict"
abbreviation rate_limit_ok :: "auth_db \<Rightarrow> rate_limit list \<Rightarrow> rate_limit \<Rightarrow> bool" where
  "rate_limit_ok d \<equiv> row_ok (rate_limit_check (account_ids d)) rate_limit_conflict"
abbreviation passkey_credential_ok :: "auth_db \<Rightarrow> passkey_credential list \<Rightarrow> passkey_credential \<Rightarrow> bool" where
  "passkey_credential_ok d \<equiv> row_ok (passkey_credential_check (account_ids d)) passkey_credential_conflict"
abbreviation passkey_challenge_ok :: "auth_db \<Rightarrow> passkey_challenge list \<Rightarrow> passkey_challenge \<Rightarrow> bool" where
  "passkey_challenge_ok d \<equiv> row_ok (passkey_challenge_check (account_ids d) (session_digests d)) passkey_challenge_conflict"
abbreviation mail_rule_ok :: "auth_db \<Rightarrow> mail_rule list \<Rightarrow> mail_rule \<Rightarrow> bool" where
  "mail_rule_ok d \<equiv> row_ok (mail_rule_check (account_ids d)) mail_rule_conflict"
abbreviation mail_rule_run_ok :: "auth_db \<Rightarrow> mail_rule_run list \<Rightarrow> mail_rule_run \<Rightarrow> bool" where
  "mail_rule_run_ok d \<equiv> row_ok (mail_rule_run_check (account_ids d) (rule_ids d)) mail_rule_run_conflict"

section \<open>Statements\<close>

text \<open>
  \<open>DELETE\<close> with its cascades. Deleting sessions removes the passkey challenges bound to them,
  deleting accounts removes everything that references them, deleting a mail rule detaches its
  runs.
\<close>

definition drop_sessions :: "(auth_session \<Rightarrow> bool) \<Rightarrow> auth_db \<Rightarrow> auth_db" where
  "drop_sessions P d =
     d\<lparr>sessions := delete_rows P (sessions d),
       passkey_challenges := delete_rows
         (\<lambda>c. \<exists>s \<in> set (sessions d). P s \<and> pkc_session c = Some (session_digest s))
         (passkey_challenges d)\<rparr>"

definition drop_mail_rules :: "(mail_rule \<Rightarrow> bool) \<Rightarrow> auth_db \<Rightarrow> auth_db" where
  "drop_mail_rules P d =
     d\<lparr>mail_rules := delete_rows P (mail_rules d),
       mail_rule_runs := set_where
         (\<lambda>r. \<exists>m \<in> set (mail_rules d). P m \<and> run_rule r = Some (rule_id m))
         (\<lambda>r. r\<lparr>run_rule := None\<rparr>) (mail_rule_runs d)\<rparr>"

definition drop_accounts :: "(auth_account \<Rightarrow> bool) \<Rightarrow> auth_db \<Rightarrow> auth_db" where
  "drop_accounts P d =
     (let gone = (\<lambda>i. \<exists>a \<in> set (accounts d). P a \<and> account_id a = i);
          d1 = drop_mail_rules (\<lambda>r. gone (mr_account r)) (drop_sessions (\<lambda>s. gone (s_account s)) d)
      in d1\<lparr>accounts := delete_rows P (accounts d1),
            recovery_codes := delete_rows (\<lambda>r. gone (rc_account r)) (recovery_codes d1),
            pending_challenges := delete_rows (\<lambda>c. gone (pc_account c)) (pending_challenges d1),
            rate_limits := delete_rows (\<lambda>r. \<exists>i. rl_account r = Some i \<and> gone i) (rate_limits d1),
            passkey_credentials := delete_rows (\<lambda>p. gone (pk_account p)) (passkey_credentials d1),
            passkey_challenges := delete_rows (\<lambda>c. \<exists>i. pkc_account c = Some i \<and> gone i)
              (passkey_challenges d1),
            mail_rule_runs := delete_rows (\<lambda>r. gone (run_account r)) (mail_rule_runs d1)\<rparr>)"

definition delete_accounts :: "(auth_account \<Rightarrow> bool) \<Rightarrow> nat auth_act" where
  "delete_accounts P = executeA (\<lambda>d. Inr (rowcount P (accounts d), drop_accounts P d))"

definition delete_sessions :: "(auth_session \<Rightarrow> bool) \<Rightarrow> nat auth_act" where
  "delete_sessions P = executeA (\<lambda>d. Inr (rowcount P (sessions d), drop_sessions P d))"

definition delete_mail_rules :: "(mail_rule \<Rightarrow> bool) \<Rightarrow> nat auth_act" where
  "delete_mail_rules P = executeA (\<lambda>d. Inr (rowcount P (mail_rules d), drop_mail_rules P d))"

definition delete_recovery_codes :: "(recovery_code \<Rightarrow> bool) \<Rightarrow> nat auth_act" where
  "delete_recovery_codes P = executeA (\<lambda>d. Inr (rowcount P (recovery_codes d),
     d\<lparr>recovery_codes := delete_rows P (recovery_codes d)\<rparr>))"

definition delete_pending_challenges :: "(pending_challenge \<Rightarrow> bool) \<Rightarrow> nat auth_act" where
  "delete_pending_challenges P = executeA (\<lambda>d. Inr (rowcount P (pending_challenges d),
     d\<lparr>pending_challenges := delete_rows P (pending_challenges d)\<rparr>))"

definition delete_rate_limits :: "(rate_limit \<Rightarrow> bool) \<Rightarrow> nat auth_act" where
  "delete_rate_limits P = executeA (\<lambda>d. Inr (rowcount P (rate_limits d),
     d\<lparr>rate_limits := delete_rows P (rate_limits d)\<rparr>))"

definition delete_passkey_credentials :: "(passkey_credential \<Rightarrow> bool) \<Rightarrow> nat auth_act" where
  "delete_passkey_credentials P = executeA (\<lambda>d. Inr (rowcount P (passkey_credentials d),
     d\<lparr>passkey_credentials := delete_rows P (passkey_credentials d)\<rparr>))"

definition delete_passkey_challenges :: "(passkey_challenge \<Rightarrow> bool) \<Rightarrow> nat auth_act" where
  "delete_passkey_challenges P = executeA (\<lambda>d. Inr (rowcount P (passkey_challenges d),
     d\<lparr>passkey_challenges := delete_rows P (passkey_challenges d)\<rparr>))"

definition delete_mail_rule_runs :: "(mail_rule_run \<Rightarrow> bool) \<Rightarrow> nat auth_act" where
  "delete_mail_rule_runs P = executeA (\<lambda>d. Inr (rowcount P (mail_rule_runs d),
     d\<lparr>mail_rule_runs := delete_rows P (mail_rule_runs d)\<rparr>))"

text \<open>\<open>INSERT\<close>.\<close>

definition insert_account :: "auth_account \<Rightarrow> unit auth_act" where
  "insert_account a = executeA (\<lambda>d. bind_res (insert_row account_ok a (accounts d)) (\<lambda>rows.
     Inr ((), d\<lparr>accounts := rows\<rparr>)))"

definition insert_recovery_code :: "recovery_code \<Rightarrow> unit auth_act" where
  "insert_recovery_code r = executeA (\<lambda>d.
     bind_res (insert_row (recovery_code_ok d) r (recovery_codes d)) (\<lambda>rows.
     Inr ((), d\<lparr>recovery_codes := rows\<rparr>)))"

definition insert_pending_challenge :: "pending_challenge \<Rightarrow> unit auth_act" where
  "insert_pending_challenge c = executeA (\<lambda>d.
     bind_res (insert_row (pending_challenge_ok d) c (pending_challenges d)) (\<lambda>rows.
     Inr ((), d\<lparr>pending_challenges := rows\<rparr>)))"

definition insert_session :: "auth_session \<Rightarrow> unit auth_act" where
  "insert_session r = executeA (\<lambda>d.
     bind_res (insert_row (session_ok d) r (sessions d)) (\<lambda>rows. Inr ((), d\<lparr>sessions := rows\<rparr>)))"

definition insert_rate_limit :: "rate_limit \<Rightarrow> unit auth_act" where
  "insert_rate_limit r = executeA (\<lambda>d.
     bind_res (insert_row (rate_limit_ok d) r (rate_limits d)) (\<lambda>rows.
     Inr ((), d\<lparr>rate_limits := rows\<rparr>)))"

definition insert_passkey_credential :: "passkey_credential \<Rightarrow> unit auth_act" where
  "insert_passkey_credential p = executeA (\<lambda>d.
     bind_res (insert_row (passkey_credential_ok d) p (passkey_credentials d)) (\<lambda>rows.
     Inr ((), d\<lparr>passkey_credentials := rows\<rparr>)))"

definition insert_passkey_challenge :: "passkey_challenge \<Rightarrow> unit auth_act" where
  "insert_passkey_challenge c = executeA (\<lambda>d.
     bind_res (insert_row (passkey_challenge_ok d) c (passkey_challenges d)) (\<lambda>rows.
     Inr ((), d\<lparr>passkey_challenges := rows\<rparr>)))"

definition insert_mail_rule :: "mail_rule \<Rightarrow> unit auth_act" where
  "insert_mail_rule r = executeA (\<lambda>d.
     bind_res (insert_row (mail_rule_ok d) r (mail_rules d)) (\<lambda>rows.
     Inr ((), d\<lparr>mail_rules := rows\<rparr>)))"

definition insert_mail_rule_run :: "mail_rule_run \<Rightarrow> unit auth_act" where
  "insert_mail_rule_run r = executeA (\<lambda>d.
     bind_res (insert_row (mail_rule_run_ok d) r (mail_rule_runs d)) (\<lambda>rows.
     Inr ((), d\<lparr>mail_rule_runs := rows\<rparr>)))"

text \<open>\<open>UPDATE\<close>, which returns the number of rows written.\<close>

definition update_accounts ::
  "(auth_account \<Rightarrow> bool) \<Rightarrow> (auth_account \<Rightarrow> auth_account) \<Rightarrow> nat auth_act" where
  "update_accounts P f = executeA (\<lambda>d. bind_res (update_rows account_ok P f (accounts d)) (\<lambda>rows.
     Inr (rowcount P (accounts d), d\<lparr>accounts := rows\<rparr>)))"

definition update_pending_challenges ::
  "(pending_challenge \<Rightarrow> bool) \<Rightarrow> (pending_challenge \<Rightarrow> pending_challenge) \<Rightarrow> nat auth_act" where
  "update_pending_challenges P f = executeA (\<lambda>d.
     bind_res (update_rows (pending_challenge_ok d) P f (pending_challenges d)) (\<lambda>rows.
     Inr (rowcount P (pending_challenges d), d\<lparr>pending_challenges := rows\<rparr>)))"

definition update_sessions ::
  "(auth_session \<Rightarrow> bool) \<Rightarrow> (auth_session \<Rightarrow> auth_session) \<Rightarrow> nat auth_act" where
  "update_sessions P f = executeA (\<lambda>d. bind_res (update_rows (session_ok d) P f (sessions d)) (\<lambda>rows.
     Inr (rowcount P (sessions d), d\<lparr>sessions := rows\<rparr>)))"

definition update_rate_limits ::
  "(rate_limit \<Rightarrow> bool) \<Rightarrow> (rate_limit \<Rightarrow> rate_limit) \<Rightarrow> nat auth_act" where
  "update_rate_limits P f = executeA (\<lambda>d.
     bind_res (update_rows (rate_limit_ok d) P f (rate_limits d)) (\<lambda>rows.
     Inr (rowcount P (rate_limits d), d\<lparr>rate_limits := rows\<rparr>)))"

definition update_passkey_credentials ::
  "(passkey_credential \<Rightarrow> bool) \<Rightarrow> (passkey_credential \<Rightarrow> passkey_credential) \<Rightarrow> nat auth_act" where
  "update_passkey_credentials P f = executeA (\<lambda>d.
     bind_res (update_rows (passkey_credential_ok d) P f (passkey_credentials d)) (\<lambda>rows.
     Inr (rowcount P (passkey_credentials d), d\<lparr>passkey_credentials := rows\<rparr>)))"

definition update_passkey_challenges ::
  "(passkey_challenge \<Rightarrow> bool) \<Rightarrow> (passkey_challenge \<Rightarrow> passkey_challenge) \<Rightarrow> nat auth_act" where
  "update_passkey_challenges P f = executeA (\<lambda>d.
     bind_res (update_rows (passkey_challenge_ok d) P f (passkey_challenges d)) (\<lambda>rows.
     Inr (rowcount P (passkey_challenges d), d\<lparr>passkey_challenges := rows\<rparr>)))"

definition update_mail_rules ::
  "(mail_rule \<Rightarrow> bool) \<Rightarrow> (mail_rule \<Rightarrow> mail_rule) \<Rightarrow> nat auth_act" where
  "update_mail_rules P f = executeA (\<lambda>d. bind_res (update_rows (mail_rule_ok d) P f (mail_rules d)) (\<lambda>rows.
     Inr (rowcount P (mail_rules d), d\<lparr>mail_rules := rows\<rparr>)))"

definition update_mail_rule_runs ::
  "(mail_rule_run \<Rightarrow> bool) \<Rightarrow> (mail_rule_run \<Rightarrow> mail_rule_run) \<Rightarrow> nat auth_act" where
  "update_mail_rule_runs P f = executeA (\<lambda>d.
     bind_res (update_rows (mail_rule_run_ok d) P f (mail_rule_runs d)) (\<lambda>rows.
     Inr (rowcount P (mail_rule_runs d), d\<lparr>mail_rule_runs := rows\<rparr>)))"

text \<open>A text parameter is bound as UTF-8: a surrogate raises before the statement runs.\<close>

definition bindable :: "pystr \<Rightarrow> bool" where
  "bindable s \<longleftrightarrow> \<not> list_ex is_surrogate s"

definition bind_text :: "pystr option \<Rightarrow> unit auth_act" where
  "bind_text v = guardA (case v of None \<Rightarrow> True | Some s \<Rightarrow> bindable s) UnicodeEncodeError"

section \<open>Weakest preconditions of the statements\<close>

lemma wp_delete_accounts [wp_rules]:
  "Q (rowcount P (accounts d)) (drop_accounts P d) \<Longrightarrow> wp (delete_accounts P) Q E d"
  unfolding delete_accounts_def by (rule wp_execute) auto

lemma wp_delete_sessions [wp_rules]:
  "Q (rowcount P (sessions d)) (drop_sessions P d) \<Longrightarrow> wp (delete_sessions P) Q E d"
  unfolding delete_sessions_def by (rule wp_execute) auto

lemma wp_delete_mail_rules [wp_rules]:
  "Q (rowcount P (mail_rules d)) (drop_mail_rules P d) \<Longrightarrow> wp (delete_mail_rules P) Q E d"
  unfolding delete_mail_rules_def by (rule wp_execute) auto

lemma wp_delete_rows [wp_rules]:
  "Q (rowcount P1 (recovery_codes d)) (d\<lparr>recovery_codes := delete_rows P1 (recovery_codes d)\<rparr>)
     \<Longrightarrow> wp (delete_recovery_codes P1) Q E d"
  "Q (rowcount P2 (pending_challenges d)) (d\<lparr>pending_challenges := delete_rows P2 (pending_challenges d)\<rparr>)
     \<Longrightarrow> wp (delete_pending_challenges P2) Q E d"
  "Q (rowcount P3 (rate_limits d)) (d\<lparr>rate_limits := delete_rows P3 (rate_limits d)\<rparr>)
     \<Longrightarrow> wp (delete_rate_limits P3) Q E d"
  "Q (rowcount P4 (passkey_credentials d)) (d\<lparr>passkey_credentials := delete_rows P4 (passkey_credentials d)\<rparr>)
     \<Longrightarrow> wp (delete_passkey_credentials P4) Q E d"
  "Q (rowcount P5 (passkey_challenges d)) (d\<lparr>passkey_challenges := delete_rows P5 (passkey_challenges d)\<rparr>)
     \<Longrightarrow> wp (delete_passkey_challenges P5) Q E d"
  "Q (rowcount P6 (mail_rule_runs d)) (d\<lparr>mail_rule_runs := delete_rows P6 (mail_rule_runs d)\<rparr>)
     \<Longrightarrow> wp (delete_mail_rule_runs P6) Q E d"
  unfolding delete_recovery_codes_def delete_pending_challenges_def delete_rate_limits_def
    delete_passkey_credentials_def delete_passkey_challenges_def delete_mail_rule_runs_def
  by (rule wp_execute; auto)+

lemma insert_row_Inl: "insert_row ok r rows = Inl e \<Longrightarrow> e = IntegrityError \<and> \<not> ok rows r"
  by (auto simp: insert_row_def split: if_splits)

lemma update_loop_Inl: "update_loop ok P f seen rs = Inl e \<Longrightarrow> e = IntegrityError"
  by (induction rs arbitrary: seen) (auto split: if_splits)

lemma update_rows_Inl: "update_rows ok P f rows = Inl e \<Longrightarrow> e = IntegrityError"
  unfolding update_rows_def by (rule update_loop_Inl)

lemma bind_res_Inl_iff [res_simps]:
  "bind_res r f = Inl e \<longleftrightarrow> r = Inl e \<or> (\<exists>x. r = Inr x \<and> f x = Inl e)"
  by (cases r) auto

text \<open>
  Shared shape of INSERT and UPDATE on one table: the row list is replaced by the outcome, or
  \<open>IntegrityError\<close> is raised and nothing changes.
\<close>

lemma wp_table_insert:
  "(ok d (tab d) r \<Longrightarrow> Q () (upd (tab d @ [r]) d)) \<Longrightarrow> (\<not> ok d (tab d) r \<Longrightarrow> E IntegrityError d) \<Longrightarrow>
     wp (executeA (\<lambda>d. bind_res (insert_row (ok d) r (tab d)) (\<lambda>rows. Inr ((), upd rows d)))) Q E d"
  by (rule wp_execute) (auto simp: insert_row_def split: if_splits)

lemma wp_table_update:
  "(update_rows (ok d) P f (tab d) = Inr (set_where P f (tab d)) \<Longrightarrow>
      Q (rowcount P (tab d)) (upd (set_where P f (tab d)) d)) \<Longrightarrow>
   (update_rows (ok d) P f (tab d) = Inl IntegrityError \<Longrightarrow> E IntegrityError d) \<Longrightarrow>
     wp (executeA (\<lambda>d. bind_res (update_rows (ok d) P f (tab d)) (\<lambda>rows.
       Inr (rowcount P (tab d), upd rows d)))) Q E d"
  by (rule wp_execute) (auto simp: res_simps dest: update_rows_Inr update_rows_Inl)

lemma wp_inserts [wp_rules]:
  "(account_ok (accounts d) a \<Longrightarrow> Q () (d\<lparr>accounts := accounts d @ [a]\<rparr>)) \<Longrightarrow>
     (\<not> account_ok (accounts d) a \<Longrightarrow> E IntegrityError d) \<Longrightarrow> wp (insert_account a) Q E d"
  "(recovery_code_ok d (recovery_codes d) r \<Longrightarrow> Q () (d\<lparr>recovery_codes := recovery_codes d @ [r]\<rparr>)) \<Longrightarrow>
     (\<not> recovery_code_ok d (recovery_codes d) r \<Longrightarrow> E IntegrityError d) \<Longrightarrow>
     wp (insert_recovery_code r) Q E d"
  "(pending_challenge_ok d (pending_challenges d) c \<Longrightarrow>
      Q () (d\<lparr>pending_challenges := pending_challenges d @ [c]\<rparr>)) \<Longrightarrow>
     (\<not> pending_challenge_ok d (pending_challenges d) c \<Longrightarrow> E IntegrityError d) \<Longrightarrow>
     wp (insert_pending_challenge c) Q E d"
  "(session_ok d (sessions d) s \<Longrightarrow> Q () (d\<lparr>sessions := sessions d @ [s]\<rparr>)) \<Longrightarrow>
     (\<not> session_ok d (sessions d) s \<Longrightarrow> E IntegrityError d) \<Longrightarrow> wp (insert_session s) Q E d"
  "(rate_limit_ok d (rate_limits d) l \<Longrightarrow> Q () (d\<lparr>rate_limits := rate_limits d @ [l]\<rparr>)) \<Longrightarrow>
     (\<not> rate_limit_ok d (rate_limits d) l \<Longrightarrow> E IntegrityError d) \<Longrightarrow> wp (insert_rate_limit l) Q E d"
  "(passkey_credential_ok d (passkey_credentials d) p \<Longrightarrow>
      Q () (d\<lparr>passkey_credentials := passkey_credentials d @ [p]\<rparr>)) \<Longrightarrow>
     (\<not> passkey_credential_ok d (passkey_credentials d) p \<Longrightarrow> E IntegrityError d) \<Longrightarrow>
     wp (insert_passkey_credential p) Q E d"
  "(passkey_challenge_ok d (passkey_challenges d) k \<Longrightarrow>
      Q () (d\<lparr>passkey_challenges := passkey_challenges d @ [k]\<rparr>)) \<Longrightarrow>
     (\<not> passkey_challenge_ok d (passkey_challenges d) k \<Longrightarrow> E IntegrityError d) \<Longrightarrow>
     wp (insert_passkey_challenge k) Q E d"
  "(mail_rule_ok d (mail_rules d) m \<Longrightarrow> Q () (d\<lparr>mail_rules := mail_rules d @ [m]\<rparr>)) \<Longrightarrow>
     (\<not> mail_rule_ok d (mail_rules d) m \<Longrightarrow> E IntegrityError d) \<Longrightarrow> wp (insert_mail_rule m) Q E d"
  "(mail_rule_run_ok d (mail_rule_runs d) u \<Longrightarrow> Q () (d\<lparr>mail_rule_runs := mail_rule_runs d @ [u]\<rparr>)) \<Longrightarrow>
     (\<not> mail_rule_run_ok d (mail_rule_runs d) u \<Longrightarrow> E IntegrityError d) \<Longrightarrow>
     wp (insert_mail_rule_run u) Q E d"
  unfolding insert_account_def insert_recovery_code_def insert_pending_challenge_def
    insert_session_def insert_rate_limit_def insert_passkey_credential_def
    insert_passkey_challenge_def insert_mail_rule_def insert_mail_rule_run_def
          apply (rule wp_table_insert [where ok = "\<lambda>_. account_ok" and tab = accounts
          and upd = "\<lambda>rows d. d\<lparr>accounts := rows\<rparr>"]; assumption)
         apply (rule wp_table_insert [where ok = "\<lambda>d. recovery_code_ok d" and tab = recovery_codes
          and upd = "\<lambda>rows d. d\<lparr>recovery_codes := rows\<rparr>"]; assumption)
        apply (rule wp_table_insert [where ok = "\<lambda>d. pending_challenge_ok d" and tab = pending_challenges
          and upd = "\<lambda>rows d. d\<lparr>pending_challenges := rows\<rparr>"]; assumption)
       apply (rule wp_table_insert [where ok = "\<lambda>d. session_ok d" and tab = sessions
          and upd = "\<lambda>rows d. d\<lparr>sessions := rows\<rparr>"]; assumption)
      apply (rule wp_table_insert [where ok = "\<lambda>d. rate_limit_ok d" and tab = rate_limits
          and upd = "\<lambda>rows d. d\<lparr>rate_limits := rows\<rparr>"]; assumption)
     apply (rule wp_table_insert [where ok = "\<lambda>d. passkey_credential_ok d" and tab = passkey_credentials
          and upd = "\<lambda>rows d. d\<lparr>passkey_credentials := rows\<rparr>"]; assumption)
    apply (rule wp_table_insert [where ok = "\<lambda>d. passkey_challenge_ok d" and tab = passkey_challenges
          and upd = "\<lambda>rows d. d\<lparr>passkey_challenges := rows\<rparr>"]; assumption)
   apply (rule wp_table_insert [where ok = "\<lambda>d. mail_rule_ok d" and tab = mail_rules
          and upd = "\<lambda>rows d. d\<lparr>mail_rules := rows\<rparr>"]; assumption)
  apply (rule wp_table_insert [where ok = "\<lambda>d. mail_rule_run_ok d" and tab = mail_rule_runs
          and upd = "\<lambda>rows d. d\<lparr>mail_rule_runs := rows\<rparr>"]; assumption)
  done

lemma wp_update_accounts [wp_rules]:
  "(update_rows (account_ok) P f (accounts d) = Inr (set_where P f (accounts d)) \<Longrightarrow>
      Q (rowcount P (accounts d)) (d\<lparr>accounts := set_where P f (accounts d)\<rparr>)) \<Longrightarrow>
   (update_rows (account_ok) P f (accounts d) = Inl IntegrityError \<Longrightarrow> E IntegrityError d) \<Longrightarrow>
     wp (update_accounts P f) Q E d"
  unfolding update_accounts_def
  by (rule wp_table_update [where ok = "\<lambda>_. account_ok" and tab = accounts
      and upd = "\<lambda>rows d. d\<lparr>accounts := rows\<rparr>"])

lemma wp_update_pending_challenges [wp_rules]:
  "(update_rows (pending_challenge_ok d) P f (pending_challenges d) = Inr (set_where P f (pending_challenges d)) \<Longrightarrow>
      Q (rowcount P (pending_challenges d)) (d\<lparr>pending_challenges := set_where P f (pending_challenges d)\<rparr>)) \<Longrightarrow>
   (update_rows (pending_challenge_ok d) P f (pending_challenges d) = Inl IntegrityError \<Longrightarrow> E IntegrityError d) \<Longrightarrow>
     wp (update_pending_challenges P f) Q E d"
  unfolding update_pending_challenges_def
  by (rule wp_table_update [where ok = "\<lambda>d. pending_challenge_ok d" and tab = pending_challenges
      and upd = "\<lambda>rows d. d\<lparr>pending_challenges := rows\<rparr>"])

lemma wp_update_sessions [wp_rules]:
  "(update_rows (session_ok d) P f (sessions d) = Inr (set_where P f (sessions d)) \<Longrightarrow>
      Q (rowcount P (sessions d)) (d\<lparr>sessions := set_where P f (sessions d)\<rparr>)) \<Longrightarrow>
   (update_rows (session_ok d) P f (sessions d) = Inl IntegrityError \<Longrightarrow> E IntegrityError d) \<Longrightarrow>
     wp (update_sessions P f) Q E d"
  unfolding update_sessions_def
  by (rule wp_table_update [where ok = "\<lambda>d. session_ok d" and tab = sessions
      and upd = "\<lambda>rows d. d\<lparr>sessions := rows\<rparr>"])

lemma wp_update_rate_limits [wp_rules]:
  "(update_rows (rate_limit_ok d) P f (rate_limits d) = Inr (set_where P f (rate_limits d)) \<Longrightarrow>
      Q (rowcount P (rate_limits d)) (d\<lparr>rate_limits := set_where P f (rate_limits d)\<rparr>)) \<Longrightarrow>
   (update_rows (rate_limit_ok d) P f (rate_limits d) = Inl IntegrityError \<Longrightarrow> E IntegrityError d) \<Longrightarrow>
     wp (update_rate_limits P f) Q E d"
  unfolding update_rate_limits_def
  by (rule wp_table_update [where ok = "\<lambda>d. rate_limit_ok d" and tab = rate_limits
      and upd = "\<lambda>rows d. d\<lparr>rate_limits := rows\<rparr>"])

lemma wp_update_passkey_credentials [wp_rules]:
  "(update_rows (passkey_credential_ok d) P f (passkey_credentials d) = Inr (set_where P f (passkey_credentials d)) \<Longrightarrow>
      Q (rowcount P (passkey_credentials d)) (d\<lparr>passkey_credentials := set_where P f (passkey_credentials d)\<rparr>)) \<Longrightarrow>
   (update_rows (passkey_credential_ok d) P f (passkey_credentials d) = Inl IntegrityError \<Longrightarrow> E IntegrityError d) \<Longrightarrow>
     wp (update_passkey_credentials P f) Q E d"
  unfolding update_passkey_credentials_def
  by (rule wp_table_update [where ok = "\<lambda>d. passkey_credential_ok d" and tab = passkey_credentials
      and upd = "\<lambda>rows d. d\<lparr>passkey_credentials := rows\<rparr>"])

lemma wp_update_passkey_challenges [wp_rules]:
  "(update_rows (passkey_challenge_ok d) P f (passkey_challenges d) = Inr (set_where P f (passkey_challenges d)) \<Longrightarrow>
      Q (rowcount P (passkey_challenges d)) (d\<lparr>passkey_challenges := set_where P f (passkey_challenges d)\<rparr>)) \<Longrightarrow>
   (update_rows (passkey_challenge_ok d) P f (passkey_challenges d) = Inl IntegrityError \<Longrightarrow> E IntegrityError d) \<Longrightarrow>
     wp (update_passkey_challenges P f) Q E d"
  unfolding update_passkey_challenges_def
  by (rule wp_table_update [where ok = "\<lambda>d. passkey_challenge_ok d" and tab = passkey_challenges
      and upd = "\<lambda>rows d. d\<lparr>passkey_challenges := rows\<rparr>"])

lemma wp_update_mail_rules [wp_rules]:
  "(update_rows (mail_rule_ok d) P f (mail_rules d) = Inr (set_where P f (mail_rules d)) \<Longrightarrow>
      Q (rowcount P (mail_rules d)) (d\<lparr>mail_rules := set_where P f (mail_rules d)\<rparr>)) \<Longrightarrow>
   (update_rows (mail_rule_ok d) P f (mail_rules d) = Inl IntegrityError \<Longrightarrow> E IntegrityError d) \<Longrightarrow>
     wp (update_mail_rules P f) Q E d"
  unfolding update_mail_rules_def
  by (rule wp_table_update [where ok = "\<lambda>d. mail_rule_ok d" and tab = mail_rules
      and upd = "\<lambda>rows d. d\<lparr>mail_rules := rows\<rparr>"])

lemma wp_update_mail_rule_runs [wp_rules]:
  "(update_rows (mail_rule_run_ok d) P f (mail_rule_runs d) = Inr (set_where P f (mail_rule_runs d)) \<Longrightarrow>
      Q (rowcount P (mail_rule_runs d)) (d\<lparr>mail_rule_runs := set_where P f (mail_rule_runs d)\<rparr>)) \<Longrightarrow>
   (update_rows (mail_rule_run_ok d) P f (mail_rule_runs d) = Inl IntegrityError \<Longrightarrow> E IntegrityError d) \<Longrightarrow>
     wp (update_mail_rule_runs P f) Q E d"
  unfolding update_mail_rule_runs_def
  by (rule wp_table_update [where ok = "\<lambda>d. mail_rule_run_ok d" and tab = mail_rule_runs
      and upd = "\<lambda>rows d. d\<lparr>mail_rule_runs := rows\<rparr>"])

lemma wp_bind_text [wp_rules]:
  "Q () d \<Longrightarrow> E UnicodeEncodeError d \<Longrightarrow> wp (bind_text v) Q E d"
  unfolding bind_text_def by (rule wp_guard)

section \<open>Dataclasses\<close>

record Account =
  acc_account_id :: pystr
  acc_email :: pystr
  acc_role :: Role
  acc_password_change_required :: bool
  acc_enrollment_state :: EnrollmentState
  acc_created_at :: int
  acc_updated_at :: int

record TotpEnrollment =
  secret :: pystr
  provisioning_uri :: pystr

record AccountBootstrap =
  ab_email :: pyval
  ab_role :: pyval
  ab_totp_secret :: pyval
  ab_recovery_codes :: "pyval list"
  ab_password_change_required :: pyval

record SessionPrincipal =
  sp_account_id :: pystr
  sp_email :: pystr
  sp_role :: Role
  sp_password_change_required :: bool
  sp_enrollment_state :: EnrollmentState
  sp_created_at :: int
  sp_idle_expires_at :: int
  sp_absolute_expires_at :: int
  sp_step_up_until :: int
  sp_session_id :: "pystr option"
  sp_client_ip :: "pystr option"
  sp_user_agent :: "pystr option"

record IssuedSession =
  token :: pystr
  principal :: SessionPrincipal

record VerifiedPasskeyIdentity =
  vi_account_id :: pyval
  vi_email :: pyval

record EnrollmentResult =
  er_session :: IssuedSession
  er_recovery_codes :: "pystr list"

record SessionInfo =
  si_session_id :: pystr
  si_account_id :: pystr
  si_created_at :: int
  si_last_seen_at :: int
  si_idle_expires_at :: int
  si_absolute_expires_at :: int
  si_step_up_until :: int
  si_client_ip :: "pystr option"
  si_user_agent :: "pystr option"
  si_current :: bool

record PasskeyCredential =
  pkr_public_id :: pystr
  pkr_account_id :: pystr
  pkr_name :: pystr
  pkr_sign_count :: int
  pkr_device_type :: pystr
  pkr_backed_up :: bool
  pkr_transports :: "pyval list"
  pkr_created_at :: int
  pkr_last_used_at :: "int option"

record PasskeyCeremony =
  ceremony_token :: pystr
  ceremony_options :: pyval

record MailRuleRecord =
  mrr_rule_id :: pystr
  mrr_account_id :: pystr
  mrr_name :: pystr
  mrr_enabled :: bool
  mrr_position :: int
  mrr_expression :: pyval
  mrr_target_mailbox :: pystr
  mrr_stop_processing :: bool
  mrr_revision :: int
  mrr_created_at :: int
  mrr_updated_at :: int

record MailRuleRun =
  mru_run_id :: pystr
  mru_account_id :: pystr
  mru_rule_id :: "pystr option"
  mru_rule_revision :: int
  mru_rule_snapshot :: pyval
  mru_state :: pyval
  mru_status :: run_status
  mru_scanned :: int
  mru_matched :: int
  mru_moved :: int
  mru_failed :: int
  mru_created_at :: int
  mru_started_at :: "int option"
  mru_updated_at :: int
  mru_finished_at :: "int option"
  mru_error_code :: "pystr option"

definition account_from_row :: "auth_account \<Rightarrow> Account" where
  "account_from_row a = \<lparr>acc_account_id = account_id a, acc_email = canonical_email a,
     acc_role = role a, acc_password_change_required = password_change_required a,
     acc_enrollment_state = enrollment_state a, acc_created_at = created_at a,
     acc_updated_at = updated_at a\<rparr>"

definition required_row :: "'r option \<Rightarrow> 'r res" where
  "required_row value = (case value of None \<Rightarrow> Inl AuthenticationDataError | Some r \<Rightarrow> Inr r)"

definition session_info_from_row :: "auth_session \<Rightarrow> bool \<Rightarrow> SessionInfo res" where
  "session_info_from_row s current =
     (if \<not> hex_identifier (session_id s) then Inl AuthenticationDataError
      else Inr \<lparr>si_session_id = session_id s, si_account_id = s_account s,
        si_created_at = s_created_at s, si_last_seen_at = last_seen_at s,
        si_idle_expires_at = min (last_seen_at s + SESSION_IDLE_SECONDS) (absolute_expires_at s),
        si_absolute_expires_at = absolute_expires_at s, si_step_up_until = step_up_until s,
        si_client_ip = client_ip s, si_user_agent = user_agent s, si_current = current\<rparr>)"

text \<open>\<open>_principal_from_session_row\<close>, on the joined row of a session and its account.\<close>

definition principal_from_session_row ::
  "auth_session \<times> auth_account \<Rightarrow> int \<Rightarrow> int option \<Rightarrow> SessionPrincipal" where
  "principal_from_session_row row last_seen step =
     (let (s, a) = row in
      \<lparr>sp_account_id = account_id a, sp_email = canonical_email a, sp_role = role a,
       sp_password_change_required = password_change_required a,
       sp_enrollment_state = enrollment_state a, sp_created_at = s_created_at s,
       sp_idle_expires_at = min (last_seen + SESSION_IDLE_SECONDS) (absolute_expires_at s),
       sp_absolute_expires_at = absolute_expires_at s,
       sp_step_up_until = (case step of None \<Rightarrow> step_up_until s | Some u \<Rightarrow> u),
       sp_session_id = Some (session_id s), sp_client_ip = client_ip s,
       sp_user_agent = user_agent s\<rparr>)"

definition passkey_credential_from_row :: "auth_env \<Rightarrow> passkey_credential \<Rightarrow> PasskeyCredential res" where
  "passkey_credential_from_row env p =
     bind_res
       (if transports p = [] then Inr (PyList [])
        else case json_loads env (transports p) of
          Inl e \<Rightarrow> if is_value_error e \<or> e = TypeError then Inl AuthenticationDataError else Inl e
        | Inr v \<Rightarrow> Inr v) (\<lambda>raw_transports.
     case raw_transports of
       PyList ts \<Rightarrow>
         (if \<not> list_all (\<lambda>t. case t of PyStr _ \<Rightarrow> True | _ \<Rightarrow> False) ts then Inl AuthenticationDataError
          else if \<not> hex_identifier (public_id p) then Inl AuthenticationDataError
          else Inr \<lparr>pkr_public_id = public_id p, pkr_account_id = pk_account p, pkr_name = pk_name p,
            pkr_sign_count = sign_count p, pkr_device_type = device_type p,
            pkr_backed_up = backed_up p, pkr_transports = ts, pkr_created_at = pk_created_at p,
            pkr_last_used_at = last_used_at p\<rparr>)
     | _ \<Rightarrow> Inl AuthenticationDataError)"

definition mail_rule_from_row :: "auth_env \<Rightarrow> mail_rule \<Rightarrow> MailRuleRecord res" where
  "mail_rule_from_row env r =
     bind_res (validate_mail_rule_id (PyStr (rule_id r))) (\<lambda>i.
     bind_res (validate_account_id (PyStr (mr_account r))) (\<lambda>a.
     bind_res (normalize_mail_rule_name (PyStr (mr_name r))) (\<lambda>n.
     bind_res (json_object_from_database env (expression_json r)) (\<lambda>x.
     bind_res (normalize_mailbox_metadata (PyStr (mr_target r))) (\<lambda>t.
     Inr \<lparr>mrr_rule_id = i, mrr_account_id = a, mrr_name = n, mrr_enabled = enabled r,
       mrr_position = position r, mrr_expression = x, mrr_target_mailbox = t,
       mrr_stop_processing = stop_processing r, mrr_revision = revision r,
       mrr_created_at = mr_created_at r, mrr_updated_at = mr_updated_at r\<rparr>)))))"

definition mail_rule_run_from_row :: "auth_env \<Rightarrow> mail_rule_run \<Rightarrow> MailRuleRun res" where
  "mail_rule_run_from_row env r =
     bind_res (validate_mail_rule_run_id (PyStr (run_id r))) (\<lambda>i.
     bind_res (validate_account_id (PyStr (run_account r))) (\<lambda>a.
     bind_res (case run_rule r of None \<Rightarrow> Inr None
        | Some m \<Rightarrow> bind_res (validate_mail_rule_id (PyStr m)) (\<lambda>v. Inr (Some v))) (\<lambda>m.
     bind_res (json_object_from_database env (rule_snapshot_json r)) (\<lambda>snapshot.
     bind_res (json_object_from_database env (state_json r)) (\<lambda>state.
     Inr \<lparr>mru_run_id = i, mru_account_id = a, mru_rule_id = m, mru_rule_revision = rule_revision r,
       mru_rule_snapshot = snapshot, mru_state = state, mru_status = run_status r,
       mru_scanned = scanned r, mru_matched = matched r, mru_moved = moved r, mru_failed = failed r,
       mru_created_at = run_created_at r, mru_started_at = started_at r,
       mru_updated_at = run_updated_at r, mru_finished_at = finished_at r,
       mru_error_code = error_code r\<rparr>)))))"

section \<open>Ordered selections\<close>

text \<open>\<open>ORDER BY key LIMIT n\<close>; the keys end in a unique column, so the order is total.\<close>

definition order_limit :: "('r \<Rightarrow> 'k::linorder) \<Rightarrow> nat \<Rightarrow> 'r list \<Rightarrow> 'r list" where
  "order_limit key n rows = take n (sort_key key rows)"

lemma set_order_limit: "set (order_limit key n rows) \<subseteq> set rows"
  unfolding order_limit_def using set_take_subset [of n "sort_key key rows"] by simp

lemma length_order_limit: "length (order_limit key n rows) = min n (length rows)"
  by (simp add: order_limit_def)

lemma distinct_order_limit: "distinct (map k rows) \<Longrightarrow> distinct (map k (order_limit key n rows))"
  by (metis distinct_map distinct_sort inj_on_subset order_limit_def set_order_limit set_sort
      distinct_take)

text \<open>
  \<open>DELETE ... WHERE k IN (SELECT k ... WHERE P ORDER BY key LIMIT n)\<close> on a unique key \<open>k\<close>
  removes the selected rows and no others.
\<close>

definition selected :: "('r \<Rightarrow> 'i) \<Rightarrow> ('r \<Rightarrow> 'k::linorder) \<Rightarrow> nat \<Rightarrow> ('r \<Rightarrow> bool) \<Rightarrow> 'r list \<Rightarrow> 'r \<Rightarrow> bool" where
  "selected k key n P rows r \<longleftrightarrow> k r \<in> set (map k (order_limit key n (filter P rows)))"

lemma selected_imp:
  "distinct (map k rows) \<Longrightarrow> r \<in> set rows \<Longrightarrow> selected k key n P rows r \<Longrightarrow> P r"
proof -
  assume d: "distinct (map k rows)" and r: "r \<in> set rows" and s: "selected k key n P rows r"
  then obtain q where q: "q \<in> set (order_limit key n (filter P rows))" "k q = k r"
    by (auto simp: selected_def)
  from q(1) have "q \<in> set (filter P rows)" using set_order_limit by fast
  with key_unique [OF d, of q r] q r show "P r" by auto
qed

lemma rowcount_evict:
  assumes dist: "distinct (map k rows)" and sub: "\<And>r. P r \<Longrightarrow> Q r"
  shows "rowcount Q (delete_rows (selected k key n P rows) rows) =
    rowcount Q rows - min n (rowcount P rows)"
proof -
  let ?sel = "order_limit key n (filter P rows)"
  have in_sel: "selected k key n P rows r \<longleftrightarrow> r \<in> set ?sel" if r: "r \<in> set rows" for r
  proof
    assume "selected k key n P rows r"
    then obtain q where q: "q \<in> set ?sel" "k r = k q" by (auto simp: selected_def)
    with set_order_limit [of key n "filter P rows"] have "q \<in> set rows" by auto
    with key_unique [OF dist r] q show "r \<in> set ?sel" by metis
  qed (simp add: selected_def)
  have d: "distinct rows" using dist by (simp add: distinct_map)
  have Q: "r \<in> set ?sel \<Longrightarrow> r \<in> set rows \<and> Q r" for r
    using set_order_limit [of key n "filter P rows"] sub by auto
  have "filter Q (filter (selected k key n P rows) rows) = filter (\<lambda>r. r \<in> set ?sel) rows"
    unfolding filter_filter by (rule filter_cong) (use in_sel Q in blast)+
  moreover have "length (filter (\<lambda>r. r \<in> set ?sel) rows) = length ?sel"
  proof -
    have "set (filter (\<lambda>r. r \<in> set ?sel) rows) = set ?sel" using Q by auto
    moreover have "distinct (map k ?sel)"
      using dist by (intro distinct_order_limit) (simp add: distinct_map_filter)
    ultimately show ?thesis
      using d by (metis distinct_card distinct_filter distinct_map)
  qed
  ultimately have "rowcount Q (filter (selected k key n P rows) rows) = min n (rowcount P rows)"
    by (simp add: rowcount_def length_order_limit)
  moreover have "rowcount Q rows = rowcount Q (filter S rows) + rowcount Q (delete_rows S rows)" for S
    by (induction rows) (auto simp: delete_rows_def)
  ultimately show ?thesis by (metis add_diff_cancel_left')
qed

end
