(* ===== verification/Auth_Helpers.thy ===== *)
theory Auth_Helpers
  imports Auth_Schema
begin

text \<open>
  The private helpers of \<open>AuthStore\<close> that run inside a transaction (their names end in
  \<open>_locked\<close>): row lookups, allocation of unique identifiers and tokens, pending challenges,
  TOTP consumption, recovery codes, session validation and issue.
\<close>

section \<open>Clock, random bytes and unique values\<close>

definition now_act :: "auth_env \<Rightarrow> int auth_act" where
  "now_act env = now_locked (clock env)"

definition random_bytes :: "auth_env \<Rightarrow> nat \<Rightarrow> bytes auth_act" where
  "random_bytes env n = draw_bytes (random_source env) n"

text \<open>\<open>for _ in range(8): draw; return it unless it is taken\<close>, then \<open>AuthenticationError\<close>.\<close>

fun draw_fresh :: "nat \<Rightarrow> ('d, 'a) act \<Rightarrow> ('d \<Rightarrow> 'a \<Rightarrow> bool) \<Rightarrow> ('d, 'a) act" where
  "draw_fresh 0 gen taken = raiseA AuthenticationError"
| "draw_fresh (Suc n) gen taken =
     bindA gen (\<lambda>x. bindA (selectA (\<lambda>d. taken d x)) (\<lambda>exists.
       if exists then draw_fresh n gen taken else returnA x))"

definition random_hex :: "auth_env \<Rightarrow> nat \<Rightarrow> pystr auth_act" where
  "random_hex env n = bindA (random_bytes env n) (\<lambda>b. returnA (hex b))"

definition new_account_id_locked :: "auth_env \<Rightarrow> pystr auth_act" where
  "new_account_id_locked env = draw_fresh 8 (random_hex env ACCOUNT_ID_BYTES)
     (\<lambda>d i. fetchone (\<lambda>a. account_id a = i) (accounts d) \<noteq> None)"

definition new_session_id_locked :: "auth_env \<Rightarrow> pystr auth_act" where
  "new_session_id_locked env = draw_fresh 8 (random_hex env SESSION_ID_BYTES)
     (\<lambda>d i. fetchone (\<lambda>s. session_id s = i) (sessions d) \<noteq> None)"

definition new_passkey_public_id_locked :: "auth_env \<Rightarrow> pystr auth_act" where
  "new_passkey_public_id_locked env = draw_fresh 8 (random_hex env SESSION_ID_BYTES)
     (\<lambda>d i. fetchone (\<lambda>p. public_id p = i) (passkey_credentials d) \<noteq> None)"

definition new_mail_rule_id_locked :: "auth_env \<Rightarrow> pystr auth_act" where
  "new_mail_rule_id_locked env = draw_fresh 8 (random_hex env ACCOUNT_ID_BYTES)
     (\<lambda>d i. fetchone (\<lambda>r. rule_id r = i) (mail_rules d) \<noteq> None)"

definition new_mail_rule_run_id_locked :: "auth_env \<Rightarrow> pystr auth_act" where
  "new_mail_rule_run_id_locked env = draw_fresh 8 (random_hex env ACCOUNT_ID_BYTES)
     (\<lambda>d i. fetchone (\<lambda>r. run_id r = i) (mail_rule_runs d) \<noteq> None)"

text \<open>\<open>_new_unique_token_locked\<close>, for the table it is asked to search.\<close>

definition new_unique_token_locked ::
  "auth_env \<Rightarrow> bytes \<Rightarrow> (auth_db \<Rightarrow> bytes \<Rightarrow> bool) \<Rightarrow> (pystr \<times> bytes) auth_act" where
  "new_unique_token_locked env key taken =
     draw_fresh 8
       (bindA (random_bytes env TOKEN_BYTES) (\<lambda>b.
          let t = encode_opaque_token b in returnA (t, opaque_digest env key (PyStr t))))
       (\<lambda>d (t, digest). taken d digest)"

definition challenge_taken :: "auth_db \<Rightarrow> bytes \<Rightarrow> bool" where
  "challenge_taken d digest \<longleftrightarrow> fetchone (\<lambda>c. pc_digest c = digest) (pending_challenges d) \<noteq> None"

definition session_taken :: "auth_db \<Rightarrow> bytes \<Rightarrow> bool" where
  "session_taken d digest \<longleftrightarrow> fetchone (\<lambda>s. session_digest s = digest) (sessions d) \<noteq> None"

section \<open>Accounts\<close>

definition account_row_by_email_locked :: "pystr \<Rightarrow> auth_account option auth_act" where
  "account_row_by_email_locked canonical =
     selectA (\<lambda>d. fetchone (\<lambda>a. canonical_email a = canonical) (accounts d))"

definition account_row_by_id_locked :: "pystr \<Rightarrow> auth_account option auth_act" where
  "account_row_by_id_locked i = selectA (\<lambda>d. fetchone (\<lambda>a. account_id a = i) (accounts d))"

definition require_account_by_id_locked :: "pystr \<Rightarrow> auth_account auth_act" where
  "require_account_by_id_locked i =
     bindA (account_row_by_id_locked i) (\<lambda>row.
       case row of None \<Rightarrow> raiseA AccountNotFoundError | Some a \<Rightarrow> returnA a)"

section \<open>Pending challenges\<close>

text \<open>The columns that \<open>SET enrollment_state = 'required', ...\<close> writes.\<close>

definition to_required :: "int \<Rightarrow> auth_account \<Rightarrow> auth_account" where
  "to_required now a = a\<lparr>enrollment_state := REQUIRED, totp_nonce := None, totp_ciphertext := None,
     enrollment_challenge_digest := None, totp_last_counter := - 1, updated_at := now\<rparr>"

definition challenge_row_locked ::
  "bytes \<Rightarrow> int \<Rightarrow> (pending_challenge \<times> auth_account) auth_act" where
  "challenge_row_locked digest now =
     bindA (selectA (\<lambda>d.
       case fetchone (\<lambda>c. pc_digest c = digest) (pending_challenges d) of
         None \<Rightarrow> None
       | Some c \<Rightarrow> map_option (Pair c) (fetchone (\<lambda>a. account_id a = pc_account c) (accounts d)))) (\<lambda>row.
     case row of
       None \<Rightarrow> raiseA InvalidChallengeError
     | Some (c, a) \<Rightarrow>
         if pc_expires_at c \<le> now then raiseA InvalidChallengeError else returnA (c, a))"

definition release_pending_enrollment_locked :: "bytes \<Rightarrow> int \<Rightarrow> nat auth_act" where
  "release_pending_enrollment_locked digest now =
     update_accounts
       (\<lambda>a. enrollment_state a = PENDING \<and> enrollment_challenge_digest a = Some digest)
       (to_required now)"

definition record_challenge_failure_locked :: "auth_env \<Rightarrow> bytes \<Rightarrow> int \<Rightarrow> unit auth_act" where
  "record_challenge_failure_locked env digest failure_count =
     (let next_count = failure_count + 1 in
      if CHALLENGE_FAILURE_LIMIT \<le> next_count then
        bindA (now_act env) (\<lambda>now.
        seqA (release_pending_enrollment_locked digest now)
        (seqA (delete_pending_challenges (\<lambda>c. pc_digest c = digest)) (returnA ())))
      else
        seqA (update_pending_challenges (\<lambda>c. pc_digest c = digest)
                (\<lambda>c. c\<lparr>pc_failure_count := next_count\<rparr>))
        (returnA ()))"

definition delete_expired_challenges_locked :: "int \<Rightarrow> unit auth_act" where
  "delete_expired_challenges_locked now =
     bindA (selectA (\<lambda>d. map pc_digest (filter (\<lambda>c. pc_expires_at c \<le> now) (pending_challenges d)))) (\<lambda>expired.
     seqA (update_accounts
             (\<lambda>a. enrollment_state a = PENDING
                \<and> (\<exists>x \<in> set expired. enrollment_challenge_digest a = Some x))
             (to_required now))
     (seqA (delete_pending_challenges (\<lambda>c. pc_expires_at c \<le> now)) (returnA ())))"

definition revoke_pending_challenges_locked :: "auth_env \<Rightarrow> pystr \<Rightarrow> unit auth_act" where
  "revoke_pending_challenges_locked env i =
     bindA (now_act env) (\<lambda>now.
     seqA (update_accounts (\<lambda>a. account_id a = i \<and> enrollment_state a = PENDING) (to_required now))
     (seqA (delete_pending_challenges (\<lambda>c. pc_account c = i))
     (seqA (delete_passkey_challenges (\<lambda>c. pkc_account c = Some i)) (returnA ()))))"

definition revoke_account_authentication_locked :: "auth_env \<Rightarrow> pystr \<Rightarrow> nat auth_act" where
  "revoke_account_authentication_locked env i =
     seqA (revoke_pending_challenges_locked env i) (delete_sessions (\<lambda>s. s_account s = i))"

section \<open>TOTP\<close>

definition encrypt_totp :: "auth_env \<Rightarrow> pystr \<Rightarrow> pystr \<Rightarrow> bytes \<Rightarrow> (bytes \<times> bytes) auth_act" where
  "encrypt_totp env i canonical secret_bytes =
     bindA (random_bytes env AES_GCM_NONCE_BYTES) (\<lambda>nonce.
     returnA (nonce, aesgcm_encrypt env (encryption_key env) nonce secret_bytes (totp_aad i canonical)))"

definition decrypt_totp :: "auth_env \<Rightarrow> auth_account \<Rightarrow> bytes res" where
  "decrypt_totp env a =
     (case (totp_nonce a, totp_ciphertext a) of
        (Some nonce, Some ciphertext) \<Rightarrow>
          (case aesgcm_decrypt env (encryption_key env) nonce ciphertext
                  (totp_aad (account_id a) (canonical_email a)) of
             None \<Rightarrow> Inl AuthenticationDataError
           | Some b \<Rightarrow> if length b \<noteq> TOTP_SECRET_BYTES then Inl AuthenticationDataError else Inr b)
      | _ \<Rightarrow> Inl AuthenticationDataError)"

definition consume_totp_locked :: "auth_env \<Rightarrow> auth_account \<Rightarrow> pyval \<Rightarrow> int \<Rightarrow> bool auth_act" where
  "consume_totp_locked env row code now =
     (if enrollment_state row \<noteq> ACTIVE then raiseA EnrollmentStateError
      else
        bindA (liftE (decrypt_totp env row)) (\<lambda>secret_bytes.
        bindA (liftE (matching_totp_counter env secret_bytes code now)) (\<lambda>matching.
        case matching of
          None \<Rightarrow> returnA False
        | Some counter \<Rightarrow>
            if counter \<le> totp_last_counter row then returnA False
            else
              bindA (update_accounts
                 (\<lambda>a. account_id a = account_id row \<and> enrollment_state a = ACTIVE
                    \<and> totp_last_counter a < counter)
                 (\<lambda>a. a\<lparr>totp_last_counter := counter, updated_at := now\<rparr>)) (\<lambda>consumed.
              returnA (consumed = 1)))))"

definition enrollment :: "auth_env \<Rightarrow> pystr \<Rightarrow> pystr \<Rightarrow> TotpEnrollment res" where
  "enrollment env canonical secret_text =
     bind_res (totp_provisioning_uri env (PyStr (issuer env)) (PyStr canonical) (PyStr secret_text)) (\<lambda>uri.
     Inr \<lparr>secret = secret_text, provisioning_uri = uri\<rparr>)"

section \<open>Recovery codes\<close>

text \<open>
  \<open>while len(codes) < RECOVERY_CODE_COUNT\<close>: a repeated draw is skipped, so the loop ends only
  when the source has produced ten different values. \<open>k\<close> counts the draws; the value \<open>None\<close> is
  a loop that does not end. A draw that is not 16 bytes raises.
\<close>

definition drawn :: "auth_env \<Rightarrow> nat \<Rightarrow> nat \<Rightarrow> bytes option" where
  "drawn env k n =
     (case random_source env k n of PyBytes b \<Rightarrow> if length b = n then Some b else None | _ \<Rightarrow> None)"

partial_function (option) recovery_loop :: "auth_env \<Rightarrow> pystr list \<Rightarrow> nat \<Rightarrow> (pystr list res \<times> nat) option" where
  "recovery_loop env seen k =
     (if RECOVERY_CODE_COUNT \<le> length seen then Some (Inr (map format_recovery_code seen), k)
      else if drawn env k 16 = None then Some (Inl ValueError, Suc k)
      else if hex (the (drawn env k 16)) \<in> set seen then recovery_loop env seen (Suc k)
      else recovery_loop env (seen @ [hex (the (drawn env k 16))]) (Suc k))"

definition generate_recovery_codes :: "auth_env \<Rightarrow> pystr list auth_act" where
  "generate_recovery_codes env s =
     (case recovery_loop env [] (draws s) of
        None \<Rightarrow> (Inl DoesNotReturn, s)
      | Some (r, k) \<Rightarrow> (r, s\<lparr>draws := k\<rparr>))"

definition store_recovery_codes_locked ::
  "auth_env \<Rightarrow> pystr \<Rightarrow> pystr list \<Rightarrow> int \<Rightarrow> unit auth_act" where
  "store_recovery_codes_locked env i codes now =
     forA codes (\<lambda>code.
       bindA (liftE (normalize_recovery_code (PyStr code))) (\<lambda>normalized.
       insert_recovery_code \<lparr>rc_account = i, code_digest = recovery_digest env i normalized,
         rc_created_at = now\<rparr>))"

section \<open>Sessions\<close>

definition joined_session :: "auth_db \<Rightarrow> bytes \<Rightarrow> (auth_session \<times> auth_account) option" where
  "joined_session d digest =
     (case fetchone (\<lambda>s. session_digest s = digest) (sessions d) of
        None \<Rightarrow> None
      | Some s \<Rightarrow> map_option (Pair s) (fetchone (\<lambda>a. account_id a = s_account s) (accounts d)))"

definition valid_session_row_locked ::
  "bytes \<Rightarrow> int \<Rightarrow> bool \<Rightarrow> ((auth_session \<times> auth_account) \<times> int) option auth_act" where
  "valid_session_row_locked digest now touch =
     bindA (selectA (\<lambda>d. joined_session d digest)) (\<lambda>row.
     case row of
       None \<Rightarrow> returnA None
     | Some (s, a) \<Rightarrow>
         if absolute_expires_at s \<le> now \<or> SESSION_IDLE_SECONDS \<le> now - last_seen_at s then
           seqA (delete_sessions (\<lambda>r. session_digest r = digest)) (returnA None)
         else
           let effective = (if touch then max (last_seen_at s) now else last_seen_at s) in
           seqA (if touch \<and> effective \<noteq> last_seen_at s
                 then update_sessions (\<lambda>r. session_digest r = digest) (\<lambda>r. r\<lparr>last_seen_at := effective\<rparr>)
                 else returnA 0)
           (returnA (Some ((s, a), effective))))"

definition delete_expired_sessions_locked :: "int \<Rightarrow> nat auth_act" where
  "delete_expired_sessions_locked now =
     delete_sessions (\<lambda>s. absolute_expires_at s \<le> now \<or> last_seen_at s + SESSION_IDLE_SECONDS \<le> now)"

definition session_order :: "auth_session \<Rightarrow> int \<times> int \<times> bytes" where
  "session_order s = (last_seen_at s, s_created_at s, session_digest s)"

definition evict_sessions_locked :: "pystr \<Rightarrow> unit auth_act" where
  "evict_sessions_locked i =
     bindA (selectA (\<lambda>d. rowcount (\<lambda>s. s_account s = i) (sessions d))) (\<lambda>session_count.
     if MAX_SESSIONS_PER_ACCOUNT \<le> session_count then
       bindA (selectA sessions) (\<lambda>rows.
       seqA (delete_sessions (selected session_digest session_order
              (session_count - MAX_SESSIONS_PER_ACCOUNT + 1) (\<lambda>s. s_account s = i) rows))
       (returnA ()))
     else returnA ())"

definition issue_session_locked ::
  "auth_env \<Rightarrow> auth_account \<Rightarrow> int \<Rightarrow> pyval \<Rightarrow> pyval \<Rightarrow> IssuedSession auth_act" where
  "issue_session_locked env account_row now ip ua =
     bindA (liftE (normalize_session_metadata env ip ua)) (\<lambda>(normalized_ip, normalized_user_agent).
     seqA (delete_expired_sessions_locked now)
     (seqA (evict_sessions_locked (account_id account_row))
     (bindA (new_unique_token_locked env (session_digest_key env) session_taken) (\<lambda>(tok, digest).
     bindA (new_session_id_locked env) (\<lambda>sid.
     let absolute_expires = now + SESSION_ABSOLUTE_SECONDS in
     seqA (bind_text normalized_user_agent)
     (seqA (insert_session \<lparr>session_digest = digest, s_account = account_id account_row,
         s_created_at = now, last_seen_at = now, absolute_expires_at = absolute_expires,
         step_up_until = 0, session_id = sid, client_ip = normalized_ip,
         user_agent = normalized_user_agent\<rparr>)
     (returnA \<lparr>token = tok, principal = \<lparr>sp_account_id = account_id account_row,
         sp_email = canonical_email account_row, sp_role = role account_row,
         sp_password_change_required = password_change_required account_row,
         sp_enrollment_state = enrollment_state account_row, sp_created_at = now,
         sp_idle_expires_at = min (now + SESSION_IDLE_SECONDS) absolute_expires,
         sp_absolute_expires_at = absolute_expires, sp_step_up_until = 0,
         sp_session_id = Some sid, sp_client_ip = normalized_ip,
         sp_user_agent = normalized_user_agent\<rparr>\<rparr>)))))))"

end
