(* ===== verification/Auth_Login.thy ===== *)
theory Auth_Login
  imports Auth_Helpers
begin

text \<open>
  Password-confirmed logins: pending challenges, TOTP enrollment and verification, recovery
  codes, and the sessions they lead to (\<open>create_pending_challenge\<close> to \<open>revoke_sessions\<close> of
  \<open>AuthStore\<close>). The methods that count failures commit the failure record first and raise
  after the transaction.
\<close>

section \<open>Challenges\<close>

definition challenge_order :: "pending_challenge \<Rightarrow> int \<times> bytes" where
  "challenge_order c = (pc_created_at c, pc_digest c)"

text \<open>The challenge that owns a pending enrollment is never chosen for eviction.\<close>

definition evictable_challenge :: "auth_db \<Rightarrow> pystr \<Rightarrow> pending_challenge \<Rightarrow> bool" where
  "evictable_challenge d i c \<longleftrightarrow> pc_account c = i
     \<and> \<not> (\<exists>a \<in> set (accounts d). account_id a = i \<and> enrollment_state a = PENDING
            \<and> enrollment_challenge_digest a = Some (pc_digest c))"

definition evict_challenges_locked :: "pystr \<Rightarrow> unit auth_act" where
  "evict_challenges_locked i =
     bindA (selectA (\<lambda>d. rowcount (\<lambda>c. pc_account c = i) (pending_challenges d))) (\<lambda>challenge_count.
     if MAX_CHALLENGES_PER_ACCOUNT \<le> challenge_count then
       bindA (selectA (\<lambda>d. selected pc_digest challenge_order
                (challenge_count - MAX_CHALLENGES_PER_ACCOUNT + 1)
                (evictable_challenge d i) (pending_challenges d))) (\<lambda>victim.
       seqA (delete_pending_challenges victim) (returnA ()))
     else returnA ())"

definition create_pending_challenge :: "auth_env \<Rightarrow> pyval \<Rightarrow> pystr auth_act" where
  "create_pending_challenge env email =
     bindA (liftE (canonicalize_email email)) (\<lambda>canonical.
     bindA (now_act env) (\<lambda>now.
     transaction
       (bindA (account_row_by_email_locked canonical) (\<lambda>row.
        case row of
          None \<Rightarrow> raiseA AccountNotFoundError
        | Some a \<Rightarrow>
            seqA (delete_expired_challenges_locked now)
            (seqA (evict_challenges_locked (account_id a))
            (bindA (new_unique_token_locked env (challenge_digest_key env) challenge_taken) (\<lambda>(tok, digest).
             seqA (insert_pending_challenge \<lparr>pc_digest = digest, pc_account = account_id a,
                pc_created_at = now, pc_expires_at = now + CHALLENGE_LIFETIME_SECONDS,
                pc_failure_count = 0\<rparr>)
             (returnA tok))))))))"

definition begin_totp_enrollment :: "auth_env \<Rightarrow> pyval \<Rightarrow> TotpEnrollment auth_act" where
  "begin_totp_enrollment env challenge_token =
     (let digest = opaque_digest env (challenge_digest_key env) challenge_token in
      bindA (now_act env) (\<lambda>now.
      bindA (transaction
        (bindA (challenge_row_locked digest now) (\<lambda>(c, a).
         case enrollment_state a of
           ACTIVE \<Rightarrow> raiseA EnrollmentStateError
         | PENDING \<Rightarrow>
             (case enrollment_challenge_digest a of
                None \<Rightarrow> raiseA AuthenticationDataError
              | Some owner \<Rightarrow>
                  if length owner \<noteq> 32 then raiseA AuthenticationDataError
                  else if owner \<noteq> digest then raiseA EnrollmentStateError
                  else bindA (liftE (decrypt_totp env a)) (\<lambda>secret_bytes.
                    returnA (canonical_email a, encode_totp_secret secret_bytes)))
         | REQUIRED \<Rightarrow>
             bindA (random_bytes env TOTP_SECRET_BYTES) (\<lambda>secret_bytes.
             bindA (encrypt_totp env (account_id a) (canonical_email a) secret_bytes) (\<lambda>(nonce, ciphertext).
             bindA (update_accounts
                 (\<lambda>r. account_id r = account_id a \<and> enrollment_state r = REQUIRED)
                 (\<lambda>r. r\<lparr>enrollment_state := PENDING, totp_nonce := Some nonce,
                      totp_ciphertext := Some ciphertext, enrollment_challenge_digest := Some digest,
                      totp_last_counter := - 1, updated_at := now\<rparr>)) (\<lambda>updated.
             if updated \<noteq> 1 then raiseA EnrollmentStateError
             else
               seqA (delete_recovery_codes (\<lambda>r. rc_account r = account_id a))
               (seqA (delete_passkey_challenges (\<lambda>k. pkc_account k = Some (account_id a)))
               (seqA (delete_sessions (\<lambda>s. s_account s = account_id a))
               (returnA (canonical_email a, encode_totp_secret secret_bytes)))))))))) (\<lambda>(canonical, secret_text).
      liftE (enrollment env canonical secret_text))))"

text \<open>
  After the transaction: \<open>if failure: raise InvalidSecondFactorError\<close>; \<open>None\<close> is the committed
  failure.
\<close>

definition second_factor_result :: "'a option \<Rightarrow> 'a auth_act" where
  "second_factor_result r =
     (case r of None \<Rightarrow> raiseA InvalidSecondFactorError | Some x \<Rightarrow> returnA x)"

definition confirm_totp_enrollment ::
  "auth_env \<Rightarrow> pyval \<Rightarrow> pyval \<Rightarrow> pyval \<Rightarrow> pyval \<Rightarrow> EnrollmentResult auth_act" where
  "confirm_totp_enrollment env challenge_token code ip ua =
     (let digest = opaque_digest env (challenge_digest_key env) challenge_token in
      bindA (now_act env) (\<lambda>now.
      bindA (transaction
        (bindA (challenge_row_locked digest now) (\<lambda>(c, a).
         if enrollment_state a \<noteq> PENDING then raiseA EnrollmentStateError
         else if \<not> (case enrollment_challenge_digest a of None \<Rightarrow> False
                     | Some owner \<Rightarrow> length owner = 32 \<and> owner = digest)
         then raiseA EnrollmentStateError
         else
           bindA (liftE (decrypt_totp env a)) (\<lambda>secret_bytes.
           bindA (liftE (matching_totp_counter env secret_bytes code now)) (\<lambda>matching.
           case matching of
             None \<Rightarrow> seqA (record_challenge_failure_locked env digest (pc_failure_count c)) (returnA None)
           | Some counter \<Rightarrow>
               if counter \<le> totp_last_counter a then
                 seqA (record_challenge_failure_locked env digest (pc_failure_count c)) (returnA None)
               else
                 bindA (update_accounts
                     (\<lambda>r. account_id r = account_id a \<and> enrollment_state r = PENDING
                        \<and> enrollment_challenge_digest r = Some digest \<and> totp_last_counter r < counter)
                     (\<lambda>r. r\<lparr>enrollment_state := ACTIVE, enrollment_challenge_digest := None,
                          totp_last_counter := counter, updated_at := now\<rparr>)) (\<lambda>updated.
                 if updated \<noteq> 1 then
                   seqA (record_challenge_failure_locked env digest (pc_failure_count c)) (returnA None)
                 else
                   bindA (generate_recovery_codes env) (\<lambda>codes.
                   seqA (store_recovery_codes_locked env (account_id a) codes now)
                   (seqA (delete_pending_challenges (\<lambda>r. pc_account r = account_id a))
                   (bindA (account_row_by_id_locked (account_id a)) (\<lambda>row.
                    bindA (liftE (required_row row)) (\<lambda>account_row.
                    bindA (issue_session_locked env account_row now ip ua) (\<lambda>session.
                    returnA (Some \<lparr>er_session = session, er_recovery_codes = codes\<rparr>))))))))))))) second_factor_result))"

definition complete_totp_challenge ::
  "auth_env \<Rightarrow> pyval \<Rightarrow> pyval \<Rightarrow> pyval \<Rightarrow> pyval \<Rightarrow> IssuedSession auth_act" where
  "complete_totp_challenge env challenge_token code ip ua =
     (let digest = opaque_digest env (challenge_digest_key env) challenge_token in
      bindA (now_act env) (\<lambda>now.
      bindA (transaction
        (bindA (challenge_row_locked digest now) (\<lambda>(c, a).
         if enrollment_state a \<noteq> ACTIVE then raiseA EnrollmentStateError
         else
           bindA (liftE (decrypt_totp env a)) (\<lambda>secret_bytes.
           bindA (liftE (matching_totp_counter env secret_bytes code now)) (\<lambda>matching.
           case matching of
             None \<Rightarrow> seqA (record_challenge_failure_locked env digest (pc_failure_count c)) (returnA None)
           | Some counter \<Rightarrow>
               if counter \<le> totp_last_counter a then
                 seqA (record_challenge_failure_locked env digest (pc_failure_count c)) (returnA None)
               else
                 bindA (update_accounts
                     (\<lambda>r. account_id r = account_id a \<and> enrollment_state r = ACTIVE
                        \<and> totp_last_counter r < counter)
                     (\<lambda>r. r\<lparr>totp_last_counter := counter, updated_at := now\<rparr>)) (\<lambda>updated.
                 if updated \<noteq> 1 then
                   seqA (record_challenge_failure_locked env digest (pc_failure_count c)) (returnA None)
                 else
                   seqA (delete_pending_challenges (\<lambda>r. pc_digest r = digest))
                   (bindA (account_row_by_id_locked (account_id a)) (\<lambda>row.
                    bindA (liftE (required_row row)) (\<lambda>account_row.
                    bindA (issue_session_locked env account_row now ip ua) (\<lambda>session.
                    returnA (Some session)))))))))))
      second_factor_result))"

definition complete_recovery_challenge ::
  "auth_env \<Rightarrow> pyval \<Rightarrow> pyval \<Rightarrow> pyval \<Rightarrow> pyval \<Rightarrow> IssuedSession auth_act" where
  "complete_recovery_challenge env challenge_token recovery_code ip ua =
     (let digest = opaque_digest env (challenge_digest_key env) challenge_token in
      bindA (liftE (normalize_recovery_code recovery_code)) (\<lambda>normalized_code.
      bindA (now_act env) (\<lambda>now.
      bindA (transaction
        (bindA (challenge_row_locked digest now) (\<lambda>(c, a).
         if enrollment_state a \<noteq> ACTIVE then raiseA EnrollmentStateError
         else
           let used = recovery_digest env (account_id a) normalized_code in
           bindA (delete_recovery_codes (\<lambda>r. rc_account r = account_id a \<and> code_digest r = used)) (\<lambda>consumed.
           if consumed \<noteq> 1 then
             seqA (record_challenge_failure_locked env digest (pc_failure_count c)) (returnA None)
           else
             seqA (delete_pending_challenges (\<lambda>r. pc_account r = account_id a))
             (seqA (delete_passkey_challenges (\<lambda>k. pkc_account k = Some (account_id a)))
             (seqA (delete_sessions (\<lambda>s. s_account s = account_id a))
             (bindA (account_row_by_id_locked (account_id a)) (\<lambda>row.
              bindA (liftE (required_row row)) (\<lambda>account_row.
              bindA (issue_session_locked env account_row now ip ua) (\<lambda>session.
              returnA (Some session))))))))))) second_factor_result)))"

section \<open>Sessions\<close>

definition authenticate_session :: "auth_env \<Rightarrow> pyval \<Rightarrow> bool \<Rightarrow> SessionPrincipal auth_act" where
  "authenticate_session env tok touch =
     (let digest = opaque_digest env (session_digest_key env) tok in
      bindA (now_act env) (\<lambda>now.
      bindA (transaction
        (bindA (valid_session_row_locked digest now touch) (\<lambda>loaded.
         returnA (map_option (\<lambda>(row, effective). principal_from_session_row row effective None) loaded))))
      (\<lambda>p. case p of None \<Rightarrow> raiseA InvalidSessionError | Some pr \<Rightarrow> returnA pr)))"

definition mark_step_up :: "auth_env \<Rightarrow> pyval \<Rightarrow> SessionPrincipal auth_act" where
  "mark_step_up env session_token =
     (let digest = opaque_digest env (session_digest_key env) session_token in
      bindA (now_act env) (\<lambda>now.
      bindA (transaction
        (bindA (valid_session_row_locked digest now True) (\<lambda>loaded.
         case loaded of
           None \<Rightarrow> returnA None
         | Some (row, effective) \<Rightarrow>
             let until = min (now + STEP_UP_SECONDS) (absolute_expires_at (fst row)) in
             seqA (update_sessions (\<lambda>s. session_digest s = digest) (\<lambda>s. s\<lparr>step_up_until := until\<rparr>))
             (returnA (Some (principal_from_session_row row effective (Some until)))))))
      (\<lambda>p. case p of None \<Rightarrow> raiseA InvalidSessionError | Some pr \<Rightarrow> returnA pr)))"

definition require_step_up :: "auth_env \<Rightarrow> pyval \<Rightarrow> SessionPrincipal auth_act" where
  "require_step_up env session_token =
     (let digest = opaque_digest env (session_digest_key env) session_token in
      bindA (now_act env) (\<lambda>now.
      bindA (transaction
        (bindA (valid_session_row_locked digest now True) (\<lambda>loaded.
         case loaded of
           None \<Rightarrow> returnA (None, False)
         | Some (row, effective) \<Rightarrow>
             if step_up_until (fst row) \<le> now then returnA (None, True)
             else returnA (Some (principal_from_session_row row effective None), False))))
      (\<lambda>(p, step_up_missing).
         case p of
           Some pr \<Rightarrow> returnA pr
         | None \<Rightarrow> if step_up_missing then raiseA StepUpRequiredError else raiseA InvalidSessionError)))"

definition revoke_session :: "auth_env \<Rightarrow> pyval \<Rightarrow> bool auth_act" where
  "revoke_session env tok =
     (let digest = opaque_digest env (session_digest_key env) tok in
      bindA (transaction (delete_sessions (\<lambda>s. session_digest s = digest))) (\<lambda>deleted.
      returnA (deleted = 1)))"

definition session_list_order :: "auth_session \<Rightarrow> int \<times> int \<times> pystr" where
  "session_list_order s = (- last_seen_at s, - s_created_at s, session_id s)"

definition list_sessions :: "auth_env \<Rightarrow> pyval \<Rightarrow> pyval \<Rightarrow> SessionInfo list auth_act" where
  "list_sessions env account_value current_session_token =
     bindA (liftE (validate_account_id account_value)) (\<lambda>i.
     let current_digest = (if current_session_token = PyNone then None
           else Some (opaque_digest env (session_digest_key env) current_session_token)) in
     bindA (now_act env) (\<lambda>now.
     bindA (transaction
       (seqA (require_account_by_id_locked i)
       (seqA (delete_expired_sessions_locked now)
       (selectA (\<lambda>d. sort_key session_list_order (filter (\<lambda>s. s_account s = i) (sessions d))))))) (\<lambda>rows.
     liftE (traverse (\<lambda>s. session_info_from_row s (Some (session_digest s) = current_digest)) rows))))"

definition revoke_session_by_id :: "pyval \<Rightarrow> pyval \<Rightarrow> bool auth_act" where
  "revoke_session_by_id account_value session_value =
     bindA (liftE (validate_account_id account_value)) (\<lambda>i.
     bindA (liftE (validate_session_id session_value)) (\<lambda>sid.
     bindA (transaction
       (seqA (require_account_by_id_locked i)
       (delete_sessions (\<lambda>s. s_account s = i \<and> session_id s = sid)))) (\<lambda>deleted.
     returnA (deleted = 1))))"

definition revoke_sessions :: "auth_env \<Rightarrow> pyval \<Rightarrow> nat auth_act" where
  "revoke_sessions env account_value =
     bindA (liftE (validate_account_id account_value)) (\<lambda>i.
     transaction
       (seqA (require_account_by_id_locked i) (revoke_account_authentication_locked env i)))"

end
