(* ===== verification/Auth_Passkeys.thy ===== *)
theory Auth_Passkeys
  imports Auth_Login
begin

text \<open>
  Passkeys: challenges, registration, discoverable login and step-up (\<open>begin_passkey_registration\<close>
  to \<open>complete_passkey_step_up\<close> of \<open>AuthStore\<close> and their helpers). Parsing and verifying WebAuthn
  responses is the work of \<open>py_webauthn\<close> and enters through the environment.
\<close>

section \<open>Helpers\<close>

text \<open>A credential argument: an object already parsed, or the JSON text or mapping of one.\<close>

datatype credential_arg = Parsed WebAuthnResponse | Raw pyval

definition parse_registration_credential :: "auth_env \<Rightarrow> credential_arg \<Rightarrow> WebAuthnResponse res" where
  "parse_registration_credential env value =
     (case value of
        Parsed r \<Rightarrow> Inr r
      | Raw (PyStr s) \<Rightarrow> parse_registration_credential_json env (PyStr s)
      | Raw (PyDict m) \<Rightarrow> parse_registration_credential_json env (PyDict m)
      | Raw _ \<Rightarrow> Inl ValueError)"

definition parse_authentication_credential :: "auth_env \<Rightarrow> credential_arg \<Rightarrow> WebAuthnResponse res" where
  "parse_authentication_credential env value =
     (case value of
        Parsed r \<Rightarrow> Inr r
      | Raw (PyStr s) \<Rightarrow> parse_authentication_credential_json env (PyStr s)
      | Raw (PyDict m) \<Rightarrow> parse_authentication_credential_json env (PyDict m)
      | Raw _ \<Rightarrow> Inl ValueError)"

definition require_passkey_configuration :: "auth_env \<Rightarrow> (pystr \<times> pystr) res" where
  "require_passkey_configuration env =
     (case (webauthn_rp_id env, webauthn_origin env) of
        (Some rp_id, Some origin) \<Rightarrow> Inr (rp_id, origin)
      | _ \<Rightarrow> Inl AuthenticationError)"

definition passkey_challenge_digest :: "auth_env \<Rightarrow> bytes \<Rightarrow> bytes" where
  "passkey_challenge_digest env challenge = hmac_sha256 env (passkey_challenge_digest_key env) challenge"

definition options_to_payload :: "pyval \<Rightarrow> pyval res" where
  "options_to_payload payload = (case payload of PyDict _ \<Rightarrow> Inr payload | _ \<Rightarrow> Inl AuthenticationDataError)"

definition account_handle :: "pystr \<Rightarrow> bytes res" where
  "account_handle i = (case fromhex i of None \<Rightarrow> Inl ValueError | Some b \<Rightarrow> Inr b)"

definition passkey_challenge_order :: "passkey_challenge \<Rightarrow> int \<times> bytes" where
  "passkey_challenge_order c = (pkc_created_at c, pkc_digest c)"

definition delete_expired_passkey_challenges_locked :: "int \<Rightarrow> unit auth_act" where
  "delete_expired_passkey_challenges_locked now =
     seqA (delete_passkey_challenges (\<lambda>c. pkc_expires_at c \<le> now)) (returnA ())"

definition evict_passkey_challenges_locked ::
  "(passkey_challenge \<Rightarrow> bool) \<Rightarrow> nat \<Rightarrow> unit auth_act" where
  "evict_passkey_challenges_locked P maximum =
     bindA (selectA (\<lambda>d. rowcount P (passkey_challenges d))) (\<lambda>challenge_count.
     if maximum \<le> challenge_count then
       bindA (selectA (\<lambda>d. selected pkc_digest passkey_challenge_order
                (challenge_count - maximum + 1) P (passkey_challenges d))) (\<lambda>victim.
       seqA (delete_passkey_challenges victim) (returnA ()))
     else returnA ())"

definition create_passkey_challenge_locked ::
  "auth_env \<Rightarrow> passkey_purpose \<Rightarrow> pystr option \<Rightarrow> bytes option \<Rightarrow> int \<Rightarrow> (bytes \<times> pystr) auth_act" where
  "create_passkey_challenge_locked env purp i session now =
     seqA (delete_expired_passkey_challenges_locked now)
     (seqA
       (if purp = Login then
          if i \<noteq> None \<or> session \<noteq> None then raiseA ValueError
          else evict_passkey_challenges_locked (\<lambda>c. purpose c = Login)
                 MAX_ANONYMOUS_PASSKEY_LOGIN_CHALLENGES
        else if i = None \<or> session = None then raiseA ValueError
        else evict_passkey_challenges_locked (\<lambda>c. purpose c \<noteq> Login \<and> pkc_account c = i)
               MAX_PASSKEY_CHALLENGES_PER_ACCOUNT)
     (bindA (draw_fresh 8
         (bindA (random_bytes env TOKEN_BYTES) (\<lambda>b. returnA (b, passkey_challenge_digest env b)))
         (\<lambda>d (b, digest). fetchone (\<lambda>c. pkc_digest c = digest) (passkey_challenges d) \<noteq> None))
       (\<lambda>(challenge, digest).
      seqA (insert_passkey_challenge \<lparr>pkc_digest = digest, purpose = purp, pkc_account = i,
         pkc_session = session, pkc_created_at = now,
         pkc_expires_at = now + CHALLENGE_LIFETIME_SECONDS, pkc_failure_count = 0\<rparr>)
      (returnA (challenge, encode_opaque_token challenge)))))"

definition passkey_challenge_row_locked ::
  "bytes \<Rightarrow> int \<Rightarrow> passkey_purpose \<Rightarrow> pystr option \<Rightarrow> bytes option \<Rightarrow> passkey_challenge auth_act" where
  "passkey_challenge_row_locked digest now purp i session =
     bindA (selectA (\<lambda>d. fetchone (\<lambda>c. pkc_digest c = digest) (passkey_challenges d))) (\<lambda>row.
     case row of
       None \<Rightarrow> raiseA InvalidChallengeError
     | Some c \<Rightarrow>
         if pkc_expires_at c \<le> now then raiseA InvalidChallengeError
         else if purpose c \<noteq> purp then raiseA InvalidChallengeError
         else if pkc_account c \<noteq> i then raiseA InvalidChallengeError
         else if pkc_session c \<noteq> session then raiseA InvalidChallengeError
         else returnA c)"

definition record_passkey_challenge_failure_locked :: "bytes \<Rightarrow> int \<Rightarrow> unit auth_act" where
  "record_passkey_challenge_failure_locked digest failure_count =
     (let next_count = failure_count + 1 in
      if CHALLENGE_FAILURE_LIMIT \<le> next_count then
        seqA (delete_passkey_challenges (\<lambda>c. pkc_digest c = digest)) (returnA ())
      else
        seqA (update_passkey_challenges (\<lambda>c. pkc_digest c = digest)
                (\<lambda>c. c\<lparr>pkc_failure_count := next_count\<rparr>))
        (returnA ()))"

definition credential_order :: "passkey_credential \<Rightarrow> int \<times> bytes" where
  "credential_order p = (pk_created_at p, credential_id p)"

definition account_credentials :: "pystr \<Rightarrow> auth_db \<Rightarrow> passkey_credential list" where
  "account_credentials i d =
     sort_key credential_order (filter (\<lambda>p. pk_account p = i) (passkey_credentials d))"

definition passkey_credential_row_locked :: "bytes \<Rightarrow> pystr \<Rightarrow> passkey_credential option auth_act" where
  "passkey_credential_row_locked cid i =
     selectA (\<lambda>d. fetchone (\<lambda>p. credential_id p = cid \<and> pk_account p = i) (passkey_credentials d))"

definition passkey_credential_row_by_id_locked :: "bytes \<Rightarrow> passkey_credential option auth_act" where
  "passkey_credential_row_by_id_locked cid =
     selectA (\<lambda>d. fetchone (\<lambda>p. credential_id p = cid) (passkey_credentials d))"

definition known_device_type :: "pystr \<Rightarrow> bool" where
  "known_device_type t \<longleftrightarrow> t = lit ''single_device'' \<or> t = lit ''multi_device''"

definition credential_id_in_bounds :: "bytes \<Rightarrow> bool" where
  "credential_id_in_bounds cid \<longleftrightarrow> 1 \<le> length cid \<and> length cid \<le> MAX_CREDENTIAL_ID_BYTES"

definition validate_registration_result :: "WebAuthnResponse \<Rightarrow> VerifiedCredential \<Rightarrow> unit res" where
  "validate_registration_result credential verified =
     (if \<not> verified_user verified
         \<or> raw_id credential \<noteq> verified_credential_id verified
         \<or> \<not> credential_id_in_bounds (verified_credential_id verified)
         \<or> verified_public_key verified = []
         \<or> verified_sign_count verified < 0
         \<or> \<not> known_device_type (verified_device_type verified)
      then Inl InvalidPasskeyError else Inr ())"

definition verify_passkey_assertion_locked ::
  "auth_env \<Rightarrow> credential_arg \<Rightarrow> bytes \<Rightarrow> pystr \<Rightarrow> pystr \<Rightarrow> pystr \<Rightarrow> int \<Rightarrow> VerifiedCredential auth_act" where
  "verify_passkey_assertion_locked env credential challenge i rp_id origin now =
     bindA (liftE (parse_authentication_credential env credential)) (\<lambda>parsed.
     let cid = raw_id parsed in
     if \<not> credential_id_in_bounds cid then raiseA InvalidPasskeyError
     else
       bindA (passkey_credential_row_locked cid i) (\<lambda>row.
       case row of
         None \<Rightarrow> raiseA InvalidPasskeyError
       | Some p \<Rightarrow>
           bindA (case user_handle parsed of
               None \<Rightarrow> returnA ()
             | Some h \<Rightarrow> bindA (liftE (account_handle i)) (\<lambda>b.
                 if h \<noteq> b then raiseA InvalidPasskeyError else returnA ())) (\<lambda>_.
           let current_sign_count = sign_count p in
           bindA (liftE (verify_authentication env parsed challenge rp_id origin (public_key p)
                    current_sign_count)) (\<lambda>verified.
           let new_sign_count = verified_sign_count verified in
           if \<not> verified_user verified
              \<or> verified_credential_id verified \<noteq> cid
              \<or> new_sign_count < 0
              \<or> ((0 < new_sign_count \<or> 0 < current_sign_count) \<and> new_sign_count \<le> current_sign_count)
              \<or> \<not> known_device_type (verified_device_type verified)
           then raiseA InvalidPasskeyError
           else
             bindA (update_passkey_credentials
                 (\<lambda>q. credential_id q = cid \<and> pk_account q = i \<and> sign_count q = current_sign_count)
                 (\<lambda>q. q\<lparr>sign_count := new_sign_count, device_type := verified_device_type verified,
                      backed_up := verified_backed_up verified, last_used_at := Some now\<rparr>)) (\<lambda>updated.
             if updated \<noteq> 1 then raiseA InvalidPasskeyError else returnA verified)))))"

text \<open>\<open>except TypeError, ValueError, WebAuthnException, InvalidPasskeyError\<close>.\<close>

definition passkey_failure :: "exn \<Rightarrow> bool" where
  "passkey_failure e \<longleftrightarrow> e = TypeError \<or> is_value_error e \<or> e = WebAuthnException \<or> e = InvalidPasskeyError"

text \<open>\<open>try: m; except ...: failure marker; else: value\<close>, as an option.\<close>

definition try_passkey :: "'a auth_act \<Rightarrow> 'a option auth_act" where
  "try_passkey m = tryA (bindA m (\<lambda>x. returnA (Some x)))
     (\<lambda>e. if passkey_failure e then returnA None else raiseA e)"

text \<open>How a ceremony's transaction ended; exactly one of the flags of the code is set.\<close>

datatype 'a ceremony_outcome = Done 'a | StepUpMissing | SessionInvalid | VerificationFailed

definition ceremony_result :: "'a ceremony_outcome \<Rightarrow> 'a auth_act" where
  "ceremony_result r =
     (case r of
        Done x \<Rightarrow> returnA x
      | StepUpMissing \<Rightarrow> raiseA StepUpRequiredError
      | SessionInvalid \<Rightarrow> raiseA InvalidSessionError
      | VerificationFailed \<Rightarrow> raiseA InvalidPasskeyError)"

definition decode_challenge :: "pyval \<Rightarrow> bytes res" where
  "decode_challenge challenge_token =
     (case decode_opaque_token challenge_token of None \<Rightarrow> Inl InvalidChallengeError | Some b \<Rightarrow> Inr b)"

section \<open>Registration\<close>

definition begin_passkey_registration :: "auth_env \<Rightarrow> pyval \<Rightarrow> PasskeyCeremony auth_act" where
  "begin_passkey_registration env session_token =
     bindA (liftE (require_passkey_configuration env)) (\<lambda>(rp_id, _).
     let digest = opaque_digest env (session_digest_key env) session_token in
     bindA (now_act env) (\<lambda>now.
     bindA (transaction
       (bindA (valid_session_row_locked digest now True) (\<lambda>loaded.
        case loaded of
          None \<Rightarrow> returnA SessionInvalid
        | Some ((s, a), _) \<Rightarrow>
            if step_up_until s \<le> now then returnA StepUpMissing
            else
              bindA (selectA (account_credentials (account_id a))) (\<lambda>credentials.
              if MAX_PASSKEYS_PER_ACCOUNT \<le> length credentials then raiseA PasskeyLimitError
              else
                bindA (create_passkey_challenge_locked env Registration (Some (account_id a))
                         (Some digest) now) (\<lambda>(challenge, challenge_token).
                bindA (liftE (bind_res (account_handle (account_id a)) (\<lambda>user.
                    bind_res (registration_options env rp_id (issuer env) user (canonical_email a)
                       challenge (map credential_id credentials)) options_to_payload))) (\<lambda>payload.
                returnA (Done \<lparr>ceremony_token = challenge_token, ceremony_options = payload\<rparr>)))))))
     ceremony_result))"

definition store_passkey_locked ::
  "auth_env \<Rightarrow> pystr \<Rightarrow> pystr \<Rightarrow> WebAuthnResponse \<Rightarrow> VerifiedCredential \<Rightarrow> int \<Rightarrow> unit auth_act" where
  "store_passkey_locked env i normalized_name parsed verified now =
     bindA (new_passkey_public_id_locked env) (\<lambda>pid.
     bindA (liftE (json_dumps_ascii env (PyTuple (map PyStr (response_transports parsed))))) (\<lambda>ts.
     seqA (bind_text (Some normalized_name))
     (insert_passkey_credential \<lparr>credential_id = verified_credential_id verified, public_id = pid,
        pk_account = i, public_key = verified_public_key verified,
        sign_count = verified_sign_count verified, pk_name = normalized_name,
        device_type = verified_device_type verified, backed_up = verified_backed_up verified,
        transports = ts, pk_created_at = now, last_used_at = None\<rparr>)))"

definition complete_passkey_registration ::
  "auth_env \<Rightarrow> pyval \<Rightarrow> pyval \<Rightarrow> credential_arg \<Rightarrow> pyval \<Rightarrow> PasskeyCredential auth_act" where
  "complete_passkey_registration env session_token challenge_token credential name =
     bindA (liftE (require_passkey_configuration env)) (\<lambda>(rp_id, origin).
     bindA (liftE (normalize_passkey_name name)) (\<lambda>normalized_name.
     bindA (liftE (decode_challenge challenge_token)) (\<lambda>challenge.
     let challenge_digest = passkey_challenge_digest env challenge;
         session = opaque_digest env (session_digest_key env) session_token in
     bindA (now_act env) (\<lambda>now.
     bindA (transaction
       (bindA (valid_session_row_locked session now True) (\<lambda>loaded.
        case loaded of
          None \<Rightarrow> returnA SessionInvalid
        | Some ((s, a), _) \<Rightarrow>
            if step_up_until s \<le> now then returnA StepUpMissing
            else
              bindA (passkey_challenge_row_locked challenge_digest now Registration
                       (Some (account_id a)) (Some session)) (\<lambda>c.
              bindA (selectA (\<lambda>d. rowcount (\<lambda>p. pk_account p = account_id a) (passkey_credentials d))) (\<lambda>credential_count.
              if MAX_PASSKEYS_PER_ACCOUNT \<le> credential_count then raiseA PasskeyLimitError
              else
                bindA (try_passkey (liftE
                  (bind_res (parse_registration_credential env credential) (\<lambda>parsed.
                   bind_res (verify_registration env parsed challenge rp_id origin) (\<lambda>verified.
                   bind_res (validate_registration_result parsed verified) (\<lambda>_.
                   Inr (parsed, verified))))))) (\<lambda>attempt.
                case attempt of
                  None \<Rightarrow>
                    seqA (record_passkey_challenge_failure_locked challenge_digest (pkc_failure_count c))
                    (returnA VerificationFailed)
                | Some (parsed, verified) \<Rightarrow>
                    bindA (tryA
                      (seqA (store_passkey_locked env (account_id a) normalized_name parsed verified now)
                        (returnA True))
                      (\<lambda>e. if e = IntegrityError then returnA False else raiseA e)) (\<lambda>stored.
                    if \<not> stored then
                      seqA (record_passkey_challenge_failure_locked challenge_digest (pkc_failure_count c))
                      (returnA VerificationFailed)
                    else
                      seqA (delete_passkey_challenges (\<lambda>k. pkc_digest k = challenge_digest))
                      (bindA (passkey_credential_row_locked (verified_credential_id verified) (account_id a)) (\<lambda>row.
                       bindA (liftE (bind_res (required_row row) (passkey_credential_from_row env))) (\<lambda>result.
                       returnA (Done result)))))))))))
     ceremony_result))))"

definition list_passkeys :: "auth_env \<Rightarrow> pyval \<Rightarrow> PasskeyCredential list auth_act" where
  "list_passkeys env account_value =
     bindA (liftE (validate_account_id account_value)) (\<lambda>i.
     bindA (transaction
       (seqA (require_account_by_id_locked i) (selectA (account_credentials i)))) (\<lambda>rows.
     liftE (traverse (passkey_credential_from_row env) rows)))"

definition delete_passkey :: "pyval \<Rightarrow> pyval \<Rightarrow> bool auth_act" where
  "delete_passkey account_value public_value =
     bindA (liftE (validate_account_id account_value)) (\<lambda>i.
     bindA (liftE (validate_passkey_public_id public_value)) (\<lambda>pid.
     bindA (transaction
       (seqA (require_account_by_id_locked i)
       (delete_passkey_credentials (\<lambda>p. pk_account p = i \<and> public_id p = pid)))) (\<lambda>deleted.
     returnA (deleted = 1))))"

section \<open>Login\<close>

definition begin_passkey_login :: "auth_env \<Rightarrow> PasskeyCeremony auth_act" where
  "begin_passkey_login env =
     bindA (liftE (require_passkey_configuration env)) (\<lambda>(rp_id, _).
     bindA (now_act env) (\<lambda>now.
     bindA (transaction
       (bindA (create_passkey_challenge_locked env Login None None now) (\<lambda>(challenge, challenge_token).
        bindA (liftE (authentication_options env rp_id challenge [])) (\<lambda>options.
        returnA (challenge_token, options))))) (\<lambda>(challenge_token, options).
     liftE (bind_res (options_to_payload options) (\<lambda>payload.
       Inr \<lparr>ceremony_token = challenge_token, ceremony_options = payload\<rparr>)))))"

definition verify_passkey_login ::
  "auth_env \<Rightarrow> pyval \<Rightarrow> credential_arg \<Rightarrow> VerifiedPasskeyIdentity auth_act" where
  "verify_passkey_login env challenge_token credential =
     bindA (liftE (require_passkey_configuration env)) (\<lambda>(rp_id, origin).
     bindA (liftE (decode_challenge challenge_token)) (\<lambda>challenge.
     let challenge_digest = passkey_challenge_digest env challenge in
     bindA (now_act env) (\<lambda>now.
     bindA (transaction
       (bindA (passkey_challenge_row_locked challenge_digest now Login None None) (\<lambda>c.
        bindA (try_passkey
          (bindA (liftE (parse_authentication_credential env credential)) (\<lambda>parsed.
           if \<not> credential_id_in_bounds (raw_id parsed) then raiseA InvalidPasskeyError
           else
             bindA (passkey_credential_row_by_id_locked (raw_id parsed)) (\<lambda>row.
             case row of
               None \<Rightarrow> raiseA InvalidPasskeyError
             | Some p \<Rightarrow>
                 (case user_handle parsed of
                    None \<Rightarrow> raiseA InvalidPasskeyError
                  | Some h \<Rightarrow>
                      bindA (liftE (account_handle (pk_account p))) (\<lambda>b.
                      if h \<noteq> b then raiseA InvalidPasskeyError
                      else
                        seqA (verify_passkey_assertion_locked env (Parsed parsed) challenge
                                (pk_account p) rp_id origin now)
                        (returnA (pk_account p)))))))) (\<lambda>attempt.
        case attempt of
          None \<Rightarrow>
            seqA (record_passkey_challenge_failure_locked challenge_digest (pkc_failure_count c))
            (returnA VerificationFailed)
        | Some i \<Rightarrow>
            seqA (delete_passkey_challenges (\<lambda>k. pkc_digest k = challenge_digest))
            (bindA (account_row_by_id_locked i) (\<lambda>row.
             bindA (liftE (required_row row)) (\<lambda>a.
             returnA (Done \<lparr>vi_account_id = PyStr i, vi_email = PyStr (canonical_email a)\<rparr>))))))))
     ceremony_result)))"

definition issue_verified_passkey_session ::
  "auth_env \<Rightarrow> VerifiedPasskeyIdentity \<Rightarrow> pyval \<Rightarrow> pyval \<Rightarrow> IssuedSession auth_act" where
  "issue_verified_passkey_session env identity ip ua =
     bindA (liftE (validate_account_id (vi_account_id identity))) (\<lambda>i.
     bindA (liftE (canonicalize_email (vi_email identity))) (\<lambda>email.
     bindA (now_act env) (\<lambda>now.
     transaction
       (bindA (account_row_by_id_locked i) (\<lambda>row.
        case row of
          None \<Rightarrow> raiseA AccountNotFoundError
        | Some a \<Rightarrow>
            if canonical_email a \<noteq> email then raiseA AccountNotFoundError
            else issue_session_locked env a now ip ua)))))"

definition complete_passkey_login ::
  "auth_env \<Rightarrow> pyval \<Rightarrow> credential_arg \<Rightarrow> pyval \<Rightarrow> pyval \<Rightarrow> IssuedSession auth_act" where
  "complete_passkey_login env challenge_token credential ip ua =
     bindA (verify_passkey_login env challenge_token credential) (\<lambda>identity.
     issue_verified_passkey_session env identity ip ua)"

section \<open>Step-up\<close>

definition begin_passkey_step_up :: "auth_env \<Rightarrow> pyval \<Rightarrow> PasskeyCeremony auth_act" where
  "begin_passkey_step_up env session_token =
     bindA (liftE (require_passkey_configuration env)) (\<lambda>(rp_id, _).
     let digest = opaque_digest env (session_digest_key env) session_token in
     bindA (now_act env) (\<lambda>now.
     bindA (transaction
       (bindA (valid_session_row_locked digest now True) (\<lambda>loaded.
        case loaded of
          None \<Rightarrow> returnA SessionInvalid
        | Some ((s, a), _) \<Rightarrow>
            bindA (selectA (account_credentials (account_id a))) (\<lambda>credentials.
            if credentials = [] then raiseA InvalidPasskeyError
            else
              bindA (create_passkey_challenge_locked env StepUp (Some (account_id a))
                       (Some digest) now) (\<lambda>(challenge, challenge_token).
              bindA (liftE (bind_res (authentication_options env rp_id challenge
                       (map credential_id credentials)) options_to_payload)) (\<lambda>payload.
              returnA (Done \<lparr>ceremony_token = challenge_token, ceremony_options = payload\<rparr>)))))))
     ceremony_result))"

definition complete_passkey_step_up ::
  "auth_env \<Rightarrow> pyval \<Rightarrow> pyval \<Rightarrow> credential_arg \<Rightarrow> SessionPrincipal auth_act" where
  "complete_passkey_step_up env session_token challenge_token credential =
     bindA (liftE (require_passkey_configuration env)) (\<lambda>(rp_id, origin).
     bindA (liftE (decode_challenge challenge_token)) (\<lambda>challenge.
     let challenge_digest = passkey_challenge_digest env challenge;
         session = opaque_digest env (session_digest_key env) session_token in
     bindA (now_act env) (\<lambda>now.
     bindA (transaction
       (bindA (valid_session_row_locked session now True) (\<lambda>loaded.
        case loaded of
          None \<Rightarrow> returnA SessionInvalid
        | Some ((s, a), effective) \<Rightarrow>
            bindA (passkey_challenge_row_locked challenge_digest now StepUp
                     (Some (account_id a)) (Some session)) (\<lambda>c.
            bindA (try_passkey
              (verify_passkey_assertion_locked env credential challenge (account_id a) rp_id origin now)) (\<lambda>attempt.
            case attempt of
              None \<Rightarrow>
                seqA (record_passkey_challenge_failure_locked challenge_digest (pkc_failure_count c))
                (returnA VerificationFailed)
            | Some _ \<Rightarrow>
                let until = min (now + STEP_UP_SECONDS) (absolute_expires_at s) in
                seqA (update_sessions (\<lambda>r. session_digest r = session) (\<lambda>r. r\<lparr>step_up_until := until\<rparr>))
                (seqA (delete_passkey_challenges (\<lambda>k. pkc_digest k = challenge_digest))
                (returnA (Done (principal_from_session_row (s, a) effective (Some until))))))))))
     ceremony_result)))"

end
