(* ===== verification/Auth_Tables.thy ===== *)
theory Auth_Tables
  imports Auth_Schema
begin

text \<open>
  What SQLite's constraints guarantee. A constrained table is one whose rows meet the row checks
  and are pairwise free of key conflicts; INSERT, UPDATE and DELETE keep it so. The nine tables
  are instances, and \<open>schema_inv\<close> says that all of them are in order, references included; every
  statement of the store preserves it.
\<close>

section \<open>Constrained tables\<close>

definition table_inv :: "('r \<Rightarrow> bool) \<Rightarrow> ('r \<Rightarrow> 'r \<Rightarrow> bool) \<Rightarrow> 'r list \<Rightarrow> bool" where
  "table_inv chk conflict rows \<longleftrightarrow> list_all chk rows \<and> sorted_wrt (\<lambda>a b. \<not> conflict a b) rows"

lemma table_inv_Nil [simp]: "table_inv chk conflict []"
  by (simp add: table_inv_def)

lemma table_inv_check: "table_inv chk conflict rows \<Longrightarrow> r \<in> set rows \<Longrightarrow> chk r"
  by (simp add: table_inv_def list_all_iff)

lemma table_inv_mono:
  "table_inv chk conflict rows \<Longrightarrow> (\<And>r. r \<in> set rows \<Longrightarrow> chk r \<Longrightarrow> chk' r) \<Longrightarrow> table_inv chk' conflict rows"
  by (simp add: table_inv_def list_all_iff)

text \<open>A key column whose equality is a conflict has distinct values.\<close>

lemma table_inv_distinct:
  "table_inv chk conflict rows \<Longrightarrow> (\<And>a b. k a = k b \<Longrightarrow> conflict a b) \<Longrightarrow> distinct (map k rows)"
  unfolding table_inv_def by (induction rows) (auto simp: image_iff)

lemma table_inv_delete:
  "table_inv chk conflict rows \<Longrightarrow> table_inv chk conflict (delete_rows P rows)"
  by (auto simp: table_inv_def delete_rows_def list_all_iff intro: sorted_wrt_filter)

lemma table_inv_delete_mono:
  "table_inv chk conflict rows \<Longrightarrow> (\<And>r. r \<in> set rows \<Longrightarrow> \<not> P r \<Longrightarrow> chk r \<Longrightarrow> chk' r) \<Longrightarrow>
     table_inv chk' conflict (delete_rows P rows)"
  by (rule table_inv_mono [where chk = chk], rule table_inv_delete) simp_all

lemma free_set_where:
  "(\<And>a b. conflict (f a) b = conflict a b) \<Longrightarrow> (\<And>a b. conflict a (f b) = conflict a b) \<Longrightarrow>
   sorted_wrt (\<lambda>a b. \<not> conflict a b) rows \<Longrightarrow> sorted_wrt (\<lambda>a b. \<not> conflict a b) (set_where P f rows)"
  unfolding set_where_def sorted_wrt_map by (erule sorted_wrt_mono_rel [rotated]) auto

locale constrained_table =
  fixes chk :: "'r \<Rightarrow> bool"
    and conflict :: "'r \<Rightarrow> 'r \<Rightarrow> bool"
  assumes conflict_sym: "conflict a b \<Longrightarrow> conflict b a"
begin

lemma insert_keeps:
  "table_inv chk conflict rows \<Longrightarrow> row_ok chk conflict rows r \<Longrightarrow> table_inv chk conflict (rows @ [r])"
  by (auto simp: table_inv_def row_ok_def list_all_iff sorted_wrt_append dest: conflict_sym)

lemma update_loop_keeps:
  "table_inv chk conflict (seen @ rs) \<Longrightarrow> update_loop (row_ok chk conflict) P f seen rs = Inr rows \<Longrightarrow>
     table_inv chk conflict rows"
proof (induction rs arbitrary: seen)
  case (Cons r rs)
  show ?case
  proof (cases "P r")
    case True
    with Cons.prems(2) have ok: "row_ok chk conflict (seen @ rs) (f r)"
      and step: "update_loop (row_ok chk conflict) P f (seen @ [f r]) rs = Inr rows"
      by (auto split: if_splits)
    from Cons.prems(1) ok have "table_inv chk conflict ((seen @ [f r]) @ rs)"
      by (auto simp: table_inv_def row_ok_def list_all_iff sorted_wrt_append dest: conflict_sym)
    from Cons.IH [OF this step] show ?thesis .
  next
    case False
    then show ?thesis using Cons.IH [of "seen @ [r]"] Cons.prems by simp
  qed
qed simp

lemma update_keeps:
  "table_inv chk conflict rows \<Longrightarrow> update_rows (row_ok chk conflict) P f rows = Inr rows' \<Longrightarrow>
     table_inv chk conflict rows'"
  unfolding update_rows_def by (rule update_loop_keeps [of "[]"]) simp_all

text \<open>An UPDATE that keeps the checks and the keys of every row it writes cannot fail.\<close>

lemma update_succeeds:
  assumes inv: "table_inv chk conflict rows"
    and chk: "\<And>r. r \<in> set rows \<Longrightarrow> P r \<Longrightarrow> chk (f r)"
    and key: "\<And>r q. conflict (f r) q = conflict r q"
  shows "update_rows (row_ok chk conflict) P f rows = Inr (set_where P f rows)"
proof (rule update_rows_ok)
  fix pre r post
  assume rows: "rows = pre @ r # post" and P: "P r"
  have free: "\<not> conflict r q" if "q \<in> set pre \<or> q \<in> set post" for q
    using inv that unfolding rows table_inv_def
    by (auto simp: sorted_wrt_append dest: conflict_sym)
  have "\<not> conflict (f r) q" if "q \<in> set (set_where P f pre @ post)" for q
  proof -
    from that consider q' where "q' \<in> set pre" "q = f q'" | "q \<in> set pre \<or> q \<in> set post"
      by (auto simp: set_set_where split: if_splits)
    then show ?thesis
    proof cases
      case 1
      have "conflict (f r) (f q') \<longleftrightarrow> conflict r q'"
        using key conflict_sym by metis
      with 1 free show ?thesis by auto
    next
      case 2
      with free key show ?thesis by auto
    qed
  qed
  moreover have "chk (f r)" by (rule chk) (simp_all add: rows P)
  ultimately show "row_ok chk conflict (set_where P f pre @ post) (f r)"
    by (simp add: row_ok_def list_all_iff)
qed

end

interpretation accounts_table: constrained_table account_check account_conflict
  by unfold_locales (auto simp: account_conflict_def)

interpretation recovery_codes_table: constrained_table "recovery_code_check ids" recovery_code_conflict for ids
  by unfold_locales (auto simp: recovery_code_conflict_def)

interpretation pending_table: constrained_table "pending_challenge_check ids" pending_challenge_conflict for ids
  by unfold_locales (auto simp: pending_challenge_conflict_def)

interpretation sessions_table: constrained_table "session_check ids" session_conflict for ids
  by unfold_locales (auto simp: session_conflict_def)

interpretation rate_table: constrained_table "rate_limit_check ids" rate_limit_conflict for ids
  by unfold_locales (auto simp: rate_limit_conflict_def)

interpretation credentials_table: constrained_table "passkey_credential_check ids" passkey_credential_conflict for ids
  by unfold_locales (auto simp: passkey_credential_conflict_def)

interpretation passkey_challenges_table: constrained_table "passkey_challenge_check ids digests"
  passkey_challenge_conflict for ids digests
  by unfold_locales (auto simp: passkey_challenge_conflict_def)

interpretation rules_table: constrained_table "mail_rule_check ids" mail_rule_conflict for ids
  by unfold_locales (auto simp: mail_rule_conflict_def)

interpretation runs_table: constrained_table "mail_rule_run_check ids rules" mail_rule_run_conflict
  for ids rules
  by unfold_locales (auto simp: mail_rule_run_conflict_def)

section \<open>The schema invariant\<close>

definition schema_inv :: "auth_db \<Rightarrow> bool" where
  "schema_inv d \<longleftrightarrow>
     table_inv account_check account_conflict (accounts d)
     \<and> table_inv (recovery_code_check (account_ids d)) recovery_code_conflict (recovery_codes d)
     \<and> table_inv (pending_challenge_check (account_ids d)) pending_challenge_conflict (pending_challenges d)
     \<and> table_inv (session_check (account_ids d)) session_conflict (sessions d)
     \<and> table_inv (rate_limit_check (account_ids d)) rate_limit_conflict (rate_limits d)
     \<and> table_inv (passkey_credential_check (account_ids d)) passkey_credential_conflict (passkey_credentials d)
     \<and> table_inv (passkey_challenge_check (account_ids d) (session_digests d)) passkey_challenge_conflict (passkey_challenges d)
     \<and> table_inv (mail_rule_check (account_ids d)) mail_rule_conflict (mail_rules d)
     \<and> table_inv (mail_rule_run_check (account_ids d) (rule_ids d)) mail_rule_run_conflict (mail_rule_runs d)"

lemma schema_tables:
  assumes "schema_inv d"
  shows "table_inv account_check account_conflict (accounts d)"
    "table_inv (recovery_code_check (account_ids d)) recovery_code_conflict (recovery_codes d)"
    "table_inv (pending_challenge_check (account_ids d)) pending_challenge_conflict (pending_challenges d)"
    "table_inv (session_check (account_ids d)) session_conflict (sessions d)"
    "table_inv (rate_limit_check (account_ids d)) rate_limit_conflict (rate_limits d)"
    "table_inv (passkey_credential_check (account_ids d)) passkey_credential_conflict (passkey_credentials d)"
    "table_inv (passkey_challenge_check (account_ids d) (session_digests d)) passkey_challenge_conflict
       (passkey_challenges d)"
    "table_inv (mail_rule_check (account_ids d)) mail_rule_conflict (mail_rules d)"
    "table_inv (mail_rule_run_check (account_ids d) (rule_ids d)) mail_rule_run_conflict (mail_rule_runs d)"
  using assms unfolding schema_inv_def by simp_all

lemma schema_inv_empty: "schema_inv empty_db"
  by (simp add: schema_inv_def empty_db_def)

lemma schema_keys:
  assumes "schema_inv d"
  shows "distinct (map account_id (accounts d))" "distinct (map canonical_email (accounts d))"
    "distinct (map pc_digest (pending_challenges d))" "distinct (map session_digest (sessions d))"
    "distinct (map session_id (sessions d))" "distinct (map credential_id (passkey_credentials d))"
    "distinct (map public_id (passkey_credentials d))" "distinct (map pkc_digest (passkey_challenges d))"
    "distinct (map rule_id (mail_rules d))" "distinct (map run_id (mail_rule_runs d))"
    "distinct (map (\<lambda>r. (mr_account r, position r)) (mail_rules d))"
    "distinct (map (\<lambda>r. (rc_account r, code_digest r)) (recovery_codes d))"
    "distinct (map (\<lambda>r. (rl_scope r, identity_digest r)) (rate_limits d))"
  using assms unfolding schema_inv_def
  by (auto elim!: table_inv_distinct simp: account_conflict_def pending_challenge_conflict_def
      session_conflict_def passkey_credential_conflict_def passkey_challenge_conflict_def
      mail_rule_conflict_def mail_rule_run_conflict_def recovery_code_conflict_def
      rate_limit_conflict_def)

lemmas check_defs = recovery_code_check_def pending_challenge_check_def session_check_def
  rate_limit_check_def passkey_credential_check_def passkey_challenge_check_def mail_rule_check_def
  mail_rule_run_check_def

lemma schema_checks:
  assumes "schema_inv d"
  shows "a \<in> set (accounts d) \<Longrightarrow> account_check a"
    "r \<in> set (recovery_codes d) \<Longrightarrow> recovery_code_check (account_ids d) r"
    "c \<in> set (pending_challenges d) \<Longrightarrow> pending_challenge_check (account_ids d) c"
    "s \<in> set (sessions d) \<Longrightarrow> session_check (account_ids d) s"
    "l \<in> set (rate_limits d) \<Longrightarrow> rate_limit_check (account_ids d) l"
    "p \<in> set (passkey_credentials d) \<Longrightarrow> passkey_credential_check (account_ids d) p"
    "k \<in> set (passkey_challenges d) \<Longrightarrow> passkey_challenge_check (account_ids d) (session_digests d) k"
    "m \<in> set (mail_rules d) \<Longrightarrow> mail_rule_check (account_ids d) m"
    "u \<in> set (mail_rule_runs d) \<Longrightarrow> mail_rule_run_check (account_ids d) (rule_ids d) u"
  by (rule table_inv_check [OF schema_tables(1) [OF assms]], assumption)
    (rule table_inv_check [OF schema_tables(2) [OF assms]], assumption,
     rule table_inv_check [OF schema_tables(3) [OF assms]], assumption,
     rule table_inv_check [OF schema_tables(4) [OF assms]], assumption,
     rule table_inv_check [OF schema_tables(5) [OF assms]], assumption,
     rule table_inv_check [OF schema_tables(6) [OF assms]], assumption,
     rule table_inv_check [OF schema_tables(7) [OF assms]], assumption,
     rule table_inv_check [OF schema_tables(8) [OF assms]], assumption,
     rule table_inv_check [OF schema_tables(9) [OF assms]], assumption)

lemma schema_account_exists:
  "schema_inv d \<Longrightarrow> s \<in> set (sessions d) \<Longrightarrow> s_account s \<in> account_ids d"
  "schema_inv d \<Longrightarrow> c \<in> set (pending_challenges d) \<Longrightarrow> pc_account c \<in> account_ids d"
  "schema_inv d \<Longrightarrow> r \<in> set (recovery_codes d) \<Longrightarrow> rc_account r \<in> account_ids d"
  by (drule (1) schema_checks(4), simp add: session_check_def)
    (drule (1) schema_checks(3), simp add: pending_challenge_check_def,
     drule (1) schema_checks(2), simp add: recovery_code_check_def)

section \<open>Every statement preserves the schema invariant\<close>

named_theorems preserves_rules \<open>compositional preservation\<close>

lemma preserves_deletes [preserves_rules]:
  "preserves schema_inv (delete_recovery_codes P1)"
  "preserves schema_inv (delete_pending_challenges P2)"
  "preserves schema_inv (delete_rate_limits P3)"
  "preserves schema_inv (delete_passkey_credentials P4)"
  "preserves schema_inv (delete_passkey_challenges P5)"
  "preserves schema_inv (delete_mail_rule_runs P6)"
  by (rule preservesI, rule wp_rules, simp add: schema_inv_def table_inv_delete)+

lemma schema_drop_sessions: "schema_inv d \<Longrightarrow> schema_inv (drop_sessions P d)"
proof -
  assume inv: "schema_inv d"
  let ?d = "drop_sessions P d"
  have "table_inv (passkey_challenge_check (account_ids ?d) (session_digests ?d))
      passkey_challenge_conflict (passkey_challenges ?d)"
  proof (rule table_inv_mono)
    show "table_inv (passkey_challenge_check (account_ids d) (session_digests d))
        passkey_challenge_conflict (passkey_challenges ?d)"
      using inv by (simp add: schema_inv_def drop_sessions_def table_inv_delete)
  qed (auto simp: drop_sessions_def passkey_challenge_check_def split: option.splits)
  with inv show ?thesis
    by (simp add: schema_inv_def drop_sessions_def table_inv_delete)
qed

lemma schema_drop_mail_rules: "schema_inv d \<Longrightarrow> schema_inv (drop_mail_rules P d)"
proof -
  assume inv: "schema_inv d"
  let ?d = "drop_mail_rules P d"
  from inv have runs: "table_inv (mail_rule_run_check (account_ids d) (rule_ids d))
      mail_rule_run_conflict (mail_rule_runs d)"
    by (simp add: schema_inv_def)
  have "sorted_wrt (\<lambda>a b. \<not> mail_rule_run_conflict a b) (mail_rule_runs ?d)"
    using runs unfolding drop_mail_rules_def
    by (simp add: table_inv_def, intro free_set_where)
      (simp_all add: mail_rule_run_conflict_def active_run_def)
  moreover have "list_all (mail_rule_run_check (account_ids ?d) (rule_ids ?d)) (mail_rule_runs ?d)"
    using table_inv_check [OF runs]
    by (fastforce simp: list_all_iff drop_mail_rules_def set_set_where mail_rule_run_check_def
        split: option.splits)
  ultimately show ?thesis
    using inv by (simp add: schema_inv_def drop_mail_rules_def table_inv_delete
        table_inv_def [of "mail_rule_run_check _ _"])
qed

lemma schema_drop_accounts: "schema_inv d \<Longrightarrow> schema_inv (drop_accounts P d)"
proof -
  assume inv: "schema_inv d"
  define gone where "gone = (\<lambda>i. \<exists>a \<in> set (accounts d). P a \<and> account_id a = i)"
  define d1 where "d1 = drop_mail_rules (\<lambda>r. gone (mr_account r)) (drop_sessions (\<lambda>s. gone (s_account s)) d)"
  have inv1: "schema_inv d1"
    unfolding d1_def by (intro schema_drop_mail_rules schema_drop_sessions inv)
  have d1: "accounts d1 = accounts d" "\<And>s. s \<in> set (sessions d1) \<Longrightarrow> \<not> gone (s_account s)"
    "\<And>r. r \<in> set (mail_rules d1) \<Longrightarrow> \<not> gone (mr_account r)"
    by (simp_all add: d1_def drop_mail_rules_def drop_sessions_def)
  have kept: "i \<in> account_id ` {a \<in> set (accounts d1). \<not> P a}"
    if "i \<in> account_ids d1" "\<not> gone i" for i
    using that by (auto simp: gone_def d1)
  have "drop_accounts P d = d1\<lparr>accounts := delete_rows P (accounts d1),
      recovery_codes := delete_rows (\<lambda>r. gone (rc_account r)) (recovery_codes d1),
      pending_challenges := delete_rows (\<lambda>c. gone (pc_account c)) (pending_challenges d1),
      rate_limits := delete_rows (\<lambda>r. \<exists>i. rl_account r = Some i \<and> gone i) (rate_limits d1),
      passkey_credentials := delete_rows (\<lambda>p. gone (pk_account p)) (passkey_credentials d1),
      passkey_challenges := delete_rows (\<lambda>c. \<exists>i. pkc_account c = Some i \<and> gone i) (passkey_challenges d1),
      mail_rule_runs := delete_rows (\<lambda>r. gone (run_account r)) (mail_rule_runs d1)\<rparr>"
    by (simp add: drop_accounts_def Let_def d1_def gone_def)
  moreover define A where "A = account_id ` {a \<in> set (accounts d1). \<not> P a}"
  moreover note t = schema_tables [OF inv1]
  have "table_inv account_check account_conflict (delete_rows P (accounts d1))"
    by (rule table_inv_delete [OF t(1)])
  moreover have "table_inv (recovery_code_check A) recovery_code_conflict
      (delete_rows (\<lambda>r. gone (rc_account r)) (recovery_codes d1))"
    by (rule table_inv_delete_mono [OF t(2)]) (simp add: recovery_code_check_def A_def kept)
  moreover have "table_inv (pending_challenge_check A) pending_challenge_conflict
      (delete_rows (\<lambda>c. gone (pc_account c)) (pending_challenges d1))"
    by (rule table_inv_delete_mono [OF t(3)]) (simp add: pending_challenge_check_def A_def kept)
  moreover have "table_inv (session_check A) session_conflict (sessions d1)"
    by (rule table_inv_mono [OF t(4)]) (simp add: session_check_def A_def kept d1(2))
  moreover have "table_inv (rate_limit_check A) rate_limit_conflict
      (delete_rows (\<lambda>r. \<exists>i. rl_account r = Some i \<and> gone i) (rate_limits d1))"
    by (rule table_inv_delete_mono [OF t(5)])
      (auto simp: rate_limit_check_def A_def kept split: option.splits)
  moreover have "table_inv (passkey_credential_check A) passkey_credential_conflict
      (delete_rows (\<lambda>p. gone (pk_account p)) (passkey_credentials d1))"
    by (rule table_inv_delete_mono [OF t(6)]) (simp add: passkey_credential_check_def A_def kept)
  moreover have "table_inv (passkey_challenge_check A (session_digests d1)) passkey_challenge_conflict
      (delete_rows (\<lambda>c. \<exists>i. pkc_account c = Some i \<and> gone i) (passkey_challenges d1))"
    by (rule table_inv_delete_mono [OF t(7)])
      (auto simp: passkey_challenge_check_def A_def kept split: option.splits)
  moreover have "table_inv (mail_rule_check A) mail_rule_conflict (mail_rules d1)"
    by (rule table_inv_mono [OF t(8)]) (simp add: mail_rule_check_def A_def kept d1(3))
  moreover have "table_inv (mail_rule_run_check A (rule_ids d1)) mail_rule_run_conflict
      (delete_rows (\<lambda>r. gone (run_account r)) (mail_rule_runs d1))"
    by (rule table_inv_delete_mono [OF t(9)]) (simp add: mail_rule_run_check_def A_def kept)
  ultimately show ?thesis by (simp add: schema_inv_def)
qed

lemma preserves_cascades [preserves_rules]:
  "preserves schema_inv (delete_accounts P1)"
  "preserves schema_inv (delete_sessions P2)"
  "preserves schema_inv (delete_mail_rules P3)"
  by (rule preservesI, rule wp_rules, erule schema_drop_accounts schema_drop_sessions schema_drop_mail_rules)+

text \<open>More referenced rows never break a check.\<close>

lemma checks_mono:
  assumes "ids \<subseteq> ids'"
  shows "recovery_code_check ids x1 \<Longrightarrow> recovery_code_check ids' x1"
    "pending_challenge_check ids x2 \<Longrightarrow> pending_challenge_check ids' x2"
    "session_check ids x3 \<Longrightarrow> session_check ids' x3"
    "rate_limit_check ids x4 \<Longrightarrow> rate_limit_check ids' x4"
    "passkey_credential_check ids x5 \<Longrightarrow> passkey_credential_check ids' x5"
    "digests \<subseteq> digests' \<Longrightarrow> passkey_challenge_check ids digests x6 \<Longrightarrow> passkey_challenge_check ids' digests' x6"
    "mail_rule_check ids x7 \<Longrightarrow> mail_rule_check ids' x7"
    "rules \<subseteq> rules' \<Longrightarrow> mail_rule_run_check ids rules x8 \<Longrightarrow> mail_rule_run_check ids' rules' x8"
  using assms by (auto simp: check_defs split: option.splits)

lemma schema_insert_account:
  assumes inv: "schema_inv d" and ok: "account_ok (accounts d) a"
  shows "schema_inv (d\<lparr>accounts := accounts d @ [a]\<rparr>)"
proof -
  have sub: "account_ids d \<subseteq> insert (account_id a) (account_ids d)" by blast
  note t = schema_tables [OF inv] and m = checks_mono [OF sub]
  show ?thesis
    using accounts_table.insert_keeps [OF t(1) ok]
      table_inv_mono [OF t(2) m(1)] table_inv_mono [OF t(3) m(2)] table_inv_mono [OF t(4) m(3)]
      table_inv_mono [OF t(5) m(4)] table_inv_mono [OF t(6) m(5)]
      table_inv_mono [OF t(7) m(6) [OF subset_refl]] table_inv_mono [OF t(8) m(7)]
      table_inv_mono [OF t(9) m(8) [OF subset_refl]]
    by (simp add: schema_inv_def)
qed

lemma schema_insert_session:
  assumes inv: "schema_inv d" and ok: "session_ok d (sessions d) s"
  shows "schema_inv (d\<lparr>sessions := sessions d @ [s]\<rparr>)"
proof -
  have "session_digests d \<subseteq> insert (session_digest s) (session_digests d)" by blast
  note m = checks_mono(6) [OF subset_refl this]
  note t = schema_tables [OF inv]
  show ?thesis
    using t sessions_table.insert_keeps [OF t(4) ok] table_inv_mono [OF t(7) m]
    by (simp add: schema_inv_def)
qed

lemma schema_insert_mail_rule:
  assumes inv: "schema_inv d" and ok: "mail_rule_ok d (mail_rules d) r"
  shows "schema_inv (d\<lparr>mail_rules := mail_rules d @ [r]\<rparr>)"
proof -
  have "rule_ids d \<subseteq> insert (rule_id r) (rule_ids d)" by blast
  note m = checks_mono(8) [OF subset_refl this]
  note t = schema_tables [OF inv]
  show ?thesis
    using t rules_table.insert_keeps [OF t(8) ok] table_inv_mono [OF t(9) m]
    by (simp add: schema_inv_def)
qed

lemma schema_inserts:
  "schema_inv d \<Longrightarrow> recovery_code_ok d (recovery_codes d) r1 \<Longrightarrow>
     schema_inv (d\<lparr>recovery_codes := recovery_codes d @ [r1]\<rparr>)"
  "schema_inv d \<Longrightarrow> pending_challenge_ok d (pending_challenges d) r2 \<Longrightarrow>
     schema_inv (d\<lparr>pending_challenges := pending_challenges d @ [r2]\<rparr>)"
  "schema_inv d \<Longrightarrow> rate_limit_ok d (rate_limits d) r3 \<Longrightarrow>
     schema_inv (d\<lparr>rate_limits := rate_limits d @ [r3]\<rparr>)"
  "schema_inv d \<Longrightarrow> passkey_credential_ok d (passkey_credentials d) r4 \<Longrightarrow>
     schema_inv (d\<lparr>passkey_credentials := passkey_credentials d @ [r4]\<rparr>)"
  "schema_inv d \<Longrightarrow> passkey_challenge_ok d (passkey_challenges d) r5 \<Longrightarrow>
     schema_inv (d\<lparr>passkey_challenges := passkey_challenges d @ [r5]\<rparr>)"
  "schema_inv d \<Longrightarrow> mail_rule_run_ok d (mail_rule_runs d) r6 \<Longrightarrow>
     schema_inv (d\<lparr>mail_rule_runs := mail_rule_runs d @ [r6]\<rparr>)"
  by (simp_all add: schema_inv_def recovery_codes_table.insert_keeps pending_table.insert_keeps
      rate_table.insert_keeps credentials_table.insert_keeps passkey_challenges_table.insert_keeps
      runs_table.insert_keeps)

lemma preserves_inserts [preserves_rules]:
  "preserves schema_inv (insert_account a)"
  "preserves schema_inv (insert_session s)"
  "preserves schema_inv (insert_mail_rule m)"
  "preserves schema_inv (insert_recovery_code r1)"
  "preserves schema_inv (insert_pending_challenge r2)"
  "preserves schema_inv (insert_rate_limit r3)"
  "preserves schema_inv (insert_passkey_credential r4)"
  "preserves schema_inv (insert_passkey_challenge r5)"
  "preserves schema_inv (insert_mail_rule_run r6)"
  by (rule preservesI, rule wp_rules;
      simp add: schema_insert_account schema_insert_session schema_insert_mail_rule schema_inserts)+

text \<open>An UPDATE of a referenced table must leave its key column alone.\<close>

lemma image_set_where:
  "(\<And>r. k (f r) = k r) \<Longrightarrow> k ` set (set_where P f rows) = k ` set rows"
  by (metis map_set_where image_set)

lemma preserves_update_accounts [preserves_rules]:
  "(\<And>a. account_id (f a) = account_id a) \<Longrightarrow> preserves schema_inv (update_accounts P f)"
  by (rule preservesI, rule wp_rules)
    (auto simp: schema_inv_def image_set_where dest: accounts_table.update_keeps)

lemma preserves_update_sessions [preserves_rules]:
  "(\<And>a. session_digest (f a) = session_digest a) \<Longrightarrow> preserves schema_inv (update_sessions P f)"
  by (rule preservesI, rule wp_rules)
    (auto simp: schema_inv_def image_set_where dest: sessions_table.update_keeps)

lemma preserves_update_mail_rules [preserves_rules]:
  "(\<And>a. rule_id (f a) = rule_id a) \<Longrightarrow> preserves schema_inv (update_mail_rules P f)"
  by (rule preservesI, rule wp_rules)
    (auto simp: schema_inv_def image_set_where dest: rules_table.update_keeps)

lemma preserves_updates [preserves_rules]:
  "preserves schema_inv (update_pending_challenges P1 f1)"
  "preserves schema_inv (update_rate_limits P2 f2)"
  "preserves schema_inv (update_passkey_credentials P3 f3)"
  "preserves schema_inv (update_passkey_challenges P4 f4)"
  "preserves schema_inv (update_mail_rule_runs P5 f5)"
  by (rule preservesI, rule wp_rules;
      auto simp: schema_inv_def dest: pending_table.update_keeps rate_table.update_keeps
        credentials_table.update_keeps passkey_challenges_table.update_keeps runs_table.update_keeps)+

section \<open>Preservation composes\<close>

lemma preserves_pure [preserves_rules]:
  "preserves I (returnA x)" "preserves I (raiseA e)" "preserves I (liftE r)" "preserves I (guardA b e)"
  "preserves I (selectA q)" "preserves I require_open" "preserves I close"
  "preserves I (now_locked c)" "preserves I (draw_bytes src n)"
  by (rule preservesI, rule wp_rules; assumption)+

lemma preserves_bind_text [preserves_rules]: "preserves I (bind_text v)"
  unfolding bind_text_def by (rule preserves_pure)

lemma preserves_bind [preserves_rules]:
  "preserves I m \<Longrightarrow> (\<And>x. preserves I (f x)) \<Longrightarrow> preserves I (bindA m f)"
  unfolding preserves_def by (blast intro: wp_bind wp_mono)

lemma preserves_seq [preserves_rules]:
  "preserves I m \<Longrightarrow> preserves I n \<Longrightarrow> preserves I (seqA m n)"
  unfolding seqA_def by (rule preserves_bind)

lemma preserves_try [preserves_rules]:
  "preserves I m \<Longrightarrow> (\<And>e. preserves I (h e)) \<Longrightarrow> preserves I (tryA m h)"
  unfolding preserves_def by (blast intro: wp_try wp_mono)

lemma preserves_transaction [preserves_rules]: "preserves I m \<Longrightarrow> preserves I (transaction m)"
  unfolding preserves_def by (blast intro: wp_transaction wp_mono)

lemma preserves_if [preserves_rules]:
  "preserves I m \<Longrightarrow> preserves I n \<Longrightarrow> preserves I (if b then m else n)"
  by simp

lemma preserves_option [preserves_rules]:
  "preserves I m \<Longrightarrow> (\<And>x. preserves I (f x)) \<Longrightarrow> preserves I (case v of None \<Rightarrow> m | Some x \<Rightarrow> f x)"
  by (cases v) auto

lemma preserves_prod [preserves_rules]:
  "(\<And>x y. preserves I (f x y)) \<Longrightarrow> preserves I (case v of (x, y) \<Rightarrow> f x y)"
  by (cases v) auto

lemma preserves_let [preserves_rules]: "preserves I (f v) \<Longrightarrow> preserves I (let x = v in f x)"
  by simp

lemma preserves_for [preserves_rules]: "(\<And>x. preserves I (f x)) \<Longrightarrow> preserves I (forA xs f)"
  by (induction xs) (simp_all add: preserves_rules)

lemma preserves_mapA [preserves_rules]: "(\<And>x. preserves I (f x)) \<Longrightarrow> preserves I (mapA f xs)"
  by (induction xs) (auto intro!: preserves_rules)

end
