(* ===== verification/Auth_Fresh.thy ===== *)
theory Auth_Fresh
  imports Auth_Passkeys Auth_Tables
begin

text \<open>
  Unique identifiers and tokens, recovery codes and lookups: the rules by which the proofs about
  the operations pass over the helpers that draw random values. A source of candidates is an
  interface (\<open>fresh_source\<close>) with three providers: hexadecimal identifiers, opaque tokens with
  their digest, and passkey challenges with theirs.
\<close>

section \<open>Identifiers\<close>

lemma hex_identifier_hex: "length b = 16 \<Longrightarrow> hex_identifier (hex b)"
proof -
  assume b: "length b = 16"
  have "set (hex b) \<subseteq> set hex_alphabet"
    unfolding hex_def by (rule set_encode_digits) (simp_all add: alphabet_defs)
  then have "list_all is_hex_char (hex b)"
    by (auto simp: list_all_iff is_hex_char_def is_digit_def alphabet_defs)
  moreover have "length (hex b) = 32"
    by (simp add: hex_def length_encode_digits b)
  ultimately show ?thesis by (simp add: hex_identifier_def)
qed

lemma opaque_token_pattern: "length b = 32 \<Longrightarrow> OPAQUE_TOKEN_PATTERN (encode_opaque_token b)"
proof -
  assume b: "length b = 32"
  have "set (encode_opaque_token b) \<subseteq> set base64url_alphabet"
    unfolding encode_opaque_token_def urlsafe_b64encode_def
    by (rule set_encode_digits) (simp_all add: alphabet_defs)
  then have "list_all is_token_char (encode_opaque_token b)"
    by (auto simp: list_all_iff is_token_char_def char_class_defs alphabet_defs)
  moreover have "length (encode_opaque_token b) = 43"
    by (simp add: encode_opaque_token_def urlsafe_b64encode_def length_encode_digits b)
  ultimately show ?thesis by (simp add: OPAQUE_TOKEN_PATTERN_def)
qed

lemma decode_encode_opaque_token:
  "length b = 32 \<Longrightarrow> decode_opaque_token (PyStr (encode_opaque_token b)) = Some b"
  using opaque_token_pattern [of b]
  by (simp add: decode_opaque_token_def encode_opaque_token_def auth_limits)

section \<open>Fresh values\<close>

locale fresh_source =
  fixes gen :: "('d, 'a) act"
    and good :: "'a \<Rightarrow> bool"
  assumes gen_wp: "(\<And>x. good x \<Longrightarrow> Q x d) \<Longrightarrow> E ValueError d \<Longrightarrow> wp gen Q E d"
begin

text \<open>A value returned by the loop is one the source can produce and is not taken.\<close>

lemma wp_fresh:
  "(\<And>x. good x \<Longrightarrow> \<not> taken d x \<Longrightarrow> Q x d) \<Longrightarrow> E ValueError d \<Longrightarrow> E AuthenticationError d \<Longrightarrow>
     wp (draw_fresh n gen taken) Q E d"
proof (induction n)
  case (Suc n)
  then have "wp (draw_fresh n gen taken) Q E d" by blast
  with Suc.prems show ?case
    unfolding draw_fresh.simps by (intro wp_rules gen_wp) auto
qed (simp add: wp_raise)

lemma fresh_preserves: "preserves I (draw_fresh n gen taken)"
  by (rule preservesI, rule wp_fresh)

end

interpretation hex_source: fresh_source "random_hex env 16" hex_identifier for env
  by unfold_locales (auto simp: random_hex_def random_bytes_def intro!: wp_rules hex_identifier_hex)

definition token_source :: "auth_env \<Rightarrow> bytes \<Rightarrow> (pystr \<times> bytes) auth_act" where
  "token_source env key = bindA (random_bytes env TOKEN_BYTES) (\<lambda>b.
     let t = encode_opaque_token b in returnA (t, opaque_digest env key (PyStr t)))"

interpretation token_source: fresh_source "token_source env key"
  "\<lambda>(t, digest). OPAQUE_TOKEN_PATTERN t \<and> digest = opaque_digest env key (PyStr t)" for env key
  by unfold_locales
    (auto simp: token_source_def random_bytes_def auth_limits intro!: wp_rules opaque_token_pattern)

definition passkey_challenge_source :: "auth_env \<Rightarrow> (bytes \<times> bytes) auth_act" where
  "passkey_challenge_source env =
     bindA (random_bytes env TOKEN_BYTES) (\<lambda>b. returnA (b, passkey_challenge_digest env b))"

interpretation passkey_challenge_source: fresh_source "passkey_challenge_source env"
  "\<lambda>(b, digest). length b = 32 \<and> digest = passkey_challenge_digest env b" for env
  by unfold_locales
    (auto simp: passkey_challenge_source_def random_bytes_def auth_limits intro!: wp_rules)

lemma wp_now_act [wp_rules]:
  "(\<And>now. 0 \<le> now \<Longrightarrow> Q now d) \<Longrightarrow> E ValueError d \<Longrightarrow> wp (now_act env) Q E d"
  unfolding now_act_def by (rule wp_now)

lemma wp_random_bytes [wp_rules]:
  "(\<And>b. length b = n \<Longrightarrow> Q b d) \<Longrightarrow> E ValueError d \<Longrightarrow> wp (random_bytes env n) Q E d"
  unfolding random_bytes_def by (rule wp_draw)

lemma wp_new_account_id [wp_rules]:
  "(\<And>i. hex_identifier i \<Longrightarrow> i \<notin> account_ids d \<Longrightarrow> Q i d) \<Longrightarrow> E ValueError d \<Longrightarrow>
     E AuthenticationError d \<Longrightarrow> wp (new_account_id_locked env) Q E d"
  unfolding new_account_id_locked_def ACCOUNT_ID_BYTES_def
  by (rule hex_source.wp_fresh) (auto simp: fetchone_None_iff)

lemma wp_new_session_id [wp_rules]:
  "(\<And>i. hex_identifier i \<Longrightarrow> i \<notin> session_id ` set (sessions d) \<Longrightarrow> Q i d) \<Longrightarrow> E ValueError d \<Longrightarrow>
     E AuthenticationError d \<Longrightarrow> wp (new_session_id_locked env) Q E d"
  unfolding new_session_id_locked_def SESSION_ID_BYTES_def
  by (rule hex_source.wp_fresh) (auto simp: fetchone_None_iff)

lemma wp_new_passkey_public_id [wp_rules]:
  "(\<And>i. hex_identifier i \<Longrightarrow> i \<notin> public_id ` set (passkey_credentials d) \<Longrightarrow> Q i d) \<Longrightarrow>
     E ValueError d \<Longrightarrow> E AuthenticationError d \<Longrightarrow> wp (new_passkey_public_id_locked env) Q E d"
  unfolding new_passkey_public_id_locked_def SESSION_ID_BYTES_def
  by (rule hex_source.wp_fresh) (auto simp: fetchone_None_iff)

lemma wp_new_mail_rule_id [wp_rules]:
  "(\<And>i. hex_identifier i \<Longrightarrow> i \<notin> rule_ids d \<Longrightarrow> Q i d) \<Longrightarrow>
     E ValueError d \<Longrightarrow> E AuthenticationError d \<Longrightarrow> wp (new_mail_rule_id_locked env) Q E d"
  unfolding new_mail_rule_id_locked_def ACCOUNT_ID_BYTES_def
  by (rule hex_source.wp_fresh) (auto simp: fetchone_None_iff)

lemma wp_new_mail_rule_run_id [wp_rules]:
  "(\<And>i. hex_identifier i \<Longrightarrow> i \<notin> run_id ` set (mail_rule_runs d) \<Longrightarrow> Q i d) \<Longrightarrow>
     E ValueError d \<Longrightarrow> E AuthenticationError d \<Longrightarrow> wp (new_mail_rule_run_id_locked env) Q E d"
  unfolding new_mail_rule_run_id_locked_def ACCOUNT_ID_BYTES_def
  by (rule hex_source.wp_fresh) (auto simp: fetchone_None_iff)

lemma wp_new_unique_token [wp_rules]:
  "(\<And>t digest. OPAQUE_TOKEN_PATTERN t \<Longrightarrow> digest = opaque_digest env key (PyStr t) \<Longrightarrow>
      \<not> taken d digest \<Longrightarrow> Q (t, digest) d) \<Longrightarrow>
     E ValueError d \<Longrightarrow> E AuthenticationError d \<Longrightarrow> wp (new_unique_token_locked env key taken) Q E d"
  unfolding new_unique_token_locked_def token_source_def [symmetric]
  by (rule token_source.wp_fresh) auto

lemma preserves_fresh [preserves_rules]:
  "preserves I (now_act env)" "preserves I (random_bytes env n)"
  "preserves I (new_account_id_locked env)" "preserves I (new_session_id_locked env)"
  "preserves I (new_passkey_public_id_locked env)" "preserves I (new_mail_rule_id_locked env)"
  "preserves I (new_mail_rule_run_id_locked env)" "preserves I (new_unique_token_locked env key taken)"
  by (rule preservesI, rule wp_rules; assumption)+

section \<open>Lookups\<close>

lemma wp_account_row_by_email [wp_rules]:
  "Q (fetchone (\<lambda>a. canonical_email a = c) (accounts d)) d \<Longrightarrow> wp (account_row_by_email_locked c) Q E d"
  unfolding account_row_by_email_locked_def by (rule wp_select)

lemma wp_account_row_by_id [wp_rules]:
  "Q (fetchone (\<lambda>a. account_id a = i) (accounts d)) d \<Longrightarrow> wp (account_row_by_id_locked i) Q E d"
  unfolding account_row_by_id_locked_def by (rule wp_select)

lemma wp_require_account [wp_rules]:
  "(\<And>a. a \<in> set (accounts d) \<Longrightarrow> account_id a = i \<Longrightarrow> Q a d) \<Longrightarrow> E AccountNotFoundError d \<Longrightarrow>
     wp (require_account_by_id_locked i) Q E d"
  unfolding require_account_by_id_locked_def
  by (intro wp_rules) (auto dest: fetchone_Some)

lemma wp_challenge_row [wp_rules]:
  "(\<And>c a. c \<in> set (pending_challenges d) \<Longrightarrow> pc_digest c = digest \<Longrightarrow> now < pc_expires_at c \<Longrightarrow>
      a \<in> set (accounts d) \<Longrightarrow> account_id a = pc_account c \<Longrightarrow> Q (c, a) d) \<Longrightarrow>
     E InvalidChallengeError d \<Longrightarrow> wp (challenge_row_locked digest now) Q E d"
  unfolding challenge_row_locked_def
  by (intro wp_rules) (auto dest!: fetchone_Some split: option.splits)

lemma preserves_lookups [preserves_rules]:
  "preserves I (account_row_by_email_locked c)" "preserves I (account_row_by_id_locked i)"
  "preserves I (require_account_by_id_locked i)" "preserves I (challenge_row_locked digest now)"
  by (rule preservesI, rule wp_rules; assumption)+

section \<open>Encryption and recovery codes\<close>

lemma wp_encrypt_totp [wp_rules]:
  "(\<And>nonce ciphertext. length nonce = 12 \<Longrightarrow> Q (nonce, ciphertext) d) \<Longrightarrow> E ValueError d \<Longrightarrow>
     wp (encrypt_totp env i c secret_bytes) Q E d"
  unfolding encrypt_totp_def by (intro wp_rules) (auto simp: auth_limits)

text \<open>
  Whatever the source of random bytes does, a result of the recovery-code loop is ten distinct
  codes in the printed form.
\<close>

definition fresh_codes :: "pystr list \<Rightarrow> bool" where
  "fresh_codes codes \<longleftrightarrow> (\<exists>raws. codes = map format_recovery_code raws \<and> distinct raws
     \<and> length raws = 10 \<and> list_all hex_identifier raws)"

lemma recovery_loop_result:
  "recovery_loop env seen k = Some rk \<Longrightarrow>
     distinct seen \<and> length seen \<le> 10 \<and> list_all hex_identifier seen \<longrightarrow>
     k \<le> snd rk \<and> (case fst rk of Inl e \<Rightarrow> e = ValueError | Inr codes \<Rightarrow> fresh_codes codes)"
proof (induction env seen k rk rule: recovery_loop.raw_induct [rotated, consumes 1, case_names step])
  case (step loop env seen k rk)
  note IH = step(1) and step = step(2)
  show ?case
  proof
    assume seen: "distinct seen \<and> length seen \<le> 10 \<and> list_all hex_identifier seen"
    consider "length seen = 10" | "length seen < 10" "drawn env k 16 = None"
      | b where "length seen < 10" "drawn env k 16 = Some b" using seen by fastforce
    then show "k \<le> snd rk \<and> (case fst rk of Inl e \<Rightarrow> e = ValueError | Inr codes \<Rightarrow> fresh_codes codes)"
    proof cases
      case 1
      with step seen show ?thesis by (auto simp: RECOVERY_CODE_COUNT_def fresh_codes_def)
    next
      case 2
      with step show ?thesis by (auto simp: RECOVERY_CODE_COUNT_def)
    next
      case 3
      then have "hex_identifier (hex b)"
        by (auto simp: drawn_def intro!: hex_identifier_hex split: pyval.splits if_splits)
      with 3 step seen IH [of env seen "Suc k" rk] IH [of env "seen @ [hex b]" "Suc k" rk] show ?thesis
        by (auto simp: RECOVERY_CODE_COUNT_def split: if_splits)
    qed
  qed
qed

lemma wp_generate_recovery_codes [wp_rules]:
  "(\<And>codes. fresh_codes codes \<Longrightarrow> Q codes d) \<Longrightarrow> E ValueError d \<Longrightarrow> E DoesNotReturn d \<Longrightarrow>
     wp (generate_recovery_codes env) Q E d"
  by (rule wpI)
    (auto simp: generate_recovery_codes_def split: option.splits dest!: recovery_loop_result)

lemma preserves_codes [preserves_rules]:
  "preserves I (encrypt_totp env i c b)" "preserves I (generate_recovery_codes env)"
  by (rule preservesI, rule wp_rules; assumption)+

end
