(* ===== verification/Auth_Accounts.thy ===== *)
theory Auth_Accounts
  imports Auth_Helpers
begin

text \<open>
  Account administration: \<open>create_account\<close> to \<open>bootstrap_active_accounts\<close> of \<open>AuthStore\<close>. Arguments whose
  type the code checks are dynamic values.
\<close>

definition new_required_account ::
  "pystr \<Rightarrow> pystr \<Rightarrow> Role \<Rightarrow> bool \<Rightarrow> int \<Rightarrow> auth_account" where
  "new_required_account i canonical r required now =
     \<lparr>account_id = i, canonical_email = canonical, role = r, password_change_required = required,
      enrollment_state = REQUIRED, totp_nonce = None, totp_ciphertext = None,
      enrollment_challenge_digest = None, totp_last_counter = - 1, created_at = now,
      updated_at = now\<rparr>"

definition new_active_account ::
  "pystr \<Rightarrow> pystr \<Rightarrow> Role \<Rightarrow> bool \<Rightarrow> bytes \<Rightarrow> bytes \<Rightarrow> int \<Rightarrow> int \<Rightarrow> auth_account" where
  "new_active_account i canonical r required nonce ciphertext created now =
     \<lparr>account_id = i, canonical_email = canonical, role = r, password_change_required = required,
      enrollment_state = ACTIVE, totp_nonce = Some nonce, totp_ciphertext = Some ciphertext,
      enrollment_challenge_digest = None, totp_last_counter = - 1, created_at = created,
      updated_at = now\<rparr>"

definition create_account :: "auth_env \<Rightarrow> pyval \<Rightarrow> pyval \<Rightarrow> pyval \<Rightarrow> Account auth_act" where
  "create_account env email role_value required_value =
     bindA (liftE (canonicalize_email email)) (\<lambda>canonical.
     bindA (liftE (coerce_role role_value)) (\<lambda>normalized_role.
     bindA (liftE (coerce_bool required_value)) (\<lambda>required.
     bindA (now_act env) (\<lambda>now.
     bindA (transaction
       (bindA (account_row_by_email_locked canonical) (\<lambda>existing.
        if existing \<noteq> None then raiseA AccountExistsError
        else
          bindA (new_account_id_locked env) (\<lambda>i.
          seqA (insert_account (new_required_account i canonical normalized_role required now))
          (account_row_by_id_locked i))))) (\<lambda>row.
     liftE (bind_res (required_row row) (\<lambda>a. Inr (account_from_row a))))))))"

definition get_account :: "pyval \<Rightarrow> Account option auth_act" where
  "get_account email =
     bindA (liftE (canonicalize_email email)) (\<lambda>canonical.
     seqA require_open
     (bindA (account_row_by_email_locked canonical) (\<lambda>row. returnA (map_option account_from_row row))))"

definition resolve_account_id :: "pyval \<Rightarrow> Account auth_act" where
  "resolve_account_id value =
     bindA (liftE (validate_account_id value)) (\<lambda>i.
     seqA require_open
     (bindA (account_row_by_id_locked i) (\<lambda>row.
      case row of None \<Rightarrow> raiseA AccountNotFoundError | Some a \<Rightarrow> returnA (account_from_row a))))"

definition list_accounts :: "Account list auth_act" where
  "list_accounts =
     seqA require_open
     (selectA (\<lambda>d. map account_from_row (sort_key canonical_email (accounts d))))"

definition sync_account_locked ::
  "auth_env \<Rightarrow> Role \<Rightarrow> bool \<Rightarrow> int \<Rightarrow> pystr \<Rightarrow> Account auth_act" where
  "sync_account_locked env r required now canonical =
     bindA (account_row_by_email_locked canonical) (\<lambda>existing.
     bindA (case existing of
         None \<Rightarrow>
           bindA (new_account_id_locked env) (\<lambda>i.
           seqA (insert_account (new_required_account i canonical r required now))
           (account_row_by_id_locked i))
       | Some a \<Rightarrow> returnA (Some a)) (\<lambda>row.
     liftE (bind_res (required_row row) (\<lambda>a. Inr (account_from_row a)))))"

definition sync_accounts ::
  "auth_env \<Rightarrow> pyval list \<Rightarrow> pyval \<Rightarrow> pyval \<Rightarrow> Account list auth_act" where
  "sync_accounts env emails role_value required_value =
     bindA (liftE (traverse canonicalize_email emails)) (\<lambda>canonicals.
     let canonical_emails = sort (remdups canonicals) in
     bindA (liftE (coerce_role role_value)) (\<lambda>r.
     bindA (liftE (coerce_bool required_value)) (\<lambda>required.
     bindA (now_act env) (\<lambda>now.
     transaction (mapA (sync_account_locked env r required now) canonical_emails)))))"

definition set_role :: "auth_env \<Rightarrow> pyval \<Rightarrow> pyval \<Rightarrow> bool \<Rightarrow> Account auth_act" where
  "set_role env account_value role_value revoke =
     bindA (liftE (validate_account_id account_value)) (\<lambda>i.
     bindA (liftE (coerce_role role_value)) (\<lambda>normalized_role.
     bindA (now_act env) (\<lambda>now.
     bindA (transaction
       (seqA (require_account_by_id_locked i)
       (seqA (update_accounts (\<lambda>a. account_id a = i) (\<lambda>a. a\<lparr>role := normalized_role, updated_at := now\<rparr>))
       (seqA (if revoke then seqA (revoke_account_authentication_locked env i) (returnA ())
              else revoke_pending_challenges_locked env i)
       (account_row_by_id_locked i))))) (\<lambda>row.
     liftE (bind_res (required_row row) (\<lambda>a. Inr (account_from_row a)))))))"

definition set_password_change_required ::
  "auth_env \<Rightarrow> pyval \<Rightarrow> pyval \<Rightarrow> bool \<Rightarrow> Account auth_act" where
  "set_password_change_required env account_value required_value revoke =
     bindA (liftE (validate_account_id account_value)) (\<lambda>i.
     bindA (liftE (coerce_bool required_value)) (\<lambda>required.
     bindA (now_act env) (\<lambda>now.
     bindA (transaction
       (seqA (require_account_by_id_locked i)
       (seqA (update_accounts (\<lambda>a. account_id a = i)
               (\<lambda>a. a\<lparr>password_change_required := required, updated_at := now\<rparr>))
       (seqA (if revoke then seqA (revoke_account_authentication_locked env i) (returnA ())
              else revoke_pending_challenges_locked env i)
       (account_row_by_id_locked i))))) (\<lambda>row.
     liftE (bind_res (required_row row) (\<lambda>a. Inr (account_from_row a)))))))"

text \<open>
  The four DELETE statements that end every replacement of a second factor: pending challenges,
  passkey challenges and sessions of one account, after its recovery codes.
\<close>

definition clear_logins_locked :: "pystr \<Rightarrow> unit auth_act" where
  "clear_logins_locked i =
     seqA (delete_pending_challenges (\<lambda>c. pc_account c = i))
     (seqA (delete_passkey_challenges (\<lambda>c. pkc_account c = Some i))
     (seqA (delete_sessions (\<lambda>s. s_account s = i)) (returnA ())))"

definition reset_totp :: "auth_env \<Rightarrow> pyval \<Rightarrow> Account auth_act" where
  "reset_totp env account_value =
     bindA (liftE (validate_account_id account_value)) (\<lambda>i.
     bindA (now_act env) (\<lambda>now.
     bindA (transaction
       (seqA (require_account_by_id_locked i)
       (seqA (update_accounts (\<lambda>a. account_id a = i) (to_required now))
       (seqA (delete_recovery_codes (\<lambda>r. rc_account r = i))
       (seqA (clear_logins_locked i)
       (account_row_by_id_locked i)))))) (\<lambda>row.
     liftE (bind_res (required_row row) (\<lambda>a. Inr (account_from_row a))))))"

definition to_active :: "bytes \<Rightarrow> bytes \<Rightarrow> int \<Rightarrow> auth_account \<Rightarrow> auth_account" where
  "to_active nonce ciphertext now a = a\<lparr>enrollment_state := ACTIVE, totp_nonce := Some nonce,
     totp_ciphertext := Some ciphertext, enrollment_challenge_digest := None,
     totp_last_counter := - 1, updated_at := now\<rparr>"

definition rotate_totp :: "auth_env \<Rightarrow> pyval \<Rightarrow> (TotpEnrollment \<times> pystr list) auth_act" where
  "rotate_totp env account_value =
     bindA (liftE (validate_account_id account_value)) (\<lambda>i.
     bindA (now_act env) (\<lambda>now.
     bindA (transaction
       (bindA (require_account_by_id_locked i) (\<lambda>row.
        bindA (random_bytes env TOTP_SECRET_BYTES) (\<lambda>secret_bytes.
        bindA (encrypt_totp env i (canonical_email row) secret_bytes) (\<lambda>(nonce, ciphertext).
        bindA (generate_recovery_codes env) (\<lambda>codes.
        seqA (update_accounts (\<lambda>a. account_id a = i) (to_active nonce ciphertext now))
        (seqA (delete_recovery_codes (\<lambda>r. rc_account r = i))
        (seqA (store_recovery_codes_locked env i codes now)
        (seqA (clear_logins_locked i)
        (returnA (canonical_email row, encode_totp_secret secret_bytes, codes)))))))))))
     (\<lambda>(canonical, secret_text, codes).
     liftE (bind_res (enrollment env canonical secret_text) (\<lambda>e. Inr (e, codes))))))"

definition regenerate_recovery_codes :: "auth_env \<Rightarrow> pyval \<Rightarrow> pyval \<Rightarrow> pystr list auth_act" where
  "regenerate_recovery_codes env account_value code =
     bindA (liftE (validate_account_id account_value)) (\<lambda>i.
     bindA (now_act env) (\<lambda>now.
     transaction
       (bindA (require_account_by_id_locked i) (\<lambda>row.
        bindA (consume_totp_locked env row code now) (\<lambda>consumed.
        if \<not> consumed then raiseA InvalidSecondFactorError
        else
          bindA (generate_recovery_codes env) (\<lambda>codes.
          seqA (delete_recovery_codes (\<lambda>r. rc_account r = i))
          (seqA (store_recovery_codes_locked env i codes now)
          (seqA (clear_logins_locked i) (returnA codes)))))))))"

definition recovery_code_count :: "pyval \<Rightarrow> nat auth_act" where
  "recovery_code_count account_value =
     bindA (liftE (validate_account_id account_value)) (\<lambda>i.
     seqA require_open
     (seqA (require_account_by_id_locked i)
     (selectA (\<lambda>d. rowcount (\<lambda>r. rc_account r = i) (recovery_codes d)))))"

definition verify_totp :: "auth_env \<Rightarrow> pyval \<Rightarrow> pyval \<Rightarrow> unit auth_act" where
  "verify_totp env account_value code =
     bindA (liftE (validate_account_id account_value)) (\<lambda>i.
     bindA (now_act env) (\<lambda>now.
     transaction
       (bindA (require_account_by_id_locked i) (\<lambda>row.
        bindA (consume_totp_locked env row code now) (\<lambda>consumed.
        if consumed then returnA () else raiseA InvalidSecondFactorError)))))"

definition rate_digest :: "auth_env \<Rightarrow> string \<Rightarrow> bytes \<Rightarrow> bytes" where
  "rate_digest env scope v =
     hmac_sha256 env (rate_digest_key env)
       (ascii_bytes (lit ''maddyweb-login-rate-v1'') @ 0 # ascii_bytes (lit scope) @ 0 # v)"

definition delete_account :: "auth_env \<Rightarrow> pyval \<Rightarrow> unit auth_act" where
  "delete_account env account_value =
     bindA (liftE (validate_account_id account_value)) (\<lambda>i.
     transaction
       (bindA (require_account_by_id_locked i) (\<lambda>row.
        let account_digest = rate_digest env ''account'' (ascii_bytes (canonical_email row)) in
        seqA (delete_rate_limits (\<lambda>r. rl_account r = Some i \<or> account_identity_digest r = Some account_digest))
        (bindA (delete_accounts (\<lambda>a. account_id a = i)) (\<lambda>deleted.
        if deleted \<noteq> 1 then raiseA AccountNotFoundError else returnA ())))))"

definition provision_active_account ::
  "auth_env \<Rightarrow> pyval \<Rightarrow> pyval \<Rightarrow> pyval \<Rightarrow> (Account \<times> TotpEnrollment \<times> pystr list) auth_act" where
  "provision_active_account env email role_value required_value =
     bindA (liftE (canonicalize_email email)) (\<lambda>canonical.
     bindA (liftE (coerce_role role_value)) (\<lambda>normalized_role.
     bindA (liftE (coerce_bool required_value)) (\<lambda>required.
     bindA (now_act env) (\<lambda>now.
     bindA (transaction
       (bindA (account_row_by_email_locked canonical) (\<lambda>existing.
        if existing \<noteq> None then raiseA AccountExistsError
        else
          bindA (new_account_id_locked env) (\<lambda>i.
          bindA (random_bytes env TOTP_SECRET_BYTES) (\<lambda>secret_bytes.
          bindA (encrypt_totp env i canonical secret_bytes) (\<lambda>(nonce, ciphertext).
          bindA (generate_recovery_codes env) (\<lambda>codes.
          seqA (insert_account
                 (new_active_account i canonical normalized_role required nonce ciphertext now now))
          (seqA (store_recovery_codes_locked env i codes now)
          (bindA (account_row_by_id_locked i) (\<lambda>row.
           returnA (row, encode_totp_secret secret_bytes, codes))))))))))) (\<lambda>(row, secret_text, codes).
     liftE (bind_res (required_row row) (\<lambda>a.
       bind_res (enrollment env canonical secret_text) (\<lambda>e.
       Inr (account_from_row a, e, codes)))))))))"

text \<open>
  \<open>bootstrap_active_accounts\<close>: all records are checked before the transaction starts, then every
  account is inserted or, on a conflict of the email, overwritten in place.
\<close>

type_synonym prepared_bootstrap = "pystr \<times> Role \<times> bytes \<times> pystr list \<times> bool"

fun prepare_bootstrap ::
  "auth_env \<Rightarrow> pystr list \<Rightarrow> AccountBootstrap list \<Rightarrow> prepared_bootstrap list res" where
  "prepare_bootstrap env seen [] = Inr []"
| "prepare_bootstrap env seen (b # bs) =
     bind_res (canonicalize_email (ab_email b)) (\<lambda>canonical.
     if canonical \<in> set seen then Inl ValueError
     else
       bind_res (coerce_role (ab_role b)) (\<lambda>r.
       bind_res (decode_totp_secret env (ab_totp_secret b)) (\<lambda>secret_bytes.
       bind_res (validate_recovery_code_set (ab_recovery_codes b)) (\<lambda>codes.
       bind_res (coerce_bool (ab_password_change_required b)) (\<lambda>required.
       bind_res (prepare_bootstrap env (canonical # seen) bs) (\<lambda>rest.
       Inr ((canonical, r, secret_bytes, codes, required) # rest)))))))"

definition upsert_active_account ::
  "pystr \<Rightarrow> pystr \<Rightarrow> Role \<Rightarrow> bool \<Rightarrow> bytes \<Rightarrow> bytes \<Rightarrow> int \<Rightarrow> int \<Rightarrow> unit auth_act" where
  "upsert_active_account i canonical r required nonce ciphertext created now =
     bindA (account_row_by_email_locked canonical) (\<lambda>conflict.
     case conflict of
       None \<Rightarrow> insert_account (new_active_account i canonical r required nonce ciphertext created now)
     | Some _ \<Rightarrow>
         seqA (update_accounts (\<lambda>a. canonical_email a = canonical)
           (\<lambda>a. (to_active nonce ciphertext now a)\<lparr>role := r, password_change_required := required\<rparr>))
         (returnA ()))"

definition bootstrap_account_locked ::
  "auth_env \<Rightarrow> int \<Rightarrow> prepared_bootstrap \<Rightarrow> Account auth_act" where
  "bootstrap_account_locked env now = (\<lambda>(canonical, r, secret_bytes, codes, required).
     bindA (account_row_by_email_locked canonical) (\<lambda>existing.
     bindA (case existing of
         None \<Rightarrow> bindA (new_account_id_locked env) (\<lambda>i. returnA (i, now))
       | Some a \<Rightarrow> returnA (account_id a, created_at a)) (\<lambda>(i, created).
     bindA (encrypt_totp env i canonical secret_bytes) (\<lambda>(nonce, ciphertext).
     seqA (upsert_active_account i canonical r required nonce ciphertext created now)
     (seqA (delete_recovery_codes (\<lambda>c. rc_account c = i))
     (seqA (store_recovery_codes_locked env i codes now)
     (seqA (clear_logins_locked i)
     (bindA (account_row_by_id_locked i) (\<lambda>row.
      liftE (bind_res (required_row row) (\<lambda>a. Inr (account_from_row a))))))))))))"

definition bootstrap_active_accounts ::
  "auth_env \<Rightarrow> AccountBootstrap list \<Rightarrow> Account list auth_act" where
  "bootstrap_active_accounts env records =
     bindA (liftE (prepare_bootstrap env [] records)) (\<lambda>prepared.
     if prepared = [] then raiseA ValueError
     else
       bindA (now_act env) (\<lambda>now.
       transaction (mapA (bootstrap_account_locked env now) prepared)))"

definition bootstrap_active_account :: "auth_env \<Rightarrow> AccountBootstrap \<Rightarrow> Account auth_act" where
  "bootstrap_active_account env b =
     bindA (bootstrap_active_accounts env [b]) (\<lambda>accs. returnA (hd accs))"

end
