(* ===== verification/Auth_Rate.thy ===== *)
theory Auth_Rate
  imports Auth_Accounts
begin

text \<open>
  The login rate limiter of \<open>AuthStore\<close>: fixed windows per scope (global, client address, account,
  account and address), each keyed by a keyed digest, with at most 1024 rows in all.
\<close>

definition RATE_POLICIES :: "(rate_scope \<times> int \<times> int) list" where
  "RATE_POLICIES = [(GLOBAL, 120, 5 * 60), (IP, 30, 5 * 60), (ACCOUNT, 15, 15 * 60), (PAIR, 10, 15 * 60)]"

definition PASSKEY_LOGIN_RATE_POLICIES :: "(rate_scope \<times> int \<times> int) list" where
  "PASSKEY_LOGIN_RATE_POLICIES = [(GLOBAL, 120, 5 * 60), (IP, 30, 5 * 60)]"

text \<open>
  The digest of each scope. An address with a scope identifier outside ASCII cannot be encoded.
\<close>

definition rate_identities :: "auth_env \<Rightarrow> pystr \<Rightarrow> pystr \<Rightarrow> (rate_scope \<Rightarrow> bytes) res" where
  "rate_identities env canonical normalized_ip =
     (if \<not> isascii normalized_ip then Inl UnicodeEncodeError
      else let email_bytes = ascii_bytes canonical; ip_bytes = ascii_bytes normalized_ip in
        Inr (\<lambda>scope. case scope of
             GLOBAL \<Rightarrow> rate_digest env ''global'' (ascii_bytes (lit ''all''))
           | IP \<Rightarrow> rate_digest env ''ip'' ip_bytes
           | ACCOUNT \<Rightarrow> rate_digest env ''account'' email_bytes
           | PAIR \<Rightarrow> rate_digest env ''pair'' (email_bytes @ 0 # ip_bytes)))"

text \<open>Only the scopes of \<open>PASSKEY_LOGIN_RATE_POLICIES\<close> are looked up.\<close>

definition passkey_login_rate_identities :: "auth_env \<Rightarrow> pystr \<Rightarrow> (rate_scope \<Rightarrow> bytes) res" where
  "passkey_login_rate_identities env normalized_ip =
     (if \<not> isascii normalized_ip then Inl UnicodeEncodeError
      else Inr (\<lambda>scope. if scope = GLOBAL then rate_digest env ''passkey-global'' (ascii_bytes (lit ''all''))
        else rate_digest env ''passkey-ip'' (ascii_bytes normalized_ip)))"

definition max_window :: "(rate_scope \<times> int \<times> int) list \<Rightarrow> int" where
  "max_window policies = foldr (\<lambda>(_, _, window) m. max window m) policies 0"

text \<open>\<open>ORDER BY (scope = 'global'), window_started_at, rowid LIMIT n\<close>; rows are listed by rowid.\<close>

definition evict_rate_rows :: "nat \<Rightarrow> rate_limit list \<Rightarrow> rate_limit list" where
  "evict_rate_rows n rows =
     (let numbered = enumerate 0 rows;
          victims = take n (sort_key
            (\<lambda>(i, r). (rl_scope r = GLOBAL, window_started_at r, i)) numbered)
      in map snd (filter (\<lambda>(i, r). i \<notin> set (map fst victims)) numbered))"

definition rate_row :: "rate_scope \<Rightarrow> bytes \<Rightarrow> rate_limit list \<Rightarrow> rate_limit option" where
  "rate_row scope digest rows = fetchone (\<lambda>r. rl_scope r = scope \<and> identity_digest r = digest) rows"

text \<open>The loop over the policies that collects \<open>rows_by_scope\<close> and the retry delay.\<close>

fun scan_policies ::
  "int \<Rightarrow> (rate_scope \<Rightarrow> bytes) \<Rightarrow> rate_limit list \<Rightarrow> (rate_scope \<times> int \<times> int) list \<Rightarrow> int \<Rightarrow> int" where
  "scan_policies now identities rows [] retry = retry"
| "scan_policies now identities rows ((scope, limit, window) # ps) retry =
     (case rate_row scope (identities scope) rows of
        None \<Rightarrow> scan_policies now identities rows ps retry
      | Some r \<Rightarrow>
          let elapsed = max 0 (now - window_started_at r) in
          scan_policies now identities rows ps
            (if limit \<le> attempt_count r then max retry (window - elapsed) else retry))"

definition missing_rows ::
  "(rate_scope \<Rightarrow> bytes) \<Rightarrow> rate_limit list \<Rightarrow> (rate_scope \<times> int \<times> int) list \<Rightarrow> nat" where
  "missing_rows identities rows policies =
     length (filter (\<lambda>(scope, _, _). rate_row scope (identities scope) rows = None) policies)"

text \<open>\<open>INSERT ... ON CONFLICT(scope, identity_digest) DO UPDATE\<close>.\<close>

definition count_attempt_locked ::
  "rate_scope \<Rightarrow> bytes \<Rightarrow> pystr option \<Rightarrow> bytes option \<Rightarrow> int \<Rightarrow> unit auth_act" where
  "count_attempt_locked scope digest linked linked_digest now =
     bindA (selectA (\<lambda>d. rate_row scope digest (rate_limits d))) (\<lambda>conflict.
     case conflict of
       None \<Rightarrow>
         insert_rate_limit \<lparr>rl_scope = scope, identity_digest = digest, rl_account = linked,
           account_identity_digest = linked_digest, window_started_at = now, attempt_count = 1\<rparr>
     | Some _ \<Rightarrow>
         seqA (update_rate_limits (\<lambda>r. rl_scope r = scope \<and> identity_digest r = digest)
           (\<lambda>r. r\<lparr>rl_account := (case linked of None \<Rightarrow> rl_account r | Some x \<Rightarrow> Some x),
                account_identity_digest :=
                  (case linked_digest of None \<Rightarrow> account_identity_digest r | Some x \<Rightarrow> Some x),
                attempt_count := attempt_count r + 1\<rparr>))
         (returnA ()))"

text \<open>
  The body both checks share: forget the windows that are over, cut the table to its bound,
  scan the policies, and count the attempt in every scope only when nothing refuses it. Returns
  the retry delay, 0 when the attempt is admitted.
\<close>

definition reserve_attempt_locked ::
  "(rate_scope \<times> int \<times> int) list \<Rightarrow> (rate_scope \<Rightarrow> bytes) \<Rightarrow> (rate_scope \<Rightarrow> pystr option \<times> bytes option)
     \<Rightarrow> int \<Rightarrow> int auth_act" where
  "reserve_attempt_locked policies identities link now =
     seqA (forA policies (\<lambda>(scope, _, window).
        seqA (delete_rate_limits (\<lambda>r. rl_scope r = scope \<and> window_started_at r \<le> now - window)) (returnA ())))
     (bindA (selectA (\<lambda>d. length (rate_limits d))) (\<lambda>retained.
      bindA (if MAX_RATE_LIMIT_ROWS < retained then
          seqA (executeA (\<lambda>d. Inr ((), d\<lparr>rate_limits :=
              evict_rate_rows (retained - MAX_RATE_LIMIT_ROWS) (rate_limits d)\<rparr>)))
          (returnA (max_window policies))
        else returnA 0) (\<lambda>overflow.
      bindA (selectA (\<lambda>d. scan_policies now identities (rate_limits d) policies overflow)) (\<lambda>scanned.
      bindA (selectA (\<lambda>d. if scanned = 0
             \<and> MAX_RATE_LIMIT_ROWS < length (rate_limits d) + missing_rows identities (rate_limits d) policies
           then max_window policies else scanned)) (\<lambda>retry_after.
      seqA (if retry_after = 0 then
          forA policies (\<lambda>(scope, _, _).
            count_attempt_locked scope (identities scope) (fst (link scope)) (snd (link scope)) now)
        else returnA ())
      (returnA retry_after))))))"

definition rate_result :: "int \<Rightarrow> unit auth_act" where
  "rate_result retry_after =
     (if retry_after \<noteq> 0 then raiseA (LoginRateLimitedError (max 1 retry_after)) else returnA ())"

definition check_login_rate :: "auth_env \<Rightarrow> pyval \<Rightarrow> pyval \<Rightarrow> unit auth_act" where
  "check_login_rate env email client_ip_value =
     bindA (liftE (canonicalize_email email)) (\<lambda>canonical.
     bindA (liftE (canonical_ip env client_ip_value)) (\<lambda>normalized_ip.
     bindA (now_act env) (\<lambda>now.
     bindA (liftE (rate_identities env canonical normalized_ip)) (\<lambda>identities.
     bindA (transaction
       (bindA (account_row_by_email_locked canonical) (\<lambda>row.
        reserve_attempt_locked RATE_POLICIES identities
          (\<lambda>scope. if scope = ACCOUNT \<or> scope = PAIR
                   then (map_option account_id row, Some (identities ACCOUNT)) else (None, None)) now)))
     rate_result))))"

definition record_login_result :: "auth_env \<Rightarrow> pyval \<Rightarrow> pyval \<Rightarrow> pyval \<Rightarrow> unit auth_act" where
  "record_login_result env email client_ip_value success_value =
     bindA (liftE (coerce_bool success_value)) (\<lambda>success.
     bindA (liftE (canonicalize_email email)) (\<lambda>canonical.
     bindA (liftE (canonical_ip env client_ip_value)) (\<lambda>normalized_ip.
     if \<not> success then returnA ()
     else
       bindA (liftE (rate_identities env canonical normalized_ip)) (\<lambda>identities.
       transaction
         (seqA (delete_rate_limits (\<lambda>r. rl_scope r = PAIR \<and> identity_digest r = identities PAIR))
         (returnA ()))))))"

definition check_passkey_login_rate :: "auth_env \<Rightarrow> pyval \<Rightarrow> unit auth_act" where
  "check_passkey_login_rate env client_ip_value =
     bindA (liftE (canonical_ip env client_ip_value)) (\<lambda>normalized_ip.
     bindA (now_act env) (\<lambda>now.
     bindA (liftE (passkey_login_rate_identities env normalized_ip)) (\<lambda>identities.
     bindA (transaction
       (reserve_attempt_locked PASSKEY_LOGIN_RATE_POLICIES identities (\<lambda>_. (None, None)) now))
     rate_result)))"

definition record_passkey_login_result :: "auth_env \<Rightarrow> pyval \<Rightarrow> pyval \<Rightarrow> unit auth_act" where
  "record_passkey_login_result env client_ip_value success_value =
     bindA (liftE (coerce_bool success_value)) (\<lambda>success.
     bindA (liftE (canonical_ip env client_ip_value)) (\<lambda>normalized_ip.
     if \<not> success then returnA ()
     else
       bindA (liftE (passkey_login_rate_identities env normalized_ip)) (\<lambda>identities.
       transaction
         (seqA (delete_rate_limits (\<lambda>r. rl_scope r = IP \<and> identity_digest r = identities IP))
         (returnA ())))))"

end
