(* ===== verification/Mail_Rule_Store.thy ===== *)
theory Mail_Rule_Store
  imports Auth_Helpers
begin

text \<open>
  The per-account mail-filing rules and the runs that apply them to existing mail:
  \<open>list_mail_rules\<close> to \<open>cancel_mail_rule_run\<close> of \<open>AuthStore\<close>. Rules carry a position that orders them and a
  revision for optimistic concurrency; an account has at most one queued or running run.
\<close>

section \<open>Rules\<close>

definition rule_order :: "mail_rule \<Rightarrow> int \<times> pystr" where
  "rule_order r = (position r, rule_id r)"

definition ordered_rules :: "pystr \<Rightarrow> auth_db \<Rightarrow> mail_rule list" where
  "ordered_rules i d = sort_key rule_order (filter (\<lambda>r. mr_account r = i) (mail_rules d))"

definition list_mail_rules :: "auth_env \<Rightarrow> pyval \<Rightarrow> MailRuleRecord list auth_act" where
  "list_mail_rules env account_value =
     bindA (liftE (validate_account_id account_value)) (\<lambda>i.
     seqA require_open
     (seqA (require_account_by_id_locked i)
     (bindA (selectA (ordered_rules i)) (\<lambda>rows.
      liftE (traverse (mail_rule_from_row env) rows)))))"

definition get_mail_rule :: "auth_env \<Rightarrow> pyval \<Rightarrow> pyval \<Rightarrow> MailRuleRecord auth_act" where
  "get_mail_rule env account_value rule_value =
     bindA (liftE (validate_account_id account_value)) (\<lambda>i.
     bindA (liftE (validate_mail_rule_id rule_value)) (\<lambda>rid.
     seqA require_open
     (bindA (selectA (\<lambda>d. fetchone (\<lambda>r. mr_account r = i \<and> rule_id r = rid) (mail_rules d))) (\<lambda>row.
      case row of
        None \<Rightarrow> raiseA MailRuleNotFoundError
      | Some r \<Rightarrow> liftE (mail_rule_from_row env r)))))"

text \<open>The arguments of a rule after validation, in the order the code checks them.\<close>

record rule_fields =
  f_name :: pystr
  f_enabled :: bool
  f_expression :: pystr
  f_target :: pystr
  f_stop :: bool

definition validate_rule_fields ::
  "auth_env \<Rightarrow> pyval \<Rightarrow> pyval \<Rightarrow> pyval \<Rightarrow> pyval \<Rightarrow> pyval \<Rightarrow> rule_fields res" where
  "validate_rule_fields env name enabled_value expression target stop =
     bind_res (normalize_mail_rule_name name) (\<lambda>n.
     bind_res (coerce_bool enabled_value) (\<lambda>e.
     bind_res (canonical_json_object env MAX_MAIL_RULE_EXPRESSION_BYTES expression) (\<lambda>x.
     bind_res (normalize_mailbox_metadata target) (\<lambda>t.
     bind_res (coerce_bool stop) (\<lambda>s.
     Inr \<lparr>f_name = n, f_enabled = e, f_expression = x, f_target = t, f_stop = s\<rparr>)))))"

text \<open>\<open>SELECT COALESCE(MAX(position), -1) + 1\<close>.\<close>

definition next_position :: "pystr \<Rightarrow> auth_db \<Rightarrow> int" where
  "next_position i d =
     foldr (\<lambda>r m. max (position r) m) (filter (\<lambda>r. mr_account r = i) (mail_rules d)) (- 1) + 1"

text \<open>Shared by \<open>create_mail_rule\<close> and \<open>create_mail_rule_with_run\<close>: insert at the end, read back.\<close>

definition insert_rule_locked ::
  "auth_env \<Rightarrow> pystr \<Rightarrow> rule_fields \<Rightarrow> int \<Rightarrow> mail_rule option auth_act" where
  "insert_rule_locked env i f now =
     seqA (require_account_by_id_locked i)
     (bindA (selectA (\<lambda>d. rowcount (\<lambda>r. mr_account r = i) (mail_rules d))) (\<lambda>count.
      if MAX_MAIL_RULES_PER_ACCOUNT \<le> count then raiseA MailRuleLimitError
      else
        bindA (selectA (next_position i)) (\<lambda>pos.
        bindA (new_mail_rule_id_locked env) (\<lambda>rid.
        seqA (bind_text (Some (f_name f)))
        (seqA (bind_text (Some (f_target f)))
        (seqA (insert_mail_rule \<lparr>rule_id = rid, mr_account = i, mr_name = f_name f,
           enabled = f_enabled f, position = pos, expression_json = f_expression f,
           mr_target = f_target f, stop_processing = f_stop f, revision = 1,
           mr_created_at = now, mr_updated_at = now\<rparr>)
        (selectA (\<lambda>d. fetchone (\<lambda>r. rule_id r = rid) (mail_rules d)))))))))"

definition create_mail_rule ::
  "auth_env \<Rightarrow> pyval \<Rightarrow> pyval \<Rightarrow> pyval \<Rightarrow> pyval \<Rightarrow> pyval \<Rightarrow> pyval \<Rightarrow> MailRuleRecord auth_act" where
  "create_mail_rule env account_value name enabled_value expression target stop =
     bindA (liftE (validate_account_id account_value)) (\<lambda>i.
     bindA (liftE (validate_rule_fields env name enabled_value expression target stop)) (\<lambda>f.
     bindA (now_act env) (\<lambda>now.
     bindA (transaction (insert_rule_locked env i f now)) (\<lambda>row.
     liftE (bind_res (required_row row) (mail_rule_from_row env))))))"

definition update_mail_rule ::
  "auth_env \<Rightarrow> pyval \<Rightarrow> pyval \<Rightarrow> pyval \<Rightarrow> pyval \<Rightarrow> pyval \<Rightarrow> pyval \<Rightarrow> pyval \<Rightarrow> pyval \<Rightarrow> MailRuleRecord auth_act" where
  "update_mail_rule env account_value rule_value expected_value name enabled_value expression target stop =
     bindA (liftE (validate_account_id account_value)) (\<lambda>i.
     bindA (liftE (validate_mail_rule_id rule_value)) (\<lambda>rid.
     bindA (liftE (case expected_value of PyInt v \<Rightarrow> if v < 1 then Inl ValueError else Inr v
                   | _ \<Rightarrow> Inl ValueError)) (\<lambda>expected_revision.
     bindA (liftE (validate_rule_fields env name enabled_value expression target stop)) (\<lambda>f.
     bindA (now_act env) (\<lambda>now.
     bindA (transaction
       (seqA (bind_text (Some (f_name f)))
       (seqA (bind_text (Some (f_target f)))
       (seqA (guardA (expected_revision < 2 ^ 63) OverflowError)
       (bindA (update_mail_rules
           (\<lambda>r. mr_account r = i \<and> rule_id r = rid \<and> revision r = expected_revision)
           (\<lambda>r. r\<lparr>mr_name := f_name f, enabled := f_enabled f, expression_json := f_expression f,
                mr_target := f_target f, stop_processing := f_stop f,
                revision := revision r + 1, mr_updated_at := now\<rparr>)) (\<lambda>changed.
        if changed \<noteq> 1 then
          bindA (selectA (\<lambda>d. fetchone (\<lambda>r. mr_account r = i \<and> rule_id r = rid) (mail_rules d))) (\<lambda>exists.
          case exists of
            None \<Rightarrow> raiseA MailRuleNotFoundError
          | Some _ \<Rightarrow> raiseA MailRuleConflictError)
        else selectA (\<lambda>d. fetchone (\<lambda>r. rule_id r = rid) (mail_rules d)))))))) (\<lambda>row.
     liftE (bind_res (required_row row) (mail_rule_from_row env))))))))"

text \<open>
  Renumbering. UNIQUE(account_id, position) is checked row by row, so the positions are moved
  out of the way first.
\<close>

definition shift_positions_locked :: "pystr \<Rightarrow> unit auth_act" where
  "shift_positions_locked i =
     seqA (update_mail_rules (\<lambda>r. mr_account r = i) (\<lambda>r. r\<lparr>position := position r + 1000\<rparr>)) (returnA ())"

definition compact_mail_rule_positions_locked :: "pystr \<Rightarrow> unit auth_act" where
  "compact_mail_rule_positions_locked i =
     bindA (selectA (\<lambda>d. map rule_id (ordered_rules i d))) (\<lambda>rows.
     seqA (shift_positions_locked i)
     (forA (enumerate 0 rows) (\<lambda>(pos, rid).
       seqA (update_mail_rules (\<lambda>r. rule_id r = rid) (\<lambda>r. r\<lparr>position := int pos\<rparr>)) (returnA ()))))"

definition delete_mail_rule :: "pyval \<Rightarrow> pyval \<Rightarrow> unit auth_act" where
  "delete_mail_rule account_value rule_value =
     bindA (liftE (validate_account_id account_value)) (\<lambda>i.
     bindA (liftE (validate_mail_rule_id rule_value)) (\<lambda>rid.
     transaction
       (bindA (delete_mail_rules (\<lambda>r. mr_account r = i \<and> rule_id r = rid)) (\<lambda>deleted.
        if deleted \<noteq> 1 then raiseA MailRuleNotFoundError
        else compact_mail_rule_positions_locked i))))"

definition reorder_mail_rules :: "auth_env \<Rightarrow> pyval \<Rightarrow> pyval \<Rightarrow> unit auth_act" where
  "reorder_mail_rules env account_value order =
     bindA (liftE (validate_account_id account_value)) (\<lambda>i.
     bindA (liftE (case order of PyList vs \<Rightarrow> Inr vs | PyTuple vs \<Rightarrow> Inr vs | _ \<Rightarrow> Inl ValueError)) (\<lambda>vs.
     bindA (liftE (traverse validate_mail_rule_id vs)) (\<lambda>rids.
     if length rids \<noteq> card (set rids) then raiseA ValueError
     else
       transaction
         (bindA (selectA (\<lambda>d. map rule_id (filter (\<lambda>r. mr_account r = i) (mail_rules d)))) (\<lambda>current.
          if set rids \<noteq> set current then raiseA ValueError
          else
            seqA (shift_positions_locked i)
            (bindA (now_act env) (\<lambda>now.
             forA (enumerate 0 rids) (\<lambda>(pos, rid).
               seqA (update_mail_rules (\<lambda>r. mr_account r = i \<and> rule_id r = rid)
                 (\<lambda>r. r\<lparr>position := int pos, mr_updated_at := now\<rparr>)) (returnA ())))))))))"

definition mailbox_rule_reference_count :: "pyval \<Rightarrow> pyval \<Rightarrow> nat auth_act" where
  "mailbox_rule_reference_count account_value mailbox =
     bindA (liftE (validate_account_id account_value)) (\<lambda>i.
     bindA (liftE (normalize_mailbox_metadata mailbox)) (\<lambda>m.
     seqA require_open
     (seqA (bind_text (Some m))
     (selectA (\<lambda>d. rowcount (\<lambda>r. mr_account r = i \<and> mr_target r = m) (mail_rules d))))))"

section \<open>Runs\<close>

definition terminal_run :: "mail_rule_run \<Rightarrow> bool" where
  "terminal_run r \<longleftrightarrow> \<not> active_run r"

text \<open>Newest first, as \<open>ORDER BY created_at DESC, run_id DESC\<close>.\<close>

definition newest_runs :: "(mail_rule_run \<Rightarrow> bool) \<Rightarrow> auth_db \<Rightarrow> mail_rule_run list" where
  "newest_runs P d = rev (sort_key (\<lambda>r. (run_created_at r, run_id r)) (filter P (mail_rule_runs d)))"

text \<open>Shared by the two creators of runs: refuse a second active run, then drop old history.\<close>

definition prune_runs_locked :: "pystr \<Rightarrow> unit auth_act" where
  "prune_runs_locked i =
     bindA (selectA (\<lambda>d. fetchone (\<lambda>r. run_account r = i \<and> active_run r) (mail_rule_runs d))) (\<lambda>active.
     if active \<noteq> None then raiseA MailRuleConflictError
     else
       bindA (selectA (\<lambda>d. map run_id (drop (MAX_MAIL_RULE_RUNS_PER_ACCOUNT - 1)
                (newest_runs (\<lambda>r. run_account r = i \<and> terminal_run r) d)))) (\<lambda>old.
       seqA (delete_mail_rule_runs (\<lambda>r. run_id r \<in> set old)) (returnA ())))"

definition new_run ::
  "pystr \<Rightarrow> pystr \<Rightarrow> pystr \<Rightarrow> int \<Rightarrow> pystr \<Rightarrow> pystr \<Rightarrow> run_status \<Rightarrow> int \<Rightarrow> mail_rule_run" where
  "new_run run i rid rrev snapshot state status now =
     \<lparr>run_id = run, run_account = i, run_rule = Some rid, rule_revision = rrev,
      rule_snapshot_json = snapshot, state_json = state, run_status = status,
      scanned = 0, matched = 0, moved = 0, failed = 0, run_created_at = now, started_at = None,
      run_updated_at = now, finished_at = (if status = Completed then Some now else None),
      error_code = None\<rparr>"

definition create_mail_rule_with_run ::
  "auth_env \<Rightarrow> pyval \<Rightarrow> pyval \<Rightarrow> pyval \<Rightarrow> pyval \<Rightarrow> pyval \<Rightarrow> pyval \<Rightarrow> pyval \<Rightarrow> pyval
     \<Rightarrow> (MailRuleRecord \<times> MailRuleRun) auth_act" where
  "create_mail_rule_with_run env account_value name enabled_value expression target stop run_state run_completed =
     bindA (liftE (validate_account_id account_value)) (\<lambda>i.
     bindA (liftE (validate_rule_fields env name enabled_value expression target stop)) (\<lambda>f.
     bindA (liftE (coerce_bool run_completed)) (\<lambda>completed.
     bindA (liftE (canonical_json_object env MAX_MAIL_RULE_STATE_BYTES run_state)) (\<lambda>state.
     bindA (now_act env) (\<lambda>now.
     transaction
       (bindA (insert_rule_locked env i f now) (\<lambda>rule_row.
        bindA (liftE (bind_res (required_row rule_row) (mail_rule_from_row env))) (\<lambda>rule.
        bindA (liftE (canonical_json_object env MAX_MAIL_RULE_STATE_BYTES
            (PyDict [(PyStr (lit ''rule_id''), PyStr (mrr_rule_id rule)),
                     (PyStr (lit ''rule_name''), PyStr (mrr_name rule)),
                     (PyStr (lit ''condition''), mrr_expression rule),
                     (PyStr (lit ''target_mailbox''), PyStr (mrr_target_mailbox rule)),
                     (PyStr (lit ''revision''), PyInt (mrr_revision rule))]))) (\<lambda>snapshot.
        seqA (prune_runs_locked i)
        (bindA (new_mail_rule_run_id_locked env) (\<lambda>run.
         seqA (insert_mail_rule_run (new_run run i (mrr_rule_id rule) (mrr_revision rule) snapshot state
                 (if completed then Completed else Queued) now))
         (bindA (selectA (\<lambda>d. fetchone (\<lambda>r. run_id r = run) (mail_rule_runs d))) (\<lambda>run_row.
          bindA (liftE (bind_res (required_row run_row) (mail_rule_run_from_row env))) (\<lambda>result.
          returnA (rule, result)))))))))))))))"

definition create_mail_rule_run ::
  "auth_env \<Rightarrow> pyval \<Rightarrow> pyval \<Rightarrow> pyval \<Rightarrow> pyval \<Rightarrow> MailRuleRun auth_act" where
  "create_mail_rule_run env account_value rule_value rule_snapshot state_value =
     bindA (liftE (validate_account_id account_value)) (\<lambda>i.
     bindA (liftE (validate_mail_rule_id rule_value)) (\<lambda>rid.
     bindA (liftE (canonical_json_object env MAX_MAIL_RULE_STATE_BYTES rule_snapshot)) (\<lambda>snapshot.
     bindA (liftE (canonical_json_object env MAX_MAIL_RULE_STATE_BYTES state_value)) (\<lambda>state.
     bindA (now_act env) (\<lambda>now.
     bindA (transaction
       (bindA (selectA (\<lambda>d. fetchone (\<lambda>r. mr_account r = i \<and> rule_id r = rid) (mail_rules d))) (\<lambda>rule_row.
        case rule_row of
          None \<Rightarrow> raiseA MailRuleNotFoundError
        | Some rule \<Rightarrow>
            seqA (prune_runs_locked i)
            (bindA (new_mail_rule_run_id_locked env) (\<lambda>run.
             seqA (insert_mail_rule_run (new_run run i rid (revision rule) snapshot state Queued now))
             (selectA (\<lambda>d. fetchone (\<lambda>r. run_id r = run) (mail_rule_runs d)))))))) (\<lambda>row.
     liftE (bind_res (required_row row) (mail_rule_run_from_row env))))))))"

definition get_active_mail_rule_run :: "auth_env \<Rightarrow> pyval \<Rightarrow> MailRuleRun option auth_act" where
  "get_active_mail_rule_run env account_value =
     bindA (liftE (validate_account_id account_value)) (\<lambda>i.
     seqA require_open
     (seqA (require_account_by_id_locked i)
     (bindA (selectA (newest_runs (\<lambda>r. run_account r = i \<and> active_run r))) (\<lambda>rows.
      case rows of
        [] \<Rightarrow> returnA None
      | r # _ \<Rightarrow> bindA (liftE (mail_rule_run_from_row env r)) (\<lambda>x. returnA (Some x))))))"

definition get_mail_rule_run :: "auth_env \<Rightarrow> pyval \<Rightarrow> pyval \<Rightarrow> MailRuleRun auth_act" where
  "get_mail_rule_run env account_value run_value =
     bindA (liftE (validate_account_id account_value)) (\<lambda>i.
     bindA (liftE (validate_mail_rule_run_id run_value)) (\<lambda>run.
     seqA require_open
     (bindA (selectA (\<lambda>d. fetchone (\<lambda>r. run_account r = i \<and> run_id r = run) (mail_rule_runs d))) (\<lambda>row.
      case row of
        None \<Rightarrow> raiseA MailRuleNotFoundError
      | Some r \<Rightarrow> liftE (mail_rule_run_from_row env r)))))"

text \<open>Membership of an unhashable value in a set raises \<open>TypeError\<close>.\<close>

definition status_text :: "(pystr \<times> run_status) list" where
  "status_text = [(lit ''queued'', Queued), (lit ''running'', Running), (lit ''completed'', Completed),
     (lit ''failed'', Failed), (lit ''cancelled'', Cancelled)]"

definition parse_status :: "pyval \<Rightarrow> run_status res" where
  "parse_status value =
     (case value of
        PyStr s \<Rightarrow> (case map_of status_text s of None \<Rightarrow> Inl ValueError | Some st \<Rightarrow> Inr st)
      | PyList _ \<Rightarrow> Inl TypeError
      | PySet _ \<Rightarrow> Inl TypeError
      | PyDict _ \<Rightarrow> Inl TypeError
      | _ \<Rightarrow> Inl ValueError)"

definition validate_counter :: "pyval \<Rightarrow> int res" where
  "validate_counter value = (case value of PyInt v \<Rightarrow> if v < 0 then Inl ValueError else Inr v | _ \<Rightarrow> Inl ValueError)"

definition isalnum :: "auth_env \<Rightarrow> pystr \<Rightarrow> bool" where
  "isalnum env s \<longleftrightarrow> s \<noteq> [] \<and> list_all (\<lambda>c. if c < 128 then is_ascii_alnum c else isalnum_nonascii env c) s"

definition validate_error_code :: "auth_env \<Rightarrow> pyval \<Rightarrow> pystr option res" where
  "validate_error_code env value =
     (case value of
        PyNone \<Rightarrow> Inr None
      | PyStr s \<Rightarrow>
          (if length s < 1 \<or> 64 < length s \<or> \<not> isalnum env (filter (\<lambda>c. c \<noteq> 95) s)
           then Inl ValueError else Inr (Some s))
      | _ \<Rightarrow> Inl ValueError)"

definition terminal_status :: "run_status \<Rightarrow> bool" where
  "terminal_status st \<longleftrightarrow> st = Completed \<or> st = Failed \<or> st = Cancelled"

definition update_mail_rule_run ::
  "auth_env \<Rightarrow> pyval \<Rightarrow> pyval \<Rightarrow> pyval \<Rightarrow> pyval \<Rightarrow> pyval \<Rightarrow> pyval \<Rightarrow> pyval \<Rightarrow> pyval \<Rightarrow> pyval
     \<Rightarrow> MailRuleRun auth_act" where
  "update_mail_rule_run env account_value run_value state_value status_value
       scanned_value matched_value moved_value failed_value error_value =
     bindA (liftE (validate_account_id account_value)) (\<lambda>i.
     bindA (liftE (validate_mail_rule_run_id run_value)) (\<lambda>run.
     bindA (liftE (parse_status status_value)) (\<lambda>status.
     bindA (liftE (validate_counter scanned_value)) (\<lambda>n_scanned.
     bindA (liftE (validate_counter matched_value)) (\<lambda>n_matched.
     bindA (liftE (validate_counter moved_value)) (\<lambda>n_moved.
     bindA (liftE (validate_counter failed_value)) (\<lambda>n_failed.
     bindA (liftE (validate_error_code env error_value)) (\<lambda>code.
     bindA (liftE (canonical_json_object env MAX_MAIL_RULE_STATE_BYTES state_value)) (\<lambda>state.
     bindA (now_act env) (\<lambda>now.
     bindA (transaction
       (bindA (selectA (\<lambda>d. fetchone (\<lambda>r. run_account r = i \<and> run_id r = run) (mail_rule_runs d))) (\<lambda>current.
        case current of
          None \<Rightarrow> raiseA MailRuleNotFoundError
        | Some r0 \<Rightarrow>
            if terminal_status (run_status r0) then raiseA MailRuleConflictError
            else
              let started = (if status = Running \<and> started_at r0 = None then Some now else started_at r0);
                  finished = (if terminal_status status then Some now else None) in
              seqA (guardA (list_all (\<lambda>v. v < 2 ^ 63) [n_scanned, n_matched, n_moved, n_failed]) OverflowError)
              (seqA (update_mail_rule_runs (\<lambda>r. run_account r = i \<and> run_id r = run)
                (\<lambda>r. r\<lparr>state_json := state, run_status := status, scanned := n_scanned, matched := n_matched,
                     moved := n_moved, failed := n_failed, started_at := started, run_updated_at := now,
                     finished_at := finished, error_code := code\<rparr>))
              (selectA (\<lambda>d. fetchone (\<lambda>r. run_id r = run) (mail_rule_runs d))))))) (\<lambda>row.
     liftE (bind_res (required_row row) (mail_rule_run_from_row env)))))))))))))"

definition cancel_mail_rule_run :: "auth_env \<Rightarrow> pyval \<Rightarrow> pyval \<Rightarrow> MailRuleRun auth_act" where
  "cancel_mail_rule_run env account_value run_value =
     bindA (get_mail_rule_run env account_value run_value) (\<lambda>current.
     update_mail_rule_run env account_value run_value (mru_state current) (PyStr (lit ''cancelled''))
       (PyInt (mru_scanned current)) (PyInt (mru_matched current)) (PyInt (mru_moved current))
       (PyInt (mru_failed current)) PyNone)"

end
