(* ===== verification/Auth_Limits.thy ===== *)
theory Auth_Limits
  imports Auth_Fresh Auth_Accounts Auth_Rate Mail_Rule_Store
begin

text \<open>
  Resource bounds of the store: at most five sessions, five pending challenges, five passkey
  challenges, ten passkeys, a hundred mail rules and a hundred rule runs per account, 256
  anonymous passkey challenges and 1024 rate-limit rows in all. Every operation keeps them,
  whatever the clock and the random source return.
\<close>

section \<open>Bounded tables\<close>

definition at_most :: "nat \<Rightarrow> ('r \<Rightarrow> 'i option) \<Rightarrow> 'r list \<Rightarrow> bool" where
  "at_most n owner rows \<longleftrightarrow> (\<forall>i. rowcount (\<lambda>r. owner r = Some i) rows \<le> n)"

lemma at_most_Nil [simp]: "at_most n owner []"
  by (simp add: at_most_def)

lemma at_most_delete [simp]: "at_most n owner rows \<Longrightarrow> at_most n owner (delete_rows P rows)"
  unfolding at_most_def using rowcount_delete_rows le_trans by blast

lemma at_most_set_where:
  "at_most n owner rows \<Longrightarrow> (\<And>r. owner (f r) = owner r) \<Longrightarrow> at_most n owner (set_where P f rows)"
  by (simp add: at_most_def rowcount_set_where)

lemma at_most_snoc:
  "at_most n owner rows \<Longrightarrow> (\<And>i. owner r = Some i \<Longrightarrow> rowcount (\<lambda>q. owner q = Some i) rows < n) \<Longrightarrow>
     at_most n owner (rows @ [r])"
  by (auto simp: at_most_def)

text \<open>
  Eviction: when a table has reached its limit for an owner, the oldest rows go, leaving room
  for exactly one. One row may be exempt.
\<close>

locale evicting_table =
  fixes k :: "'r \<Rightarrow> 'i"
    and order :: "'r \<Rightarrow> 'k::linorder"
    and limit :: nat
  assumes limit_room: "2 \<le> limit"
begin

lemma make_room:
  assumes "distinct (map k rows)" "limit \<le> rowcount P rows" "\<And>r. P' r \<Longrightarrow> P r"
    and "rowcount P rows \<le> rowcount P' rows + 1"
  shows "rowcount P (delete_rows (selected k order (rowcount P rows - limit + 1) P' rows) rows) = limit - 1"
proof -
  have "min (rowcount P rows - limit + 1) (rowcount P' rows) = rowcount P rows - limit + 1"
    using assms(2,4) limit_room by simp
  then show ?thesis
    using rowcount_evict [of k rows P' P order "rowcount P rows - limit + 1"] assms limit_room by simp
qed

lemmas make_room_all = make_room [where P' = P and P = P for P, simplified]

end

interpretation session_eviction: evicting_table session_digest session_order MAX_SESSIONS_PER_ACCOUNT
  by unfold_locales (simp add: auth_limits)

interpretation challenge_eviction: evicting_table pc_digest challenge_order MAX_CHALLENGES_PER_ACCOUNT
  by unfold_locales (simp add: auth_limits)

interpretation passkey_challenge_eviction:
  evicting_table pkc_digest passkey_challenge_order MAX_PASSKEY_CHALLENGES_PER_ACCOUNT
  by unfold_locales (simp add: auth_limits)

interpretation anonymous_challenge_eviction:
  evicting_table pkc_digest passkey_challenge_order MAX_ANONYMOUS_PASSKEY_LOGIN_CHALLENGES
  by unfold_locales (simp add: auth_limits)

section \<open>The bounds\<close>

definition bound_owner :: "passkey_challenge \<Rightarrow> pystr option" where
  "bound_owner c = (if purpose c = Login then None else pkc_account c)"

definition anonymous_owner :: "passkey_challenge \<Rightarrow> unit option" where
  "anonymous_owner c = (if purpose c = Login then Some () else None)"

lemma owner_Some [simp]:
  "bound_owner c = Some i \<longleftrightarrow> purpose c \<noteq> Login \<and> pkc_account c = Some i"
  "anonymous_owner c = Some u \<longleftrightarrow> purpose c = Login"
  by (auto simp: bound_owner_def anonymous_owner_def)

definition limits_inv :: "auth_db \<Rightarrow> bool" where
  "limits_inv d \<longleftrightarrow>
     at_most MAX_SESSIONS_PER_ACCOUNT (\<lambda>s. Some (s_account s)) (sessions d)
     \<and> at_most MAX_CHALLENGES_PER_ACCOUNT (\<lambda>c. Some (pc_account c)) (pending_challenges d)
     \<and> at_most MAX_PASSKEYS_PER_ACCOUNT (\<lambda>p. Some (pk_account p)) (passkey_credentials d)
     \<and> at_most MAX_PASSKEY_CHALLENGES_PER_ACCOUNT bound_owner (passkey_challenges d)
     \<and> at_most MAX_ANONYMOUS_PASSKEY_LOGIN_CHALLENGES anonymous_owner (passkey_challenges d)
     \<and> at_most MAX_MAIL_RULES_PER_ACCOUNT (\<lambda>r. Some (mr_account r)) (mail_rules d)
     \<and> at_most MAX_MAIL_RULE_RUNS_PER_ACCOUNT (\<lambda>r. Some (run_account r)) (mail_rule_runs d)
     \<and> length (rate_limits d) \<le> MAX_RATE_LIMIT_ROWS
     \<and> (\<forall>c \<in> set (pending_challenges d). pc_failure_count c < CHALLENGE_FAILURE_LIMIT)
     \<and> (\<forall>c \<in> set (passkey_challenges d). pkc_failure_count c < CHALLENGE_FAILURE_LIMIT)"

definition store_inv :: "auth_db \<Rightarrow> bool" where
  "store_inv d \<longleftrightarrow> schema_inv d \<and> limits_inv d"

lemma store_inv_empty: "store_inv empty_db"
  by (simp add: store_inv_def schema_inv_empty) (simp add: limits_inv_def empty_db_def auth_limits)

lemma length_delete_rows_le: "length (delete_rows P rows) \<le> length rows"
  by (simp add: delete_rows_def)

text \<open>\<open>store_inv\<close> is preserved when the schema is and the limits are, statement by statement.\<close>

lemma preserves_store:
  "preserves schema_inv m \<Longrightarrow> (\<And>d. schema_inv d \<Longrightarrow> limits_inv d \<Longrightarrow> wp m (\<lambda>_. limits_inv) (\<lambda>_. limits_inv) d) \<Longrightarrow>
     preserves store_inv m"
  unfolding preserves_def store_inv_def by (blast intro: wp_mono [OF wp_conj])

lemma limits_drop_sessions: "limits_inv d \<Longrightarrow> limits_inv (drop_sessions P d)"
  by (auto simp: limits_inv_def drop_sessions_def)

lemma limits_drop_mail_rules: "limits_inv d \<Longrightarrow> limits_inv (drop_mail_rules P d)"
  by (auto simp: limits_inv_def drop_mail_rules_def at_most_set_where)

lemma limits_drop_accounts: "limits_inv d \<Longrightarrow> limits_inv (drop_accounts P d)"
  by (drule limits_drop_sessions, drule limits_drop_mail_rules)
    (auto simp: limits_inv_def drop_accounts_def Let_def intro: le_trans [OF length_delete_rows_le])

lemma store_cascades [preserves_rules]:
  "preserves store_inv (delete_accounts P1)"
  "preserves store_inv (delete_sessions P2)"
  "preserves store_inv (delete_mail_rules P3)"
  by (rule preserves_store, rule preserves_rules, rule wp_rules,
      erule limits_drop_accounts limits_drop_sessions limits_drop_mail_rules)+

lemma store_deletes [preserves_rules]:
  "preserves store_inv (delete_recovery_codes P1)"
  "preserves store_inv (delete_pending_challenges P2)"
  "preserves store_inv (delete_rate_limits P3)"
  "preserves store_inv (delete_passkey_credentials P4)"
  "preserves store_inv (delete_passkey_challenges P5)"
  "preserves store_inv (delete_mail_rule_runs P6)"
  by (rule preserves_store, rule preserves_rules, rule wp_rules,
      auto simp: limits_inv_def intro: le_trans [OF length_delete_rows_le])+

lemma store_inserts [preserves_rules]:
  "preserves store_inv (insert_account a)"
  "preserves store_inv (insert_recovery_code r)"
  by (rule preserves_store, rule preserves_rules, rule wp_rules; simp add: limits_inv_def)+

lemma store_update_accounts [preserves_rules]:
  "(\<And>a. account_id (f a) = account_id a) \<Longrightarrow> preserves store_inv (update_accounts P f)"
  by (rule preserves_store, rule preserves_rules, assumption, rule wp_rules; simp add: limits_inv_def)

lemma store_update_sessions [preserves_rules]:
  "(\<And>s. session_digest (f s) = session_digest s) \<Longrightarrow> (\<And>s. s_account (f s) = s_account s) \<Longrightarrow>
     preserves store_inv (update_sessions P f)"
  by (rule preserves_store, rule preserves_rules, assumption, rule wp_rules;
      simp add: limits_inv_def at_most_set_where)

lemma store_update_mail_rules [preserves_rules]:
  "(\<And>r. rule_id (f r) = rule_id r) \<Longrightarrow> (\<And>r. mr_account (f r) = mr_account r) \<Longrightarrow>
     preserves store_inv (update_mail_rules P f)"
  by (rule preserves_store, rule preserves_rules, assumption, rule wp_rules;
      simp add: limits_inv_def at_most_set_where)

lemma store_update_mail_rule_runs [preserves_rules]:
  "(\<And>r. run_account (f r) = run_account r) \<Longrightarrow> preserves store_inv (update_mail_rule_runs P f)"
  by (rule preserves_store, rule preserves_rules, rule wp_rules;
      simp add: limits_inv_def at_most_set_where)

lemma store_update_rate_limits [preserves_rules]: "preserves store_inv (update_rate_limits P f)"
  by (rule preserves_store, rule preserves_rules, rule wp_rules; simp add: limits_inv_def)

lemma store_update_passkey_credentials [preserves_rules]:
  "(\<And>p. pk_account (f p) = pk_account p) \<Longrightarrow> preserves store_inv (update_passkey_credentials P f)"
  by (rule preserves_store, rule preserves_rules, rule wp_rules;
      simp add: limits_inv_def at_most_set_where)

lemma store_update_pending [preserves_rules]:
  "(\<And>c. pc_account (f c) = pc_account c) \<Longrightarrow> (\<And>c. pc_failure_count (f c) < CHALLENGE_FAILURE_LIMIT) \<Longrightarrow>
     preserves store_inv (update_pending_challenges P f)"
  by (rule preserves_store, rule preserves_rules, rule wp_rules;
      auto simp: limits_inv_def at_most_set_where set_set_where)

lemma store_update_passkey_challenges [preserves_rules]:
  "(\<And>c. bound_owner (f c) = bound_owner c) \<Longrightarrow> (\<And>c. anonymous_owner (f c) = anonymous_owner c) \<Longrightarrow>
   (\<And>c. pkc_failure_count (f c) < CHALLENGE_FAILURE_LIMIT) \<Longrightarrow>
     preserves store_inv (update_passkey_challenges P f)"
  by (rule preserves_store, rule preserves_rules, rule wp_rules;
      auto simp: limits_inv_def at_most_set_where set_set_where)


lemma store_delete_rows:
  "store_inv d \<Longrightarrow> store_inv (d\<lparr>recovery_codes := delete_rows P1 (recovery_codes d)\<rparr>)"
  "store_inv d \<Longrightarrow> store_inv (d\<lparr>pending_challenges := delete_rows P2 (pending_challenges d)\<rparr>)"
  "store_inv d \<Longrightarrow> store_inv (d\<lparr>rate_limits := delete_rows P3 (rate_limits d)\<rparr>)"
  "store_inv d \<Longrightarrow> store_inv (d\<lparr>passkey_challenges := delete_rows P4 (passkey_challenges d)\<rparr>)"
  "store_inv d \<Longrightarrow> store_inv (d\<lparr>mail_rule_runs := delete_rows P5 (mail_rule_runs d)\<rparr>)"
  by (auto simp: store_inv_def schema_inv_def limits_inv_def table_inv_delete
      intro: le_trans [OF length_delete_rows_le])

section \<open>Helpers that insert\<close>

lemma preservesD_wp: "preserves I m \<Longrightarrow> I d \<Longrightarrow> wp m (\<lambda>_. I) (\<lambda>_. I) d"
  by (simp add: preserves_def)

lemma wp_preserves:
  "preserves I m \<Longrightarrow> I d \<Longrightarrow> (\<And>x d'. I d' \<Longrightarrow> Q x d') \<Longrightarrow> (\<And>e d'. I d' \<Longrightarrow> E e d') \<Longrightarrow> wp m Q E d"
  by (blast intro: wp_mono preservesD_wp)

lemma store_record_failure [preserves_rules]:
  "preserves store_inv (record_challenge_failure_locked env digest n)"
  unfolding record_challenge_failure_locked_def release_pending_enrollment_locked_def Let_def
  by (cases "CHALLENGE_FAILURE_LIMIT \<le> n + 1") (auto intro!: preserves_rules simp: to_required_def)

lemma store_record_passkey_failure [preserves_rules]:
  "preserves store_inv (record_passkey_challenge_failure_locked digest n)"
  unfolding record_passkey_challenge_failure_locked_def Let_def
  by (cases "CHALLENGE_FAILURE_LIMIT \<le> n + 1")
    (auto intro!: preserves_rules simp: bound_owner_def anonymous_owner_def)

lemma limits_rowcount:
  "limits_inv d \<Longrightarrow> rowcount (\<lambda>s. s_account s = i) (sessions d) \<le> 5"
  "limits_inv d \<Longrightarrow> rowcount (\<lambda>c. pc_account c = i) (pending_challenges d) \<le> 5"
  "limits_inv d \<Longrightarrow> rowcount (\<lambda>p. pk_account p = i) (passkey_credentials d) \<le> 10"
  "limits_inv d \<Longrightarrow> rowcount (\<lambda>r. mr_account r = i) (mail_rules d) \<le> 100"
  "limits_inv d \<Longrightarrow> rowcount (\<lambda>r. run_account r = i) (mail_rule_runs d) \<le> 100"
  by (auto simp: limits_inv_def at_most_def auth_limits)

lemma store_drop_sessions: "store_inv d \<Longrightarrow> store_inv (drop_sessions P d)"
  by (simp add: store_inv_def schema_drop_sessions limits_drop_sessions)

text \<open>Eviction leaves room for one more session of the account.\<close>

lemma wp_evict_sessions:
  assumes inv: "store_inv d"
    and Q: "\<And>d'. store_inv d' \<Longrightarrow> rowcount (\<lambda>s. s_account s = i) (sessions d') < 5 \<Longrightarrow>
      accounts d' = accounts d \<Longrightarrow> Q () d'"
  shows "wp (evict_sessions_locked i) Q E d"
  unfolding evict_sessions_locked_def
proof (intro wp_rules)
  let ?P = "\<lambda>s. s_account s = i"
  assume full: "MAX_SESSIONS_PER_ACCOUNT \<le> rowcount ?P (sessions d)"
  from inv have keys: "distinct (map session_digest (sessions d))"
    by (simp add: store_inv_def schema_keys)
  show "Q () (drop_sessions (selected session_digest session_order
    (rowcount ?P (sessions d) - MAX_SESSIONS_PER_ACCOUNT + 1) ?P (sessions d)) d)"
    using session_eviction.make_room_all [OF keys full]
    by (intro Q store_drop_sessions [OF inv]) (simp_all add: drop_sessions_def auth_limits)
qed (use inv in \<open>simp add: Q auth_limits\<close>)

lemma store_insert_session:
  "store_inv d \<Longrightarrow> session_ok d (sessions d) s \<Longrightarrow>
   rowcount (\<lambda>q. s_account q = s_account s) (sessions d) < 5 \<Longrightarrow>
     store_inv (d\<lparr>sessions := sessions d @ [s]\<rparr>)"
  by (auto simp: store_inv_def schema_insert_session limits_inv_def auth_limits intro!: at_most_snoc)

lemma store_issue_session [preserves_rules]:
  "preserves store_inv (issue_session_locked env a now ip ua)"
  unfolding issue_session_locked_def Let_def delete_expired_sessions_locked_def
  by (rule preservesI, intro wp_rules wp_evict_sessions)
    (simp_all add: store_insert_session store_drop_sessions)

section \<open>Challenges\<close>

text \<open>
  The challenge that owns a pending enrollment is exempt from eviction; there is at most one.
\<close>

lemma rowcount_exempt:
  assumes "distinct (map k rows)" "distinct (map a as)"
  shows "rowcount P rows \<le> rowcount (\<lambda>r. P r \<and> \<not> (\<exists>x \<in> set as. a x = i \<and> S x \<and> w x = Some (k r))) rows + 1"
proof (cases "\<exists>x \<in> set as. a x = i \<and> S x")
  case True
  then obtain x where x: "x \<in> set as" "a x = i" "S x" by blast
  have uniq: "y = x" if "y \<in> set as" "a y = i" for y
    using key_unique [OF assms(2)] that x by metis
  have "rowcount P rows \<le> rowcount (\<lambda>r. P r \<and> w x \<noteq> Some (k r)) rows + rowcount (\<lambda>r. w x = Some (k r)) rows"
    by (induction rows) auto
  also have "rowcount (\<lambda>r. w x = Some (k r)) rows \<le> 1"
  proof (cases "w x")
    case (Some v)
    then have "(\<lambda>r. w x = Some (k r)) = (\<lambda>r. k r = v)" by auto
    then show ?thesis using rowcount_key [OF assms(1)] by simp
  qed (simp add: rowcount_def)
  also have "(\<lambda>r. P r \<and> w x \<noteq> Some (k r)) = (\<lambda>r. P r \<and> \<not> (\<exists>y \<in> set as. a y = i \<and> S y \<and> w y = Some (k r)))"
    by (rule ext) (metis x uniq)
  finally show ?thesis by simp
next
  case False
  then have "rowcount P rows = rowcount (\<lambda>r. P r \<and> \<not> (\<exists>x \<in> set as. a x = i \<and> S x \<and> w x = Some (k r))) rows"
    by (auto simp: rowcount_def intro!: arg_cong [where f = length] filter_cong)
  then show ?thesis by simp
qed

lemma wp_evict_challenges:
  assumes inv: "store_inv d"
    and Q: "\<And>d'. store_inv d' \<Longrightarrow> rowcount (\<lambda>c. pc_account c = i) (pending_challenges d') < 5 \<Longrightarrow>
      accounts d' = accounts d \<Longrightarrow> recovery_codes d' = recovery_codes d \<Longrightarrow>
      (\<And>c. c \<in> set (pending_challenges d) \<Longrightarrow> c \<notin> set (pending_challenges d') \<Longrightarrow> evictable_challenge d i c) \<Longrightarrow>
      Q () d'"
  shows "wp (evict_challenges_locked i) Q E d"
  unfolding evict_challenges_locked_def
proof (intro wp_rules)
  let ?P = "\<lambda>c. pc_account c = i" and ?E = "evictable_challenge d i"
  let ?rows = "pending_challenges d"
  assume full: "MAX_CHALLENGES_PER_ACCOUNT \<le> rowcount ?P ?rows"
  let ?sel = "selected pc_digest challenge_order (rowcount ?P ?rows - MAX_CHALLENGES_PER_ACCOUNT + 1) ?E ?rows"
  from inv have keys: "distinct (map pc_digest ?rows)" "distinct (map account_id (accounts d))"
    by (simp_all add: store_inv_def schema_keys)
  have "rowcount ?P ?rows \<le> rowcount ?E ?rows + 1"
    using rowcount_exempt [OF keys, of ?P i "\<lambda>a. enrollment_state a = PENDING" enrollment_challenge_digest]
    by (simp add: evictable_challenge_def [abs_def])
  from challenge_eviction.make_room [OF keys(1) full _ this]
  have "rowcount ?P (delete_rows ?sel ?rows) < 5"
    by (simp add: evictable_challenge_def auth_limits)
  then show "Q () (d\<lparr>pending_challenges := delete_rows ?sel ?rows\<rparr>)"
    using inv selected_imp [OF keys(1)] by (intro Q) (auto simp: store_delete_rows)
next
  assume "\<not> MAX_CHALLENGES_PER_ACCOUNT \<le> rowcount (\<lambda>c. pc_account c = i) (pending_challenges d)"
  with inv show "Q () d" by (intro Q) (simp_all add: auth_limits)
qed

lemma store_insert_pending:
  "store_inv d \<Longrightarrow> pending_challenge_ok d (pending_challenges d) c \<Longrightarrow> pc_failure_count c < 5 \<Longrightarrow>
   rowcount (\<lambda>q. pc_account q = pc_account c) (pending_challenges d) < 5 \<Longrightarrow>
     store_inv (d\<lparr>pending_challenges := pending_challenges d @ [c]\<rparr>)"
  by (auto simp: store_inv_def schema_inserts limits_inv_def auth_limits intro!: at_most_snoc)

lemma store_delete_expired [preserves_rules]:
  "preserves store_inv (delete_expired_challenges_locked now)"
  unfolding delete_expired_challenges_locked_def
  by (intro preserves_rules) (simp add: to_required_def)

lemma store_create_pending [preserves_rules]:
  "preserves store_inv (create_pending_challenge env email)"
  unfolding create_pending_challenge_def
  by (rule preservesI, intro wp_rules wp_evict_challenges wp_preserves [OF store_delete_expired])
    (simp_all add: store_insert_pending)

lemma store_insert_passkey_challenge:
  "store_inv d \<Longrightarrow> passkey_challenge_ok d (passkey_challenges d) c \<Longrightarrow> pkc_failure_count c < 5 \<Longrightarrow>
   (\<And>i. bound_owner c = Some i \<Longrightarrow> rowcount (\<lambda>q. bound_owner q = Some i) (passkey_challenges d) < 5) \<Longrightarrow>
   (anonymous_owner c = Some () \<Longrightarrow> rowcount (\<lambda>q. anonymous_owner q = Some ()) (passkey_challenges d) < 256) \<Longrightarrow>
     store_inv (d\<lparr>passkey_challenges := passkey_challenges d @ [c]\<rparr>)"
  by (auto simp: store_inv_def schema_inserts limits_inv_def auth_limits intro!: at_most_snoc)

lemma wp_evict_passkey_challenges:
  assumes inv: "store_inv d" and lim: "evicting_table maximum"
    and Q: "\<And>d'. store_inv d' \<Longrightarrow> rowcount P (passkey_challenges d') < maximum \<Longrightarrow> Q () d'"
  shows "wp (evict_passkey_challenges_locked P maximum) Q E d"
  unfolding evict_passkey_challenges_locked_def
proof (intro wp_rules)
  assume full: "maximum \<le> rowcount P (passkey_challenges d)"
  from inv have keys: "distinct (map pkc_digest (passkey_challenges d))"
    by (simp add: store_inv_def schema_keys)
  from lim have "0 < maximum" by (simp add: evicting_table_def)
  then show "Q () (d\<lparr>passkey_challenges := delete_rows (selected pkc_digest passkey_challenge_order
      (rowcount P (passkey_challenges d) - maximum + 1) P (passkey_challenges d)) (passkey_challenges d)\<rparr>)"
    using evicting_table.make_room_all [OF lim keys full, of passkey_challenge_order]
    by (intro Q) (simp_all add: store_delete_rows [OF inv])
qed (use inv in \<open>simp add: Q\<close>)

lemma preserves_fresh_passkey: "preserves I (draw_fresh n
    (bindA (random_bytes env TOKEN_BYTES) (\<lambda>b. returnA (b, passkey_challenge_digest env b))) taken)"
  by (rule passkey_challenge_source.fresh_preserves [unfolded passkey_challenge_source_def])

lemmas wp_fresh_passkey = passkey_challenge_source.wp_fresh [unfolded passkey_challenge_source_def]

lemma store_create_passkey_challenge [preserves_rules]:
  "preserves store_inv (create_passkey_challenge_locked env purp i session now)"
  unfolding create_passkey_challenge_locked_def delete_expired_passkey_challenges_locked_def
  by (rule preservesI, intro wp_rules wp_evict_passkey_challenges wp_fresh_passkey
      passkey_challenge_eviction.evicting_table_axioms
      anonymous_challenge_eviction.evicting_table_axioms)
    (auto simp: store_delete_rows auth_limits
      intro!: store_insert_passkey_challenge)

section \<open>Passkeys, mail rules and runs\<close>

lemma store_insert_credential:
  "store_inv d \<Longrightarrow> passkey_credential_ok d (passkey_credentials d) p \<Longrightarrow>
   rowcount (\<lambda>q. pk_account q = pk_account p) (passkey_credentials d) < 10 \<Longrightarrow>
     store_inv (d\<lparr>passkey_credentials := passkey_credentials d @ [p]\<rparr>)"
  by (auto simp: store_inv_def schema_inserts limits_inv_def auth_limits intro!: at_most_snoc)

lemma store_insert_rule:
  "store_inv d \<Longrightarrow> mail_rule_ok d (mail_rules d) r \<Longrightarrow>
   rowcount (\<lambda>q. mr_account q = mr_account r) (mail_rules d) < 100 \<Longrightarrow>
     store_inv (d\<lparr>mail_rules := mail_rules d @ [r]\<rparr>)"
  by (auto simp: store_inv_def schema_insert_mail_rule limits_inv_def auth_limits intro!: at_most_snoc)

lemma store_insert_rule_locked [preserves_rules]: "preserves store_inv (insert_rule_locked env i f now)"
  unfolding insert_rule_locked_def
  by (rule preservesI, intro wp_rules) (auto simp: auth_limits intro!: store_insert_rule)

lemma store_insert_run:
  "store_inv d \<Longrightarrow> mail_rule_run_ok d (mail_rule_runs d) r \<Longrightarrow>
   rowcount (\<lambda>q. run_account q = run_account r) (mail_rule_runs d) < 100 \<Longrightarrow>
     store_inv (d\<lparr>mail_rule_runs := mail_rule_runs d @ [r]\<rparr>)"
  by (auto simp: store_inv_def schema_inserts limits_inv_def auth_limits intro!: at_most_snoc)

text \<open>Pruning keeps the 99 newest finished runs; with no active run there is room for one.\<close>

lemma wp_prune_runs:
  assumes inv: "store_inv d"
    and Q: "\<And>d'. store_inv d' \<Longrightarrow> rowcount (\<lambda>r. run_account r = i) (mail_rule_runs d') < 100 \<Longrightarrow>
      (\<And>r. r \<in> set (mail_rule_runs d') \<Longrightarrow> run_account r = i \<Longrightarrow> terminal_run r) \<Longrightarrow>
      mail_rules d' = mail_rules d \<Longrightarrow> accounts d' = accounts d \<Longrightarrow> Q () d'"
    and E: "E MailRuleConflictError d"
  shows "wp (prune_runs_locked i) Q E d"
  unfolding prune_runs_locked_def
proof (intro wp_rules)
  let ?P = "\<lambda>r. run_account r = i \<and> terminal_run r"
  let ?rows = "mail_rule_runs d"
  let ?old = "drop (MAX_MAIL_RULE_RUNS_PER_ACCOUNT - 1) (newest_runs ?P d)"
  assume "\<not> fetchone (\<lambda>r. run_account r = i \<and> active_run r) ?rows \<noteq> None"
  then have fin: "\<And>r. r \<in> set ?rows \<Longrightarrow> run_account r = i \<Longrightarrow> terminal_run r"
    by (auto simp: fetchone_None_iff terminal_run_def)
  from inv have keys: "distinct (map run_id ?rows)" by (simp add: store_inv_def schema_keys)
  let ?keep = "take (MAX_MAIL_RULE_RUNS_PER_ACCOUNT - 1) (newest_runs ?P d)"
  have all: "set (newest_runs ?P d) = set (filter ?P ?rows)" by (simp add: newest_runs_def)
  have "set (filter (\<lambda>r. run_account r = i) (delete_rows (\<lambda>r. run_id r \<in> set (map run_id ?old)) ?rows)) \<subseteq> set ?keep"
  proof
    fix r
    assume "r \<in> set (filter (\<lambda>r. run_account r = i) (delete_rows (\<lambda>r. run_id r \<in> set (map run_id ?old)) ?rows))"
    then have r: "r \<in> set ?rows" "run_account r = i" "run_id r \<notin> run_id ` set ?old" by auto
    with fin have "r \<in> set (newest_runs ?P d)" by (simp add: all)
    then have "r \<in> set ?keep \<or> r \<in> set ?old" by (metis Un_iff append_take_drop_id set_append)
    with r show "r \<in> set ?keep" by blast
  qed
  then have "card (set (filter (\<lambda>r. run_account r = i)
      (delete_rows (\<lambda>r. run_id r \<in> set (map run_id ?old)) ?rows))) \<le> card (set ?keep)"
    by (intro card_mono) auto
  also have "card (set ?keep) \<le> 99"
    by (rule le_trans [OF card_length]) (simp add: auth_limits)
  finally have "rowcount (\<lambda>r. run_account r = i)
      (delete_rows (\<lambda>r. run_id r \<in> set (map run_id ?old)) ?rows) < 100"
    using keys distinct_card [of "filter (\<lambda>r. run_account r = i)
        (delete_rows (\<lambda>r. run_id r \<in> set (map run_id ?old)) ?rows)"]
    by (simp add: rowcount_def delete_rows_def distinct_map)
  then show "Q () (d\<lparr>mail_rule_runs := delete_rows (\<lambda>r. run_id r \<in> set (map run_id ?old)) ?rows\<rparr>)"
    using fin by (intro Q) (simp_all add: store_delete_rows [OF inv])
qed (use E in simp)

section \<open>The rate limiter\<close>

lemma store_insert_rate:
  "store_inv d \<Longrightarrow> rate_limit_ok d (rate_limits d) r \<Longrightarrow> length (rate_limits d) < 1024 \<Longrightarrow>
     store_inv (d\<lparr>rate_limits := rate_limits d @ [r]\<rparr>)"
  by (auto simp: store_inv_def schema_inserts limits_inv_def auth_limits)

lemma store_update_rate:
  "store_inv d \<Longrightarrow> update_rows (rate_limit_ok d) P f (rate_limits d) = Inr (set_where P f (rate_limits d)) \<Longrightarrow>
     store_inv (d\<lparr>rate_limits := set_where P f (rate_limits d)\<rparr>)"
  by (auto simp: store_inv_def schema_inv_def limits_inv_def dest: rate_table.update_keeps)

lemma missing_rows_Cons:
  "missing_rows ids rows ((scope, limit, window) # ps) =
     (if rate_row scope (ids scope) rows = None then 1 else 0) + missing_rows ids rows ps"
  by (simp add: missing_rows_def)

definition rate_key :: "rate_limit \<Rightarrow> rate_scope \<times> bytes" where
  "rate_key r = (rl_scope r, identity_digest r)"

lemma rate_row_None_iff: "rate_row scope digest rows = None \<longleftrightarrow> (scope, digest) \<notin> set (map rate_key rows)"
  by (auto simp: rate_row_def fetchone_None_iff rate_key_def)

lemma missing_rows_mono:
  "set (map rate_key rows) \<subseteq> set (map rate_key rows') \<Longrightarrow> missing_rows ids rows' ps \<le> missing_rows ids rows ps"
  by (induction ps) (auto simp: missing_rows_def rate_row_None_iff)

text \<open>
  While the attempt is being counted, the rows in the table and the rows still to be created
  stay within the bound.
\<close>

lemma wp_count_attempts:
  assumes "store_inv d" "length (rate_limits d) + missing_rows ids (rate_limits d) ps \<le> 1024"
  shows "wp (forA ps (\<lambda>(scope, _, _). count_attempt_locked scope (ids scope) (l scope) (m scope) now))
    (\<lambda>_. store_inv) (\<lambda>_. store_inv) d"
proof (rule wp_for [where I = "\<lambda>ps d. store_inv d
      \<and> length (rate_limits d) + missing_rows ids (rate_limits d) ps \<le> 1024"])
  fix p ps d
  assume I: "store_inv d \<and> length (rate_limits d) + missing_rows ids (rate_limits d) (p # ps) \<le> 1024"
  obtain scope limit window where p: "p = (scope, limit, window)" by (cases p) auto
  have ins: "missing_rows ids (rate_limits d @ [r]) ps \<le> missing_rows ids (rate_limits d) ps" for r
    by (rule missing_rows_mono) auto
  have upd: "missing_rows ids (set_where P f (rate_limits d)) ps \<le> missing_rows ids (rate_limits d) ps"
    if "\<And>r. rate_key (f r) = rate_key r" for P f
    by (rule missing_rows_mono) (simp only: map_set_where that order_refl)
  show "wp (case p of (scope, _, _) \<Rightarrow> count_attempt_locked scope (ids scope) (l scope) (m scope) now)
      (\<lambda>_ d'. store_inv d' \<and> length (rate_limits d') + missing_rows ids (rate_limits d') ps \<le> 1024)
      (\<lambda>_. store_inv) d"
    unfolding count_attempt_locked_def p prod.case
  proof (intro wp_rules, goal_cases)
    case 1
    then show ?case
      using I ins by (auto simp: p missing_rows_Cons intro!: store_insert_rate intro: le_trans [rotated])
  next
    case (3 x)
    have "missing_rows ids (set_where (\<lambda>r. rl_scope r = scope \<and> identity_digest r = ids scope)
       (\<lambda>r. r\<lparr>rl_account := (case l scope of None \<Rightarrow> rl_account r | Some x \<Rightarrow> Some x),
          account_identity_digest := (case m scope of None \<Rightarrow> account_identity_digest r | Some x \<Rightarrow> Some x),
          attempt_count := attempt_count r + 1\<rparr>) (rate_limits d)) ps \<le> missing_rows ids (rate_limits d) ps"
      by (rule upd) (simp add: rate_key_def)
    with 3 I show ?case
      by (auto simp: p missing_rows_Cons store_update_rate)
  qed (use I in auto)
qed (use assms in auto)

lemma store_reserve_attempt [preserves_rules]:
  assumes window: "0 < max_window policies"
  shows "preserves store_inv (reserve_attempt_locked policies ids link now)"
proof -
  have purge: "preserves store_inv (forA policies (\<lambda>(scope, _, window).
      seqA (delete_rate_limits (\<lambda>r. rl_scope r = scope \<and> window_started_at r \<le> now - window)) (returnA ())))"
    by (intro preserves_rules)
  have bound: "store_inv d \<Longrightarrow> \<not> MAX_RATE_LIMIT_ROWS < length (rate_limits d)" for d
    by (simp add: store_inv_def limits_inv_def)
  show ?thesis
    unfolding reserve_attempt_locked_def
    by (rule preservesI, intro wp_rules wp_execute wp_preserves [OF purge] wp_mono [OF wp_count_attempts])
      (use window in \<open>auto dest: bound simp: auth_limits split: if_splits\<close>)
qed

lemma store_check_login_rate [preserves_rules]: "preserves store_inv (check_login_rate env email ip)"
  unfolding check_login_rate_def rate_result_def
  by (intro preserves_rules) (simp add: max_window_def RATE_POLICIES_def)

lemma store_check_passkey_login_rate [preserves_rules]:
  "preserves store_inv (check_passkey_login_rate env ip)"
  unfolding check_passkey_login_rate_def rate_result_def
  by (intro preserves_rules) (simp add: max_window_def PASSKEY_LOGIN_RATE_POLICIES_def)

lemma store_record_rates [preserves_rules]:
  "preserves store_inv (record_login_result env email ip success)"
  "preserves store_inv (record_passkey_login_result env ip success)"
  unfolding record_login_result_def record_passkey_login_result_def by (intro preserves_rules)+

section \<open>All operations\<close>

lemma store_helpers [preserves_rules]:
  "preserves store_inv (consume_totp_locked env row code now)"
  "preserves store_inv (store_recovery_codes_locked env i codes now)"
  "preserves store_inv (valid_session_row_locked digest now touch)"
  "preserves store_inv (clear_logins_locked i)"
  "preserves store_inv (revoke_pending_challenges_locked env i)"
  "preserves store_inv (revoke_account_authentication_locked env i)"
  "preserves store_inv (delete_expired_sessions_locked now)"
  unfolding consume_totp_locked_def store_recovery_codes_locked_def valid_session_row_locked_def
    clear_logins_locked_def revoke_account_authentication_locked_def revoke_pending_challenges_locked_def
    delete_expired_sessions_locked_def Let_def
  by (intro preserves_rules; simp add: to_required_def)+

lemma store_account_ops [preserves_rules]:
  "preserves store_inv (create_account env email r p)"
  "preserves store_inv (get_account email)"
  "preserves store_inv (resolve_account_id v)"
  "preserves store_inv list_accounts"
  "preserves store_inv (sync_accounts env emails r p)"
  "preserves store_inv (set_role env v r revoke)"
  "preserves store_inv (set_password_change_required env v r revoke)"
  "preserves store_inv (reset_totp env v)"
  "preserves store_inv (rotate_totp env v)"
  "preserves store_inv (regenerate_recovery_codes env v code)"
  "preserves store_inv (recovery_code_count v)"
  "preserves store_inv (verify_totp env v code)"
  "preserves store_inv (delete_account env v)"
  "preserves store_inv (provision_active_account env email r p)"
  unfolding create_account_def get_account_def resolve_account_id_def list_accounts_def
    sync_accounts_def sync_account_locked_def set_role_def set_password_change_required_def
    reset_totp_def rotate_totp_def regenerate_recovery_codes_def recovery_code_count_def
    verify_totp_def delete_account_def provision_active_account_def Let_def
  by (intro preserves_rules; simp add: to_required_def to_active_def)+

lemma store_bootstrap [preserves_rules]:
  "preserves store_inv (bootstrap_active_accounts env records)"
  "preserves store_inv (bootstrap_active_account env b)"
  unfolding bootstrap_active_account_def bootstrap_active_accounts_def bootstrap_account_locked_def
    upsert_active_account_def
  by (intro preserves_rules; simp add: to_active_def)+

lemma preserves_enrollment_state [preserves_rules]:
  "preserves I m1 \<Longrightarrow> preserves I m2 \<Longrightarrow> preserves I m3 \<Longrightarrow>
     preserves I (case st of REQUIRED \<Rightarrow> m1 | PENDING \<Rightarrow> m2 | ACTIVE \<Rightarrow> m3)"
  by (cases st) auto

lemma store_login_ops [preserves_rules]:
  "preserves store_inv (begin_totp_enrollment env tok)"
  "preserves store_inv (confirm_totp_enrollment env tok code ip ua)"
  "preserves store_inv (complete_totp_challenge env tok code ip ua)"
  "preserves store_inv (complete_recovery_challenge env tok code ip ua)"
  "preserves store_inv (authenticate_session env tok touch)"
  "preserves store_inv (mark_step_up env tok)"
  "preserves store_inv (require_step_up env tok)"
  "preserves store_inv (revoke_session env tok)"
  "preserves store_inv (list_sessions env v tok)"
  "preserves store_inv (revoke_session_by_id v sid)"
  "preserves store_inv (revoke_sessions env v)"
  unfolding begin_totp_enrollment_def confirm_totp_enrollment_def complete_totp_challenge_def
    complete_recovery_challenge_def second_factor_result_def authenticate_session_def
    mark_step_up_def require_step_up_def revoke_session_def list_sessions_def
    revoke_session_by_id_def revoke_sessions_def Let_def
  by (intro preserves_rules; simp)+

lemma preserves_ceremony [preserves_rules]: "preserves I (ceremony_result r)"
  unfolding ceremony_result_def by (cases r) (auto intro: preserves_rules)

lemma store_passkey_helpers [preserves_rules]:
  "preserves store_inv (passkey_challenge_row_locked digest now purp owner session)"
  "preserves store_inv (passkey_credential_row_locked cid i)"
  "preserves store_inv (passkey_credential_row_by_id_locked cid)"
  "preserves store_inv (verify_passkey_assertion_locked env cred challenge i rp origin now)"
  "preserves store_inv m \<Longrightarrow> preserves store_inv (try_passkey m)"
  unfolding passkey_challenge_row_locked_def passkey_credential_row_locked_def
    passkey_credential_row_by_id_locked_def verify_passkey_assertion_locked_def try_passkey_def Let_def
  by (intro preserves_rules; simp)+

lemma store_passkey_ops [preserves_rules]:
  "preserves store_inv (begin_passkey_registration env tok)"
  "preserves store_inv (list_passkeys env v)"
  "preserves store_inv (delete_passkey v pid)"
  "preserves store_inv (begin_passkey_login env)"
  "preserves store_inv (verify_passkey_login env tok cred)"
  "preserves store_inv (issue_verified_passkey_session env identity ip ua)"
  "preserves store_inv (complete_passkey_login env tok cred ip ua)"
  "preserves store_inv (begin_passkey_step_up env tok)"
  "preserves store_inv (complete_passkey_step_up env stok tok cred)"
  unfolding begin_passkey_registration_def list_passkeys_def delete_passkey_def begin_passkey_login_def
    verify_passkey_login_def issue_verified_passkey_session_def complete_passkey_login_def
    begin_passkey_step_up_def complete_passkey_step_up_def Let_def
  by (intro preserves_rules; simp)+

lemma preserves_list_case [preserves_rules]:
  "preserves I m \<Longrightarrow> (\<And>x xs. preserves I (f x xs)) \<Longrightarrow> preserves I (case v of [] \<Rightarrow> m | x # xs \<Rightarrow> f x xs)"
  by (cases v) auto

lemma store_mail_rule_ops [preserves_rules]:
  "preserves store_inv (list_mail_rules env v)"
  "preserves store_inv (get_mail_rule env v rid)"
  "preserves store_inv (create_mail_rule env v n e x t st)"
  "preserves store_inv (update_mail_rule env v rid rv n e x t st)"
  "preserves store_inv (delete_mail_rule v rid)"
  "preserves store_inv (reorder_mail_rules env v order)"
  "preserves store_inv (mailbox_rule_reference_count v mb)"
  "preserves store_inv (get_active_mail_rule_run env v)"
  "preserves store_inv (get_mail_rule_run env v run)"
  "preserves store_inv (update_mail_rule_run env v run st sv c1 c2 c3 c4 er)"
  "preserves store_inv (cancel_mail_rule_run env v run)"
  unfolding list_mail_rules_def get_mail_rule_def create_mail_rule_def update_mail_rule_def
    delete_mail_rule_def reorder_mail_rules_def mailbox_rule_reference_count_def
    get_active_mail_rule_run_def get_mail_rule_run_def update_mail_rule_run_def
    cancel_mail_rule_run_def compact_mail_rule_positions_locked_def shift_positions_locked_def Let_def
  by (intro preserves_rules; simp)+

lemma store_run_creators [preserves_rules]:
  "preserves store_inv (create_mail_rule_run env v rid snap st)"
  "preserves store_inv (create_mail_rule_with_run env v n e x t s st c)"
  unfolding create_mail_rule_run_def create_mail_rule_with_run_def
  by (rule preservesI, intro wp_rules wp_prune_runs wp_preserves [OF store_insert_rule_locked];
      simp add: new_run_def store_insert_run)+

lemma wp_ceremony: "(\<And>x. Q x d) \<Longrightarrow> (\<And>e. E e d) \<Longrightarrow> wp (ceremony_result r) Q E d"
  unfolding ceremony_result_def by (cases r) (auto intro: wp_rules)

lemma store_insert_credential_consume:
  "store_inv d \<Longrightarrow> passkey_credential_ok d (passkey_credentials d) p \<Longrightarrow>
   rowcount (\<lambda>q. pk_account q = pk_account p) (passkey_credentials d) < 10 \<Longrightarrow>
     store_inv (d\<lparr>passkey_credentials := passkey_credentials d @ [p],
       passkey_challenges := delete_rows P (passkey_challenges d)\<rparr>)"
  using store_delete_rows(4) [OF store_insert_credential, of d p P] by simp

lemma store_complete_registration [preserves_rules]:
  "preserves store_inv (complete_passkey_registration env stok tok cred name)"
  unfolding complete_passkey_registration_def store_passkey_locked_def try_passkey_def Let_def
    passkey_credential_row_locked_def
  by (rule preservesI, intro wp_rules wp_ceremony wp_preserves [OF store_helpers(3)]
      wp_preserves [OF store_passkey_helpers(1)] wp_preserves [OF store_record_passkey_failure];
      simp add: store_insert_credential_consume store_delete_rows auth_limits)

end
