(* ===== verification/Auth_Enrollment.thy ===== *)
theory Auth_Enrollment
  imports Auth_Limits
begin

text \<open>
  The life of a second factor. An account is \<open>REQUIRED\<close> (no factor), \<open>PENDING\<close> (a secret was shown
  to the holder of one login challenge) or \<open>ACTIVE\<close>. Besides the resource bounds, every operation
  keeps four facts: a pending enrollment is owned by a live challenge of the same account, so it
  can always be confirmed or released; an account holds a sealed secret exactly when it is not
  required, which the table's CHECK does not ensure for NULL columns; recovery codes exist only for
  active accounts; and no account ever has more than ten of them.
\<close>

section \<open>The invariant\<close>

definition owned :: "pending_challenge list \<Rightarrow> auth_account \<Rightarrow> bool" where
  "owned ps a \<longleftrightarrow> enrollment_state a = PENDING \<longrightarrow>
     (\<exists>c \<in> set ps. enrollment_challenge_digest a = Some (pc_digest c) \<and> pc_account c = account_id a)"

definition codeless :: "recovery_code list \<Rightarrow> auth_account \<Rightarrow> bool" where
  "codeless rs a \<longleftrightarrow> enrollment_state a \<noteq> ACTIVE \<longrightarrow> (\<forall>r \<in> set rs. rc_account r \<noteq> account_id a)"

definition sealed :: "auth_account \<Rightarrow> bool" where
  "sealed a \<longleftrightarrow> (if enrollment_state a = REQUIRED then totp_nonce a = None \<and> totp_ciphertext a = None
     else totp_nonce a \<noteq> None \<and> totp_ciphertext a \<noteq> None)"

definition enroll_core :: "auth_account list \<Rightarrow> pending_challenge list \<Rightarrow> recovery_code list \<Rightarrow> bool" where
  "enroll_core as ps rs \<longleftrightarrow> (\<forall>a \<in> set as. owned ps a) \<and> (\<forall>a \<in> set as. codeless rs a)
     \<and> (\<forall>a \<in> set as. sealed a) \<and> at_most RECOVERY_CODE_COUNT (\<lambda>r. Some (rc_account r)) rs"

definition enroll_inv :: "auth_db \<Rightarrow> bool" where
  "enroll_inv d \<longleftrightarrow> store_inv d \<and> enroll_core (accounts d) (pending_challenges d) (recovery_codes d)"

lemma enroll_inv_empty: "enroll_inv empty_db"
  by (simp add: enroll_inv_def store_inv_empty) (simp add: enroll_core_def empty_db_def)

lemma enroll_store: "enroll_inv d \<Longrightarrow> store_inv d"
  by (simp add: enroll_inv_def)

section \<open>Operations that leave accounts, challenges and codes alone\<close>

definition core :: "auth_db \<Rightarrow> auth_account list \<times> pending_challenge list \<times> recovery_code list" where
  "core d = (accounts d, pending_challenges d, recovery_codes d)"

lemma enroll_from_core:
  "preserves store_inv m \<Longrightarrow> (\<And>x. preserves (\<lambda>d. core d = x) m) \<Longrightarrow> preserves enroll_inv m"
proof (rule preservesI)
  fix d
  assume s: "preserves store_inv m" and c: "\<And>x. preserves (\<lambda>d. core d = x) m" and inv: "enroll_inv d"
  from preservesD_wp [OF s, of d] preservesD_wp [OF c [of "core d"], of d] inv
  have "wp m (\<lambda>_ d'. store_inv d' \<and> core d' = core d) (\<lambda>_ d'. store_inv d' \<and> core d' = core d) d"
    by (intro wp_conj) (simp_all add: enroll_store)
  then show "wp m (\<lambda>_. enroll_inv) (\<lambda>_. enroll_inv) d"
    by (rule wp_mono) (use inv in \<open>simp_all add: enroll_inv_def core_def\<close>)
qed

lemma core_statements [preserves_rules]:
  "preserves (\<lambda>d. core d = x) (delete_sessions P1)"
  "preserves (\<lambda>d. core d = x) (delete_mail_rules P2)"
  "preserves (\<lambda>d. core d = x) (delete_rate_limits P3)"
  "preserves (\<lambda>d. core d = x) (delete_passkey_credentials P4)"
  "preserves (\<lambda>d. core d = x) (delete_passkey_challenges P5)"
  "preserves (\<lambda>d. core d = x) (delete_mail_rule_runs P6)"
  "preserves (\<lambda>d. core d = x) (insert_session r1)"
  "preserves (\<lambda>d. core d = x) (insert_rate_limit r2)"
  "preserves (\<lambda>d. core d = x) (insert_passkey_credential r3)"
  "preserves (\<lambda>d. core d = x) (insert_passkey_challenge r4)"
  "preserves (\<lambda>d. core d = x) (insert_mail_rule r5)"
  "preserves (\<lambda>d. core d = x) (insert_mail_rule_run r6)"
  "preserves (\<lambda>d. core d = x) (update_sessions Q1 f1)"
  "preserves (\<lambda>d. core d = x) (update_rate_limits Q2 f2)"
  "preserves (\<lambda>d. core d = x) (update_passkey_credentials Q3 f3)"
  "preserves (\<lambda>d. core d = x) (update_passkey_challenges Q4 f4)"
  "preserves (\<lambda>d. core d = x) (update_mail_rules Q5 f5)"
  "preserves (\<lambda>d. core d = x) (update_mail_rule_runs Q6 f6)"
  by (rule preservesI, rule wp_rules; simp add: core_def drop_sessions_def drop_mail_rules_def)+

lemma core_evict_rate [preserves_rules]:
  "preserves (\<lambda>d. core d = x) (executeA (\<lambda>d. Inr ((), d\<lparr>rate_limits := f d\<rparr>)))"
  by (rule preservesI, rule wp_execute) (auto simp: core_def)

lemma core_fresh_passkey [preserves_rules]:
  "preserves I (draw_fresh n (bindA (random_bytes env TOKEN_BYTES)
     (\<lambda>b. returnA (b, passkey_challenge_digest env b))) taken)"
  by (rule preserves_fresh_passkey)

lemma core_helpers [preserves_rules]:
  "preserves (\<lambda>d. core d = x) (valid_session_row_locked digest now touch)"
  "preserves (\<lambda>d. core d = x) (issue_session_locked env a now ip ua)"
  "preserves (\<lambda>d. core d = x) (create_passkey_challenge_locked env purp i session now)"
  "preserves (\<lambda>d. core d = x) (passkey_challenge_row_locked digest now purp i session)"
  "preserves (\<lambda>d. core d = x) (record_passkey_challenge_failure_locked digest n)"
  "preserves (\<lambda>d. core d = x) (verify_passkey_assertion_locked env cred challenge j rp origin now)"
  "preserves (\<lambda>d. core d = x) (store_passkey_locked env j nm parsed verified now)"
  "preserves (\<lambda>d. core d = x) (reserve_attempt_locked policies ids link now)"
  "preserves (\<lambda>d. core d = x) (insert_rule_locked env j f now)"
  "preserves (\<lambda>d. core d = x) (prune_runs_locked j)"
  "preserves (\<lambda>d. core d = x) (compact_mail_rule_positions_locked j)"
  unfolding valid_session_row_locked_def issue_session_locked_def evict_sessions_locked_def
    delete_expired_sessions_locked_def create_passkey_challenge_locked_def
    delete_expired_passkey_challenges_locked_def evict_passkey_challenges_locked_def
    passkey_challenge_row_locked_def record_passkey_challenge_failure_locked_def
    verify_passkey_assertion_locked_def store_passkey_locked_def reserve_attempt_locked_def
    passkey_credential_row_locked_def count_attempt_locked_def insert_rule_locked_def
    prune_runs_locked_def compact_mail_rule_positions_locked_def shift_positions_locked_def Let_def
  by (intro preserves_rules)+

lemma preserves_try_passkey [preserves_rules]: "preserves I m \<Longrightarrow> preserves I (try_passkey m)"
  unfolding try_passkey_def by (intro preserves_rules)

lemma core_session_ops:
  "preserves (\<lambda>d. core d = y) (authenticate_session env tok touch)"
  "preserves (\<lambda>d. core d = y) (mark_step_up env tok)"
  "preserves (\<lambda>d. core d = y) (require_step_up env tok)"
  "preserves (\<lambda>d. core d = y) (revoke_session env tok)"
  "preserves (\<lambda>d. core d = y) (list_sessions env v stok)"
  "preserves (\<lambda>d. core d = y) (revoke_session_by_id v sid)"
  unfolding authenticate_session_def mark_step_up_def require_step_up_def revoke_session_def
        list_sessions_def revoke_session_by_id_def delete_expired_sessions_locked_def Let_def
  by (intro preserves_rules)+

lemma enroll_session_ops [preserves_rules]:
  "preserves enroll_inv (authenticate_session env tok touch)"
  "preserves enroll_inv (mark_step_up env tok)"
  "preserves enroll_inv (require_step_up env tok)"
  "preserves enroll_inv (revoke_session env tok)"
  "preserves enroll_inv (list_sessions env v stok)"
  "preserves enroll_inv (revoke_session_by_id v sid)"
  by (rule enroll_from_core, rule store_login_ops, rule core_session_ops)+

lemma core_passkey_ops:
  "preserves (\<lambda>d. core d = y) (begin_passkey_registration env tok)"
  "preserves (\<lambda>d. core d = y) (complete_passkey_registration env stok tok cred name)"
  "preserves (\<lambda>d. core d = y) (list_passkeys env v)"
  "preserves (\<lambda>d. core d = y) (delete_passkey v pid)"
  "preserves (\<lambda>d. core d = y) (begin_passkey_login env)"
  "preserves (\<lambda>d. core d = y) (verify_passkey_login env tok cred)"
  "preserves (\<lambda>d. core d = y) (issue_verified_passkey_session env identity ip ua)"
  "preserves (\<lambda>d. core d = y) (complete_passkey_login env tok cred ip ua)"
  "preserves (\<lambda>d. core d = y) (begin_passkey_step_up env tok)"
  "preserves (\<lambda>d. core d = y) (complete_passkey_step_up env stok tok cred)"
  unfolding begin_passkey_registration_def complete_passkey_registration_def list_passkeys_def
        delete_passkey_def begin_passkey_login_def verify_passkey_login_def complete_passkey_login_def
        issue_verified_passkey_session_def begin_passkey_step_up_def complete_passkey_step_up_def
        passkey_credential_row_locked_def passkey_credential_row_by_id_locked_def Let_def
  by (intro preserves_rules)+

lemma enroll_passkey_ops [preserves_rules]:
  "preserves enroll_inv (begin_passkey_registration env tok)"
  "preserves enroll_inv (complete_passkey_registration env stok tok cred name)"
  "preserves enroll_inv (list_passkeys env v)"
  "preserves enroll_inv (delete_passkey v pid)"
  "preserves enroll_inv (begin_passkey_login env)"
  "preserves enroll_inv (verify_passkey_login env tok cred)"
  "preserves enroll_inv (issue_verified_passkey_session env identity ip ua)"
  "preserves enroll_inv (complete_passkey_login env tok cred ip ua)"
  "preserves enroll_inv (begin_passkey_step_up env tok)"
  "preserves enroll_inv (complete_passkey_step_up env stok tok cred)"
  by (rule enroll_from_core, rule store_passkey_ops store_complete_registration, rule core_passkey_ops)+

lemma core_rate_ops:
  "preserves (\<lambda>d. core d = y) (check_login_rate env email ip)"
  "preserves (\<lambda>d. core d = y) (record_login_result env email ip success)"
  "preserves (\<lambda>d. core d = y) (check_passkey_login_rate env ip)"
  "preserves (\<lambda>d. core d = y) (record_passkey_login_result env ip success)"
  unfolding check_login_rate_def record_login_result_def check_passkey_login_rate_def
        record_passkey_login_result_def rate_result_def
  by (intro preserves_rules)+

lemma enroll_rate_ops [preserves_rules]:
  "preserves enroll_inv (check_login_rate env email ip)"
  "preserves enroll_inv (record_login_result env email ip success)"
  "preserves enroll_inv (check_passkey_login_rate env ip)"
  "preserves enroll_inv (record_passkey_login_result env ip success)"
  by (rule enroll_from_core, rule store_check_login_rate store_record_rates store_check_passkey_login_rate, rule core_rate_ops)+

lemma core_mail_rule_ops:
  "preserves (\<lambda>d. core d = y) (list_mail_rules env v)"
  "preserves (\<lambda>d. core d = y) (get_mail_rule env v rid)"
  "preserves (\<lambda>d. core d = y) (create_mail_rule env v n e x t st)"
  "preserves (\<lambda>d. core d = y) (create_mail_rule_with_run env v n e x t s st c)"
  "preserves (\<lambda>d. core d = y) (update_mail_rule env v rid rv n e x t st)"
  "preserves (\<lambda>d. core d = y) (delete_mail_rule v rid)"
  "preserves (\<lambda>d. core d = y) (reorder_mail_rules env v order)"
  "preserves (\<lambda>d. core d = y) (mailbox_rule_reference_count v mb)"
  "preserves (\<lambda>d. core d = y) (create_mail_rule_run env v rid snap st)"
  "preserves (\<lambda>d. core d = y) (get_active_mail_rule_run env v)"
  "preserves (\<lambda>d. core d = y) (get_mail_rule_run env v run)"
  "preserves (\<lambda>d. core d = y) (update_mail_rule_run env v run st sv c1 c2 c3 c4 er)"
  "preserves (\<lambda>d. core d = y) (cancel_mail_rule_run env v run)"
  unfolding list_mail_rules_def get_mail_rule_def create_mail_rule_def create_mail_rule_with_run_def
        update_mail_rule_def delete_mail_rule_def reorder_mail_rules_def
        mailbox_rule_reference_count_def create_mail_rule_run_def get_active_mail_rule_run_def
        get_mail_rule_run_def update_mail_rule_run_def cancel_mail_rule_run_def
        shift_positions_locked_def Let_def
  by (intro preserves_rules)+

lemma enroll_mail_rule_ops [preserves_rules]:
  "preserves enroll_inv (list_mail_rules env v)"
  "preserves enroll_inv (get_mail_rule env v rid)"
  "preserves enroll_inv (create_mail_rule env v n e x t st)"
  "preserves enroll_inv (create_mail_rule_with_run env v n e x t s st c)"
  "preserves enroll_inv (update_mail_rule env v rid rv n e x t st)"
  "preserves enroll_inv (delete_mail_rule v rid)"
  "preserves enroll_inv (reorder_mail_rules env v order)"
  "preserves enroll_inv (mailbox_rule_reference_count v mb)"
  "preserves enroll_inv (create_mail_rule_run env v rid snap st)"
  "preserves enroll_inv (get_active_mail_rule_run env v)"
  "preserves enroll_inv (get_mail_rule_run env v run)"
  "preserves enroll_inv (update_mail_rule_run env v run st sv c1 c2 c3 c4 er)"
  "preserves enroll_inv (cancel_mail_rule_run env v run)"
  by (rule enroll_from_core, rule store_mail_rule_ops store_run_creators, rule core_mail_rule_ops)+

section \<open>Statements on accounts, challenges and codes\<close>

lemma store_update_accounts_rows:
  "store_inv d \<Longrightarrow> (\<And>a. account_id (f a) = account_id a) \<Longrightarrow>
   update_rows account_ok P f (accounts d) = Inr (set_where P f (accounts d)) \<Longrightarrow>
     store_inv (d\<lparr>accounts := set_where P f (accounts d)\<rparr>)"
  by (auto simp: store_inv_def schema_inv_def limits_inv_def image_set_where
      dest: accounts_table.update_keeps)

text \<open>
  An UPDATE of accounts is harmless when each row it writes becomes active, keeps its state and
  its owner, or goes from pending to required, and the secret follows the state.
\<close>

definition safe_change :: "auth_account \<Rightarrow> auth_account \<Rightarrow> bool" where
  "safe_change a b \<longleftrightarrow> account_id b = account_id a
     \<and> (enrollment_state b = ACTIVE
        \<or> (enrollment_state b = enrollment_state a
           \<and> enrollment_challenge_digest b = enrollment_challenge_digest a)
        \<or> (enrollment_state a = PENDING \<and> enrollment_state b = REQUIRED))
     \<and> (sealed a \<longrightarrow> sealed b)"

lemma safe_change_core:
  "safe_change a b \<Longrightarrow> owned ps a \<Longrightarrow> owned ps b"
  "safe_change a b \<Longrightarrow> codeless rs a \<Longrightarrow> codeless rs b"
  "safe_change a b \<Longrightarrow> sealed a \<Longrightarrow> sealed b"
  by (auto simp: safe_change_def owned_def codeless_def)

lemma enroll_core_update:
  "enroll_core as ps rs \<Longrightarrow> (\<And>a. P a \<Longrightarrow> safe_change a (f a)) \<Longrightarrow> enroll_core (set_where P f as) ps rs"
  unfolding enroll_core_def
  by (auto simp: set_set_where intro: safe_change_core(1,2)) (blast intro: safe_change_core(3))

lemma enroll_update_accounts [preserves_rules]:
  assumes "\<And>a. account_id (f a) = account_id a" "\<And>a. P a \<Longrightarrow> safe_change a (f a)"
  shows "preserves enroll_inv (update_accounts P f)"
  by (rule preservesI, rule wp_rules)
    (simp_all add: enroll_inv_def store_update_accounts_rows enroll_core_update assms)

lemma enroll_delete_codes [preserves_rules]: "preserves enroll_inv (delete_recovery_codes P)"
  by (rule preservesI, rule wp_rules)
    (auto simp: enroll_inv_def store_delete_rows enroll_core_def codeless_def)

lemma enroll_core_update_pending:
  "enroll_core as ps rs \<Longrightarrow> (\<And>c. pc_account (f c) = pc_account c) \<Longrightarrow> (\<And>c. pc_digest (f c) = pc_digest c) \<Longrightarrow>
     enroll_core as (set_where P f ps) rs"
proof -
  assume e: "enroll_core as ps rs"
    and f: "\<And>c. pc_account (f c) = pc_account c" "\<And>c. pc_digest (f c) = pc_digest c"
  have "owned (set_where P f ps) a" if "owned ps a" for a
    unfolding owned_def
  proof
    assume "enrollment_state a = PENDING"
    with that obtain c where "c \<in> set ps" "enrollment_challenge_digest a = Some (pc_digest c)"
      "pc_account c = account_id a" by (auto simp: owned_def)
    then show "\<exists>c \<in> set (set_where P f ps). enrollment_challenge_digest a = Some (pc_digest c)
        \<and> pc_account c = account_id a"
      by (intro bexI [of _ "if P c then f c else c"]) (auto simp: f set_set_where)
  qed
  with e show ?thesis by (simp add: enroll_core_def)
qed

lemma enroll_update_pending [preserves_rules]:
  assumes "\<And>c. pc_account (f c) = pc_account c" "\<And>c. pc_digest (f c) = pc_digest c"
    "\<And>c. pc_failure_count (f c) < CHALLENGE_FAILURE_LIMIT"
  shows "preserves enroll_inv (update_pending_challenges P f)"
proof (rule preservesI, rule wp_rules)
  fix d
  assume inv: "enroll_inv d"
    and ok: "update_rows (pending_challenge_ok d) P f (pending_challenges d) =
      Inr (set_where P f (pending_challenges d))"
  from inv ok have "store_inv (d\<lparr>pending_challenges := set_where P f (pending_challenges d)\<rparr>)"
    using assms by (auto simp: enroll_inv_def store_inv_def schema_inv_def limits_inv_def
        at_most_set_where set_set_where dest: pending_table.update_keeps)
  with inv show "enroll_inv (d\<lparr>pending_challenges := set_where P f (pending_challenges d)\<rparr>)"
    by (simp add: enroll_inv_def enroll_core_update_pending assms)
qed simp

text \<open>Deleting challenges is safe for every account whose owner challenge stays.\<close>

lemma enroll_core_delete_pending:
  "enroll_core as ps rs \<Longrightarrow>
   (\<And>a c. a \<in> set as \<Longrightarrow> c \<in> set ps \<Longrightarrow> enrollment_state a = PENDING \<Longrightarrow>
      enrollment_challenge_digest a = Some (pc_digest c) \<Longrightarrow> pc_account c = account_id a \<Longrightarrow> \<not> P c) \<Longrightarrow>
     enroll_core as (delete_rows P ps) rs"
  unfolding enroll_core_def owned_def by simp blast

lemma set_whereE:
  "b \<in> set (set_where P f rows) \<Longrightarrow> (\<And>a. a \<in> set rows \<Longrightarrow> P a \<Longrightarrow> b = f a \<Longrightarrow> thesis) \<Longrightarrow>
     (b \<in> set rows \<Longrightarrow> \<not> P b \<Longrightarrow> thesis) \<Longrightarrow> thesis"
  by (auto simp: set_set_where split: if_splits)

lemma ball_set_where:
  "(\<forall>b \<in> set (set_where P f rows). Q b) \<longleftrightarrow> (\<forall>a \<in> set rows. if P a then Q (f a) else Q a)"
  by (auto simp: set_set_where)

text \<open>
  Releasing: the enrollments that the deleted challenges own go back to \<open>REQUIRED\<close> first.
\<close>

lemma to_required_simps [simp]:
  "account_id (to_required now a) = account_id a" "enrollment_state (to_required now a) = REQUIRED"
  "sealed (to_required now a)"
  by (simp_all add: to_required_def sealed_def)

lemma enroll_core_release:
  assumes core: "enroll_core as ps rs" and R: "\<And>a. R a \<Longrightarrow> enrollment_state a = PENDING"
    and D: "\<And>a c. a \<in> set as \<Longrightarrow> c \<in> set ps \<Longrightarrow> enrollment_state a = PENDING \<Longrightarrow>
      enrollment_challenge_digest a = Some (pc_digest c) \<Longrightarrow> pc_account c = account_id a \<Longrightarrow> D c \<Longrightarrow> R a"
  shows "enroll_core (set_where R (to_required now) as) (delete_rows D ps) rs"
proof -
  have "owned (delete_rows D ps) b" if "b \<in> set (set_where R (to_required now) as)" for b
    using that
  proof (rule set_whereE)
    assume b: "b \<in> set as" "\<not> R b"
    with core have "owned ps b" by (simp add: enroll_core_def)
    with b D show ?thesis by (fastforce simp: owned_def)
  qed (simp add: owned_def)
  moreover have "codeless rs b" if "b \<in> set (set_where R (to_required now) as)" for b
    using that
  proof (rule set_whereE)
    fix a
    assume a: "a \<in> set as" "R a" "b = to_required now a"
    with core R have "codeless rs a" "enrollment_state a = PENDING" by (simp_all add: enroll_core_def)
    with a show ?thesis by (simp add: codeless_def)
  qed (use core in \<open>simp add: enroll_core_def\<close>)
  moreover have "sealed b" if "b \<in> set (set_where R (to_required now) as)" for b
    using that by (rule set_whereE) (use core in \<open>simp_all add: enroll_core_def\<close>)
  ultimately show ?thesis using core by (simp add: enroll_core_def)
qed

lemma enroll_release:
  assumes inv: "enroll_inv d"
    and upd: "update_rows account_ok R (to_required now) (accounts d) = Inr (set_where R (to_required now) (accounts d))"
    and R: "\<And>a. R a \<Longrightarrow> enrollment_state a = PENDING"
    and D: "\<And>a c. a \<in> set (accounts d) \<Longrightarrow> c \<in> set (pending_challenges d) \<Longrightarrow> enrollment_state a = PENDING \<Longrightarrow>
      enrollment_challenge_digest a = Some (pc_digest c) \<Longrightarrow> pc_account c = account_id a \<Longrightarrow> D c \<Longrightarrow> R a"
  shows "enroll_inv (d\<lparr>accounts := set_where R (to_required now) (accounts d),
    pending_challenges := delete_rows D (pending_challenges d)\<rparr>)"
proof -
  have "store_inv (d\<lparr>accounts := set_where R (to_required now) (accounts d)\<rparr>)"
    using inv upd by (intro store_update_accounts_rows) (simp_all add: enroll_store)
  from store_delete_rows(2) [OF this, of D] show ?thesis
    using inv enroll_core_release [OF _ R D] by (simp add: enroll_inv_def)
qed

lemma enroll_record_failure [preserves_rules]:
  "preserves enroll_inv (record_challenge_failure_locked env digest n)"
proof (cases "CHALLENGE_FAILURE_LIMIT \<le> n + 1")
  case True
  show ?thesis
    unfolding record_challenge_failure_locked_def release_pending_enrollment_locked_def Let_def
    by (rule preservesI, simp only: True if_True, intro wp_rules) (auto intro!: enroll_release)
next
  case False
  then show ?thesis
    unfolding record_challenge_failure_locked_def Let_def
    by (simp add: preserves_rules)
qed

lemma enroll_delete_expired [preserves_rules]:
  "preserves enroll_inv (delete_expired_challenges_locked now)"
  unfolding delete_expired_challenges_locked_def
  by (rule preservesI, intro wp_rules) (auto intro!: enroll_release)

lemma enroll_outside_core:
  "enroll_inv d \<Longrightarrow> store_inv d' \<Longrightarrow> core d' = core d \<Longrightarrow> enroll_inv d'"
  by (simp add: enroll_inv_def core_def)

lemma enroll_delete_passkey_challenges:
  "enroll_inv d \<Longrightarrow> enroll_inv (d\<lparr>passkey_challenges := delete_rows P (passkey_challenges d)\<rparr>)"
  by (simp add: enroll_inv_def store_delete_rows)

lemma enroll_drop_sessions: "enroll_inv d \<Longrightarrow> enroll_inv (drop_sessions P d)"
  using store_drop_sessions [of d P] by (simp add: enroll_inv_def drop_sessions_def)

lemma enroll_revoke_pending [preserves_rules]:
  "preserves enroll_inv (revoke_pending_challenges_locked env i)"
  unfolding revoke_pending_challenges_locked_def
  by (rule preservesI, intro wp_rules) (auto intro!: enroll_release enroll_delete_passkey_challenges
      [of "_\<lparr>accounts := _, pending_challenges := _\<rparr>", simplified])

lemma enroll_session_statements [preserves_rules]:
  "preserves enroll_inv (delete_sessions P)"
  "preserves enroll_inv (delete_passkey_challenges P')"
  by (rule preservesI, rule wp_rules, simp add: enroll_drop_sessions enroll_delete_passkey_challenges)+

lemma enroll_revoke_authentication [preserves_rules]:
  "preserves enroll_inv (revoke_account_authentication_locked env i)"
  unfolding revoke_account_authentication_locked_def by (intro preserves_rules)

lemma enroll_issue_session [preserves_rules]:
  "preserves enroll_inv (issue_session_locked env a now ip ua)"
  by (rule enroll_from_core) (intro preserves_rules)+

section \<open>Replacing a second factor\<close>

text \<open>All rows of account \<open>i\<close> are in a state other than \<open>PENDING\<close>, or are \<open>ACTIVE\<close>.\<close>

definition settled :: "pystr \<Rightarrow> auth_db \<Rightarrow> bool" where
  "settled i d \<longleftrightarrow> (\<forall>a \<in> set (accounts d). account_id a = i \<longrightarrow> enrollment_state a \<noteq> PENDING)"

definition activated :: "pystr \<Rightarrow> auth_db \<Rightarrow> bool" where
  "activated i d \<longleftrightarrow> (\<forall>a \<in> set (accounts d). account_id a = i \<longrightarrow> enrollment_state a = ACTIVE)"

lemma activated_settled: "activated i d \<Longrightarrow> settled i d"
  by (auto simp: activated_def settled_def)

lemma enroll_delete_settled:
  assumes "enroll_inv d" "settled i d"
    and "\<And>c. c \<in> set (pending_challenges d) \<Longrightarrow> P c \<Longrightarrow> pc_account c = i"
  shows "enroll_inv (d\<lparr>pending_challenges := delete_rows P (pending_challenges d)\<rparr>)"
  using assms by (auto simp: enroll_inv_def settled_def store_delete_rows intro!: enroll_core_delete_pending)

lemma wp_clear_logins:
  assumes "enroll_inv d" "settled i d"
    and Q: "\<And>d'. enroll_inv d' \<Longrightarrow> accounts d' = accounts d \<Longrightarrow> recovery_codes d' = recovery_codes d \<Longrightarrow> Q () d'"
  shows "wp (clear_logins_locked i) Q E d"
  unfolding clear_logins_locked_def
  by (intro wp_rules Q enroll_drop_sessions enroll_delete_passkey_challenges
      enroll_delete_settled [where i = i])
    (use assms in \<open>simp_all add: drop_sessions_def\<close>)

lemma enroll_insert_code:
  assumes "enroll_inv d" "activated (rc_account r) d" "recovery_code_ok d (recovery_codes d) r"
    and "rowcount (\<lambda>q. rc_account q = rc_account r) (recovery_codes d) < 10"
  shows "enroll_inv (d\<lparr>recovery_codes := recovery_codes d @ [r]\<rparr>)"
  using assms
  by (auto simp: enroll_inv_def store_inv_def schema_inserts limits_inv_def enroll_core_def codeless_def
      activated_def auth_limits intro!: at_most_snoc)

lemma wp_store_codes:
  assumes inv: "enroll_inv d" "activated i d"
    and len: "rowcount (\<lambda>r. rc_account r = i) (recovery_codes d) + length codes \<le> 10"
    and Q: "\<And>d'. enroll_inv d' \<Longrightarrow> accounts d' = accounts d \<Longrightarrow> activated i d' \<Longrightarrow> Q () d'"
    and E: "\<And>e d'. E e d'"
  shows "wp (store_recovery_codes_locked env i codes now) Q E d"
  unfolding store_recovery_codes_locked_def
  by (rule wp_for [where I = "\<lambda>codes d'. enroll_inv d' \<and> accounts d' = accounts d
        \<and> rowcount (\<lambda>r. rc_account r = i) (recovery_codes d') + length codes \<le> 10"])
    (use inv len in \<open>auto intro!: wp_rules enroll_insert_code Q E simp: activated_def\<close>)

lemma rowcount_deleted: "rowcount P (delete_rows P rows) = 0"
  by (simp add: rowcount_def delete_rows_def)

text \<open>Old codes out, new codes in, open logins ended.\<close>

lemma wp_replace_codes:
  assumes "enroll_inv d" "activated i d" "length codes \<le> 10"
    and "\<And>d'. enroll_inv d' \<Longrightarrow> accounts d' = accounts d \<Longrightarrow> wp m Q E d'" and "\<And>e d'. E e d'"
  shows "wp (seqA (delete_recovery_codes (\<lambda>r. rc_account r = i))
    (seqA (store_recovery_codes_locked env i codes now) (seqA (clear_logins_locked i) m))) Q E d"
proof (intro wp_seq wp_rules, rule wp_store_codes)
  show "enroll_inv (d\<lparr>recovery_codes := delete_rows (\<lambda>r. rc_account r = i) (recovery_codes d)\<rparr>)"
    using assms(1) by (auto simp: enroll_inv_def store_delete_rows enroll_core_def codeless_def)
qed (use assms in \<open>auto simp: rowcount_deleted activated_def settled_def intro!: wp_clear_logins wp_seq\<close>)

lemma enroll_core_reset:
  assumes core: "enroll_core as ps rs"
  shows "enroll_core (set_where (\<lambda>a. account_id a = i) (to_required now) as) ps
    (delete_rows (\<lambda>r. rc_account r = i) rs)"
proof -
  have "owned ps b \<and> codeless (delete_rows (\<lambda>r. rc_account r = i) rs) b \<and> sealed b"
    if "b \<in> set (set_where (\<lambda>a. account_id a = i) (to_required now) as)" for b
    using that
  proof (rule set_whereE)
    assume "b \<in> set as"
    with core show ?thesis by (auto simp: enroll_core_def codeless_def)
  qed (simp add: owned_def codeless_def)
  with core show ?thesis by (simp add: enroll_core_def)
qed

lemma enroll_reset_rows:
  assumes inv: "enroll_inv d"
    and upd: "update_rows account_ok (\<lambda>a. account_id a = i) (to_required now) (accounts d) =
      Inr (set_where (\<lambda>a. account_id a = i) (to_required now) (accounts d))"
  shows "enroll_inv (d\<lparr>accounts := set_where (\<lambda>a. account_id a = i) (to_required now) (accounts d),
    recovery_codes := delete_rows (\<lambda>r. rc_account r = i) (recovery_codes d)\<rparr>)"
proof -
  have "store_inv (d\<lparr>accounts := set_where (\<lambda>a. account_id a = i) (to_required now) (accounts d)\<rparr>)"
    using inv upd by (intro store_update_accounts_rows) (simp_all add: enroll_store)
  from store_delete_rows(1) [OF this, of "\<lambda>r. rc_account r = i"] show ?thesis
    using inv by (simp add: enroll_inv_def enroll_core_reset)
qed

lemma settled_reset: "settled i (d\<lparr>accounts := set_where (\<lambda>a. account_id a = i) (to_required now) as, recovery_codes := rs\<rparr>)"
  by (simp add: settled_def ball_set_where)

lemma enroll_reset_totp [preserves_rules]: "preserves enroll_inv (reset_totp env v)"
  unfolding reset_totp_def
  by (rule preservesI, intro wp_rules wp_clear_logins) (simp_all add: enroll_reset_rows settled_reset)

lemma enroll_activate_rows:
  assumes inv: "enroll_inv d" and "\<And>a. account_id (f a) = account_id a"
    and "\<And>a. P a \<Longrightarrow> enrollment_state (f a) = ACTIVE" "\<And>a. P a \<Longrightarrow> sealed a \<Longrightarrow> sealed (f a)"
    and upd: "update_rows account_ok P f (accounts d) = Inr (set_where P f (accounts d))"
  shows "enroll_inv (d\<lparr>accounts := set_where P f (accounts d)\<rparr>)"
  using assms by (simp add: enroll_inv_def store_update_accounts_rows enroll_core_update safe_change_def)

lemma activated_rows:
  "(\<And>a. P a \<Longrightarrow> enrollment_state (f a) = ACTIVE) \<Longrightarrow>
   (\<And>a. a \<in> set as \<Longrightarrow> account_id a = i \<Longrightarrow> P a \<or> enrollment_state a = ACTIVE) \<Longrightarrow>
   (\<And>a. account_id (f a) = account_id a) \<Longrightarrow> activated i (d\<lparr>accounts := set_where P f as\<rparr>)"
  by (auto simp: activated_def ball_set_where)

lemma to_active_simps [simp]:
  "account_id (to_active nonce ciphertext now a) = account_id a"
  "enrollment_state (to_active nonce ciphertext now a) = ACTIVE"
  "sealed (to_active nonce ciphertext now a)"
  "sealed (to_active nonce ciphertext now a\<lparr>role := r, password_change_required := q\<rparr>)"
  by (simp_all add: to_active_def sealed_def)

lemma fresh_codes_length: "fresh_codes codes \<Longrightarrow> length codes = 10"
  by (auto simp: fresh_codes_def)

lemma enroll_rotate_totp [preserves_rules]: "preserves enroll_inv (rotate_totp env v)"
  unfolding rotate_totp_def
  by (rule preservesI, (rule wp_replace_codes | rule wp_rules
      | (simp add: enroll_activate_rows activated_rows fresh_codes_length; fail))+)

lemma wp_consume_totp:
  assumes inv: "enroll_inv d" and row: "row \<in> set (accounts d)"
    and Q: "\<And>x d'. enroll_inv d' \<Longrightarrow> activated (account_id row) d' \<Longrightarrow> Q x d'" and E: "\<And>e d'. E e d'"
  shows "wp (consume_totp_locked env row code now) Q E d"
proof -
  have active: "activated (account_id row) d" if "enrollment_state row = ACTIVE"
    using that row inv key_unique [of account_id "accounts d"]
    by (auto simp: activated_def enroll_inv_def store_inv_def dest!: schema_keys(1))
  then show ?thesis
    unfolding consume_totp_locked_def
    by (intro wp_rules Q E)
      (use inv in \<open>auto intro!: enroll_activate_rows activated_rows simp: sealed_def\<close>, auto simp: activated_def)
qed

lemma enroll_consume_totp [preserves_rules]:
  "preserves enroll_inv (consume_totp_locked env row code now)"
  unfolding consume_totp_locked_def
  by (intro preserves_rules) (auto simp: safe_change_def sealed_def)

lemma enroll_regenerate [preserves_rules]: "preserves enroll_inv (regenerate_recovery_codes env v code)"
  unfolding regenerate_recovery_codes_def
  by (rule preservesI, (rule wp_replace_codes wp_consume_totp | rule wp_rules
      | (simp add: fresh_codes_length; fail))+)

section \<open>New accounts\<close>

lemma no_codes_for_fresh:
  "enroll_inv d \<Longrightarrow> i \<notin> account_ids d \<Longrightarrow> rowcount (\<lambda>r. rc_account r = i) (recovery_codes d) = 0"
  using schema_account_exists(3) [of d]
  by (auto simp: enroll_inv_def store_inv_def rowcount_def filter_empty_conv)

lemma enroll_inserted_account:
  assumes "enroll_inv d" "account_ok (accounts d) a" "enrollment_state a \<noteq> PENDING" "sealed a"
  shows "enroll_inv (d\<lparr>accounts := accounts d @ [a]\<rparr>)"
proof -
  have "store_inv (d\<lparr>accounts := accounts d @ [a]\<rparr>)"
    using assms by (simp add: enroll_inv_def store_inv_def schema_insert_account limits_inv_def)
  moreover have "rc_account r \<noteq> account_id a" if "r \<in> set (recovery_codes d)" for r
    using schema_account_exists(3) [of d r] assms that
    by (auto simp: enroll_inv_def store_inv_def row_ok_def list_all_iff account_conflict_def)
  ultimately show ?thesis
    using assms by (auto simp: enroll_inv_def enroll_core_def owned_def codeless_def)
qed

lemma enroll_insert_account [preserves_rules]:
  "enrollment_state a \<noteq> PENDING \<Longrightarrow> sealed a \<Longrightarrow> preserves enroll_inv (insert_account a)"
  by (rule preservesI, rule wp_rules) (simp_all add: enroll_inserted_account)

lemma activated_inserted:
  "account_id a \<notin> account_ids d \<Longrightarrow> enrollment_state a = ACTIVE \<Longrightarrow>
     activated (account_id a) (d\<lparr>accounts := accounts d @ [a]\<rparr>)"
  by (auto simp: activated_def) (metis imageI)

lemma new_account_simps [simp]:
  "account_id (new_required_account i c r q now) = i"
  "enrollment_state (new_required_account i c r q now) = REQUIRED"
  "account_id (new_active_account i c r q nonce ciphertext created now) = i"
  "enrollment_state (new_active_account i c r q nonce ciphertext created now) = ACTIVE"
  "sealed (new_required_account i c r q now)"
  "sealed (new_active_account i c r q nonce ciphertext created now)"
  by (simp_all add: new_required_account_def new_active_account_def sealed_def)

lemma enroll_provision [preserves_rules]:
  "preserves enroll_inv (provision_active_account env email r q)"
  unfolding provision_active_account_def
  by (rule preservesI, (rule wp_store_codes | rule wp_rules
      | (simp add: fresh_codes_length enroll_inserted_account no_codes_for_fresh
           activated_inserted [of "new_active_account _ _ _ _ _ _ _ _", simplified]; fail))+)

lemma enroll_sync_account [preserves_rules]:
  "preserves enroll_inv (sync_account_locked env r q now c)"
  unfolding sync_account_locked_def by (intro preserves_rules) simp_all

lemma enroll_create_accounts [preserves_rules]:
  "preserves enroll_inv (create_account env email r q)"
  "preserves enroll_inv (sync_accounts env emails r q)"
  "preserves enroll_inv (get_account email)"
  "preserves enroll_inv (resolve_account_id v)"
  "preserves enroll_inv list_accounts"
  "preserves enroll_inv (recovery_code_count v)"
  "preserves enroll_inv (verify_totp env v code)"
  unfolding create_account_def sync_accounts_def get_account_def resolve_account_id_def
    list_accounts_def recovery_code_count_def verify_totp_def Let_def
  by (intro preserves_rules; simp)+

lemma enroll_account_settings [preserves_rules]:
  "preserves enroll_inv (set_role env v r revoke)"
  "preserves enroll_inv (set_password_change_required env v q revoke)"
  "preserves enroll_inv (revoke_sessions env v)"
  unfolding set_role_def set_password_change_required_def revoke_sessions_def
  by (intro preserves_rules; simp add: safe_change_def sealed_def)+

lemma enroll_drop_accounts: "enroll_inv d \<Longrightarrow> enroll_inv (drop_accounts P d)"
proof -
  assume inv: "enroll_inv d"
  let ?gone = "\<lambda>i. \<exists>a \<in> set (accounts d). P a \<and> account_id a = i"
  have keys: "distinct (map account_id (accounts d))"
    using inv by (simp add: enroll_inv_def store_inv_def schema_keys)
  have "store_inv (drop_accounts P d)"
    using inv by (simp add: enroll_inv_def store_inv_def schema_drop_accounts limits_drop_accounts)
  moreover have "owned (delete_rows (\<lambda>c. ?gone (pc_account c)) (pending_challenges d)) a"
    if a: "a \<in> set (accounts d)" "\<not> P a" for a
  proof -
    have "\<not> ?gone (account_id a)" using a key_unique [OF keys] by blast
    moreover have "owned (pending_challenges d) a" using inv a by (simp add: enroll_inv_def enroll_core_def)
    ultimately show ?thesis by (auto simp: owned_def)
  qed
  ultimately show ?thesis
    using inv by (auto simp: enroll_inv_def enroll_core_def codeless_def drop_accounts_def
        drop_sessions_def drop_mail_rules_def Let_def)
qed

lemma enroll_delete_account [preserves_rules]: "preserves enroll_inv (delete_account env v)"
proof -
  have "enroll_inv (drop_accounts P (d\<lparr>rate_limits := delete_rows Q (rate_limits d)\<rparr>))"
    if "enroll_inv d" for P Q d
    using that by (intro enroll_drop_accounts) (simp add: enroll_inv_def store_delete_rows)
  then show ?thesis
    unfolding delete_account_def Let_def by (intro preservesI wp_rules) auto
qed

lemma prepared_codes: "prepare_bootstrap env seen bs = Inr ps \<Longrightarrow>
    (canonical, r, secret_bytes, codes, required) \<in> set ps \<Longrightarrow> length codes = 10"
  by (induction bs arbitrary: seen ps)
    (fastforce simp: res_simps validate_recovery_code_set_def RECOVERY_CODE_COUNT_def
      dest: list_all2_lengthD split: if_splits)+

text \<open>The upsert leaves account \<open>i\<close> active: the row is new, or it is the one row with that email.\<close>

lemma wp_upsert:
  assumes inv: "enroll_inv d"
    and i: "case fetchone (\<lambda>a. canonical_email a = canonical) (accounts d) of
      None \<Rightarrow> i \<notin> account_ids d | Some a \<Rightarrow> account_id a = i"
    and Q: "\<And>d'. enroll_inv d' \<Longrightarrow> activated i d' \<Longrightarrow> Q () d'" and E: "\<And>e d'. E e d'"
  shows "wp (upsert_active_account i canonical r required nonce ciphertext created now) Q E d"
proof (cases "fetchone (\<lambda>a. canonical_email a = canonical) (accounts d)")
  case None
  with i show ?thesis
    unfolding upsert_active_account_def
    by (intro wp_rules Q E) (use inv None in \<open>simp_all add: enroll_inserted_account
      activated_inserted [of "new_active_account _ _ _ _ _ _ _ _", simplified]\<close>)
next
  case (Some a)
  then have a: "a \<in> set (accounts d)" "canonical_email a = canonical" "account_id a = i"
    using i by (auto dest: fetchone_Some)
  have "canonical_email b = canonical" if "b \<in> set (accounts d)" "account_id b = i" for b
    using inv key_unique [of account_id "accounts d" a b] a that
    by (simp add: enroll_inv_def store_inv_def schema_keys)
  with Some show ?thesis
    unfolding upsert_active_account_def
    by (intro wp_rules Q E) (use inv in \<open>simp_all add: enroll_activate_rows activated_rows\<close>)
qed

lemma enroll_bootstrap_account:
  assumes "enroll_inv d" "length codes \<le> 10" and E: "\<And>e d'. E e d'"
  shows "wp (bootstrap_account_locked env now (canonical, r, secret_bytes, codes, required))
    (\<lambda>_. enroll_inv) E d"
  unfolding bootstrap_account_locked_def prod.case
  by (rule wp_replace_codes wp_upsert | rule wp_rules
      | (use assms in \<open>simp; fail\<close>))+

lemma enroll_bootstrap [preserves_rules]:
  "preserves enroll_inv (bootstrap_active_accounts env records)"
  unfolding bootstrap_active_accounts_def
  by (intro preservesI wp_rules wp_mapA_inv [where I = enroll_inv])
    (auto dest: prepared_codes intro!: enroll_bootstrap_account)

lemma enroll_bootstrap_one [preserves_rules]:
  "preserves enroll_inv (bootstrap_active_account env b)"
  unfolding bootstrap_active_account_def by (intro preserves_rules)

section \<open>Challenges and the login operations\<close>

lemma enroll_evicted:
  assumes inv: "enroll_inv d" "store_inv d'" and same: "accounts d' = accounts d" "recovery_codes d' = recovery_codes d"
    and gone: "\<And>c. c \<in> set (pending_challenges d) \<Longrightarrow> c \<notin> set (pending_challenges d') \<Longrightarrow> evictable_challenge d i c"
  shows "enroll_inv d'"
proof -
  have "owned (pending_challenges d') a" if a: "a \<in> set (accounts d)" for a
    unfolding owned_def
  proof
    assume pend: "enrollment_state a = PENDING"
    with inv a obtain c where c: "c \<in> set (pending_challenges d)"
      "enrollment_challenge_digest a = Some (pc_digest c)" "pc_account c = account_id a"
      by (auto simp: enroll_inv_def enroll_core_def owned_def)
    with gone [OF c(1)] a pend show "\<exists>c \<in> set (pending_challenges d'). enrollment_challenge_digest a = Some (pc_digest c)
        \<and> pc_account c = account_id a"
      by (auto simp: evictable_challenge_def)
  qed
  with inv same show ?thesis by (simp add: enroll_inv_def enroll_core_def)
qed

lemma enroll_insert_pending:
  assumes "enroll_inv d" "pending_challenge_ok d (pending_challenges d) c" "pc_failure_count c < 5"
    and "rowcount (\<lambda>q. pc_account q = pc_account c) (pending_challenges d) < 5"
  shows "enroll_inv (d\<lparr>pending_challenges := pending_challenges d @ [c]\<rparr>)"
  using assms by (auto simp: enroll_inv_def store_insert_pending enroll_core_def owned_def)

lemma wp_evict_enroll:
  assumes "enroll_inv d"
    and "\<And>d'. enroll_inv d' \<Longrightarrow> rowcount (\<lambda>c. pc_account c = i) (pending_challenges d') < 5 \<Longrightarrow> Q () d'"
  shows "wp (evict_challenges_locked i) Q E d"
proof (rule wp_evict_challenges [OF enroll_store [OF assms(1)]], rule assms(2))
  fix d'
  assume "store_inv d'" "accounts d' = accounts d" "recovery_codes d' = recovery_codes d"
    "\<And>c. c \<in> set (pending_challenges d) \<Longrightarrow> c \<notin> set (pending_challenges d') \<Longrightarrow> evictable_challenge d i c"
  with assms(1) show "enroll_inv d'" by (rule enroll_evicted)
qed

lemma enroll_create_pending [preserves_rules]:
  "preserves enroll_inv (create_pending_challenge env email)"
  unfolding create_pending_challenge_def
  by (rule preservesI, intro wp_rules wp_evict_enroll wp_preserves [OF enroll_delete_expired])
    (simp_all add: enroll_insert_pending)

text \<open>\<open>begin_totp_enrollment\<close>: the new pending enrollment is owned by the challenge of the call.\<close>

lemma enroll_begin_rows:
  assumes inv: "enroll_inv d" and c: "c \<in> set (pending_challenges d)" "pc_account c = i"
    and f: "\<And>a. account_id (f a) = account_id a" "\<And>a. enrollment_challenge_digest (f a) = Some (pc_digest c)"
      "\<And>a. enrollment_state (f a) = PENDING" "\<And>a. sealed (f a)"
    and upd: "update_rows account_ok (\<lambda>a. account_id a = i \<and> enrollment_state a = REQUIRED) f (accounts d) =
      Inr (set_where (\<lambda>a. account_id a = i \<and> enrollment_state a = REQUIRED) f (accounts d))"
  shows "enroll_inv (d\<lparr>accounts := set_where (\<lambda>a. account_id a = i \<and> enrollment_state a = REQUIRED) f (accounts d)\<rparr>)"
proof -
  let ?P = "\<lambda>a. account_id a = i \<and> enrollment_state a = REQUIRED"
  have "owned (pending_challenges d) b \<and> codeless (recovery_codes d) b \<and> sealed b"
    if "b \<in> set (set_where ?P f (accounts d))" for b
    using that
  proof (rule set_whereE)
    fix a
    assume a: "a \<in> set (accounts d)" "?P a" "b = f a"
    with inv have "codeless (recovery_codes d) a" by (simp add: enroll_inv_def enroll_core_def)
    with a f c show ?thesis by (auto simp: owned_def codeless_def)
  qed (use inv in \<open>simp add: enroll_inv_def enroll_core_def\<close>)
  then show ?thesis
    using inv f upd by (simp add: enroll_inv_def enroll_core_def store_update_accounts_rows)
qed

lemma wp_enrollment_state [wp_rules]:
  "(st = REQUIRED \<Longrightarrow> wp m1 Q E d) \<Longrightarrow> (st = PENDING \<Longrightarrow> wp m2 Q E d) \<Longrightarrow> (st = ACTIVE \<Longrightarrow> wp m3 Q E d) \<Longrightarrow>
     wp (case st of REQUIRED \<Rightarrow> m1 | PENDING \<Rightarrow> m2 | ACTIVE \<Rightarrow> m3) Q E d"
  by (cases st) auto

lemma enroll_begin_totp [preserves_rules]: "preserves enroll_inv (begin_totp_enrollment env tok)"
  unfolding begin_totp_enrollment_def Let_def
  by (rule preservesI, intro wp_rules wp_preserves [OF enroll_delete_codes]
      wp_preserves [OF enroll_session_statements(1)] wp_preserves [OF enroll_session_statements(2)])
    (auto intro!: enroll_begin_rows simp: sealed_def)

text \<open>
  \<open>confirm_totp_enrollment\<close>: the account was pending, so it had no recovery codes; the ten new
  ones fit, and no open challenge of the account owns an enrollment any more.
\<close>

lemma enroll_unique:
  "enroll_inv d \<Longrightarrow> a \<in> set (accounts d) \<Longrightarrow> b \<in> set (accounts d) \<Longrightarrow> account_id a = account_id b \<Longrightarrow> a = b"
  using key_unique [of account_id "accounts d"] by (simp add: enroll_inv_def store_inv_def schema_keys)

lemma no_codes_while_pending:
  "a \<in> set (accounts d) \<Longrightarrow> account_id a = i \<Longrightarrow> enroll_inv d \<Longrightarrow> enrollment_state a = PENDING \<Longrightarrow>
     rowcount (\<lambda>r. rc_account r = i) (recovery_codes d) = 0"
  by (auto simp: enroll_inv_def enroll_core_def codeless_def rowcount_def filter_empty_conv)

lemma activated_confirmed:
  "a \<in> set (accounts d) \<Longrightarrow> account_id a = i \<Longrightarrow> enroll_inv d \<Longrightarrow> P a \<Longrightarrow> (\<And>b. account_id (f b) = account_id b) \<Longrightarrow>
   (\<And>b. P b \<Longrightarrow> enrollment_state (f b) = ACTIVE) \<Longrightarrow>
     activated i (d\<lparr>accounts := set_where P f (accounts d)\<rparr>)"
  by (rule activated_rows) (auto dest: enroll_unique)

lemma wp_delete_settled:
  assumes "enroll_inv d" "settled i d"
    and "\<And>c. c \<in> set (pending_challenges d) \<Longrightarrow> P c \<Longrightarrow> pc_account c = i" "\<And>n d'. enroll_inv d' \<Longrightarrow> Q n d'"
  shows "wp (delete_pending_challenges P) Q E d"
  by (rule wp_rules, rule assms(4), rule enroll_delete_settled) (use assms in auto)

lemma settled_active: "enroll_inv d \<Longrightarrow> a \<in> set (accounts d) \<Longrightarrow> enrollment_state a = ACTIVE \<Longrightarrow> settled (account_id a) d"
  unfolding settled_def by (metis enroll_unique EnrollmentState.distinct(5))

lemma enroll_confirm_totp [preserves_rules]:
  "preserves enroll_inv (confirm_totp_enrollment env tok code ip ua)"
  unfolding confirm_totp_enrollment_def second_factor_result_def Let_def
  by (rule preservesI, (rule wp_store_codes wp_delete_settled wp_preserves [OF enroll_record_failure]
       wp_preserves [OF enroll_issue_session] | rule wp_rules
      | rule activated_settled | (erule Pair_inject, hypsubst, rule activated_confirmed, assumption, rule refl)
      | rule enroll_activate_rows
      | (simp add: fresh_codes_length sealed_def no_codes_while_pending split: option.splits; fail))+)

lemma challenge_unique:
  "enroll_inv d \<Longrightarrow> c \<in> set (pending_challenges d) \<Longrightarrow> c' \<in> set (pending_challenges d) \<Longrightarrow>
     pc_digest c = pc_digest c' \<Longrightarrow> c = c'"
  using key_unique [of pc_digest "pending_challenges d"] by (simp add: enroll_inv_def store_inv_def schema_keys)

lemma enroll_complete_totp [preserves_rules]:
  "preserves enroll_inv (complete_totp_challenge env tok code ip ua)"
  unfolding complete_totp_challenge_def second_factor_result_def Let_def
  by (rule preservesI, (rule wp_delete_settled wp_preserves [OF enroll_record_failure]
       wp_preserves [OF enroll_issue_session] | rule wp_rules
      | rule activated_settled | (erule Pair_inject, hypsubst, rule activated_confirmed, assumption, rule refl)
      | rule enroll_activate_rows
      | (simp add: sealed_def; fail)
      | (clarsimp, metis challenge_unique))+)

lemma wp_delete_codes:
  assumes "enroll_inv d" "\<And>n d'. enroll_inv d' \<Longrightarrow> accounts d' = accounts d \<Longrightarrow> Q n d'"
  shows "wp (delete_recovery_codes P) Q E d"
  by (rule wp_rules, rule assms(2))
    (use assms(1) in \<open>auto simp: enroll_inv_def store_delete_rows enroll_core_def codeless_def\<close>)

lemma enroll_complete_recovery [preserves_rules]:
  "preserves enroll_inv (complete_recovery_challenge env tok code ip ua)"
  unfolding complete_recovery_challenge_def second_factor_result_def Let_def
  by (rule preservesI, (rule wp_delete_settled wp_delete_codes wp_preserves [OF enroll_record_failure]
       wp_preserves [OF enroll_issue_session]
       wp_preserves [OF enroll_session_statements(1)] wp_preserves [OF enroll_session_statements(2)]
      | rule wp_rules | rule settled_active | (simp; fail))+)

end
