(* ===== verification/Auth_Sample.thy ===== *)
theory Auth_Sample
  imports Auth_Fresh Auth_Accounts Auth_Rate Mail_Rule_Store
begin

text \<open>
  A concrete environment for the examples that instantiate the theorems: a clock that stands
  still, a counter as the source of random bytes, the last 32 bytes of the message in place of
  HMAC-SHA256, a 20-byte stand-in for HMAC-SHA1, and an encryption whose ciphertext is the plaintext.
  It is not part of the model.
\<close>

definition sample_random :: "nat \<Rightarrow> nat \<Rightarrow> pyval" where
  "sample_random k n = PyBytes (replicate (n - 1) 7 @ [word_of_nat k])"

definition sample_hmac :: "bytes \<Rightarrow> bytes \<Rightarrow> bytes" where
  "sample_hmac key m = take 32 (rev m @ replicate 32 0)"

definition sample_env :: auth_env where
  "sample_env = \<lparr>
     hmac_sha256 = sample_hmac,
     hmac_sha1 = (\<lambda>key m. replicate 19 0 @ [last m]),
     aesgcm_encrypt = (\<lambda>key nonce plain aad. plain),
     aesgcm_decrypt = (\<lambda>key nonce ciphertext aad. Some ciphertext),
     ip_address = (\<lambda>s. Some s),
     upper_nonascii = (\<lambda>c. [c]),
     isalnum_nonascii = (\<lambda>c. False),
     clock = (\<lambda>k. ClockInt 90),
     random_source = sample_random,
     master_key = replicate 32 1,
     issuer = lit ''MaddyWeb'',
     webauthn_rp_id = None,
     webauthn_origin = None,
     parse_registration_credential_json = (\<lambda>v. Inl ValueError),
     parse_authentication_credential_json = (\<lambda>v. Inl ValueError),
     verify_registration = (\<lambda>r c i or. Inl ValueError),
     verify_authentication = (\<lambda>r c i or k n. Inl ValueError),
     registration_options = (\<lambda>a b c d e f. Inl ValueError),
     authentication_options = (\<lambda>a b c. Inl ValueError),
     json_dumps = (\<lambda>v. Inr (lit ''{}'')),
     json_dumps_ascii = (\<lambda>v. Inr (lit ''{}'')),
     json_loads = (\<lambda>s. Inr (PyDict []))\<rparr>"

lemma sample_env_simps [simp]:
  "hmac_sha256 sample_env = sample_hmac"
  "hmac_sha1 sample_env = (\<lambda>key m. replicate 19 0 @ [last m])"
  "aesgcm_encrypt sample_env = (\<lambda>key nonce plain aad. plain)"
  "aesgcm_decrypt sample_env = (\<lambda>key nonce ciphertext aad. Some ciphertext)"
  "clock sample_env = (\<lambda>k. ClockInt 90)"
  "random_source sample_env = sample_random"
  "master_key sample_env = replicate 32 1"
  "ip_address sample_env = Some"
  "json_dumps sample_env = (\<lambda>v. Inr (lit ''{}''))"
  "json_loads sample_env = (\<lambda>s. Inr (PyDict []))"
  by (simp_all add: sample_env_def)

section \<open>Evaluation\<close>

lemmas act_eval = bindA_def seqA_def returnA_def raiseA_def liftE_def selectA_def executeA_def
  transaction_def now_act_def now_locked_def random_bytes_def draw_bytes_def require_open_def

lemmas statement_eval = insert_account_def insert_recovery_code_def insert_pending_challenge_def
  insert_session_def insert_rate_limit_def insert_mail_rule_def
  insert_mail_rule_run_def delete_recovery_codes_def delete_pending_challenges_def
  delete_sessions_def delete_passkey_challenges_def delete_rate_limits_def delete_mail_rules_def
  update_accounts_def update_pending_challenges_def update_sessions_def update_rate_limits_def
  update_mail_rules_def update_mail_rule_runs_def insert_row_def update_rows_def delete_rows_def
  rowcount_def drop_sessions_def drop_mail_rules_def row_ok_def

lemmas lookup_eval = account_row_by_email_locked_def account_row_by_id_locked_def fetchone_def
  require_account_by_id_locked_def challenge_row_locked_def required_row_def draw_fresh.simps

section \<open>A sample account\<close>

definition sample_email :: pyval where "sample_email = PyStr (lit ''a@b.cd'')"

lemma sample_canonical: "canonicalize_email sample_email = Inr (lit ''a@b.cd'')"
  by (simp add: sample_email_def canonicalize_email_def canonicalize_text_def text_eval identity_eval)

definition sample_id :: pystr where "sample_id = hex (replicate 15 7 @ [0])"

definition sample_new :: auth_account where
  "sample_new = new_required_account sample_id (lit ''a@b.cd'') USER False 90"

definition sample_token :: pystr where
  "sample_token = encode_opaque_token (replicate 31 7 @ [1])"

definition sample_digest :: bytes where
  "sample_digest = opaque_digest sample_env (challenge_digest_key sample_env) (PyStr sample_token)"

definition sample_challenge :: pending_challenge where
  "sample_challenge = \<lparr>pc_digest = sample_digest, pc_account = sample_id, pc_created_at = 90,
     pc_expires_at = 90 + CHALLENGE_LIFETIME_SECONDS, pc_failure_count = 0\<rparr>"

lemma sample_id_hex: "hex_identifier sample_id"
  unfolding sample_id_def by (rule hex_identifier_hex) simp

lemma sample_lengths [simp]: "length sample_id = 32" "length sample_digest = 32"
  using sample_id_hex by (simp_all add: hex_identifier_def sample_digest_def opaque_digest_def sample_hmac_def)

lemma sample_new_simps [simp]:
  "account_check sample_new" "account_id sample_new = sample_id"
  "canonical_email sample_new = lit ''a@b.cd''" "enrollment_state sample_new = REQUIRED"
  by (simp_all add: sample_new_def account_check_def not_false_length new_required_account_def)

text \<open>The stores after creating the account, and after opening a login challenge for it.\<close>

definition created_store :: "auth_db store" where
  "created_store = \<lparr>db = empty_db\<lparr>accounts := [sample_new]\<rparr>, draws = 1, readings = 1, closed = False\<rparr>"

definition challenged_store :: "auth_db store" where
  "challenged_store = \<lparr>db = empty_db\<lparr>accounts := [sample_new], pending_challenges := [sample_challenge]\<rparr>,
     draws = 2, readings = 2, closed = False\<rparr>"

lemma draw_fresh_8: "draw_fresh 8 gen taken = bindA gen (\<lambda>x. bindA (selectA (\<lambda>d. taken d x)) (\<lambda>exists.
    if exists then draw_fresh 7 gen taken else returnA x))"
  using draw_fresh.simps(2) [of 7] by simp

lemma sample_new_id:
  "draws s = 0 \<Longrightarrow> accounts (db s) = [] \<Longrightarrow>
     new_account_id_locked sample_env s = (Inr sample_id, s\<lparr>draws := 1\<rparr>)"
  unfolding new_account_id_locked_def draw_fresh_8 random_hex_def
  by (simp add: act_eval sample_random_def auth_limits sample_id_def fetchone_def)

lemma sample_new_token:
  "draws s = 1 \<Longrightarrow> pending_challenges (db s) = [] \<Longrightarrow>
     new_unique_token_locked sample_env (challenge_digest_key sample_env) challenge_taken s =
       (Inr (sample_token, sample_digest), s\<lparr>draws := 2\<rparr>)"
  unfolding new_unique_token_locked_def draw_fresh_8 Let_def
  by (simp add: act_eval sample_random_def auth_limits sample_token_def sample_digest_def
      challenge_taken_def fetchone_def)

lemma sample_created:
  "create_account sample_env sample_email (PyStr (lit ''user'')) (PyBool False)
     \<lparr>db = empty_db, draws = 0, readings = 0, closed = False\<rparr> = (Inr (account_from_row sample_new), created_store)"
  by (simp add: create_account_def act_eval statement_eval lookup_eval sample_canonical empty_db_def
      coerce_role_def coerce_bool_def sample_new_id created_store_def flip: sample_new_def)

lemma sample_challenged:
  "create_pending_challenge sample_env sample_email created_store = (Inr sample_token, challenged_store)"
  by (simp add: create_pending_challenge_def act_eval statement_eval lookup_eval sample_canonical
      empty_db_def created_store_def challenged_store_def delete_expired_challenges_locked_def
      evict_challenges_locked_def sample_new_token sample_challenge_def pending_challenge_check_def
      auth_limits)

text \<open>The store after the holder of the challenge has begun to enroll.\<close>

definition sample_pending :: auth_account where
  "sample_pending = sample_new\<lparr>enrollment_state := PENDING, totp_nonce := Some (replicate 11 7 @ [3]),
     totp_ciphertext := Some (replicate 19 7 @ [2]), enrollment_challenge_digest := Some sample_digest\<rparr>"

definition enrolling_store :: "auth_db store" where
  "enrolling_store = \<lparr>db = empty_db\<lparr>accounts := [sample_pending], pending_challenges := [sample_challenge]\<rparr>,
     draws = 4, readings = 3, closed = False\<rparr>"

lemma sample_enrolling:
  "snd (begin_totp_enrollment sample_env (PyStr sample_token) challenged_store) = enrolling_store"
  by (simp add: begin_totp_enrollment_def act_eval statement_eval lookup_eval empty_db_def
      challenged_store_def enrolling_store_def sample_pending_def sample_challenge_def auth_limits
      encrypt_totp_def sample_random_def account_check_def not_false_length Let_def flip: sample_digest_def)
    (simp add: sample_new_def new_required_account_def)

text \<open>
  A store with an active account, a login challenge, an open session and one recovery code; the
  secret is twenty bytes 7. Its one-time password at every counter up to 15 is 000000.
\<close>

definition sample_active :: auth_account where
  "sample_active = sample_new\<lparr>enrollment_state := ACTIVE, totp_nonce := Some (replicate 12 7),
     totp_ciphertext := Some (replicate 20 7)\<rparr>"

definition sample_session_token :: pystr where
  "sample_session_token = encode_opaque_token (replicate 31 7 @ [9])"

definition sample_session :: auth_session where
  "sample_session = \<lparr>session_digest = opaque_digest sample_env (session_digest_key sample_env) (PyStr sample_session_token),
     s_account = sample_id, s_created_at = 60, last_seen_at = 60,
     absolute_expires_at = 60 + SESSION_ABSOLUTE_SECONDS, step_up_until = 0,
     session_id = hex (replicate 16 8), client_ip = None, user_agent = None\<rparr>"

definition sample_code :: recovery_code where
  "sample_code = \<lparr>rc_account = sample_id,
     code_digest = recovery_digest sample_env sample_id (hex (replicate 16 5)), rc_created_at = 60\<rparr>"

definition active_store :: "auth_db store" where
  "active_store = \<lparr>db = empty_db\<lparr>accounts := [sample_active], recovery_codes := [sample_code],
     pending_challenges := [sample_challenge], sessions := [sample_session]\<rparr>,
     draws = 20, readings = 3, closed = False\<rparr>"

lemma length_digests [simp]:
  "length (opaque_digest sample_env key v) = 32" "length (recovery_digest sample_env i c) = 32"
  by (simp_all add: opaque_digest_def recovery_digest_def sample_hmac_def)

lemma sample_active_simps [simp]:
  "account_id sample_active = sample_id" "enrollment_state sample_active = ACTIVE"
  "totp_last_counter sample_active = - 1" "account_check sample_active"
  "totp_nonce sample_active = Some (replicate 12 7)" "totp_ciphertext sample_active = Some (replicate 20 7)"
  "enrollment_challenge_digest sample_active = None"
  "decrypt_totp sample_env sample_active = Inr (replicate 20 7)"
  by (simp_all add: sample_active_def sample_new_def new_required_account_def account_check_def not_false_length
      decrypt_totp_def auth_limits)

end
