(* ===== verification/Auth_Reachable.thy ===== *)
theory Auth_Reachable
  imports Auth_Enrollment Auth_Sample
begin

text \<open>
  The store as a state machine: from an empty database, any sequence of calls of the public
  methods of \<open>AuthStore\<close>, with any arguments, any clock and any source of random bytes. What
  \<open>Auth_Limits\<close> and \<open>Auth_Enrollment\<close> show of one operation then holds of every reachable
  state.
\<close>

type_synonym auth_store = "auth_db store"

definition opened :: "nat \<Rightarrow> nat \<Rightarrow> auth_store" where
  "opened k n = \<lparr>db = empty_db, draws = k, readings = n, closed = False\<rparr>"

text \<open>One call of a public method. Its result is whatever it returns or raises.\<close>

inductive auth_step :: "auth_env \<Rightarrow> auth_store \<Rightarrow> auth_store \<Rightarrow> bool" for env where
  "auth_step env s (snd (authenticate_session env tok touch s))"
| "auth_step env s (snd (mark_step_up env tok s))"
| "auth_step env s (snd (require_step_up env tok s))"
| "auth_step env s (snd (revoke_session env tok s))"
| "auth_step env s (snd (list_sessions env v stok s))"
| "auth_step env s (snd (revoke_session_by_id v sid s))"
| "auth_step env s (snd (begin_passkey_registration env tok s))"
| "auth_step env s (snd (complete_passkey_registration env stok tok cred name s))"
| "auth_step env s (snd (list_passkeys env v s))"
| "auth_step env s (snd (delete_passkey v pid s))"
| "auth_step env s (snd (begin_passkey_login env s))"
| "auth_step env s (snd (verify_passkey_login env tok cred s))"
| "auth_step env s (snd (issue_verified_passkey_session env identity ip ua s))"
| "auth_step env s (snd (complete_passkey_login env tok cred ip ua s))"
| "auth_step env s (snd (begin_passkey_step_up env tok s))"
| "auth_step env s (snd (complete_passkey_step_up env stok tok cred s))"
| "auth_step env s (snd (check_login_rate env email ip s))"
| "auth_step env s (snd (record_login_result env email ip success s))"
| "auth_step env s (snd (check_passkey_login_rate env ip s))"
| "auth_step env s (snd (record_passkey_login_result env ip success s))"
| "auth_step env s (snd (list_mail_rules env v s))"
| "auth_step env s (snd (get_mail_rule env v rid s))"
| "auth_step env s (snd (create_mail_rule env v n e x t st s))"
| "auth_step env s (snd (create_mail_rule_with_run env v n e x t snap st c s))"
| "auth_step env s (snd (update_mail_rule env v rid rv n e x t st s))"
| "auth_step env s (snd (delete_mail_rule v rid s))"
| "auth_step env s (snd (reorder_mail_rules env v order s))"
| "auth_step env s (snd (mailbox_rule_reference_count v mb s))"
| "auth_step env s (snd (create_mail_rule_run env v rid snap st s))"
| "auth_step env s (snd (get_active_mail_rule_run env v s))"
| "auth_step env s (snd (get_mail_rule_run env v run s))"
| "auth_step env s (snd (update_mail_rule_run env v run st sv c1 c2 c3 c4 er s))"
| "auth_step env s (snd (cancel_mail_rule_run env v run s))"
| "auth_step env s (snd (reset_totp env v s))"
| "auth_step env s (snd (rotate_totp env v s))"
| "auth_step env s (snd (regenerate_recovery_codes env v code s))"
| "auth_step env s (snd (provision_active_account env email r q s))"
| "auth_step env s (snd (create_account env email r q s))"
| "auth_step env s (snd (sync_accounts env emails r q s))"
| "auth_step env s (snd (get_account email s))"
| "auth_step env s (snd (resolve_account_id v s))"
| "auth_step env s (snd (list_accounts s))"
| "auth_step env s (snd (recovery_code_count v s))"
| "auth_step env s (snd (verify_totp env v code s))"
| "auth_step env s (snd (set_role env v r revoke s))"
| "auth_step env s (snd (set_password_change_required env v q revoke s))"
| "auth_step env s (snd (revoke_sessions env v s))"
| "auth_step env s (snd (delete_account env v s))"
| "auth_step env s (snd (bootstrap_active_accounts env records s))"
| "auth_step env s (snd (bootstrap_active_account env b s))"
| "auth_step env s (snd (create_pending_challenge env email s))"
| "auth_step env s (snd (begin_totp_enrollment env tok s))"
| "auth_step env s (snd (confirm_totp_enrollment env tok code ip ua s))"
| "auth_step env s (snd (complete_totp_challenge env tok code ip ua s))"
| "auth_step env s (snd (complete_recovery_challenge env tok code ip ua s))"
| "auth_step env s (snd (close s))"

inductive reachable :: "auth_env \<Rightarrow> auth_store \<Rightarrow> bool" for env where
  opened: "reachable env (opened k n)"
| step: "reachable env s \<Longrightarrow> auth_step env s t \<Longrightarrow> reachable env t"

lemma close_keeps [preserves_rules]: "preserves I close"
  by (intro preservesI wp_rules)

lemma step_keeps_enroll_inv: "auth_step env s t \<Longrightarrow> enroll_inv (db s) \<Longrightarrow> enroll_inv (db t)"
  by (induction rule: auth_step.induct) (erule preservesD [rotated], rule preserves_rules)+

lemma reachable_enroll_inv: "reachable env s \<Longrightarrow> enroll_inv (db s)"
  by (induction rule: reachable.induct)
    (simp_all add: opened_def enroll_inv_empty step_keeps_enroll_inv)

section \<open>What holds in every reachable state\<close>

lemma rowcount_conflict:
  "table_inv chk conflict rows \<Longrightarrow> (\<And>a b. P a \<Longrightarrow> P b \<Longrightarrow> conflict a b) \<Longrightarrow> rowcount P rows \<le> 1"
  by (induction rows) (auto simp: table_inv_def rowcount_def filter_empty_conv)

text \<open>
  C1. Whatever calls were made, in whatever order and with whatever arguments, one account has
  at most five sessions, five pending challenges, ten passkeys, ten recovery codes, a hundred
  mail rules and a hundred rule runs; at most 256 anonymous passkey logins are open and the rate
  limiter holds at most 1024 rows; and no challenge that is still stored has five failures.
\<close>

theorem reachable_bounds:
  assumes "reachable env s"
  shows "rowcount (\<lambda>r. s_account r = i) (sessions (db s)) \<le> 5
    \<and> rowcount (\<lambda>c. pc_account c = i) (pending_challenges (db s)) \<le> 5
    \<and> rowcount (\<lambda>p. pk_account p = i) (passkey_credentials (db s)) \<le> 10
    \<and> rowcount (\<lambda>r. rc_account r = i) (recovery_codes (db s)) \<le> 10
    \<and> rowcount (\<lambda>r. mr_account r = i) (mail_rules (db s)) \<le> 100
    \<and> rowcount (\<lambda>r. run_account r = i) (mail_rule_runs (db s)) \<le> 100
    \<and> rowcount (\<lambda>c. purpose c = Login) (passkey_challenges (db s)) \<le> 256
    \<and> length (rate_limits (db s)) \<le> 1024
    \<and> list_all (\<lambda>c. pc_failure_count c < 5) (pending_challenges (db s))
    \<and> list_all (\<lambda>c. pkc_failure_count c < 5) (passkey_challenges (db s))"
proof -
  from reachable_enroll_inv [OF assms]
  have l: "limits_inv (db s)" and c: "enroll_core (accounts (db s)) (pending_challenges (db s)) (recovery_codes (db s))"
    by (simp_all add: enroll_inv_def store_inv_def)
  from l have "rowcount (\<lambda>c. purpose c = Login) (passkey_challenges (db s)) \<le> 256"
    by (simp add: limits_inv_def at_most_def auth_limits)
  moreover from c have "rowcount (\<lambda>r. rc_account r = i) (recovery_codes (db s)) \<le> 10"
    by (simp add: enroll_core_def at_most_def auth_limits)
  ultimately show ?thesis
    using l limits_rowcount [OF l] by (simp add: limits_inv_def list_all_iff auth_limits)
qed

text \<open>The sample store, in which an account has begun to enroll, is reachable.\<close>

lemma sample_reachable: "reachable sample_env enrolling_store"
proof -
  have "reachable sample_env (opened 0 0)" by (rule reachable.opened)
  then have "reachable sample_env (snd (create_account sample_env sample_email (PyStr (lit ''user'')) (PyBool False) (opened 0 0)))"
    by (rule reachable.step) (rule auth_step.intros)
  then have "reachable sample_env created_store" by (simp add: opened_def sample_created)
  then have "reachable sample_env (snd (create_pending_challenge sample_env sample_email created_store))"
    by (rule reachable.step) (rule auth_step.intros)
  then have "reachable sample_env challenged_store" by (simp add: sample_challenged)
  then have "reachable sample_env (snd (begin_totp_enrollment sample_env (PyStr sample_token) challenged_store))"
    by (rule reachable.step) (rule auth_step.intros)
  then show ?thesis by (simp add: sample_enrolling)
qed

theorem reachable_bounds_witness:
  "reachable sample_env enrolling_store
    \<and> rowcount (\<lambda>r. s_account r = sample_id) (sessions (db enrolling_store)) \<le> 5
    \<and> length (rate_limits (db enrolling_store)) \<le> 1024"
  using reachable_bounds [OF sample_reachable] sample_reachable by blast

text \<open>
  C2. In every reachable state, an account whose enrollment is pending is owned by a stored
  challenge of the same account, so the enrollment can be confirmed or will be released with the
  challenge; an account that is not active has no recovery code; an account that is not required
  has an encrypted secret with a 12-byte nonce, and a required one has none.
\<close>

theorem reachable_enrollment:
  assumes "reachable env s" and "a \<in> set (accounts (db s))"
  shows "(enrollment_state a = PENDING \<longrightarrow>
      (\<exists>c \<in> set (pending_challenges (db s)).
         enrollment_challenge_digest a = Some (pc_digest c) \<and> pc_account c = account_id a))
    \<and> (enrollment_state a \<noteq> ACTIVE \<longrightarrow> (\<forall>r \<in> set (recovery_codes (db s)). rc_account r \<noteq> account_id a))
    \<and> (enrollment_state a = REQUIRED \<longleftrightarrow> totp_ciphertext a = None)
    \<and> (enrollment_state a = REQUIRED \<longleftrightarrow> map_option length (totp_nonce a) \<noteq> Some 12)"
proof -
  from reachable_enroll_inv [OF assms(1)]
  have inv: "schema_inv (db s)" "enroll_core (accounts (db s)) (pending_challenges (db s)) (recovery_codes (db s))"
    by (simp_all add: enroll_inv_def store_inv_def)
  have "account_check a" by (rule schema_checks(1) [OF inv(1) assms(2)])
  with inv(2) assms(2) show ?thesis
    by (auto simp: enroll_core_def owned_def codeless_def sealed_def account_check_def not_false_length
        split: EnrollmentState.splits)
qed

theorem reachable_enrollment_witness:
  "reachable sample_env enrolling_store \<and> sample_pending \<in> set (accounts (db enrolling_store))
    \<and> enrollment_state sample_pending = PENDING
    \<and> (\<exists>c \<in> set (pending_challenges (db enrolling_store)).
         enrollment_challenge_digest sample_pending = Some (pc_digest c) \<and> pc_account c = account_id sample_pending)"
proof -
  have "sample_pending \<in> set (accounts (db enrolling_store))" by (simp add: enrolling_store_def)
  moreover have "enrollment_state sample_pending = PENDING" by (simp add: sample_pending_def)
  ultimately show ?thesis
    using reachable_enrollment [OF sample_reachable, of sample_pending] sample_reachable by blast
qed

text \<open>The sample store with an active account satisfies the invariant.\<close>

lemma active_store_inv: "enroll_inv (db active_store)"
proof -
  have "length (hex (replicate 16 8)) = 32"
    using hex_identifier_hex [of "replicate 16 8"] by (simp add: hex_identifier_def)
  then have "schema_inv (db active_store)"
    by (simp add: active_store_def schema_inv_def empty_db_def table_inv_def recovery_code_check_def
        pending_challenge_check_def session_check_def sample_session_def sample_challenge_def sample_code_def)
  moreover have "limits_inv (db active_store)"
    by (simp add: active_store_def limits_inv_def empty_db_def at_most_def auth_limits sample_challenge_def)
  ultimately show ?thesis
    by (simp add: enroll_inv_def store_inv_def)
      (simp add: active_store_def enroll_core_def empty_db_def owned_def codeless_def sealed_def
        at_most_def auth_limits)
qed

end
