(* ===== verification/Auth_Totp.thy ===== *)
theory Auth_Totp
  imports Auth_Reachable
begin

text \<open>
  Time-based one-time passwords: what a code looks like, which counter a code is matched with,
  and that a code that was accepted is used up. The HMAC is a parameter; where a theorem needs
  it, the hypothesis is that HMAC-SHA1 digests have 20 bytes.
\<close>

section \<open>Codes\<close>

lemma length_six_digits [simp]: "length (six_digits n) = 6"
  by (simp add: six_digits_def)

lemma set_six_digits: "c \<in> set (six_digits n) \<Longrightarrow> 48 \<le> c \<and> c \<le> 57"
proof -
  assume "c \<in> set (six_digits n)"
  then obtain m where "c = 48 + m mod 10" by (auto simp: six_digits_def)
  moreover have "m mod 10 < 10" by simp
  ultimately show ?thesis by linarith
qed

lemma totp_for_counter_shape:
  "totp_for_counter env sec c = Inr code \<Longrightarrow> length code = 6 \<and> isascii code"
  by (fastforce simp: totp_for_counter_def Let_def isascii_def list_all_iff dest: set_six_digits split: if_splits)

lemma totp_for_counter_total:
  assumes "\<And>m. length (hmac_sha1 env sec m) = 20" "0 \<le> c" "c < 2 ^ 64"
  shows "\<exists>code. totp_for_counter env sec c = Inr code"
proof -
  let ?d = "hmac_sha1 env sec (be_bytes 8 c)"
  have len: "length ?d = 20" by (rule assms(1))
  then have ne: "?d \<noteq> []" by auto
  have "unat (last ?d) mod 16 < 16" by simp
  with len have "length (take 4 (drop (unat (last ?d) mod 16) ?d)) = 4" by simp
  with ne assms show ?thesis by (simp add: totp_for_counter_def Let_def)
qed

text \<open>The code \<open>v\<close> is the code of counter \<open>c\<close>.\<close>

definition code_of_counter :: "auth_env \<Rightarrow> bytes \<Rightarrow> pyval \<Rightarrow> int \<Rightarrow> bool" where
  "code_of_counter env sec v c \<longleftrightarrow>
     (case v of PyStr code \<Rightarrow> totp_for_counter env sec c = Inr code | _ \<Rightarrow> False)"

section \<open>The matching counter\<close>

lemma match_counters_result:
  "match_counters env sec b m0 cs = Inr m \<Longrightarrow>
     (case m of
        None \<Rightarrow> m0 = None \<and> (\<forall>c \<in> set cs. totp_for_counter env sec c \<noteq> Inr b)
      | Some c \<Rightarrow> (c \<in> set cs \<and> totp_for_counter env sec c = Inr b) \<or>
          (m0 = Some c \<and> (\<forall>c' \<in> set cs. totp_for_counter env sec c' \<noteq> Inr b)))"
  by (induction cs arbitrary: m0) (fastforce simp: res_simps split: option.splits if_splits)+

lemma match_counters_total:
  "(\<And>c. c \<in> set cs \<Longrightarrow> \<exists>code. totp_for_counter env sec c = Inr code) \<Longrightarrow>
     \<exists>m. match_counters env sec b m0 cs = Inr m"
proof (induction cs arbitrary: m0)
  case (Cons c cs)
  then obtain code where "totp_for_counter env sec c = Inr code" by auto
  with Cons show ?case by simp
qed simp

lemma matching_counter_result:
  assumes "matching_totp_counter env sec v now = Inr m"
  shows "case m of
      None \<Rightarrow> (\<forall>c. 0 \<le> c \<longrightarrow> \<bar>c - now div 30\<bar> \<le> 1 \<longrightarrow> \<not> code_of_counter env sec v c)
    | Some c \<Rightarrow> 0 \<le> c \<and> \<bar>c - now div 30\<bar> \<le> 1 \<and> code_of_counter env sec v c"
proof -
  define b where "b = (case v of PyStr s \<Rightarrow> if length s = 6 \<and> isascii s then s else [] | _ \<Rightarrow> [])"
  have code: "totp_for_counter env sec c = Inr b \<longleftrightarrow> code_of_counter env sec v c" for c
    using totp_for_counter_shape [of env sec c]
    by (auto simp: b_def code_of_counter_def split: pyval.splits if_splits)
  define cs where "cs = [max 0 (now div 30 - 1)..now div 30 + 1]"
  have window: "c \<in> set cs \<longleftrightarrow> 0 \<le> c \<and> \<bar>c - now div 30\<bar> \<le> 1" for c
    by (auto simp: cs_def)
  from assms have "match_counters env sec b None cs = Inr m"
    by (simp add: matching_totp_counter_def Let_def b_def cs_def auth_limits)
  from match_counters_result [OF this] show ?thesis
    by (cases m) (simp_all add: code window)
qed

text \<open>
  C18. With 20-byte HMAC digests and any clock reading below \<open>2^64\<close>, matching a code always
  returns: a counter at most one period away from the current one whose code it is, or nothing
  when no such counter exists.
\<close>

theorem matching_totp_counter_correct:
  assumes "\<And>m. length (hmac_sha1 env sec m) = 20" and "0 \<le> now" and "now < 2 ^ 64"
  shows "\<exists>m. matching_totp_counter env sec v now = Inr m \<and>
    (case m of
       None \<Rightarrow> (\<forall>c. 0 \<le> c \<longrightarrow> \<bar>c - now div 30\<bar> \<le> 1 \<longrightarrow> \<not> code_of_counter env sec v c)
     | Some c \<Rightarrow> 0 \<le> c \<and> \<bar>c - now div 30\<bar> \<le> 1 \<and> code_of_counter env sec v c)"
proof -
  have "now div 30 + 1 < 2 ^ 64" using assms(2,3) by simp
  then have "\<exists>m. matching_totp_counter env sec v now = Inr m"
    unfolding matching_totp_counter_def Let_def auth_limits
    by (intro match_counters_total totp_for_counter_total assms) auto
  then show ?thesis using matching_counter_result by blast
qed

theorem matching_totp_counter_correct_witness:
  "\<exists>m. matching_totp_counter sample_env [1] (PyStr (lit ''000000'')) 90 = Inr m \<and>
    (case m of
       None \<Rightarrow> (\<forall>c. 0 \<le> c \<longrightarrow> \<bar>c - 90 div 30\<bar> \<le> 1 \<longrightarrow>
         \<not> code_of_counter sample_env [1] (PyStr (lit ''000000'')) c)
     | Some c \<Rightarrow> 0 \<le> c \<and> \<bar>c - 90 div 30\<bar> \<le> 1
         \<and> code_of_counter sample_env [1] (PyStr (lit ''000000'')) c)"
  by (rule matching_totp_counter_correct) simp_all

section \<open>A code is used up\<close>

lemma set_where_cong:
  "(\<And>r. r \<in> set rows \<Longrightarrow> P r \<longleftrightarrow> Q r) \<Longrightarrow> set_where P f rows = set_where Q f rows"
  by (simp add: set_where_def)

lemma counter_update:
  assumes inv: "enroll_inv d" and row: "row \<in> set (accounts d)" and st: "enrollment_state row = ACTIVE" "totp_last_counter row < c"
  shows "rowcount (\<lambda>a. account_id a = account_id row \<and> enrollment_state a = ACTIVE \<and> totp_last_counter a < c) (accounts d) = 1"
    and "set_where (\<lambda>a. account_id a = account_id row \<and> enrollment_state a = ACTIVE \<and> totp_last_counter a < c) f (accounts d)
      = set_where (\<lambda>a. account_id a = account_id row) f (accounts d)"
proof -
  let ?P = "\<lambda>a. account_id a = account_id row \<and> enrollment_state a = ACTIVE \<and> totp_last_counter a < c"
  have same: "?P a \<longleftrightarrow> account_id a = account_id row" if "a \<in> set (accounts d)" for a
    using enroll_unique [OF inv that row] st by auto
  have "rowcount ?P (accounts d) = rowcount (\<lambda>a. account_id a = account_id row) (accounts d)"
    using same by (simp add: rowcount_def cong: filter_cong)
  moreover have "rowcount (\<lambda>a. account_id a = account_id row) (accounts d) \<le> 1"
    using inv by (intro rowcount_key) (simp add: enroll_inv_def store_inv_def schema_keys)
  moreover have "0 < rowcount (\<lambda>a. account_id a = account_id row) (accounts d)"
    using row by (auto simp: rowcount_pos_iff)
  ultimately show "rowcount ?P (accounts d) = 1" by linarith
  show "set_where ?P f (accounts d) = set_where (\<lambda>a. account_id a = account_id row) f (accounts d)"
    by (rule set_where_cong) (rule same)
qed

text \<open>
  \<open>_consume_totp_locked\<close>: the code that account \<open>a\<close> presents at second \<open>now\<close> is consumed by
  recording its counter \<open>c\<close>, which is in the window around \<open>now\<close> and above the recorded one.
\<close>

definition counter_consumed ::
  "auth_env \<Rightarrow> auth_account \<Rightarrow> pyval \<Rightarrow> int \<Rightarrow> int \<Rightarrow> auth_db \<Rightarrow> auth_db \<Rightarrow> bool" where
  "counter_consumed env a code now c d d' \<longleftrightarrow>
     enrollment_state a = ACTIVE \<and> totp_last_counter a < c \<and> 0 \<le> c \<and> \<bar>c - now div 30\<bar> \<le> 1
     \<and> (\<exists>sec. decrypt_totp env a = Inr sec \<and> code_of_counter env sec code c)
     \<and> d' = d\<lparr>accounts := set_where (\<lambda>b. account_id b = account_id a)
          (\<lambda>b. b\<lparr>totp_last_counter := c, updated_at := now\<rparr>) (accounts d)\<rparr>"

lemma wp_consume_counter:
  assumes inv: "enroll_inv d" and row: "row \<in> set (accounts d)"
    and Q: "\<And>c d'. counter_consumed env row code now c d d' \<Longrightarrow> Q True d'" "Q False d" and E: "\<And>e d'. E e d'"
  shows "wp (consume_totp_locked env row code now) Q E d"
  unfolding consume_totp_locked_def
proof (intro wp_rules E Q(2))
  fix sec m c
  assume st: "\<not> enrollment_state row \<noteq> ACTIVE" and sec: "decrypt_totp env row = Inr sec"
    and m: "matching_totp_counter env sec code now = Inr m" "m = Some c" and c: "\<not> c \<le> totp_last_counter row"
  let ?P = "\<lambda>a. account_id a = account_id row \<and> enrollment_state a = ACTIVE \<and> totp_last_counter a < c"
  let ?f = "\<lambda>a. a\<lparr>totp_last_counter := c, updated_at := now\<rparr>"
  have active: "enrollment_state row = ACTIVE" "totp_last_counter row < c" using st c by auto
  note one = counter_update(1) [OF inv row active] and rows = counter_update(2) [OF inv row active]
  have "counter_consumed env row code now c d (d\<lparr>accounts := set_where ?P ?f (accounts d)\<rparr>)"
    unfolding counter_consumed_def rows
    using active sec matching_counter_result [OF m(1)] m(2) by auto
  with one show "Q (rowcount ?P (accounts d) = 1) (d\<lparr>accounts := set_where ?P ?f (accounts d)\<rparr>)"
    by (simp add: Q(1))
qed

lemma valid_account_id: "validate_account_id v = Inr i \<Longrightarrow> v = PyStr i"
  by (cases v) (auto simp: validate_account_id_def validate_identifier_def split: if_splits)

text \<open>An accepted code, tied to the one clock reading of the call.\<close>

lemma verify_totp_accepts:
  assumes inv: "enroll_inv (db s)" and call: "verify_totp env v code s = (Inr (), t)"
  shows "\<exists>a \<in> set (accounts (db s)). \<exists>now c. v = PyStr (account_id a)
    \<and> reading_seconds (clock env (readings s)) = Inr now
    \<and> counter_consumed env a code now c (db s) (db t)"
proof -
  let ?body = "\<lambda>i now. transaction (bindA (require_account_by_id_locked i) (\<lambda>row.
    bindA (consume_totp_locked env row code now) (\<lambda>consumed.
    if consumed then returnA () else raiseA InvalidSecondFactorError)))"
  from call obtain i now where i: "validate_account_id v = Inr i"
    and now: "reading_seconds (clock env (readings s)) = Inr now"
    and body: "?body i now (s\<lparr>readings := Suc (readings s)\<rparr>) = (Inr (), t)"
    by (auto simp: verify_totp_def bindA_Inr liftE_def now_act_def now_locked_def)
  have d: "db (s\<lparr>readings := Suc (readings s)\<rparr>) = db s" by simp
  have "wp (?body i now) (\<lambda>_ d'. \<exists>a \<in> set (accounts (db s)). \<exists>c. account_id a = i
      \<and> counter_consumed env a code now c (db s) d') (\<lambda>_ _. True)
      (db (s\<lparr>readings := Suc (readings s)\<rparr>))"
    unfolding d by (rule wp_consume_counter [OF inv] | rule wp_rules | (simp; fail) | blast)+
  from wpD(1) [OF this body] now valid_account_id [OF i] show ?thesis by blast
qed

lemma verify_totp_refuses:
  assumes inv: "enroll_inv (db s)" and call: "verify_totp env v code s = (Inl e, t)"
  shows "db t = db s"
proof -
  have "wp (verify_totp env v code) (\<lambda>_ _. True) (\<lambda>_ d'. d' = db s) (db s)"
    unfolding verify_totp_def
    by (rule wp_consume_counter [OF inv] | rule wp_rules | (simp; fail))+
  from wpD(2) [OF this call] show ?thesis .
qed

lemma verify_totp_keeps:
  "enroll_inv (db s) \<Longrightarrow> verify_totp env v code s = (r, t) \<Longrightarrow> enroll_inv (db t)"
  using preservesD_wp [OF enroll_create_accounts(7), of "db s" env v code] wp_outcome
  by (fastforce split: sum.splits)

text \<open>
  C5. When \<open>verify_totp\<close> accepts a code, the code is that of a counter at most one period away
  from the clock reading of the call and greater than the last one recorded for the account, and
  this counter is recorded; nothing else changes. A recorded counter is never accepted again: as
  long as the account's row records at least that counter, as it does right after the call, each
  later accepted code is that of a strictly greater counter, at whatever clock. When it refuses,
  the database is as it was.
\<close>

theorem verify_totp_consumes:
  assumes "enroll_inv (db s)" and "verify_totp env v code s = (r, t)"
  shows "case r of
      Inl e \<Rightarrow> db t = db s
    | Inr _ \<Rightarrow> (\<exists>a \<in> set (accounts (db s)). \<exists>now c. v = PyStr (account_id a)
        \<and> reading_seconds (clock env (readings s)) = Inr now
        \<and> counter_consumed env a code now c (db s) (db t)
        \<and> (\<exists>b \<in> set (accounts (db t)). account_id b = account_id a \<and> totp_last_counter b = c)
        \<and> (\<forall>u b code' t'. enroll_inv (db u) \<and> b \<in> set (accounts (db u)) \<and> account_id b = account_id a
             \<and> c \<le> totp_last_counter b \<and> verify_totp env v code' u = (Inr (), t') \<longrightarrow>
             (\<exists>now' c'. reading_seconds (clock env (readings u)) = Inr now'
                \<and> counter_consumed env b code' now' c' (db u) (db t') \<and> c < c')))"
proof (cases r)
  case (Inl e)
  with assms(2) verify_totp_refuses [OF assms(1)] show ?thesis by simp
next
  case (Inr x)
  with verify_totp_accepts [OF assms(1), of env v code t] assms(2) obtain a now c where a: "a \<in> set (accounts (db s))"
    "v = PyStr (account_id a)" "reading_seconds (clock env (readings s)) = Inr now"
    "counter_consumed env a code now c (db s) (db t)" by auto
  then have "\<exists>b \<in> set (accounts (db t)). account_id b = account_id a \<and> totp_last_counter b = c"
    by (intro bexI [of _ "a\<lparr>totp_last_counter := c, updated_at := now\<rparr>"])
      (auto simp: counter_consumed_def set_set_where)
  moreover have "\<exists>now' c'. reading_seconds (clock env (readings u)) = Inr now'
      \<and> counter_consumed env b code' now' c' (db u) (db t') \<and> c < c'"
    if "enroll_inv (db u)" "b \<in> set (accounts (db u))" "account_id b = account_id a"
      "c \<le> totp_last_counter b" "verify_totp env v code' u = (Inr (), t')" for u b code' t'
    using verify_totp_accepts [OF that(1,5)] enroll_unique [OF that(1,2)] that(3,4) a(2)
    by (fastforce simp: counter_consumed_def)
  ultimately show ?thesis
    unfolding Inr sum.case
    by - (rule bexI [OF _ a(1)], rule exI [of _ now], rule exI [of _ c], use a in blast)
qed

lemma last_be_bytes_8: "last (be_bytes 8 v) = of_int v"
  using be_bytes.simps(2) [of 7 v] by simp

lemma be_value_zeros: "be_value (replicate 4 0) = 0"
  by (simp add: be_value_def numeral_eq_Suc)

lemma sample_counters:
  "c \<in> {2, 3, 4} \<Longrightarrow> totp_for_counter sample_env k c = Inr (lit ''000000'')"
  by (auto simp: totp_for_counter_def Let_def last_be_bytes_8 be_value_zeros six_digits_def lit_def)

lemma sample_totp:
  "matching_totp_counter sample_env k (PyStr (lit ''000000'')) 90 = Inr (Some 4)"
proof -
  have "[2..4] = [2, 3, 4 :: int]" by (simp add: upto_rec1)
  then show ?thesis
    by (simp add: matching_totp_counter_def auth_limits sample_counters lit_def isascii_def)
qed

theorem verify_totp_consumes_witness:
  "enroll_inv (db active_store) \<and> (\<exists>t. verify_totp sample_env (PyStr sample_id) (PyStr (lit ''000000'')) active_store = (Inr (), t)
     \<and> enroll_inv (db t)
     \<and> (\<exists>a \<in> set (accounts (db active_store)). \<exists>now c. PyStr sample_id = PyStr (account_id a)
         \<and> reading_seconds (clock sample_env (readings active_store)) = Inr now
         \<and> counter_consumed sample_env a (PyStr (lit ''000000'')) now c (db active_store) (db t)
         \<and> (\<forall>u t'. db u = db t \<and> verify_totp sample_env (PyStr sample_id) (PyStr (lit ''000000'')) u = (Inr (), t') \<longrightarrow>
              (\<exists>c' > c. \<exists>b now'. counter_consumed sample_env b (PyStr (lit ''000000'')) now' c' (db u) (db t')))))"
proof -
  let ?code = "PyStr (lit ''000000'')"
  obtain r t where v: "verify_totp sample_env (PyStr sample_id) ?code active_store = (r, t)"
    by (cases "verify_totp sample_env (PyStr sample_id) ?code active_store")
  then have r: "r = Inr ()"
    by (simp add: verify_totp_def act_eval statement_eval lookup_eval active_store_def empty_db_def
        validate_account_id_def validate_identifier_def sample_id_hex consume_totp_locked_def sample_totp
        account_check_def not_false_length split: prod.splits)
  have keeps: "enroll_inv (db t)" by (rule verify_totp_keeps [OF active_store_inv v])
  from verify_totp_consumes [OF active_store_inv v] r
  obtain a now c b where a: "a \<in> set (accounts (db active_store))" "PyStr sample_id = PyStr (account_id a)"
      "reading_seconds (clock sample_env (readings active_store)) = Inr now"
      "counter_consumed sample_env a ?code now c (db active_store) (db t)"
    and b: "b \<in> set (accounts (db t))" "account_id b = account_id a" "totp_last_counter b = c"
    and later: "\<And>u b code' t'. enroll_inv (db u) \<and> b \<in> set (accounts (db u)) \<and> account_id b = account_id a
      \<and> c \<le> totp_last_counter b \<and> verify_totp sample_env (PyStr sample_id) code' u = (Inr (), t') \<Longrightarrow>
      \<exists>now' c'. reading_seconds (clock sample_env (readings u)) = Inr now'
        \<and> counter_consumed sample_env b code' now' c' (db u) (db t') \<and> c < c'"
    by (simp only: sum.case) (elim bexE exE conjE, rule that; (assumption | blast))
  have "\<exists>c' > c. \<exists>b now'. counter_consumed sample_env b ?code now' c' (db u) (db t')"
    if "db u = db t" "verify_totp sample_env (PyStr sample_id) ?code u = (Inr (), t')" for u t'
    using later [of u b ?code t'] that keeps b by auto
  with a keeps v r active_store_inv show ?thesis by blast
qed

end
