(* ===== verification/Auth_Frames.thy ===== *)
theory Auth_Frames
  imports Auth_Reachable
begin

text \<open>
  Invariants that the statements on the other tables do not touch. A predicate that is kept by
  every statement on accounts, challenges, codes, sessions and passkeys is kept by every
  operation that issues only such statements; a locale carries the argument once, and three
  extensions add the step-up of a session, the statements of the mail rules, and those of the
  rate limiter.
\<close>

lemma wp_any: "(\<And>x d. Q x d) \<Longrightarrow> (\<And>e d. E e d) \<Longrightarrow> wp m Q E d"
  by (rule wpI) simp_all

lemma wp_success: "(\<And>d. wp m (\<lambda>_. P) (\<lambda>_ _. True) d) \<Longrightarrow> m s = (Inr x, t) \<Longrightarrow> P (db t)"
  using wp_outcome [of m "\<lambda>_. P" "\<lambda>_ _. True" s "Inr x" t] by simp

lemma canonical_ip_error: "canonical_ip env ip = Inl e \<Longrightarrow> e = ValueError"
  by (cases ip) (auto simp: canonical_ip_def split: option.splits)

locale auth_statements =
  fixes I :: "auth_db \<Rightarrow> bool"
  assumes account_rows:
      "preserves I (delete_accounts P0)" "preserves I (insert_account a)"
      "(\<And>a. account_id (f0 a) = account_id a) \<Longrightarrow> preserves I (update_accounts Q0 f0)"
    and code_rows: "preserves I (delete_recovery_codes P1)" "preserves I (insert_recovery_code c)"
    and challenge_rows: "preserves I (delete_pending_challenges P2)" "preserves I (insert_pending_challenge p)"
      "preserves I (update_pending_challenges Q2 f2)"
    and session_rows: "preserves I (delete_sessions P3)"
      "preserves I (issue_session_locked env row now ip ua)"
      "preserves I (valid_session_row_locked digest now touch)"
    and passkey_rows: "preserves I (delete_passkey_credentials P4)" "preserves I (insert_passkey_credential k)"
      "preserves I (update_passkey_credentials Q4 f4)"
    and ceremony_rows: "preserves I (delete_passkey_challenges P5)" "preserves I (insert_passkey_challenge h)"
      "preserves I (update_passkey_challenges Q5 f5)"
    and expired_rates: "preserves I (delete_rate_limits P6)"
begin

lemmas statements [preserves_rules] = account_rows code_rows challenge_rows session_rows passkey_rows
  ceremony_rows expired_rates

lemma helpers [preserves_rules]:
  "preserves I (consume_totp_locked env row code now)"
  "preserves I (store_recovery_codes_locked env i codes now)"
  "preserves I (clear_logins_locked i)"
  "preserves I (revoke_pending_challenges_locked env i)"
  "preserves I (revoke_account_authentication_locked env i)"
  "preserves I (delete_expired_sessions_locked now)"
  "preserves I (record_challenge_failure_locked env digest n)"
  "preserves I (record_passkey_challenge_failure_locked digest n)"
  "preserves I (delete_expired_challenges_locked now)"
  "preserves I (evict_challenges_locked i)"
  "preserves I (evict_passkey_challenges_locked P m)"
  unfolding consume_totp_locked_def store_recovery_codes_locked_def
    clear_logins_locked_def revoke_account_authentication_locked_def revoke_pending_challenges_locked_def
    delete_expired_sessions_locked_def record_challenge_failure_locked_def
    record_passkey_challenge_failure_locked_def release_pending_enrollment_locked_def
    delete_expired_challenges_locked_def evict_challenges_locked_def evict_passkey_challenges_locked_def Let_def
  by (intro preserves_rules; simp add: to_required_def)+

lemma account_ops [preserves_rules]:
  "preserves I (create_account env email r p)"
  "preserves I (get_account email)"
  "preserves I (resolve_account_id v)"
  "preserves I list_accounts"
  "preserves I (sync_accounts env emails r p)"
  "preserves I (set_role env v r revoke)"
  "preserves I (set_password_change_required env v r revoke)"
  "preserves I (reset_totp env v)"
  "preserves I (rotate_totp env v)"
  "preserves I (regenerate_recovery_codes env v code)"
  "preserves I (recovery_code_count v)"
  "preserves I (verify_totp env v code)"
  "preserves I (delete_account env v)"
  "preserves I (provision_active_account env email r p)"
  "preserves I (bootstrap_active_accounts env records)"
  "preserves I (bootstrap_active_account env b)"
  unfolding create_account_def get_account_def resolve_account_id_def list_accounts_def
    sync_accounts_def sync_account_locked_def set_role_def set_password_change_required_def
    reset_totp_def rotate_totp_def regenerate_recovery_codes_def recovery_code_count_def
    verify_totp_def delete_account_def provision_active_account_def
    bootstrap_active_account_def bootstrap_active_accounts_def bootstrap_account_locked_def
    upsert_active_account_def Let_def
  by (intro preserves_rules; simp add: to_required_def to_active_def)+

lemma login_ops [preserves_rules]:
  "preserves I (create_pending_challenge env email)"
  "preserves I (begin_totp_enrollment env tok)"
  "preserves I (confirm_totp_enrollment env tok code ip ua)"
  "preserves I (complete_totp_challenge env tok code ip ua)"
  "preserves I (complete_recovery_challenge env tok code ip ua)"
  "preserves I (authenticate_session env tok touch)"
  "preserves I (require_step_up env tok)"
  "preserves I (revoke_session env tok)"
  "preserves I (list_sessions env v tok)"
  "preserves I (revoke_session_by_id v sid)"
  "preserves I (revoke_sessions env v)"
  unfolding create_pending_challenge_def begin_totp_enrollment_def confirm_totp_enrollment_def
    complete_totp_challenge_def complete_recovery_challenge_def second_factor_result_def
    authenticate_session_def require_step_up_def revoke_session_def list_sessions_def
    revoke_session_by_id_def revoke_sessions_def Let_def
  by (intro preserves_rules; simp)+

lemma passkey_helpers [preserves_rules]:
  "preserves I (passkey_challenge_row_locked digest now purp owner session)"
  "preserves I (passkey_credential_row_locked cid i)"
  "preserves I (passkey_credential_row_by_id_locked cid)"
  "preserves I (verify_passkey_assertion_locked env cred challenge i rp origin now)"
  "preserves I m \<Longrightarrow> preserves I (try_passkey m)"
  "preserves I (create_passkey_challenge_locked env purp j session now)"
  unfolding passkey_challenge_row_locked_def passkey_credential_row_locked_def
    passkey_credential_row_by_id_locked_def verify_passkey_assertion_locked_def try_passkey_def
    create_passkey_challenge_locked_def delete_expired_passkey_challenges_locked_def Let_def
  by (intro preserves_rules preserves_fresh_passkey; simp)+

lemma passkey_ops [preserves_rules]:
  "preserves I (begin_passkey_registration env tok)"
  "preserves I (complete_passkey_registration env stok tok cred name)"
  "preserves I (list_passkeys env v)"
  "preserves I (delete_passkey v pid)"
  "preserves I (begin_passkey_login env)"
  "preserves I (verify_passkey_login env tok cred)"
  "preserves I (issue_verified_passkey_session env identity ip ua)"
  "preserves I (complete_passkey_login env tok cred ip ua)"
  "preserves I (begin_passkey_step_up env tok)"
  unfolding begin_passkey_registration_def list_passkeys_def delete_passkey_def begin_passkey_login_def
    verify_passkey_login_def issue_verified_passkey_session_def complete_passkey_login_def
    begin_passkey_step_up_def complete_passkey_registration_def
    store_passkey_locked_def Let_def
  by (intro preserves_rules; simp)+

lemma rate_results [preserves_rules]:
  "preserves I (record_login_result env email ip success)"
  "preserves I (record_passkey_login_result env ip success)"
  unfolding record_login_result_def record_passkey_login_result_def by (intro preserves_rules)+

lemma close_op [preserves_rules]: "preserves I close"
  by (rule close_keeps)

end

text \<open>A predicate that does not look at the columns of a session.\<close>

locale session_statements = auth_statements +
  assumes step_up_rows: "preserves I (update_sessions Q3 f3)"
begin

lemma step_ups [preserves_rules]:
  "preserves I (mark_step_up env tok)"
  "preserves I (complete_passkey_step_up env stok tok cred)"
  unfolding mark_step_up_def complete_passkey_step_up_def Let_def
  by (intro preserves_rules step_up_rows)+

end

text \<open>A predicate that is also kept by the statements on mail rules and runs.\<close>

locale mail_statements = auth_statements +
  assumes rule_rows: "preserves I (delete_mail_rules P7)" "preserves I (insert_mail_rule r7)"
      "(\<And>r. rule_id (f7 r) = rule_id r) \<Longrightarrow> preserves I (update_mail_rules Q7 f7)"
    and run_rows: "preserves I (delete_mail_rule_runs P8)" "preserves I (insert_mail_rule_run r8)"
      "preserves I (update_mail_rule_runs Q8 f8)"
begin

lemmas rule_statements [preserves_rules] = rule_rows run_rows

lemma mail_ops [preserves_rules]:
  "preserves I (list_mail_rules env v)"
  "preserves I (get_mail_rule env v rid)"
  "preserves I (create_mail_rule env v n e x t st)"
  "preserves I (create_mail_rule_with_run env v n e x t snap st c)"
  "preserves I (update_mail_rule env v rid rv n e x t st)"
  "preserves I (delete_mail_rule v rid)"
  "preserves I (reorder_mail_rules env v order)"
  "preserves I (mailbox_rule_reference_count v mb)"
  "preserves I (create_mail_rule_run env v rid snap st)"
  "preserves I (get_active_mail_rule_run env v)"
  "preserves I (get_mail_rule_run env v run)"
  "preserves I (update_mail_rule_run env v run st sv c1 c2 c3 c4 er)"
  "preserves I (cancel_mail_rule_run env v run)"
  unfolding list_mail_rules_def get_mail_rule_def create_mail_rule_def create_mail_rule_with_run_def update_mail_rule_def
    delete_mail_rule_def reorder_mail_rules_def mailbox_rule_reference_count_def create_mail_rule_run_def
    get_active_mail_rule_run_def get_mail_rule_run_def update_mail_rule_run_def insert_rule_locked_def prune_runs_locked_def
    cancel_mail_rule_run_def compact_mail_rule_positions_locked_def shift_positions_locked_def Let_def
  by (intro preserves_rules; simp)+

end

text \<open>A predicate that is also kept by the statements of the rate limiter.\<close>

locale rate_statements = auth_statements +
  assumes rate_rows: "preserves I (insert_rate_limit r9)" "preserves I (update_rate_limits Q9 f9)"
      "preserves I (executeA (\<lambda>d. Inr ((), d\<lparr>rate_limits := g d\<rparr>)))"
begin

lemmas limiter_statements [preserves_rules] = rate_rows

lemma rate_ops [preserves_rules]:
  "preserves I (check_login_rate env email ip)"
  "preserves I (check_passkey_login_rate env ip)"
  unfolding check_login_rate_def check_passkey_login_rate_def reserve_attempt_locked_def
    count_attempt_locked_def rate_result_def
  by (intro preserves_rules)+

end

end
