(* ===== verification/Auth_Sessions.thy ===== *)
theory Auth_Sessions
  imports Auth_Totp Auth_Frames
begin

text \<open>
  Sessions: their times, what authentication accepts, what ends them, and what the login
  operations leave behind.
\<close>

section \<open>Session times\<close>

definition session_times :: "auth_session \<Rightarrow> bool" where
  "session_times s \<longleftrightarrow> s_created_at s \<le> last_seen_at s \<and> last_seen_at s < absolute_expires_at s
     \<and> absolute_expires_at s = s_created_at s + SESSION_ABSOLUTE_SECONDS
     \<and> (step_up_until s = 0 \<or> step_up_until s \<le> absolute_expires_at s)"

definition times_inv :: "auth_db \<Rightarrow> bool" where
  "times_inv d \<longleftrightarrow> schema_inv d \<and> list_all session_times (sessions d)"

lemma preserves_times:
  "preserves schema_inv m \<Longrightarrow>
   (\<And>d. schema_inv d \<Longrightarrow> list_all session_times (sessions d) \<Longrightarrow>
      wp m (\<lambda>_ d. list_all session_times (sessions d)) (\<lambda>_ d. list_all session_times (sessions d)) d) \<Longrightarrow>
     preserves times_inv m"
  unfolding preserves_def times_inv_def by (blast intro: wp_mono [OF wp_conj])

lemma times_statements [preserves_rules]:
  "preserves times_inv (delete_accounts P0)"
  "preserves times_inv (delete_sessions P1)"
  "preserves times_inv (delete_mail_rules P2)"
  "preserves times_inv (delete_rate_limits P3)"
  "preserves times_inv (delete_passkey_credentials P4)"
  "preserves times_inv (delete_passkey_challenges P5)"
  "preserves times_inv (delete_mail_rule_runs P6)"
  "preserves times_inv (delete_recovery_codes P7)"
  "preserves times_inv (delete_pending_challenges P8)"
  "preserves times_inv (insert_account r0)"
  "preserves times_inv (insert_rate_limit r2)"
  "preserves times_inv (insert_passkey_credential r3)"
  "preserves times_inv (insert_passkey_challenge r4)"
  "preserves times_inv (insert_mail_rule r5)"
  "preserves times_inv (insert_mail_rule_run r6)"
  "preserves times_inv (insert_recovery_code r7)"
  "preserves times_inv (insert_pending_challenge r8)"
  "preserves times_inv (update_rate_limits Q2 f2)"
  "preserves times_inv (update_passkey_credentials Q3 f3)"
  "preserves times_inv (update_passkey_challenges Q4 f4)"
  "preserves times_inv (update_mail_rule_runs Q6 f6)"
  "preserves times_inv (update_pending_challenges Q8 f8)"
  by (rule preserves_times, rule preserves_rules, rule wp_rules;
      auto simp: list_all_iff drop_accounts_def drop_sessions_def drop_mail_rules_def Let_def)+

lemma times_updates [preserves_rules]:
  "(\<And>a. account_id (f a) = account_id a) \<Longrightarrow> preserves times_inv (update_accounts P f)"
  "(\<And>r. rule_id (g r) = rule_id r) \<Longrightarrow> preserves times_inv (update_mail_rules R g)"
  by (rule preserves_times, rule preserves_rules, assumption, rule wp_rules; simp)+

lemma times_insert_session [preserves_rules]:
  "session_times s \<Longrightarrow> preserves times_inv (insert_session s)"
  by (rule preserves_times, rule preserves_rules, rule wp_rules; simp)

lemma times_issue_session [preserves_rules]:
  "preserves times_inv (issue_session_locked env a now ip ua)"
  unfolding issue_session_locked_def evict_sessions_locked_def delete_expired_sessions_locked_def Let_def
  by (intro preserves_rules) (simp add: session_times_def auth_limits)

text \<open>An UPDATE of the one session with a given digest.\<close>

lemma times_update_one:
  assumes inv: "schema_inv d" "list_all session_times (sessions d)" and s: "s \<in> set (sessions d)" "session_digest s = digest"
    and f: "session_times (f s)"
  shows "list_all session_times (set_where (\<lambda>r. session_digest r = digest) f (sessions d))"
proof -
  have "r = s" if "r \<in> set (sessions d)" "session_digest r = digest" for r
    using key_unique [OF schema_keys(4) [OF inv(1)] that(1) s(1)] that s by simp
  with inv(2) f show ?thesis by (auto simp: list_all_iff set_set_where)
qed

lemma joined_session_Some:
  "joined_session d digest = Some (s, a) \<Longrightarrow>
     s \<in> set (sessions d) \<and> session_digest s = digest \<and> a \<in> set (accounts d) \<and> account_id a = s_account s"
  by (auto simp: joined_session_def split: option.splits dest!: fetchone_Some)

section \<open>What the session lookup does\<close>

definition live_at :: "int \<Rightarrow> auth_session \<Rightarrow> bool" where
  "live_at now s \<longleftrightarrow> now < absolute_expires_at s \<and> now < last_seen_at s + SESSION_IDLE_SECONDS"

lemma touch_succeeds:
  "schema_inv d \<Longrightarrow> update_rows (session_ok d) P (\<lambda>r. r\<lparr>last_seen_at := v\<rparr>) (sessions d) =
     Inr (set_where P (\<lambda>r. r\<lparr>last_seen_at := v\<rparr>) (sessions d))"
  by (rule sessions_table.update_succeeds [OF schema_tables(4)])
    (auto dest: schema_checks(4) simp: session_check_def session_conflict_def)

lemma step_up_succeeds:
  "schema_inv d \<Longrightarrow> update_rows (session_ok d) P (\<lambda>r. r\<lparr>step_up_until := v\<rparr>) (sessions d) =
     Inr (set_where P (\<lambda>r. r\<lparr>step_up_until := v\<rparr>) (sessions d))"
  by (rule sessions_table.update_succeeds [OF schema_tables(4)])
    (auto dest: schema_checks(4) simp: session_check_def session_conflict_def)

lemma drop_no_sessions:
  "digest \<notin> session_digests d \<Longrightarrow> drop_sessions (\<lambda>r. session_digest r = digest) d = d"
proof -
  assume "digest \<notin> session_digests d"
  then have "\<not> (s \<in> set (sessions d) \<and> session_digest s = digest)" for s by auto
  then have "delete_rows (\<lambda>r. session_digest r = digest) (sessions d) = sessions d"
    "delete_rows (\<lambda>c. \<exists>s \<in> set (sessions d). session_digest s = digest \<and> pkc_session c = Some (session_digest s))
       (passkey_challenges d) = passkey_challenges d"
    by (auto intro!: delete_rows_none)
  then show ?thesis by (simp add: drop_sessions_def)
qed

lemma set_where_same:
  "(\<And>r. r \<in> set rows \<Longrightarrow> P r \<Longrightarrow> f r = r) \<Longrightarrow> set_where P f rows = rows"
  by (simp add: set_where_def map_idI)

text \<open>
  \<open>_valid_session_row_locked\<close> finds the session with the digest when it is live and records the
  visit; otherwise no session with the digest is left.
\<close>

lemma wp_valid_session:
  assumes inv: "schema_inv d"
    and none: "Q None (drop_sessions (\<lambda>r. session_digest r = digest) d)"
    and some: "\<And>s a eff. s \<in> set (sessions d) \<Longrightarrow> session_digest s = digest \<Longrightarrow> a \<in> set (accounts d) \<Longrightarrow>
      account_id a = s_account s \<Longrightarrow> live_at now s \<Longrightarrow>
      eff = (if touch then max (last_seen_at s) now else last_seen_at s) \<Longrightarrow>
      Q (Some ((s, a), eff)) (d\<lparr>sessions := set_where (\<lambda>r. session_digest r = digest)
        (\<lambda>r. r\<lparr>last_seen_at := eff\<rparr>) (sessions d)\<rparr>)"
  shows "wp (valid_session_row_locked digest now touch) Q E d"
proof (cases "joined_session d digest")
  case None
  have "digest \<notin> session_digests d"
  proof
    assume "digest \<in> session_digests d"
    then obtain s where s: "s \<in> set (sessions d)" "session_digest s = digest" by auto
    then have "fetchone (\<lambda>s. session_digest s = digest) (sessions d) = Some s"
      using inv by (intro fetchone_key schema_keys)
    moreover have "fetchone (\<lambda>a. account_id a = s_account s) (accounts d) \<noteq> None"
      using schema_account_exists(1) [OF inv s(1)] by (auto simp: fetchone_None_iff)
    ultimately show False using None by (auto simp: joined_session_def)
  qed
  with none have "Q None d" by (simp add: drop_no_sessions)
  with None show ?thesis
    unfolding valid_session_row_locked_def by (intro wp_rules) simp_all
next
  case (Some p)
  obtain s a where p: "p = (s, a)" by (cases p)
  from Some p have s: "s \<in> set (sessions d)" "session_digest s = digest" "a \<in> set (accounts d)" "account_id a = s_account s"
    by (auto dest: joined_session_Some)
  define eff where "eff = (if touch then max (last_seen_at s) now else last_seen_at s)"
  have keep: "sessions d = set_where (\<lambda>r. session_digest r = digest) (\<lambda>r. r\<lparr>last_seen_at := eff\<rparr>) (sessions d)"
    if "eff = last_seen_at s"
    using that key_unique [OF schema_keys(4) [OF inv] _ s(1)] s(2)
    by (intro set_where_same [symmetric]) (metis auth_session.surjective auth_session.update_convs(4))
  have stay: "Q (Some ((s, a), eff)) d" if "live_at now s" "eff = last_seen_at s"
    using some [OF s that(1) eff_def] keep [OF that(2)] by simp
  show ?thesis
    unfolding valid_session_row_locked_def Some p
    by (intro wp_rules wp_let) (use none some [OF s _ eff_def] stay touch_succeeds [OF inv] in
        \<open>auto simp: live_at_def eff_def Some p split: if_splits\<close>)
qed

abbreviation session_key :: "auth_env \<Rightarrow> pyval \<Rightarrow> bytes" where
  "session_key env tok \<equiv> opaque_digest env (session_digest_key env) tok"

lemma now_act_bind:
  "reading_seconds (clock env (readings s)) = Inr now \<Longrightarrow>
     bindA (now_act env) f s = f now (s\<lparr>readings := Suc (readings s)\<rparr>)"
  by (simp add: bindA_def now_act_def now_locked_def)

lemma run_after_now:
  assumes "bindA (now_act env) f s = (r, t)" and "reading_seconds (clock env (readings s)) = Inr now"
    and "wp (f now) Q E (db s)"
  shows "case r of Inl e \<Rightarrow> E e (db t) | Inr x \<Rightarrow> Q x (db t)"
  using wp_outcome [of "f now" Q E "s\<lparr>readings := Suc (readings s)\<rparr>"] assms by (simp add: now_act_bind)

text \<open>
  C10. \<open>authenticate_session\<close> accepts a token only for a stored session of an existing account that
  is within its absolute lifetime and was seen less than 72 hours before the current reading of
  the clock, and returns the identity, role and expiry of that session; when it reports an
  invalid session, no session with this token is left in the store.
\<close>

theorem authenticate_session_sound:
  assumes "schema_inv (db s)" and "reading_seconds (clock env (readings s)) = Inr now"
    and "authenticate_session env tok touch s = (r, t)"
  shows "case r of
      Inr p \<Rightarrow> \<exists>row \<in> set (sessions (db s)). \<exists>a \<in> set (accounts (db s)).
        session_digest row = session_key env tok \<and> account_id a = s_account row \<and> live_at now row
        \<and> sp_account_id p = account_id a \<and> sp_email p = canonical_email a \<and> sp_role p = role a
        \<and> sp_absolute_expires_at p = absolute_expires_at row
    | Inl e \<Rightarrow> e = InvalidSessionError \<longrightarrow> session_key env tok \<notin> session_digests (db t)"
proof -
  have "case r of Inl e \<Rightarrow> e = InvalidSessionError \<longrightarrow> session_key env tok \<notin> session_digests (db t)
    | Inr p \<Rightarrow> \<exists>row \<in> set (sessions (db s)). \<exists>a \<in> set (accounts (db s)).
        session_digest row = session_key env tok \<and> account_id a = s_account row \<and> live_at now row
        \<and> sp_account_id p = account_id a \<and> sp_email p = canonical_email a \<and> sp_role p = role a
        \<and> sp_absolute_expires_at p = absolute_expires_at row"
    by (rule run_after_now [OF assms(3) [unfolded authenticate_session_def Let_def] assms(2),
          where E = "\<lambda>e d'. e = InvalidSessionError \<longrightarrow> session_key env tok \<notin> session_digests d'"])
      (intro wp_rules wp_valid_session; (use assms(1) in \<open>auto simp: drop_sessions_def principal_from_session_row_def\<close>)?; metis?)
  then show ?thesis by (auto split: sum.splits)
qed

section \<open>Every operation keeps the session times\<close>

lemma schema_touch: "preserves schema_inv (valid_session_row_locked digest now touch)"
  unfolding valid_session_row_locked_def Let_def by (intro preserves_rules; simp)

lemma wp_live_session:
  assumes inv: "times_inv d"
    and none: "\<And>d. times_inv d \<Longrightarrow> Q None d"
    and some: "\<And>s a eff d'. times_inv d' \<Longrightarrow>
      (\<And>r. r \<in> set (sessions d') \<Longrightarrow> session_digest r = digest \<Longrightarrow> absolute_expires_at r = absolute_expires_at s) \<Longrightarrow>
      Q (Some ((s, a), eff)) d'"
  shows "wp (valid_session_row_locked digest now touch) Q E d"
proof -
  have sinv: "schema_inv d" using inv by (simp add: times_inv_def)
  have "wp (valid_session_row_locked digest now touch)
     (\<lambda>x d'. list_all session_times (sessions d') \<and> (case x of None \<Rightarrow> True | Some ((s, a), eff) \<Rightarrow>
        (\<forall>r \<in> set (sessions d'). session_digest r = digest \<longrightarrow> absolute_expires_at r = absolute_expires_at s)))
     E d"
  proof (rule wp_valid_session [OF sinv], goal_cases)
    case 1
    from inv show ?case by (auto simp: times_inv_def drop_sessions_def list_all_iff)
  next
    case (2 s a eff)
    have one: "r = s" if "r \<in> set (sessions d)" "session_digest r = digest" for r
      using key_unique [OF schema_keys(4) [OF sinv] that(1) 2(1)] that 2 by simp
    have "session_times s" using inv 2 by (auto simp: times_inv_def list_all_iff)
    then have "session_times (s\<lparr>last_seen_at := eff\<rparr>)" using 2 by (auto simp: session_times_def live_at_def)
    with times_update_one [OF sinv _ 2(1,2)] inv
    have "list_all session_times (set_where (\<lambda>r. session_digest r = digest) (\<lambda>r. r\<lparr>last_seen_at := eff\<rparr>) (sessions d))"
      by (simp add: times_inv_def)
    moreover have "absolute_expires_at r = absolute_expires_at s"
      if "r \<in> set (set_where (\<lambda>r. session_digest r = digest) (\<lambda>r. r\<lparr>last_seen_at := eff\<rparr>) (sessions d))"
        "session_digest r = digest" for r
    proof -
      from that(1) obtain q where q: "q \<in> set (sessions d)" "r = (if session_digest q = digest then q\<lparr>last_seen_at := eff\<rparr> else q)"
        unfolding set_set_where by blast
      with that(2) have "session_digest q = digest" by (auto split: if_splits)
      from one [OF q(1) this] q(2) show ?thesis by simp
    qed
    ultimately show ?case by simp
  qed
  from wp_conj [OF preservesD_wp [OF schema_touch sinv] this] show ?thesis
  proof (rule wp_mono, goal_cases)
    case (1 x d')
    then have "times_inv d'" by (simp add: times_inv_def)
    with 1 show ?case by (cases x) (auto intro!: none some)
  qed simp
qed

lemma times_touch [preserves_rules]: "preserves times_inv (valid_session_row_locked digest now touch)"
  by (rule preservesI, rule wp_live_session)

interpretation session_frame: mail_statements times_inv
  by unfold_locales (rule preserves_rules; assumption)+

text \<open>Between the session lookup and the step-up, the ceremony does not touch the sessions.\<close>

lemma passkey_statements_keep_sessions [preserves_rules]:
  "preserves (\<lambda>d. sessions d = ss) (delete_passkey_challenges P)"
  "preserves (\<lambda>d. sessions d = ss) (update_passkey_challenges P f)"
  "preserves (\<lambda>d. sessions d = ss) (update_passkey_credentials P1 f1)"
  by (intro preservesI wp_rules; simp)+

lemma assertion_keeps_sessions [preserves_rules]:
  "preserves (\<lambda>d. sessions d = ss) (passkey_challenge_row_locked digest now purp owner session)"
  "preserves (\<lambda>d. sessions d = ss) (try_passkey (verify_passkey_assertion_locked env cred challenge i rp origin now))"
  unfolding passkey_challenge_row_locked_def verify_passkey_assertion_locked_def try_passkey_def
    passkey_credential_row_locked_def Let_def
  by (intro preserves_rules; simp)+

lemma times_step_up:
  assumes "times_inv d" "\<And>r. r \<in> set (sessions d) \<Longrightarrow> session_digest r = digest \<Longrightarrow> v \<le> absolute_expires_at r"
  shows "times_inv (d\<lparr>sessions := set_where (\<lambda>r. session_digest r = digest) (\<lambda>r. r\<lparr>step_up_until := v\<rparr>) (sessions d)\<rparr>)"
proof -
  have "schema_inv d" using assms by (simp add: times_inv_def)
  with preservesD [OF preserves_update_sessions, of "\<lambda>r. r\<lparr>step_up_until := v\<rparr>"
      "\<lparr>db = d, draws = 0, readings = 0, closed = False\<rparr>" "\<lambda>r. session_digest r = digest"]
  have "schema_inv (d\<lparr>sessions := set_where (\<lambda>r. session_digest r = digest) (\<lambda>r. r\<lparr>step_up_until := v\<rparr>) (sessions d)\<rparr>)"
    by (simp add: step_up_succeeds update_sessions_def executeA_def)
  with assms show ?thesis by (auto simp: times_inv_def list_all_iff session_times_def set_set_where)
qed

lemma times_mark_step_up [preserves_rules]: "preserves times_inv (mark_step_up env tok)"
  unfolding mark_step_up_def Let_def
  by (rule preservesI, (rule wp_live_session | rule times_step_up | rule wp_rules | (simp; fail) | (auto; fail))+)

lemma wp_keeps_sessions:
  "preserves times_inv m \<Longrightarrow> preserves (\<lambda>d. sessions d = ss) m \<Longrightarrow> times_inv d \<Longrightarrow> sessions d = ss \<Longrightarrow>
   (\<And>x d'. times_inv d' \<Longrightarrow> sessions d' = ss \<Longrightarrow> Q x d') \<Longrightarrow>
   (\<And>e d'. times_inv d' \<Longrightarrow> E e d') \<Longrightarrow> wp m Q E d"
  using wp_mono [OF wp_conj [OF preservesD_wp preservesD_wp], of times_inv m d "\<lambda>d. sessions d = ss"] by simp

lemma times_complete_step_up [preserves_rules]:
  "preserves times_inv (complete_passkey_step_up env stok tok cred)"
  unfolding complete_passkey_step_up_def Let_def
  by (rule preservesI, (rule wp_live_session | rule wp_ceremony | rule times_step_up
      | rule wp_keeps_sessions [OF session_frame.passkey_helpers(1) assertion_keeps_sessions(1)]
      | rule wp_keeps_sessions [OF session_frame.passkey_helpers(5) [OF session_frame.passkey_helpers(4)] assertion_keeps_sessions(2)]
      | rule wp_preserves [OF session_frame.helpers(8)] | rule wp_preserves [OF times_statements(6)]
      | rule wp_rules | (simp; fail) | (auto; fail))+)

text \<open>The rate limiter has no statement on sessions.\<close>

definition rated_inv :: "auth_db \<Rightarrow> bool" where
  "rated_inv d \<longleftrightarrow> list_all session_times (sessions d)"

lemma rated_rate_statements [preserves_rules]:
  "preserves rated_inv (delete_rate_limits P)"
  "preserves rated_inv (insert_rate_limit r)"
  "preserves rated_inv (update_rate_limits Q f)"
  "preserves rated_inv (executeA (\<lambda>d. Inr ((), d\<lparr>rate_limits := g d\<rparr>)))"
  by (intro preservesI wp_rules wp_execute; auto simp: rated_inv_def)+

lemma rated_rate_ops:
  "preserves rated_inv (check_login_rate env email ip)"
  "preserves rated_inv (record_login_result env email ip success)"
  "preserves rated_inv (check_passkey_login_rate env ip)"
  "preserves rated_inv (record_passkey_login_result env ip success)"
  unfolding check_login_rate_def record_login_result_def check_passkey_login_rate_def
    record_passkey_login_result_def reserve_attempt_locked_def count_attempt_locked_def rate_result_def
  by (intro preserves_rules)+

lemma rated_times: "preserves rated_inv m \<Longrightarrow> preserves store_inv m \<Longrightarrow> store_inv (db s) \<Longrightarrow> times_inv (db s) \<Longrightarrow>
    times_inv (db (snd (m s)))"
  using preservesD [of rated_inv m s] preservesD [of store_inv m s]
  by (simp add: rated_inv_def times_inv_def store_inv_def)

lemma step_keeps_times: "auth_step env s t \<Longrightarrow> store_inv (db s) \<Longrightarrow> times_inv (db s) \<Longrightarrow> times_inv (db t)"
  by (induction rule: auth_step.induct)
    ((erule preservesD [rotated], rule preserves_rules) | (rule rated_times, rule rated_rate_ops, rule preserves_rules, assumption+))+

lemma reachable_times_inv: "reachable env s \<Longrightarrow> times_inv (db s)"
proof (induction rule: reachable.induct)
  case (opened k n)
  show ?case using schema_inv_empty by (simp add: opened_def times_inv_def) (simp add: empty_db_def)
next
  case (step s t)
  from reachable_enroll_inv [OF step(1)] have "store_inv (db s)" by (simp add: enroll_inv_def)
  with step show ?case by (blast intro: step_keeps_times)
qed

text \<open>
  C13. In every reachable state each session was last seen at or after its creation and before its
  absolute expiry, which is exactly thirty days after the creation however often the session is
  used; and no step-up lasts longer than the session.
\<close>

theorem reachable_session_times:
  assumes "reachable env s" and "r \<in> set (sessions (db s))"
  shows "s_created_at r \<le> last_seen_at r \<and> last_seen_at r < absolute_expires_at r
    \<and> absolute_expires_at r = s_created_at r + 30 * 24 * 60 * 60
    \<and> (step_up_until r = 0 \<or> step_up_until r \<le> absolute_expires_at r)"
  using reachable_times_inv [OF assms(1)] assms(2)
  by (auto simp: times_inv_def list_all_iff session_times_def auth_limits)

text \<open>A reachable store with an open session.\<close>

definition signed_in_session :: auth_session where
  "signed_in_session = \<lparr>session_digest = session_key sample_env (PyStr sample_token),
     s_account = sample_id, s_created_at = 90, last_seen_at = 90,
     absolute_expires_at = 90 + SESSION_ABSOLUTE_SECONDS, step_up_until = 0,
     session_id = hex (replicate 15 7 @ [2]), client_ip = None, user_agent = None\<rparr>"

definition signed_in_store :: "auth_db store" where
  "signed_in_store = \<lparr>db = empty_db\<lparr>accounts := [sample_new], sessions := [signed_in_session]\<rparr>,
     draws = 3, readings = 2, closed = False\<rparr>"

lemma sample_session_id:
  "draws s = 2 \<Longrightarrow> sessions (db s) = [] \<Longrightarrow>
     new_session_id_locked sample_env s = (Inr (hex (replicate 15 7 @ [2])), s\<lparr>draws := 3\<rparr>)"
  unfolding new_session_id_locked_def draw_fresh_8 random_hex_def
  by (simp add: act_eval sample_random_def auth_limits fetchone_def)

lemma sample_new_session_token:
  "draws s = 1 \<Longrightarrow> sessions (db s) = [] \<Longrightarrow>
     new_unique_token_locked sample_env (session_digest_key sample_env) session_taken s =
       (Inr (sample_token, session_key sample_env (PyStr sample_token)), s\<lparr>draws := 2\<rparr>)"
  unfolding new_unique_token_locked_def draw_fresh_8 Let_def
  by (simp add: act_eval sample_random_def auth_limits sample_token_def session_taken_def fetchone_def)

lemma sample_signed_in:
  "snd (issue_verified_passkey_session sample_env \<lparr>vi_account_id = PyStr sample_id, vi_email = sample_email\<rparr>
     PyNone PyNone created_store) = signed_in_store"
  using hex_identifier_hex [of "replicate 15 7 @ [2]"] sample_id_hex
  by (simp add: issue_verified_passkey_session_def act_eval statement_eval lookup_eval sample_canonical
      validate_account_id_def validate_identifier_def created_store_def empty_db_def
      issue_session_locked_def normalize_session_metadata_def delete_expired_sessions_locked_def
      evict_sessions_locked_def sample_new_session_token sample_session_id auth_limits Let_def bind_text_def guardA_def
      session_check_def hex_identifier_def signed_in_store_def signed_in_session_def)

lemma signed_in_reachable: "reachable sample_env signed_in_store"
proof -
  have "reachable sample_env (opened 0 0)" by (rule reachable.opened)
  then have "reachable sample_env (snd (create_account sample_env sample_email (PyStr (lit ''user'')) (PyBool False) (opened 0 0)))"
    by (rule reachable.step) (rule auth_step.intros)
  then have "reachable sample_env created_store" by (simp add: opened_def sample_created)
  from reachable.step [OF this auth_step.intros(13)] show ?thesis
    by (simp add: sample_signed_in flip: sample_signed_in)
qed

theorem reachable_session_times_witness:
  "reachable sample_env signed_in_store \<and> signed_in_session \<in> set (sessions (db signed_in_store))
    \<and> absolute_expires_at signed_in_session = s_created_at signed_in_session + 30 * 24 * 60 * 60"
proof -
  have "signed_in_session \<in> set (sessions (db signed_in_store))" by (simp add: signed_in_store_def)
  with reachable_session_times [OF signed_in_reachable this] signed_in_reachable show ?thesis by blast
qed

theorem authenticate_session_sound_witness:
  "schema_inv (db signed_in_store) \<and> (\<exists>p t. authenticate_session sample_env (PyStr sample_token) True signed_in_store = (Inr p, t)
     \<and> sp_account_id p = sample_id)"
proof -
  have inv: "schema_inv (db signed_in_store)"
    using reachable_times_inv [OF signed_in_reachable] by (simp add: times_inv_def)
  obtain r t where run: "authenticate_session sample_env (PyStr sample_token) True signed_in_store = (r, t)"
    by (cases "authenticate_session sample_env (PyStr sample_token) True signed_in_store")
  then obtain p where p: "r = Inr p"
    by (auto simp: authenticate_session_def act_eval statement_eval signed_in_store_def empty_db_def auth_limits
        valid_session_row_locked_def joined_session_def fetchone_def signed_in_session_def Let_def)
  have "reading_seconds (clock sample_env (readings signed_in_store)) = Inr 90" by simp
  from authenticate_session_sound [OF inv this run] p have "sp_account_id p \<in> account_ids (db signed_in_store)" by auto
  then have "sp_account_id p = sample_id" by (simp add: signed_in_store_def empty_db_def)
  with inv run p show ?thesis by simp
qed

end
