(* ===== verification/Auth_Text.thy ===== *)
theory Auth_Text
  imports Auth_Sample
begin

text \<open>
  The text forms that users see and send back: recovery codes in groups of four, opaque tokens
  and TOTP secrets; and that the loop that draws the recovery codes ends.
\<close>

section \<open>Recovery codes\<close>

lemma filter_join_on:
  "list_all (\<lambda>x. c \<notin> set x) xss \<Longrightarrow> filter (\<lambda>x. x \<noteq> c) (join_on c xss) = concat xss"
  by (induction c xss rule: join_on.induct) (auto simp: filter_id_conv)

lemma set_join_on: "set (join_on c xss) \<subseteq> insert c (\<Union> (set ` set xss))"
  by (induction c xss rule: join_on.induct) auto

lemma strip_surrounded:
  assumes "list_all isspace pre" "list_all isspace post" "v \<noteq> []" "\<And>c. c \<in> set v \<Longrightarrow> \<not> isspace c"
  shows "strip (pre @ v @ post) = v"
proof -
  have drop: "dropWhile isspace (xs @ ys) = dropWhile isspace ys" if "list_all isspace xs" for xs ys
    using that by (induction xs) auto
  have stop: "dropWhile isspace (xs @ ys) = xs @ ys" if "xs \<noteq> []" "\<And>c. c \<in> set xs \<Longrightarrow> \<not> isspace c" for xs ys
    using that by (cases xs) auto
  have "list_all isspace (rev post)" using assms(2) by simp
  then have "dropWhile isspace (rev post @ rev v) = rev v"
    using drop [of "rev post" "rev v"] stop [of "rev v" "[]"] assms(3,4) by simp
  with drop [OF assms(1), of "v @ post"] stop [of v post] assms(3,4) show ?thesis
    by (simp add: strip_def lstrip_def rstrip_def)
qed

lemma format_recovery_code_chars:
  assumes "hex_identifier raw" "c \<in> set (format_recovery_code raw)"
  shows "is_hex_char c \<or> c = 45"
  using assms set_join_on [of 45 "chunks 4 raw"] concat_chunks [of 4 raw]
  by (auto simp: format_recovery_code_def hex_identifier_def list_all_iff simp flip: set_concat)

lemma lower_format_recovery_code: "hex_identifier raw \<Longrightarrow> lower (format_recovery_code raw) = format_recovery_code raw"
  unfolding lower_def
  by (rule map_idI) (drule (1) format_recovery_code_chars, auto simp: lower_char_def is_hex_char_def is_digit_def)

lemma read_printed_code:
  assumes "hex_identifier raw" and "lower v = format_recovery_code raw"
    and "list_all isspace pre" and "list_all isspace post"
  shows "normalize_recovery_code (PyStr (pre @ v @ post)) = Inr raw"
proof -
  from assms(1) have raw: "length raw = 32" "\<And>c. c \<in> set raw \<Longrightarrow> is_hex_char c"
    by (auto simp: hex_identifier_def list_all_iff)
  then have ne: "chunks 4 raw \<noteq> []" using concat_chunks [of 4 raw] by auto
  have parts: "set raw = \<Union> (set ` set (chunks 4 raw))"
    using set_concat [of "chunks 4 raw"] by (simp add: concat_chunks)
  have "45 \<notin> set raw" using raw(2) [of 45] by (auto simp: is_hex_char_def is_digit_def)
  then have clean: "list_all (\<lambda>x. 45 \<notin> set x) (chunks 4 raw)" by (auto simp: parts list_all_iff)
  have code: "filter (\<lambda>c. c \<noteq> 45) (format_recovery_code raw) = raw"
    unfolding format_recovery_code_def by (simp add: filter_join_on clean concat_chunks)
  then have "v \<noteq> []" using assms(2) raw(1) by (auto simp: lower_def)
  moreover have "\<not> isspace c" if "c \<in> set v" for c
  proof -
    from that assms(2) have "lower_char c \<in> set (format_recovery_code raw)" by (auto simp: lower_def simp flip: assms(2))
    from format_recovery_code_chars [OF assms(1) this] have "\<not> isspace (lower_char c)"
      by (auto simp: is_hex_char_def is_digit_def isspace_def lower_char_def split: if_splits)
    then show ?thesis by simp
  qed
  ultimately have "strip (pre @ v @ post) = v" by (rule strip_surrounded [OF assms(3,4)])
  with code assms(1,2) show ?thesis by (simp add: normalize_recovery_code_def)
qed

lemma read_recovery_code:
  "hex_identifier raw \<Longrightarrow> normalize_recovery_code (PyStr (format_recovery_code raw)) = Inr raw"
  using read_printed_code [of raw "format_recovery_code raw" "[]" "[]"] by (simp add: lower_format_recovery_code)

text \<open>
  A recovery code as it is shown, with its hyphens, is read back as the value that was drawn,
  also with capital letters and with white space around it.
\<close>

lemma recovery_code_roundtrip:
  assumes "hex_identifier raw" and "lower v = format_recovery_code raw"
    and "list_all isspace pre" and "list_all isspace post"
  shows "normalize_recovery_code (PyStr (pre @ v @ post)) = Inr raw"
  using assms by (rule read_printed_code)

lemma recovery_code_roundtrip_example:
  "normalize_recovery_code (PyStr ([32] @ format_recovery_code (hex (replicate 16 5)) @ [10])) = Inr (hex (replicate 16 5))"
  by (rule recovery_code_roundtrip) (simp_all add: hex_identifier_hex lower_format_recovery_code isspace_def)

section \<open>Tokens and secrets\<close>

text \<open>
  A session or challenge token of 32 random bytes, and a TOTP secret of 20, are read back from
  the text that is handed out; different values have different texts.
\<close>

lemma credential_text_roundtrip:
  assumes "length b = 32" and "length k = 20"
  shows "decode_opaque_token (PyStr (encode_opaque_token b)) = Some b
    \<and> decode_totp_secret env (PyStr (encode_totp_secret k)) = Inr k"
proof
  show "decode_opaque_token (PyStr (encode_opaque_token b)) = Some b"
    using assms(1) by (rule decode_encode_opaque_token)
  have chars: "set (encode_totp_secret k) \<subseteq> set base32_alphabet"
    unfolding encode_totp_secret_def b32encode_def by (rule set_encode_digits) (simp_all add: alphabet_defs)
  have len: "length (encode_totp_secret k) = 32"
    by (simp add: encode_totp_secret_def b32encode_def length_encode_digits assms(2))
  have up: "upper env s = s" if "set s \<subseteq> set base32_alphabet" for s
    using that by (induction s) (auto simp: upper_def upper_char_def alphabet_defs)
  have "filter (\<lambda>c. \<not> isspace c) (encode_totp_secret k) = encode_totp_secret k"
    using chars by (auto simp: filter_id_conv isspace_def alphabet_defs)
  moreover have "isascii (encode_totp_secret k)"
    using chars by (auto simp: isascii_def list_all_iff alphabet_defs)
  moreover have "encode_totp_secret k \<noteq> []" using len by auto
  moreover have "b32decode (encode_totp_secret k) = Some k" by (simp add: encode_totp_secret_def)
  ultimately show "decode_totp_secret env (PyStr (encode_totp_secret k)) = Inr k"
    using up [OF chars] len assms(2) by (simp add: decode_totp_secret_def auth_limits)
qed

lemma credential_text_roundtrip_example:
  "decode_opaque_token (PyStr (encode_opaque_token (replicate 32 7))) = Some (replicate 32 7)
    \<and> decode_totp_secret sample_env (PyStr (encode_totp_secret (replicate 20 9))) = Inr (replicate 20 9)"
  by (rule credential_text_roundtrip) simp_all

section \<open>The loop that draws recovery codes\<close>

lemma recovery_loop_ends:
  assumes "\<And>j. k \<le> j \<Longrightarrow> drawn env j 16 \<noteq> None"
    and "10 \<le> card (set seen \<union> (\<lambda>j. hex (the (drawn env j 16))) ` {k..<k + n})"
  shows "\<exists>codes k'. recovery_loop env seen k = Some (Inr codes, k')"
  using assms
proof (induction n arbitrary: seen k)
  case 0
  then have "10 \<le> length seen" using card_length [of seen] by (auto intro: le_trans)
  then show ?case by (simp add: recovery_loop.simps auth_limits)
next
  case (Suc n)
  let ?h = "\<lambda>j. hex (the (drawn env j 16))"
  have split: "{k..<k + Suc n} = insert k {Suc k..<Suc k + n}" by auto
  have next_draws: "\<And>j. Suc k \<le> j \<Longrightarrow> drawn env j 16 \<noteq> None" using Suc.prems(1) by simp
  show ?case
  proof (cases "10 \<le> length seen")
    case True
    then show ?thesis by (simp add: recovery_loop.simps auth_limits)
  next
    case False
    show ?thesis
    proof (cases "?h k \<in> set seen")
      case True
      with Suc.prems(2) have "10 \<le> card (set seen \<union> ?h ` {Suc k..<Suc k + n})"
        unfolding split by (simp add: insert_absorb)
      from Suc.IH [OF next_draws this] False True Suc.prems(1) [of k] show ?thesis
        by (simp add: recovery_loop.simps [of env seen k] auth_limits)
    next
      case new: False
      from Suc.prems(2) have "10 \<le> card (set (seen @ [?h k]) \<union> ?h ` {Suc k..<Suc k + n})"
        unfolding split by simp
      from Suc.IH [OF next_draws this] False new Suc.prems(1) [of k] show ?thesis
        by (simp add: recovery_loop.simps [of env seen k] auth_limits)
    qed
  qed
qed

text \<open>
  C19. Drawing recovery codes ends: when the source gives 16 bytes each time and ten different
  values among the next \<open>n\<close>, ten different codes in the printed form are returned.
\<close>

theorem generate_recovery_codes_returns:
  assumes "\<And>j. draws s \<le> j \<Longrightarrow> \<exists>b. random_source env j 16 = PyBytes b \<and> length b = 16"
    and "10 \<le> card ((\<lambda>j. random_source env j 16) ` {draws s..<draws s + n})"
  shows "\<exists>codes t. generate_recovery_codes env s = (Inr codes, t) \<and> fresh_codes codes \<and> db t = db s"
proof -
  let ?h = "\<lambda>j. hex (the (drawn env j 16))"
  have drawn: "\<exists>b. drawn env j 16 = Some b \<and> random_source env j 16 = PyBytes b" if "draws s \<le> j" for j
    using assms(1) [OF that] by (auto simp: drawn_def)
  have "inj_on (\<lambda>v. case v of PyBytes b \<Rightarrow> hex b) ((\<lambda>j. random_source env j 16) ` {draws s..<draws s + n})"
  proof (rule inj_onI, clarsimp)
    fix i j
    assume "draws s \<le> i" "draws s \<le> j"
      and eq: "(case random_source env i 16 of PyBytes b \<Rightarrow> hex b) = (case random_source env j 16 of PyBytes b \<Rightarrow> hex b)"
    then obtain b c where "random_source env i 16 = PyBytes b" "random_source env j 16 = PyBytes c"
      using drawn by blast
    with eq show "random_source env i 16 = random_source env j 16" by simp (metis hex_inverse option.inject)
  qed
  from card_image [OF this] have "card ((\<lambda>v. case v of PyBytes b \<Rightarrow> hex b) ` (\<lambda>j. random_source env j 16) ` {draws s..<draws s + n})
    = card ((\<lambda>j. random_source env j 16) ` {draws s..<draws s + n})" .
  moreover have "(\<lambda>v. case v of PyBytes b \<Rightarrow> hex b) ` (\<lambda>j. random_source env j 16) ` {draws s..<draws s + n} = ?h ` {draws s..<draws s + n}"
    unfolding image_image by (rule image_cong) (use drawn in fastforce)+
  ultimately have "10 \<le> card (set [] \<union> ?h ` {draws s..<draws s + n})" using assms(2) by simp
  with drawn have "\<exists>codes k'. recovery_loop env [] (draws s) = Some (Inr codes, k')"
    by (intro recovery_loop_ends) auto
  then show ?thesis
    using recovery_loop_result [of env "[]" "draws s"] by (auto simp: generate_recovery_codes_def)
qed

theorem generate_recovery_codes_returns_witness:
  "\<exists>codes t. generate_recovery_codes sample_env created_store = (Inr codes, t) \<and> fresh_codes codes \<and> db t = db created_store"
proof (rule generate_recovery_codes_returns [where n = 10])
  have inj: "inj_on (\<lambda>j. sample_random j 16) {1..<11}"
  proof (rule inj_onI)
    fix i j :: nat
    assume "i \<in> {1..<11}" "j \<in> {1..<11}" "sample_random i 16 = sample_random j 16"
    then have "(word_of_nat i :: 8 word) = word_of_nat j" "i < 2 ^ 8" "j < 2 ^ 8" by (simp_all add: sample_random_def)
    then show "i = j" by (simp add: word_of_nat_eq_iff take_bit_nat_eq_self)
  qed
  show "10 \<le> card ((\<lambda>j. random_source sample_env j 16) ` {draws created_store..<draws created_store + 10})"
    using card_image [OF inj] by (simp add: created_store_def)
qed (simp add: sample_random_def)

end
