(* ===== verification/Auth_Outcomes.thy ===== *)
theory Auth_Outcomes
  imports Auth_Sessions Auth_Text
begin

text \<open>
  What the login operations leave behind, success and failure alike: the session they issue, the
  factor they use up, the failure they record, and what the operations that change a factor
  revoke.
\<close>

section \<open>Issuing a session\<close>

text \<open>
  The session that \<open>_issue_session_locked\<close> issues to account \<open>a\<close>: its row is new, the token it
  returns is the one whose digest the row has, and apart from sessions (and the passkey challenges
  bound to sessions it evicts) nothing changes.
\<close>

definition issued_to :: "auth_env \<Rightarrow> auth_account \<Rightarrow> int \<Rightarrow> IssuedSession \<Rightarrow> auth_db \<Rightarrow> auth_db \<Rightarrow> bool" where
  "issued_to env a now iss d d' \<longleftrightarrow>
     accounts d' = accounts d \<and> pending_challenges d' = pending_challenges d \<and> recovery_codes d' = recovery_codes d
     \<and> sp_account_id (principal iss) = account_id a \<and> sp_email (principal iss) = canonical_email a
     \<and> sp_role (principal iss) = role a
     \<and> (\<exists>kept row. sessions d' = kept @ [row] \<and> set kept \<subseteq> set (sessions d)
          \<and> session_digest row = session_key env (PyStr (token iss)) \<and> s_account row = account_id a
          \<and> s_created_at row = now \<and> last_seen_at row = now
          \<and> absolute_expires_at row = now + SESSION_ABSOLUTE_SECONDS \<and> step_up_until row = 0)"

lemma metadata_error: "normalize_session_metadata env ip ua = Inl e \<Longrightarrow> e = ValueError"
  by (cases ua) (auto simp: normalize_session_metadata_def Let_def res_simps
      dest: canonical_ip_error split: if_splits)

lemma decrypt_totp_error: "decrypt_totp env a = Inl e \<Longrightarrow> e = AuthenticationDataError"
  by (auto simp: decrypt_totp_def split: option.splits if_splits)

lemma matching_error: "matching_totp_counter env sec code now = Inl e \<Longrightarrow> e = StructError \<or> e = IndexError"
proof -
  have "match_counters env sec b m cs = Inl e \<Longrightarrow> e = StructError \<or> e = IndexError" for b m cs
    by (induction cs arbitrary: m) (auto simp: res_simps totp_for_counter_def Let_def split: if_splits)
  then show "matching_totp_counter env sec code now = Inl e \<Longrightarrow> e = StructError \<or> e = IndexError"
    by (simp add: matching_totp_counter_def Let_def)
qed

lemma wp_issue_session:
  assumes Q: "\<And>iss d'. issued_to env a now iss d d' \<Longrightarrow> Q iss d'"
    and E: "\<And>e d'. e \<noteq> InvalidSecondFactorError \<Longrightarrow> E e d'"
  shows "wp (issue_session_locked env a now ip ua) Q E d"
  unfolding issue_session_locked_def delete_expired_sessions_locked_def evict_sessions_locked_def Let_def
  by ((rule wp_rules | rule E Q | (simp; fail) | (drule metadata_error, simp; fail)
     | (simp add: issued_to_def drop_sessions_def; (rule exI)+; (intro conjI)?; rule refl | force))+)

section \<open>A recorded failure\<close>

text \<open>
  The failure of a challenge: one more failure is counted, and the fifth removes the challenge
  (and releases the enrollment it owns).
\<close>

definition failure_recorded :: "bytes \<Rightarrow> auth_db \<Rightarrow> auth_db \<Rightarrow> bool" where
  "failure_recorded digest d d' \<longleftrightarrow>
     sessions d' = sessions d \<and> recovery_codes d' = recovery_codes d
     \<and> (\<exists>c \<in> set (pending_challenges d). pc_digest c = digest
          \<and> (if pc_failure_count c + 1 < 5
             then accounts d' = accounts d \<and> pending_challenges d' =
               set_where (\<lambda>r. pc_digest r = digest) (\<lambda>r. r\<lparr>pc_failure_count := pc_failure_count c + 1\<rparr>) (pending_challenges d)
             else pending_challenges d' = delete_rows (\<lambda>r. pc_digest r = digest) (pending_challenges d)))"

lemma wp_record_failure:
  assumes "c \<in> set (pending_challenges d)" "pc_digest c = digest"
    and Q: "\<And>d'. failure_recorded digest d d' \<Longrightarrow> Q () d'"
    and E: "\<And>e d'. e \<noteq> InvalidSecondFactorError \<Longrightarrow> E e d'"
  shows "wp (record_challenge_failure_locked env digest (pc_failure_count c)) Q E d"
  unfolding record_challenge_failure_locked_def release_pending_enrollment_locked_def Let_def
  by (rule wp_rules | rule E | (simp; fail)
     | (rule Q, use assms(1,2) in \<open>auto simp: failure_recorded_def auth_limits\<close>; fail))+

section \<open>The second factor of a login\<close>

text \<open>
  The outcome of \<open>complete_totp_challenge\<close> at time \<open>now\<close>, for the challenge with a digest: the
  challenge is live and belongs to an active account, the code is that of a counter near the
  clock and above the recorded one, which is recorded; the challenge is gone and a session is
  issued.
\<close>

definition totp_login ::
  "auth_env \<Rightarrow> bytes \<Rightarrow> pyval \<Rightarrow> int \<Rightarrow> IssuedSession \<Rightarrow> auth_db \<Rightarrow> auth_db \<Rightarrow> bool" where
  "totp_login env digest code now iss d d' \<longleftrightarrow>
     (\<exists>c a a' sec counter d1. c \<in> set (pending_challenges d) \<and> pc_digest c = digest \<and> now < pc_expires_at c
        \<and> a \<in> set (accounts d) \<and> account_id a = pc_account c \<and> enrollment_state a = ACTIVE
        \<and> decrypt_totp env a = Inr sec \<and> code_of_counter env sec code counter
        \<and> totp_last_counter a < counter \<and> \<bar>counter - now div 30\<bar> \<le> 1
        \<and> a' = a\<lparr>totp_last_counter := counter, updated_at := now\<rparr>
        \<and> d1 = d\<lparr>accounts := set_where (\<lambda>b. account_id b = account_id a)
              (\<lambda>b. b\<lparr>totp_last_counter := counter, updated_at := now\<rparr>) (accounts d),
            pending_challenges := delete_rows (\<lambda>r. pc_digest r = digest) (pending_challenges d)\<rparr>
        \<and> issued_to env a' now iss d1 d')"

lemma wp_record_counter:
  assumes "enroll_inv d" "row \<in> set (accounts d)" "enrollment_state row = ACTIVE" "totp_last_counter row < c"
    and "Q 1 (d\<lparr>accounts := set_where (\<lambda>a. account_id a = account_id row) f (accounts d)\<rparr>)" "E IntegrityError d"
  shows "wp (update_accounts (\<lambda>a. account_id a = account_id row \<and> enrollment_state a = ACTIVE
    \<and> totp_last_counter a < c) f) Q E d"
  by (intro wp_rules) (use assms counter_update [OF assms(1-4)] in simp_all)

lemma required_row_Inr [res_simps]: "required_row r = Inr x \<longleftrightarrow> r = Some x"
  by (auto simp: required_row_def split: option.splits)

lemma required_row_Inl [res_simps]: "required_row r = Inl e \<longleftrightarrow> r = None \<and> e = AuthenticationDataError"
  by (auto simp: required_row_def split: option.splits)

lemma updated_row:
  assumes "enroll_inv d" "a \<in> set (accounts d)" "b \<in> set (set_where (\<lambda>r. account_id r = account_id a) f (accounts d))"
    "account_id b = account_id a" "\<And>r. account_id (f r) = account_id r"
  shows "b = f a"
proof -
  from assms(3) obtain r where r: "r \<in> set (accounts d)" "b = (if account_id r = account_id a then f r else r)"
    unfolding set_set_where by blast
  with assms(4,5) have "account_id r = account_id a" by (auto split: if_splits)
  with enroll_unique [OF assms(1) r(1) assms(2)] r show ?thesis by simp
qed

lemma totp_loginI:
  assumes "enroll_inv d" "c \<in> set (pending_challenges d)" "pc_digest c = digest" "now < pc_expires_at c"
    and a: "a \<in> set (accounts d)" "account_id a = pc_account c" "enrollment_state a = ACTIVE"
    and code: "decrypt_totp env a = Inr sec" "matching_totp_counter env sec code now = Inr (Some n)" "totp_last_counter a < n"
    and row: "fetchone (\<lambda>b. account_id b = pc_account c) (set_where (\<lambda>b. account_id b = pc_account c)
        (\<lambda>b. b\<lparr>totp_last_counter := n, updated_at := now\<rparr>) (accounts d)) = Some a'"
    and iss: "issued_to env a' now iss (d\<lparr>accounts := set_where (\<lambda>b. account_id b = pc_account c)
        (\<lambda>b. b\<lparr>totp_last_counter := n, updated_at := now\<rparr>) (accounts d),
        pending_challenges := delete_rows (\<lambda>r. pc_digest r = digest) (pending_challenges d)\<rparr>) d'"
  shows "totp_login env digest code now iss d d'"
proof -
  from fetchone_Some [OF row] a(2) have a': "a' = a\<lparr>totp_last_counter := n, updated_at := now\<rparr>"
    by (intro updated_row [OF assms(1) a(1), where f = "\<lambda>b. b\<lparr>totp_last_counter := n, updated_at := now\<rparr>"]) (simp_all add: a(2))
  from matching_counter_result [OF code(2)] have "code_of_counter env sec code n" "\<bar>n - now div 30\<bar> \<le> 1" by simp_all
  note facts = this assms(2-4) a(1-3) code(1,3) a' refl iss [folded a(2)]
  show ?thesis
    unfolding totp_login_def
    by (rule exI [of _ c], rule exI [of _ a], rule exI [of _ a'], rule exI [of _ sec], rule exI [of _ n], rule exI)
      (intro conjI; rule facts)
qed

abbreviation challenge_key :: "auth_env \<Rightarrow> pyval \<Rightarrow> bytes" where
  "challenge_key env tok \<equiv> opaque_digest env (challenge_digest_key env) tok"


text \<open>The store with an active account and a login challenge, before any session was issued.\<close>

definition ready_store :: "auth_db store" where
  "ready_store = active_store\<lparr>db := (db active_store)\<lparr>sessions := []\<rparr>, draws := 1\<rparr>"

lemma ready_store_inv: "enroll_inv (db ready_store)"
proof -
  have "drop_sessions (\<lambda>_. True) (db active_store) = db ready_store"
    by (simp add: drop_sessions_def ready_store_def active_store_def empty_db_def delete_rows_def)
  moreover have "preserves enroll_inv (delete_sessions (\<lambda>_. True))" by (intro preserves_rules)
  from preservesD [OF this active_store_inv] have "enroll_inv (drop_sessions (\<lambda>_. True) (db active_store))"
    by (simp add: delete_sessions_def executeA_def)
  ultimately show ?thesis by simp
qed

lemmas ready_eval = act_eval statement_eval lookup_eval ready_store_def active_store_def empty_db_def
  sample_challenge_def second_factor_result_def auth_limits Let_def

lemma sample_issue:
  "draws s = 1 \<Longrightarrow> sessions (db s) = [] \<Longrightarrow> a \<in> set (accounts (db s)) \<Longrightarrow> length (account_id a) = 32 \<Longrightarrow>
     issue_session_locked sample_env a 90 PyNone PyNone s \<noteq> (Inl e, t)"
  using hex_identifier_hex [of "replicate 15 7 @ [2]"]
  by (simp add: issue_session_locked_def act_eval statement_eval normalize_session_metadata_def
      delete_expired_sessions_locked_def evict_sessions_locked_def sample_new_session_token sample_session_id
      auth_limits Let_def bind_text_def guardA_def session_check_def hex_identifier_def)


section \<open>Recovery codes\<close>

text \<open>
  The outcome of \<open>complete_recovery_challenge\<close>: a stored code of an active account is used up,
  and before the session is issued every challenge, passkey ceremony and session of the account is
  removed.
\<close>

definition recovery_login ::
  "auth_env \<Rightarrow> bytes \<Rightarrow> pystr \<Rightarrow> int \<Rightarrow> IssuedSession \<Rightarrow> auth_db \<Rightarrow> auth_db \<Rightarrow> bool" where
  "recovery_login env digest normalized now iss d d' \<longleftrightarrow>
     (\<exists>c a used d1. c \<in> set (pending_challenges d) \<and> pc_digest c = digest \<and> now < pc_expires_at c
        \<and> a \<in> set (accounts d) \<and> account_id a = pc_account c \<and> enrollment_state a = ACTIVE
        \<and> used \<in> set (recovery_codes d) \<and> rc_account used = account_id a
        \<and> code_digest used = recovery_digest env (account_id a) normalized
        \<and> d1 = drop_sessions (\<lambda>r. s_account r = account_id a)
            (d\<lparr>recovery_codes := delete_rows (\<lambda>r. rc_account r = account_id a \<and> code_digest r = code_digest used) (recovery_codes d),
               pending_challenges := delete_rows (\<lambda>r. pc_account r = account_id a) (pending_challenges d),
               passkey_challenges := delete_rows (\<lambda>k. pkc_account k = Some (account_id a)) (passkey_challenges d)\<rparr>)
        \<and> issued_to env a now iss d1 d')"

lemma wp_consume_code:
  assumes inv: "schema_inv d"
    and one: "\<And>u. u \<in> set (recovery_codes d) \<Longrightarrow> rc_account u = i \<Longrightarrow> code_digest u = v \<Longrightarrow>
      Q 1 (d\<lparr>recovery_codes := delete_rows (\<lambda>r. rc_account r = i \<and> code_digest r = v) (recovery_codes d)\<rparr>)"
    and none: "Q 0 d"
  shows "wp (delete_recovery_codes (\<lambda>r. rc_account r = i \<and> code_digest r = v)) Q E d"
proof (rule wp_rules, cases "\<exists>u \<in> set (recovery_codes d). rc_account u = i \<and> code_digest u = v")
  case True
  let ?P = "\<lambda>r. rc_account r = i \<and> code_digest r = v"
  have "rowcount ?P (recovery_codes d) \<le> 1"
    by (rule rowcount_conflict [OF schema_tables(2) [OF inv]]) (simp add: recovery_code_conflict_def)
  moreover have "0 < rowcount ?P (recovery_codes d)" using True by (simp add: rowcount_pos_iff)
  ultimately have "rowcount ?P (recovery_codes d) = 1" by linarith
  with True one show "Q (rowcount ?P (recovery_codes d)) (d\<lparr>recovery_codes := delete_rows ?P (recovery_codes d)\<rparr>)" by auto
next
  case False
  let ?P = "\<lambda>r. rc_account r = i \<and> code_digest r = v"
  from False have "rowcount ?P (recovery_codes d) = 0" "delete_rows ?P (recovery_codes d) = recovery_codes d"
    by (auto intro: delete_rows_none simp: rowcount_def filter_empty_conv)
  with none show "Q (rowcount ?P (recovery_codes d)) (d\<lparr>recovery_codes := delete_rows ?P (recovery_codes d)\<rparr>)" by simp
qed

lemma recovery_loginI:
  assumes "enroll_inv d" "c \<in> set (pending_challenges d)" "pc_digest c = digest" "now < pc_expires_at c"
    and a: "a \<in> set (accounts d)" "account_id a = pc_account c" "enrollment_state a = ACTIVE"
    and u: "used \<in> set (recovery_codes d)" "rc_account used = pc_account c"
      "code_digest used = recovery_digest env (pc_account c) normalized"
    and row: "fetchone (\<lambda>b. account_id b = pc_account c) (accounts d) = Some a'"
    and iss: "issued_to env a' now iss (drop_sessions (\<lambda>r. s_account r = pc_account c)
            (d\<lparr>recovery_codes := delete_rows (\<lambda>r. rc_account r = pc_account c
                 \<and> code_digest r = recovery_digest env (pc_account c) normalized) (recovery_codes d),
               pending_challenges := delete_rows (\<lambda>r. pc_account r = pc_account c) (pending_challenges d),
               passkey_challenges := delete_rows (\<lambda>k. pkc_account k = Some (pc_account c)) (passkey_challenges d)\<rparr>)) d'"
  shows "recovery_login env digest normalized now iss d d'"
proof -
  have "a' = a" using fetchone_Some [OF row] a by (intro enroll_unique [OF assms(1)]) simp_all
  note facts = assms(2-4) a u [folded a(2)] refl iss [folded a(2) u(3), unfolded this, folded a(2)]
  show ?thesis
    unfolding recovery_login_def
    by (rule exI [of _ c], rule exI [of _ a], rule exI [of _ used], rule exI) (intro conjI; rule facts)
qed

lemma run_lift:
  "bindA (liftE v) f s = (r, t) \<Longrightarrow> (\<And>e. v = Inl e \<Longrightarrow> r = Inl e \<Longrightarrow> t = s \<Longrightarrow> thesis) \<Longrightarrow>
     (\<And>x. v = Inr x \<Longrightarrow> f x s = (r, t) \<Longrightarrow> thesis) \<Longrightarrow> thesis"
  by (cases v) (auto simp: bindA_def liftE_def)

lemma normalize_code_error: "normalize_recovery_code v = Inl e \<Longrightarrow> e = ValueError"
  by (cases v) (auto simp: normalize_recovery_code_def Let_def split: if_splits)



section \<open>Signing out\<close>

text \<open>No pending challenge or passkey ceremony of the account is left; no session either.\<close>

definition ceremonies_ended :: "pyval \<Rightarrow> auth_db \<Rightarrow> bool" where
  "ceremonies_ended v d \<longleftrightarrow>
     list_all (\<lambda>c. v \<noteq> PyStr (pc_account c)) (pending_challenges d)
     \<and> list_all (\<lambda>k. \<forall>i. pkc_account k = Some i \<longrightarrow> v \<noteq> PyStr i) (passkey_challenges d)"

definition signed_out :: "pyval \<Rightarrow> auth_db \<Rightarrow> bool" where
  "signed_out v d \<longleftrightarrow> list_all (\<lambda>r. v \<noteq> PyStr (s_account r)) (sessions d) \<and> ceremonies_ended v d"

lemma signed_out_drop:
  "list_all (\<lambda>c. pc_account c \<noteq> i) (pending_challenges d) \<Longrightarrow> list_all (\<lambda>k. pkc_account k \<noteq> Some i) (passkey_challenges d) \<Longrightarrow>
     signed_out (PyStr i) (drop_sessions (\<lambda>r. s_account r = i) d)"
  by (auto simp: signed_out_def ceremonies_ended_def drop_sessions_def list_all_iff)

lemma wp_clear_signed_out:
  "(\<And>d'. signed_out (PyStr i) d' \<Longrightarrow> Q () d') \<Longrightarrow> wp (clear_logins_locked i) Q E d"
  unfolding clear_logins_locked_def by (rule wp_rules | simp add: signed_out_drop list_all_iff; fail)+

lemma wp_revoke_signed_out:
  "(\<And>n d'. signed_out (PyStr i) d' \<Longrightarrow> Q n d') \<Longrightarrow> (\<And>e d'. E e d') \<Longrightarrow>
     wp (revoke_account_authentication_locked env i) Q E d"
  unfolding revoke_account_authentication_locked_def revoke_pending_challenges_locked_def
  by (rule wp_rules | simp add: signed_out_drop list_all_iff; fail)+

lemma signing_out_ops:
  "wp (reset_totp env v) (\<lambda>_. signed_out v) (\<lambda>_ _. True) d"
  "wp (rotate_totp env v) (\<lambda>_. signed_out v) (\<lambda>_ _. True) d"
  "wp (regenerate_recovery_codes env v code) (\<lambda>_. signed_out v) (\<lambda>_ _. True) d"
  "wp (set_role env v r True) (\<lambda>_. signed_out v) (\<lambda>_ _. True) d"
  "wp (set_password_change_required env v q True) (\<lambda>_. signed_out v) (\<lambda>_ _. True) d"
  "wp (revoke_sessions env v) (\<lambda>_. signed_out v) (\<lambda>_ _. True) d"
  unfolding reset_totp_def rotate_totp_def regenerate_recovery_codes_def set_role_def
    set_password_change_required_def revoke_sessions_def
  by (rule wp_clear_signed_out wp_revoke_signed_out
      wp_any [where m = "store_recovery_codes_locked e i c n" for e i c n]
      wp_any [where m = "consume_totp_locked e i c n" for e i c n] | rule wp_rules | (simp; fail) | (drule valid_account_id, simp; fail))+

text \<open>Without revocation the ceremonies end and every session is kept.\<close>

lemma wp_revoke_pending_only:
  assumes Q: "\<And>d'. ceremonies_ended (PyStr i) d' \<Longrightarrow> sessions d' = sessions d \<Longrightarrow> Q () d'" and E: "\<And>e d'. E e d'"
  shows "wp (revoke_pending_challenges_locked env i) Q E d"
  unfolding revoke_pending_challenges_locked_def
  by (intro wp_rules Q E) (auto simp: ceremonies_ended_def list_all_iff)

lemma keeping_sessions_ops:
  "wp (set_role env v r False) (\<lambda>_ d'. ceremonies_ended v d' \<and> sessions d' = sessions d) (\<lambda>_ _. True) d"
  "wp (set_password_change_required env v q False)
     (\<lambda>_ d'. ceremonies_ended v d' \<and> sessions d' = sessions d) (\<lambda>_ _. True) d"
  unfolding set_role_def set_password_change_required_def
  by (rule wp_revoke_pending_only | rule wp_rules | (simp; fail) | (drule valid_account_id, simp; fail))+

text \<open>
  C6. After a successful \<open>reset_totp\<close>, \<open>rotate_totp\<close>, \<open>regenerate_recovery_codes\<close> or
  \<open>revoke_sessions\<close>, or \<open>set_role\<close> or \<open>set_password_change_required\<close> with
  \<open>revoke_sessions=True\<close>, no session, pending challenge or passkey ceremony of the account is left.
  With \<open>revoke_sessions=False\<close> the two setters still end every pending challenge and ceremony of the
  account, and keep all sessions.
\<close>

theorem factor_changes_sign_out:
  "(reset_totp env v s = (Inr x1, t) \<longrightarrow> signed_out v (db t))
   \<and> (rotate_totp env v s = (Inr x2, t) \<longrightarrow> signed_out v (db t))
   \<and> (regenerate_recovery_codes env v code s = (Inr x3, t) \<longrightarrow> signed_out v (db t))
   \<and> (set_role env v r True s = (Inr x4, t) \<longrightarrow> signed_out v (db t))
   \<and> (set_password_change_required env v q True s = (Inr x5, t) \<longrightarrow> signed_out v (db t))
   \<and> (revoke_sessions env v s = (Inr x6, t) \<longrightarrow> signed_out v (db t))
   \<and> (set_role env v r False s = (Inr x7, t) \<longrightarrow> ceremonies_ended v (db t) \<and> sessions (db t) = sessions (db s))
   \<and> (set_password_change_required env v q False s = (Inr x8, t) \<longrightarrow>
        ceremonies_ended v (db t) \<and> sessions (db t) = sessions (db s))"
  by (auto dest: wp_success [OF signing_out_ops(1)] wp_success [OF signing_out_ops(2)]
      wp_success [OF signing_out_ops(3)] wp_success [OF signing_out_ops(4)] wp_success [OF signing_out_ops(5)]
      wp_success [OF signing_out_ops(6)] wpD(1) [OF keeping_sessions_ops(1)] wpD(1) [OF keeping_sessions_ops(2)])

theorem factor_changes_sign_out_witness:
  "\<exists>x t. reset_totp sample_env (PyStr sample_id) active_store = (Inr x, t) \<and> signed_out (PyStr sample_id) (db t)
    \<and> sessions (db active_store) \<noteq> []"
proof -
  obtain r t where run: "reset_totp sample_env (PyStr sample_id) active_store = (r, t)"
    by (cases "reset_totp sample_env (PyStr sample_id) active_store")
  then obtain x where "r = Inr x"
    by (auto simp: reset_totp_def act_eval statement_eval lookup_eval active_store_def empty_db_def clear_logins_locked_def
        validate_account_id_def validate_identifier_def sample_id_hex to_required_def account_check_def not_false_length)
  with run factor_changes_sign_out [of sample_env "PyStr sample_id" active_store x t] show ?thesis
    by (auto simp: active_store_def)
qed

text \<open>
  A token that was revoked no longer authenticates: after \<open>revoke_session\<close>
  returned, \<open>authenticate_session\<close> with the same token raises
  \<open>InvalidSessionError\<close> at any later clock reading, as long as the clock can be read and the store
  is open.
\<close>

lemma revoked_token_rejected:
  assumes "revoke_session env tok s = (Inr b, t)"
    and "db u = db t" and "\<not> closed u" and "reading_seconds (clock env (readings u)) = Inr now"
  shows "fst (authenticate_session env tok touch u) = Inl InvalidSessionError"
proof -
  have "wp (revoke_session env tok) (\<lambda>_ d. session_key env tok \<notin> session_digests d) (\<lambda>_ _. True) d" for d
    unfolding revoke_session_def Let_def by (rule wp_rules | auto simp: drop_sessions_def)+
  from wp_success [OF this assms(1)] have "session_key env tok \<notin> session_digests (db t)" .
  then have "fetchone (\<lambda>r. session_digest r = session_key env tok) (sessions (db u)) = None"
    using assms(2) unfolding fetchone_None_iff by (metis image_eqI)
  then have none: "joined_session (db u) (session_key env tok) = None" by (simp add: joined_session_def)
  show ?thesis
    using assms(3,4) none
    by (simp add: authenticate_session_def Let_def act_eval valid_session_row_locked_def)
qed

lemma revoked_token_rejected_example:
  "\<exists>t. revoke_session sample_env (PyStr sample_token) signed_in_store = (Inr True, t)
     \<and> fst (authenticate_session sample_env (PyStr sample_token) True t) = Inl InvalidSessionError"
proof -
  obtain t where run: "revoke_session sample_env (PyStr sample_token) signed_in_store = (Inr True, t)" "\<not> closed t"
    by (simp add: revoke_session_def act_eval statement_eval signed_in_store_def empty_db_def signed_in_session_def Let_def)
  from revoked_token_rejected [OF run(1) refl run(2), of 90 True] run(1) show ?thesis by simp
qed

end
