(* ===== verification/Auth_Rate_Bounds.thy ===== *)
theory Auth_Rate_Bounds
  imports Auth_Frames
begin

text \<open>
  The rate limiter counts no more attempts in a window than its policy allows, and an attempt
  that is refused counts for nothing.
\<close>

definition scope_limit :: "rate_scope \<Rightarrow> int" where
  "scope_limit scope = (case scope of GLOBAL \<Rightarrow> 120 | IP \<Rightarrow> 30 | ACCOUNT \<Rightarrow> 15 | PAIR \<Rightarrow> 10)"

definition rates_inv :: "auth_db \<Rightarrow> bool" where
  "rates_inv d \<longleftrightarrow> distinct (map rate_key (rate_limits d))
     \<and> (\<forall>r \<in> set (rate_limits d). attempt_count r \<le> scope_limit (rl_scope r))"

text \<open>The policies of both checks: distinct scopes, positive windows, the limits above.\<close>

definition policies_ok :: "(rate_scope \<times> int \<times> int) list \<Rightarrow> bool" where
  "policies_ok ps \<longleftrightarrow> distinct (map fst ps) \<and> list_all (\<lambda>(scope, limit, window). limit = scope_limit scope \<and> 0 < window) ps"

lemma policies_ok: "policies_ok RATE_POLICIES" "policies_ok PASSKEY_LOGIN_RATE_POLICIES"
  by (simp_all add: policies_ok_def RATE_POLICIES_def PASSKEY_LOGIN_RATE_POLICIES_def scope_limit_def)

text \<open>
  When the scan finds nothing to refuse, every row it looks at is below its limit: a row at its
  limit whose window is not over gives a positive delay.
\<close>

lemma scan_policies_ge: "retry \<le> scan_policies now ids rows ps retry"
proof (induction ps arbitrary: retry)
  case (Cons p ps)
  obtain scope limit window where p: "p = (scope, limit, window)" by (cases p) auto
  have "retry \<le> scan_policies now ids rows ps (max retry m)" for m
    by (rule order_trans [OF _ Cons]) simp
  with Cons show ?case by (simp add: p Let_def split: option.splits)
qed simp

lemma scan_policies_zero:
  assumes "scan_policies now ids rows ps retry \<le> 0" "(scope, limit, window) \<in> set ps"
    and "rate_row scope (ids scope) rows = Some r" "now - window < window_started_at r" "0 < window"
  shows "attempt_count r < limit"
  using assms
proof (induction now ids rows ps retry rule: scan_policies.induct)
  case (2 now ids rows scope' limit' window' ps retry)
  show ?case
  proof (cases "(scope, limit, window) \<in> set ps")
    case True
    with 2 show ?thesis by (auto simp: Let_def split: option.splits)
  next
    case False
    with 2 have eq: "scope = scope'" "limit = limit'" "window = window'" by auto
    show ?thesis
    proof (rule ccontr)
      assume "\<not> attempt_count r < limit"
      with 2 eq have "scan_policies now ids rows ps (max retry (window - max 0 (now - window_started_at r))) \<le> 0"
        by (simp add: Let_def)
      with scan_policies_ge [of "max retry (window - max 0 (now - window_started_at r))" now ids rows ps] 2
      show False by (auto simp: max_def split: if_splits)
    qed
  qed
qed simp

section \<open>Counting\<close>

text \<open>Room for one more attempt in every policy still to be counted.\<close>

definition room :: "(rate_scope \<Rightarrow> bytes) \<Rightarrow> (rate_scope \<times> int \<times> int) list \<Rightarrow> auth_db \<Rightarrow> bool" where
  "room ids ps d \<longleftrightarrow> (\<forall>scope limit window r. (scope, limit, window) \<in> set ps \<longrightarrow> r \<in> set (rate_limits d) \<longrightarrow>
     rl_scope r = scope \<longrightarrow> identity_digest r = ids scope \<longrightarrow> attempt_count r < scope_limit scope)"

lemma roomD:
  "room ids ((scope, limit, window) # ps) d \<Longrightarrow> r \<in> set (rate_limits d) \<Longrightarrow> rl_scope r = scope \<Longrightarrow>
     identity_digest r = ids scope \<Longrightarrow> attempt_count r < scope_limit scope"
  by (auto simp: room_def)

lemma wp_count_rates:
  assumes "policies_ok ps" "rates_inv d" "room ids ps d"
  shows "wp (forA ps (\<lambda>(scope, _, _). count_attempt_locked scope (ids scope) (l scope) (m scope) now))
    (\<lambda>_. rates_inv) (\<lambda>_ _. True) d"
proof (rule wp_for [where I = "\<lambda>ps d. policies_ok ps \<and> rates_inv d \<and> room ids ps d"])
  fix p ps d
  assume I: "policies_ok (p # ps) \<and> rates_inv d \<and> room ids (p # ps) d"
  obtain scope limit window where p: "p = (scope, limit, window)" by (cases p) auto
  from I have ps: "policies_ok ps" "\<And>l w. (scope, l, w) \<notin> set ps" by (auto simp: policies_ok_def p image_iff)
  show "wp (case p of (scope, _, _) \<Rightarrow> count_attempt_locked scope (ids scope) (l scope) (m scope) now)
      (\<lambda>_ d. policies_ok ps \<and> rates_inv d \<and> room ids ps d) (\<lambda>_ _. True) d"
    unfolding count_attempt_locked_def p prod.case
  proof (intro wp_rules TrueI, goal_cases)
    case 1
    have "(1 :: int) < scope_limit scope" by (simp add: scope_limit_def split: rate_scope.splits)
    moreover from 1 have "(scope, ids scope) \<notin> set (map rate_key (rate_limits d))" by (simp add: rate_row_None_iff)
    ultimately show ?case using I ps by (auto simp: p rates_inv_def room_def rate_key_def)
  next
    case (2 x)
    from I have low: "attempt_count r + 1 \<le> scope_limit scope"
      if "r \<in> set (rate_limits d)" "rl_scope r = scope" "identity_digest r = ids scope" for r
      using roomD [of ids scope limit window ps d r] that by (simp add: p)
    with I ps show ?case
      by (auto simp: p rates_inv_def room_def set_set_where map_set_where rate_key_def)
  qed
qed (use assms in auto)

lemma rates_statements [preserves_rules]:
  "preserves rates_inv (delete_accounts P0)" "preserves rates_inv (insert_account a)" "preserves rates_inv (update_accounts Q0 f0)"
  "preserves rates_inv (delete_recovery_codes P1)" "preserves rates_inv (insert_recovery_code c)"
  "preserves rates_inv (delete_pending_challenges P2)" "preserves rates_inv (insert_pending_challenge p)"
  "preserves rates_inv (update_pending_challenges Q2 f2)" "preserves rates_inv (delete_sessions P3)"
  "preserves rates_inv (insert_session s)" "preserves rates_inv (update_sessions Q3 f3)"
  "preserves rates_inv (delete_passkey_credentials P4)" "preserves rates_inv (insert_passkey_credential k)"
  "preserves rates_inv (update_passkey_credentials Q4 f4)"
  "preserves rates_inv (delete_passkey_challenges P5)" "preserves rates_inv (insert_passkey_challenge h)"
  "preserves rates_inv (update_passkey_challenges Q5 f5)" "preserves rates_inv (delete_rate_limits P6)"
  "preserves rates_inv (delete_mail_rules P7)" "preserves rates_inv (insert_mail_rule r7)"
  "preserves rates_inv (update_mail_rules Q7 f7)"
  "preserves rates_inv (delete_mail_rule_runs P8)" "preserves rates_inv (insert_mail_rule_run r8)"
  "preserves rates_inv (update_mail_rule_runs Q8 f8)"
  by (rule preservesI, rule wp_rules;
      auto simp: rates_inv_def drop_accounts_def drop_sessions_def drop_mail_rules_def Let_def
        distinct_map_delete_rows set_set_where map_set_where rate_key_def)+

interpretation rate_frame: mail_statements rates_inv
proof unfold_locales
  show "preserves rates_inv (issue_session_locked env row now ip ua)" for env row now ip ua
    unfolding issue_session_locked_def delete_expired_sessions_locked_def evict_sessions_locked_def Let_def
    by (intro preserves_rules)
  show "preserves rates_inv (valid_session_row_locked digest now touch)" for digest now touch
    unfolding valid_session_row_locked_def Let_def by (intro preserves_rules)
qed (rule rates_statements)+

interpretation rate_session_frame: session_statements rates_inv
  by unfold_locales (rule rates_statements)

definition current :: "int \<Rightarrow> (rate_scope \<times> int \<times> int) set \<Rightarrow> auth_db \<Rightarrow> bool" where
  "current now ps d \<longleftrightarrow> (\<forall>scope limit window r. (scope, limit, window) \<in> ps \<longrightarrow> r \<in> set (rate_limits d) \<longrightarrow>
     rl_scope r = scope \<longrightarrow> now - window < window_started_at r)"

lemma wp_purge:
  assumes "rates_inv d" and Q: "\<And>d. rates_inv d \<Longrightarrow> current now (set ps) d \<Longrightarrow> Q () d"
  shows "wp (forA ps (\<lambda>(scope, _, window).
      seqA (delete_rate_limits (\<lambda>r. rl_scope r = scope \<and> window_started_at r \<le> now - window)) (returnA ()))) Q E d"
proof (rule wp_for [where I = "\<lambda>qs d. rates_inv d \<and> current now (set ps - set qs) d"], goal_cases)
  case (2 p qs d)
  obtain scope limit window where p: "p = (scope, limit, window)" by (cases p) auto
  let ?d = "d\<lparr>rate_limits := delete_rows (\<lambda>r. rl_scope r = scope \<and> window_started_at r \<le> now - window) (rate_limits d)\<rparr>"
  have "current now (set ps - set qs) ?d"
    unfolding current_def
  proof (intro allI impI)
    fix s l w r
    assume *: "(s, l, w) \<in> set ps - set qs" "r \<in> set (rate_limits ?d)" "rl_scope r = s"
    show "now - w < window_started_at r"
    proof (cases "(s, l, w) = p")
      case True
      with * show ?thesis by (auto simp: p)
    next
      case False
      with * have "(s, l, w) \<in> set ps - set (p # qs)" "r \<in> set (rate_limits d)" by auto
      with 2 *(3) show ?thesis unfolding current_def by blast
    qed
  qed
  moreover from 2 have "rates_inv ?d" by (simp add: rates_inv_def distinct_map_delete_rows)
  ultimately show ?case unfolding p prod.case by (intro wp_rules) simp
qed (use assms in \<open>auto simp: current_def\<close>)

lemma room_when_admitted:
  assumes "policies_ok ps" "current now (set ps) d" "(if scan_policies now ids (rate_limits d) ps retry = 0 \<and> b then m
      else scan_policies now ids (rate_limits d) ps retry) = 0"
    and inv: "rates_inv d"
  shows "room ids ps d"
  unfolding room_def
proof (intro allI impI)
  fix scope limit window r
  assume p: "(scope, limit, window) \<in> set ps" and r0: "r \<in> set (rate_limits d)" "rl_scope r = scope" "identity_digest r = ids scope"
  then have r: "r \<in> set (rate_limits d)" "identity_digest r = ids (rl_scope r)" "scope = rl_scope r" by auto
  have "\<exists>q. rate_row (rl_scope r) (ids (rl_scope r)) (rate_limits d) = Some q"
    using r by (cases "rate_row (rl_scope r) (ids (rl_scope r)) (rate_limits d)") (auto simp: rate_row_def fetchone_None_iff)
  then obtain q where q: "rate_row (rl_scope r) (ids (rl_scope r)) (rate_limits d) = Some q" by blast
  then have "q \<in> set (rate_limits d)" "rl_scope q = rl_scope r" "identity_digest q = identity_digest r"
    using r by (auto simp: rate_row_def dest!: fetchone_Some)
  then have "q = r"
    using key_unique [of rate_key "rate_limits d" q r] inv r by (simp add: rates_inv_def rate_key_def)
  from p assms(1) have "limit = scope_limit (rl_scope r)" "0 < window" by (auto simp: policies_ok_def list_all_iff r(3))
  moreover from assms(3) have "scan_policies now ids (rate_limits d) ps retry \<le> 0" by (auto split: if_splits)
  ultimately show "attempt_count r < scope_limit scope"
    using scan_policies_zero [where ids = ids, OF _ p [unfolded r(3)] q] \<open>q = r\<close> assms(2) p r by (auto simp: current_def)
qed

lemma wp_evict_rates:
  assumes "rates_inv d" "current now ps d" and Q: "\<And>d'. rates_inv d' \<Longrightarrow> current now ps d' \<Longrightarrow> Q () d'"
  shows "wp (executeA (\<lambda>d. Inr ((), d\<lparr>rate_limits := evict_rate_rows n (rate_limits d)\<rparr>))) Q E d"
proof -
  have sub: "set (map snd (filter P (enumerate m rows))) \<subseteq> set rows" for P m and rows :: "rate_limit list"
    by (auto simp: enumerate_eq_zip dest: set_zip_rightD)
  have dist: "distinct (map rate_key rows) \<Longrightarrow> distinct (map rate_key (map snd (filter P (enumerate m rows))))" for P m rows
  proof (induction rows arbitrary: m)
    case (Cons r rows)
    then have "rate_key r \<notin> rate_key ` set rows" by simp
    then have "rate_key r \<notin> rate_key ` set (map snd (filter P (enumerate (Suc m) rows)))"
      using image_mono [OF sub [of P "Suc m" rows], of rate_key] by blast
    with Cons show ?case by (simp add: image_image)
  qed simp
  have rows: "set (evict_rate_rows n (rate_limits d)) \<subseteq> set (rate_limits d)"
    "distinct (map rate_key (rate_limits d)) \<Longrightarrow> distinct (map rate_key (evict_rate_rows n (rate_limits d)))"
    unfolding evict_rate_rows_def Let_def using sub dist by blast+
  then have "rates_inv (d\<lparr>rate_limits := evict_rate_rows n (rate_limits d)\<rparr>)"
    using assms(1) by (auto simp: rates_inv_def)
  moreover have "current now ps (d\<lparr>rate_limits := evict_rate_rows n (rate_limits d)\<rparr>)"
    using assms(2) rows(1) by (auto simp: current_def)
  ultimately show ?thesis by (intro wp_execute) (auto intro: Q)
qed

lemma rates_reserve:
  assumes "policies_ok ps" "rates_inv d"
  shows "wp (reserve_attempt_locked ps ids link now) (\<lambda>_. rates_inv) (\<lambda>_ _. True) d"
  unfolding reserve_attempt_locked_def
  by (rule wp_purge [OF assms(2)] wp_evict_rates wp_mono [OF wp_count_rates [OF assms(1)]] | assumption | rule wp_rules | (simp; fail)
    | (rule room_when_admitted [OF assms(1)], assumption+))+

lemma rates_checks [preserves_rules]:
  "preserves rates_inv (check_login_rate env email ip)"
  "preserves rates_inv (check_passkey_login_rate env ip)"
  unfolding check_login_rate_def check_passkey_login_rate_def rate_result_def
  by (rule preservesI, (rule wp_mono [OF rates_reserve [OF policies_ok(1)]] wp_mono [OF rates_reserve [OF policies_ok(2)]]
    | rule wp_rules | assumption | (simp; fail))+)+

lemma reachable_rates_inv: "reachable env s \<Longrightarrow> rates_inv (db s)"
proof (induction rule: reachable.induct)
  case (opened k n)
  show ?case by (simp add: opened_def rates_inv_def empty_db_def)
next
  case (step s t)
  from step(2,3) show ?case
    by (induction rule: auth_step.induct) (erule preservesD [rotated], rule preserves_rules)+
qed

text \<open>
  C7. In no reachable state has the limiter counted more attempts than its policies allow: in one
  window at most 120 in all, 30 from one client address, 15 for one account and 10 for one account
  and address together, whatever calls were made and however the clock moved; and each identity
  has one row per scope.
\<close>

theorem reachable_rates:
  assumes "reachable env s" and "r \<in> set (rate_limits (db s))"
  shows "attempt_count r \<le> (case rl_scope r of GLOBAL \<Rightarrow> 120 | IP \<Rightarrow> 30 | ACCOUNT \<Rightarrow> 15 | PAIR \<Rightarrow> 10)
    \<and> (\<forall>q \<in> set (rate_limits (db s)). rl_scope q = rl_scope r \<and> identity_digest q = identity_digest r \<longrightarrow> q = r)"
  using reachable_rates_inv [OF assms(1)] assms(2) key_unique [of rate_key "rate_limits (db s)" _ r]
  by (auto simp: rates_inv_def scope_limit_def rate_key_def)

definition rated_store :: "auth_db store" where
  "rated_store = snd (check_login_rate sample_env sample_email (PyStr (lit ''::1'')) (opened 0 0))"

lemma length_sample_rate_digest [simp]: "length (rate_digest sample_env scope v) = 32"
  by (simp add: rate_digest_def sample_hmac_def)

lemmas rate_eval = opened_def check_login_rate_def act_eval statement_eval lookup_eval sample_canonical
  canonical_ip_def text_eval rate_identities_def reserve_attempt_locked_def RATE_POLICIES_def rate_row_def
  count_attempt_locked_def missing_rows_def auth_limits max_window_def rate_result_def empty_db_def
  rate_limit_check_def rate_limit_conflict_def Let_def

lemma sample_rate: "\<exists>r. r \<in> set (rate_limits (db rated_store)) \<and> rl_scope r = PAIR"
  by (simp add: rated_store_def rate_eval conj_disj_distribR ex_disj_distrib)

theorem reachable_rates_witness:
  "reachable sample_env rated_store \<and> (\<exists>r \<in> set (rate_limits (db rated_store)). rl_scope r = PAIR \<and> attempt_count r \<le> 10)"
proof -
  have reach: "reachable sample_env rated_store"
    unfolding rated_store_def by (rule reachable.step [OF reachable.opened auth_step.intros(17)])
  from sample_rate obtain r where r: "r \<in> set (rate_limits (db rated_store))" "rl_scope r = PAIR" by blast
  with reachable_rates [OF reach r(1)] reach show ?thesis by auto
qed

section \<open>Refused attempts\<close>

abbreviation other_error :: "exn \<Rightarrow> bool" where
  "other_error e \<equiv> \<forall>n. e \<noteq> LoginRateLimitedError n"

lemma rate_input_errors:
  "canonicalize_email email = Inl e \<Longrightarrow> other_error e"
  "canonical_ip env ip = Inl e \<Longrightarrow> other_error e"
  "rate_identities env c i = Inl e \<Longrightarrow> other_error e"
  by (auto simp: canonicalize_email_def canonicalize_text_def rate_identities_def Let_def res_simps
      dest: canonical_ip_error split: pyval.splits if_splits prod.splits)

lemma wp_counting: "(\<And>d. Q () d) \<Longrightarrow> (\<And>e d. other_error e \<Longrightarrow> E e d) \<Longrightarrow>
    wp (forA ps (\<lambda>(scope, _, _). count_attempt_locked scope (ids scope) (l scope) (m scope) now)) Q E d"
  unfolding count_attempt_locked_def
  by (rule wp_for_inv [where I = "\<lambda>_. True"]) (auto intro!: wp_rules split: prod.splits)

lemma wp_purge_subset:
  "set (rate_limits d) \<subseteq> R \<Longrightarrow> (\<And>d'. set (rate_limits d') \<subseteq> R \<Longrightarrow> Q () d') \<Longrightarrow>
   wp (forA ps (\<lambda>(scope, _, window).
      seqA (delete_rate_limits (\<lambda>r. rl_scope r = scope \<and> window_started_at r \<le> now - window)) (returnA ()))) Q E d"
  by (rule wp_for_inv [where I = "\<lambda>d. set (rate_limits d) \<subseteq> R"]) (auto intro!: wp_rules split: prod.splits)

lemma wp_evict_subset:
  assumes "set (rate_limits d) \<subseteq> R" and Q: "\<And>d'. set (rate_limits d') \<subseteq> R \<Longrightarrow> Q () d'"
  shows "wp (executeA (\<lambda>d. Inr ((), d\<lparr>rate_limits := evict_rate_rows n (rate_limits d)\<rparr>))) Q E d"
proof (rule wp_execute)
  have "set (evict_rate_rows n (rate_limits d)) \<subseteq> set (rate_limits d)"
    by (auto simp: evict_rate_rows_def Let_def enumerate_eq_zip dest: set_zip_rightD)
  with assms show "Q x d'" if "Inr ((), d\<lparr>rate_limits := evict_rate_rows n (rate_limits d)\<rparr>) = Inr (x, d')" for x d'
    using that by auto
qed simp

text \<open>A positive delay means that rows were at most removed.\<close>

lemma wp_reserve_refused:
  "wp (reserve_attempt_locked ps ids link now)
     (\<lambda>delay d'. delay \<noteq> 0 \<longrightarrow> set (rate_limits d') \<subseteq> set (rate_limits d)) (\<lambda>e _. other_error e) d"
  unfolding reserve_attempt_locked_def
  by (rule wp_purge_subset [OF subset_refl] wp_evict_subset wp_counting | assumption | rule wp_rules | (simp; fail))+

text \<open>
  An attempt that the limiter refuses counts for nothing: when \<open>check_login_rate\<close> raises
  \<open>LoginRateLimitedError\<close>, the delay it reports is at least one second, and no row is added and
  no counter raised, so a caller who keeps trying does not push the end of the window away.
\<close>

theorem refused_login_not_counted:
  assumes "check_login_rate env email ip s = (Inl (LoginRateLimitedError delay), t)"
  shows "1 \<le> delay \<and> set (rate_limits (db t)) \<subseteq> set (rate_limits (db s))"
proof -
  have "wp (check_login_rate env email ip) (\<lambda>_ _. True)
    (\<lambda>e d'. case e of LoginRateLimitedError n \<Rightarrow> 1 \<le> n \<and> set (rate_limits d') \<subseteq> set (rate_limits (db s)) | _ \<Rightarrow> True) (db s)"
    unfolding check_login_rate_def rate_result_def
    by (rule wp_mono [OF wp_reserve_refused] | rule wp_rules | (simp; fail)
      | (auto dest!: rate_input_errors split: exn.splits; fail))+
  from wp_outcome [OF this assms] show ?thesis by simp
qed

text \<open>A store in which the global window is full.\<close>

definition full_store :: "auth_db store" where
  "full_store = (opened 0 0)\<lparr>db := empty_db\<lparr>rate_limits := [\<lparr>rl_scope = GLOBAL,
     identity_digest = rate_digest sample_env ''global'' (ascii_bytes (lit ''all'')), rl_account = None,
     account_identity_digest = None, window_started_at = 80, attempt_count = 120\<rparr>]\<rparr>\<rparr>"

theorem refused_login_not_counted_witness:
  "\<exists>t. check_login_rate sample_env sample_email (PyStr (lit ''::1'')) full_store = (Inl (LoginRateLimitedError 290), t)
     \<and> set (rate_limits (db t)) \<subseteq> set (rate_limits (db full_store))"
proof -
  have "\<exists>t. check_login_rate sample_env sample_email (PyStr (lit ''::1'')) full_store = (Inl (LoginRateLimitedError 290), t)"
    by (simp add: full_store_def rate_eval)
  then show ?thesis using refused_login_not_counted by blast
qed

end
