(* ===== verification/Mail_Rule_Order.thy ===== *)
theory Mail_Rule_Order
  imports Auth_Frames
begin

text \<open>
  The order of the mail rules. The positions of an account's rules are 0, 1, 2 and so on without
  gaps in every reachable state; reordering puts the rules in the order that was asked for.
\<close>

section \<open>Numbered rules\<close>

abbreviation rules_of :: "pystr \<Rightarrow> mail_rule list \<Rightarrow> mail_rule list" where
  "rules_of i rows \<equiv> filter (\<lambda>r. mr_account r = i) rows"

definition numbered :: "pystr \<Rightarrow> mail_rule list \<Rightarrow> bool" where
  "numbered i rows \<longleftrightarrow> position ` set (rules_of i rows) = int ` {..<length (rules_of i rows)}"

definition order_inv :: "auth_db \<Rightarrow> bool" where
  "order_inv d \<longleftrightarrow> (\<forall>i. numbered i (mail_rules d))"

lemma rules_of_drop:
  "rules_of i (delete_rows (\<lambda>r. gone (mr_account r)) rows) = (if gone i then [] else rules_of i rows)"
  by (induction rows) (auto simp: delete_rows_def)

lemma numbered_drop: "numbered i rows \<Longrightarrow> numbered i (delete_rows (\<lambda>r. gone (mr_account r)) rows)"
  unfolding numbered_def rules_of_drop by (cases "gone i") simp_all

lemma numbered_set_where:
  assumes "\<And>r. position (f r) = position r \<and> mr_account (f r) = mr_account r"
  shows "numbered i (set_where P f rows) = numbered i rows"
proof -
  have "map position (rules_of i (set_where P f rows)) = map position (rules_of i rows)"
    using assms by (induction rows) auto
  moreover from this have "length (rules_of i (set_where P f rows)) = length (rules_of i rows)"
    by (metis length_map)
  ultimately show ?thesis unfolding numbered_def by (metis set_map)
qed

section \<open>Operations that do not touch the order\<close>

lemma order_statements [preserves_rules]:
  "preserves order_inv (delete_accounts P0)" "preserves order_inv (insert_account a)" "preserves order_inv (update_accounts Q0 f0)"
  "preserves order_inv (delete_recovery_codes P1)" "preserves order_inv (insert_recovery_code c)"
  "preserves order_inv (delete_pending_challenges P2)" "preserves order_inv (insert_pending_challenge p)"
  "preserves order_inv (update_pending_challenges Q2 f2)" "preserves order_inv (delete_sessions P3)"
  "preserves order_inv (insert_session s)" "preserves order_inv (update_sessions Q3 f3)"
  "preserves order_inv (delete_passkey_credentials P4)" "preserves order_inv (insert_passkey_credential k)"
  "preserves order_inv (update_passkey_credentials Q4 f4)"
  "preserves order_inv (delete_passkey_challenges P5)" "preserves order_inv (insert_passkey_challenge h)"
  "preserves order_inv (update_passkey_challenges Q5 f5)" "preserves order_inv (delete_rate_limits P6)"
  "preserves order_inv (insert_rate_limit r9)" "preserves order_inv (update_rate_limits Q9 f9)"
  "preserves order_inv (executeA (\<lambda>d. Inr ((), d\<lparr>rate_limits := g d\<rparr>)))"
  "preserves order_inv (delete_mail_rule_runs P8)" "preserves order_inv (insert_mail_rule_run r8)"
  "preserves order_inv (update_mail_rule_runs Q8 f8)"
  by (rule preservesI, rule wp_rules wp_execute;
      auto simp: order_inv_def drop_accounts_def drop_sessions_def drop_mail_rules_def Let_def intro: numbered_drop)+

interpretation order_frame: rate_statements order_inv
proof unfold_locales
  show "preserves order_inv (issue_session_locked env row now ip ua)" for env row now ip ua
    unfolding issue_session_locked_def delete_expired_sessions_locked_def evict_sessions_locked_def Let_def
    by (intro preserves_rules)
  show "preserves order_inv (valid_session_row_locked digest now touch)" for digest now touch
    unfolding valid_session_row_locked_def Let_def by (intro preserves_rules)
qed (rule order_statements)+

interpretation order_session_frame: session_statements order_inv
  by unfold_locales (rule order_statements)

lemma order_reads [preserves_rules]:
  "preserves order_inv (list_mail_rules env v)"
  "preserves order_inv (get_mail_rule env v rid)"
  "preserves order_inv (mailbox_rule_reference_count v mb)"
  "preserves order_inv (create_mail_rule_run env v rid snap st)"
  "preserves order_inv (get_active_mail_rule_run env v)"
  "preserves order_inv (get_mail_rule_run env v run)"
  "preserves order_inv (update_mail_rule_run env v run st sv c1 c2 c3 c4 er)"
  "preserves order_inv (cancel_mail_rule_run env v run)"
  unfolding list_mail_rules_def get_mail_rule_def mailbox_rule_reference_count_def create_mail_rule_run_def
    get_active_mail_rule_run_def get_mail_rule_run_def update_mail_rule_run_def prune_runs_locked_def
    cancel_mail_rule_run_def Let_def
  by (intro preserves_rules; simp)+

lemma order_update_rule [preserves_rules]: "preserves order_inv (update_mail_rule env v rid rv n e x t st)"
  unfolding update_mail_rule_def
  by (intro preserves_rules) (rule preservesI, rule wp_rules; simp add: order_inv_def numbered_set_where)

lemma order_prune: "preserves order_inv (prune_runs_locked i)"
  unfolding prune_runs_locked_def by (intro preserves_rules)

section \<open>Adding a rule\<close>

lemma foldr_max:
  "foldr (\<lambda>r m. max (position r) m) rs b = Max (insert b (position ` set rs))"
proof (induction rs)
  case (Cons r rs)
  have "Max (insert (position r) (insert b (position ` set rs))) = max (position r) (Max (insert b (position ` set rs)))"
    by (rule Max_insert) auto
  with Cons show ?case by (simp add: insert_commute del: Max_insert)
qed simp

lemma next_position_numbered:
  assumes "numbered i (mail_rules d)"
  shows "next_position i d = int (length (rules_of i (mail_rules d)))"
proof -
  have "Max (insert (- 1) (int ` {..<n})) = int n - 1" for n
    by (cases n) (auto intro!: Max_eqI)
  then show ?thesis
    using assms by (simp add: next_position_def foldr_max numbered_def)
qed

lemma wp_insert_rule_order:
  assumes "order_inv d" "\<And>r d'. order_inv d' \<Longrightarrow> Q r d'" "\<And>e. E e d"
  shows "wp (insert_rule_locked env i f now) Q E d"
proof -
  have "numbered j (mail_rules d @ [r])" if "mr_account r = i" "position r = next_position i d" for r j
    using assms(1) that next_position_numbered [of i d]
    by (cases "i = j") (auto simp: order_inv_def numbered_def lessThan_Suc)
  then show ?thesis
    unfolding insert_rule_locked_def by (intro wp_rules assms) (auto simp: order_inv_def intro!: assms(2))
qed

lemma order_create [preserves_rules]:
  "preserves order_inv (create_mail_rule env v n e x t st)"
  "preserves order_inv (create_mail_rule_with_run env v n e x t snap st c)"
  unfolding create_mail_rule_def create_mail_rule_with_run_def
  by (rule preservesI, (rule wp_insert_rule_order wp_preserves [OF order_prune]
      wp_preserves [OF order_statements(23)] | rule wp_rules | assumption | simp)+)+

section \<open>Renumbering\<close>

lemma set_where_id: "(\<And>r. r \<in> set rows \<Longrightarrow> \<not> P r) \<Longrightarrow> set_where P f rows = rows"
  by (simp add: set_where_def map_idI)

abbreviation rule_key :: "mail_rule \<Rightarrow> pystr \<times> pystr" where
  "rule_key r \<equiv> (rule_id r, mr_account r)"

text \<open>
  The rules of account \<open>i\<close> that the steps outside \<open>qs\<close> have placed are at their positions, and no
  row has changed its identifier or account; rules of other accounts are as in \<open>base\<close>.
\<close>

definition placed ::
  "pystr \<Rightarrow> pystr list \<Rightarrow> mail_rule list \<Rightarrow> (nat \<times> pystr) list \<Rightarrow> mail_rule list \<Rightarrow> bool" where
  "placed i rids base qs rows \<longleftrightarrow> set qs \<subseteq> set (enumerate 0 rids)
     \<and> map rule_key rows = map rule_key base
     \<and> (\<forall>j. j \<noteq> i \<longrightarrow> rules_of j rows = rules_of j base)
     \<and> (\<forall>pos rid r. (pos, rid) \<in> set (enumerate 0 rids) \<longrightarrow> (pos, rid) \<notin> set qs \<longrightarrow> r \<in> set rows \<longrightarrow>
          rule_key r = (rid, i) \<longrightarrow> position r = int pos)"

lemma placedD: "placed i rids base qs rows \<Longrightarrow> (pos, rid) \<in> set (enumerate 0 rids) \<Longrightarrow> (pos, rid) \<notin> set qs \<Longrightarrow>
    r \<in> set rows \<Longrightarrow> rule_key r = (rid, i) \<Longrightarrow> position r = int pos"
  by (simp add: placed_def)

lemma rules_of_set_where:
  "(\<And>r. r \<in> set rows \<Longrightarrow> P r \<Longrightarrow> mr_account r \<noteq> j \<and> mr_account (f r) \<noteq> j) \<Longrightarrow>
     rules_of j (set_where P f rows) = rules_of j rows"
  by (induction rows) auto

lemma placed_step:
  assumes inv: "placed i rids base ((pos, rid) # qs) rows" and rids: "distinct rids"
    and P: "\<And>r. r \<in> set rows \<Longrightarrow> P r \<longleftrightarrow> rule_key r = (rid, i)"
    and f: "\<And>r. rule_key (f r) = rule_key r \<and> position (f r) = int pos"
  shows "placed i rids base qs (set_where P f rows)"
proof -
  have enum: "(pos, rid) \<in> set (enumerate 0 rids)" using inv by (simp add: placed_def)
  have one: "pos' = pos" if "(pos', rid) \<in> set (enumerate 0 rids)" for pos'
    using that enum rids by (auto simp: in_set_enumerate_eq nth_eq_iff_index_eq)
  have keys: "map rule_key (set_where P f rows) = map rule_key rows"
    using f by (intro map_set_where) auto
  have "position r = int pos'"
    if "(pos', rid') \<in> set (enumerate 0 rids)" "(pos', rid') \<notin> set qs" "r \<in> set (set_where P f rows)" "rule_key r = (rid', i)"
    for pos' rid' r
  proof -
    from that(3) obtain q where q: "q \<in> set rows" "r = (if P q then f q else q)" unfolding set_set_where by blast
    with that(4) f have key: "rule_key q = (rid', i)" by (auto split: if_splits)
    show ?thesis
    proof (cases "rid' = rid")
      case True
      with P [OF q(1)] key q(2) f one that(1) show ?thesis by auto
    next
      case False
      with P [OF q(1)] key q(2) have "r = q" by auto
      with placedD [OF inv that(1)] that(2) False q(1) key show ?thesis by auto
    qed
  qed
  moreover have "rules_of j (set_where P f rows) = rules_of j rows" if "j \<noteq> i" for j
    using that P f by (intro rules_of_set_where) auto
  ultimately show ?thesis using inv keys by (simp add: placed_def)
qed

lemma keys_ids:
  assumes "map rule_key rows = map rule_key base"
  shows "map rule_id (rules_of j rows) = map rule_id (rules_of j base)"
proof -
  have "map rule_id (rules_of j rs) = map fst (filter (\<lambda>k. snd k = j) (map rule_key rs))" for rs
    by (induction rs) auto
  with assms show ?thesis by simp
qed

text \<open>Rules at the positions of their identifiers in a list are numbered, and sorted they are that list.\<close>

lemma placed_order:
  assumes rids: "distinct rids" and ids: "distinct (map rule_id L)" "rule_id ` set L = set rids"
    and pos: "\<And>k r. k < length rids \<Longrightarrow> r \<in> set L \<Longrightarrow> rule_id r = rids ! k \<Longrightarrow> position r = int k"
  shows "position ` set L = int ` {..<length L}" and "map rule_id (sort_key rule_order L) = rids"
proof -
  have len: "length L = length rids"
    using distinct_card [OF rids] distinct_card [OF ids(1)] ids(2) by simp
  have idx: "\<exists>k < length rids. rule_id r = rids ! k \<and> position r = int k" if "r \<in> set L" for r
  proof -
    have "rule_id r \<in> set rids" using that ids(2) by blast
    then obtain k where "k < length rids" "rule_id r = rids ! k" by (auto simp: in_set_conv_nth)
    with pos [OF _ that] show ?thesis by auto
  qed
  have "int k \<in> position ` set L" if "k < length rids" for k
  proof -
    have "rids ! k \<in> rule_id ` set L" using that ids(2) by simp
    then obtain r where "r \<in> set L" "rule_id r = rids ! k" by auto
    with pos [OF that] show ?thesis by (intro image_eqI [of _ _ r]) auto
  qed
  with idx len show nums: "position ` set L = int ` {..<length L}" by (auto simp: image_iff)
  define S where "S = sort_key rule_order L"
  have S: "set S = set L" "length S = length L" "sorted (map rule_order S)" by (simp_all add: S_def)
  have "sorted (map position S)"
    using S(3) by (simp add: sorted_wrt_map sorted_map) (erule sorted_wrt_mono_rel [rotated], auto simp: rule_order_def)
  moreover have "distinct (map position S)"
  proof (rule card_distinct)
    have "card (set (map position S)) = card (int ` {..<length L})" by (simp add: S nums)
    then show "card (set (map position S)) = length (map position S)" unfolding length_map S(2) by (simp add: card_image)
  qed
  moreover have "sorted (map int [0..<length L])" by (simp add: sorted_map)
  ultimately have ps: "map position S = map int [0..<length L]"
    using nums S(1) by (intro sorted_distinct_set_unique) (simp_all add: distinct_map lessThan_atLeast0)
  have "map rule_id S = rids"
  proof (rule nth_equalityI)
    fix k assume "k < length (map rule_id S)"
    then have k: "k < length S" "S ! k \<in> set L" using S(1) nth_mem [of k S] by simp_all
    then have "position (S ! k) = int k" using arg_cong [OF ps, of "\<lambda>xs. xs ! k"] S(2) by simp
    with idx [OF k(2)] k(1) show "map rule_id S ! k = rids ! k" by auto
  qed (simp add: S len)
  then show "map rule_id (sort_key rule_order L) = rids" by (simp add: S_def)
qed

lemma placed_result:
  assumes "placed i rids base [] rows" "distinct rids" "set rids = rule_id ` set (rules_of i base)" "distinct (map rule_id base)"
  shows "numbered i rows" and "map rule_id (sort_key rule_order (rules_of i rows)) = rids"
proof -
  have ids: "map rule_id (rules_of i rows) = map rule_id (rules_of i base)"
    using assms(1) by (intro keys_ids) (simp add: placed_def)
  have "distinct (map rule_id (rules_of i rows))" unfolding ids using assms(4) by (rule distinct_map_filter)
  moreover have "rule_id ` set (rules_of i rows) = set rids"
    using arg_cong [OF ids, of set] assms(3) by simp
  moreover have "position r = int k" if "k < length rids" "r \<in> set (rules_of i rows)" "rule_id r = rids ! k" for k r
    using that by (intro placedD [OF assms(1)]) (auto simp: in_set_enumerate_eq)
  ultimately show "numbered i rows" "map rule_id (sort_key rule_order (rules_of i rows)) = rids"
    unfolding numbered_def using placed_order [OF assms(2), of "rules_of i rows"] by blast+
qed

text \<open>
  Why the renumbering never breaks UNIQUE(account, position): the rules still to be placed are
  at positions from 1000 upwards, out of the way of the ones that are placed.
\<close>

definition parked :: "pystr \<Rightarrow> (nat \<times> pystr) list \<Rightarrow> mail_rule list \<Rightarrow> bool" where
  "parked i qs rows \<longleftrightarrow> (\<forall>pos rid r. (pos, rid) \<in> set qs \<longrightarrow> r \<in> set rows \<longrightarrow> rule_key r = (rid, i) \<longrightarrow> 1000 \<le> position r)"

lemma parkedD: "parked i qs rows \<Longrightarrow> (pos, rid) \<in> set qs \<Longrightarrow> r \<in> set rows \<Longrightarrow> rule_key r = (rid, i) \<Longrightarrow> 1000 \<le> position r"
  by (auto simp: parked_def)

abbreviation rules_table :: "auth_db \<Rightarrow> mail_rule list \<Rightarrow> bool" where
  "rules_table d rows \<equiv> table_inv (mail_rule_check (account_ids d)) mail_rule_conflict rows"

lemma rules_table_unique:
  "rules_table d (pre @ r # post) \<Longrightarrow> q \<in> set pre \<or> q \<in> set post \<Longrightarrow> \<not> mail_rule_conflict r q \<and> \<not> mail_rule_conflict q r"
  by (auto simp: table_inv_def sorted_wrt_append mail_rule_conflict_def)

lemma place_ok:
  assumes tab: "rules_table d rows" and inv: "placed i rids base ((pos, rid) # qs) rows" "parked i qs rows"
    and rids: "distinct rids" "rule_id ` set (rules_of i rows) \<subseteq> set rids" "length rids \<le> 1000"
    and P: "\<And>r. r \<in> set rows \<Longrightarrow> P r \<longleftrightarrow> rule_key r = (rid, i)"
    and f: "\<And>r. rule_key (f r) = rule_key r \<and> position (f r) = int pos"
    and chk: "\<And>r. mail_rule_check (account_ids d) r \<Longrightarrow> mail_rule_check (account_ids d) (f r)"
  shows "update_rows (mail_rule_ok d) P f rows = Inr (set_where P f rows)"
proof (rule update_rows_ok)
  fix pre r post
  assume rows: "rows = pre @ r # post" and "P r"
  then have r: "rule_key r = (rid, i)" using P [of r] by simp
  note free = rules_table_unique [OF tab [unfolded rows]]
  have "set_where P f pre = pre"
    using free r P by (intro set_where_id) (auto simp: rows mail_rule_conflict_def)
  moreover have "\<not> mail_rule_conflict (f r) q" if q: "q \<in> set pre \<or> q \<in> set post" for q
  proof
    assume "mail_rule_conflict (f r) q"
    moreover have id: "rule_id q \<noteq> rid" using free [OF q] r by (auto simp: mail_rule_conflict_def)
    ultimately have acc: "mr_account q = i" "position q = int pos" using f [of r] r by (auto simp: mail_rule_conflict_def)
    have mem: "q \<in> set rows" using q by (auto simp: rows)
    then have "rule_id q \<in> set rids" using rids(2) acc by auto
    then obtain k where k: "k < length rids" "rids ! k = rule_id q" by (auto simp: in_set_conv_nth)
    then have enum: "(k, rule_id q) \<in> set (enumerate 0 rids)" by (simp add: in_set_enumerate_eq)
    have pos: "pos < length rids" "rids ! pos = rid" using inv(1) by (auto simp: placed_def in_set_enumerate_eq)
    show False
    proof (cases "(k, rule_id q) \<in> set qs")
      case True
      from parkedD [OF inv(2) this mem] acc pos rids(3) show False by simp
    next
      case False
      with placedD [OF inv(1) enum _ mem] id acc have "k = pos" by simp
      with k pos id show False by simp
    qed
  qed
  moreover have "mail_rule_check (account_ids d) (f r)" using tab by (intro chk) (simp add: rows table_inv_def)
  ultimately show "mail_rule_ok d (set_where P f pre @ post) (f r)"
    by (auto simp: row_ok_def list_all_iff)
qed

lemma shift_ok:
  assumes tab: "rules_table d rows" and low: "\<And>r. r \<in> set rows \<Longrightarrow> mr_account r = i \<Longrightarrow> position r < 1000"
  shows "update_rows (mail_rule_ok d) (\<lambda>r. mr_account r = i) (\<lambda>r. r\<lparr>position := position r + 1000\<rparr>) rows
    = Inr (set_where (\<lambda>r. mr_account r = i) (\<lambda>r. r\<lparr>position := position r + 1000\<rparr>) rows)"
proof (rule update_rows_ok)
  fix pre r post
  assume rows: "rows = pre @ r # post" and r: "mr_account r = i"
  note free = rules_table_unique [OF tab [unfolded rows]]
  have chk: "mail_rule_check (account_ids d) r" using tab by (simp add: rows table_inv_def)
  have "\<not> mail_rule_conflict (r\<lparr>position := position r + 1000\<rparr>) q"
    if "q \<in> set (set_where (\<lambda>r. mr_account r = i) (\<lambda>r. r\<lparr>position := position r + 1000\<rparr>) pre)" for q
  proof -
    from that obtain q' where q': "q' \<in> set pre" "q = (if mr_account q' = i then q'\<lparr>position := position q' + 1000\<rparr> else q')"
      unfolding set_set_where by blast
    with free [of q'] r show ?thesis by (simp add: mail_rule_conflict_def split: if_splits)
  qed
  moreover have "\<not> mail_rule_conflict (r\<lparr>position := position r + 1000\<rparr>) q" if "q \<in> set post" for q
    using that free [of q] low [of q] r chk by (auto simp: rows mail_rule_conflict_def mail_rule_check_def)
  ultimately show "mail_rule_ok d (set_where (\<lambda>r. mr_account r = i) (\<lambda>r. r\<lparr>position := position r + 1000\<rparr>) pre @ post)
      (r\<lparr>position := position r + 1000\<rparr>)"
    using chk by (auto simp: row_ok_def list_all_iff mail_rule_check_def)
qed

text \<open>The loop of the two renumbering operations.\<close>

lemma enumerate_unique:
  "distinct rids \<Longrightarrow> (p, rid) \<in> set (enumerate 0 rids) \<Longrightarrow> (q, rid) \<in> set (enumerate 0 rids) \<Longrightarrow> p = q"
  by (auto simp: in_set_enumerate_eq nth_eq_iff_index_eq)

lemma parked_step:
  assumes "parked i ((pos, rid) # qs) rows" "placed i rids base ((pos, rid) # qs) rows" "distinct rids" "distinct ((pos, rid) # qs)"
    and P: "\<And>r. r \<in> set rows \<Longrightarrow> P r \<longleftrightarrow> rule_key r = (rid, i)" and f: "\<And>r. rule_key (f r) = rule_key r"
  shows "parked i qs (set_where P f rows)"
  unfolding parked_def
proof (intro allI impI)
  fix pos' rid' r
  assume q: "(pos', rid') \<in> set qs" and r: "r \<in> set (set_where P f rows)" "rule_key r = (rid', i)"
  from r obtain q where q': "q \<in> set rows" "r = (if P q then f q else q)" unfolding set_set_where by blast
  have "rid' \<noteq> rid"
    using q assms(2,4) enumerate_unique [OF assms(3), of pos' rid' pos] by (auto simp: placed_def)
  with q' P [OF q'(1)] r f have "r = q" by (auto split: if_splits)
  with parkedD [OF assms(1), of pos' rid' q] q q' r show "1000 \<le> position r" by simp
qed

lemma wp_place_loop:
  assumes tab: "rules_table d (mail_rules d)" and park: "parked i (enumerate 0 rids) (mail_rules d)"
    and rids: "distinct rids" "rule_id ` set (rules_of i (mail_rules d)) \<subseteq> set rids" "length rids \<le> 1000"
    and P: "\<And>rid rows r. map rule_key rows = map rule_key (mail_rules d) \<Longrightarrow> rid \<in> set rids \<Longrightarrow> r \<in> set rows \<Longrightarrow>
      P rid r \<longleftrightarrow> rule_key r = (rid, i)"
    and f: "\<And>pos r. rule_key (f pos r) = rule_key r \<and> position (f pos r) = int pos"
    and chk: "\<And>pos r. mail_rule_check (account_ids d) r \<Longrightarrow> mail_rule_check (account_ids d) (f pos r)"
    and Q: "\<And>d'. placed i rids (mail_rules d) [] (mail_rules d') \<Longrightarrow> Q () d'"
  shows "wp (forA (enumerate 0 rids) (\<lambda>(pos, rid). seqA (update_mail_rules (P rid) (f pos)) (returnA ()))) Q E d"
proof (rule wp_for [where I = "\<lambda>qs d'. placed i rids (mail_rules d) qs (mail_rules d') \<and> parked i qs (mail_rules d')
      \<and> distinct qs \<and> rules_table d (mail_rules d') \<and> accounts d' = accounts d"], goal_cases)
  case 1
  have "distinct (enumerate 0 rids)" by (simp add: distinct_enumerate)
  with tab park show ?case by (simp add: placed_def)
next
  case (2 q qs d')
  obtain pos rid where q: "q = (pos, rid)" by (cases q)
  note I = 2 [unfolded q]
  from I have keys: "rid \<in> set rids" "map rule_key (mail_rules d') = map rule_key (mail_rules d)"
    by (auto simp: placed_def in_set_enumerate_eq)
  have ids: "rule_id ` set (rules_of i (mail_rules d')) \<subseteq> set rids"
    using arg_cong [OF keys_ids [OF keys(2)], of set i] rids(2) by simp
  note P' = P [OF keys(2,1)]
  have ok: "update_rows (mail_rule_ok d') (P rid) (f pos) (mail_rules d') = Inr (set_where (P rid) (f pos) (mail_rules d'))"
    by (rule place_ok [where base = "mail_rules d" and qs = qs, OF _ _ _ rids(1) ids rids(3) P' f])
      (use I chk in \<open>auto simp: parked_def\<close>)
  have "placed i rids (mail_rules d) qs (set_where (P rid) (f pos) (mail_rules d'))"
    by (rule placed_step [OF _ rids(1) P' f]) (use I in simp)
  moreover have "parked i qs (set_where (P rid) (f pos) (mail_rules d'))"
    using I f by (intro parked_step [OF _ _ rids(1) _ P']) auto
  moreover have "rules_table d (set_where (P rid) (f pos) (mail_rules d'))"
    using rules_table.update_keeps [OF _ ok] I by simp
  ultimately show ?case unfolding q prod.case by (intro wp_rules) (use ok I in simp_all)
next
  case (3 d')
  then show ?case by (intro Q) simp
qed

lemma shifted_keys: "map rule_key (set_where P (\<lambda>r. r\<lparr>position := position r + 1000\<rparr>) rows) = map rule_key rows"
  by (rule map_set_where) simp

lemma key_account:
  assumes "map rule_key rows = map rule_key base" "distinct (map rule_id base)"
    and "rid \<in> rule_id ` set (rules_of i base)" "r \<in> set rows"
  shows "rule_id r = rid \<longleftrightarrow> rule_key r = (rid, i)"
proof -
  from assms(3) obtain q where q: "q \<in> set base" "rule_id q = rid" "mr_account q = i" by auto
  have "rule_key r \<in> set (map rule_key rows)" using assms(4) by simp
  then have "rule_key r \<in> set (map rule_key base)" unfolding assms(1) .
  then obtain r0 where "r0 \<in> set base" "rule_key r = rule_key r0" by auto
  with q key_unique [OF assms(2), of r0 q] show ?thesis by auto
qed

text \<open>The rows after the rules of account \<open>i\<close> were moved out of the way.\<close>

abbreviation shifted :: "pystr \<Rightarrow> mail_rule list \<Rightarrow> mail_rule list" where
  "shifted i rows \<equiv> set_where (\<lambda>r. mr_account r = i) (\<lambda>r. r\<lparr>position := position r + 1000\<rparr>) rows"

lemma wp_shift:
  assumes "rules_table d (mail_rules d)" "\<And>r. r \<in> set (mail_rules d) \<Longrightarrow> mr_account r = i \<Longrightarrow> position r < 1000"
    and "rules_table d (shifted i (mail_rules d)) \<Longrightarrow> Q () (d\<lparr>mail_rules := shifted i (mail_rules d)\<rparr>)"
  shows "wp (shift_positions_locked i) Q E d"
proof -
  have ok: "update_rows (mail_rule_ok d) (\<lambda>r. mr_account r = i) (\<lambda>r. r\<lparr>position := position r + 1000\<rparr>) (mail_rules d)
      = Inr (shifted i (mail_rules d))"
    by (rule shift_ok [OF assms(1,2)])
  have "rules_table d (shifted i (mail_rules d))" using assms(1) ok by (rule rules_table.update_keeps)
  with assms(3) ok show ?thesis unfolding shift_positions_locked_def by (intro wp_rules) simp_all
qed

lemma wp_place:
  assumes tab: "rules_table d (shifted i (mail_rules d))" "rules_table d (mail_rules d)"
    and other: "\<And>j. j \<noteq> i \<Longrightarrow> numbered j (mail_rules d)"
    and rids: "distinct rids" "set rids = rule_id ` set (rules_of i (mail_rules d))" "length rids \<le> 1000"
    and P: "\<And>rid rows r. map rule_key rows = map rule_key (mail_rules d) \<Longrightarrow> rid \<in> set rids \<Longrightarrow> r \<in> set rows \<Longrightarrow>
      P rid r \<longleftrightarrow> rule_key r = (rid, i)"
    and f: "\<And>pos r. rule_key (f pos r) = rule_key r \<and> position (f pos r) = int pos"
    and chk: "\<And>pos r. mail_rule_check (account_ids d) r \<Longrightarrow> mail_rule_check (account_ids d) (f pos r)"
    and Q: "\<And>d'. order_inv d' \<Longrightarrow> map rule_id (ordered_rules i d') = rids \<Longrightarrow> Q () d'"
  shows "wp (forA (enumerate 0 rids) (\<lambda>(pos, rid). seqA (update_mail_rules (P rid) (f pos)) (returnA ()))) Q E
    (d\<lparr>mail_rules := shifted i (mail_rules d)\<rparr>)"
proof (rule wp_place_loop [where i = i and f = f])
  let ?rows = "shifted i (mail_rules d)"
  have keys: "map rule_key ?rows = map rule_key (mail_rules d)" by (rule shifted_keys)
  have ids: "distinct (map rule_id (mail_rules d))"
    using tab(2) by (rule table_inv_distinct) (simp add: mail_rule_conflict_def)
  then have ids': "distinct (map rule_id ?rows)" by (simp add: map_set_where)
  have rids': "set rids = rule_id ` set (rules_of i ?rows)"
    using arg_cong [OF keys_ids [OF keys], of set i] rids(2) by simp
  then show "rule_id ` set (rules_of i (mail_rules (d\<lparr>mail_rules := ?rows\<rparr>))) \<subseteq> set rids" by simp
  show "parked i (enumerate 0 rids) (mail_rules (d\<lparr>mail_rules := ?rows\<rparr>))"
    using tab(2) by (auto simp: parked_def set_set_where mail_rule_check_def dest: table_inv_check)
  show "Q () d'" if "placed i rids (mail_rules (d\<lparr>mail_rules := ?rows\<rparr>)) [] (mail_rules d')" for d'
  proof (rule Q)
    from that have placed: "placed i rids ?rows [] (mail_rules d')" by simp
    show "map rule_id (ordered_rules i d') = rids"
      unfolding ordered_rules_def by (rule placed_result(2) [OF placed rids(1) rids' ids'])
    have "numbered j (mail_rules d')" for j
    proof (cases "j = i")
      case True
      with placed_result(1) [OF placed rids(1) rids' ids'] show ?thesis by simp
    next
      case False
      with placed have "rules_of j (mail_rules d') = rules_of j ?rows" by (simp add: placed_def)
      moreover have "rules_of j ?rows = rules_of j (mail_rules d)" using False by (intro rules_of_set_where) auto
      ultimately show ?thesis using other [OF False] by (simp add: numbered_def)
    qed
    then show "order_inv d'" by (simp add: order_inv_def)
  qed
  show "P rid r = (rule_key r = (rid, i))"
    if "map rule_key rows = map rule_key (mail_rules (d\<lparr>mail_rules := ?rows\<rparr>))" "rid \<in> set rids" "r \<in> set rows" for rid rows r
    using that keys by (intro P) simp_all
qed (use tab rids chk f in simp_all)

section \<open>Deleting and reordering\<close>

lemma position_low:
  assumes "store_inv d" "order_inv d" "r \<in> set (mail_rules d)"
  shows "position r < 100"
proof -
  have "position r \<in> position ` set (rules_of (mr_account r) (mail_rules d))" using assms(3) by auto
  also have "\<dots> = int ` {..<length (rules_of (mr_account r) (mail_rules d))}"
    using assms(2) by (simp add: order_inv_def numbered_def)
  also have "\<dots> \<subseteq> int ` {..<100}"
    using assms(1) limits_rowcount(4) [of d "mr_account r"] by (auto simp: store_inv_def rowcount_def)
  finally show ?thesis by auto
qed

lemma wp_compact:
  assumes inv: "schema_inv d" and low: "\<And>r. r \<in> set (mail_rules d) \<Longrightarrow> position r < 100"
    and few: "length (rules_of i (mail_rules d)) \<le> 100" and other: "\<And>j. j \<noteq> i \<Longrightarrow> numbered j (mail_rules d)"
    and Q: "\<And>d'. order_inv d' \<Longrightarrow> map rule_id (ordered_rules i d') = map rule_id (ordered_rules i d) \<Longrightarrow> Q () d'"
  shows "wp (compact_mail_rule_positions_locked i) Q E d"
proof -
  have tab: "rules_table d (mail_rules d)" by (rule schema_tables [OF inv])
  have ids: "distinct (map rule_id (mail_rules d))" by (rule schema_keys [OF inv])
  have rids: "distinct (map rule_id (ordered_rules i d))"
    "set (map rule_id (ordered_rules i d)) = rule_id ` set (rules_of i (mail_rules d))"
    using distinct_map_filter [OF ids] by (simp_all add: ordered_rules_def distinct_map)
  have P: "rule_id r = rid \<longleftrightarrow> rule_key r = (rid, i)"
    if "map rule_key rows = map rule_key (mail_rules d)" "rid \<in> set (map rule_id (ordered_rules i d))" "r \<in> set rows" for rid rows r
    by (rule key_account [OF that(1) ids _ that(3)]) (use that(2) rids(2) in simp)
  show ?thesis
    unfolding compact_mail_rule_positions_locked_def
  proof (intro wp_rules wp_shift [OF tab], goal_cases)
    case (1 r)
    with low [of r] show ?case by simp
  next
    case 2
    show ?case
      by (rule wp_place [OF 2 tab other rids _ P]) (use few in \<open>auto simp: Q ordered_rules_def mail_rule_check_def\<close>)
  qed
qed

lemma valid_identifiers:
  "validate_account_id v = Inr i \<Longrightarrow> v = PyStr i" "validate_mail_rule_id v = Inr i \<Longrightarrow> v = PyStr i"
  by (cases v; auto simp: identifier_defs validate_identifier_def split: if_splits)+

lemma identifier_error:
  "validate_account_id v = Inl e \<Longrightarrow> e = ValueError" "validate_mail_rule_id v = Inl e \<Longrightarrow> e = ValueError"
  by (cases v; auto simp: identifier_defs validate_identifier_def split: if_splits)+

lemma ordered_rules_delete:
  "ordered_rules i (drop_mail_rules (\<lambda>r. mr_account r = i \<and> rule_id r = rid) d) =
       filter (\<lambda>r. rule_id r \<noteq> rid) (ordered_rules i d)"
  by (auto simp: ordered_rules_def drop_mail_rules_def delete_rows_def filter_sort intro!: arg_cong [of _ _ "sort_key rule_order"] filter_cong)

lemma wp_delete_rule:
  assumes inv: "store_inv d" "order_inv d"
    and Q: "\<And>i rid d'. v = PyStr i \<Longrightarrow> rv = PyStr rid \<Longrightarrow> order_inv d' \<Longrightarrow>
      rid \<in> set (map rule_id (ordered_rules i d)) \<Longrightarrow>
      map rule_id (ordered_rules i d') = filter (\<lambda>x. x \<noteq> rid) (map rule_id (ordered_rules i d)) \<Longrightarrow> Q () d'"
    and E: "\<And>e. e \<in> {ValueError, RuntimeError, MailRuleNotFoundError} \<Longrightarrow> E e d"
  shows "wp (delete_mail_rule v rv) Q E d"
proof -
  have low: "position r < 100" if "r \<in> set (mail_rules d)" for r using position_low [OF inv that] .
  have few: "length (rules_of i (mail_rules d)) \<le> 100" for i
    using inv(1) limits_rowcount(4) [of d i] by (simp add: store_inv_def rowcount_def)
  have part: "rules_of j (mail_rules (drop_mail_rules (\<lambda>r. mr_account r = i \<and> rule_id r = rid) d)) =
      (if j = i then filter (\<lambda>r. rule_id r \<noteq> rid) (rules_of i (mail_rules d)) else rules_of j (mail_rules d))" for i j rid
    by (auto simp: drop_mail_rules_def delete_rows_def intro!: filter_cong)
  show ?thesis
    unfolding delete_mail_rule_def
  proof (intro wp_rules wp_compact, goal_cases)
    case 1
    show ?case by (rule E) simp
  next
    case (2 i rid)
    show ?case using inv(1) by (intro schema_drop_mail_rules) (simp add: store_inv_def)
  next
    case (3 i rid r)
    then show ?case using low by (auto simp: drop_mail_rules_def)
  next
    case (4 i rid)
    have "length (filter (\<lambda>r. rule_id r \<noteq> rid) (rules_of i (mail_rules d))) \<le> 100"
      by (rule order_trans [OF length_filter_le few])
    then show ?case by (simp only: part if_True refl)
  next
    case (5 i rid j)
    then show ?case using inv(2) by (simp add: part numbered_def order_inv_def)
  next
    case (6 i rid d')
    then have "rid \<in> set (map rule_id (ordered_rules i d))"
      using rowcount_pos_iff [of "\<lambda>r. mr_account r = i \<and> rule_id r = rid" "mail_rules d"]
      by (force simp: ordered_rules_def)
    with 6 show ?case
      by (intro Q [of i rid]) (auto simp: ordered_rules_delete filter_map comp_def dest!: valid_identifiers)
  qed (auto intro: E dest: identifier_error)
qed

lemma traverse_identifiers:
  "traverse validate_mail_rule_id vs = Inr rids \<Longrightarrow> vs = map PyStr rids"
  "traverse validate_mail_rule_id vs = Inl e \<Longrightarrow> e = ValueError"
  by (induction vs arbitrary: rids)
    (auto simp: bind_res_def split: sum.splits dest!: valid_identifiers identifier_error)

lemma wp_reorder:
  assumes inv: "store_inv d" "order_inv d"
    and Q: "\<And>i rids d'. v = PyStr i \<Longrightarrow> order = PyList (map PyStr rids) \<or> order = PyTuple (map PyStr rids) \<Longrightarrow>
      order_inv d' \<Longrightarrow> map rule_id (ordered_rules i d') = rids \<Longrightarrow> Q () d'"
    and E: "\<And>e. e \<in> {ValueError, RuntimeError} \<Longrightarrow> E e d"
  shows "wp (reorder_mail_rules env v order) Q E d"
proof -
  have schema: "schema_inv d" using inv(1) by (simp add: store_inv_def)
  have tab: "rules_table d (mail_rules d)" by (rule schema_tables [OF schema])
  have ids: "distinct (map rule_id (mail_rules d))" by (rule schema_keys [OF schema])
  have few: "length rids \<le> 1000" if "distinct rids" "set rids = rule_id ` set (rules_of i (mail_rules d))" for rids i
  proof -
    have "length rids \<le> length (rules_of i (mail_rules d))"
      using distinct_card [OF that(1)] card_length [of "map rule_id (rules_of i (mail_rules d))"] that(2) by simp
    also have "\<dots> \<le> 100" using inv(1) limits_rowcount(4) [of d i] by (simp add: store_inv_def rowcount_def)
    finally show ?thesis by simp
  qed
  have vals: "order = PyList (map PyStr rids) \<or> order = PyTuple (map PyStr rids)"
    if "(case order of PyList vs \<Rightarrow> Inr vs | PyTuple vs \<Rightarrow> Inr vs | _ \<Rightarrow> Inl ValueError) = Inr vs"
      "traverse validate_mail_rule_id vs = Inr rids" for vs rids
    using that traverse_identifiers(1) [OF that(2)] by (cases order) auto
  show ?thesis
    unfolding reorder_mail_rules_def
  proof (intro wp_rules wp_shift [OF tab], goal_cases)
    case (3 i vs rids r)
    then show ?case using position_low [OF inv] by fastforce
  next
    case (4 i vs rids now)
    then have rids: "distinct rids" "set rids = rule_id ` set (rules_of i (mail_rules d))"
      by (auto intro: card_distinct)
    show ?case
    proof (rule wp_place [OF 4(6) tab _ rids few [OF rids]])
      show "Q () d'" if "order_inv d'" "map rule_id (ordered_rules i d') = rids" for d'
        using that vals [OF 4(2,3)] valid_identifiers(1) [OF 4(1)] by (intro Q)
    qed (use inv(2) in \<open>auto simp: order_inv_def mail_rule_check_def\<close>)
  qed (auto intro!: E dest: identifier_error traverse_identifiers split: pyval.splits)
qed

lemma order_renumbering:
  "store_inv d \<Longrightarrow> order_inv d \<Longrightarrow> wp (delete_mail_rule v rv) (\<lambda>_. order_inv) (\<lambda>_. order_inv) d"
  "store_inv d \<Longrightarrow> order_inv d \<Longrightarrow> wp (reorder_mail_rules env v order) (\<lambda>_. order_inv) (\<lambda>_. order_inv) d"
  by (rule wp_delete_rule wp_reorder; assumption)+

lemma order_step: "auth_step env s t \<Longrightarrow> store_inv (db s) \<Longrightarrow> order_inv (db s) \<Longrightarrow> order_inv (db t)"
proof (induction rule: auth_step.induct)
  case (26 s v rid)
  then show ?case using wp_outcome [OF order_renumbering(1), of s v rid] by (cases "delete_mail_rule v rid s") (auto split: sum.splits)
next
  case (27 s v order)
  then show ?case using wp_outcome [OF order_renumbering(2), of s env v order] by (cases "reorder_mail_rules env v order s") (auto split: sum.splits)
qed (erule preservesD [rotated], rule preserves_rules)+

lemma reachable_order_inv: "reachable env s \<Longrightarrow> order_inv (db s)"
proof (induction rule: reachable.induct)
  case (opened k n)
  show ?case by (simp add: opened_def order_inv_def numbered_def empty_db_def)
next
  case (step s t)
  from reachable_enroll_inv [OF step(1)] have "store_inv (db s)" by (simp add: enroll_inv_def)
  with step show ?case by (blast intro: order_step)
qed

text \<open>
  C12. In every reachable state the rules of an account have the positions 0, 1, ..., n - 1, each
  once: creating, deleting and reordering rules leave neither gaps nor duplicates.
\<close>

theorem reachable_rule_positions:
  assumes "reachable env s"
  shows "position ` set (rules_of i (mail_rules (db s))) = int ` {..<length (rules_of i (mail_rules (db s)))}"
  using reachable_order_inv [OF assms] by (simp add: order_inv_def numbered_def)

text \<open>
  C11. Reordering: when it succeeds, the rules are listed in exactly the order that was asked for;
  otherwise the database is as it was and the error is \<open>ValueError\<close> (the list is not a permutation
  of the account's rules, or an argument or the clock is bad) or \<open>RuntimeError\<close> (the store is
  closed). In particular the renumbering never violates the uniqueness of positions, although
  the rows are written one by one.
\<close>

theorem reorder_outcome:
  assumes "reachable env s" and "reorder_mail_rules env v order s = (r, t)"
  shows "case r of
      Inr _ \<Rightarrow> (\<exists>i rids. v = PyStr i \<and> (order = PyList (map PyStr rids) \<or> order = PyTuple (map PyStr rids))
        \<and> map rule_id (ordered_rules i (db t)) = rids)
    | Inl e \<Rightarrow> e \<in> {ValueError, RuntimeError} \<and> db t = db s"
proof -
  have inv: "store_inv (db s)" "order_inv (db s)"
    using reachable_enroll_inv [OF assms(1)] reachable_order_inv [OF assms(1)] by (simp_all add: enroll_inv_def)
  have "wp (reorder_mail_rules env v order)
     (\<lambda>_ d'. \<exists>i rids. v = PyStr i \<and> (order = PyList (map PyStr rids) \<or> order = PyTuple (map PyStr rids))
        \<and> map rule_id (ordered_rules i d') = rids) (\<lambda>e d'. e \<in> {ValueError, RuntimeError} \<and> d' = db s) (db s)"
    by (rule wp_reorder [OF inv]) blast+
  from wp_outcome [OF this assms(2)] show ?thesis by (auto split: sum.splits)
qed


section \<open>Revisions\<close>

lemma rule_record_revision: "mail_rule_from_row env r = Inr rec \<Longrightarrow> mrr_revision rec = revision r"
  by (auto simp: mail_rule_from_row_def res_simps)

lemma updated_rule:
  assumes "distinct (map rule_id rows)" "a \<in> set rows" "P a" "rule_id a = rid"
    and "fetchone (\<lambda>r. rule_id r = rid) (set_where P f rows) = Some b" "\<And>r. rule_id (f r) = rule_id r"
  shows "b = f a"
proof -
  from fetchone_Some [OF assms(5)] have b: "b \<in> set (set_where P f rows)" "rule_id b = rid" by auto
  then obtain r where r: "r \<in> set rows" "b = (if P r then f r else r)" unfolding set_set_where by blast
  with b(2) assms(6) have "rule_id r = rid" by (auto split: if_splits)
  with key_unique [OF assms(1) r(1) assms(2)] assms(3,4) r(2) show ?thesis by simp
qed

text \<open>
  C16. Optimistic locking: \<open>update_mail_rule\<close> changes the database only when the caller's revision is
  that of the stored rule, and a successful update returns the next revision; so of two updates
  made from the same revision at most one takes effect.
\<close>

theorem update_rule_requires_revision:
  assumes "reachable env s" and "update_mail_rule env v rv expected n e x m st s = (r, t)"
  shows "(db t = db s \<or> (\<exists>row \<in> set (mail_rules (db s)). v = PyStr (mr_account row) \<and> rv = PyStr (rule_id row)
        \<and> expected = PyInt (revision row)))
    \<and> (case r of Inl _ \<Rightarrow> True | Inr rec \<Rightarrow>
        (\<exists>row \<in> set (mail_rules (db s)). rv = PyStr (rule_id row) \<and> expected = PyInt (revision row)
          \<and> mrr_revision rec = revision row + 1))"
proof -
  let ?d = "db s"
  let ?hit = "\<lambda>row. row \<in> set (mail_rules ?d) \<and> v = PyStr (mr_account row) \<and> rv = PyStr (rule_id row) \<and> expected = PyInt (revision row)"
  have ids: "distinct (map rule_id (mail_rules ?d))"
    using reachable_enroll_inv [OF assms(1)] by (simp add: enroll_inv_def store_inv_def schema_keys)
  have rev: "expected = PyInt k"
    if "(case expected of PyInt v \<Rightarrow> if v < 1 then Inl ValueError else Inr v | _ \<Rightarrow> Inl ValueError) = Inr k" for k
    using that by (cases expected) (auto split: if_splits)
  have hit: "\<exists>row. ?hit row \<and> mr_account row = i \<and> rule_id row = rid \<and> revision row = k"
    if "validate_account_id v = Inr i" "validate_mail_rule_id rv = Inr rid"
      "(case expected of PyInt v \<Rightarrow> if v < 1 then Inl ValueError else Inr v | _ \<Rightarrow> Inl ValueError) = Inr k"
      "\<not> rowcount (\<lambda>r. mr_account r = i \<and> rule_id r = rid \<and> revision r = k) (mail_rules ?d) \<noteq> 1" for i rid k
    using that rev [OF that(3)] rowcount_pos_iff [of "\<lambda>r. mr_account r = i \<and> rule_id r = rid \<and> revision r = k" "mail_rules ?d"]
    by (auto dest!: valid_identifiers)
  have "wp (update_mail_rule env v rv expected n e x m st)
      (\<lambda>rec d'. \<exists>row. ?hit row \<and> mrr_revision rec = revision row + 1)
      (\<lambda>_ d'. d' = ?d \<or> (\<exists>row. ?hit row)) ?d"
    unfolding update_mail_rule_def
  proof (intro wp_rules, goal_cases)
    case (3 i rid k f now rec)
    from hit [OF 3(1,2,3,8)] obtain row where row: "?hit row" "mr_account row = i" "rule_id row = rid" "revision row = k" by blast
    from 3(9) obtain b where b: "mail_rule_from_row env b = Inr rec"
      "fetchone (\<lambda>r. rule_id r = rid) (set_where (\<lambda>r. mr_account r = i \<and> rule_id r = rid \<and> revision r = k)
        (\<lambda>r. r\<lparr>mr_name := f_name f, enabled := f_enabled f, expression_json := f_expression f, mr_target := f_target f,
            stop_processing := f_stop f, revision := revision r + 1, mr_updated_at := now\<rparr>) (mail_rules ?d)) = Some b"
      by (auto simp: res_simps required_row_def split: option.splits)
    have "revision b = revision row + 1"
      by (subst updated_rule [OF ids _ _ row(3) b(2)]) (use row in auto)
    with row(1) rule_record_revision [OF b(1)] show ?case by auto
  next
    case (4 i rid k f now e)
    from hit [OF 4(1,2,3,8)] show ?case by blast
  qed simp_all
  from wp_outcome [OF this assms(2)] show ?thesis by (cases r) auto
qed

section \<open>A sample rule\<close>

definition sample_rule :: mail_rule where
  "sample_rule = \<lparr>rule_id = hex (replicate 15 7 @ [1]), mr_account = sample_id, mr_name = lit ''a'', enabled = True,
     position = 0, expression_json = lit ''{}'', mr_target = lit ''b'', stop_processing = True, revision = 1,
     mr_created_at = 90, mr_updated_at = 90\<rparr>"

definition ruled_store :: "auth_db store" where
  "ruled_store = \<lparr>db = empty_db\<lparr>accounts := [sample_new], mail_rules := [sample_rule]\<rparr>,
     draws = 2, readings = 2, closed = False\<rparr>"

lemma sample_rule_id:
  "draws s = 1 \<Longrightarrow> mail_rules (db s) = [] \<Longrightarrow>
     new_mail_rule_id_locked sample_env s = (Inr (hex (replicate 15 7 @ [1])), s\<lparr>draws := 2\<rparr>)"
  unfolding new_mail_rule_id_locked_def draw_fresh_8 random_hex_def
  by (simp add: act_eval sample_random_def auth_limits fetchone_def)

lemma sample_ruled:
  "snd (create_mail_rule sample_env (PyStr sample_id) (PyStr (lit ''a'')) (PyBool True) (PyDict []) (PyStr (lit ''b''))
     (PyBool True) created_store) = ruled_store"
  using hex_identifier_hex [of "replicate 15 7 @ [1]"] sample_id_hex
  by (simp add: create_mail_rule_def act_eval statement_eval lookup_eval identifier_defs validate_identifier_def
      validate_rule_fields_def normalize_mail_rule_name_def text_eval is_ascii_control_def coerce_bool_def
      canonical_json_object_def normalize_mailbox_metadata_def insert_rule_locked_def created_store_def empty_db_def
      next_position_def bind_text_def guardA_def bindable_def sample_rule_id mail_rule_check_def hex_identifier_def auth_limits
      is_surrogate_def utf8_size_def mail_rule_from_row_def json_object_from_database_def
      ruled_store_def sample_rule_def Let_def)

lemma ruled_reachable: "reachable sample_env ruled_store"
proof -
  have "reachable sample_env (opened 0 0)" by (rule reachable.opened)
  then have "reachable sample_env (snd (create_account sample_env sample_email (PyStr (lit ''user'')) (PyBool False) (opened 0 0)))"
    by (rule reachable.step) (rule auth_step.intros)
  then have "reachable sample_env created_store" by (simp add: opened_def sample_created)
  from reachable.step [OF this auth_step.intros(23)] show ?thesis
    by (simp add: sample_ruled flip: sample_ruled)
qed

theorem reachable_rule_positions_witness:
  "reachable sample_env ruled_store \<and> position ` set (rules_of sample_id (mail_rules (db ruled_store))) = {0}"
proof -
  have "length (rules_of sample_id (mail_rules (db ruled_store))) = 1"
    by (simp add: ruled_store_def sample_rule_def)
  with reachable_rule_positions [OF ruled_reachable, of sample_id] ruled_reachable show ?thesis
    by (simp add: lessThan_Suc)
qed

lemmas rule_eval = act_eval statement_eval lookup_eval identifier_defs validate_identifier_def ruled_store_def empty_db_def
  shift_positions_locked_def sample_rule_def mail_rule_check_def hex_identifier_def

theorem reorder_outcome_witness:
  "reachable sample_env ruled_store \<and> (\<exists>t. reorder_mail_rules sample_env (PyStr sample_id)
      (PyList [PyStr (rule_id sample_rule)]) ruled_store = (Inr (), t)
    \<and> map rule_id (ordered_rules sample_id (db t)) = [rule_id sample_rule])"
proof -
  let ?run = "reorder_mail_rules sample_env (PyStr sample_id) (PyList [PyStr (rule_id sample_rule)]) ruled_store"
  obtain r t where run: "?run = (r, t)" by (cases ?run)
  then have "r = Inr ()"
    using hex_identifier_hex [of "replicate 15 7 @ [1]"] sample_id_hex
    by (auto simp: reorder_mail_rules_def rule_eval)
  with reorder_outcome [OF ruled_reachable run] run ruled_reachable show ?thesis by auto
qed


theorem update_rule_requires_revision_witness:
  "reachable sample_env ruled_store \<and> (\<exists>rec t. update_mail_rule sample_env (PyStr sample_id) (PyStr (rule_id sample_rule)) (PyInt 1)
      (PyStr (lit ''a'')) (PyBool True) (PyDict []) (PyStr (lit ''b'')) (PyBool True) ruled_store = (Inr rec, t)
    \<and> mrr_revision rec = 2)"
proof -
  let ?run = "update_mail_rule sample_env (PyStr sample_id) (PyStr (rule_id sample_rule)) (PyInt 1)
      (PyStr (lit ''a'')) (PyBool True) (PyDict []) (PyStr (lit ''b'')) (PyBool True) ruled_store"
  obtain r t where run: "?run = (r, t)" by (cases ?run)
  then obtain rec where r: "r = Inr rec"
    using hex_identifier_hex [of "replicate 15 7 @ [1]"] sample_id_hex
    by (auto simp: update_mail_rule_def rule_eval validate_rule_fields_def normalize_mail_rule_name_def text_eval
        is_ascii_control_def coerce_bool_def canonical_json_object_def normalize_mailbox_metadata_def bind_text_def guardA_def
        bindable_def is_surrogate_def utf8_size_def mail_rule_from_row_def json_object_from_database_def auth_limits Let_def)
  have "\<And>row. row \<in> set (mail_rules (db ruled_store)) \<Longrightarrow> revision row = 1" by (simp add: ruled_store_def sample_rule_def)
  with update_rule_requires_revision [OF ruled_reachable run] run r ruled_reachable show ?thesis by auto
qed

end
