(* ===== verification/Utf8_Text.thy ===== *)
theory Utf8_Text
  imports Prelude
begin

text \<open>
  UTF-8 as \<open>str.encode("utf-8")\<close> and \<open>bytes.decode("utf-8")\<close> implement it in strict mode, which
  the helper protocol, the rule snapshots and the delivery filter use for everything they put
  on a socket or on disk. Encoding fails on surrogates; decoding fails on truncated and
  overlong sequences, on encoded surrogates and beyond U+10FFFF. The two are inverse to each
  other wherever they are defined.
\<close>

section \<open>The codec\<close>

definition is_scalar :: "nat \<Rightarrow> bool" where
  "is_scalar c \<longleftrightarrow> c < 55296 \<or> (57344 \<le> c \<and> c < 1114112)"

definition utf8_units :: "nat \<Rightarrow> nat list" where
  "utf8_units c =
     (if c < 128 then [c]
      else if c < 2048 then [192 + c div 64, 128 + c mod 64]
      else if c < 65536 then [224 + c div 4096, 128 + c div 64 mod 64, 128 + c mod 64]
      else [240 + c div 262144, 128 + c div 4096 mod 64, 128 + c div 64 mod 64, 128 + c mod 64])"

definition utf8_encode :: "pystr \<Rightarrow> bytes res" where
  "utf8_encode s =
     (if list_all is_scalar s then Inr (map of_nat (concat (map utf8_units s)))
      else Inl UnicodeEncodeError)"

definition is_continuation :: "nat \<Rightarrow> bool" where
  "is_continuation b \<longleftrightarrow> 128 \<le> b \<and> b < 192"

text \<open>
  One character from the front of the input: its code point and the input behind it. \<open>accept\<close>
  says which three-byte characters are taken: \<open>is_scalar\<close> in strict mode, everything in the
  \<open>surrogatepass\<close> mode in which \<open>json.loads\<close> decodes bytes.
\<close>

definition utf8_next :: "(nat \<Rightarrow> bool) \<Rightarrow> nat list \<Rightarrow> (nat \<times> nat list) option" where
  "utf8_next accept u =
     (case u of
        [] \<Rightarrow> None
      | a # r \<Rightarrow>
          if a < 128 then Some (a, r)
          else if 194 \<le> a \<and> a < 224 then
            (case r of
               b # r' \<Rightarrow> if is_continuation b then Some ((a - 192) * 64 + (b - 128), r') else None
             | _ \<Rightarrow> None)
          else if 224 \<le> a \<and> a < 240 then
            (case r of
               b # c # r' \<Rightarrow>
                 let v = (a - 224) * 4096 + (b - 128) * 64 + (c - 128) in
                 if is_continuation b \<and> is_continuation c \<and> 2048 \<le> v \<and> accept v
                 then Some (v, r') else None
             | _ \<Rightarrow> None)
          else if 240 \<le> a \<and> a < 245 then
            (case r of
               b # c # d # r' \<Rightarrow>
                 let v = (a - 240) * 262144 + (b - 128) * 4096 + (c - 128) * 64 + (d - 128) in
                 if is_continuation b \<and> is_continuation c \<and> is_continuation d \<and> 65536 \<le> v
                    \<and> v < 1114112
                 then Some (v, r') else None
             | _ \<Rightarrow> None)
          else None)"

lemma utf8_next_shorter: "utf8_next p u = Some (c, r) \<Longrightarrow> length r < length u"
  by (auto simp: utf8_next_def Let_def split: list.splits if_splits)

function utf8_chars :: "(nat \<Rightarrow> bool) \<Rightarrow> nat list \<Rightarrow> pystr option" where
  "utf8_chars accept u =
     (if u = [] then Some []
      else case utf8_next accept u of
        None \<Rightarrow> None
      | Some (c, r) \<Rightarrow> map_option (\<lambda>cs. c # cs) (utf8_chars accept r))"
  by auto
termination by (relation "measure (length \<circ> snd)") (auto dest: utf8_next_shorter)

declare utf8_chars.simps [simp del]

definition utf8_decode :: "bytes \<Rightarrow> pystr res" where
  "utf8_decode bs =
     (case utf8_chars is_scalar (map unat bs) of Some s \<Rightarrow> Inr s | None \<Rightarrow> Inl UnicodeDecodeError)"

definition utf8_decode_surrogatepass :: "bytes \<Rightarrow> pystr res" where
  "utf8_decode_surrogatepass bs =
     (case utf8_chars (\<lambda>_. True) (map unat bs) of Some s \<Rightarrow> Inr s | None \<Rightarrow> Inl UnicodeDecodeError)"

section \<open>Decoding inverts encoding\<close>

lemma utf8_units_bound: "is_scalar c \<Longrightarrow> x \<in> set (utf8_units c) \<Longrightarrow> x < 256"
  by (auto simp: utf8_units_def is_scalar_def split: if_splits)

lemma utf8_units_not_Nil [simp]: "utf8_units c \<noteq> []"
  by (simp add: utf8_units_def)

lemma utf8_next_units:
  assumes "is_scalar c" "accept c"
  shows "utf8_next accept (utf8_units c @ r) = Some (c, r)"
proof -
  have d3: "c div 64 = c div 4096 * 64 + c div 64 mod 64"
    using div_mult_mod_eq [of "c div 64" 64] div_mult2_eq [of c 64 64] by simp
  have d4: "c div 4096 = c div 262144 * 64 + c div 4096 mod 64"
    using div_mult_mod_eq [of "c div 4096" 64] div_mult2_eq [of c 4096 64] by simp
  have c: "c = c div 64 * 64 + c mod 64" by simp
  consider "c < 128" | "128 \<le> c" "c < 2048" | "2048 \<le> c" "c < 65536" | "65536 \<le> c" by linarith
  then show ?thesis
  proof cases
    case 3
    have "c div 4096 < 16" using 3 by simp
    moreover have "c div 4096 * 4096 + c div 64 mod 64 * 64 + c mod 64 = c"
      using d3 c by linarith
    ultimately show ?thesis using 3 assms
      by (simp add: utf8_units_def utf8_next_def is_continuation_def Let_def)
  next
    case 4
    have "c div 262144 < 5" using assms by (auto simp: is_scalar_def)
    moreover have "c div 262144 * 262144 + c div 4096 mod 64 * 4096 + c div 64 mod 64 * 64 + c mod 64 = c"
      using d3 d4 c by linarith
    moreover have "c < 1114112" using assms(1) by (auto simp: is_scalar_def)
    ultimately show ?thesis using 4
      by (simp add: utf8_units_def utf8_next_def is_continuation_def Let_def)
  next
    case 2
    have "2 \<le> c div 64" "c div 64 < 32" using 2 by simp_all
    then show ?thesis using 2 by (simp add: utf8_units_def utf8_next_def is_continuation_def)
  qed (simp add: utf8_units_def utf8_next_def)
qed

lemma utf8_chars_units:
  "list_all is_scalar s \<Longrightarrow> list_all accept s \<Longrightarrow> utf8_chars accept (concat (map utf8_units s)) = Some s"
proof (induction s)
  case Nil
  show ?case by (simp add: utf8_chars.simps)
next
  case (Cons c s)
  then show ?case by (subst utf8_chars.simps) (simp add: utf8_next_units)
qed

lemma map_unat_of_nat:
  "(\<And>x. x \<in> set xs \<Longrightarrow> x < 256) \<Longrightarrow> map unat (map of_nat xs :: bytes) = xs"
  by (induction xs) (simp_all add: unat_of_nat)

lemma utf8_encode_units:
  assumes "utf8_encode s = Inr bs"
  shows "list_all is_scalar s" "map unat bs = concat (map utf8_units s)"
proof -
  show s: "list_all is_scalar s" using assms by (auto simp: utf8_encode_def split: if_splits)
  have bs: "bs = map of_nat (concat (map utf8_units s))"
    using assms by (auto simp: utf8_encode_def split: if_splits)
  show "map unat bs = concat (map utf8_units s)"
    unfolding bs by (rule map_unat_of_nat) (use s in \<open>auto simp: list_all_iff dest: utf8_units_bound\<close>)
qed

lemma utf8_decode_encode: "utf8_encode s = Inr bs \<Longrightarrow> utf8_decode bs = Inr s"
  using utf8_encode_units [of s bs] by (simp add: utf8_decode_def utf8_chars_units)

lemma utf8_decode_surrogatepass_encode:
  "utf8_encode s = Inr bs \<Longrightarrow> utf8_decode_surrogatepass bs = Inr s"
  using utf8_encode_units [of s bs]
  by (simp add: utf8_decode_surrogatepass_def utf8_chars_units list_all_iff)

section \<open>Encoding inverts decoding\<close>

lemma base64_digit:
  fixes q y :: nat
  assumes "y < 64"
  shows "(q * 64 + y) mod 64 = y" "(q * 64 + y) div 64 = q"
    "(q * 64 + y) div 4096 = q div 64" "(q * 64 + y) div 262144 = q div 4096"
  using assms div_mult2_eq [of "q * 64 + y" 64 64] div_mult2_eq [of "q * 64 + y" 64 4096] by simp_all

lemma utf8_units_next:
  assumes "utf8_next is_scalar u = Some (c, r)"
  shows "is_scalar c \<and> u = utf8_units c @ r"
proof -
  obtain a q where u: "u = a # q" using assms by (cases u) (auto simp: utf8_next_def)
  consider "a < 128" | "194 \<le> a" "a < 224" | "224 \<le> a" "a < 240" | "240 \<le> a" "a < 245"
    using assms by (auto simp: utf8_next_def u split: if_splits)
  then show ?thesis
  proof cases
    case 1
    then show ?thesis using assms by (auto simp: utf8_next_def u is_scalar_def utf8_units_def)
  next
    case 2
    then obtain b where q: "q = b # r" and b: "is_continuation b" and c: "c = (a - 192) * 64 + (b - 128)"
      using assms by (auto simp: utf8_next_def u split: list.splits if_splits)
    define x y where xy: "x = a - 192" "y = b - 128"
    have k: "a = 192 + x" "b = 128 + y" "2 \<le> x" "x < 32" "y < 64"
      using 2 b by (auto simp: xy is_continuation_def)
    have c': "c = x * 64 + y" unfolding c xy by simp
    have "c div 64 = x" "c mod 64 = y" using k unfolding c' by simp_all
    moreover have "128 \<le> c" "c < 2048" using k unfolding c' by linarith+
    ultimately show ?thesis by (simp add: u q utf8_units_def is_scalar_def k)
  next
    case 3
    then obtain b d where q: "q = b # d # r" and k: "is_continuation b" "is_continuation d"
      and c: "c = (a - 224) * 4096 + (b - 128) * 64 + (d - 128)" and v: "2048 \<le> c" "is_scalar c"
      using assms by (auto simp: utf8_next_def u Let_def is_scalar_def split: list.splits if_splits)
    define x y z where xyz: "x = a - 224" "y = b - 128" "z = d - 128"
    have b: "a = 224 + x" "b = 128 + y" "d = 128 + z" "x < 16" "y < 64" "z < 64"
      using 3 k by (auto simp: xyz is_continuation_def)
    have c': "c = (x * 64 + y) * 64 + z" unfolding c xyz by simp
    have e: "c mod 64 = z" "c div 64 = x * 64 + y" "c div 4096 = (x * 64 + y) div 64"
      unfolding c' by (rule base64_digit, rule b)+
    have "c div 4096 = x" "c div 64 mod 64 = y" using e base64_digit b by simp_all
    moreover have "c < 65536" unfolding c' using b by simp
    ultimately show ?thesis using v e(1) by (simp add: u q utf8_units_def b)
  next
    case 4
    then obtain b d f where q: "q = b # d # f # r"
      and k: "is_continuation b" "is_continuation d" "is_continuation f"
      and c: "c = (a - 240) * 262144 + (b - 128) * 4096 + (d - 128) * 64 + (f - 128)"
      and v: "65536 \<le> c" "is_scalar c"
      using assms by (auto simp: utf8_next_def u Let_def is_scalar_def split: list.splits if_splits)
    define x y z w where xyz: "x = a - 240" "y = b - 128" "z = d - 128" "w = f - 128"
    have b: "a = 240 + x" "b = 128 + y" "d = 128 + z" "f = 128 + w" "y < 64" "z < 64" "w < 64"
      using 4 k by (auto simp: xyz is_continuation_def)
    have c': "c = ((x * 64 + y) * 64 + z) * 64 + w" unfolding c xyz by simp
    have e: "c mod 64 = w" "c div 64 = (x * 64 + y) * 64 + z"
      "c div 4096 = ((x * 64 + y) * 64 + z) div 64" "c div 262144 = ((x * 64 + y) * 64 + z) div 4096"
      unfolding c' by (rule base64_digit, rule b)+
    have "c div 64 mod 64 = z" "c div 4096 mod 64 = y" "c div 262144 = x"
      unfolding e by (simp_all only: base64_digit b)
    then show ?thesis using v e(1) by (simp add: u q utf8_units_def b)
  qed
qed

lemma utf8_units_chars:
  "utf8_chars is_scalar u = Some s \<Longrightarrow> list_all is_scalar s \<and> u = concat (map utf8_units s)"
proof (induction "is_scalar" u arbitrary: s rule: utf8_chars.induct)
  case (1 u)
  show ?case
  proof (cases "u = []")
    case True
    with "1.prems" show ?thesis by (simp add: utf8_chars.simps)
  next
    case False
    with "1.prems" obtain c r cs where n: "utf8_next is_scalar u = Some (c, r)"
      and cs: "utf8_chars is_scalar r = Some cs" "s = c # cs"
      by (subst (asm) utf8_chars.simps) (auto split: option.splits)
    have "list_all is_scalar cs \<and> r = concat (map utf8_units cs)"
      by (rule "1.hyps") (use False n cs in auto)
    with utf8_units_next [OF n] cs show ?thesis by simp
  qed
qed

lemma utf8_encode_decode: "utf8_decode bs = Inr s \<Longrightarrow> utf8_encode s = Inr bs"
proof -
  assume "utf8_decode bs = Inr s"
  then have "utf8_chars is_scalar (map unat bs) = Some s"
    by (auto simp: utf8_decode_def split: option.splits)
  from utf8_units_chars [OF this] have s: "list_all is_scalar s"
    and u: "map unat bs = concat (map utf8_units s)" by auto
  have "map of_nat (map unat bs) = bs" by (simp add: comp_def)
  then show ?thesis using s u by (simp add: utf8_encode_def)
qed

interpretation utf8: codec utf8_decode "\<lambda>s. case utf8_encode s of Inr bs \<Rightarrow> bs | Inl _ \<Rightarrow> []"
  "list_all is_scalar"
  by unfold_locales
    (auto simp: utf8_encode_def utf8_decode_encode split: sum.splits if_splits dest: utf8_encode_decode)

section \<open>Text that stays readable\<close>

lemma utf8_encode_ascii: "isascii s \<Longrightarrow> utf8_encode s = Inr (map of_nat s)"
proof -
  assume a: "isascii s"
  have "list_all is_scalar s" using a by (auto simp: isascii_def is_scalar_def list_all_iff)
  moreover have "concat (map utf8_units s) = s"
    using a by (induction s) (auto simp: isascii_def utf8_units_def)
  ultimately show ?thesis by (simp add: utf8_encode_def)
qed

text \<open>
  A byte below 128 in encoded text is that character, so control bytes are control characters.
\<close>

lemma utf8_small_unit: "x \<in> set (utf8_units c) \<Longrightarrow> x < 128 \<Longrightarrow> x = c"
  by (auto simp: utf8_units_def split: if_splits)

lemma utf8_small_byte:
  assumes "utf8_encode s = Inr bs" "b \<in> set bs" "unat b < 128"
  shows "unat b \<in> set s"
proof -
  have s: "list_all is_scalar s" and bs: "bs = map of_nat (concat (map utf8_units s))"
    using assms(1) by (auto simp: utf8_encode_def split: if_splits)
  then obtain c x where c: "c \<in> set s" "x \<in> set (utf8_units c)" "b = of_nat x"
    using assms(2) by auto
  have "x < 256" by (rule utf8_units_bound [of c]) (use s c in \<open>auto simp: list_all_iff\<close>)
  then have "unat b = x" using c by (simp add: unat_of_nat)
  then show ?thesis using utf8_small_unit [OF c(2)] assms(3) c(1) by simp
qed

end
