(* ===== verification/Json_Text.thy ===== *)
theory Json_Text
  imports Utf8_Text
begin

text \<open>
  The parts of Python's \<open>json\<close> module that MaddyWeb uses: \<open>json.dumps\<close> with compact separators,
  with or without \<open>ensure_ascii\<close> and \<open>sort_keys\<close>, and \<open>json.loads\<close> with its hooks for integers,
  floats, constants and objects. Helper frames, rule documents and rule snapshots all pass
  through these two functions.

  A float is known by its \<open>repr\<close>, so a hook that reads a float returns the \<open>repr\<close> of the value.
  \<open>json\<close> turns keys that are \<open>None\<close>, booleans or numbers into text; every caller here has checked
  that keys are text, and the printer raises \<open>TypeError\<close> on the others. The nesting depth at which
  the interpreter gives up with \<open>RecursionError\<close> is a field of the hooks.
\<close>

section \<open>Decimal text\<close>

fun dec_nat :: "nat \<Rightarrow> pystr" where
  "dec_nat n = (if n < 10 then [48 + n] else dec_nat (n div 10) @ [48 + n mod 10])"

declare dec_nat.simps [simp del]

definition dec_int :: "int \<Rightarrow> pystr" where
  "dec_int i = (if i < 0 then 45 # dec_nat (nat (- i)) else dec_nat (nat i))"

definition digits_value :: "pystr \<Rightarrow> nat" where
  "digits_value s = foldl (\<lambda>a c. 10 * a + (c - 48)) 0 s"

text \<open>The value of an optional sign followed by decimal digits.\<close>

definition int_value :: "pystr \<Rightarrow> int" where
  "int_value s = (case s of c # r \<Rightarrow> if c = 45 then - int (digits_value r) else int (digits_value s)
                  | [] \<Rightarrow> 0)"

text \<open>\<open>sys.get_int_max_str_digits()\<close>: longer conversions raise \<open>ValueError\<close>.\<close>

definition INT_MAX_STR_DIGITS :: nat where "INT_MAX_STR_DIGITS = 4300"

section \<open>Printing\<close>

definition hex_digit :: "nat \<Rightarrow> nat" where
  "hex_digit d = (if d < 10 then 48 + d else 87 + d)"

definition unicode_escape :: "nat \<Rightarrow> pystr" where
  "unicode_escape c =
     [92, 117, hex_digit (c div 4096 mod 16), hex_digit (c div 256 mod 16),
      hex_digit (c div 16 mod 16), hex_digit (c mod 16)]"

definition escape_char :: "bool \<Rightarrow> nat \<Rightarrow> pystr" where
  "escape_char ensure_ascii c =
     (if c = 34 then [92, 34]
      else if c = 92 then [92, 92]
      else if c = 10 then [92, 110]
      else if c = 13 then [92, 114]
      else if c = 9 then [92, 116]
      else if c = 12 then [92, 102]
      else if c = 8 then [92, 98]
      else if c < 32 then unicode_escape c
      else if ensure_ascii \<and> 126 < c then
        if c < 65536 then unicode_escape c
        else unicode_escape (55296 + (c - 65536) div 1024) @ unicode_escape (56320 + (c - 65536) mod 1024)
      else [c])"

definition dump_string :: "bool \<Rightarrow> pystr \<Rightarrow> pystr" where
  "dump_string ensure_ascii s = 34 # concat (map (escape_char ensure_ascii) s) @ [34]"

definition finite_float :: "string \<Rightarrow> bool" where
  "finite_float s \<longleftrightarrow> s \<notin> {''nan'', ''inf'', ''-inf''}"

fun text_keys :: "(pyval \<times> pyval) list \<Rightarrow> (pystr \<times> pyval) list res" where
  "text_keys [] = Inr []"
| "text_keys ((PyStr k, v) # items) = bind_res (text_keys items) (\<lambda>m. Inr ((k, v) # m))"
| "text_keys _ = Inl TypeError"

lemma text_keys_Inr: "text_keys items = Inr m \<longleftrightarrow> items = map (\<lambda>(k, v). (PyStr k, v)) m"
  by (induction items arbitrary: m rule: text_keys.induct) (auto simp: res_simps)

lemma dict_value_size:
  "(k, v) \<in> set m \<Longrightarrow> size v \<le> size_list (size_prod size size \<circ> (\<lambda>(k, y). (PyStr k, y))) m"
  by (erule size_list_estimation') simp

function dumps :: "bool \<Rightarrow> bool \<Rightarrow> pyval \<Rightarrow> pystr res" where
  "dumps ea sk v =
     (case v of
        PyNone \<Rightarrow> Inr (lit ''null'')
      | PyBool b \<Rightarrow> Inr (if b then lit ''true'' else lit ''false'')
      | PyInt i \<Rightarrow>
          if INT_MAX_STR_DIGITS < length (dec_nat (nat \<bar>i\<bar>)) then Inl ValueError else Inr (dec_int i)
      | PyFloat s \<Rightarrow> if finite_float s then Inr (lit s) else Inl ValueError
      | PyStr s \<Rightarrow> Inr (dump_string ea s)
      | PyList vs \<Rightarrow> bind_res (traverse (dumps ea sk) vs) (\<lambda>ts. Inr (91 # join_on 44 ts @ [93]))
      | PyTuple vs \<Rightarrow> bind_res (traverse (dumps ea sk) vs) (\<lambda>ts. Inr (91 # join_on 44 ts @ [93]))
      | PyDict items \<Rightarrow>
          bind_res (text_keys items) (\<lambda>m.
          bind_res (traverse (\<lambda>(k, w). bind_res (dumps ea sk w) (\<lambda>t. Inr (dump_string ea k @ 58 # t)))
                      (if sk then sort_key fst m else m)) (\<lambda>ts.
          Inr (123 # join_on 44 ts @ [125])))
      | _ \<Rightarrow> Inl TypeError)"
  by pat_completeness auto
termination
  by (relation "measure (\<lambda>(_, _, v). size v)")
    (auto simp: text_keys_Inr less_Suc_eq_le split: if_splits
      dest: size_list_estimation' [OF _ order_refl] intro: dict_value_size)

declare dumps.simps [simp del]

lemma dumps_simps [simp]:
  "dumps ea sk PyNone = Inr (lit ''null'')"
  "dumps ea sk (PyBool b) = Inr (if b then lit ''true'' else lit ''false'')"
  "dumps ea sk (PyInt i) =
     (if INT_MAX_STR_DIGITS < length (dec_nat (nat \<bar>i\<bar>)) then Inl ValueError else Inr (dec_int i))"
  "dumps ea sk (PyFloat s) = (if finite_float s then Inr (lit s) else Inl ValueError)"
  "dumps ea sk (PyStr t) = Inr (dump_string ea t)"
  "dumps ea sk (PyList vs) =
     bind_res (traverse (dumps ea sk) vs) (\<lambda>ts. Inr (91 # join_on 44 ts @ [93]))"
  "dumps ea sk (PyTuple vs) =
     bind_res (traverse (dumps ea sk) vs) (\<lambda>ts. Inr (91 # join_on 44 ts @ [93]))"
  "dumps ea sk (PyDict items) =
     bind_res (text_keys items) (\<lambda>m.
     bind_res (traverse (\<lambda>(k, w). bind_res (dumps ea sk w) (\<lambda>t. Inr (dump_string ea k @ 58 # t)))
                 (if sk then sort_key fst m else m)) (\<lambda>ts.
     Inr (123 # join_on 44 ts @ [125])))"
  "dumps ea sk (PyBytes x) = Inl TypeError"
  "dumps ea sk (PySet vs) = Inl TypeError"
  "dumps ea sk (PyOther n) = Inl TypeError"
  by (simp_all add: dumps.simps)

section \<open>Reading\<close>

text \<open>
  The hooks of \<open>json.loads\<close>. The object hook gets the members in order, duplicates included.
\<close>

record json_hooks =
  parse_int :: "pystr \<Rightarrow> pyval res"
  parse_float :: "pystr \<Rightarrow> pyval res"
  parse_constant :: "pystr \<Rightarrow> pyval res"
  object_pairs :: "(pystr \<times> pyval) list \<Rightarrow> pyval res"
  recursion_limit :: nat

definition next_is :: "nat \<Rightarrow> pystr \<Rightarrow> bool" where
  "next_is c s \<longleftrightarrow> s \<noteq> [] \<and> hd s = c"

definition skip_ws :: "pystr \<Rightarrow> pystr" where
  "skip_ws s = dropWhile (\<lambda>c. c = 32 \<or> c = 9 \<or> c = 10 \<or> c = 13) s"

text \<open>Four hexadecimal digits at the front of the input.\<close>

definition hex_value :: "nat \<Rightarrow> nat option" where
  "hex_value c =
     (if 48 \<le> c \<and> c \<le> 57 then Some (c - 48)
      else if 97 \<le> c \<and> c \<le> 102 then Some (c - 87)
      else if 65 \<le> c \<and> c \<le> 70 then Some (c - 55)
      else None)"

definition hex4 :: "pystr \<Rightarrow> nat option" where
  "hex4 s =
     (if length s < 4 then None
      else case (hex_value (s ! 0), hex_value (s ! 1), hex_value (s ! 2), hex_value (s ! 3)) of
        (Some a, Some b, Some c, Some d) \<Rightarrow> Some (((a * 16 + b) * 16 + c) * 16 + d)
      | _ \<Rightarrow> None)"

definition simple_escape :: "nat \<Rightarrow> nat option" where
  "simple_escape c =
     (if c = 34 \<or> c = 92 \<or> c = 47 then Some c
      else if c = 98 then Some 8
      else if c = 102 then Some 12
      else if c = 110 then Some 10
      else if c = 114 then Some 13
      else if c = 116 then Some 9
      else None)"

text \<open>
  What follows a backslash: the character it stands for and the input behind it. A high
  surrogate takes a low one that follows as a second escape with it.
\<close>

definition scan_escape :: "pystr \<Rightarrow> (nat \<times> pystr) option" where
  "scan_escape s =
     (case s of
        [] \<Rightarrow> None
      | c # r \<Rightarrow>
          if c = 117 then
            (case hex4 r of
               None \<Rightarrow> None
             | Some v \<Rightarrow>
                 let r' = drop 4 r in
                 if 55296 \<le> v \<and> v < 56320 \<and> take 2 r' = [92, 117] then
                   (case hex4 (drop 2 r') of
                      Some w \<Rightarrow>
                        if 56320 \<le> w \<and> w < 57344
                        then Some (65536 + (v - 55296) * 1024 + (w - 56320), drop 6 r')
                        else Some (v, r')
                    | None \<Rightarrow> None)
                 else Some (v, r'))
          else map_option (\<lambda>v. (v, r)) (simple_escape c))"

lemma scan_escape_shorter: "scan_escape s = Some (c, r) \<Longrightarrow> length r < length s"
  by (auto simp: scan_escape_def Let_def split: list.splits option.splits if_splits)

text \<open>The rest of a string literal whose opening quote has been read.\<close>

function scan_string :: "pystr \<Rightarrow> (pystr \<times> pystr) res" where
  "scan_string s =
     (case s of
        [] \<Rightarrow> Inl ValueError
      | c # r \<Rightarrow>
          if c = 34 then Inr ([], r)
          else if c < 32 then Inl ValueError
          else if c = 92 then
            (case scan_escape r of
               None \<Rightarrow> Inl ValueError
             | Some (d, r') \<Rightarrow> bind_res (scan_string r') (\<lambda>(t, q). Inr (d # t, q)))
          else bind_res (scan_string r) (\<lambda>(t, q). Inr (c # t, q)))"
  by pat_completeness auto
termination by (relation "measure length") (auto dest: scan_escape_shorter)

declare scan_string.simps [simp del]

text \<open>
  A number: its sign and integer digits, then a fraction and an exponent when they have digits.
  The result says whether it is a float.
\<close>

definition number_int :: "pystr \<Rightarrow> (pystr \<times> pystr) option" where
  "number_int s =
     (let sign = (if next_is 45 s then [45] else []); r = drop (length sign) s in
      if r = [] then None
      else if hd r = 48 then Some (sign @ [48], tl r)
      else if is_digit (hd r) then Some (sign @ takeWhile is_digit r, dropWhile is_digit r)
      else None)"

definition number_frac :: "pystr \<Rightarrow> pystr \<times> pystr" where
  "number_frac s =
     (if next_is 46 s \<and> takeWhile is_digit (tl s) \<noteq> []
      then (46 # takeWhile is_digit (tl s), dropWhile is_digit (tl s)) else ([], s))"

definition number_exp :: "pystr \<Rightarrow> pystr \<times> pystr" where
  "number_exp s =
     (if next_is 101 s \<or> next_is 69 s then
        let sign = (if next_is 43 (tl s) \<or> next_is 45 (tl s) then [hd (tl s)] else []);
            r = drop (length sign) (tl s)
        in if takeWhile is_digit r \<noteq> []
           then (hd s # sign @ takeWhile is_digit r, dropWhile is_digit r) else ([], s)
      else ([], s))"

definition scan_number :: "pystr \<Rightarrow> (pystr \<times> bool \<times> pystr) option" where
  "scan_number s =
     map_option (\<lambda>(i, r).
       let (f, q) = number_frac r; (e, p) = number_exp q in (i @ f @ e, f @ e \<noteq> [], p))
     (number_int s)"

definition scan_scalar :: "json_hooks \<Rightarrow> pystr \<Rightarrow> (pyval \<times> pystr) res" where
  "scan_scalar h s =
     (if prefix (lit ''null'') s then Inr (PyNone, drop 4 s)
      else if prefix (lit ''true'') s then Inr (PyBool True, drop 4 s)
      else if prefix (lit ''false'') s then Inr (PyBool False, drop 5 s)
      else if prefix (lit ''NaN'') s then
        bind_res (parse_constant h (lit ''NaN'')) (\<lambda>v. Inr (v, drop 3 s))
      else if prefix (lit ''Infinity'') s then
        bind_res (parse_constant h (lit ''Infinity'')) (\<lambda>v. Inr (v, drop 8 s))
      else if prefix (lit ''-Infinity'') s then
        bind_res (parse_constant h (lit ''-Infinity'')) (\<lambda>v. Inr (v, drop 9 s))
      else case scan_number s of
        None \<Rightarrow> Inl ValueError
      | Some (t, is_float, r) \<Rightarrow>
          bind_res (if is_float then parse_float h t else parse_int h t) (\<lambda>v. Inr (v, r)))"

text \<open>
  \<open>scan_once\<close> with its two loops. The first number bounds the calls still allowed: it is larger
  than twice the remaining input in every call of \<open>scan_value\<close>, and a value reads a character before
  it starts another (\<open>loads_raises\<close> in \<open>Json_Correct\<close>). The second number is the nesting depth.
\<close>

fun scan_value :: "json_hooks \<Rightarrow> nat \<Rightarrow> nat \<Rightarrow> pystr \<Rightarrow> (pyval \<times> pystr) res"
and scan_elements :: "json_hooks \<Rightarrow> nat \<Rightarrow> nat \<Rightarrow> pystr \<Rightarrow> (pyval list \<times> pystr) res"
and scan_members :: "json_hooks \<Rightarrow> nat \<Rightarrow> nat \<Rightarrow> pystr \<Rightarrow> ((pystr \<times> pyval) list \<times> pystr) res"
where
  "scan_value h 0 d s = Inl DoesNotReturn"
| "scan_value h (Suc n) d s =
     (if next_is 34 s then bind_res (scan_string (tl s)) (\<lambda>(t, r). Inr (PyStr t, r))
      else if next_is 123 s then
        if recursion_limit h \<le> d then Inl RecursionError
        else if next_is 125 (skip_ws (tl s)) then
          bind_res (object_pairs h []) (\<lambda>v. Inr (v, tl (skip_ws (tl s))))
        else bind_res (scan_members h n (Suc d) (skip_ws (tl s))) (\<lambda>(ps, r).
             bind_res (object_pairs h ps) (\<lambda>v. Inr (v, r)))
      else if next_is 91 s then
        if recursion_limit h \<le> d then Inl RecursionError
        else if next_is 93 (skip_ws (tl s)) then Inr (PyList [], tl (skip_ws (tl s)))
        else bind_res (scan_elements h n (Suc d) (skip_ws (tl s))) (\<lambda>(vs, r). Inr (PyList vs, r))
      else scan_scalar h s)"
| "scan_elements h 0 d s = Inl DoesNotReturn"
| "scan_elements h (Suc n) d s =
     bind_res (scan_value h n d s) (\<lambda>(v, r).
     let r = skip_ws r in
     if next_is 93 r then Inr ([v], tl r)
     else if next_is 44 r then
       bind_res (scan_elements h n d (skip_ws (tl r))) (\<lambda>(vs, q). Inr (v # vs, q))
     else Inl ValueError)"
| "scan_members h 0 d s = Inl DoesNotReturn"
| "scan_members h (Suc n) d s =
     (if next_is 34 s then
        bind_res (scan_string (tl s)) (\<lambda>(k, r).
        let r = skip_ws r in
        if next_is 58 r then
          bind_res (scan_value h n d (skip_ws (tl r))) (\<lambda>(v, r).
          let r = skip_ws r in
          if next_is 125 r then Inr ([(k, v)], tl r)
          else if next_is 44 r then
            bind_res (scan_members h n d (skip_ws (tl r))) (\<lambda>(ps, q). Inr ((k, v) # ps, q))
          else Inl ValueError)
        else Inl ValueError)
      else Inl ValueError)"

definition loads :: "json_hooks \<Rightarrow> pystr \<Rightarrow> pyval res" where
  "loads h s =
     (if next_is 65279 s then Inl ValueError
      else
        bind_res (scan_value h (Suc (2 * length s)) 0 (skip_ws s)) (\<lambda>(v, r).
        if skip_ws r = [] then Inr v else Inl ValueError))"

text \<open>\<open>int\<close> and \<open>dict\<close> as default hooks.\<close>

definition default_parse_int :: "pystr \<Rightarrow> pyval res" where
  "default_parse_int s =
     (if INT_MAX_STR_DIGITS < length (filter is_digit s) then Inl ValueError
      else Inr (PyInt (int_value s)))"

fun dict_insert :: "(pystr \<times> pyval) list \<Rightarrow> pystr \<Rightarrow> pyval \<Rightarrow> (pystr \<times> pyval) list" where
  "dict_insert [] k v = [(k, v)]"
| "dict_insert ((l, w) # m) k v = (if l = k then (l, v) # m else (l, w) # dict_insert m k v)"

definition dict_of_pairs :: "(pystr \<times> pyval) list \<Rightarrow> (pystr \<times> pyval) list" where
  "dict_of_pairs ps = foldl (\<lambda>m (k, v). dict_insert m k v) [] ps"

definition py_dict :: "(pystr \<times> pyval) list \<Rightarrow> pyval" where
  "py_dict m = PyDict (map (\<lambda>(k, v). (PyStr k, v)) m)"

definition default_object_pairs :: "(pystr \<times> pyval) list \<Rightarrow> pyval res" where
  "default_object_pairs ps = Inr (py_dict (dict_of_pairs ps))"

end
