(* ===== verification/Helper_Protocol.thy ===== *)
theory Helper_Protocol
  imports Json_Text Binary_Text Store_Monad
begin

text \<open>
  \<open>protocol.py\<close>: the frames that the web process and the privileged helper exchange over a UNIX
  socket. A frame is a four-byte big-endian length and that many bytes of UTF-8 JSON; requests and
  responses are dictionaries with fixed keys; a control frame may announce a binary stream that
  follows it.

  \<^item> The connection is the record \<open>wire\<close>: what the peer sends, in the pieces in which it arrives and
    with the failures that interrupt it, what was sent, the results of the writes still to come, the
    file an upload is read from and the file a download is written to. Operations are actions of
    \<open>Store_Monad\<close> on it.
  \<^item> \<open>float_of\<close> is the interpreter's conversion of decimal text to a float, given by its \<open>repr\<close>;
    \<open>limit\<close> is the nesting at which the interpreter's JSON scanner raises \<open>RecursionError\<close>.
\<close>

section \<open>Limits and patterns\<close>

definition PROTOCOL_VERSION :: int where "PROTOCOL_VERSION = 2"
definition HEADER_SIZE :: nat where "HEADER_SIZE = 4"
definition DEFAULT_MAX_FRAME_BYTES :: int where "DEFAULT_MAX_FRAME_BYTES = 64 * 1024"
definition DEFAULT_MAX_STREAM_BYTES :: int where "DEFAULT_MAX_STREAM_BYTES = 32 * 1024 * 1024"
definition STREAM_CHUNK_BYTES :: nat where "STREAM_CHUNK_BYTES = 64 * 1024"
definition MAX_JSON_INTEGER_DIGITS :: nat where "MAX_JSON_INTEGER_DIGITS = 20"
definition MAX_JSON_FLOAT_CHARACTERS :: nat where "MAX_JSON_FLOAT_CHARACTERS = 128"

lemmas protocol_limits = PROTOCOL_VERSION_def HEADER_SIZE_def DEFAULT_MAX_FRAME_BYTES_def
  DEFAULT_MAX_STREAM_BYTES_def STREAM_CHUNK_BYTES_def MAX_JSON_INTEGER_DIGITS_def
  MAX_JSON_FLOAT_CHARACTERS_def

definition id_re :: "pystr \<Rightarrow> bool" where
  "id_re s \<longleftrightarrow> 1 \<le> length s \<and> length s \<le> 64
     \<and> list_all (\<lambda>c. is_ascii_alnum c \<or> c = 95 \<or> c = 46 \<or> c = 45) s"

definition operation_label :: "pystr \<Rightarrow> bool" where
  "operation_label s \<longleftrightarrow> s \<noteq> [] \<and> is_lower_alpha (hd s)
     \<and> list_all (\<lambda>c. is_lower_alpha c \<or> is_digit c \<or> c = 95) (tl s)"

definition operation_re :: "pystr \<Rightarrow> bool" where
  "operation_re s \<longleftrightarrow>
     (let labels = split_on 46 s in
      2 \<le> length labels \<and> length labels \<le> 6 \<and> list_all operation_label labels)"

definition error_code_re :: "pystr \<Rightarrow> bool" where
  "error_code_re s \<longleftrightarrow> operation_label s \<and> length s \<le> 64"

definition auth_token_re :: "pystr \<Rightarrow> bool" where
  "auth_token_re s \<longleftrightarrow> length s = 43 \<and> list_all (\<lambda>c. is_ascii_alnum c \<or> c = 95 \<or> c = 45) s"

section \<open>JSON with bounds\<close>

definition reject_constant :: "pystr \<Rightarrow> pyval res" where
  "reject_constant t = Inl ProtocolError"

text \<open>\<open>v.bit_length() > 64\<close>.\<close>

definition over_64_bits :: "int \<Rightarrow> bool" where
  "over_64_bits v \<longleftrightarrow> 2 ^ 64 \<le> \<bar>v\<bar>"

definition bounded_int :: "pystr \<Rightarrow> pyval res" where
  "bounded_int t =
     (let digits = (if next_is 45 t then tl t else t) in
      if MAX_JSON_INTEGER_DIGITS < length digits then Inl ProtocolError
      else if over_64_bits (int_value t) then Inl ProtocolError
      else Inr (PyInt (int_value t)))"

definition bounded_float :: "(pystr \<Rightarrow> string) \<Rightarrow> pystr \<Rightarrow> pyval res" where
  "bounded_float float_of t =
     (if MAX_JSON_FLOAT_CHARACTERS < length t then Inl ProtocolError
      else if \<not> finite_float (float_of t) then Inl ProtocolError
      else Inr (PyFloat (float_of t)))"

function validate_json_value :: "nat \<Rightarrow> pyval \<Rightarrow> unit res" where
  "validate_json_value depth v =
     (if 32 < depth then Inl ProtocolError
      else case v of
        PyInt i \<Rightarrow> if over_64_bits i then Inl ProtocolError else Inr ()
      | PyFloat s \<Rightarrow> if finite_float s then Inr () else Inl ProtocolError
      | PyNone \<Rightarrow> Inr ()
      | PyBool b \<Rightarrow> Inr ()
      | PyStr s \<Rightarrow> Inr ()
      | PyList vs \<Rightarrow> bind_res (traverse (validate_json_value (Suc depth)) vs) (\<lambda>_. Inr ())
      | PyTuple vs \<Rightarrow> bind_res (traverse (validate_json_value (Suc depth)) vs) (\<lambda>_. Inr ())
      | PyDict items \<Rightarrow>
          bind_res (traverse (\<lambda>(k, w).
            case k of PyStr t \<Rightarrow> validate_json_value (Suc depth) w | _ \<Rightarrow> Inl ProtocolError) items)
          (\<lambda>_. Inr ())
      | _ \<Rightarrow> Inl ProtocolError)"
  by pat_completeness auto
termination
  by (relation "measure (\<lambda>(depth, _). 33 - depth)") auto

declare validate_json_value.simps [simp del]

definition protocol_hooks :: "(pystr \<Rightarrow> string) \<Rightarrow> nat \<Rightarrow> json_hooks" where
  "protocol_hooks float_of limit =
     \<lparr>parse_int = bounded_int, parse_float = bounded_float float_of,
      parse_constant = reject_constant, object_pairs = default_object_pairs,
      recursion_limit = limit\<rparr>"

section \<open>Frames\<close>

definition encode_frame :: "pyval \<Rightarrow> int \<Rightarrow> bytes res" where
  "encode_frame message max_bytes =
     (if max_bytes \<le> 0 then Inl ValueError
      else case message of
        PyDict items \<Rightarrow>
          bind_res (validate_json_value 0 message) (\<lambda>_.
          case dumps False True message of
            Inl e \<Rightarrow> if e = TypeError \<or> is_value_error e then Inl ProtocolError else Inl e
          | Inr t \<Rightarrow>
              (case utf8_encode t of
                 Inl e \<Rightarrow> Inl ProtocolError
               | Inr body \<Rightarrow>
                   if body = [] then Inl ProtocolError
                   else if max_bytes < int (length body) then Inl FrameTooLarge
                   else if 2 ^ 32 \<le> length body then Inl StructError
                   else Inr (be_bytes 4 (int (length body)) @ body)))
      | _ \<Rightarrow> Inl ProtocolError)"

definition decode_payload :: "(pystr \<Rightarrow> string) \<Rightarrow> nat \<Rightarrow> bytes \<Rightarrow> int \<Rightarrow> pyval res" where
  "decode_payload float_of limit payload max_bytes =
     (if payload = [] then Inl ProtocolError
      else if max_bytes < int (length payload) then Inl FrameTooLarge
      else case utf8_decode payload of
        Inl e \<Rightarrow> Inl ProtocolError
      | Inr t \<Rightarrow>
          (case loads (protocol_hooks float_of limit) t of
             Inl e \<Rightarrow> if e = RecursionError \<or> is_value_error e then Inl ProtocolError else Inl e
           | Inr decoded \<Rightarrow>
               (case decoded of
                  PyDict items \<Rightarrow>
                    bind_res (validate_json_value 0 decoded) (\<lambda>_. Inr decoded)
                | _ \<Rightarrow> Inl ProtocolError)))"

section \<open>The connection\<close>

text \<open>
  \<open>Arrives b\<close> is a piece of input (an empty one is the end of the stream), \<open>Fails e\<close> an exception
  from \<open>recv\<close>. A file object that is read from returns bytes, something else (with its truth
  value) or raises.
\<close>

datatype net_event = Arrives bytes | Fails exn

datatype read_result = ReadBytes bytes | ReadOther bool | ReadRaises exn

record wire =
  connect_result :: "exn option"
  incoming :: "net_event list"
  outgoing :: bytes
  send_results :: "exn option list"
  shut_down :: bool
  source :: "read_result list"
  sink :: bytes

type_synonym 'a wire_act = "(wire, 'a) act"

text \<open>A step on the connection that keeps its effect also when it raises.\<close>

definition wireA :: "(wire \<Rightarrow> 'a res \<times> wire) \<Rightarrow> 'a wire_act" where
  "wireA f s = (case f (db s) of (r, w) \<Rightarrow> (r, s\<lparr>db := w\<rparr>))"

definition recv :: "nat \<Rightarrow> bytes wire_act" where
  "recv n = wireA (\<lambda>w.
     case incoming w of
       [] \<Rightarrow> (Inr [], w)
     | Fails e # es \<Rightarrow> (Inl e, w\<lparr>incoming := es\<rparr>)
     | Arrives b # es \<Rightarrow>
         if length b \<le> n then (Inr b, w\<lparr>incoming := es\<rparr>)
         else (Inr (take n b), w\<lparr>incoming := Arrives (drop n b) # es\<rparr>))"

definition sendall :: "bytes \<Rightarrow> unit wire_act" where
  "sendall b = wireA (\<lambda>w.
     case send_results w of
       [] \<Rightarrow> (Inr (), w\<lparr>outgoing := outgoing w @ b\<rparr>)
     | None # rs \<Rightarrow> (Inr (), w\<lparr>outgoing := outgoing w @ b, send_results := rs\<rparr>)
     | Some e # rs \<Rightarrow> (Inl e, w\<lparr>send_results := rs\<rparr>))"

definition source_read :: "read_result wire_act" where
  "source_read = wireA (\<lambda>w.
     case source w of
       [] \<Rightarrow> (Inr (ReadBytes []), w)
     | ReadRaises e # rs \<Rightarrow> (Inl e, w\<lparr>source := rs\<rparr>)
     | r # rs \<Rightarrow> (Inr r, w\<lparr>source := rs\<rparr>))"

definition sink_write :: "bytes \<Rightarrow> unit wire_act" where
  "sink_write b = wireA (\<lambda>w. (Inr (), w\<lparr>sink := sink w @ b\<rparr>))"

definition shutdown_write :: "unit wire_act" where
  "shutdown_write = wireA (\<lambda>w. (Inr (), w\<lparr>shut_down := True\<rparr>))"

definition connect :: "unit wire_act" where
  "connect = wireA (\<lambda>w. (case connect_result w of None \<Rightarrow> Inr () | Some e \<Rightarrow> Inl e, w))"

text \<open>
  \<open>_recv_exact\<close>; \<open>_read_exact_stream\<close> is the same loop over a file object. Each turn ends the
  loop or receives at least one byte.
\<close>

function recv_exact :: "nat \<Rightarrow> bytes wire_act" where
  "recv_exact n =
     (if n = 0 then returnA []
      else bindA (recv n) (\<lambda>chunk.
        if chunk = [] then raiseA ConnectionClosed
        else bindA (recv_exact (n - length chunk)) (\<lambda>chunks. returnA (chunk @ chunks))))"
  by pat_completeness auto
termination by (relation "measure id") auto

declare recv_exact.simps [simp del]

definition receive_frame :: "(pystr \<Rightarrow> string) \<Rightarrow> nat \<Rightarrow> int \<Rightarrow> pyval wire_act" where
  "receive_frame float_of limit max_bytes =
     bindA (recv_exact HEADER_SIZE) (\<lambda>header.
     let length = int (be_value header) in
     if length = 0 then raiseA ProtocolError
     else if max_bytes < length then raiseA FrameTooLarge
     else bindA (recv_exact (nat length)) (\<lambda>payload.
          liftE (decode_payload float_of limit payload max_bytes)))"

definition send_frame :: "pyval \<Rightarrow> int \<Rightarrow> unit wire_act" where
  "send_frame message max_bytes = bindA (liftE (encode_frame message max_bytes)) sendall"

text \<open>
  The same frames over a file object: \<open>stream.read\<close> gives the pieces of \<open>incoming\<close>, \<open>stream.write\<close>
  appends to \<open>outgoing\<close>; the code of the loops is the same.
\<close>

definition read_exact_stream :: "nat \<Rightarrow> bytes wire_act" where
  "read_exact_stream n = recv_exact n"

definition read_frame :: "(pystr \<Rightarrow> string) \<Rightarrow> nat \<Rightarrow> int \<Rightarrow> pyval wire_act" where
  "read_frame float_of limit max_bytes =
     bindA (read_exact_stream HEADER_SIZE) (\<lambda>header.
     let length = int (be_value header) in
     if length = 0 then raiseA ProtocolError
     else if max_bytes < length then raiseA FrameTooLarge
     else bindA (read_exact_stream (nat length)) (\<lambda>payload.
          liftE (decode_payload float_of limit payload max_bytes)))"

definition write_frame :: "pyval \<Rightarrow> int \<Rightarrow> unit wire_act" where
  "write_frame message max_bytes = bindA (liftE (encode_frame message max_bytes)) sendall"

section \<open>Streams\<close>

definition message_get :: "pyval \<Rightarrow> pystr \<Rightarrow> pyval" where
  "message_get message key =
     (case message of
        PyDict items \<Rightarrow> (case map_of items (PyStr key) of None \<Rightarrow> PyNone | Some v \<Rightarrow> v)
      | _ \<Rightarrow> PyNone)"

definition check_stream_length :: "pyval \<Rightarrow> int \<Rightarrow> int res" where
  "check_stream_length message maximum =
     (case message_get message (lit ''stream_length'') of
        PyInt v \<Rightarrow>
          if v \<le> 0 then Inl StreamError else if maximum < v then Inl StreamTooLarge else Inr v
      | _ \<Rightarrow> Inl StreamError)"

function send_chunks :: "nat \<Rightarrow> unit wire_act" where
  "send_chunks remaining =
     (if remaining = 0 then returnA ()
      else
        let requested = min STREAM_CHUNK_BYTES remaining in
        bindA source_read (\<lambda>chunk.
        case chunk of
          ReadBytes b \<Rightarrow>
            if b = [] then raiseA StreamTruncated
            else if requested < length b then raiseA StreamError
            else seqA (sendall b) (send_chunks (remaining - length b))
        | ReadOther truth \<Rightarrow> raiseA (if truth then StreamError else StreamTruncated)
        | ReadRaises e \<Rightarrow> raiseA e))"
  by pat_completeness auto
termination by (relation "measure id") auto

declare send_chunks.simps [simp del]

definition truthy_read :: "read_result \<Rightarrow> bool" where
  "truthy_read r \<longleftrightarrow> (case r of ReadBytes b \<Rightarrow> b \<noteq> [] | ReadOther truth \<Rightarrow> truth | ReadRaises e \<Rightarrow> True)"

definition send_stream_frame :: "pyval \<Rightarrow> int \<Rightarrow> int \<Rightarrow> bool \<Rightarrow> unit wire_act" where
  "send_stream_frame message max_frame_bytes max_stream_bytes require_eof =
     bindA (liftE (check_stream_length message max_stream_bytes)) (\<lambda>length.
     seqA (send_frame message max_frame_bytes)
     (seqA (send_chunks (nat length))
     (if require_eof then
        bindA source_read (\<lambda>extra. if truthy_read extra then raiseA StreamError else returnA ())
      else returnA ())))"

text \<open>\<open>except OSError\<close> around \<open>recv\<close>.\<close>

definition recv_or :: "exn \<Rightarrow> nat \<Rightarrow> bytes wire_act" where
  "recv_or failure n = tryA (recv n) (\<lambda>e. if is_os_error e then raiseA failure else raiseA e)"

function receive_chunks :: "nat \<Rightarrow> unit wire_act" where
  "receive_chunks remaining =
     (if remaining = 0 then returnA ()
      else bindA (recv_or StreamTruncated (min STREAM_CHUNK_BYTES remaining)) (\<lambda>chunk.
        if chunk = [] then raiseA StreamTruncated
        else seqA (sink_write chunk) (receive_chunks (remaining - length chunk))))"
  by pat_completeness auto
termination by (relation "measure id") auto

declare receive_chunks.simps [simp del]

definition receive_stream_payload :: "pyval \<Rightarrow> int \<Rightarrow> bool \<Rightarrow> int wire_act" where
  "receive_stream_payload declared max_stream_bytes require_eof =
     (case declared of
        PyInt n \<Rightarrow>
          if n \<le> 0 then raiseA StreamError
          else if max_stream_bytes < n then raiseA StreamTooLarge
          else
            seqA (receive_chunks (nat n))
            (if require_eof then
               bindA (recv_or StreamError 1) (\<lambda>extra.
               if extra \<noteq> [] then raiseA StreamError else returnA n)
             else returnA n)
      | _ \<Rightarrow> raiseA StreamError)"

definition receive_stream_frame ::
  "(pystr \<Rightarrow> string) \<Rightarrow> nat \<Rightarrow> int \<Rightarrow> int \<Rightarrow> (pyval \<times> int) wire_act" where
  "receive_stream_frame float_of limit max_frame_bytes max_stream_bytes =
     bindA (receive_frame float_of limit max_frame_bytes) (\<lambda>message.
     bindA (liftE (check_stream_length message max_stream_bytes)) (\<lambda>length.
     seqA (receive_stream_payload (PyInt length) max_stream_bytes True)
     (returnA (message, length))))"

section \<open>Requests\<close>

text \<open>
  \<open>_check_keys\<close> on a decoded message, whose keys are text; the message is then a list of fields.
\<close>

definition check_keys :: "(pystr \<times> pyval) list \<Rightarrow> string set \<Rightarrow> string set \<Rightarrow> unit res" where
  "check_keys payload allowed required =
     (let keys = set (map fst payload) in
      if \<not> keys \<subseteq> lit ` allowed then Inl ProtocolError
      else if \<not> lit ` required \<subseteq> keys then Inl ProtocolError
      else Inr ())"

definition payload_fields :: "pyval \<Rightarrow> (pystr \<times> pyval) list res" where
  "payload_fields payload = (case payload of PyDict items \<Rightarrow> text_keys items | _ \<Rightarrow> Inl TypeError)"

definition field :: "(pystr \<times> pyval) list \<Rightarrow> string \<Rightarrow> pyval" where
  "field payload key = (case map_of payload (lit key) of None \<Rightarrow> PyNone | Some v \<Rightarrow> v)"

definition check_identifier :: "pyval \<Rightarrow> (pystr \<Rightarrow> bool) \<Rightarrow> pystr res" where
  "check_identifier v pattern =
     (case v of PyStr s \<Rightarrow> if pattern s then Inr s else Inl ProtocolError | _ \<Rightarrow> Inl ProtocolError)"

text \<open>\<open>payload["version"] != PROTOCOL_VERSION\<close>: an equal float is the same version.\<close>

definition is_protocol_version :: "pyval \<Rightarrow> bool" where
  "is_protocol_version v \<longleftrightarrow> v = PyInt PROTOCOL_VERSION \<or> v = PyFloat ''2.0''"

text \<open>A field that is \<open>None\<close> or of type \<open>int\<close> and positive.\<close>

definition optional_length :: "pyval \<Rightarrow> int option res" where
  "optional_length v =
     (case v of
        PyNone \<Rightarrow> Inr None
      | PyInt n \<Rightarrow> if n \<le> 0 then Inl ProtocolError else Inr (Some n)
      | _ \<Rightarrow> Inl ProtocolError)"

record Request =
  request_id :: pystr
  operation :: pystr
  params :: pyval
  auth_token :: "pystr option"
  stream_length :: "int option"

definition mk_Request :: "pyval \<Rightarrow> pyval \<Rightarrow> pyval \<Rightarrow> pyval \<Rightarrow> pyval \<Rightarrow> Request res" where
  "mk_Request rid op ps tok len =
     bind_res (check_identifier rid id_re) (\<lambda>i.
     bind_res (check_identifier op operation_re) (\<lambda>name.
     bind_res (case ps of PyDict _ \<Rightarrow> Inr () | _ \<Rightarrow> Inl ProtocolError) (\<lambda>_.
     bind_res (validate_json_value 0 ps) (\<lambda>_.
     bind_res (case tok of
                 PyNone \<Rightarrow> Inr None
               | PyStr t \<Rightarrow> if auth_token_re t then Inr (Some t) else Inl ProtocolError
               | _ \<Rightarrow> Inl ProtocolError) (\<lambda>token.
     bind_res (optional_length len) (\<lambda>n.
     Inr \<lparr>request_id = i, operation = name, params = ps, auth_token = token, stream_length = n\<rparr>))))))"

text \<open>\<open>Request.create\<close>; \<open>fresh\<close> is \<open>uuid.uuid4().hex\<close>.\<close>

definition Request_create ::
  "pystr \<Rightarrow> pyval \<Rightarrow> pyval option \<Rightarrow> pyval \<Rightarrow> pystr option \<Rightarrow> pyval \<Rightarrow> Request res" where
  "Request_create fresh op ps tok rid len =
     mk_Request (PyStr (case rid of None \<Rightarrow> fresh | Some [] \<Rightarrow> fresh | Some i \<Rightarrow> i)) op
       (case ps of None \<Rightarrow> PyDict [] | Some m \<Rightarrow> m) tok len"

definition Request_from_payload :: "pyval \<Rightarrow> Request res" where
  "Request_from_payload message =
     bind_res (payload_fields message) (\<lambda>payload.
     bind_res (check_keys payload
        {''version'', ''id'', ''operation'', ''params'', ''auth_token'', ''stream_length''}
        {''version'', ''id'', ''operation'', ''params''}) (\<lambda>_.
     if \<not> is_protocol_version (field payload ''version'') then Inl ProtocolError
     else case field payload ''params'' of
       PyDict items \<Rightarrow>
         mk_Request (field payload ''id'') (field payload ''operation'') (PyDict items)
           (field payload ''auth_token'') (field payload ''stream_length'')
     | _ \<Rightarrow> Inl ProtocolError))"

definition Request_to_payload :: "Request \<Rightarrow> pyval" where
  "Request_to_payload r =
     py_dict ([(lit ''version'', PyInt PROTOCOL_VERSION), (lit ''id'', PyStr (request_id r)),
       (lit ''operation'', PyStr (operation r)), (lit ''params'', params r)]
       @ (case auth_token r of None \<Rightarrow> [] | Some t \<Rightarrow> [(lit ''auth_token'', PyStr t)])
       @ (case stream_length r of None \<Rightarrow> [] | Some n \<Rightarrow> [(lit ''stream_length'', PyInt n)]))"

section \<open>Responses\<close>

record ErrorPayload =
  err_code :: pystr
  err_message :: pystr

definition mk_ErrorPayload :: "pyval \<Rightarrow> pyval \<Rightarrow> ErrorPayload res" where
  "mk_ErrorPayload code message =
     bind_res (check_identifier code error_code_re) (\<lambda>c.
     case message of
       PyStr m \<Rightarrow>
         if m = [] \<or> 512 < length m \<or> \<not> list_all (\<lambda>x. x \<noteq> 13 \<and> x \<noteq> 10 \<and> x \<noteq> 0) m
         then Inl ProtocolError else Inr \<lparr>err_code = c, err_message = m\<rparr>
     | _ \<Rightarrow> Inl ProtocolError)"

definition ErrorPayload_to_payload :: "ErrorPayload \<Rightarrow> pyval" where
  "ErrorPayload_to_payload e =
     py_dict [(lit ''code'', PyStr (err_code e)), (lit ''message'', PyStr (err_message e))]"

record Response =
  resp_id :: pystr
  resp_ok :: bool
  resp_result :: pyval
  resp_error :: "ErrorPayload option"
  resp_stream :: "int option"

text \<open>\<open>result == {"stream": True}\<close>, where 1 and 1.0 equal \<open>True\<close>.\<close>

definition stream_marker :: "pyval \<Rightarrow> bool" where
  "stream_marker v \<longleftrightarrow>
     (case v of
        PyDict [(PyStr k, w)] \<Rightarrow> k = lit ''stream'' \<and> w \<in> {PyBool True, PyInt 1, PyFloat ''1.0''}
      | _ \<Rightarrow> False)"

definition mk_Response ::
  "pyval \<Rightarrow> bool \<Rightarrow> pyval \<Rightarrow> ErrorPayload option \<Rightarrow> pyval \<Rightarrow> Response res" where
  "mk_Response rid is_ok res err len =
     bind_res (check_identifier rid id_re) (\<lambda>i.
     if is_ok \<and> err \<noteq> None then Inl ProtocolError
     else if \<not> is_ok \<and> err = None then Inl ProtocolError
     else if len \<noteq> PyNone \<and> \<not> is_ok then Inl ProtocolError
     else
       bind_res (optional_length len) (\<lambda>n.
       if is_ok \<and> (n \<noteq> None) \<noteq> stream_marker res then Inl ProtocolError
       else
         bind_res (validate_json_value 0 res) (\<lambda>_.
         Inr \<lparr>resp_id = i, resp_ok = is_ok, resp_result = res, resp_error = err, resp_stream = n\<rparr>)))"

definition Response_success :: "pyval \<Rightarrow> pyval \<Rightarrow> pyval \<Rightarrow> Response res" where
  "Response_success rid res len = mk_Response rid True res None len"

definition Response_failure :: "pyval \<Rightarrow> pyval \<Rightarrow> pyval \<Rightarrow> Response res" where
  "Response_failure rid code message =
     bind_res (mk_ErrorPayload code message) (\<lambda>e. mk_Response rid False PyNone (Some e) PyNone)"

definition Response_from_payload :: "pyval \<Rightarrow> Response res" where
  "Response_from_payload message =
     bind_res (payload_fields message) (\<lambda>payload.
     bind_res (check_keys payload
        {''version'', ''id'', ''ok'', ''result'', ''error'', ''stream_length''}
        {''version'', ''id'', ''ok''}) (\<lambda>_.
     if \<not> is_protocol_version (field payload ''version'') then Inl ProtocolError
     else
       case field payload ''ok'' of
         PyBool True \<Rightarrow>
           if map_of payload (lit ''error'') \<noteq> None then Inl ProtocolError
           else Response_success (field payload ''id'') (field payload ''result'')
                  (field payload ''stream_length'')
       | PyBool False \<Rightarrow>
           if map_of payload (lit ''result'') \<noteq> None then Inl ProtocolError
           else if map_of payload (lit ''stream_length'') \<noteq> None then Inl ProtocolError
           else
             (case field payload ''error'' of
                PyDict items \<Rightarrow>
                  bind_res (text_keys items) (\<lambda>raw_error.
                  bind_res (check_keys raw_error {''code'', ''message''} {''code'', ''message''}) (\<lambda>_.
                  Response_failure (field payload ''id'') (field raw_error ''code'')
                    (field raw_error ''message'')))
              | _ \<Rightarrow> Inl ProtocolError)
       | _ \<Rightarrow> Inl ProtocolError))"

definition Response_to_payload :: "Response \<Rightarrow> pyval res" where
  "Response_to_payload r =
     (let head = [(lit ''version'', PyInt PROTOCOL_VERSION), (lit ''id'', PyStr (resp_id r)),
                  (lit ''ok'', PyBool (resp_ok r))] in
      if resp_ok r then
        Inr (py_dict (head @ [(lit ''result'', resp_result r)]
          @ (case resp_stream r of None \<Rightarrow> [] | Some n \<Rightarrow> [(lit ''stream_length'', PyInt n)])))
      else case resp_error r of
        None \<Rightarrow> Inl ValueError
      | Some e \<Rightarrow> Inr (py_dict (head @ [(lit ''error'', ErrorPayload_to_payload e)])))"

section \<open>The client\<close>

text \<open>
  \<open>UnixSocketClient\<close>. Of the timeout only the sign is inspected; its expiry is a \<open>TimeoutError\<close>
  among the events of the connection. \<open>has_af_unix\<close> is \<open>hasattr(socket, "AF_UNIX")\<close>.
\<close>

record UnixSocketClient =
  socket_path :: pystr
  timeout :: int
  max_frame_bytes :: int

definition mk_UnixSocketClient :: "pystr \<Rightarrow> int \<Rightarrow> int \<Rightarrow> UnixSocketClient res" where
  "mk_UnixSocketClient path t max_bytes =
     (if path = [] \<or> 0 \<in> set path then Inl ValueError
      else if t \<le> 0 \<or> max_bytes \<le> 0 then Inl ValueError
      else Inr \<lparr>socket_path = path, timeout = t, max_frame_bytes = max_bytes\<rparr>)"

record protocol_env =
  float_of :: "pystr \<Rightarrow> string"
  json_recursion_limit :: nat
  has_af_unix :: bool

definition receive_response :: "protocol_env \<Rightarrow> UnixSocketClient \<Rightarrow> Response wire_act" where
  "receive_response env c =
     bindA (receive_frame (float_of env) (json_recursion_limit env) (max_frame_bytes c)) (\<lambda>message.
     liftE (Response_from_payload message))"

definition call :: "protocol_env \<Rightarrow> UnixSocketClient \<Rightarrow> Request \<Rightarrow> Response wire_act" where
  "call env c request =
     (if stream_length request \<noteq> None then raiseA ProtocolError
      else if \<not> has_af_unix env then raiseA OSError
      else
        seqA connect
        (seqA (send_frame (Request_to_payload request) (max_frame_bytes c))
        (bindA (receive_response env c) (\<lambda>response.
         if resp_id response \<noteq> request_id request then raiseA ProtocolError
         else if resp_stream response \<noteq> None then raiseA ProtocolError
         else returnA response))))"

definition call_with_stream :: "protocol_env \<Rightarrow> UnixSocketClient \<Rightarrow> Request \<Rightarrow> Response wire_act" where
  "call_with_stream env c request =
     (if stream_length request = None then raiseA ProtocolError
      else if \<not> has_af_unix env then raiseA OSError
      else
        seqA connect
        (seqA (send_stream_frame (Request_to_payload request) (max_frame_bytes c)
                 DEFAULT_MAX_STREAM_BYTES True)
        (seqA shutdown_write
        (bindA (receive_response env c) (\<lambda>response.
         if resp_id response \<noteq> request_id request then raiseA ProtocolError
         else if resp_stream response \<noteq> None then raiseA ProtocolError
         else returnA response)))))"

definition call_to_stream :: "protocol_env \<Rightarrow> UnixSocketClient \<Rightarrow> Request \<Rightarrow> Response wire_act" where
  "call_to_stream env c request =
     (if stream_length request \<noteq> None then raiseA ProtocolError
      else if \<not> has_af_unix env then raiseA OSError
      else
        seqA connect
        (seqA (send_frame (Request_to_payload request) (max_frame_bytes c))
        (bindA (receive_response env c) (\<lambda>response.
         if resp_id response \<noteq> request_id request then raiseA ProtocolError
         else if resp_ok response then
           (case resp_stream response of
              None \<Rightarrow> raiseA ProtocolError
            | Some n \<Rightarrow>
                seqA (receive_stream_payload (PyInt n) DEFAULT_MAX_STREAM_BYTES True)
                (returnA response))
         else returnA response))))"

end
