(* ===== verification/Json_Correct.thy ===== *)
theory Json_Correct
  imports Json_Text
begin

text \<open>
  What MaddyWeb relies on in JSON text: reading a printed value gives the value back, with
  tuples as lists and, when keys are sorted, members in key order; and reading ends on every
  input. The first is proved once in the locale \<open>json_reader\<close> for all hooks that read decimal
  integers, float texts and duplicate-free objects as \<open>json\<close> prints them; the helper protocol,
  rule documents and rule snapshots interpret it with their own hooks.
\<close>

section \<open>Decimal text\<close>

lemma digits_value_snoc [simp]: "digits_value (s @ [c]) = 10 * digits_value s + (c - 48)"
  by (simp add: digits_value_def)

lemma digits_value_dec_nat [simp]: "digits_value (dec_nat n) = n"
proof (induction n rule: dec_nat.induct)
  case (1 n)
  show ?case
  proof (cases "n < 10")
    case True
    then show ?thesis by (subst dec_nat.simps) (simp add: digits_value_def)
  next
    case False
    then show ?thesis using "1.IH" by (subst dec_nat.simps) simp
  qed
qed

lemma dec_nat_digits: "list_all is_digit (dec_nat n) \<and> dec_nat n \<noteq> []"
proof (induction n rule: dec_nat.induct)
  case (1 n)
  show ?case
  proof (cases "n < 10")
    case True
    then show ?thesis by (subst (1 2) dec_nat.simps) (simp add: is_digit_def)
  next
    case False
    have "n mod 10 < 10" by simp
    then have "is_digit (48 + n mod 10)" unfolding is_digit_def by linarith
    with False "1.IH" show ?thesis by (subst (1 2) dec_nat.simps) simp
  qed
qed

lemma dec_nat_not_Nil [simp]: "dec_nat n \<noteq> []"
  using dec_nat_digits by blast

lemma dec_nat_length: "n < 10 ^ k \<Longrightarrow> 0 < k \<Longrightarrow> length (dec_nat n) \<le> k"
proof (induction n arbitrary: k rule: dec_nat.induct)
  case (1 n)
  show ?case
  proof (cases "n < 10")
    case True
    then show ?thesis using "1.prems" by (subst dec_nat.simps) simp
  next
    case False
    from "1.prems" obtain j where j: "k = Suc j" by (cases k) auto
    with "1.prems" False have k: "k = Suc j" "0 < j" by (cases j; simp)+
    have "n div 10 < 10 ^ j" using "1.prems" k by (simp add: div_less_iff_less_mult mult.commute)
    then have "length (dec_nat (n div 10)) \<le> j" using "1.IH" False k(2) by simp
    then show ?thesis using False k by (subst dec_nat.simps) simp
  qed
qed

lemma dec_nat_head: "0 < n \<Longrightarrow> hd (dec_nat n) \<noteq> 48"
proof (induction n rule: dec_nat.induct)
  case (1 n)
  show ?case
  proof (cases "n < 10")
    case True
    with "1.prems" show ?thesis by (subst dec_nat.simps) simp
  next
    case False
    then have "0 < n div 10" by (simp add: div_greater_zero_iff)
    with False "1.IH" show ?thesis by (subst dec_nat.simps) simp
  qed
qed

lemma dec_nat_head_digit: "is_digit (hd (dec_nat n))"
  using dec_nat_digits [of n] by (cases "dec_nat n") auto

lemma int_value_dec_int [simp]: "int_value (dec_int i) = i"
proof -
  have "hd (dec_nat n) \<noteq> 45" for n using dec_nat_head_digit [of n] by (auto simp: is_digit_def)
  moreover have "int_value s = int (digits_value s)" if "s \<noteq> []" "hd s \<noteq> 45" for s
    using that by (cases s) (simp_all add: int_value_def)
  ultimately have d: "int_value (dec_nat n) = int n" for n by simp
  show ?thesis using d [of "nat i"] by (cases "i < 0") (simp_all add: dec_int_def int_value_def)
qed

section \<open>Strings\<close>

lemma hex_value_digit: "d < 16 \<Longrightarrow> hex_value (hex_digit d) = Some d"
  by (auto simp: hex_value_def hex_digit_def)

lemma hex4_digits:
  "a < 16 \<Longrightarrow> b < 16 \<Longrightarrow> c < 16 \<Longrightarrow> d < 16 \<Longrightarrow>
     hex4 (hex_digit a # hex_digit b # hex_digit c # hex_digit d # r)
       = Some (((a * 16 + b) * 16 + c) * 16 + d)"
  by (simp add: hex4_def hex_value_digit)

lemma hex4_escape:
  assumes "c < 65536"
  shows "hex4 (drop 2 (unicode_escape c) @ r) = Some c"
proof -
  have "c div 16 = c div 256 * 16 + c div 16 mod 16"
    using div_mult_mod_eq [of "c div 16" 16] div_mult2_eq [of c 16 16] by simp
  moreover have "c div 256 = c div 4096 * 16 + c div 256 mod 16"
    using div_mult_mod_eq [of "c div 256" 16] div_mult2_eq [of c 256 16] by simp
  moreover have "c div 4096 mod 16 = c div 4096" using assms by simp
  moreover have "c = c div 16 * 16 + c mod 16" by simp
  ultimately have "((c div 4096 mod 16 * 16 + c div 256 mod 16) * 16 + c div 16 mod 16) * 16 + c mod 16 = c"
    by metis
  moreover have "hex4 (drop 2 (unicode_escape c) @ r) =
      Some (((c div 4096 mod 16 * 16 + c div 256 mod 16) * 16 + c div 16 mod 16) * 16 + c mod 16)"
    unfolding unicode_escape_def by (simp only: drop_Suc_Cons numeral_2_eq_2 drop_0 append_Cons
        append_Nil) (rule hex4_digits, simp_all)
  ultimately show ?thesis by (simp only:)
qed

lemma unicode_escape_split: "unicode_escape c = 92 # 117 # drop 2 (unicode_escape c)"
  "length (drop 2 (unicode_escape c)) = 4"
  by (simp_all add: unicode_escape_def)

lemma scan_escape_unicode:
  assumes "c < 65536" "c < 55296 \<or> 56320 \<le> c"
  shows "scan_escape (tl (unicode_escape c) @ r) = Some (c, r)"
proof -
  have "tl (unicode_escape c) = 117 # drop 2 (unicode_escape c)" by (simp add: unicode_escape_def)
  then show ?thesis
    using assms hex4_escape [OF assms(1)] unicode_escape_split(2) [of c]
    by (auto simp: scan_escape_def Let_def)
qed

lemma scan_escape_pair:
  assumes "65536 \<le> c" "c < 1114112"
  shows "scan_escape (tl (unicode_escape (55296 + (c - 65536) div 1024))
           @ unicode_escape (56320 + (c - 65536) mod 1024) @ r) = Some (c, r)"
proof -
  define v w where v: "v = 55296 + (c - 65536) div 1024" and w: "w = 56320 + (c - 65536) mod 1024"
  have vb: "55296 \<le> v" "v < 56320" "v < 65536" using assms by (auto simp: v)
  have wb: "56320 \<le> w" "w < 57344" "w < 65536" by (auto simp: w intro: less_imp_le_nat)
  have c: "65536 + (v - 55296) * 1024 + (w - 56320) = c"
    using assms div_mult_mod_eq [of "c - 65536" 1024] by (simp add: v w)
  have t: "tl (unicode_escape v) = 117 # drop 2 (unicode_escape v)"
    by (simp add: unicode_escape_def)
  have d: "hex4 (drop 2 (unicode_escape v) @ q) = Some v" "hex4 (drop 2 (unicode_escape w) @ q) = Some w" for q
    using hex4_escape vb wb by auto
  have u: "unicode_escape w = 92 # 117 # drop 2 (unicode_escape w)" by (rule unicode_escape_split)
  have "take 2 (unicode_escape w @ r) = [92, 117]"
    "drop 2 (unicode_escape w @ r) = drop 2 (unicode_escape w) @ r"
    "drop 6 (unicode_escape w @ r) = r"
    by (simp_all add: unicode_escape_def)
  then show ?thesis
    using vb wb c d unicode_escape_split(2) [of v]
    by (simp add: v [symmetric] w [symmetric] t scan_escape_def Let_def)
qed

text \<open>The characters a printed string can hold so that it is read back unchanged.\<close>

definition json_char :: "bool \<Rightarrow> nat \<Rightarrow> bool" where
  "json_char ensure_ascii c \<longleftrightarrow> ensure_ascii \<longrightarrow> is_scalar c"

lemma scan_string_escape:
  assumes "json_char ea c" "scan_string r = Inr (t, q)"
  shows "scan_string (escape_char ea c @ r) = Inr (c # t, q)"
proof -
  have simple: "scan_string (92 # x # r) = Inr (c # t, q)"
    if "simple_escape x = Some c" "x \<noteq> 117" for x
    using that assms(2) by (subst scan_string.simps) (simp add: scan_escape_def)
  have esc: "scan_string (92 # p @ r) = Inr (c # t, q)" if "scan_escape (p @ r) = Some (c, r)" for p
    using that assms(2) by (subst scan_string.simps) simp
  have uni: "scan_string (unicode_escape c @ r) = Inr (c # t, q)" if "c < 65536" "c < 55296 \<or> 56320 \<le> c"
    using esc [of "tl (unicode_escape c)"] scan_escape_unicode [OF that, of r] unicode_escape_split(1) [of c]
    by (metis append_Cons list.sel(3))
  have pair: "scan_string (unicode_escape (55296 + (c - 65536) div 1024)
      @ unicode_escape (56320 + (c - 65536) mod 1024) @ r) = Inr (c # t, q)" if "65536 \<le> c" "c < 1114112"
    using esc [of "tl (unicode_escape (55296 + (c - 65536) div 1024)) @ unicode_escape (56320 + (c - 65536) mod 1024)"]
      scan_escape_pair [OF that, of r] unicode_escape_split(1) [of "55296 + (c - 65536) div 1024"]
    by (metis append.assoc append_Cons list.sel(3))
  have plain: "scan_string (c # r) = Inr (c # t, q)" if "32 \<le> c" "c \<noteq> 34" "c \<noteq> 92"
    using that assms(2) by (subst scan_string.simps) simp
  have sc: "ea \<Longrightarrow> c < 55296 \<or> 57344 \<le> c \<and> c < 1114112"
    using assms(1) by (simp add: json_char_def is_scalar_def)
  show ?thesis
  proof (cases "c \<in> {34, 92, 10, 13, 9, 12, 8}")
    case True
    then obtain x where "escape_char ea c = [92, x]" "simple_escape x = Some c" "x \<noteq> 117"
      by (auto simp: escape_char_def simple_escape_def)
    then show ?thesis using simple by simp
  next
    case False
    then show ?thesis unfolding escape_char_def using sc by (auto intro!: uni pair plain)
  qed
qed

lemma scan_dump_string:
  "list_all (json_char ea) s \<Longrightarrow>
     scan_string (concat (map (escape_char ea) s) @ 34 # r) = Inr (s, r)"
proof (induction s)
  case Nil
  show ?case by (subst scan_string.simps) simp
next
  case (Cons c s)
  then show ?case by (simp add: scan_string_escape)
qed

section \<open>Numbers\<close>

text \<open>What can follow a printed value: nothing, a comma or a closing bracket.\<close>

definition stops :: "pystr \<Rightarrow> bool" where
  "stops r \<longleftrightarrow> r = [] \<or> hd r \<in> {44, 93, 125}"

lemma stops_simps [simp]: "stops []" "stops (44 # r)" "stops (93 # r)" "stops (125 # r)"
  by (simp_all add: stops_def)

lemma next_is_simps [simp]: "next_is c [] = False" "next_is c (x # s) = (x = c)"
  by (auto simp: next_is_def)

lemma stops_next: "stops r \<Longrightarrow> c \<notin> {44, 93, 125} \<Longrightarrow> \<not> next_is c r"
  by (auto simp: stops_def next_is_def)

lemma stops_digits: "stops r \<Longrightarrow> takeWhile is_digit (s @ r) = takeWhile is_digit s"
  "stops r \<Longrightarrow> dropWhile is_digit (s @ r) = dropWhile is_digit s @ r"
  by (cases r; induction s; auto simp: stops_def is_digit_def)+

lemma number_frac_append:
  assumes "stops r"
  shows "number_frac (s @ r) = (fst (number_frac s), snd (number_frac s) @ r)"
proof (cases s)
  case Nil
  then show ?thesis using stops_next [OF assms] by (simp add: number_frac_def)
next
  case (Cons c s')
  then show ?thesis by (simp add: number_frac_def stops_digits [OF assms])
qed

lemma number_exp_append:
  assumes "stops r"
  shows "number_exp (s @ r) = (fst (number_exp s), snd (number_exp s) @ r)"
proof (cases s)
  case Nil
  then show ?thesis using stops_next [OF assms] by (simp add: number_exp_def)
next
  case (Cons c s')
  show ?thesis
  proof (cases s')
    case Nil
    have "takeWhile is_digit r = []" using stops_digits(1) [OF assms, of "[]"] by simp
    then show ?thesis using stops_next [OF assms] by (simp add: number_exp_def Cons Nil Let_def)
  next
    case (Cons d s'')
    then show ?thesis using \<open>s = c # s'\<close>
      by (simp add: number_exp_def Let_def stops_digits [OF assms, of "d # s''", simplified]
          stops_digits [OF assms, of s''])
  qed
qed

lemma number_int_append:
  assumes "stops r" "number_int s = Some (i, q)"
  shows "number_int (s @ r) = Some (i, q @ r)"
proof -
  obtain c s' where s: "s = c # s'" using assms(2) by (cases s) (auto simp: number_int_def)
  show ?thesis
  proof (cases "c = 45")
    case True
    then obtain d s'' where "s' = d # s''" using assms(2) by (cases s') (auto simp: number_int_def s)
    with True s assms(2) show ?thesis
      by (auto simp: number_int_def Let_def stops_digits [OF assms(1), of s''] split: if_splits)
  next
    case False
    with s assms(2) show ?thesis
      by (auto simp: number_int_def Let_def stops_digits [OF assms(1), of s'] split: if_splits)
  qed
qed

lemma scan_number_append:
  assumes "scan_number s = Some (t, b, q)" "stops r"
  shows "scan_number (s @ r) = Some (t, b, q @ r)"
proof -
  from assms(1) obtain i p where "number_int s = Some (i, p)"
    by (auto simp: scan_number_def)
  with assms show ?thesis
    by (auto simp: scan_number_def number_int_append number_frac_append number_exp_append
        split: prod.splits)
qed

lemma number_int_dec_nat: "number_int (dec_nat n) = Some (dec_nat n, [])"
proof -
  obtain c s where c: "dec_nat n = c # s" by (cases "dec_nat n") auto
  have d: "is_digit c" "list_all is_digit s" using dec_nat_digits [of n] by (simp_all add: c)
  have nz: "c \<noteq> 48" if "0 < n" using dec_nat_head [OF that] by (simp add: c)
  have z: "dec_nat n = [48]" if "n = 0" using that by (simp add: dec_nat.simps)
  have "takeWhile is_digit s = s" "dropWhile is_digit s = []"
    using d(2) by (auto simp: list_all_iff dropWhile_eq_Nil_conv)
  then show ?thesis using d nz z
    by (cases "n = 0") (auto simp: c number_int_def is_digit_def)
qed

lemma number_int_dec_int: "number_int (dec_int i) = Some (dec_int i, [])"
proof (cases "i < 0")
  case True
  let ?t = "dec_nat (nat (- i))"
  obtain c s where c: "?t = c # s" by (cases "?t") auto
  have "c \<noteq> 45" using dec_nat_head_digit [of "nat (- i)"] by (auto simp: c is_digit_def)
  then show ?thesis using number_int_dec_nat [of "nat (- i)"] True c
    by (auto simp: number_int_def dec_int_def Let_def split: if_splits)
next
  case False
  then show ?thesis by (simp add: dec_int_def number_int_dec_nat)
qed

lemma scan_number_dec_int: "scan_number (dec_int i) = Some (dec_int i, False, [])"
  by (simp add: scan_number_def number_int_dec_int number_frac_def number_exp_def)

text \<open>The \<open>repr\<close> of a finite float is a number with a fraction or an exponent.\<close>

definition float_text :: "pystr \<Rightarrow> bool" where
  "float_text t \<longleftrightarrow> scan_number t = Some (t, True, [])"

lemma number_head:
  assumes "scan_number s = Some (t, b, q)"
  shows "s \<noteq> []" "hd s = 45 \<or> is_digit (hd s)" "hd s = 45 \<Longrightarrow> tl s \<noteq> [] \<and> is_digit (hd (tl s))"
  using assms
  by (cases s; cases "tl s"; auto simp: scan_number_def number_int_def Let_def is_digit_def
      split: if_splits)+

section \<open>Values that survive printing\<close>

fun key_text :: "pyval \<Rightarrow> pystr" where
  "key_text (PyStr k) = k"
| "key_text _ = []"

text \<open>
  The values a reader gives back: text keys without duplicates, integers and floats the hooks
  accept, characters that survive the chosen escaping.
\<close>

fun json_value :: "bool \<Rightarrow> (int \<Rightarrow> bool) \<Rightarrow> (string \<Rightarrow> bool) \<Rightarrow> pyval \<Rightarrow> bool" where
  "json_value ea ok_int ok_float PyNone = True"
| "json_value ea ok_int ok_float (PyBool b) = True"
| "json_value ea ok_int ok_float (PyInt i) = ok_int i"
| "json_value ea ok_int ok_float (PyFloat s) = ok_float s"
| "json_value ea ok_int ok_float (PyStr s) = list_all (json_char ea) s"
| "json_value ea ok_int ok_float (PyList vs) = (\<forall>v \<in> set vs. json_value ea ok_int ok_float v)"
| "json_value ea ok_int ok_float (PyTuple vs) = (\<forall>v \<in> set vs. json_value ea ok_int ok_float v)"
| "json_value ea ok_int ok_float (PyDict items) =
     (distinct (map fst items)
      \<and> (\<forall>(k, v) \<in> set items. (\<exists>t. k = PyStr t) \<and> list_all (json_char ea) (key_text k)
           \<and> json_value ea ok_int ok_float v))"
| "json_value ea ok_int ok_float _ = False"

fun json_canon :: "bool \<Rightarrow> pyval \<Rightarrow> pyval" where
  "json_canon sk (PyList vs) = PyList (map (json_canon sk) vs)"
| "json_canon sk (PyTuple vs) = PyList (map (json_canon sk) vs)"
| "json_canon sk (PyDict items) =
     (let canon = map (\<lambda>(k, v). (k, json_canon sk v)) items in
      PyDict (if sk then sort_key (key_text \<circ> fst) canon else canon))"
| "json_canon sk v = v"

fun json_depth :: "pyval \<Rightarrow> nat" where
  "json_depth (PyList vs) = Suc (foldr max (map json_depth vs) 0)"
| "json_depth (PyTuple vs) = Suc (foldr max (map json_depth vs) 0)"
| "json_depth (PyDict items) = Suc (foldr max (map (\<lambda>(k, v). json_depth v) items) 0)"
| "json_depth v = 0"

lemma json_depth_element: "v \<in> set vs \<Longrightarrow> json_depth v \<le> foldr max (map json_depth vs) 0"
  by (simp add: foldr_max_ge)

lemma json_depth_member:
  "(k, v) \<in> set items \<Longrightarrow> json_depth v \<le> foldr max (map (\<lambda>(k, v). json_depth v) items) 0"
  by (rule foldr_max_ge) force

lemma sort_key_map: "sort_key f (map g xs) = map g (sort_key (f \<circ> g) xs)"
proof -
  have "insort_key f (g x) (map g ys) = map g (insort_key (f \<circ> g) x ys)" for x ys
    by (induction ys) auto
  then show ?thesis by (induction xs) simp_all
qed

section \<open>Reading what was printed\<close>

definition starts :: "pystr \<Rightarrow> bool" where
  "starts t \<longleftrightarrow> t \<noteq> [] \<and> hd t \<notin> {32, 9, 10, 13, 93, 125, 65279}"

lemma starts_skip: "starts t \<Longrightarrow> skip_ws (t @ r) = t @ r"
  by (cases t) (auto simp: starts_def skip_ws_def)

lemma skip_ws_simps [simp]:
  "skip_ws [] = []" "skip_ws (44 # r) = 44 # r" "skip_ws (93 # r) = 93 # r"
  "skip_ws (125 # r) = 125 # r" "skip_ws (58 # r) = 58 # r" "skip_ws (34 # r) = 34 # r"
  by (simp_all add: skip_ws_def)

definition reads :: "json_hooks \<Rightarrow> nat \<Rightarrow> pystr \<Rightarrow> pyval \<Rightarrow> bool" where
  "reads h d t v \<longleftrightarrow> starts t
     \<and> (\<forall>r n. stops r \<longrightarrow> 2 * length (t @ r) < n \<longrightarrow> scan_value h n d (t @ r) = Inr (v, r))"

lemma readsD:
  "reads h d t v \<Longrightarrow> stops r \<Longrightarrow> 2 * length (t @ r) < n \<Longrightarrow> scan_value h n d (t @ r) = Inr (v, r)"
  by (simp add: reads_def)

lemma starts_join: "list_all starts ts \<Longrightarrow> ts \<noteq> [] \<Longrightarrow> starts (join_on 44 ts)"
  by (cases ts rule: remdups_adj.cases) (auto simp: starts_def)

lemma scan_elements_join:
  "list_all2 (reads h d) ts vs \<Longrightarrow> ts \<noteq> [] \<Longrightarrow> Suc (2 * length (join_on 44 ts @ 93 # r)) < n \<Longrightarrow>
     scan_elements h n d (join_on 44 ts @ 93 # r) = Inr (vs, r)"
proof (induction ts arbitrary: vs n)
  case Nil
  then show ?case by simp
next
  case (Cons t ts)
  from Cons.prems(1) obtain v us where vs: "vs = v # us" and t: "reads h d t v"
    and ts: "list_all2 (reads h d) ts us" by (auto simp: list_all2_Cons1)
  obtain m where n: "n = Suc m" using Cons.prems(3) by (cases n) auto
  show ?case
  proof (cases "ts = []")
    case True
    have "scan_value h m d (t @ 93 # r) = Inr (v, 93 # r)"
      by (rule readsD [OF t]) (use Cons.prems(3) in \<open>auto simp: n True\<close>)
    with True ts show ?thesis by (simp add: n vs)
  next
    case False
    let ?q = "join_on 44 ts @ 93 # r"
    have "scan_value h m d (t @ 44 # ?q) = Inr (v, 44 # ?q)"
      by (rule readsD [OF t]) (use Cons.prems(3) False in \<open>auto simp: n join_on_Cons\<close>)
    moreover have "scan_elements h m d ?q = Inr (us, r)"
      by (rule Cons.IH [OF ts False]) (use Cons.prems(3) False in \<open>auto simp: n join_on_Cons\<close>)
    moreover have "skip_ws ?q = ?q"
      by (rule starts_skip, rule starts_join [OF _ False])
        (use ts in \<open>auto simp: list_all2_conv_all_nth list_all_length reads_def\<close>)
    ultimately show ?thesis using False by (simp add: n vs join_on_Cons)
  qed
qed

definition reads_member :: "bool \<Rightarrow> json_hooks \<Rightarrow> nat \<Rightarrow> pystr \<Rightarrow> pystr \<times> pyval \<Rightarrow> bool" where
  "reads_member ea h d t p \<longleftrightarrow> list_all (json_char ea) (fst p)
     \<and> (\<exists>u. t = dump_string ea (fst p) @ 58 # u \<and> reads h d u (snd p))"

lemma scan_members_join:
  "list_all2 (reads_member ea h d) ts ps \<Longrightarrow> ts \<noteq> [] \<Longrightarrow>
     2 * length (join_on 44 ts @ 125 # r) < n \<Longrightarrow>
     scan_members h n d (join_on 44 ts @ 125 # r) = Inr (ps, r)"
proof (induction ts arbitrary: ps n)
  case Nil
  then show ?case by simp
next
  case (Cons t ts)
  from Cons.prems(1) obtain k v qs where ps: "ps = (k, v) # qs" and t: "reads_member ea h d t (k, v)"
    and ts: "list_all2 (reads_member ea h d) ts qs" by (auto simp: list_all2_Cons1)
  from t obtain u where k: "list_all (json_char ea) k" and tu: "t = dump_string ea k @ 58 # u"
    and u: "reads h d u v" by (auto simp: reads_member_def)
  obtain m where n: "n = Suc m" using Cons.prems(3) by (cases n) auto
  have head: "scan_string (tl (t @ q)) = Inr (k, 58 # u @ q)" "next_is 34 (t @ q)" for q
    using scan_dump_string [OF k, of "58 # u @ q"] by (simp_all add: tu dump_string_def)
  have ws: "skip_ws (u @ q) = u @ q" for q
    by (rule starts_skip) (use u in \<open>simp add: reads_def\<close>)
  have len: "2 * length (u @ q) < m" if "2 * length (t @ q) < n" for q
    using that by (simp add: tu n)
  show ?case
  proof (cases "ts = []")
    case True
    have "scan_value h m d (u @ 125 # r) = Inr (v, 125 # r)"
      by (rule readsD [OF u]) (use len [of "125 # r"] Cons.prems(3) True in auto)
    with True ts head [of "125 # r"] ws [of "125 # r"] show ?thesis by (simp add: n ps)
  next
    case False
    let ?q = "join_on 44 ts @ 125 # r"
    have l: "2 * length (t @ 44 # ?q) < n" using Cons.prems(3) False by (simp add: join_on_Cons)
    have "scan_value h m d (u @ 44 # ?q) = Inr (v, 44 # ?q)"
      by (rule readsD [OF u]) (use len [OF l] in auto)
    moreover have "scan_members h m d ?q = Inr (qs, r)"
      by (rule Cons.IH [OF ts False]) (use l in \<open>auto simp: n tu\<close>)
    moreover have "skip_ws ?q = ?q"
      by (rule starts_skip, rule starts_join [OF _ False])
        (use ts in \<open>auto simp: list_all2_conv_all_nth list_all_length reads_member_def starts_def
          dump_string_def\<close>)
    ultimately show ?thesis
      using False head [of "44 # ?q"] ws [of "44 # ?q"] by (simp add: n ps join_on_Cons)
  qed
qed

section \<open>The reader's contract\<close>

locale json_reader =
  fixes h :: json_hooks
    and ok_int :: "int \<Rightarrow> bool"
    and ok_float :: "string \<Rightarrow> bool"
  assumes read_int: "ok_int i \<Longrightarrow> parse_int h (dec_int i) = Inr (PyInt i)"
    and float_syntax: "ok_float s \<Longrightarrow> float_text (lit s)"
    and read_float: "ok_float s \<Longrightarrow> parse_float h (lit s) = Inr (PyFloat s)"
    and read_object: "distinct (map fst ps) \<Longrightarrow> object_pairs h ps = Inr (py_dict ps)"
begin

lemma scan_number_scalar:
  assumes "scan_number s = Some (t, b, q)"
  shows "scan_value h (Suc n) d s =
    bind_res (if b then parse_float h t else parse_int h t) (\<lambda>v. Inr (v, q))"
proof -
  obtain c s' where s: "s = c # s'" using number_head(1) [OF assms] by (cases s) auto
  have "c \<noteq> 34 \<and> c \<noteq> 123 \<and> c \<noteq> 91 \<and> c \<noteq> 110 \<and> c \<noteq> 116 \<and> c \<noteq> 102 \<and> c \<noteq> 78 \<and> c \<noteq> 73"
    using number_head(2) [OF assms] by (auto simp: s is_digit_def)
  moreover have "c = 45 \<Longrightarrow> s' \<noteq> [] \<and> hd s' \<noteq> 73"
    using number_head(3) [OF assms] by (auto simp: s is_digit_def)
  ultimately show ?thesis
    using assms by (cases s') (auto simp: s scan_scalar_def lit_def)
qed

lemma reads_number:
  assumes "scan_number t = Some (t, b, [])"
    "(if b then parse_float h t else parse_int h t) = Inr v"
  shows "reads h d t v"
proof -
  have "hd t \<notin> {32, 9, 10, 13, 93, 125, 65279}" using number_head(2) [OF assms(1)] by (auto simp: is_digit_def)
  then have "starts t" using number_head(1) [OF assms(1)] by (simp add: starts_def)
  moreover have "scan_value h n d (t @ r) = Inr (v, r)" if st: "stops r" and l: "2 * length (t @ r) < n" for r n
  proof -
    obtain m where n: "n = Suc m" using l by (cases n) auto
    have "scan_number (t @ r) = Some (t, b, r)" using scan_number_append [OF assms(1) st] by simp
    from scan_number_scalar [OF this, of m d] show ?thesis unfolding n assms(2) bind_res_simps .
  qed
  ultimately show ?thesis by (simp add: reads_def)
qed

lemma reads_scalar:
  "reads h d (lit ''null'') PyNone"
  "reads h d (lit ''true'') (PyBool True)"
  "reads h d (lit ''false'') (PyBool False)"
  unfolding reads_def
  by (auto simp: starts_def lit_def scan_scalar_def neq_Nil_conv gr0_conv_Suc Suc_le_eq
      dest!: less_imp_Suc_add)

lemma reads_string: "list_all (json_char ea) s \<Longrightarrow> reads h d (dump_string ea s) (PyStr s)"
  unfolding reads_def
  by (auto simp: starts_def dump_string_def scan_dump_string dest!: less_imp_Suc_add)

lemma reads_list:
  assumes "list_all2 (reads h (Suc d)) ts vs" "d < recursion_limit h"
  shows "reads h d (91 # join_on 44 ts @ [93]) (PyList vs)"
proof -
  have "scan_value h n d (91 # join_on 44 ts @ 93 # r) = Inr (PyList vs, r)"
    if l: "2 * length (91 # join_on 44 ts @ 93 # r) < n" for r n
  proof (cases "ts = []")
    case True
    with assms l show ?thesis by (cases n) auto
  next
    case False
    obtain m where n: "n = Suc m" using l by (cases n) auto
    have st: "starts (join_on 44 ts)"
      by (rule starts_join [OF _ False])
        (use assms(1) in \<open>auto simp: list_all2_conv_all_nth list_all_length reads_def\<close>)
    then obtain c s where c: "join_on 44 ts = c # s" by (cases "join_on 44 ts") (auto simp: starts_def)
    have "scan_elements h m (Suc d) (join_on 44 ts @ 93 # r) = Inr (vs, r)"
      by (rule scan_elements_join [OF assms(1) False]) (use l in \<open>auto simp: n\<close>)
    with starts_skip [OF st, of "93 # r"] st assms(2) show ?thesis
      by (simp add: n c starts_def)
  qed
  then show ?thesis by (simp add: reads_def starts_def)
qed

lemma reads_dict:
  assumes "list_all2 (reads_member ea h (Suc d)) ts ps" "d < recursion_limit h" "distinct (map fst ps)"
  shows "reads h d (123 # join_on 44 ts @ [125]) (py_dict ps)"
proof -
  have "scan_value h n d (123 # join_on 44 ts @ 125 # r) = Inr (py_dict ps, r)"
    if l: "2 * length (123 # join_on 44 ts @ 125 # r) < n" for r n
  proof (cases "ts = []")
    case True
    with assms l read_object [of "[]"] show ?thesis by (cases n) auto
  next
    case False
    obtain m where n: "n = Suc m" using l by (cases n) auto
    have st: "starts (join_on 44 ts)"
      by (rule starts_join [OF _ False])
        (use assms(1) in \<open>auto simp: list_all2_conv_all_nth list_all_length reads_member_def
          starts_def dump_string_def\<close>)
    then obtain c s where c: "join_on 44 ts = c # s" by (cases "join_on 44 ts") (auto simp: starts_def)
    have "scan_members h m (Suc d) (join_on 44 ts @ 125 # r) = Inr (ps, r)"
      by (rule scan_members_join [OF assms(1) False]) (use l in \<open>auto simp: n\<close>)
    with starts_skip [OF st, of "125 # r"] st assms(2) read_object [OF assms(3)] show ?thesis
      by (simp add: n c starts_def)
  qed
  then show ?thesis by (simp add: reads_def starts_def)
qed

theorem reads_dumps:
  "dumps ea sk v = Inr t \<Longrightarrow> json_value ea ok_int ok_float v \<Longrightarrow> json_depth v + d \<le> recursion_limit h \<Longrightarrow>
     reads h d t (json_canon sk v)"
proof (induction ea sk v arbitrary: t d rule: dumps.induct)
  case (1 ea sk v)
  note dump = "1.prems"(1) and wf = "1.prems"(2) and depth = "1.prems"(3)
  have elements: "reads h d (91 # join_on 44 ts @ [93]) (PyList (map (json_canon sk) vs))"
    if v: "v = PyList vs \<or> v = PyTuple vs" and ts: "traverse (dumps ea sk) vs = Inr ts" for vs ts
  proof (rule reads_list)
    have "reads h (Suc d) (ts ! i) (json_canon sk (vs ! i))" if i: "i < length vs" for i
    proof -
      have "dumps ea sk (vs ! i) = Inr (ts ! i)"
        using ts i by (auto simp: traverse_Inr_iff list_all2_conv_all_nth)
      moreover have "vs ! i \<in> set vs" using i by simp
      moreover have "json_depth (vs ! i) + Suc d \<le> recursion_limit h"
        using depth v json_depth_element [OF \<open>vs ! i \<in> set vs\<close>] by auto
      moreover have "json_value ea ok_int ok_float (vs ! i)" using wf v i by auto
      ultimately show ?thesis using "1.IH"(1,2) v by blast
    qed
    moreover have "length ts = length vs"
      using ts by (auto simp: traverse_Inr_iff dest: list_all2_lengthD)
    ultimately show "list_all2 (reads h (Suc d)) ts (map (json_canon sk) vs)"
      by (auto simp: list_all2_conv_all_nth)
    show "d < recursion_limit h" using depth v by auto
  qed
  show ?case
  proof (cases v)
    case (PyInt i)
    then have "t = dec_int i" using dump by (simp split: if_splits)
    with PyInt wf show ?thesis using read_int [of i] scan_number_dec_int [of i] by (auto intro!: reads_number)
  next
    case (PyFloat s)
    then have "t = lit s" using dump by (simp split: if_splits)
    with PyFloat wf show ?thesis
      using read_float [of s] float_syntax [of s] by (auto simp: float_text_def intro!: reads_number)
  next
    case (PyList vs)
    with dump obtain ts where "traverse (dumps ea sk) vs = Inr ts" "t = 91 # join_on 44 ts @ [93]"
      by (auto simp: res_simps)
    with elements PyList show ?thesis by simp
  next
    case (PyTuple vs)
    with dump obtain ts where "traverse (dumps ea sk) vs = Inr ts" "t = 91 # join_on 44 ts @ [93]"
      by (auto simp: res_simps)
    with elements PyTuple show ?thesis by simp
  next
    case (PyDict items)
    let ?sorted = "\<lambda>m. if sk then sort_key fst m else m"
    from dump PyDict obtain m ts where m: "text_keys items = Inr m"
      and ts: "traverse (\<lambda>(k, w). bind_res (dumps ea sk w) (\<lambda>t. Inr (dump_string ea k @ 58 # t)))
                 (?sorted m) = Inr ts" and t: "t = 123 # join_on 44 ts @ [125]"
      by (auto simp: res_simps)
    have items: "items = map (\<lambda>(k, v). (PyStr k, v)) m" using m by (simp add: text_keys_Inr)
    have set: "set (?sorted m) = set m" by simp
    have len: "length ts = length (?sorted m)"
      using ts by (auto simp only: traverse_Inr_iff dest: list_all2_lengthD)
    have canon: "json_canon sk v = py_dict (map (\<lambda>(k, v). (k, json_canon sk v)) (?sorted m))"
      unfolding PyDict items py_dict_def
      by (auto simp: Let_def sort_key_map comp_def case_prod_beta')
    have "distinct (map fst m)"
      using wf unfolding PyDict items by (auto simp: comp_def case_prod_beta' distinct_map inj_on_def)
    then have dist: "distinct (map fst (map (\<lambda>(k, v). (k, json_canon sk v)) (?sorted m)))"
      by (auto simp: comp_def case_prod_beta' distinct_map)
    have "reads_member ea h (Suc d) (ts ! i) ((\<lambda>(k, v). (k, json_canon sk v)) (?sorted m ! i))"
      if i: "i < length (?sorted m)" for i
    proof -
      obtain k w where kw: "?sorted m ! i = (k, w)" by (cases "?sorted m ! i")
      have mem: "(k, w) \<in> set (?sorted m)" using i kw by (metis nth_mem)
      then have it: "(PyStr k, w) \<in> set items" using set by (auto simp: items)
      have "list_all2 (\<lambda>(k, w) y. bind_res (dumps ea sk w) (\<lambda>t. Inr (dump_string ea k @ 58 # t)) = Inr y)
              (?sorted m) ts"
        using ts by (simp only: traverse_Inr_iff case_prod_beta')
      from list_all2_nthD [OF this i] obtain u where u: "dumps ea sk w = Inr u"
        and tu: "ts ! i = dump_string ea k @ 58 # u"
        by (auto simp: kw res_simps)
      have "list_all (json_char ea) k" "json_value ea ok_int ok_float w"
        using wf it unfolding PyDict by auto
      moreover have "json_depth w + Suc d \<le> recursion_limit h"
        using depth json_depth_member [OF it] PyDict by simp
      ultimately have "reads h (Suc d) u (json_canon sk w)" "list_all (json_char ea) k"
        using "1.IH"(3) [OF PyDict m mem refl u] by auto
      then show ?thesis by (simp only: kw) (simp add: tu reads_member_def)
    qed
    then have "list_all2 (reads_member ea h (Suc d)) ts
        (map (\<lambda>(k, v). (k, json_canon sk v)) (?sorted m))"
      using len by (auto simp only: list_all2_conv_all_nth length_map nth_map)
    then show ?thesis
      unfolding canon t by (rule reads_dict) (use depth PyDict dist in auto)
  qed (use dump wf reads_scalar in \<open>auto split: if_splits intro: reads_string\<close>)
qed

lemma loads_dumps:
  assumes "dumps ea sk v = Inr t" "json_value ea ok_int ok_float v" "json_depth v \<le> recursion_limit h"
  shows "loads h t = Inr (json_canon sk v)"
proof -
  have r: "reads h 0 t (json_canon sk v)" by (rule reads_dumps) (use assms in auto)
  then have "skip_ws t = t" "\<not> next_is 65279 t"
    using starts_skip [of t "[]"] by (auto simp: reads_def starts_def next_is_def)
  with readsD [OF r, of "[]" "Suc (2 * length t)"] show ?thesis by (simp add: loads_def)
qed

end

section \<open>Reading ends\<close>

lemma skip_ws_length: "length (skip_ws s) \<le> length s"
  by (simp add: skip_ws_def length_dropWhile_le)

lemma scan_string_shorter: "scan_string s = Inr (t, r) \<Longrightarrow> length r < length s"
proof (induction s arbitrary: t rule: scan_string.induct)
  case (1 s)
  show ?case
  proof (cases s)
    case Nil
    with "1.prems" show ?thesis by (simp add: scan_string.simps)
  next
    case (Cons c q)
    show ?thesis
      using "1.prems" "1.IH" by (subst (asm) scan_string.simps)
        (fastforce simp: Cons res_simps split: if_splits option.splits dest: scan_escape_shorter)
  qed
qed

text \<open>\<open>raises_only E r\<close>: the call returns a value or raises an exception of \<open>E\<close>.\<close>

definition raises_only :: "exn set \<Rightarrow> 'a res \<Rightarrow> bool" where
  "raises_only E r \<longleftrightarrow> (\<forall>e. r = Inl e \<longrightarrow> e \<in> E)"

lemma raises_only_simps [simp]: "raises_only E (Inr x)" "raises_only E (Inl e) \<longleftrightarrow> e \<in> E"
  by (simp_all add: raises_only_def)

lemma raises_only_bind:
  "raises_only E r \<Longrightarrow> (\<And>x. r = Inr x \<Longrightarrow> raises_only E (f x)) \<Longrightarrow> raises_only E (bind_res r f)"
  by (cases r) auto

lemma raises_only_traverse:
  "(\<And>x. x \<in> set xs \<Longrightarrow> raises_only E (f x)) \<Longrightarrow> raises_only E (traverse f xs)"
  by (induction xs) (auto intro!: raises_only_bind)

lemma raises_only_if:
  "(b \<Longrightarrow> raises_only E r) \<Longrightarrow> (\<not> b \<Longrightarrow> raises_only E q) \<Longrightarrow> raises_only E (if b then r else q)"
  by simp

lemma scan_string_raises: "ValueError \<in> E \<Longrightarrow> raises_only E (scan_string s)"
proof (induction s rule: scan_string.induct)
  case (1 s)
  then show ?case
    by (subst scan_string.simps) (auto split: list.splits option.splits intro!: raises_only_bind)
qed

lemma scan_number_shorter:
  assumes "scan_number s = Some (t, b, r)"
  shows "length r < length s"
proof -
  obtain i q where i: "number_int s = Some (i, q)" using assms by (auto simp: scan_number_def)
  have "length q < length s"
    using i length_dropWhile_le [of is_digit "tl s"] length_dropWhile_le [of is_digit "tl (tl s)"]
    by (cases s; cases "tl s") (auto simp: number_int_def Let_def split: if_splits)
  moreover have "length (snd (number_frac q)) \<le> length q"
    by (cases q) (auto simp: number_frac_def intro: le_SucI length_dropWhile_le)
  moreover have "r = snd (number_exp (snd (number_frac q)))"
    using assms i by (auto simp: scan_number_def split: prod.splits)
  moreover have "length (snd (number_exp p)) \<le> length p" for p
    by (cases p) (auto simp: number_exp_def Let_def
        intro!: le_SucI order_trans [OF length_dropWhile_le] split: if_splits)
  from this [of "snd (number_frac q)"]
  have "length (snd (number_exp (snd (number_frac q)))) \<le> length (snd (number_frac q))" .
  ultimately show ?thesis by simp
qed

lemma scan_scalar_shorter: "scan_scalar h s = Inr (v, r) \<Longrightarrow> length r < length s"
proof (cases "s = []")
  case False
  assume "scan_scalar h s = Inr (v, r)"
  then show ?thesis using False
    by (auto simp: scan_scalar_def res_simps split: if_splits option.splits dest: scan_number_shorter)
qed (simp add: scan_scalar_def scan_number_def number_int_def)

lemma next_length: "next_is c s \<Longrightarrow> Suc (length (tl s)) = length s"
  by (cases s) auto

lemma scan_shorter:
  "scan_value h n d s = Inr (v, r) \<Longrightarrow> length r < length s"
  "scan_elements h n d s = Inr (vs, r) \<Longrightarrow> length r < length s"
  "scan_members h n d s = Inr (ps, r) \<Longrightarrow> length r < length s"
proof (induction h n d s and h n d s and h n d s arbitrary: v r and vs r and ps r
    rule: scan_value_scan_elements_scan_members.induct)
  case (2 h n d s)
  have tl: "length (skip_ws (tl s)) < length s" if "next_is c s" for c
    using next_length [OF that] skip_ws_length [of "tl s"] by simp
  from 2(3) show ?case
    using scan_string_shorter scan_scalar_shorter tl "2.IH"
    by (fastforce simp: res_simps next_is_def split: if_splits)
next
  case (4 h n d s)
  from "4.prems" obtain w q where w: "scan_value h n d s = Inr (w, q)"
    and q: "(if next_is 93 (skip_ws q) then Inr ([w], tl (skip_ws q))
      else if next_is 44 (skip_ws q) then
        bind_res (scan_elements h n d (skip_ws (tl (skip_ws q)))) (\<lambda>(vs, q). Inr (w # vs, q))
      else Inl ValueError) = Inr (vs, r)"
    by (auto simp: res_simps Let_def)
  have l: "length q < length s" by (rule "4.IH"(1) [OF w])
  show ?case
  proof (cases "next_is 93 (skip_ws q)")
    case True
    with q l skip_ws_length [of q] show ?thesis by (auto dest: next_length)
  next
    case False
    with q obtain us where n: "next_is 44 (skip_ws q)"
      and e: "scan_elements h n d (skip_ws (tl (skip_ws q))) = Inr (us, r)"
      by (auto simp: res_simps split: if_splits)
    have "length r < length (skip_ws (tl (skip_ws q)))"
      by (rule "4.IH"(2) [OF w refl refl False n e])
    with l skip_ws_length [of q] skip_ws_length [of "tl (skip_ws q)"] next_length [OF n]
    show ?thesis by linarith
  qed
next
  case (6 h n d s)
  from "6.prems" obtain k p w q where k: "next_is 34 s" "scan_string (tl s) = Inr (k, p)"
    "next_is 58 (skip_ws p)" and w: "scan_value h n d (skip_ws (tl (skip_ws p))) = Inr (w, q)"
    and q: "(if next_is 125 (skip_ws q) then Inr ([(k, w)], tl (skip_ws q))
      else if next_is 44 (skip_ws q) then
        bind_res (scan_members h n d (skip_ws (tl (skip_ws q)))) (\<lambda>(ps, q). Inr ((k, w) # ps, q))
      else Inl ValueError) = Inr (ps, r)"
    by (auto simp: res_simps Let_def split: if_splits)
  have "length q < length (skip_ws (tl (skip_ws p)))" by (rule "6.IH"(1) [OF k(1,2) refl refl k(3) w])
  then have l: "length q < length s"
    using scan_string_shorter [OF k(2)] skip_ws_length [of p] skip_ws_length [of "tl (skip_ws p)"]
      next_length [OF k(1)] by simp
  show ?case
  proof (cases "next_is 125 (skip_ws q)")
    case True
    with q l skip_ws_length [of q] show ?thesis by (auto dest: next_length)
  next
    case False
    with q obtain us where n: "next_is 44 (skip_ws q)"
      and e: "scan_members h n d (skip_ws (tl (skip_ws q))) = Inr (us, r)"
      by (auto simp: res_simps split: if_splits)
    have "length r < length (skip_ws (tl (skip_ws q)))"
      by (rule "6.IH"(2) [OF k(1,2) refl refl k(3) w refl refl False n e])
    with l skip_ws_length [of q] skip_ws_length [of "tl (skip_ws q)"] next_length [OF n]
    show ?thesis by linarith
  qed
qed simp_all

definition hooks_raise :: "exn set \<Rightarrow> json_hooks \<Rightarrow> bool" where
  "hooks_raise E h \<longleftrightarrow> {ValueError, RecursionError} \<subseteq> E
     \<and> (\<forall>t. raises_only E (parse_int h t) \<and> raises_only E (parse_float h t)
          \<and> raises_only E (parse_constant h t))
     \<and> (\<forall>ps. raises_only E (object_pairs h ps))"

lemma scan_scalar_raises: "hooks_raise E h \<Longrightarrow> raises_only E (scan_scalar h s)"
  unfolding scan_scalar_def hooks_raise_def
  by (auto split: option.splits intro!: raises_only_bind raises_only_if)

lemma scan_raises:
  "hooks_raise E h \<Longrightarrow> 2 * length s < n \<Longrightarrow> raises_only E (scan_value h n d s)"
  "hooks_raise E h \<Longrightarrow> Suc (2 * length s) < n \<Longrightarrow> raises_only E (scan_elements h n d s)"
  "hooks_raise E h \<Longrightarrow> 2 * length s < n \<Longrightarrow> raises_only E (scan_members h n d s)"
proof (induction h n d s and h n d s and h n d s rule: scan_value_scan_elements_scan_members.induct)
  case (2 h n d s)
  have tl: "2 * length (skip_ws (tl s)) < n" "Suc (2 * length (skip_ws (tl s))) < n" if "next_is c s" for c
    using next_length [OF that] skip_ws_length [of "tl s"] "2.prems"(2) by simp_all
  show ?case
    using "2.IH" "2.prems"(1) tl scan_string_raises scan_scalar_raises
    by (auto simp: hooks_raise_def intro!: raises_only_bind raises_only_if)
next
  case (4 h n d s)
  have v: "raises_only E (scan_value h n d s)" by (rule "4.IH"(1)) (use "4.prems" in auto)
  have "raises_only E (scan_elements h n d (skip_ws (tl (skip_ws q))))"
    if w: "scan_value h n d s = Inr (w, q)" and "\<not> next_is 93 (skip_ws q)" and q: "next_is 44 (skip_ws q)" for w q
  proof (rule "4.IH"(2) [OF w refl refl that(2) q "4.prems"(1)])
    show "Suc (2 * length (skip_ws (tl (skip_ws q)))) < n"
      using scan_shorter(1) [OF w] skip_ws_length [of q] skip_ws_length [of "tl (skip_ws q)"]
        next_length [OF q] "4.prems"(2) by linarith
  qed
  moreover have "ValueError \<in> E" using "4.prems"(1) by (simp add: hooks_raise_def)
  ultimately show ?case using v by (auto simp: Let_def intro!: raises_only_bind raises_only_if)
next
  case (6 h n d s)
  have v: "length (skip_ws (tl (skip_ws (snd x)))) < length s"
    if "next_is 34 s" "scan_string (tl s) = Inr x" "next_is 58 (skip_ws (snd x))" for x
    using scan_string_shorter [of "tl s" "fst x" "snd x"] skip_ws_length [of "snd x"]
      skip_ws_length [of "tl (skip_ws (snd x))"] next_length [OF that(1)] that(2) by simp
  have val: "raises_only E (scan_value h n d (skip_ws (tl (skip_ws (snd x)))))"
    if "next_is 34 s" "scan_string (tl s) = Inr x" "next_is 58 (skip_ws (snd x))" for x
    by (rule "6.IH"(1) [OF that(1,2) prod.collapse refl that(3) "6.prems"(1)])
      (use v [OF that] "6.prems"(2) in simp)
  have members: "raises_only E (scan_members h n d (skip_ws (tl (skip_ws (snd y)))))"
    if k: "next_is 34 s" "scan_string (tl s) = Inr x" "next_is 58 (skip_ws (snd x))"
      and w: "scan_value h n d (skip_ws (tl (skip_ws (snd x)))) = Inr y"
      and q: "\<not> next_is 125 (skip_ws (snd y))" "next_is 44 (skip_ws (snd y))" for x y
  proof (rule "6.IH"(2) [OF k(1,2) prod.collapse refl k(3) w prod.collapse refl q "6.prems"(1)])
    show "2 * length (skip_ws (tl (skip_ws (snd y)))) < n"
      using v [OF k] scan_shorter(1) [of h n d _ "fst y" "snd y"] w skip_ws_length [of "snd y"]
        skip_ws_length [of "tl (skip_ws (snd y))"] next_length [OF q(2)] "6.prems"(2) by fastforce
  qed
  have e: "ValueError \<in> E" using "6.prems"(1) by (simp add: hooks_raise_def)
  show ?case
    unfolding scan_members.simps Let_def case_prod_beta
    by (intro raises_only_bind raises_only_if) (assumption | rule scan_string_raises val members | simp add: e)+
qed simp_all

text \<open>
  \<open>loads\<close> ends on every input: when the hooks do not loop, \<open>DoesNotReturn\<close> is not in \<open>E\<close>.
\<close>

theorem loads_raises: "hooks_raise E h \<Longrightarrow> raises_only E (loads h s)"
proof -
  assume h: "hooks_raise E h"
  then have "raises_only E (scan_value h (Suc (2 * length s)) 0 (skip_ws s))"
    by (rule scan_raises(1)) (simp add: skip_ws_length le_imp_less_Suc)
  then show ?thesis
    unfolding loads_def case_prod_beta
    by (intro raises_only_if raises_only_bind) (use h in \<open>auto simp: hooks_raise_def\<close>)
qed

end
