(* ===== verification/Helper_Protocol_Correct.thy ===== *)
theory Helper_Protocol_Correct
  imports Helper_Protocol Json_Correct
begin

text \<open>
  Correctness of the helper protocol: a frame written by one side is read back by the other
  however the bytes are cut into pieces, whatever arrives a receiver reads no more than the frame
  limit and ends with a dictionary or a protocol error, streams are copied byte for byte, and
  requests and responses are read back from their payloads.
\<close>

section \<open>Lengths and integers\<close>

lemma be_bytes_length [simp]: "length (be_bytes n v) = n"
  by (induction n arbitrary: v) auto

lemma be_value_snoc [simp]: "be_value (bs @ [b]) = 256 * be_value bs + unat b"
  by (simp add: be_value_def)

lemma unat_of_int_byte: "int (unat (of_int v :: 8 word)) = v mod 256"
  by (simp add: uint_word_of_int take_bit_eq_mod)

lemma be_value_be_bytes: "0 \<le> v \<Longrightarrow> v < 256 ^ n \<Longrightarrow> int (be_value (be_bytes n v)) = v"
proof (induction n arbitrary: v)
  case 0
  then show ?case by (simp add: be_value_def)
next
  case (Suc n)
  have "v < 256 * 256 ^ n" using Suc.prems(2) by simp
  then have "v div 256 < 256 ^ n" by linarith
  with Suc have "int (be_value (be_bytes n (v div 256))) = v div 256"
    by (simp add: pos_imp_zdiv_nonneg_iff)
  then have "int (be_value (be_bytes (Suc n) v)) = 256 * (v div 256) + v mod 256"
    by (simp only: be_bytes.simps be_value_snoc of_nat_add of_nat_mult unat_of_int_byte of_nat_numeral)
  then show ?case by simp
qed

lemma bounded_int_dec_int:
  assumes "\<not> over_64_bits i"
  shows "bounded_int (dec_int i) = Inr (PyInt i)"
proof -
  have "nat \<bar>i\<bar> < 10 ^ 20" using assms by (simp add: over_64_bits_def)
  then have l: "length (dec_nat (nat \<bar>i\<bar>)) \<le> 20" by (rule dec_nat_length) simp
  have "\<not> next_is 45 (dec_nat n)" for n
    using dec_nat_head_digit [of n] by (auto simp: next_is_def is_digit_def)
  moreover have "nat (- i) = nat \<bar>i\<bar>" if "i < 0" using that by simp
  moreover have "nat i = nat \<bar>i\<bar>" if "\<not> i < 0" using that by simp
  ultimately have "length (if next_is 45 (dec_int i) then tl (dec_int i) else dec_int i) \<le> 20"
    using l by (auto simp: dec_int_def)
  with assms show ?thesis by (simp add: bounded_int_def Let_def MAX_JSON_INTEGER_DIGITS_def)
qed

section \<open>JSON values of the protocol\<close>

text \<open>A float whose \<open>repr\<close> the interpreter reads back, as it does for every finite one.\<close>

definition repr_of_float :: "(pystr \<Rightarrow> string) \<Rightarrow> string \<Rightarrow> bool" where
  "repr_of_float conv s \<longleftrightarrow> finite_float s \<and> float_text (lit s) \<and> length s \<le> 128 \<and> conv (lit s) = s"

definition protocol_value :: "(pystr \<Rightarrow> string) \<Rightarrow> pyval \<Rightarrow> bool" where
  "protocol_value conv = json_value False (\<lambda>i. \<not> over_64_bits i) (repr_of_float conv)"

lemma dict_insert_fresh: "k \<notin> fst ` set m \<Longrightarrow> dict_insert m k v = m @ [(k, v)]"
  by (induction m) auto

lemma dict_of_pairs_distinct: "distinct (map fst ps) \<Longrightarrow> dict_of_pairs ps = ps"
proof -
  have "foldl (\<lambda>m (k, v). dict_insert m k v) m ps = m @ ps"
    if "distinct (map fst (m @ ps))" for m
    using that
  proof (induction ps arbitrary: m)
    case (Cons p ps)
    obtain k v where p: "p = (k, v)" by (cases p)
    have "dict_insert m k v = m @ [p]" using Cons.prems p by (auto intro: dict_insert_fresh)
    with Cons.IH [of "m @ [p]"] Cons.prems show ?case by (simp add: p)
  qed simp
  from this [of "[]"] show "distinct (map fst ps) \<Longrightarrow> ?thesis" by (simp add: dict_of_pairs_def)
qed

interpretation protocol_json: json_reader "protocol_hooks conv limit" "\<lambda>i. \<not> over_64_bits i"
  "repr_of_float conv" for conv :: "pystr \<Rightarrow> string" and limit :: nat
  by unfold_locales
    (simp_all add: protocol_hooks_def bounded_int_dec_int bounded_float_def repr_of_float_def
      MAX_JSON_FLOAT_CHARACTERS_def default_object_pairs_def dict_of_pairs_distinct)

lemma validate_simps [simp]:
  "validate_json_value d PyNone = Inr () \<longleftrightarrow> d \<le> 32"
  "validate_json_value d (PyBool b) = Inr () \<longleftrightarrow> d \<le> 32"
  "validate_json_value d (PyInt i) = Inr () \<longleftrightarrow> d \<le> 32 \<and> \<not> over_64_bits i"
  "validate_json_value d (PyFloat s) = Inr () \<longleftrightarrow> d \<le> 32 \<and> finite_float s"
  "validate_json_value d (PyStr t) = Inr () \<longleftrightarrow> d \<le> 32"
  "validate_json_value d (PyList vs) = Inr () \<longleftrightarrow>
     d \<le> 32 \<and> (\<forall>v \<in> set vs. validate_json_value (Suc d) v = Inr ())"
  "validate_json_value d (PyTuple vs) = Inr () \<longleftrightarrow>
     d \<le> 32 \<and> (\<forall>v \<in> set vs. validate_json_value (Suc d) v = Inr ())"
  "validate_json_value d (PyDict items) = Inr () \<longleftrightarrow>
     d \<le> 32 \<and> (\<forall>(k, v) \<in> set items. (\<exists>t. k = PyStr t) \<and> validate_json_value (Suc d) v = Inr ())"
  "validate_json_value d (PyBytes bs) \<noteq> Inr ()"
  "validate_json_value d (PySet vs) \<noteq> Inr ()"
  "validate_json_value d (PyOther n) \<noteq> Inr ()"
proof -
  have key: "(case k of PyStr t \<Rightarrow> r | _ \<Rightarrow> Inl ProtocolError) = Inr () \<longleftrightarrow>
      (\<exists>t. k = PyStr t) \<and> r = Inr ()" for k and r :: "unit res"
    by (cases k) auto
  show "validate_json_value d (PyDict items) = Inr () \<longleftrightarrow>
     d \<le> 32 \<and> (\<forall>(k, v) \<in> set items. (\<exists>t. k = PyStr t) \<and> validate_json_value (Suc d) v = Inr ())"
    by (subst validate_json_value.simps) (auto simp: traverse_unit key)
qed (subst validate_json_value.simps; auto simp: traverse_unit split: if_splits)+

lemma foldr_max_bound: "d \<le> m \<Longrightarrow> (\<And>x. x \<in> set xs \<Longrightarrow> x + d \<le> m) \<Longrightarrow> foldr max xs 0 + d \<le> (m :: nat)"
  using foldr_max_mem [of xs] by auto

lemma validate_depth: "validate_json_value d v = Inr () \<Longrightarrow> json_depth v + d \<le> 33"
proof (induction v arbitrary: d)
  case (PyList vs)
  then have "foldr max (map json_depth vs) 0 + d \<le> 32" by (intro foldr_max_bound) fastforce+
  then show ?case by simp
next
  case (PyTuple vs)
  then have "foldr max (map json_depth vs) 0 + d \<le> 32" by (intro foldr_max_bound) fastforce+
  then show ?case by simp
next
  case (PyDict items)
  then have "foldr max (map (\<lambda>(k, v). json_depth v) items) 0 + d \<le> 32"
    by (intro foldr_max_bound) fastforce+
  then show ?case by simp
qed auto

text \<open>The canonical form of a valid value is valid.\<close>

lemma validate_canon:
  "validate_json_value d v = Inr () \<Longrightarrow> validate_json_value d (json_canon sk v) = Inr ()"
  by (induction v arbitrary: d) (fastforce simp: Let_def)+

section \<open>Encoding and decoding one frame\<close>

lemma encode_frame_body:
  assumes "encode_frame m max_bytes = Inr b"
  obtains t body where "validate_json_value 0 m = Inr ()" "dumps False True m = Inr t"
    "utf8_encode t = Inr body" "body \<noteq> []" "int (length body) \<le> max_bytes" "length body < 2 ^ 32"
    "b = be_bytes 4 (int (length body)) @ body" "\<exists>items. m = PyDict items"
proof -
  from assms obtain items where m: "m = PyDict items"
    by (auto simp: encode_frame_def split: pyval.splits if_splits)
  from assms obtain u where u: "validate_json_value 0 m = Inr u"
    by (auto simp: encode_frame_def m res_simps simp del: validate_simps dumps_simps split: if_splits)
  from assms u obtain t where t: "dumps False True m = Inr t"
    by (cases "dumps False True m") (auto simp: encode_frame_def m simp del: validate_simps dumps_simps split: if_splits)
  from assms u t obtain body where body: "utf8_encode t = Inr body"
    by (cases "utf8_encode t") (auto simp: encode_frame_def m simp del: validate_simps dumps_simps split: if_splits)
  show thesis
    by (rule that [OF _ t body]) (use assms m u t body in \<open>auto simp: encode_frame_def simp del: validate_simps dumps_simps split: if_splits\<close>)
qed

lemma decode_encode_frame:
  assumes "encode_frame m max_bytes = Inr b" "protocol_value conv m" "33 \<le> limit"
    "int (length b) - 4 \<le> max_received"
  shows "decode_payload conv limit (drop 4 b) max_received = Inr (json_canon True m)"
proof -
  obtain t body where v: "validate_json_value 0 m = Inr ()" and t: "dumps False True m = Inr t"
    and u: "utf8_encode t = Inr body" and body: "body \<noteq> []"
    and b: "b = be_bytes 4 (int (length body)) @ body" and m: "\<exists>items. m = PyDict items"
    using encode_frame_body [OF assms(1)] by metis
  have "json_depth m \<le> recursion_limit (protocol_hooks conv limit)"
    using validate_depth [OF v] assms(3) by (simp add: protocol_hooks_def)
  then have l: "loads (protocol_hooks conv limit) t = Inr (json_canon True m)"
    by (rule protocol_json.loads_dumps [OF t assms(2) [unfolded protocol_value_def]])
  have "utf8_decode body = Inr t" by (rule utf8_decode_encode [OF u])
  moreover from m obtain items where "json_canon True m = PyDict items" by (auto simp: Let_def)
  ultimately show ?thesis
    using l body validate_canon [OF v, of True] assms(4)
    by (simp add: b decode_payload_def del: validate_simps)
qed

section \<open>Bytes in pieces\<close>

fun event_bytes :: "net_event \<Rightarrow> bytes" where
  "event_bytes (Arrives b) = b"
| "event_bytes (Fails e) = []"

text \<open>The events are non-empty pieces of \<open>b\<close>, in order, without a failure.\<close>

definition arrives_as :: "net_event list \<Rightarrow> bytes \<Rightarrow> bool" where
  "arrives_as es b \<longleftrightarrow> list_all (\<lambda>e. event_bytes e \<noteq> []) es \<and> concat (map event_bytes es) = b"

definition with_input :: "wire store \<Rightarrow> net_event list \<Rightarrow> wire store" where
  "with_input s es = s\<lparr>db := (db s)\<lparr>incoming := es\<rparr>\<rparr>"

lemma with_input_simps [simp]:
  "incoming (db (with_input s es)) = es" "with_input (with_input s es) es' = with_input s es'"
  "sink (db (with_input s es)) = sink (db s)" "outgoing (db (with_input s es)) = outgoing (db s)"
  by (simp_all add: with_input_def)

lemma recv_arrives:
  assumes "arrives_as (incoming (db s)) (a @ rest)" "a \<noteq> []" "length a = n"
  obtains c es where "c \<noteq> []" "a = c @ drop (length c) a" "length c \<le> n"
    "recv n s = (Inr c, with_input s es)" "arrives_as es (drop (length c) a @ rest)"
proof -
  obtain c es where es: "incoming (db s) = Arrives c # es" "c \<noteq> []"
    using assms(1,2) by (cases "incoming (db s)" rule: list.exhaust; cases "hd (incoming (db s))")
      (auto simp: arrives_as_def)
  then have eq: "c @ concat (map event_bytes es) = a @ rest"
    and es': "list_all (\<lambda>e. event_bytes e \<noteq> []) es"
    using assms(1) by (auto simp: arrives_as_def)
  show thesis
  proof (cases "length c \<le> n")
    case True
    then obtain a' where a: "a = c @ a'" using eq assms(3) by (auto simp: append_eq_append_conv2)
    with eq es' have "arrives_as es (drop (length c) a @ rest)" by (simp add: arrives_as_def)
    then show thesis
      by (rule that [OF es(2) _ True, rotated 2])
        (use True es a in \<open>auto simp: recv_def wireA_def with_input_def\<close>)
  next
    case False
    have a: "take n c = a" using eq assms(3) False by (metis append_eq_append_conv_if not_le take_append
          append_take_drop_id nat_le_linear)
    have "arrives_as (Arrives (drop n c) # es) rest"
      using eq es' False assms(3) a by (auto simp: arrives_as_def append_eq_append_conv_if)
    then show thesis
      by (intro that [of a "Arrives (drop n c) # es"])
        (use False es a assms in \<open>auto simp: recv_def wireA_def with_input_def\<close>)
  qed
qed

lemma recv_exact_arrives:
  "arrives_as (incoming (db s)) (a @ rest) \<Longrightarrow> length a = n \<Longrightarrow>
     \<exists>es. recv_exact n s = (Inr a, with_input s es) \<and> arrives_as es rest"
proof (induction n arbitrary: s a rule: recv_exact.induct)
  case (1 n)
  show ?case
  proof (cases "n = 0")
    case True
    then show ?thesis using "1.prems"
      by (intro exI [of _ "incoming (db s)"])
        (simp add: recv_exact.simps returnA_def with_input_def)
  next
    case False
    then have "a \<noteq> []" using "1.prems"(2) by auto
    then obtain c es where c: "c \<noteq> []" "a = c @ drop (length c) a" "length c \<le> n"
      and r: "recv n s = (Inr c, with_input s es)" and es: "arrives_as es (drop (length c) a @ rest)"
      using recv_arrives [OF "1.prems"(1) _ "1.prems"(2)] by metis
    have "\<exists>es'. recv_exact (n - length c) (with_input s es) =
        (Inr (drop (length c) a), with_input (with_input s es) es') \<and> arrives_as es' rest"
      by (rule "1.IH" [OF False c(1)]) (use es "1.prems"(2) in auto)
    then show ?thesis using False c r
      by (subst recv_exact.simps) (auto simp: bindA_def returnA_def)
  qed
qed

lemma receive_frame_arrives:
  assumes "encode_frame m max_bytes = Inr b" "protocol_value conv m" "33 \<le> limit"
    "max_bytes \<le> max_received" "arrives_as (incoming (db s)) (b @ rest)"
  shows "\<exists>es. receive_frame conv limit max_received s = (Inr (json_canon True m), with_input s es)
           \<and> arrives_as es rest"
proof -
  obtain t body where body: "body \<noteq> []" "int (length body) \<le> max_bytes" "length body < 2 ^ 32"
    and b: "b = be_bytes 4 (int (length body)) @ body"
    using encode_frame_body [OF assms(1)] by metis
  have n: "be_value (be_bytes 4 (int (length body))) = length body"
    using be_value_be_bytes [of "int (length body)" 4] body(3) by simp
  have "arrives_as (incoming (db s)) (be_bytes 4 (int (length body)) @ body @ rest)"
    using assms(5) by (simp add: b)
  from recv_exact_arrives [OF this, of 4] obtain es
    where h: "recv_exact 4 s = (Inr (be_bytes 4 (int (length body))), with_input s es)"
      and es: "arrives_as es (body @ rest)" by auto
  from recv_exact_arrives [of "with_input s es" body rest "length body"] es obtain es'
    where p: "recv_exact (length body) (with_input s es) = (Inr body, with_input s es')"
      and es': "arrives_as es' rest" by auto
  have d: "decode_payload conv limit body max_received = Inr (json_canon True m)"
    using decode_encode_frame [OF assms(1-3), of max_received] body assms(4) by (simp add: b)
  show ?thesis
    by (intro exI [of _ es'])
      (use h p d n body assms(4) es' in
        \<open>simp add: receive_frame_def bindA_def HEADER_SIZE_def Let_def liftE_def\<close>)
qed

section \<open>Whatever arrives\<close>

definition pending :: "wire \<Rightarrow> bytes" where
  "pending w = concat (map event_bytes (incoming w))"

definition faults :: "wire \<Rightarrow> exn set" where
  "faults w = {e. Fails e \<in> set (incoming w)}"

lemma sink_update_simps [simp]:
  "faults (w\<lparr>sink := x\<rparr>) = faults w" "pending (w\<lparr>sink := x\<rparr>) = pending w"
  by (simp_all add: faults_def pending_def)

text \<open>\<open>taken d w c\<close>: from \<open>d\<close> to \<open>w\<close> exactly the bytes \<open>c\<close> were read from the input.\<close>

definition taken :: "wire \<Rightarrow> wire \<Rightarrow> bytes \<Rightarrow> bool" where
  "taken d w c \<longleftrightarrow> w\<lparr>incoming := []\<rparr> = d\<lparr>incoming := []\<rparr> \<and> pending d = c @ pending w \<and> faults w \<subseteq> faults d"

lemma taken_refl: "taken d d []"
  by (simp add: taken_def)

lemma taken_trans: "taken d w c \<Longrightarrow> taken w v e \<Longrightarrow> taken d v (c @ e)"
  unfolding taken_def by auto

lemma wp_wire:
  "(case f d of (Inl e, w) \<Rightarrow> E e w | (Inr x, w) \<Rightarrow> Q x w) \<Longrightarrow> wp (wireA f) Q E d"
  by (auto simp: wp_def wireA_def split: prod.splits sum.splits)

lemma wp_recv:
  assumes "\<And>c w. taken d w c \<Longrightarrow> length c \<le> n \<Longrightarrow> Q c w"
    and "\<And>e w. taken d w [] \<Longrightarrow> e \<in> faults d \<Longrightarrow> E e w"
  shows "wp (recv n) Q E d"
  unfolding recv_def
  by (rule wp_wire)
    (auto simp: taken_def pending_def faults_def split: list.splits net_event.splits intro!: assms)

lemma wp_recv_exact:
  "wp (recv_exact n) (\<lambda>b w. taken d w b \<and> length b = n)
     (\<lambda>e w. (e = ConnectionClosed \<or> e \<in> faults d) \<and> (\<exists>b. taken d w b \<and> length b \<le> n)) d"
proof (induction n arbitrary: d rule: recv_exact.induct)
  case (1 n)
  let ?E = "\<lambda>e w. (e = ConnectionClosed \<or> e \<in> faults d) \<and> (\<exists>b. taken d w b \<and> length b \<le> n)"
  show ?case
  proof (cases "n = 0")
    case True
    then show ?thesis by (subst recv_exact.simps) (simp add: wp_return taken_refl)
  next
    case False
    have "wp (recv n) (\<lambda>c. wp (if c = [] then raiseA ConnectionClosed
         else bindA (recv_exact (n - length c)) (\<lambda>cs. returnA (c @ cs)))
         (\<lambda>b w. taken d w b \<and> length b = n) ?E) ?E d"
    proof (rule wp_recv)
      fix c w
      assume c: "taken d w c" "length c \<le> n"
      show "wp (if c = [] then raiseA ConnectionClosed
         else bindA (recv_exact (n - length c)) (\<lambda>cs. returnA (c @ cs)))
         (\<lambda>b w. taken d w b \<and> length b = n) ?E w"
      proof (rule wp_if)
        assume "c \<noteq> []"
        show "wp (bindA (recv_exact (n - length c)) (\<lambda>cs. returnA (c @ cs)))
            (\<lambda>b w. taken d w b \<and> length b = n) ?E w"
        proof (rule wp_bind, rule wp_mono [OF "1.IH" [OF False \<open>c \<noteq> []\<close>]], goal_cases)
          case (1 b v)
          then show ?case using c by (auto intro!: wp_return taken_trans)
        next
          case (2 e v)
          then obtain b where b: "taken w v b" "length b \<le> n - length c" by auto
          have "faults w \<subseteq> faults d" using c by (simp add: taken_def)
          with 2 show ?case using taken_trans [OF c(1) b(1)] b(2) c(2) by fastforce
        qed
      qed (use c in \<open>auto intro!: wp_raise\<close>)
    qed (use taken_def in auto)
    then show ?thesis using False by (subst recv_exact.simps) (simp add: wp_bind)
  qed
qed

lemma decode_payload_outcome:
  "case decode_payload conv limit payload max_bytes of
     Inl e \<Rightarrow> e = ProtocolError \<or> e = FrameTooLarge
   | Inr v \<Rightarrow> (\<exists>items. v = PyDict items) \<and> validate_json_value 0 v = Inr ()"
proof -
  have "hooks_raise {ValueError, RecursionError, ProtocolError} (protocol_hooks conv limit)"
    by (simp add: hooks_raise_def protocol_hooks_def bounded_int_def bounded_float_def
        reject_constant_def default_object_pairs_def Let_def)
  from loads_raises [OF this]
  have l: "raises_only {ValueError, RecursionError, ProtocolError} (loads (protocol_hooks conv limit) t)" for t .
  have v: "raises_only {ProtocolError} (validate_json_value d v)" for d v
    by (induction d v rule: validate_json_value.induct) (subst validate_json_value.simps, auto
      split: pyval.splits intro!: raises_only_bind raises_only_traverse)
  show ?thesis
    using l v by (fastforce simp: decode_payload_def raises_only_def bind_res_def split: sum.splits pyval.splits)
qed

lemma wp_receive_frame:
  "wp (receive_frame conv limit max_bytes)
     (\<lambda>v w. ((\<exists>items. v = PyDict items) \<and> validate_json_value 0 v = Inr ())
            \<and> (\<exists>b. taken d w b \<and> int (length b) \<le> 4 + max 0 max_bytes))
     (\<lambda>e w. e \<in> {ProtocolError, FrameTooLarge, ConnectionClosed} \<union> faults d
            \<and> (\<exists>b. taken d w b \<and> int (length b) \<le> 4 + max 0 max_bytes)) d"
  (is "wp _ ?Q ?E d")
proof -
  have payload: "wp (bindA (recv_exact (be_value h)) (\<lambda>payload. liftE (decode_payload conv limit payload max_bytes)))
      ?Q ?E w" if h: "taken d w h" "length h = 4" "int (be_value h) \<le> max_bytes" for h w
  proof (rule wp_bind, rule wp_mono [OF wp_recv_exact], goal_cases)
    case (1 b v)
    then have "taken d v (h @ b)" "int (length (h @ b)) \<le> 4 + max 0 max_bytes"
      using h taken_trans [OF h(1), of v b] by auto
    then show ?case
      using decode_payload_outcome [of conv limit b max_bytes] by (auto intro!: wp_lift)
  next
    case (2 e v)
    then obtain b where b: "taken w v b" "length b \<le> be_value h" by auto
    have "taken d v (h @ b)" by (rule taken_trans [OF h(1) b(1)])
    moreover have "int (length (h @ b)) \<le> 4 + max 0 max_bytes" using h b(2) by simp
    moreover have "faults w \<subseteq> faults d" using h(1) by (simp add: taken_def)
    ultimately show ?case using 2 by blast
  qed
  show ?thesis
    unfolding receive_frame_def HEADER_SIZE_def Let_def
  proof (rule wp_bind, rule wp_mono [OF wp_recv_exact], goal_cases)
    case (1 h w)
    then have "\<exists>b. taken d w b \<and> int (length b) \<le> 4 + max 0 max_bytes" by force
    with 1 show ?case
      by (intro wp_if wp_raise) (simp_all only: nat_int payload, auto)
  next
    case (2 e w)
    then show ?case by force
  qed
qed

section \<open>Streams\<close>

definition copied :: "wire \<Rightarrow> wire \<Rightarrow> bytes \<Rightarrow> bool" where
  "copied d w c \<longleftrightarrow> sink w = sink d @ c \<and> pending d = c @ pending w \<and> faults w \<subseteq> faults d
     \<and> w\<lparr>incoming := [], sink := []\<rparr> = d\<lparr>incoming := [], sink := []\<rparr>"

lemma taken_copied: "taken d w c \<Longrightarrow> copied d (w\<lparr>sink := sink w @ c\<rparr>) c"
  by (cases d; cases w) (auto simp: taken_def copied_def pending_def faults_def)

lemma taken_sink:
  assumes "taken d w c"
  shows "sink w = sink d" "w\<lparr>incoming := [], sink := []\<rparr> = d\<lparr>incoming := [], sink := []\<rparr>"
proof -
  have e: "w\<lparr>incoming := []\<rparr> = d\<lparr>incoming := []\<rparr>" using assms by (simp add: taken_def)
  from arg_cong [OF e, of sink] show "sink w = sink d" by simp
  from arg_cong [OF e, of "sink_update (\<lambda>_. [])"]
  show "w\<lparr>incoming := [], sink := []\<rparr> = d\<lparr>incoming := [], sink := []\<rparr>" by simp
qed

lemma copied_trans: "copied d w c \<Longrightarrow> copied w v e \<Longrightarrow> copied d v (c @ e)"
  unfolding copied_def by auto

lemma wp_recv_or:
  assumes "\<And>c w. taken d w c \<Longrightarrow> length c \<le> n \<Longrightarrow> Q c w"
    and "\<And>e w. taken d w [] \<Longrightarrow> e = failure \<or> e \<in> faults d \<and> \<not> is_os_error e \<Longrightarrow> E e w"
  shows "wp (recv_or failure n) Q E d"
  unfolding recv_or_def
  by (rule wp_try, rule wp_recv) (auto intro!: wp_if wp_raise assms)

text \<open>
  Whatever happens, the bytes written to the destination are the next bytes of the input, in
  order; when the loop ends normally they are exactly as many as were announced.
\<close>

lemma wp_receive_chunks:
  "wp (receive_chunks n) (\<lambda>_ w. \<exists>c. copied d w c \<and> length c = n)
     (\<lambda>e w. (e = StreamTruncated \<or> e \<in> faults d) \<and> (\<exists>c. copied d w c \<and> length c \<le> n)) d"
proof (induction n arbitrary: d rule: receive_chunks.induct)
  case (1 n)
  let ?Q = "\<lambda>u w. \<exists>c. copied d w c \<and> length c = n"
  let ?E = "\<lambda>e w. (e = StreamTruncated \<or> e \<in> faults d) \<and> (\<exists>c. copied d w c \<and> length c \<le> n)"
  show ?case
  proof (cases "n = 0")
    case True
    then show ?thesis by (subst receive_chunks.simps) (auto simp: copied_def intro!: wp_return)
  next
    case False
    have none: "?E e w" if "taken d w []" "e = StreamTruncated \<or> e \<in> faults d" for e w
      using that taken_copied [OF that(1)] by force
    have "wp (recv_or StreamTruncated (min STREAM_CHUNK_BYTES n)) (\<lambda>c. wp (if c = [] then raiseA StreamTruncated
         else seqA (sink_write c) (receive_chunks (n - length c))) ?Q ?E) ?E d"
    proof (rule wp_recv_or)
      fix c w
      assume c: "taken d w c" "length c \<le> min STREAM_CHUNK_BYTES n"
      show "wp (if c = [] then raiseA StreamTruncated
         else seqA (sink_write c) (receive_chunks (n - length c))) ?Q ?E w"
      proof (rule wp_if)
        assume "c = []"
        then show "wp (raiseA StreamTruncated) ?Q ?E w" using c none by (auto intro!: wp_raise)
      next
        assume ne: "c \<noteq> []"
        let ?w = "w\<lparr>sink := sink w @ c\<rparr>"
        have cp: "copied d ?w c" by (rule taken_copied [OF c(1)])
        have "wp (receive_chunks (n - length c)) ?Q ?E ?w"
        proof (rule wp_mono [OF "1.IH" [OF False ne]], goal_cases)
          case (1 u v)
          then show ?case using copied_trans [OF cp] c(2) by fastforce
        next
          case (2 e v)
          moreover have "faults ?w \<subseteq> faults d" using cp by (simp add: copied_def)
          ultimately show ?case using copied_trans [OF cp] c(2) by fastforce
        qed
        then show "wp (seqA (sink_write c) (receive_chunks (n - length c))) ?Q ?E w"
          unfolding sink_write_def by (intro wp_seq wp_wire) simp
      qed
    qed (use none in auto)
    then show ?thesis using False by (subst receive_chunks.simps) (simp add: wp_bind)
  qed
qed

lemma wp_receive_stream_payload:
  "wp (receive_stream_payload declared max_stream_bytes require_eof)
     (\<lambda>n w. declared = PyInt n \<and> 0 < n \<and> n \<le> max_stream_bytes
            \<and> (\<exists>c. copied d w c \<and> length c = nat n))
     (\<lambda>e w. e \<in> {StreamError, StreamTooLarge, StreamTruncated} \<union> faults d
            \<and> (\<exists>c rest. sink w = sink d @ c \<and> pending d = c @ rest \<and> length c \<le> nat max_stream_bytes)) d"
  (is "wp _ ?Q ?E d")
proof -
  have stop: "?E e w" if "copied d w c" "length c \<le> nat max_stream_bytes"
    "e \<in> {StreamError, StreamTooLarge, StreamTruncated} \<union> faults d" for e w c
    using that by (auto simp: copied_def)
  have none: "copied d d []" by (simp add: copied_def)
  show ?thesis
  proof (cases declared)
    case (PyInt n)
    have eof: "wp (if require_eof then bindA (recv_or StreamError 1) (\<lambda>extra.
          if extra \<noteq> [] then raiseA StreamError else returnA n) else returnA n) ?Q ?E w"
      if n: "0 < n" "n \<le> max_stream_bytes" and c: "copied d w c" "length c = nat n" for c w
    proof (rule wp_if)
      have "?E e v" if "taken w v x" "e = StreamError \<or> e \<in> faults w" for e v x
      proof -
        have "sink v = sink d @ c" using taken_sink [OF that(1)] c by (simp add: copied_def)
        then show ?thesis using that c n by (auto simp: copied_def intro!: exI [of _ c])
      qed
      moreover have "?Q n v" if "taken w v []" for v
      proof -
        have "copied d v c" using that c taken_sink [OF that] by (auto simp: taken_def copied_def)
        then show ?thesis using PyInt n c by auto
      qed
      ultimately show "wp (bindA (recv_or StreamError 1) (\<lambda>extra.
          if extra \<noteq> [] then raiseA StreamError else returnA n)) ?Q ?E w"
        by (intro wp_bind wp_recv_or wp_if wp_raise wp_return) (auto simp: is_os_error_def)
      show "wp (returnA n) ?Q ?E w" using PyInt n c by (auto intro!: wp_return)
    qed
    have "wp (receive_chunks (nat n)) (\<lambda>_. wp (if require_eof then bindA (recv_or StreamError 1) (\<lambda>extra.
          if extra \<noteq> [] then raiseA StreamError else returnA n) else returnA n) ?Q ?E) ?E d"
      if n: "0 < n" "n \<le> max_stream_bytes"
      by (rule wp_mono [OF wp_receive_chunks]) (use n eof stop in fastforce)+
    then show ?thesis
      using stop [OF none] unfolding receive_stream_payload_def PyInt pyval.case
      by (intro wp_if wp_raise wp_seq) auto
  qed (auto simp: receive_stream_payload_def intro!: wp_raise stop [OF none])
qed

section \<open>Properties\<close>

text \<open>
  C20. A frame written by \<open>encode_frame\<close> is read by \<open>receive_frame\<close> as the same message (members in
  key order, tuples as lists), in whatever non-empty pieces its bytes arrive, and exactly the
  bytes of the frame are read: what follows is left for the next call. The message is any
  dictionary of JSON values whose floats the interpreter reads back from their \<open>repr\<close>; the
  receiver's limit is at least the sender's and the interpreter's scanner can nest 33 levels.
\<close>

theorem frame_roundtrip:
  assumes "encode_frame m max_bytes = Inr b" "protocol_value conv m" "33 \<le> limit"
    "max_bytes \<le> max_received" "arrives_as (incoming (db s)) (b @ rest)"
  shows "\<exists>es. receive_frame conv limit max_received s = (Inr (json_canon True m), with_input s es)
           \<and> arrives_as es rest"
  by (rule receive_frame_arrives [OF assms])

definition sample_wire :: "net_event list \<Rightarrow> wire store" where
  "sample_wire es =
     \<lparr>db = \<lparr>connect_result = None, incoming = es, outgoing = [], send_results = [],
        shut_down = False, source = [], sink = []\<rparr>, draws = 0, readings = 0, closed = False\<rparr>"

lemmas frame_eval = encode_frame_def utf8_encode_def utf8_units_def is_scalar_def dump_string_def
  escape_char_def dec_int_def dec_nat.simps over_64_bits_def lit_def INT_MAX_STR_DIGITS_def text_eval

lemma be_bytes_4:
  "be_bytes 4 v = [of_int (v div 256 div 256 div 256), of_int (v div 256 div 256), of_int (v div 256), of_int v]"
  by (simp add: numeral_eq_Suc)

theorem frame_roundtrip_witness:
  "\<exists>es. receive_frame (\<lambda>_. ''0.0'') 1000 65536
      (sample_wire [Arrives [0, 0], Arrives [0, 7, 123, 34, 97], Arrives [34, 58, 53, 125, 9]])
    = (Inr (PyDict [(PyStr (lit ''a''), PyInt 5)]),
       with_input (sample_wire [Arrives [0, 0], Arrives [0, 7, 123, 34, 97], Arrives [34, 58, 53, 125, 9]]) es)
    \<and> arrives_as es [9]"
proof -
  let ?m = "PyDict [(PyStr (lit ''a''), PyInt 5)]"
  have v: "validate_json_value 0 ?m = Inr ()" by (simp add: over_64_bits_def)
  have "encode_frame ?m 65536 = Inr [0, 0, 0, 7, 123, 34, 97, 34, 58, 53, 125]"
    using v by (simp add: frame_eval be_bytes_4 del: validate_simps)
  moreover have "protocol_value (\<lambda>_. ''0.0'') ?m"
    by (simp add: protocol_value_def over_64_bits_def json_char_def list_all_iff)
  moreover have "arrives_as (incoming (db (sample_wire
      [Arrives [0, 0], Arrives [0, 7, 123, 34, 97], Arrives [34, 58, 53, 125, 9]])))
      ([0, 0, 0, 7, 123, 34, 97, 34, 58, 53, 125] @ [9])"
    by (simp add: sample_wire_def arrives_as_def)
  ultimately show ?thesis using frame_roundtrip [of ?m 65536 _ "\<lambda>_. ''0.0''" 1000 65536 _ "[9]"]
    by fastforce
qed

text \<open>
  C21. Whatever a peer sends, \<open>receive_frame\<close> ends with a dictionary of bounded JSON values or one of
  the protocol's errors (or the failure of the socket itself), and it has read at most the header
  and as many bytes as the frame limit allows: the announced length is checked before anything
  is read or decoded.
\<close>

theorem receive_frame_safe:
  "case receive_frame conv limit max_bytes s of (r, t) \<Rightarrow>
     (\<exists>b. taken (db s) (db t) b \<and> int (length b) \<le> 4 + max 0 max_bytes)
     \<and> (case r of
          Inr v \<Rightarrow> (\<exists>items. v = PyDict items) \<and> validate_json_value 0 v = Inr ()
        | Inl e \<Rightarrow> e \<in> {ProtocolError, FrameTooLarge, ConnectionClosed} \<union> faults (db s))"
proof -
  obtain r t where r: "receive_frame conv limit max_bytes s = (r, t)" by (cases "receive_frame conv limit max_bytes s")
  from wp_outcome [OF wp_receive_frame r] show ?thesis unfolding r by (cases r) auto
qed

text \<open>
  C22. Receiving a stream copies exactly the announced number of bytes, which is positive and within
  the limit, from the input to the destination; on every error the destination has received a
  prefix of the input no longer than the limit.
\<close>

theorem stream_copied_exactly:
  "case receive_stream_payload declared max_stream_bytes require_eof s of
     (Inr n, t) \<Rightarrow> declared = PyInt n \<and> 0 < n \<and> n \<le> max_stream_bytes
       \<and> (\<exists>c. copied (db s) (db t) c \<and> length c = nat n)
   | (Inl e, t) \<Rightarrow> e \<in> {StreamError, StreamTooLarge, StreamTruncated} \<union> faults (db s)
       \<and> (\<exists>c rest. sink (db t) = sink (db s) @ c \<and> pending (db s) = c @ rest
            \<and> length c \<le> nat max_stream_bytes)"
proof -
  obtain r t where r: "receive_stream_payload declared max_stream_bytes require_eof s = (r, t)"
    by (cases "receive_stream_payload declared max_stream_bytes require_eof s")
  from wp_outcome [OF wp_receive_stream_payload r] show ?thesis unfolding r by (cases r) auto
qed

end
