(* ===== verification/Helper_Messages.thy ===== *)
theory Helper_Messages
  imports Helper_Protocol_Correct
begin

text \<open>
  Requests, responses and the client's calls. Reading a payload inverts writing it, also after the
  members were sorted on the wire; a call returns only a valid response with the identifier of
  its request.
\<close>

section \<open>Fields\<close>

lemma payload_fields_py_dict [simp]: "payload_fields (py_dict m) = Inr m"
  by (simp add: payload_fields_def py_dict_def text_keys_Inr)

lemma payload_fields_Inr: "payload_fields v = Inr m \<longleftrightarrow> v = py_dict m"
  by (cases v) (auto simp: payload_fields_def py_dict_def text_keys_Inr)

lemma json_canon_py_dict:
  "json_canon True (py_dict m) = py_dict (sort_key fst (map (\<lambda>(k, v). (k, json_canon True v)) m))"
  by (auto simp: py_dict_def Let_def sort_key_map comp_def case_prod_beta')

lemma check_identifier_Inr [res_simps]: "check_identifier v p = Inr s \<longleftrightarrow> v = PyStr s \<and> p s"
  by (cases v) (auto simp: check_identifier_def)

lemma optional_length_Inr [res_simps]:
  "optional_length v = Inr n \<longleftrightarrow>
     (case n of None \<Rightarrow> v = PyNone | Some k \<Rightarrow> v = PyInt k \<and> 0 < k)"
  by (cases v) (auto simp: optional_length_def split: option.splits)

lemma field_sort:
  assumes "distinct (map fst m)"
  shows "field (sort_key fst m) = field m" "map_of (sort_key fst m) = map_of m"
    "fst ` set (sort_key fst m) = fst ` set m"
proof -
  have "distinct (map fst (sort_key fst m))"
    using assms by (auto simp: distinct_map)
  then show "map_of (sort_key fst m) = map_of m" using assms by (simp add: map_of_inject_set)
  then show "field (sort_key fst m) = field m" by (auto simp: field_def)
qed simp

lemma from_payload_sort:
  assumes "distinct (map fst m)"
  shows "Request_from_payload (py_dict (sort_key fst m)) = Request_from_payload (py_dict m)"
    "Response_from_payload (py_dict (sort_key fst m)) = Response_from_payload (py_dict m)"
proof -
  have k: "check_keys (sort_key fst m) = check_keys m"
    using field_sort(3) [OF assms] by (intro ext) (simp add: check_keys_def)
  show "Request_from_payload (py_dict (sort_key fst m)) = Request_from_payload (py_dict m)"
    "Response_from_payload (py_dict (sort_key fst m)) = Response_from_payload (py_dict m)"
    unfolding Request_from_payload_def Response_from_payload_def payload_fields_py_dict
      bind_res_simps k field_sort(1,2) [OF assms] by (rule refl)+
qed

section \<open>Requests\<close>

definition request_ok :: "Request \<Rightarrow> bool" where
  "request_ok r \<longleftrightarrow> id_re (request_id r) \<and> operation_re (operation r)
     \<and> (case params r of PyDict items \<Rightarrow> True | _ \<Rightarrow> False) \<and> validate_json_value 0 (params r) = Inr ()
     \<and> (case auth_token r of None \<Rightarrow> True | Some t \<Rightarrow> auth_token_re t)
     \<and> (case stream_length r of None \<Rightarrow> True | Some n \<Rightarrow> 0 < n)"

lemma mk_Request_Inr:
  "mk_Request rid op ps tok len = Inr r \<longleftrightarrow>
     request_ok r \<and> rid = PyStr (request_id r) \<and> op = PyStr (operation r) \<and> ps = params r
     \<and> tok = (case auth_token r of None \<Rightarrow> PyNone | Some t \<Rightarrow> PyStr t)
     \<and> len = (case stream_length r of None \<Rightarrow> PyNone | Some n \<Rightarrow> PyInt n)"
  by (cases r) (auto simp: mk_Request_def request_ok_def res_simps simp del: validate_simps
      split: pyval.splits option.splits if_splits)

definition request_fields :: "Request \<Rightarrow> (pystr \<times> pyval) list" where
  "request_fields r =
     [(lit ''version'', PyInt PROTOCOL_VERSION), (lit ''id'', PyStr (request_id r)),
      (lit ''operation'', PyStr (operation r)), (lit ''params'', params r)]
     @ (case auth_token r of None \<Rightarrow> [] | Some t \<Rightarrow> [(lit ''auth_token'', PyStr t)])
     @ (case stream_length r of None \<Rightarrow> [] | Some n \<Rightarrow> [(lit ''stream_length'', PyInt n)])"

lemma Request_to_payload_fields: "Request_to_payload r = py_dict (request_fields r)"
  by (simp add: Request_to_payload_def request_fields_def)

lemma distinct_request_fields: "distinct (map fst (request_fields r))"
  by (auto simp: request_fields_def split: option.splits)

lemma request_fields_canon:
  "map (\<lambda>(k, v). (k, json_canon True v)) (request_fields r)
     = request_fields (r\<lparr>params := json_canon True (params r)\<rparr>)"
  by (auto simp: request_fields_def split: option.splits)

lemma request_read_back:
  assumes "request_ok r"
  shows "Request_from_payload (Request_to_payload r) = Inr r"
proof -
  obtain items where p: "params r = PyDict items"
    using assms by (auto simp: request_ok_def split: pyval.splits)
  have k: "check_keys (request_fields r)
      {''version'', ''id'', ''operation'', ''params'', ''auth_token'', ''stream_length''}
      {''version'', ''id'', ''operation'', ''params''} = Inr ()"
    by (auto simp: check_keys_def request_fields_def Let_def split: option.splits)
  have f: "field (request_fields r) ''version'' = PyInt PROTOCOL_VERSION"
    "field (request_fields r) ''id'' = PyStr (request_id r)"
    "field (request_fields r) ''operation'' = PyStr (operation r)"
    "field (request_fields r) ''params'' = PyDict items"
    "field (request_fields r) ''auth_token'' = (case auth_token r of None \<Rightarrow> PyNone | Some t \<Rightarrow> PyStr t)"
    "field (request_fields r) ''stream_length'' = (case stream_length r of None \<Rightarrow> PyNone | Some n \<Rightarrow> PyInt n)"
    by (simp_all add: field_def request_fields_def p split: option.splits)
  show ?thesis
    using assms
    by (simp add: Request_from_payload_def Request_to_payload_fields k f is_protocol_version_def
        mk_Request_Inr p)
qed

interpretation request_codec: codec Request_from_payload Request_to_payload request_ok
proof unfold_locales
  show "request_ok r \<Longrightarrow> Request_from_payload (Request_to_payload r) = Inr r" for r
    by (rule request_read_back)
  show "Request_from_payload d = Inr r \<Longrightarrow> request_ok r" for d r
    by (auto simp: Request_from_payload_def res_simps mk_Request_Inr split: if_splits pyval.splits)
qed

lemma request_read_canon:
  assumes "request_ok r"
  shows "Request_from_payload (json_canon True (Request_to_payload r))
    = Inr (r\<lparr>params := json_canon True (params r)\<rparr>)"
proof -
  let ?r = "r\<lparr>params := json_canon True (params r)\<rparr>"
  have "\<exists>items. json_canon True (params r) = PyDict items"
    using assms by (auto simp: request_ok_def Let_def split: pyval.splits)
  then have "request_ok ?r"
    using assms validate_canon by (auto simp: request_ok_def simp del: validate_simps)
  from request_read_back [OF this] show ?thesis
    by (simp add: Request_to_payload_fields json_canon_py_dict request_fields_canon
        from_payload_sort(1) [OF distinct_request_fields])
qed

section \<open>Responses\<close>

definition error_ok :: "ErrorPayload \<Rightarrow> bool" where
  "error_ok e \<longleftrightarrow> error_code_re (err_code e) \<and> err_message e \<noteq> [] \<and> length (err_message e) \<le> 512
     \<and> list_all (\<lambda>x. x \<noteq> 13 \<and> x \<noteq> 10 \<and> x \<noteq> 0) (err_message e)"

lemma mk_ErrorPayload_Inr [res_simps]:
  "mk_ErrorPayload c m = Inr e \<longleftrightarrow> error_ok e \<and> c = PyStr (err_code e) \<and> m = PyStr (err_message e)"
proof (cases m)
  case (PyStr t)
  then show ?thesis by (cases e) (auto simp: mk_ErrorPayload_def error_ok_def res_simps)
qed (auto simp: mk_ErrorPayload_def res_simps)

definition response_ok :: "Response \<Rightarrow> bool" where
  "response_ok r \<longleftrightarrow> id_re (resp_id r) \<and> validate_json_value 0 (resp_result r) = Inr ()
     \<and> (if resp_ok r
        then resp_error r = None \<and> (resp_stream r \<noteq> None) = stream_marker (resp_result r)
          \<and> (case resp_stream r of None \<Rightarrow> True | Some n \<Rightarrow> 0 < n)
        else (\<exists>e. resp_error r = Some e \<and> error_ok e) \<and> resp_stream r = None \<and> resp_result r = PyNone)"

lemma Response_success_Inr:
  "Response_success rid res len = Inr r \<longleftrightarrow>
     response_ok r \<and> resp_ok r \<and> rid = PyStr (resp_id r) \<and> res = resp_result r
     \<and> len = (case resp_stream r of None \<Rightarrow> PyNone | Some n \<Rightarrow> PyInt n)"
  by (cases r) (auto simp: Response_success_def mk_Response_def response_ok_def res_simps
      simp del: validate_simps split: if_splits option.splits)

lemma Response_failure_Inr:
  "Response_failure rid code msg = Inr r \<longleftrightarrow>
     response_ok r \<and> \<not> resp_ok r \<and> rid = PyStr (resp_id r)
     \<and> (\<exists>e. resp_error r = Some e \<and> code = PyStr (err_code e) \<and> msg = PyStr (err_message e))"
  by (cases r) (auto simp: Response_failure_def mk_Response_def response_ok_def res_simps
      split: if_splits option.splits)

definition response_fields :: "Response \<Rightarrow> (pystr \<times> pyval) list" where
  "response_fields r =
     [(lit ''version'', PyInt PROTOCOL_VERSION), (lit ''id'', PyStr (resp_id r)),
      (lit ''ok'', PyBool (resp_ok r))]
     @ (if resp_ok r
        then (lit ''result'', resp_result r)
          # (case resp_stream r of None \<Rightarrow> [] | Some n \<Rightarrow> [(lit ''stream_length'', PyInt n)])
        else (case resp_error r of None \<Rightarrow> [] | Some e \<Rightarrow> [(lit ''error'', ErrorPayload_to_payload e)]))"

lemma Response_to_payload_fields:
  "response_ok r \<Longrightarrow> Response_to_payload r = Inr (py_dict (response_fields r))"
  by (auto simp: Response_to_payload_def response_fields_def response_ok_def Let_def split: if_splits)

lemma distinct_response_fields: "distinct (map fst (response_fields r))"
  by (auto simp: response_fields_def split: option.splits)

lemma response_read_fields:
  assumes "response_ok r"
  shows "Response_from_payload (py_dict (response_fields r)) = Inr r"
proof -
  have k: "check_keys (response_fields r)
      {''version'', ''id'', ''ok'', ''result'', ''error'', ''stream_length''}
      {''version'', ''id'', ''ok''} = Inr ()"
    by (auto simp: check_keys_def response_fields_def Let_def split: option.splits)
  have f: "field (response_fields r) ''version'' = PyInt PROTOCOL_VERSION"
    "field (response_fields r) ''id'' = PyStr (resp_id r)"
    "field (response_fields r) ''ok'' = PyBool (resp_ok r)"
    by (simp_all add: field_def response_fields_def)
  show ?thesis
  proof (cases "resp_ok r")
    case True
    have "map_of (response_fields r) (lit ''error'') = None"
      "field (response_fields r) ''result'' = resp_result r"
      "field (response_fields r) ''stream_length'' = (case resp_stream r of None \<Rightarrow> PyNone | Some n \<Rightarrow> PyInt n)"
      using True by (simp_all add: field_def response_fields_def split: option.splits)
    with True assms show ?thesis
      by (simp add: Response_from_payload_def k f is_protocol_version_def Response_success_Inr)
  next
    case False
    with assms obtain e where e: "resp_error r = Some e" "error_ok e" by (auto simp: response_ok_def)
    have "map_of (response_fields r) (lit ''result'') = None"
      "map_of (response_fields r) (lit ''stream_length'') = None"
      "field (response_fields r) ''error'' = ErrorPayload_to_payload e"
      using False e by (simp_all add: field_def response_fields_def)
    moreover have "ErrorPayload_to_payload e = PyDict (map (\<lambda>(k, v). (PyStr k, v))
        [(lit ''code'', PyStr (err_code e)), (lit ''message'', PyStr (err_message e))])"
      by (simp add: ErrorPayload_to_payload_def py_dict_def)
    moreover have "check_keys [(lit ''code'', PyStr (err_code e)), (lit ''message'', PyStr (err_message e))]
        {''code'', ''message''} {''code'', ''message''} = Inr ()"
      by (auto simp: check_keys_def)
    moreover have "field [(lit ''code'', c), (lit ''message'', m)] ''code'' = c"
      "field [(lit ''code'', c), (lit ''message'', m)] ''message'' = m" for c m
      by (simp_all add: field_def)
    ultimately show ?thesis using False e assms
      by (simp add: Response_from_payload_def k f is_protocol_version_def Response_failure_Inr)
  qed
qed

interpretation response_codec: codec Response_from_payload
  "\<lambda>r. case Response_to_payload r of Inr v \<Rightarrow> v | Inl _ \<Rightarrow> PyNone" response_ok
proof unfold_locales
  show "response_ok r \<Longrightarrow> Response_from_payload
      (case Response_to_payload r of Inr v \<Rightarrow> v | Inl _ \<Rightarrow> PyNone) = Inr r" for r
    by (simp add: Response_to_payload_fields response_read_fields)
  show "Response_from_payload d = Inr r \<Longrightarrow> response_ok r" for d r
    by (auto simp: Response_from_payload_def res_simps Response_success_Inr Response_failure_Inr
        split: if_splits pyval.splits bool.splits)
qed

section \<open>Calls\<close>

lemma wp_connect: "Q () d \<Longrightarrow> (\<And>e. connect_result d = Some e \<Longrightarrow> E e d) \<Longrightarrow> wp connect Q E d"
  unfolding connect_def by (rule wp_wire) (auto split: option.splits)

lemma wp_sendall:
  "(\<And>w. outgoing w = outgoing d @ b \<Longrightarrow> incoming w = incoming d \<Longrightarrow> Q () w) \<Longrightarrow> (\<And>e w. E e w) \<Longrightarrow>
     wp (sendall b) Q E d"
  unfolding sendall_def by (rule wp_wire) (auto split: list.splits option.splits)

text \<open>What the two callers that read a plain answer make of it.\<close>

definition accept_response :: "Request \<Rightarrow> Response \<Rightarrow> Response wire_act" where
  "accept_response request response =
     (if resp_id response \<noteq> request_id request then raiseA ProtocolError
      else if resp_stream response \<noteq> None then raiseA ProtocolError
      else returnA response)"

lemma call_eq:
  "call env c request =
     (if stream_length request \<noteq> None then raiseA ProtocolError
      else if \<not> has_af_unix env then raiseA OSError
      else seqA connect (seqA (send_frame (Request_to_payload request) (max_frame_bytes c))
        (bindA (receive_response env c) (accept_response request))))"
  unfolding call_def accept_response_def ..

lemma taken_outgoing: "taken d w c \<Longrightarrow> outgoing w = outgoing d"
  by (auto simp: taken_def dest: arg_cong [of _ _ outgoing])

lemma wp_receive_response:
  "wp (receive_response env c) (\<lambda>r w. response_ok r \<and> outgoing w = outgoing d) (\<lambda>_ _. True) d"
  unfolding receive_response_def
  by (rule wp_bind, rule wp_mono [OF wp_receive_frame])
    (auto intro!: wp_lift response_codec.parse_valid dest: taken_outgoing)

text \<open>
  C23. A call returns only a well-formed response without a stream that carries the identifier of
  its request, and the bytes it has sent are the one frame of that request.
\<close>

theorem call_sound:
  "case call env c request s of
     (Inr r, t) \<Rightarrow> response_ok r \<and> resp_id r = request_id request \<and> resp_stream r = None
       \<and> (\<exists>b. encode_frame (Request_to_payload request) (max_frame_bytes c) = Inr b
              \<and> outgoing (db t) = outgoing (db s) @ b)
   | (Inl e, t) \<Rightarrow> True"
proof -
  let ?Q = "\<lambda>r w. response_ok r \<and> resp_id r = request_id request \<and> resp_stream r = None
       \<and> (\<exists>b. encode_frame (Request_to_payload request) (max_frame_bytes c) = Inr b
              \<and> outgoing w = outgoing (db s) @ b)"
  have receive: "wp (receive_response env c) (\<lambda>x. wp (accept_response request x) ?Q (\<lambda>_ _. True)) (\<lambda>_ _. True) w"
    if "encode_frame (Request_to_payload request) (max_frame_bytes c) = Inr b"
      "outgoing w = outgoing (db s) @ b" for w b
    unfolding accept_response_def
    by (rule wp_mono [OF wp_receive_response])
      (use that in \<open>auto intro!: wp_if wp_raise wp_return\<close>)
  have "wp (call env c request) ?Q (\<lambda>_ _. True) (db s)"
    unfolding call_eq send_frame_def
    by (intro wp_if wp_raise wp_seq wp_connect wp_bind wp_lift wp_sendall TrueI) (rule receive)
  from wp_outcome [OF this, of "fst (call env c request s)" "snd (call env c request s)"]
  show ?thesis by (auto split: prod.splits sum.splits)
qed

text \<open>
  C24. A request travels unchanged: when its frame arrives, in any pieces, at a receiver that reads a
  frame and builds a request from it, the receiver gets the same request (the parameters in
  canonical form), and nothing beyond the frame has been read.
\<close>

theorem request_transport:
  assumes "request_ok r" "protocol_value conv (params r)"
    "encode_frame (Request_to_payload r) max_bytes = Inr b" "33 \<le> limit" "max_bytes \<le> max_received"
    "arrives_as (incoming (db s)) (b @ rest)"
  shows "\<exists>es. bindA (receive_frame conv limit max_received) (\<lambda>m. liftE (Request_from_payload m)) s
           = (Inr (r\<lparr>params := json_canon True (params r)\<rparr>), with_input s es) \<and> arrives_as es rest"
proof -
  have "validate_json_value 0 (Request_to_payload r) = Inr ()"
    using encode_frame_body [OF assms(3)] by metis
  then have len: "\<not> over_64_bits n" if "stream_length r = Some n" for n
    using that by (simp add: Request_to_payload_def py_dict_def)
  have "json_value False (\<lambda>i. \<not> over_64_bits i) (repr_of_float conv) v
      \<and> list_all (json_char False) k" if "(k, v) \<in> set (request_fields r)" for k v
    using that assms(2) len
    by (auto simp: request_fields_def protocol_value_def json_char_def list_all_iff over_64_bits_def
        PROTOCOL_VERSION_def split: option.splits)
  moreover have "distinct (map fst (map (\<lambda>(k, v). (PyStr k, v)) (request_fields r)))"
  proof -
    have "map fst (map (\<lambda>(k, v). (PyStr k, v)) m) = map PyStr (map fst m)" for m :: "(pystr \<times> pyval) list"
      by auto
    then show ?thesis
      using distinct_request_fields [of r] by (simp only: distinct_map [of PyStr]) (simp add: inj_on_def)
  qed
  ultimately have "protocol_value conv (Request_to_payload r)"
    by (auto simp: Request_to_payload_fields py_dict_def protocol_value_def)
  from receive_frame_arrives [OF assms(3) this assms(4-6)] obtain es where
    "receive_frame conv limit max_received s = (Inr (json_canon True (Request_to_payload r)), with_input s es)"
    "arrives_as es rest" by blast
  then show ?thesis
    by (auto simp: bindA_def liftE_def request_read_canon [OF assms(1)])
qed

definition sample_request :: Request where
  "sample_request = \<lparr>request_id = lit ''7'', operation = lit ''dns.get'', params = PyDict [],
     auth_token = None, stream_length = None\<rparr>"

definition sample_request_bytes :: bytes where
  "sample_request_bytes = [0, 0, 0, 56, 123, 34, 105, 100, 34, 58, 34, 55, 34, 44, 34, 111, 112, 101, 114, 97, 116, 105, 111, 110, 34, 58, 34, 100, 110, 115, 46, 103, 101, 116, 34, 44, 34, 112, 97, 114, 97, 109, 115, 34, 58, 123, 125, 44, 34, 118, 101, 114, 115, 105, 111, 110, 34, 58, 50, 125]"

theorem request_transport_witness:
  "\<exists>es. bindA (receive_frame (\<lambda>_. ''0.0'') 1000 65536) (\<lambda>m. liftE (Request_from_payload m))
       (sample_wire [Arrives (take 9 sample_request_bytes), Arrives (drop 9 sample_request_bytes)])
     = (Inr sample_request, with_input
         (sample_wire [Arrives (take 9 sample_request_bytes), Arrives (drop 9 sample_request_bytes)]) es)
     \<and> arrives_as es []"
proof -
  let ?s = "sample_wire [Arrives (take 9 sample_request_bytes), Arrives (drop 9 sample_request_bytes)]"
  have ok: "request_ok sample_request"
    by (simp add: request_ok_def sample_request_def id_re_def operation_re_def operation_label_def
        text_eval)
  have v: "validate_json_value 0 (Request_to_payload sample_request) = Inr ()"
    by (simp add: Request_to_payload_def sample_request_def py_dict_def over_64_bits_def PROTOCOL_VERSION_def)
  have "encode_frame (Request_to_payload sample_request) 65536 = Inr sample_request_bytes"
    using v by (simp add: Request_to_payload_def sample_request_def sample_request_bytes_def py_dict_def
        frame_eval be_bytes_4 PROTOCOL_VERSION_def del: validate_simps)
  moreover have "protocol_value (\<lambda>_. ''0.0'') (params sample_request)"
    by (simp add: protocol_value_def sample_request_def)
  moreover have "arrives_as (incoming (db ?s)) (sample_request_bytes @ [])"
    by (simp add: sample_wire_def arrives_as_def sample_request_bytes_def)
  moreover have "sample_request\<lparr>params := json_canon True (params sample_request)\<rparr> = sample_request"
    by (simp add: sample_request_def)
  ultimately show ?thesis
    using request_transport [OF ok, of "\<lambda>_. ''0.0''" 65536 sample_request_bytes 1000 65536 ?s "[]"]
    by fastforce
qed

end
