(* ===== verification/Url_Text.thy ===== *)
theory Url_Text
  imports Prelude
begin

text \<open>
  The parts of \<open>urllib.parse.urlsplit\<close> and of the \<open>idna\<close> codec that \<open>security.py\<close> uses to compare
  hosts and origins. What depends on the Unicode tables (NFKC, lower-casing and IDNA encoding
  beyond ASCII) and the check of a bracketed IPv6 literal are fields of \<open>text_env\<close>; a \<open>None\<close> from
  the IDNA encoder is a \<open>UnicodeError\<close>.
\<close>

record text_env =
  unicode_lower :: "pystr \<Rightarrow> pystr"
  nfkc :: "pystr \<Rightarrow> pystr"
  idna_nonascii :: "pystr \<Rightarrow> pystr option"
  bracketed_host_ok :: "pystr \<Rightarrow> bool"

text \<open>What \<open>ipaddress.ip_address\<close> tells of an address; the reading of the text is a parameter of its users.\<close>

record ip_address =
  is_ipv4 :: bool
  is_unspecified :: bool
  is_multicast :: bool
  is_loopback :: bool
  is_private :: bool
  ip_text :: pystr

definition py_lower :: "text_env \<Rightarrow> pystr \<Rightarrow> pystr" where
  "py_lower env s = (if isascii s then lower s else unicode_lower env s)"

text \<open>\<open>str.partition\<close> and \<open>str.rpartition\<close> for one character: before, whether found, after.\<close>

definition partition :: "nat \<Rightarrow> pystr \<Rightarrow> pystr \<times> bool \<times> pystr" where
  "partition c s =
     (if c \<in> set s then (takeWhile (\<lambda>x. x \<noteq> c) s, True, tl (dropWhile (\<lambda>x. x \<noteq> c) s))
      else (s, False, []))"

definition rpartition :: "nat \<Rightarrow> pystr \<Rightarrow> pystr \<times> bool \<times> pystr" where
  "rpartition c s =
     (if c \<in> set s then (fst (rsplit_once c s), True, snd (rsplit_once c s)) else ([], False, s))"

record SplitResult =
  scheme :: pystr
  netloc :: pystr
  path :: pystr
  query :: pystr
  fragment :: pystr

definition scheme_char :: "nat \<Rightarrow> bool" where
  "scheme_char c \<longleftrightarrow> is_ascii_alnum c \<or> c = 43 \<or> c = 45 \<or> c = 46"

definition split_scheme :: "pystr \<Rightarrow> pystr \<times> pystr" where
  "split_scheme url =
     (let (before, found, after) = partition 58 url in
      if found \<and> before \<noteq> [] \<and> (is_lower_alpha (hd before) \<or> is_upper_alpha (hd before))
         \<and> list_all scheme_char before
      then (lower before, after) else ([], url))"

definition check_bracketed_netloc :: "text_env \<Rightarrow> pystr \<Rightarrow> bool" where
  "check_bracketed_netloc env loc =
     (let (_, _, hostinfo) = rpartition 64 loc;
          (before, open_bracket, bracketed) = partition 91 hostinfo
      in if open_bracket then
           let (host, _, port) = partition 93 bracketed in
           before = [] \<and> (port = [] \<or> hd port = 58) \<and> bracketed_host_ok env host
         else bracketed_host_ok env (fst (partition 58 hostinfo)))"

definition check_netloc :: "text_env \<Rightarrow> pystr \<Rightarrow> bool" where
  "check_netloc env loc \<longleftrightarrow>
     (loc = [] \<or> isascii loc
      \<or> (let n = filter (\<lambda>c. c \<notin> {64, 58, 35, 63}) loc; n2 = nfkc env n in
         n = n2 \<or> (\<forall>c \<in> {47, 63, 35, 64, 58}. c \<notin> set n2)))"

definition urlsplit :: "text_env \<Rightarrow> pystr \<Rightarrow> SplitResult res" where
  "urlsplit env text =
     (let url = filter (\<lambda>c. c \<notin> {9, 10, 13}) (dropWhile (\<lambda>c. c \<le> 32) text);
          (scm, rest) = split_scheme url;
          has_netloc = (take 2 rest = [47, 47]);
          loc = (if has_netloc then takeWhile (\<lambda>c. c \<notin> {47, 63, 35}) (drop 2 rest) else []);
          rest = (if has_netloc then drop (2 + length loc) rest else rest);
          (before_fragment, _, frag) = partition 35 rest;
          (pth, _, qry) = partition 63 before_fragment
      in if (91 \<in> set loc) \<noteq> (93 \<in> set loc) then Inl ValueError
         else if 91 \<in> set loc \<and> 93 \<in> set loc \<and> \<not> check_bracketed_netloc env loc then Inl ValueError
         else if \<not> check_netloc env loc then Inl ValueError
         else Inr \<lparr>scheme = scm, netloc = loc, path = pth, query = qry, fragment = frag\<rparr>)"

definition url_userinfo :: "SplitResult \<Rightarrow> pystr option \<times> pystr option" where
  "url_userinfo u =
     (let (userinfo, found, _) = rpartition 64 (netloc u) in
      if found then
        let (username, has_password, password) = partition 58 userinfo in
        (Some username, if has_password then Some password else None)
      else (None, None))"

definition url_hostinfo :: "SplitResult \<Rightarrow> pystr \<times> pystr option" where
  "url_hostinfo u =
     (let (_, _, hostinfo) = rpartition 64 (netloc u);
          (_, open_bracket, bracketed) = partition 91 hostinfo;
          (host, port) =
            (if open_bracket then
               let (h, _, after) = partition 93 bracketed in (h, snd (snd (partition 58 after)))
             else let (h, _, p) = partition 58 hostinfo in (h, p))
      in (host, if port = [] then None else Some port))"

definition url_hostname :: "text_env \<Rightarrow> SplitResult \<Rightarrow> pystr option" where
  "url_hostname env u =
     (let host = fst (url_hostinfo u) in
      if host = [] then None
      else let (name, percent, zone) = partition 37 host in
           Some (py_lower env name @ (if percent then 37 # zone else [])))"

definition decimal_value :: "pystr \<Rightarrow> nat" where
  "decimal_value s = foldl (\<lambda>a c. 10 * a + (c - 48)) 0 s"

definition url_port :: "SplitResult \<Rightarrow> int option res" where
  "url_port u =
     (case snd (url_hostinfo u) of
        None \<Rightarrow> Inr None
      | Some p \<Rightarrow>
          if \<not> list_all is_digit p then Inl ValueError
          else if 65535 < decimal_value p then Inl ValueError
          else Inr (Some (int (decimal_value p))))"

text \<open>\<open>s.encode("idna").decode("ascii")\<close>.\<close>

definition idna_encode :: "text_env \<Rightarrow> pystr \<Rightarrow> pystr res" where
  "idna_encode env s =
     (if s = [] then Inr []
      else if isascii s then
        let labels = split_on 46 s in
        if [] \<in> set (butlast labels) \<or> \<not> list_all (\<lambda>l. length l < 64) labels then Inl UnicodeError
        else Inr s
      else case idna_nonascii env s of None \<Rightarrow> Inl UnicodeError | Some t \<Rightarrow> Inr t)"

lemma idna_encode_error: "idna_encode env s = Inl e \<Longrightarrow> e = UnicodeError"
  by (auto simp: idna_encode_def Let_def split: if_splits option.splits)

lemma urlsplit_error: "urlsplit env s = Inl e \<Longrightarrow> e = ValueError"
  by (auto simp: urlsplit_def Let_def split: prod.splits if_splits)

lemma url_port_error: "url_port u = Inl e \<Longrightarrow> e = ValueError"
  by (auto simp: url_port_def split: option.splits if_splits)

end
