(* ===== verification/Csrf_Tokens.thy ===== *)
theory Csrf_Tokens
  imports Url_Text Json_Text Binary_Text Store_Monad
begin

text \<open>
  The first half of \<open>security.py\<close>: hosts and origins, the immutable security policy, and the
  signed CSRF tokens. The process's clocks, its source of random bytes and HMAC-SHA256 are fields
  of \<open>security_env\<close>, which also has the Unicode tables of \<open>text_env\<close>; \<open>monotonic\<close> gives
  \<open>time.monotonic()\<close> in nanoseconds. Drawing and reading a clock are actions on the state of the
  process, so that successive calls see successive values.
\<close>

record security_env = text_env +
  wall_seconds :: "nat \<Rightarrow> int"
  monotonic :: "nat \<Rightarrow> int"
  token_bytes :: "nat \<Rightarrow> nat \<Rightarrow> bytes"
  hmac_sha256 :: "bytes \<Rightarrow> bytes \<Rightarrow> bytes"
  nonascii_alnum :: "nat \<Rightarrow> bool"
  nonascii_decimal :: "nat \<Rightarrow> nat option"

section \<open>Text helpers\<close>

definition SAFE_METHODS :: "pystr set" where
  "SAFE_METHODS = {lit ''GET'', lit ''HEAD''}"

definition API_ERROR_MESSAGES :: "(int \<times> string) list" where
  "API_ERROR_MESSAGES =
    [(400, ''The request is invalid.''), (401, ''Authentication is required.''),
     (403, ''The request is forbidden.''), (404, ''The endpoint does not exist.''),
     (405, ''This request method is not supported.''), (408, ''Timed out while reading the request.''),
     (409, ''The request conflicts with current state.''), (413, ''The request body is too large.''),
     (415, ''The request content type is not supported.''), (422, ''The request could not be processed.''),
     (429, ''The server is busy; try again later.''), (500, ''The request failed unexpectedly.''),
     (502, ''A backend service failed.''), (503, ''The service is temporarily unavailable.'')]"

definition API_ERROR_CODES :: "(int \<times> string) list" where
  "API_ERROR_CODES =
    [(400, ''invalid_request''), (401, ''unauthorized''), (403, ''forbidden''), (404, ''not_found''),
     (405, ''method_not_allowed''), (408, ''request_timeout''), (409, ''conflict''),
     (413, ''payload_too_large''), (415, ''unsupported_media_type''), (422, ''unprocessable_entity''),
     (429, ''too_many_requests''), (500, ''internal_error''), (502, ''backend_failure''),
     (503, ''service_unavailable'')]"

definition contains_forbidden_header_characters :: "pystr \<Rightarrow> bool" where
  "contains_forbidden_header_characters s \<longleftrightarrow> list_ex (\<lambda>c. c < 32 \<or> c = 127) s"

definition is_api_path :: "pystr \<Rightarrow> bool" where
  "is_api_path p \<longleftrightarrow> prefix (lit ''/api/'') p"

definition safe_error_message :: "pyval \<Rightarrow> int \<Rightarrow> pystr" where
  "safe_error_message v status =
     (let fallback = lit (case map_of API_ERROR_MESSAGES status of
                            None \<Rightarrow> ''The request failed.'' | Some m \<Rightarrow> m) in
      case v of
        PyStr t \<Rightarrow>
          let t = strip t in
          if t = [] \<or> 512 < length t \<or> contains_forbidden_header_characters t then fallback
          else (case utf8_encode t of Inl _ \<Rightarrow> fallback | Inr _ \<Rightarrow> t)
      | _ \<Rightarrow> fallback)"

section \<open>Hosts and origins\<close>

text \<open>\<open>hostname.rstrip(".")\<close>.\<close>

definition rstrip_dots :: "pystr \<Rightarrow> pystr" where
  "rstrip_dots s = rev (dropWhile (\<lambda>c. c = 46) (rev s))"

definition normalize_authority :: "'a text_env_scheme \<Rightarrow> pystr \<Rightarrow> (pystr \<times> int option) res" where
  "normalize_authority env text =
     (let t = strip text; env = text_env.truncate env in
      if t = [] \<or> contains_forbidden_header_characters t \<or> 42 \<in> set t then Inl ValueError
      else
        bind_res (urlsplit env (lit ''//'' @ t)) (\<lambda>parsed.
        bind_res (url_port parsed) (\<lambda>port.
        case url_hostname env parsed of
          None \<Rightarrow> Inl ValueError
        | Some hostname \<Rightarrow>
            if hostname = [] \<or> url_userinfo parsed \<noteq> (None, None)
               \<or> path parsed \<noteq> [] \<or> query parsed \<noteq> [] \<or> fragment parsed \<noteq> []
            then Inl ValueError
            else
              (case idna_encode env (rstrip_dots hostname) of
                 Inl _ \<Rightarrow> Inl ValueError
               | Inr h \<Rightarrow> Inr (lower h, port)))))"

definition normalize_origin :: "'a text_env_scheme \<Rightarrow> pystr \<Rightarrow> pystr res" where
  "normalize_origin env text =
     (let t = strip text; env = text_env.truncate env in
      if t = [] \<or> contains_forbidden_header_characters t then Inl ValueError
      else
        bind_res (urlsplit env t) (\<lambda>parsed.
        bind_res (url_port parsed) (\<lambda>port.
        if lower (scheme parsed) \<notin> {lit ''http'', lit ''https''} then Inl ValueError
        else case url_hostname env parsed of
          None \<Rightarrow> Inl ValueError
        | Some hostname \<Rightarrow>
            if hostname = [] \<or> url_userinfo parsed \<noteq> (None, None)
               \<or> path parsed \<notin> {[], lit ''/''} \<or> query parsed \<noteq> [] \<or> fragment parsed \<noteq> []
            then Inl ValueError
            else
              bind_res (idna_encode env (rstrip_dots hostname)) (\<lambda>h.
              let host = lower h;
                  default_port = (if lower (scheme parsed) = lit ''http'' then 80 else 443);
                  authority = (if 58 \<in> set host then 91 # host @ [93] else host);
                  authority =
                    (case port of
                       None \<Rightarrow> authority
                     | Some p \<Rightarrow> if p \<noteq> default_port then authority @ 58 # dec_int p else authority)
              in Inr (lower (scheme parsed) @ lit ''://'' @ authority)))))"

section \<open>Policy\<close>

text \<open>The body timeout is kept in nanoseconds.\<close>

record SecurityConfig =
  allowed_hosts :: "pystr list"
  session_signing_key :: bytes
  public_origins :: "pystr list"
  secure_cookies :: bool
  csrf_cookie_name :: pystr
  csrf_max_age :: int
  request_body_timeout :: int

definition mk_SecurityConfig :: "'a text_env_scheme \<Rightarrow> SecurityConfig \<Rightarrow> SecurityConfig res" where
  "mk_SecurityConfig env c =
     (if allowed_hosts c = [] then Inl ValueError
      else if length (session_signing_key c) < 32 \<or> 128 < length (session_signing_key c) then Inl ValueError
      else if request_body_timeout c \<le> 0 \<or> 120 * 10 ^ 9 < request_body_timeout c then Inl ValueError
      else
        bind_res (traverse (normalize_authority env) (allowed_hosts c)) (\<lambda>_.
        bind_res (traverse (normalize_origin env) (public_origins c)) (\<lambda>_.
        if csrf_max_age c \<le> 0 then Inl ValueError
        else if csrf_cookie_name c = []
                \<or> list_ex (\<lambda>x. x \<in> {13, 10, 59, 61, 32, 9}) (csrf_cookie_name c)
        then Inl ValueError
        else if prefix (lit ''__Host-'') (csrf_cookie_name c) \<and> \<not> secure_cookies c then Inl ValueError
        else Inr c)))"

definition normalized_origins :: "'a text_env_scheme \<Rightarrow> SecurityConfig \<Rightarrow> pystr set res" where
  "normalized_origins env c =
     bind_res (traverse (normalize_origin env) (public_origins c)) (\<lambda>os. Inr (set os))"

definition host_is_allowed :: "'a text_env_scheme \<Rightarrow> pystr \<Rightarrow> pystr list \<Rightarrow> bool" where
  "host_is_allowed env host_header hosts =
     (case normalize_authority env host_header of
        Inl _ \<Rightarrow> False
      | Inr (actual_host, actual_port) \<Rightarrow>
          list_ex (\<lambda>configured.
            case normalize_authority env configured of
              Inl _ \<Rightarrow> False
            | Inr (expected_host, expected_port) \<Rightarrow>
                actual_host = expected_host \<and> (expected_port = None \<or> expected_port = actual_port))
          hosts)"

text \<open>\<open>hmac.compare_digest\<close> of two strings, which must be ASCII.\<close>

definition compare_digest :: "pystr \<Rightarrow> pystr \<Rightarrow> bool res" where
  "compare_digest a b = (if isascii a \<and> isascii b then Inr (a = b) else Inl TypeError)"

text \<open>
  The policy both headers are held against: the configured origins, or else the request's own.
  \<open>ValueError\<close>s of the normalization are caught by the callers.
\<close>

definition origin_matches ::
  "'a text_env_scheme \<Rightarrow> pystr \<Rightarrow> pystr \<Rightarrow> pystr \<Rightarrow> SecurityConfig \<Rightarrow> bool res" where
  "origin_matches env actual req_scheme req_host c =
     bind_res (normalized_origins env c) (\<lambda>configured.
     if configured \<noteq> {} then Inr (actual \<in> configured)
     else case normalize_origin env (req_scheme @ lit ''://'' @ req_host) of
       Inl _ \<Rightarrow> Inr False
     | Inr expected \<Rightarrow> compare_digest actual expected)"

definition origin_is_allowed ::
  "'a text_env_scheme \<Rightarrow> pystr \<Rightarrow> pystr \<Rightarrow> pystr \<Rightarrow> SecurityConfig \<Rightarrow> bool res" where
  "origin_is_allowed env origin_header req_scheme req_host c =
     (if origin_header = lit ''null'' then Inr False
      else case normalize_origin env origin_header of
        Inl _ \<Rightarrow> Inr False
      | Inr actual \<Rightarrow> origin_matches env actual req_scheme req_host c)"

definition referer_is_allowed ::
  "'a text_env_scheme \<Rightarrow> pystr \<Rightarrow> pystr \<Rightarrow> pystr \<Rightarrow> SecurityConfig \<Rightarrow> bool res" where
  "referer_is_allowed env referer_header req_scheme req_host c =
     (case urlsplit (text_env.truncate env) referer_header of
        Inl _ \<Rightarrow> Inr False
      | Inr parsed \<Rightarrow>
          if scheme parsed = [] \<or> netloc parsed = [] then Inr False
          else case normalize_origin env (scheme parsed @ lit ''://'' @ netloc parsed) of
            Inl _ \<Rightarrow> Inr False
          | Inr referer_origin \<Rightarrow> origin_matches env referer_origin req_scheme req_host c)"

section \<open>Tokens\<close>

definition csrf_signature :: "security_env \<Rightarrow> bytes \<Rightarrow> pystr \<Rightarrow> pystr res" where
  "csrf_signature env key payload =
     (if isascii payload then Inr (urlsafe_b64encode (hmac_sha256 env key (ascii_bytes payload)))
      else Inl UnicodeEncodeError)"

definition flow_char :: "security_env \<Rightarrow> nat \<Rightarrow> bool" where
  "flow_char env c \<longleftrightarrow> (if c < 128 then is_ascii_alnum c else nonascii_alnum env c) \<or> c = 95 \<or> c = 45"

definition valid_flow :: "security_env \<Rightarrow> pystr \<Rightarrow> bool" where
  "valid_flow env flow \<longleftrightarrow> 16 \<le> length flow \<and> length flow \<le> 32 \<and> list_all (flow_char env) flow"

definition csrf_payload :: "int \<Rightarrow> pystr \<Rightarrow> pystr \<Rightarrow> pystr" where
  "csrf_payload issued_at flow nonce =
     lit ''v2'' @ 46 # dec_int issued_at @ 46 # flow @ 46 # nonce"

text \<open>\<open>int(time.time())\<close>, \<open>time.monotonic()\<close> and \<open>secrets.token_urlsafe(n)\<close>.\<close>

definition read_wall :: "security_env \<Rightarrow> ('d, int) act" where
  "read_wall env s = (Inr (wall_seconds env (readings s)), s\<lparr>readings := Suc (readings s)\<rparr>)"

definition read_monotonic :: "security_env \<Rightarrow> ('d, int) act" where
  "read_monotonic env s = (Inr (monotonic env (readings s)), s\<lparr>readings := Suc (readings s)\<rparr>)"

definition token_urlsafe :: "security_env \<Rightarrow> nat \<Rightarrow> ('d, pystr) act" where
  "token_urlsafe env n s = (Inr (urlsafe_b64encode (token_bytes env (draws s) n)), s\<lparr>draws := Suc (draws s)\<rparr>)"

definition new_csrf_token :: "security_env \<Rightarrow> bytes \<Rightarrow> pystr option \<Rightarrow> ('d, pystr) act" where
  "new_csrf_token env key flow_id =
     bindA (read_wall env) (\<lambda>issued_at.
     bindA (case flow_id of None \<Rightarrow> token_urlsafe env 18 | Some f \<Rightarrow> returnA f) (\<lambda>flow.
     if \<not> valid_flow env flow then raiseA ValueError
     else
       bindA (token_urlsafe env 24) (\<lambda>nonce.
       let payload = csrf_payload issued_at flow nonce in
       bindA (liftE (csrf_signature env key payload)) (\<lambda>signature.
       returnA (payload @ 46 # signature)))))"

text \<open>\<open>text.split(sep, n)\<close>: at most \<open>n\<close> splits.\<close>

fun split_max :: "nat \<Rightarrow> nat \<Rightarrow> pystr \<Rightarrow> pystr list" where
  "split_max 0 c s = [s]"
| "split_max (Suc n) c s =
     (case partition c s of
        (before, True, after) \<Rightarrow> before # split_max n c after
      | (_, False, _) \<Rightarrow> [s])"

text \<open>\<open>int(text)\<close>: surrounding white space, a sign, digits in groups joined by underscores.\<close>

definition decimal_digit :: "security_env \<Rightarrow> nat \<Rightarrow> nat option" where
  "decimal_digit env c =
     (if c < 128 then (if is_digit c then Some (c - 48) else None) else nonascii_decimal env c)"

definition python_int :: "security_env \<Rightarrow> pystr \<Rightarrow> int res" where
  "python_int env text =
     (let t = strip text;
          negative = next_is 45 t;
          body = (if negative \<or> next_is 43 t then tl t else t);
          groups = split_on 95 body;
          digits = those (map (decimal_digit env) (concat groups))
      in case digits of
           None \<Rightarrow> Inl ValueError
         | Some ds \<Rightarrow>
             if [] \<in> set groups then Inl ValueError
             else let v = int (foldl (\<lambda>a d. 10 * a + d) 0 ds) in Inr (if negative then - v else v))"

definition verify_csrf_token ::
  "security_env \<Rightarrow> pystr \<Rightarrow> bytes \<Rightarrow> int \<Rightarrow> ('d, (pystr \<times> int \<times> pystr) option) act" where
  "verify_csrf_token env token key max_age =
     (if 256 < length token \<or> contains_forbidden_header_characters token then returnA None
      else case split_max 4 46 token of
        [version, issued_text, flow, nonce, signature] \<Rightarrow>
          (case python_int env issued_text of
             Inl _ \<Rightarrow> returnA None
           | Inr issued_at \<Rightarrow>
               if version \<noteq> lit ''v2'' \<or> \<not> valid_flow env flow \<or> nonce = [] \<or> 64 < length nonce
               then returnA None
               else
                 bindA (read_wall env) (\<lambda>current.
                 if current + 60 < issued_at \<or> max_age < current - issued_at then returnA None
                 else
                   bindA (liftE (csrf_signature env key (csrf_payload issued_at flow nonce))) (\<lambda>expected.
                   bindA (liftE (compare_digest signature expected)) (\<lambda>same.
                   returnA (if same then Some (nonce, issued_at, flow) else None)))))
      | _ \<Rightarrow> returnA None)"

end
