(* ===== verification/Csrf_Sample.thy ===== *)
theory Csrf_Sample
  imports Csrf_Tokens
begin

text \<open>
  A concrete environment and process on which the theorems about CSRF protection are evaluated: a
  wall clock that advances one second per reading, a monotonic clock likewise, a digest of 32
  bytes, and random bytes that depend on the number of the draw.
\<close>

definition sample_security_env :: security_env where
  "sample_security_env =
     \<lparr>unicode_lower = lower, nfkc = id, idna_nonascii = (\<lambda>_. None), bracketed_host_ok = (\<lambda>_. True),
      wall_seconds = (\<lambda>i. 1000 + int i), monotonic = (\<lambda>i. int i * 10 ^ 9),
      token_bytes = (\<lambda>d n. replicate n (of_nat d)),
      hmac_sha256 = (\<lambda>k m. replicate 32 (sum_list k + sum_list m)),
      nonascii_alnum = (\<lambda>_. False), nonascii_decimal = (\<lambda>_. None)\<rparr>"

definition sample_process :: "'d \<Rightarrow> 'd store" where
  "sample_process d = \<lparr>db = d, draws = 0, readings = 0, closed = False\<rparr>"

lemma sample_process_db [simp]: "db (sample_process d) = d"
  by (simp add: sample_process_def)

lemma sample_clock: "wall_seconds sample_security_env i = 1000 + int i"
  by (simp add: sample_security_env_def)

lemma sample_security_lengths:
  "length (hmac_sha256 sample_security_env k m) = 32"
  "length (token_bytes sample_security_env d n) = n"
  by (simp_all add: sample_security_env_def)

end
