(* ===== verification/Csrf_Store.thy ===== *)
theory Csrf_Store
  imports Csrf_Sample
begin

text \<open>
  \<open>CurrentCsrfStore\<close> of \<open>security.py\<close>: the bounded registry of the one nonce each browser flow may use
  next. The ordered dictionary is the list of its items, least recently used first. Every method
  holds the lock from its clock reading to its end, so each is one action, and an interleaving of
  requests is a sequence of these actions.

  Proved here: over every such sequence the registry keeps its capacity, and its bound per identity
  as long as each key is used for one identity, which an example shows to be needed.
\<close>

section \<open>Operations\<close>

record CsrfCurrent =
  cc_base :: pystr
  cc_nonce :: pystr
  cc_expires_at :: int

type_synonym csrf_entries = "(pystr \<times> CsrfCurrent) list"

type_synonym 'a csrf_act = "(csrf_entries, 'a) act"

record CurrentCsrfStore =
  capacity :: int
  flows_per_identity :: int
  ttl :: int

definition mk_CurrentCsrfStore :: "int \<Rightarrow> int \<Rightarrow> int \<Rightarrow> CurrentCsrfStore res" where
  "mk_CurrentCsrfStore cap flows age =
     (if cap \<le> 0 \<or> flows \<le> 0 \<or> age \<le> 0 then Inl ValueError
      else Inr \<lparr>capacity = cap, flows_per_identity = flows, ttl = age\<rparr>)"

definition purge :: "int \<Rightarrow> csrf_entries \<Rightarrow> csrf_entries" where
  "purge now es = filter (\<lambda>(k, st). \<not> cc_expires_at st \<le> now) es"

definition delete_key :: "pystr \<Rightarrow> csrf_entries \<Rightarrow> csrf_entries" where
  "delete_key key es = filter (\<lambda>(k, _). k \<noteq> key) es"

text \<open>\<open>while len(matching) >= flows_per_identity: del entries[matching.pop(0)]\<close>\<close>

fun drop_matching :: "int \<Rightarrow> pystr list \<Rightarrow> csrf_entries \<Rightarrow> csrf_entries" where
  "drop_matching flows [] es = es"
| "drop_matching flows (k # ks) es =
     (if flows \<le> int (length (k # ks)) then drop_matching flows ks (delete_key k es) else es)"

text \<open>\<open>while len(entries) >= capacity and key not in entries: entries.popitem(last=False)\<close>\<close>

fun drop_oldest :: "int \<Rightarrow> pystr \<Rightarrow> csrf_entries \<Rightarrow> csrf_entries" where
  "drop_oldest cap key [] = []"
| "drop_oldest cap key (e # es) =
     (if cap \<le> int (length (e # es)) \<and> key \<notin> fst ` set (e # es) then drop_oldest cap key es else e # es)"

definition bound_capacity :: "CurrentCsrfStore \<Rightarrow> pystr \<Rightarrow> pystr \<Rightarrow> csrf_entries \<Rightarrow> csrf_entries" where
  "bound_capacity c base key es =
     (let matching = map fst (filter (\<lambda>(k, st). cc_base st = base \<and> k \<noteq> key) es) in
      drop_oldest (capacity c) key (drop_matching (flows_per_identity c) matching es))"

text \<open>\<open>entries[key] = state; entries.move_to_end(key)\<close>\<close>

definition put_last :: "pystr \<Rightarrow> CsrfCurrent \<Rightarrow> csrf_entries \<Rightarrow> csrf_entries" where
  "put_last key st es = delete_key key es @ [(key, st)]"

definition modify :: "('d \<Rightarrow> 'd) \<Rightarrow> ('d, unit) act" where
  "modify f = executeA (\<lambda>d. Inr ((), f d))"

definition is_current :: "security_env \<Rightarrow> pystr \<Rightarrow> pystr \<Rightarrow> bool csrf_act" where
  "is_current env key nonce =
     bindA (read_monotonic env) (\<lambda>now.
     seqA (modify (purge now))
     (bindA (selectA (\<lambda>es. map_of es key)) (\<lambda>found.
      case found of
        None \<Rightarrow> returnA False
      | Some st \<Rightarrow>
          bindA (liftE (compare_digest (cc_nonce st) nonce)) (\<lambda>same.
          if \<not> same then returnA False
          else seqA (modify (put_last key st)) (returnA True)))))"

definition replace :: "security_env \<Rightarrow> CurrentCsrfStore \<Rightarrow> pystr \<Rightarrow> pystr \<Rightarrow> pystr \<Rightarrow> unit csrf_act" where
  "replace env c base key nonce =
     bindA (read_monotonic env) (\<lambda>now.
     seqA (modify (purge now))
     (seqA (modify (bound_capacity c base key))
     (modify (put_last key
        \<lparr>cc_base = base, cc_nonce = nonce, cc_expires_at = now + ttl c * 10 ^ 9\<rparr>))))"

definition rotate ::
  "security_env \<Rightarrow> CurrentCsrfStore \<Rightarrow> pystr \<Rightarrow> pystr \<Rightarrow> pystr \<Rightarrow> pystr \<Rightarrow> bool csrf_act" where
  "rotate env c base key expected_nonce replacement_nonce =
     bindA (read_monotonic env) (\<lambda>now.
     seqA (modify (purge now))
     (bindA (selectA (\<lambda>es. map_of es key)) (\<lambda>found.
      case found of
        None \<Rightarrow> returnA False
      | Some st \<Rightarrow>
          bindA (liftE (compare_digest (cc_nonce st) expected_nonce)) (\<lambda>same.
          if \<not> same then returnA False
          else
            seqA (modify (put_last key
              \<lparr>cc_base = base, cc_nonce = replacement_nonce, cc_expires_at = now + ttl c * 10 ^ 9\<rparr>))
            (returnA True)))))"

section \<open>Bounds\<close>

text \<open>
  Every state key belongs to one identity (\<open>state_identity\<close> derives it from the identity's digest);
  \<open>owner\<close> is that relation. The registry is well formed when keys are distinct, entries carry the
  identity their key belongs to, and the two bounds hold.
\<close>

definition flows_of :: "(pystr \<Rightarrow> pystr) \<Rightarrow> pystr \<Rightarrow> csrf_entries \<Rightarrow> nat" where
  "flows_of owner b es = length (filter (\<lambda>(k, _). owner k = b) es)"

definition csrf_inv :: "(pystr \<Rightarrow> pystr) \<Rightarrow> CurrentCsrfStore \<Rightarrow> csrf_entries \<Rightarrow> bool" where
  "csrf_inv owner c es \<longleftrightarrow> distinct (map fst es) \<and> int (length es) \<le> capacity c
     \<and> (\<forall>(k, st) \<in> set es. cc_base st = owner k)
     \<and> (\<forall>b. int (flows_of owner b es) \<le> flows_per_identity c)"

lemma wp_modify [wp_rules]: "Q () (f d) \<Longrightarrow> wp (modify f) Q E d"
  unfolding modify_def by (rule wp_execute) auto

lemma wp_read_monotonic [wp_rules]: "(\<And>now. Q now d) \<Longrightarrow> wp (read_monotonic env) Q E d"
  by (auto simp: wp_def read_monotonic_def)

lemma flows_of_subseq: "subseq fs es \<Longrightarrow> flows_of owner b fs \<le> flows_of owner b es"
  unfolding flows_of_def by (rule list_emb_length [OF subseq_filter])

lemma csrf_inv_subseq:
  assumes "csrf_inv owner c es" "subseq fs es"
  shows "csrf_inv owner c fs"
proof -
  obtain N where "fs = nths es N" using assms(2) by (auto simp: subseq_conv_nths)
  then have "map fst fs = nths (map fst es) N" "set fs \<subseteq> set es"
    by (auto simp: nths_map dest: in_set_nthsD)
  then have "distinct (map fst fs)" "\<forall>(k, st) \<in> set fs. cc_base st = owner k"
    using assms(1) by (auto simp: csrf_inv_def distinct_nthsI)
  moreover have "length fs \<le> length es" by (rule list_emb_length [OF assms(2)])
  moreover have "int (flows_of owner b fs) \<le> flows_per_identity c" for b
    using flows_of_subseq [OF assms(2), of owner b] assms(1)
    by (auto simp: csrf_inv_def intro: order_trans [OF of_nat_mono])
  ultimately show ?thesis using assms(1) by (auto simp: csrf_inv_def)
qed

lemma csrf_inv_purge: "csrf_inv owner c es \<Longrightarrow> csrf_inv owner c (purge now es)"
  by (erule csrf_inv_subseq) (simp add: purge_def)

lemma set_delete_key: "set (delete_key k es) = {e \<in> set es. fst e \<noteq> k}"
  by (auto simp: delete_key_def)

lemma delete_key_absent: "key \<notin> fst ` set es \<Longrightarrow> delete_key key es = es"
  by (induction es) (auto simp: delete_key_def)

lemma delete_key_append: "delete_key key (es @ fs) = delete_key key es @ delete_key key fs"
  by (simp add: delete_key_def)

lemma filter_delete_key: "filter P (delete_key key es) = delete_key key (filter P es)"
  by (simp add: delete_key_def conj_commute)

lemma drop_matching_subseq: "subseq (drop_matching flows ks es) es"
proof (induction flows ks es rule: drop_matching.induct)
  case (2 flows k ks es)
  have "subseq (delete_key k es) es" by (simp add: delete_key_def)
  with 2 show ?case by (auto intro: subseq_order.trans)
qed simp

lemma drop_oldest_suffix: "suffix (drop_oldest cap key es) es"
  by (induction cap key es rule: drop_oldest.induct) (auto simp: suffix_Cons)

lemma drop_oldest_room:
  "0 < cap \<Longrightarrow> key \<notin> fst ` set (drop_oldest cap key es) \<Longrightarrow> int (length (drop_oldest cap key es)) < cap"
  by (induction cap key es rule: drop_oldest.induct) (auto split: if_splits)

text \<open>The eviction leaves room for one more flow of the identity.\<close>

lemma drop_matching_room:
  "distinct (map fst es) \<Longrightarrow> 0 < flows \<Longrightarrow> map fst (filter P es) = ks \<Longrightarrow>
     int (length (filter P (drop_matching flows ks es))) < flows"
proof (induction flows ks es rule: drop_matching.induct)
  case (2 flows k ks es)
  obtain e rest where e: "filter P es = e # rest" "k = fst e" "ks = map fst rest"
    using "2.prems"(3) by (cases "filter P es") auto
  have "distinct (map fst (filter P es))" using "2.prems"(1) by (simp add: distinct_map_filter)
  then have "k \<notin> fst ` set rest" by (simp add: e)
  then have "delete_key k rest = rest" by (rule delete_key_absent)
  then have "filter P (delete_key k es) = rest"
    unfolding filter_delete_key e(1) using e(2) by (cases e) (simp add: delete_key_def)
  with 2 e show ?case
    by (cases "flows \<le> int (length (k # ks))")
      (auto simp: delete_key_def distinct_map_filter dest: arg_cong [of _ _ length])
qed (auto simp: filter_empty_conv)

lemma csrf_inv_put:
  assumes inv: "csrf_inv owner c es" and b: "cc_base st = owner key"
    and room: "int (length (delete_key key es)) < capacity c"
      "int (flows_of owner (owner key) (delete_key key es)) < flows_per_identity c"
  shows "csrf_inv owner c (put_last key st es)"
proof -
  have d: "csrf_inv owner c (delete_key key es)"
    by (rule csrf_inv_subseq [OF inv]) (simp add: delete_key_def)
  have "flows_of owner x (put_last key st es)
      = flows_of owner x (delete_key key es) + (if owner key = x then 1 else 0)" for x
    by (simp add: flows_of_def put_last_def)
  with d room b show ?thesis
    by (auto simp: csrf_inv_def put_last_def set_delete_key)
qed

lemma csrf_inv_refresh:
  assumes inv: "csrf_inv owner c es" and k: "key \<in> fst ` set es" and b: "cc_base st = owner key"
  shows "csrf_inv owner c (put_last key st es)"
proof (rule csrf_inv_put [OF inv b])
  from k obtain old where old: "(key, old) \<in> set es" by force
  then obtain pre post where es: "es = pre @ (key, old) # post" by (auto simp: in_set_conv_decomp)
  have "delete_key key es = pre @ post"
  proof -
    have "key \<notin> fst ` set pre" "key \<notin> fst ` set post" using inv by (auto simp: es csrf_inv_def)
    then show ?thesis
      using delete_key_append [of key "[(key, old)]" post]
      by (simp add: es delete_key_append delete_key_absent) (simp add: delete_key_def)
  qed
  moreover have "int (length es) \<le> capacity c" "int (flows_of owner (owner key) es) \<le> flows_per_identity c"
    using inv by (auto simp: csrf_inv_def)
  ultimately show "int (length (delete_key key es)) < capacity c"
    "int (flows_of owner (owner key) (delete_key key es)) < flows_per_identity c"
    by (auto simp: es flows_of_def)
qed

lemma csrf_inv_admit:
  assumes inv: "csrf_inv owner c es" and b: "cc_base st = owner key" "base = owner key"
    and pos: "0 < capacity c" "0 < flows_per_identity c"
  shows "csrf_inv owner c (put_last key st (bound_capacity c base key es))"
proof -
  let ?P = "\<lambda>(k, st). cc_base st = base \<and> k \<noteq> key"
  let ?ms = "drop_matching (flows_per_identity c) (map fst (filter ?P es)) es"
  let ?fs = "drop_oldest (capacity c) key ?ms"
  have fs: "bound_capacity c base key es = ?fs" by (simp add: bound_capacity_def)
  have sub: "subseq ?fs ?ms" using drop_oldest_suffix by blast
  have ms: "csrf_inv owner c ?ms" by (rule csrf_inv_subseq [OF inv drop_matching_subseq])
  have fsi: "csrf_inv owner c ?fs" by (rule csrf_inv_subseq [OF ms sub])
  show ?thesis
  proof (cases "key \<in> fst ` set ?fs")
    case True
    then show ?thesis unfolding fs by (rule csrf_inv_refresh [OF fsi _ b(1)])
  next
    case False
    then have del: "delete_key key ?fs = ?fs" by (rule delete_key_absent)
    have P: "filter (\<lambda>(k, _). owner k = base) ?fs = filter ?P ?fs"
      using fsi False by (intro filter_cong refl) (auto simp: csrf_inv_def image_iff)
    have "int (length (filter ?P ?ms)) < flows_per_identity c"
      using inv pos(2) by (intro drop_matching_room) (auto simp: csrf_inv_def)
    moreover have "length (filter ?P ?fs) \<le> length (filter ?P ?ms)"
      by (rule list_emb_length [OF subseq_filter [OF sub]])
    ultimately have "int (flows_of owner (owner key) ?fs) < flows_per_identity c"
      unfolding flows_of_def b(2) [symmetric] P by simp
    then show ?thesis
      unfolding fs using drop_oldest_room [OF pos(1) False]
      by (intro csrf_inv_put [OF fsi b(1)]) (simp_all add: del)
  qed
qed

section \<open>Sequences of calls\<close>

text \<open>
  A call of one of the three methods by some request, and what it answers. Requests interleave
  between calls, so a run of the process is any sequence of them; in between, clocks and the
  source of randomness may be used by others.
\<close>

datatype csrf_op =
    IsCurrent pystr pystr
  | Replace pystr pystr pystr
  | Rotate pystr pystr pystr pystr

fun run_op :: "security_env \<Rightarrow> CurrentCsrfStore \<Rightarrow> csrf_op \<Rightarrow> bool csrf_act" where
  "run_op env c (IsCurrent key nonce) = is_current env key nonce"
| "run_op env c (Replace base key nonce) = seqA (replace env c base key nonce) (returnA True)"
| "run_op env c (Rotate base key old new) = rotate env c base key old new"

fun op_owned :: "(pystr \<Rightarrow> pystr) \<Rightarrow> csrf_op \<Rightarrow> bool" where
  "op_owned owner (IsCurrent key nonce) = True"
| "op_owned owner (Replace base key nonce) = (owner key = base)"
| "op_owned owner (Rotate base key old new) = (owner key = base)"

text \<open>
  \<open>csrf_run env c s tr t\<close>: calls of the registry with their answers lead from \<open>s\<close> to \<open>t\<close>; between
  two calls only the clock readings and random draws of the process may have moved.
\<close>

inductive csrf_run ::
  "security_env \<Rightarrow> CurrentCsrfStore \<Rightarrow> csrf_entries store \<Rightarrow> (csrf_op \<times> bool res) list \<Rightarrow> csrf_entries store \<Rightarrow> bool"
  for env c s where
  none: "csrf_run env c s [] s"
| call: "csrf_run env c s tr t \<Longrightarrow> db t' = db t \<Longrightarrow> run_op env c op t' = (r, u) \<Longrightarrow>
    csrf_run env c s (tr @ [(op, r)]) u"

text \<open>An invariant of the contents that every call of a run keeps holds at its end.\<close>

lemma csrf_run_keeps:
  assumes run: "csrf_run env c s tr t" and start: "P (db s)"
    and keeps: "\<forall>(op, r) \<in> set tr. preserves P (run_op env c op)"
  shows "P (db t)"
  using run keeps
proof induction
  case none
  show ?case by (rule start)
next
  case (call tr t t' op r u)
  then have "P (db t')" "preserves P (run_op env c op)" by auto
  then show ?case using preservesD call.hyps(3) by (metis snd_conv)
qed

lemma map_of_delete_key: "map_of (delete_key key es) = (map_of es)(key := None)"
  by (induction es) (auto simp: delete_key_def)

lemma map_of_put_last: "map_of (put_last key st es) = (map_of es)(key \<mapsto> st)"
  by (rule ext) (simp add: put_last_def map_of_delete_key map_add_def split: option.split)

text \<open>A lookup in what is left of the registry finds what the registry had.\<close>

lemma map_of_subseq:
  assumes "distinct (map fst es)" "subseq fs es"
  shows "map_of fs \<subseteq>\<^sub>m map_of es"
proof -
  obtain N where "fs = nths es N" using assms(2) by (auto simp: subseq_conv_nths)
  then have "set fs \<subseteq> set es" by (auto dest: in_set_nthsD)
  then have "map_of es a = Some v" if "map_of fs a = Some v" for a v
    using that by (intro map_of_is_SomeI [OF assms(1)]) (auto dest: map_of_SomeD)
  then show ?thesis by (auto simp: map_le_def dom_def)
qed

lemma preserves_csrf_inv:
  assumes "op_owned owner op" "0 < capacity c" "0 < flows_per_identity c"
  shows "preserves (csrf_inv owner c) (run_op env c op)"
proof (rule preservesI)
  fix es
  assume inv: "csrf_inv owner c es"
  have refresh: "csrf_inv owner c (put_last key st fs)"
    if "csrf_inv owner c fs" "map_of fs key = Some old" "cc_base st = owner key" for key st fs old
    using that by (intro csrf_inv_refresh) (auto dest: map_of_SomeD intro: rev_image_eqI)
  have same: "cc_base st = owner key" if "csrf_inv owner c fs" "map_of fs key = Some st" for key st fs
    using that by (auto simp: csrf_inv_def dest: map_of_SomeD)
  show "wp (run_op env c op) (\<lambda>_. csrf_inv owner c) (\<lambda>_. csrf_inv owner c) es"
  proof (cases op)
    case (IsCurrent key nonce)
    then show ?thesis
      by (auto simp: is_current_def intro!: wp_rules csrf_inv_purge [OF inv] intro: refresh same)
  next
    case (Replace base key nonce)
    then show ?thesis using assms
      by (auto simp: replace_def intro!: wp_rules csrf_inv_admit csrf_inv_purge [OF inv])
  next
    case (Rotate base key old new)
    then show ?thesis using assms(1)
      by (auto simp: rotate_def intro!: wp_rules csrf_inv_purge [OF inv] intro: refresh)
  qed
qed

text \<open>The bound on the whole registry does not depend on the identities of the calls.\<close>

definition csrf_room :: "CurrentCsrfStore \<Rightarrow> csrf_entries \<Rightarrow> bool" where
  "csrf_room c es \<longleftrightarrow> distinct (map fst es) \<and> int (length es) \<le> capacity c"

lemma csrf_room_subseq:
  assumes "csrf_room c es" "subseq fs es"
  shows "csrf_room c fs"
proof -
  obtain N where "fs = nths es N" using assms(2) by (auto simp: subseq_conv_nths)
  then have "map fst fs = nths (map fst es) N" by (simp add: nths_map)
  moreover have "length fs \<le> length es" by (rule list_emb_length [OF assms(2)])
  ultimately show ?thesis using assms(1) by (auto simp: csrf_room_def distinct_nthsI)
qed

lemma csrf_room_purge: "csrf_room c es \<Longrightarrow> csrf_room c (purge now es)"
  by (erule csrf_room_subseq) (simp add: purge_def)

lemma csrf_room_put:
  assumes "csrf_room c es" "key \<in> fst ` set es \<or> int (length es) < capacity c"
  shows "csrf_room c (put_last key st es)"
proof -
  have sub: "csrf_room c (delete_key key es)"
    by (rule csrf_room_subseq [OF assms(1)]) (simp add: delete_key_def)
  have "length (delete_key key es) < length es" if "key \<in> fst ` set es"
  proof -
    from that obtain old where "(key, old) \<in> set es" by force
    then show ?thesis unfolding delete_key_def by (intro length_filter_less [of "(key, old)"]) simp_all
  qed
  moreover have "length (delete_key key es) \<le> length es" by (simp add: delete_key_def)
  ultimately have "int (length (delete_key key es)) < capacity c"
    using assms by (fastforce simp: csrf_room_def)
  with sub show ?thesis by (auto simp: csrf_room_def put_last_def set_delete_key)
qed

lemma csrf_room_admit:
  assumes "csrf_room c es" "0 < capacity c"
  shows "csrf_room c (put_last key st (bound_capacity c base key es))"
proof -
  let ?fs = "bound_capacity c base key es"
  obtain ms where fs: "?fs = drop_oldest (capacity c) key ms" and ms: "subseq ms es"
    using drop_matching_subseq by (simp add: bound_capacity_def)
  have "subseq ?fs ms" unfolding fs using drop_oldest_suffix by blast
  then have "subseq ?fs es" using ms by (rule subseq_order.trans)
  with assms(1) have "csrf_room c ?fs" by (rule csrf_room_subseq)
  moreover have "key \<in> fst ` set ?fs \<or> int (length ?fs) < capacity c"
    using drop_oldest_room [OF assms(2), of key ms] unfolding fs by blast
  ultimately show ?thesis by (rule csrf_room_put)
qed

lemma preserves_csrf_room:
  assumes "0 < capacity c"
  shows "preserves (csrf_room c) (run_op env c op)"
proof (rule preservesI)
  fix es
  assume inv: "csrf_room c es"
  have refresh: "csrf_room c (put_last key st fs)"
    if "csrf_room c fs" "map_of fs key = Some old" for key st fs old
    using that by (intro csrf_room_put) (auto dest: map_of_SomeD intro: rev_image_eqI)
  show "wp (run_op env c op) (\<lambda>_. csrf_room c) (\<lambda>_. csrf_room c) es"
    by (cases op)
      (auto simp: is_current_def replace_def rotate_def intro!: wp_rules csrf_room_purge [OF inv]
        csrf_room_admit [OF _ assms] intro: refresh)
qed

text \<open>
  C29. The registry stays bounded: from an empty registry, after any interleaved sequence of calls,
  it holds at most \<open>capacity\<close> entries under distinct keys; and if no two calls of the sequence use
  one key for different identities, it holds at most \<open>flows_per_identity\<close> entries of each identity.
\<close>

theorem csrf_store_bounds:
  assumes "mk_CurrentCsrfStore cap flows age = Inr c" "db s = []" "csrf_run env c s tr t"
  shows "int (length (db t)) \<le> cap \<and> distinct (map fst (db t))
    \<and> ((\<exists>owner. \<forall>(op, r) \<in> set tr. op_owned owner op) \<longrightarrow>
        int (length (filter (\<lambda>(key, st). cc_base st = base) (db t))) \<le> flows)"
proof (intro conjI impI)
  from assms(1) have c: "capacity c = cap" "flows_per_identity c = flows" "0 < cap" "0 < flows"
    by (auto simp: mk_CurrentCsrfStore_def split: if_splits)
  have "csrf_room c (db s)" using c by (simp add: assms(2) csrf_room_def)
  then have "csrf_room c (db t)"
    by (rule csrf_run_keeps [where P = "csrf_room c", OF assms(3)]) (use c preserves_csrf_room [of c env] in auto)
  then show "int (length (db t)) \<le> cap" "distinct (map fst (db t))" by (simp_all add: csrf_room_def c)
  assume "\<exists>owner. \<forall>(op, r) \<in> set tr. op_owned owner op"
  then obtain owner where owned: "\<forall>(op, r) \<in> set tr. op_owned owner op" by blast
  have start: "csrf_inv owner c (db s)" using c by (simp add: assms(2) csrf_inv_def flows_of_def)
  have "\<forall>(op, r) \<in> set tr. preserves (csrf_inv owner c) (run_op env c op)"
    using owned preserves_csrf_inv [of owner _ c env] c by auto
  then have "csrf_inv owner c (db t)" by (rule csrf_run_keeps [where P = "csrf_inv owner c", OF assms(3) start])
  moreover from this have "filter (\<lambda>(key, st). cc_base st = base) (db t) = filter (\<lambda>(key, st). owner key = base) (db t)"
    by (intro filter_cong refl) (auto simp: csrf_inv_def)
  ultimately show "int (length (filter (\<lambda>(key, st). cc_base st = base) (db t))) \<le> flows"
    by (auto simp: csrf_inv_def flows_of_def c)
qed

text \<open>Two flows of an identity that may have one: the second evicts the first.\<close>

definition sample_limits :: CurrentCsrfStore where
  "sample_limits = \<lparr>capacity = 4, flows_per_identity = 1, ttl = 60\<rparr>"

definition sample_ops :: "csrf_op list" where
  "sample_ops = [Replace [1] [11] [65], Replace [1] [12] [66], Rotate [1] [12] [66] [67], IsCurrent [12] [67]]"

fun run_ops ::
  "security_env \<Rightarrow> CurrentCsrfStore \<Rightarrow> csrf_op list \<Rightarrow> csrf_entries store \<Rightarrow>
     (csrf_op \<times> bool res) list \<times> csrf_entries store" where
  "run_ops env c [] s = ([], s)"
| "run_ops env c (op # ops) s =
     (case run_op env c op s of (r, t) \<Rightarrow> case run_ops env c ops t of (tr, u) \<Rightarrow> ((op, r) # tr, u))"

lemma csrf_run_run_ops:
  "csrf_run env c s tr t \<Longrightarrow> run_ops env c ops t = (tr', u) \<Longrightarrow> csrf_run env c s (tr @ tr') u"
proof (induction ops arbitrary: tr t tr')
  case (Cons op ops)
  obtain r v where op: "run_op env c op t = (r, v)" by (cases "run_op env c op t")
  obtain tr'' where rest: "run_ops env c ops v = (tr'', u)" "tr' = (op, r) # tr''"
    using Cons.prems(2) op by (auto split: prod.splits)
  have "csrf_run env c s (tr @ [(op, r)]) v" by (rule csrf_run.call [OF Cons.prems(1) refl op])
  from Cons.IH [OF this rest(1)] show ?case by (simp add: rest(2))
qed simp

lemmas csrf_run_ops = csrf_run_run_ops [OF csrf_run.none, simplified]

theorem csrf_store_bounds_witness:
  "case run_ops sample_security_env sample_limits sample_ops (sample_process []) of (tr, t) \<Rightarrow>
     map snd tr = [Inr True, Inr True, Inr True, Inr True]
     \<and> int (length (db t)) \<le> 4 \<and> distinct (map fst (db t))
     \<and> int (length (filter (\<lambda>(key, st). cc_base st = [1]) (db t))) \<le> 1"
proof -
  obtain tr t where run: "run_ops sample_security_env sample_limits sample_ops (sample_process []) = (tr, t)"
    by force
  have r: "map fst (fst (run_ops sample_security_env sample_limits sample_ops (sample_process []))) = sample_ops"
    "map snd (fst (run_ops sample_security_env sample_limits sample_ops (sample_process [])))
       = [Inr True, Inr True, Inr True, Inr True]"
    by code_simp+
  have "\<forall>(op, r) \<in> set tr. op_owned (\<lambda>_. [1]) op"
  proof -
    have "\<forall>op \<in> fst ` set tr. op_owned (\<lambda>_. [1]) op"
      using r(1) unfolding run set_map [symmetric] by (simp add: sample_ops_def)
    then show ?thesis by force
  qed
  then show ?thesis
    using csrf_store_bounds [OF _ _ csrf_run_ops [OF run], where cap = 4 and flows = 1 and age = 60 and base = "[1]"] r(2) run
    by (auto simp: mk_CurrentCsrfStore_def sample_limits_def sample_process_def)
qed

text \<open>
  Without one identity per key the bound per identity fails: \<open>rotate\<close> writes the identity of the
  call over the stored one and does not count the flows of that identity again.
\<close>

lemma rotate_moves_identity:
  "map snd (fst (run_ops sample_security_env sample_limits
     [Replace [1] [11] [65], Replace [2] [12] [66], Rotate [1] [12] [66] [67]] (sample_process [])))
     = [Inr True, Inr True, Inr True]
   \<and> map (cc_base \<circ> snd) (db (snd (run_ops sample_security_env sample_limits
     [Replace [1] [11] [65], Replace [2] [12] [66], Rotate [1] [12] [66] [67]] (sample_process []))))
     = [[1], [1]]"
  by code_simp

end
