(* ===== verification/Http_Security.thy ===== *)
theory Http_Security
  imports Csrf_Store
begin

text \<open>
  The second half of \<open>security.py\<close>: error responses, the response headers, and the middlewares that
  decide which requests reach a handler. Requests, responses and exceptions of aiohttp are records
  with the parts the middlewares use; a header table is the list of its fields, looked up without
  regard to case.

  The process has one registry of current nonces and whatever else the handlers change. A handler
  and the reading of a form body are actions on all of it, which is exact for asyncio: these are
  the only points of the middleware at which another request can run, as no method of the registry
  awaits while it holds its lock.
\<close>

section \<open>Requests and responses\<close>

type_synonym headers = "(pystr \<times> pystr) list"

record http_request =
  req_method :: pystr
  req_path :: pystr
  req_scheme :: pystr
  req_host :: pystr
  req_remote :: "pystr option"
  req_headers :: headers
  req_cookies :: headers
  req_content_type :: pystr

record set_cookie =
  ck_name :: pystr
  ck_value :: pystr
  ck_max_age :: int
  ck_secure :: bool
  ck_httponly :: bool
  ck_samesite :: pystr
  ck_path :: pystr

text \<open>
  A body of \<open>None\<close> is one the middlewares never see, such as a stream. \<open>resp_prepared\<close> holds the fields
  that a handler has sent itself by awaiting \<open>prepare\<close> on its response before returning it; aiohttp
  sends the others when the outermost middleware has returned. Changing \<open>headers\<close> of a prepared
  response changes nothing on the wire.
\<close>

record http_response =
  resp_status :: int
  resp_reason :: "pystr option"
  resp_headers :: headers
  resp_body :: "bytes option"
  resp_cookies :: "set_cookie list"
  resp_prepared :: "headers option"

definition wire_headers :: "http_response \<Rightarrow> headers" where
  "wire_headers r = (case resp_prepared r of None \<Rightarrow> resp_headers r | Some hs \<Rightarrow> hs)"

record http_exception =
  exc_status :: int
  exc_reason :: pystr
  exc_text :: pyval
  exc_body :: "bytes option"
  exc_headers :: headers

datatype handler_outcome = Responded http_response | HttpRaised http_exception

subsection \<open>Header tables\<close>

definition getall :: "pystr \<Rightarrow> headers \<Rightarrow> pystr list" where
  "getall name hs = map snd (filter (\<lambda>(n, _). lower n = lower name) hs)"

definition setdefault :: "pystr \<Rightarrow> pystr \<Rightarrow> headers \<Rightarrow> headers" where
  "setdefault name v hs = (if getall name hs = [] then hs @ [(name, v)] else hs)"

text \<open>\<open>headers[name] = v\<close> replaces the first field of that name and drops the others.\<close>

fun set_header :: "pystr \<Rightarrow> pystr \<Rightarrow> headers \<Rightarrow> headers" where
  "set_header name v [] = [(name, v)]"
| "set_header name v ((n, w) # hs) =
     (if lower n = lower name then (name, v) # filter (\<lambda>(k, _). lower k \<noteq> lower name) hs
      else (n, w) # set_header name v hs)"

text \<open>\<open>del headers[name]\<close>.\<close>

definition del_header :: "pystr \<Rightarrow> headers \<Rightarrow> headers res" where
  "del_header name hs =
     (if getall name hs = [] then Inl KeyError else Inr (filter (\<lambda>(n, _). lower n \<noteq> lower name) hs))"

section \<open>Responses of the middlewares\<close>

definition FORWARDED_ERROR_HEADERS :: "pystr set" where
  "FORWARDED_ERROR_HEADERS = {lit ''allow'', lit ''retry-after''}"

fun forward_headers :: "headers \<Rightarrow> headers \<Rightarrow> headers" where
  "forward_headers [] hs = hs"
| "forward_headers ((n, v) # rest) hs =
     forward_headers rest (if lower n \<in> FORWARDED_ERROR_HEADERS then set_header n v hs else hs)"

definition error_document :: "string \<Rightarrow> pystr \<Rightarrow> pyval" where
  "error_document code message =
     PyDict [(PyStr (lit ''api_version''), PyStr (lit ''v1'')), (PyStr (lit ''ok''), PyBool False),
       (PyStr (lit ''error''),
        PyDict [(PyStr (lit ''code''), PyStr (lit code)), (PyStr (lit ''message''), PyStr message)])]"

definition error_response ::
  "http_request \<Rightarrow> int \<Rightarrow> string \<Rightarrow> pystr \<Rightarrow> headers \<Rightarrow> http_response res" where
  "error_response request status code message headers =
     (if is_api_path (req_path request) then
        bind_res (dumps True False (error_document code (safe_error_message (PyStr message) status))) (\<lambda>doc.
        bind_res (utf8_encode doc) (\<lambda>body.
        Inr \<lparr>resp_status = status, resp_reason = None,
             resp_headers = forward_headers headers [(lit ''Content-Type'', lit ''application/json'')],
             resp_body = Some body, resp_cookies = [], resp_prepared = None\<rparr>))
      else
        bind_res (utf8_encode message) (\<lambda>body.
        Inr \<lparr>resp_status = status, resp_reason = None,
             resp_headers = forward_headers headers [(lit ''Content-Type'', lit ''text/plain; charset=utf-8'')],
             resp_body = Some body, resp_cookies = [], resp_prepared = None\<rparr>))"

definition DEFAULT_CSP :: pystr where
  "DEFAULT_CSP = lit (''default-src 'none'; base-uri 'none'; connect-src 'self'; font-src 'self'; '' @
     ''form-action 'self'; frame-ancestors 'none'; frame-src 'self' blob:; img-src 'self' blob:; '' @
     ''object-src 'none'; script-src 'self'; style-src 'self'' @ [CHR 0x27])"

definition cors_name :: "pystr \<Rightarrow> bool" where
  "cors_name n \<longleftrightarrow> prefix (lit ''access-control-'') (lower n)"

fun drop_cors :: "pystr list \<Rightarrow> headers \<Rightarrow> headers res" where
  "drop_cors [] hs = Inr hs"
| "drop_cors (n # ns) hs =
     (if cors_name n then bind_res (del_header n hs) (drop_cors ns) else drop_cors ns hs)"

definition default_headers :: headers where
  "default_headers =
     [(lit ''Content-Security-Policy'', DEFAULT_CSP),
      (lit ''Cross-Origin-Opener-Policy'', lit ''same-origin''),
      (lit ''Cross-Origin-Resource-Policy'', lit ''same-origin''),
      (lit ''Permissions-Policy'', lit (''camera=(), microphone=(), geolocation=(), '' @
         ''publickey-credentials-create=(self), publickey-credentials-get=(self)'')),
      (lit ''Referrer-Policy'', lit ''same-origin''),
      (lit ''X-Content-Type-Options'', lit ''nosniff''),
      (lit ''X-Frame-Options'', lit ''DENY''),
      (lit ''Cache-Control'', lit ''no-store'')]"

definition apply_security_headers :: "http_response \<Rightarrow> http_response res" where
  "apply_security_headers response =
     (let hs = fold (\<lambda>(n, v). setdefault n v) default_headers (resp_headers response) in
      bind_res (drop_cors (map fst hs) hs) (\<lambda>hs. Inr (response\<lparr>resp_headers := hs\<rparr>)))"

definition http_exception_response :: "http_request \<Rightarrow> http_exception \<Rightarrow> http_response res" where
  "http_exception_response request exc =
     (if is_api_path (req_path request) then
        error_response request (exc_status exc)
          (case map_of API_ERROR_CODES (exc_status exc) of None \<Rightarrow> ''request_failed'' | Some c \<Rightarrow> c)
          (safe_error_message (exc_text exc) (exc_status exc)) (exc_headers exc)
      else
        Inr \<lparr>resp_status = exc_status exc, resp_reason = Some (exc_reason exc), resp_headers = exc_headers exc,
             resp_body = exc_body exc, resp_cookies = [], resp_prepared = None\<rparr>)"

text \<open>\<open>try: response = await handler(request) except web.HTTPException\<close>, then the headers.\<close>

definition hardened_call ::
  "http_request \<Rightarrow> ('d, handler_outcome) act \<Rightarrow> ('d, http_response) act" where
  "hardened_call request call =
     bindA call (\<lambda>outcome.
     bindA (case outcome of
              Responded response \<Rightarrow> returnA response
            | HttpRaised exc \<Rightarrow> liftE (http_exception_response request exc)) (\<lambda>response.
     liftE (apply_security_headers response)))"

definition hardened_error ::
  "http_request \<Rightarrow> int \<Rightarrow> string \<Rightarrow> string \<Rightarrow> headers \<Rightarrow> ('d, http_response) act" where
  "hardened_error request status code message headers =
     liftE (bind_res (error_response request status code (lit message) headers) apply_security_headers)"

definition host_header_ok :: "'a text_env_scheme \<Rightarrow> SecurityConfig \<Rightarrow> http_request \<Rightarrow> bool" where
  "host_header_ok env c request =
     (case getall (lit ''Host'') (req_headers request) of
        [host] \<Rightarrow> host_is_allowed env host (allowed_hosts c)
      | _ \<Rightarrow> False)"

definition security_headers_middleware ::
  "'a text_env_scheme \<Rightarrow> SecurityConfig \<Rightarrow> (http_request \<Rightarrow> ('d, handler_outcome) act) \<Rightarrow> http_request \<Rightarrow>
     ('d, http_response) act" where
  "security_headers_middleware env c handler request =
     (if \<not> host_header_ok env c request
      then hardened_error request 400 ''invalid_host'' ''Invalid Host header.'' []
      else hardened_call request (handler request))"

section \<open>Scopes and the closure of the middleware\<close>

record CsrfScope =
  scope_identity :: pystr
  partition_by_flow :: bool

record 'w process =
  registry :: csrf_entries
  world :: 'w

text \<open>A call of the registry in the process.\<close>

definition with_states :: "'a csrf_act \<Rightarrow> ('w process, 'a) act" where
  "with_states m s =
     (case m \<lparr>db = registry (db s), draws = draws s, readings = readings s, closed = closed s\<rparr> of
        (r, t) \<Rightarrow> (r, \<lparr>db = (db s)\<lparr>registry := db t\<rparr>, draws = draws t, readings = readings t, closed = closed t\<rparr>))"

text \<open>
  What \<open>security_middleware\<close> closes over. The resolver looks at the request and the process;
  \<open>None\<close> is a result that is no \<open>CsrfScope\<close>.
\<close>

record 'w csrf_policy =
  config :: SecurityConfig
  scope_resolver :: "(http_request \<Rightarrow> 'w process \<Rightarrow> CsrfScope option res) option"
  tokenless_paths :: "pystr list"
  states :: CurrentCsrfStore
  csrf_key :: bytes

definition is_absolute_path :: "pyval \<Rightarrow> bool" where
  "is_absolute_path v = (case v of PyStr p \<Rightarrow> prefix (lit ''/'') p | _ \<Rightarrow> False)"

definition path_text :: "pyval \<Rightarrow> pystr" where
  "path_text v = (case v of PyStr p \<Rightarrow> p | _ \<Rightarrow> [])"

definition mk_security_middleware ::
  "security_env \<Rightarrow> SecurityConfig \<Rightarrow> (http_request \<Rightarrow> 'w process \<Rightarrow> CsrfScope option res) option \<Rightarrow>
     int \<Rightarrow> int \<Rightarrow> pyval list \<Rightarrow> ('d, 'w csrf_policy) act" where
  "mk_security_middleware env c resolver state_capacity flows tokenless_safe_paths =
     (if \<not> list_all is_absolute_path tokenless_safe_paths then raiseA ValueError
      else
        bindA (liftE (mk_CurrentCsrfStore state_capacity flows (csrf_max_age c))) (\<lambda>sts.
        bindA (\<lambda>s. (Inr (token_bytes env (draws s) 32), s\<lparr>draws := Suc (draws s)\<rparr>)) (\<lambda>boot_nonce.
        returnA \<lparr>config = c, scope_resolver = resolver, tokenless_paths = map path_text tokenless_safe_paths,
          states = sts,
          csrf_key = hmac_sha256 env (session_signing_key c)
            (ascii_bytes (lit ''maddyweb-csrf-process-v2'' @ [0]) @ boot_nonce)\<rparr>)))"

definition request_scope :: "'w csrf_policy \<Rightarrow> http_request \<Rightarrow> ('w process, CsrfScope) act" where
  "request_scope p request =
     bindA (case scope_resolver p of
              None \<Rightarrow>
                returnA (Some \<lparr>scope_identity = lit ''client:'' @
                     (case req_remote request of
                        None \<Rightarrow> lit ''unknown'' | Some r \<Rightarrow> if r = [] then lit ''unknown'' else r),
                   partition_by_flow = True\<rparr>)
            | Some f \<Rightarrow> bindA (selectA (f request)) liftE) (\<lambda>scope.
     case scope of
       None \<Rightarrow> raiseA HTTPBadRequest
     | Some scope \<Rightarrow>
         if scope_identity scope = [] \<or> 512 < length (scope_identity scope)
            \<or> contains_forbidden_header_characters (scope_identity scope)
         then raiseA HTTPBadRequest else returnA scope)"

definition state_identity ::
  "security_env \<Rightarrow> bytes \<Rightarrow> CsrfScope \<Rightarrow> pystr \<Rightarrow> (pystr \<times> pystr) res" where
  "state_identity env key scope flow_id =
     bind_res (utf8_encode (scope_identity scope)) (\<lambda>identity.
     let base = hex (hmac_sha256 env key (ascii_bytes (lit ''maddyweb-csrf-scope-v2'' @ [0]) @ identity));
         flow = (if partition_by_flow scope then flow_id else lit ''session'')
     in if isascii flow then
          Inr (base, hex (hmac_sha256 env key
            (ascii_bytes (lit ''maddyweb-csrf-state-v2'' @ [0]) @ ascii_bytes base @ [0] @ ascii_bytes flow)))
        else Inl UnicodeEncodeError)"

definition token_parts :: "security_env \<Rightarrow> 'w csrf_policy \<Rightarrow> pystr \<Rightarrow> ('d, pystr \<times> pystr) act" where
  "token_parts env p token =
     bindA (verify_csrf_token env token (csrf_key p) (csrf_max_age (config p))) (\<lambda>verified.
     case verified of
       None \<Rightarrow> raiseA RuntimeError
     | Some (nonce, _, flow) \<Rightarrow> returnA (nonce, flow))"

definition set_csrf_cookie :: "SecurityConfig \<Rightarrow> pystr \<Rightarrow> http_response \<Rightarrow> http_response" where
  "set_csrf_cookie c token response =
     response\<lparr>resp_cookies := resp_cookies response @
       [\<lparr>ck_name = csrf_cookie_name c, ck_value = token, ck_max_age = csrf_max_age c,
         ck_secure = secure_cookies c, ck_httponly = True, ck_samesite = lit ''Strict'', ck_path = lit ''/''\<rparr>]\<rparr>"

definition put_header :: "string \<Rightarrow> pystr \<Rightarrow> http_response \<Rightarrow> http_response" where
  "put_header name v response = response\<lparr>resp_headers := set_header (lit name) v (resp_headers response)\<rparr>"

definition recoverable_csrf_rejection ::
  "security_env \<Rightarrow> 'w csrf_policy \<Rightarrow> http_request \<Rightarrow> string \<Rightarrow> CsrfScope \<Rightarrow> pystr \<Rightarrow> string \<Rightarrow>
     ('w process, http_response) act" where
  "recoverable_csrf_rejection env p request message scope flow_id code =
     bindA (liftE (error_response request 403 code (lit message) [])) (\<lambda>response.
     bindA (new_csrf_token env (csrf_key p) (Some flow_id)) (\<lambda>replacement.
     bindA (token_parts env p replacement) (\<lambda>(nonce, _).
     bindA (liftE (state_identity env (csrf_key p) scope flow_id)) (\<lambda>(base, state_key).
     seqA (with_states (replace env (states p) base state_key nonce))
     (liftE (apply_security_headers
        (put_header ''X-CSRF-Token'' replacement (set_csrf_cookie (config p) replacement response))))))))"

section \<open>Submitted tokens\<close>

datatype form_outcome = Form "(pystr \<times> pyval) list" | FormTimeout | FormRaised http_exception

datatype submission = Submitted "pystr option" | SubmissionRaised http_exception

definition request_timeout :: http_exception where
  "request_timeout =
     (let message = lit ''Timed out while reading the request body.'' in
      \<lparr>exc_status = 408, exc_reason = lit ''Request Timeout'', exc_text = PyStr message,
       exc_body = Some (ascii_bytes message),
       exc_headers = [(lit ''Content-Type'', lit ''text/plain; charset=utf-8'')]\<rparr>)"

definition submitted_csrf_token ::
  "('d, form_outcome) act \<Rightarrow> http_request \<Rightarrow> ('d, submission) act" where
  "submitted_csrf_token read_form request =
     (let header_tokens = getall (lit ''X-CSRF-Token'') (req_headers request) in
      if 1 < length header_tokens then returnA (Submitted None)
      else if header_tokens \<noteq> [] \<and> hd header_tokens \<noteq> [] then returnA (Submitted (Some (hd header_tokens)))
      else if req_content_type request = lit ''application/x-www-form-urlencoded'' then
        bindA read_form (\<lambda>outcome.
        case outcome of
          FormTimeout \<Rightarrow> returnA (SubmissionRaised request_timeout)
        | FormRaised exc \<Rightarrow> returnA (SubmissionRaised exc)
        | Form posted \<Rightarrow>
            (case map snd (filter (\<lambda>(n, _). n = lit ''_csrf'') posted) of
               [PyStr token] \<Rightarrow> returnA (Submitted (Some token))
             | _ \<Rightarrow> returnA (Submitted None)))
      else returnA (Submitted None))"

text \<open>\<open>csrf_token_for_request\<close>: the token the middleware stored in the request.\<close>

definition csrf_token_for_request :: "pystr option \<Rightarrow> pystr res" where
  "csrf_token_for_request stored = (case stored of None \<Rightarrow> Inl RuntimeError | Some token \<Rightarrow> Inr token)"

section \<open>The middleware\<close>

text \<open>
  \<open>admit\<close> is the middleware up to the handler: it answers by itself or passes the request on with
  the token the handler may show, and with what remains to be done to the handler's response.
\<close>

datatype after_handler =
    NothingAfter
  | CookieAfter pystr
  | RotatedAfter CsrfScope pystr pystr

datatype admission = Reject http_response | Pass "pystr option" after_handler

definition rejectA :: "('d, http_response) act \<Rightarrow> ('d, admission) act" where
  "rejectA m = bindA m (\<lambda>response. returnA (Reject response))"

definition same_origin :: "'a text_env_scheme \<Rightarrow> SecurityConfig \<Rightarrow> http_request \<Rightarrow> bool res" where
  "same_origin env c request =
     (let origins = getall (lit ''Origin'') (req_headers request);
          referers = getall (lit ''Referer'') (req_headers request) in
      if 1 < length origins \<or> 1 < length referers then Inr False
      else case origins of
        origin # _ \<Rightarrow> origin_is_allowed env origin (req_scheme request) (req_host request) c
      | [] \<Rightarrow>
          (case referers of
             [] \<Rightarrow> Inr False
           | referer # _ \<Rightarrow> referer_is_allowed env referer (req_scheme request) (req_host request) c))"

definition cross_site_fetch :: "http_request \<Rightarrow> bool" where
  "cross_site_fetch request =
     (let sites = getall (lit ''Sec-Fetch-Site'') (req_headers request) in
      1 < length sites \<or> (sites \<noteq> [] \<and> hd sites = lit ''cross-site''))"

definition required_content_type :: "http_request \<Rightarrow> pystr" where
  "required_content_type request =
     (let send_upload = req_path request
            \<in> {lit ''/api/v1/send'', lit ''/api/v1/me/send'', lit ''/api/v1/admin/send''} in
      if send_upload then lit ''multipart/form-data''
      else if is_api_path (req_path request) then lit ''application/json''
      else lit ''application/x-www-form-urlencoded'')"

definition content_type_ok :: "http_request \<Rightarrow> bool" where
  "content_type_ok request \<longleftrightarrow>
     length (getall (lit ''Content-Type'') (req_headers request)) = 1
     \<and> req_content_type request = required_content_type request"

text \<open>A cookie: its text, its nonce and its flow.\<close>

type_synonym cookie_parts = "(pystr \<times> pystr \<times> pystr) option"

definition verified_cookie :: "security_env \<Rightarrow> 'w csrf_policy \<Rightarrow> http_request \<Rightarrow> ('d, cookie_parts) act" where
  "verified_cookie env p request =
     (case map_of (req_cookies request) (csrf_cookie_name (config p)) of
        None \<Rightarrow> returnA None
      | Some token \<Rightarrow>
          if token = [] then returnA None
          else
            bindA (verify_csrf_token env token (csrf_key p) (csrf_max_age (config p))) (\<lambda>verified.
            returnA (map_option (\<lambda>(nonce, _, flow). (token, nonce, flow)) verified)))"

definition cookie_flow :: "security_env \<Rightarrow> 'w csrf_policy \<Rightarrow> cookie_parts \<Rightarrow> ('d, pystr) act" where
  "cookie_flow env p cookie =
     (case cookie of
        Some (_, _, flow) \<Rightarrow> returnA flow
      | None \<Rightarrow>
          bindA (new_csrf_token env (csrf_key p) None) (\<lambda>token.
          bindA (token_parts env p token) (\<lambda>(_, flow). returnA flow)))"

definition issue_token ::
  "security_env \<Rightarrow> 'w csrf_policy \<Rightarrow> pystr \<Rightarrow> pystr \<Rightarrow> pystr \<Rightarrow> ('w process, admission) act" where
  "issue_token env p flow_id base state_key =
     bindA (new_csrf_token env (csrf_key p) (Some flow_id)) (\<lambda>replacement.
     bindA (token_parts env p replacement) (\<lambda>(nonce, _).
     seqA (with_states (replace env (states p) base state_key nonce))
     (returnA (Pass (Some replacement) (CookieAfter replacement)))))"

definition admit_safe ::
  "security_env \<Rightarrow> 'w csrf_policy \<Rightarrow> cookie_parts \<Rightarrow> pystr \<Rightarrow> pystr \<Rightarrow> pystr \<Rightarrow>
     ('w process, admission) act" where
  "admit_safe env p cookie flow_id base state_key =
     bindA (case cookie of
              None \<Rightarrow> returnA False
            | Some (_, nonce, _) \<Rightarrow> with_states (is_current env state_key nonce)) (\<lambda>current.
     case cookie of
       Some (token, _, _) \<Rightarrow>
         if current then returnA (Pass (Some token) NothingAfter)
         else issue_token env p flow_id base state_key
     | None \<Rightarrow> issue_token env p flow_id base state_key)"

text \<open>The token checks of a write, after its cookie and content type were accepted.\<close>

definition exchange_token ::
  "security_env \<Rightarrow> 'w csrf_policy \<Rightarrow> http_request \<Rightarrow> CsrfScope \<Rightarrow> pystr \<Rightarrow> pystr \<Rightarrow> pystr \<Rightarrow> pystr \<Rightarrow>
     ('w process, admission) act" where
  "exchange_token env p request scope flow_id base state_key nonce =
     bindA (new_csrf_token env (csrf_key p) (Some flow_id)) (\<lambda>replacement.
     bindA (token_parts env p replacement) (\<lambda>(replacement_nonce, _).
     bindA (with_states (rotate env (states p) base state_key nonce replacement_nonce)) (\<lambda>exchanged.
     if \<not> exchanged then
       rejectA (recoverable_csrf_rejection env p request ''CSRF token reused; refresh.'' scope flow_id ''csrf_reused'')
     else returnA (Pass (Some replacement) (RotatedAfter scope flow_id replacement)))))"

definition admit_submission ::
  "security_env \<Rightarrow> 'w csrf_policy \<Rightarrow> ('w process, form_outcome) act \<Rightarrow> http_request \<Rightarrow> CsrfScope \<Rightarrow>
     pystr \<Rightarrow> pystr \<Rightarrow> pystr \<Rightarrow> pystr \<Rightarrow> pystr \<Rightarrow> ('w process, admission) act" where
  "admit_submission env p read_form request scope flow_id base state_key token nonce =
     bindA (submitted_csrf_token read_form request) (\<lambda>submission.
     case submission of
       SubmissionRaised exc \<Rightarrow>
         rejectA (liftE (bind_res (http_exception_response request exc) apply_security_headers))
     | Submitted submitted \<Rightarrow>
         bindA (case submitted of None \<Rightarrow> returnA False | Some t \<Rightarrow> liftE (compare_digest token t)) (\<lambda>same.
         if \<not> same then
           rejectA (recoverable_csrf_rejection env p request ''CSRF check failed; refresh.'' scope flow_id ''csrf_failed'')
         else exchange_token env p request scope flow_id base state_key nonce))"

text \<open>A request that is neither \<open>GET\<close> nor \<open>HEAD\<close>.\<close>

definition admit_write ::
  "security_env \<Rightarrow> 'w csrf_policy \<Rightarrow> ('w process, form_outcome) act \<Rightarrow> http_request \<Rightarrow> CsrfScope \<Rightarrow>
     cookie_parts \<Rightarrow> pystr \<Rightarrow> pystr \<Rightarrow> pystr \<Rightarrow> ('w process, admission) act" where
  "admit_write env p read_form request scope cookie flow_id base state_key =
     seqA (case cookie of
             Some _ \<Rightarrow> returnA ()
           | None \<Rightarrow> seqA (new_csrf_token env (csrf_key p) (Some flow_id)) (returnA ()))
     (if req_method request \<noteq> lit ''POST'' then
        rejectA (hardened_error request 405 ''method_not_allowed'' ''This request method is not supported.''
          [(lit ''Allow'', lit ''GET, HEAD, POST'')])
      else
        bindA (liftE (same_origin env (config p) request)) (\<lambda>same.
        if \<not> same \<or> cross_site_fetch request then
          rejectA (hardened_error request 403 ''cross_site_rejected'' ''Cross-site request rejected.'' [])
        else case cookie of
          None \<Rightarrow>
            rejectA (recoverable_csrf_rejection env p request ''CSRF check failed; refresh.'' scope flow_id ''csrf_failed'')
        | Some (token, nonce, _) \<Rightarrow>
            if \<not> content_type_ok request then
              rejectA (hardened_error request 415 ''unsupported_media_type''
                ''Unsupported content type for this write.'' [])
            else admit_submission env p read_form request scope flow_id base state_key token nonce))"

definition admit ::
  "security_env \<Rightarrow> 'w csrf_policy \<Rightarrow> ('w process, form_outcome) act \<Rightarrow> http_request \<Rightarrow>
     ('w process, admission) act" where
  "admit env p read_form request =
     (if \<not> host_header_ok env (config p) request then
        rejectA (hardened_error request 400 ''invalid_host'' ''Invalid Host header.'' [])
      else if req_method request \<in> SAFE_METHODS \<and> req_path request \<in> set (tokenless_paths p)
      then returnA (Pass None NothingAfter)
      else
        bindA (request_scope p request) (\<lambda>scope.
        bindA (verified_cookie env p request) (\<lambda>cookie.
        bindA (cookie_flow env p cookie) (\<lambda>flow_id.
        bindA (liftE (state_identity env (csrf_key p) scope flow_id)) (\<lambda>(base, state_key).
        if req_method request \<in> SAFE_METHODS then admit_safe env p cookie flow_id base state_key
        else admit_write env p read_form request scope cookie flow_id base state_key)))))"

definition after_response ::
  "security_env \<Rightarrow> 'w csrf_policy \<Rightarrow> http_request \<Rightarrow> after_handler \<Rightarrow> http_response \<Rightarrow>
     ('w process, http_response) act" where
  "after_response env p request after response =
     (case after of
        NothingAfter \<Rightarrow> returnA response
      | CookieAfter token \<Rightarrow> returnA (set_csrf_cookie (config p) token response)
      | RotatedAfter scope flow_id token \<Rightarrow>
          bindA (request_scope p request) (\<lambda>post_scope.
          seqA (if post_scope = scope then returnA ()
                else
                  bindA (liftE (state_identity env (csrf_key p) post_scope flow_id)) (\<lambda>(base, state_key).
                  bindA (token_parts env p token) (\<lambda>(nonce, _).
                  with_states (replace env (states p) base state_key nonce))))
          (returnA (put_header ''X-CSRF-Token'' token (set_csrf_cookie (config p) token response)))))"

definition security_middleware ::
  "security_env \<Rightarrow> 'w csrf_policy \<Rightarrow> (http_request \<Rightarrow> ('w process, form_outcome) act) \<Rightarrow>
     (http_request \<Rightarrow> pystr option \<Rightarrow> ('w process, handler_outcome) act) \<Rightarrow> http_request \<Rightarrow>
     ('w process, http_response) act" where
  "security_middleware env p read_form handler request =
     bindA (admit env p (read_form request) request) (\<lambda>admission.
     case admission of
       Reject response \<Rightarrow> returnA response
     | Pass token after \<Rightarrow>
         bindA (hardened_call request (handler request token)) (after_response env p request after))"

section \<open>Concurrency\<close>

record RequestLimiter =
  lim_capacity :: int
  wait_timeout :: int

definition mk_RequestLimiter :: "int \<Rightarrow> int \<Rightarrow> RequestLimiter res" where
  "mk_RequestLimiter cap wait =
     (if cap \<le> 0 then Inl ValueError else if wait \<le> 0 then Inl ValueError
      else Inr \<lparr>lim_capacity = cap, wait_timeout = wait\<rparr>)"

text \<open>
  \<open>bounded_concurrency_middleware\<close>: which limiter a request takes, and the steps of one limiter. A
  request waits for a permit; it gets one (\<open>acquire\<close>), or its wait times out and it is answered with
  429 without running; when its handler returns or raises, the \<open>finally\<close> releases the permit.
\<close>

record limiters =
  main_limiter :: RequestLimiter
  stream_limiter :: "RequestLimiter option"
  long_lived_paths :: "pystr list"

definition mk_limiters :: "int \<Rightarrow> int \<Rightarrow> pystr list \<Rightarrow> int option \<Rightarrow> limiters res" where
  "mk_limiters cap wait paths long_lived_capacity =
     bind_res (mk_RequestLimiter cap wait) (\<lambda>limiter.
     bind_res (case long_lived_capacity of
                 Some c \<Rightarrow>
                   if paths \<noteq> [] then bind_res (mk_RequestLimiter c wait) (\<lambda>l. Inr (Some l)) else Inr None
               | None \<Rightarrow> Inr None) (\<lambda>stream.
     if paths \<noteq> [] \<and> stream = None then Inl ValueError
     else Inr \<lparr>main_limiter = limiter, stream_limiter = stream, long_lived_paths = paths\<rparr>))"

definition selected_limiter :: "limiters \<Rightarrow> http_request \<Rightarrow> RequestLimiter" where
  "selected_limiter ls request =
     (case stream_limiter ls of
        Some l \<Rightarrow> if req_path request \<in> set (long_lived_paths ls) then l else main_limiter ls
      | None \<Rightarrow> main_limiter ls)"

record semaphore =
  permits :: int
  waiting :: "nat list"
  running :: "nat list"

definition new_semaphore :: "RequestLimiter \<Rightarrow> semaphore" where
  "new_semaphore l = \<lparr>permits = lim_capacity l, waiting = [], running = []\<rparr>"

inductive limiter_step :: "semaphore \<Rightarrow> semaphore \<Rightarrow> bool" where
  arrive: "r \<notin> set (waiting q) \<union> set (running q) \<Longrightarrow> limiter_step q (q\<lparr>waiting := waiting q @ [r]\<rparr>)"
| acquire: "0 < permits q \<Longrightarrow> r \<in> set (waiting q) \<Longrightarrow>
    limiter_step q (q\<lparr>permits := permits q - 1, waiting := remove1 r (waiting q), running := r # running q\<rparr>)"
| time_out: "r \<in> set (waiting q) \<Longrightarrow> limiter_step q (q\<lparr>waiting := remove1 r (waiting q)\<rparr>)"
| release: "r \<in> set (running q) \<Longrightarrow>
    limiter_step q (q\<lparr>permits := permits q + 1, running := remove1 r (running q)\<rparr>)"

definition busy_response :: "http_request \<Rightarrow> ('d, http_response) act" where
  "busy_response request =
     hardened_error request 429 ''too_many_requests'' ''The server is busy; try again later.''
       [(lit ''Retry-After'', lit ''1'')]"

text \<open>At no time do more requests run than the limiter has permits.\<close>

lemma limiter_bound:
  assumes "mk_RequestLimiter cap wait = Inr l" "limiter_step\<^sup>*\<^sup>* (new_semaphore l) q"
  shows "int (length (running q)) \<le> cap" "0 \<le> permits q"
proof -
  have "permits q + int (length (running q)) = cap \<and> 0 \<le> permits q"
    using assms(2)
  proof (induction rule: rtranclp_induct)
    case base
    then show ?case using assms(1) by (auto simp: new_semaphore_def mk_RequestLimiter_def split: if_splits)
  next
    case (step q r)
    from step(2,3) show ?case
      by cases (auto simp: length_remove1 Suc_le_eq of_nat_diff dest: length_pos_if_in_set)
  qed
  then show "int (length (running q)) \<le> cap" "0 \<le> permits q" by auto
qed

text \<open>The fields with which \<open>mail_events\<close> of \<open>web.py\<close> prepares its response.\<close>

definition event_stream_headers :: headers where
  "event_stream_headers =
     [(lit ''Cache-Control'', lit ''private, no-store, no-cache, no-transform''),
      (lit ''Content-Security-Policy'', lit (''default-src 'none'; frame-ancestors 'none'' @ [CHR 0x27])),
      (lit ''Cross-Origin-Resource-Policy'', lit ''same-origin''),
      (lit ''Referrer-Policy'', lit ''no-referrer''),
      (lit ''X-Accel-Buffering'', lit ''no''),
      (lit ''X-Content-Type-Options'', lit ''nosniff''),
      (lit ''X-Frame-Options'', lit ''DENY''),
      (lit ''Content-Type'', lit ''text/event-stream; charset=utf-8'')]"

definition email_document_headers :: "(string \<times> string) list" where
  "email_document_headers =
     [(''Cache-Control'', ''private, no-store, no-transform''),
      (''Content-Security-Policy'', ''sandbox allow-popups allow-popups-to-escape-sandbox; '' @
         ''default-src 'none'; base-uri 'none'; form-action 'none'; '' @
         ''frame-ancestors 'self'; img-src data:; object-src 'none'; '' @
         ''style-src 'unsafe-inline'' @ [CHR 0x27]),
      (''Cross-Origin-Resource-Policy'', ''same-origin''),
      (''Referrer-Policy'', ''no-referrer''),
      (''X-Content-Type-Options'', ''nosniff''),
      (''X-Frame-Options'', ''SAMEORIGIN'')]"

end
