(* ===== verification/Csrf_Register.thy ===== *)
theory Csrf_Register
  imports Csrf_Store
begin

text \<open>
  What the CSRF registry promises its callers, as an abstract object: a lossy register that holds
  at most one nonce per key. At any call it may forget keys (they expired, or were evicted); it
  never invents one. \<open>register_step\<close> is this specification, the locale \<open>lossy_register\<close> the
  interface of any store that refines it, with the single-use guarantee proved once from the
  interface. The interpretation \<open>current\<close> at the end is the refinement proof for the methods of
  \<open>CurrentCsrfStore\<close>.
\<close>

section \<open>Specification\<close>

type_synonym register = "pystr \<rightharpoonup> pystr"

inductive register_step :: "register \<Rightarrow> csrf_op \<Rightarrow> bool res \<Rightarrow> register \<Rightarrow> bool" where
  query: "m' \<subseteq>\<^sub>m m \<Longrightarrow> register_step m (IsCurrent key n) (Inr (m' key = Some n)) m'"
| install: "m' \<subseteq>\<^sub>m m \<Longrightarrow> register_step m (Replace base key n) (Inr True) (m'(key \<mapsto> n))"
| exchange: "m' \<subseteq>\<^sub>m m \<Longrightarrow> m' key = Some n \<Longrightarrow>
    register_step m (Rotate base key n n') (Inr True) (m'(key \<mapsto> n'))"
| refuse: "m' \<subseteq>\<^sub>m m \<Longrightarrow> m' key \<noteq> Some n \<Longrightarrow> register_step m (Rotate base key n n') (Inr False) m'"
| not_ascii: "m' \<subseteq>\<^sub>m m \<Longrightarrow> register_step m op (Inl TypeError) m'"

inductive_cases register_step_query: "register_step m (IsCurrent key n) (Inr True) m'"
inductive_cases register_step_exchange: "register_step m (Rotate base key n n') (Inr True) m'"

text \<open>The calls that make a nonce the current one of a key.\<close>

fun installs :: "pystr \<Rightarrow> pystr \<Rightarrow> csrf_op \<Rightarrow> bool" where
  "installs key n (IsCurrent k n') = False"
| "installs key n (Replace base k n') = (k = key \<and> n' = n)"
| "installs key n (Rotate base k n' n'') = (k = key \<and> n'' = n)"

text \<open>A nonce becomes current only by a call that installs it.\<close>

lemma register_step_current:
  assumes "register_step m op r m'" "m' key = Some n" "\<not> installs key n op"
  shows "m key = Some n"
  using assms by cases (auto simp: map_le_def dom_def split: if_splits)

section \<open>Interface\<close>

locale lossy_register =
  fixes ready :: "'s \<Rightarrow> bool"
    and view :: "'s \<Rightarrow> register"
    and exec :: "csrf_op \<Rightarrow> 's \<Rightarrow> bool res \<times> 's"
    and later :: "'s \<Rightarrow> (csrf_op \<times> bool res) list \<Rightarrow> 's \<Rightarrow> bool"
  assumes refines: "ready s \<Longrightarrow> exec op s = (r, t) \<Longrightarrow> register_step (view s) op r (view t)"
    and stays_ready: "ready s \<Longrightarrow> exec op s = (r, t) \<Longrightarrow> ready t"
    and later_cases: "later s tr t \<Longrightarrow> ready s \<Longrightarrow>
      (tr = [] \<and> view t = view s) \<or>
      (\<exists>tr' op r t' t''. tr = tr' @ [(op, r)] \<and> later s tr' t' \<and>
         ready t'' \<and> view t'' = view t' \<and> exec op t'' = (r, t))"
    and later_ready: "later s tr t \<Longrightarrow> ready s \<Longrightarrow> ready t"
begin

lemma later_current:
  assumes "later s tr t" "ready s" "view t key = Some n" "\<forall>(op, r) \<in> set tr. \<not> installs key n op"
  shows "view s key = Some n"
  using assms
proof (induction "length tr" arbitrary: tr t)
  case 0
  then show ?case using later_cases [of s tr t] by auto
next
  case (Suc k)
  then obtain tr' op r t' t'' where st: "tr = tr' @ [(op, r)]" "later s tr' t'"
    "ready t''" "view t'' = view t'" "exec op t'' = (r, t)"
    using later_cases [of s tr t] by auto
  have "view t' key = Some n"
    using register_step_current [OF refines [OF st(3,5)]] Suc.prems(3,4) st(1,4) by auto
  then show ?case using Suc.prems Suc.hyps(2) st(1,2) by (intro Suc.hyps(1) [of tr' t']) auto
qed

lemma exchanged_once:
  assumes ready: "ready s" and used: "exec (Rotate base key n n') s = (Inr True, t)" "n \<noteq> n'"
    and run: "later t tr u" "\<forall>(op, r) \<in> set tr. \<not> installs key n op"
  shows "view u key \<noteq> Some n"
    and "fst (exec (IsCurrent key n) u) \<noteq> Inr True"
    and "fst (exec (Rotate base' key n n'') u) \<noteq> Inr True"
proof -
  have t: "ready t" by (rule stays_ready [OF ready used(1)])
  have "view t key \<noteq> Some n"
    using refines [OF ready used(1)] used(2) by (auto elim: register_step_exchange)
  then show u: "view u key \<noteq> Some n" using later_current [OF run(1) t _ run(2)] by blast
  have gone: "m' key \<noteq> Some n" if "m' \<subseteq>\<^sub>m view u" for m'
    using that u by (auto simp: map_le_def dom_def)
  have step: "register_step (view u) op (fst (exec op u)) (view (snd (exec op u)))" for op
    using refines [OF later_ready [OF run(1) t]] by simp
  show "fst (exec (IsCurrent key n) u) \<noteq> Inr True"
    using step [of "IsCurrent key n"] gone by (auto elim!: register_step_query)
  show "fst (exec (Rotate base' key n n'') u) \<noteq> Inr True"
    using step [of "Rotate base' key n n''"] gone by (auto elim!: register_step_exchange)
qed

end

section \<open>Refinement\<close>

definition current_nonces :: "csrf_entries \<Rightarrow> register" where
  "current_nonces es key = map_option cc_nonce (map_of es key)"

abbreviation unique_keys :: "csrf_entries \<Rightarrow> bool" where
  "unique_keys es \<equiv> distinct (map fst es)"

lemma unique_keys_subseq: "unique_keys es \<Longrightarrow> subseq fs es \<Longrightarrow> unique_keys fs"
  by (auto simp: subseq_conv_nths nths_map [symmetric] intro!: distinct_nthsI)

lemma unique_keys_put: "unique_keys es \<Longrightarrow> unique_keys (put_last key st es)"
  by (auto simp: put_last_def delete_key_def distinct_map_filter)

lemma current_nonces_put: "current_nonces (put_last key st es) = (current_nonces es)(key \<mapsto> cc_nonce st)"
  by (auto simp: current_nonces_def map_of_put_last)

lemma current_nonces_subseq:
  assumes "unique_keys es" "subseq fs es"
  shows "current_nonces fs \<subseteq>\<^sub>m current_nonces es"
  using map_of_subseq [OF assms] by (auto simp: current_nonces_def map_le_def dom_def)

lemma purge_subseq: "subseq (purge now es) es"
  by (simp add: purge_def)

lemma bound_capacity_subseq: "subseq (bound_capacity c base key es) es"
proof -
  have "subseq (drop_oldest cap key fs) fs" for cap fs using drop_oldest_suffix by blast
  then show ?thesis unfolding bound_capacity_def Let_def using drop_matching_subseq subseq_order.trans by blast
qed

lemma put_same_nonce: "map_of es key = Some st \<Longrightarrow> current_nonces (put_last key st es) = current_nonces es"
  by (auto simp: current_nonces_put current_nonces_def)

lemma run_op_refines:
  assumes u: "unique_keys es"
  shows "wp (run_op env c op)
    (\<lambda>r es'. unique_keys es' \<and> register_step (current_nonces es) op (Inr r) (current_nonces es'))
    (\<lambda>e es'. unique_keys es' \<and> register_step (current_nonces es) op (Inl e) (current_nonces es')) es"
proof -
  have p: "unique_keys (purge now es)" "current_nonces (purge now es) \<subseteq>\<^sub>m current_nonces es" for now
    using unique_keys_subseq current_nonces_subseq purge_subseq u by blast+
  have b: "unique_keys (bound_capacity c base key (purge now es))"
    "current_nonces (bound_capacity c base key (purge now es)) \<subseteq>\<^sub>m current_nonces es" for base key now
    using unique_keys_subseq [OF u] current_nonces_subseq [OF u]
      subseq_order.trans [OF bound_capacity_subseq purge_subseq] by blast+
  have found: "current_nonces fs key = Some n \<longleftrightarrow> (\<exists>st. map_of fs key = Some st \<and> cc_nonce st = n)" for fs key n
    by (auto simp: current_nonces_def)
  show ?thesis
  proof (cases op)
    case (IsCurrent key n)
    have q: "register_step (current_nonces es) (IsCurrent key x) (Inr y) (current_nonces (purge now es))"
      if "y = (current_nonces (purge now es) key = Some x)" for now x y
      unfolding that by (rule query [OF p(2)])
    show ?thesis unfolding IsCurrent run_op.simps is_current_def
      by (auto intro!: wp_rules p(1) unique_keys_put not_ascii [OF p(2)] q
          simp: found put_same_nonce compare_digest_def split: if_splits)
  next
    case (Replace base key n)
    show ?thesis unfolding Replace run_op.simps replace_def
      by (auto intro!: wp_rules b unique_keys_put install simp: current_nonces_put)
  next
    case (Rotate base key n n')
    show ?thesis unfolding Rotate run_op.simps rotate_def
      by (auto intro!: wp_rules p unique_keys_put not_ascii [OF p(2)] refuse [OF p(2)] exchange [OF p(2)]
          simp: found current_nonces_put compare_digest_def split: if_splits)
  qed
qed

text \<open>The stores of the registry with distinct keys are ready, and runs keep them ready.\<close>

lemma run_op_step:
  assumes "unique_keys (db s)" "run_op env c op s = (r, t)"
  shows "unique_keys (db t)" "register_step (current_nonces (db s)) op r (current_nonces (db t))"
  using wp_outcome [OF run_op_refines [OF assms(1)] assms(2)] by (auto split: sum.splits)

lemma csrf_run_ready: "csrf_run env c s tr t \<Longrightarrow> unique_keys (db s) \<Longrightarrow> unique_keys (db t)"
  by (induction rule: csrf_run.induct) (simp, metis run_op_step(1))

interpretation current: lossy_register
  "\<lambda>s. unique_keys (db s)" "\<lambda>s. current_nonces (db s)" "run_op env c" "csrf_run env c" for env c
proof unfold_locales
  fix s tr t
  assume run: "csrf_run env c s tr t" and u: "unique_keys (db s)"
  show "unique_keys (db t)" by (rule csrf_run_ready [OF run u])
  show "(tr = [] \<and> current_nonces (db t) = current_nonces (db s)) \<or>
      (\<exists>tr' op r t' t''. tr = tr' @ [(op, r)] \<and> csrf_run env c s tr' t' \<and> unique_keys (db t'') \<and>
         current_nonces (db t'') = current_nonces (db t') \<and> run_op env c op t'' = (r, t))"
    using run by cases (use csrf_run_ready [OF _ u] in \<open>fastforce+\<close>)
qed (simp_all add: run_op_step)

text \<open>
  C27. The registry implements the lossy register: over every reachable registry, each call answers
  and changes the nonces held exactly as the specification allows, whatever the clock says and
  whatever was evicted.
\<close>

theorem csrf_store_refines:
  assumes "db s = []" "csrf_run env c s tr t" "run_op env c op t = (r, u)"
  shows "register_step (current_nonces (db t)) op r (current_nonces (db u))"
  using current.refines [OF current.later_ready [OF assms(2)] assms(3)] assms(1) by simp

theorem csrf_store_refines_witness:
  "case run_ops sample_security_env sample_limits sample_ops (sample_process []) of (tr, t) \<Rightarrow>
     case run_op sample_security_env sample_limits (Rotate [1] [12] [66] [70]) t of (r, u) \<Rightarrow>
       r = Inr False \<and> register_step (current_nonces (db t)) (Rotate [1] [12] [66] [70]) r (current_nonces (db u))"
proof -
  obtain tr t where run: "run_ops sample_security_env sample_limits sample_ops (sample_process []) = (tr, t)"
    by force
  obtain r u where op: "run_op sample_security_env sample_limits (Rotate [1] [12] [66] [70]) t = (r, u)" by force
  have "fst (run_op sample_security_env sample_limits (Rotate [1] [12] [66] [70])
      (snd (run_ops sample_security_env sample_limits sample_ops (sample_process [])))) = Inr False"
    by code_simp
  then have "r = Inr False" by (simp only: run op fst_conv snd_conv)
  then show ?thesis
    using csrf_store_refines [OF sample_process_db csrf_run_ops [OF run] op]
    unfolding run prod.case op by simp
qed

text \<open>
  C26. A nonce is good for one write: once \<open>rotate\<close> has exchanged it, no interleaving of later calls
  that does not install the same nonce at that key again makes \<open>is_current\<close> or \<open>rotate\<close> accept it.
\<close>

theorem csrf_nonce_single_use:
  assumes "db s = []" "csrf_run env c s tr t"
    and "rotate env c base key nonce replacement t = (Inr True, u)" "nonce \<noteq> replacement"
    and "csrf_run env c u tr' v" "\<forall>(op, r) \<in> set tr'. \<not> installs key nonce op"
  shows "fst (is_current env key nonce v) \<noteq> Inr True
    \<and> fst (rotate env c base' key nonce replacement' v) \<noteq> Inr True"
proof -
  have t: "unique_keys (db t)" using current.later_ready [OF assms(2)] assms(1) by simp
  have used: "run_op env c (Rotate base key nonce replacement) t = (Inr True, u)" using assms(3) by simp
  show ?thesis
    using current.exchanged_once(2) [OF t used assms(4,5,6)]
      current.exchanged_once(3) [OF t used assms(4,5,6), of base' replacement'] by simp
qed

theorem csrf_nonce_single_use_witness:
  "case run_ops sample_security_env sample_limits [Replace [1] [12] [66]] (sample_process []) of (tr, t) \<Rightarrow>
     case rotate sample_security_env sample_limits [1] [12] [66] [67] t of (a, u) \<Rightarrow>
     case run_ops sample_security_env sample_limits [IsCurrent [12] [67], Rotate [1] [12] [67] [68]] u of (tr', v) \<Rightarrow>
       a = Inr True \<and> map snd tr' = [Inr True, Inr True]
       \<and> fst (is_current sample_security_env [12] [66] v) \<noteq> Inr True
       \<and> fst (rotate sample_security_env sample_limits [1] [12] [66] [69] v) \<noteq> Inr True"
proof -
  let ?start = "run_ops sample_security_env sample_limits [Replace [1] [12] [66]] (sample_process [])"
  let ?ops = "[IsCurrent [12] [67], Rotate [1] [12] [67] [68]]"
  obtain tr t where run: "?start = (tr, t)" by force
  obtain a u where rot: "rotate sample_security_env sample_limits [1] [12] [66] [67] t = (a, u)" by force
  obtain tr' v where later: "run_ops sample_security_env sample_limits ?ops u = (tr', v)" by force
  have "fst (rotate sample_security_env sample_limits [1] [12] [66] [67] (snd ?start)) = Inr True" by code_simp
  then have a: "a = Inr True" by (simp only: run rot fst_conv snd_conv)
  have "map snd (fst (run_ops sample_security_env sample_limits ?ops
      (snd (rotate sample_security_env sample_limits [1] [12] [66] [67] (snd ?start))))) = [Inr True, Inr True]"
    by code_simp
  then have r: "map snd tr' = [Inr True, Inr True]" by (simp only: run rot later fst_conv snd_conv)
  have "map fst tr' = ?ops" using later by (auto split: prod.splits)
  then have "\<forall>op \<in> fst ` set tr'. \<not> installs [12] [66] op" unfolding set_map [symmetric] by simp
  then have "\<forall>(op, r) \<in> set tr'. \<not> installs [12] [66] op" by force
  then show ?thesis
    using csrf_nonce_single_use [OF sample_process_db csrf_run_ops [OF run] rot [unfolded a] _ csrf_run_ops [OF later]] r
    unfolding run prod.case rot later a by simp
qed

end
