(* ===== verification/Csrf_Correct.thy ===== *)
theory Csrf_Correct
  imports Csrf_Register Json_Correct
begin

text \<open>
  Correctness of the signed tokens: a token that \<open>new_csrf_token\<close> issues is accepted by
  \<open>verify_csrf_token\<close> while it is fresh, and gives back its nonce, its time and its flow; an accepted
  token carries the signature of exactly these. Then what a caller of the registry can count on: a
  nonce just installed is current until it expires.
\<close>

section \<open>Encoded text\<close>

definition url_char :: "nat \<Rightarrow> bool" where
  "url_char c \<longleftrightarrow> is_ascii_alnum c \<or> c = 45 \<or> c = 95"

lemma urlsafe_b64encode_text:
  "list_all url_char (urlsafe_b64encode bs)"
  "length (urlsafe_b64encode bs) = (8 * length bs + (6 - 8 * length bs mod 6) mod 6) div 6"
proof -
  have "set (urlsafe_b64encode bs) \<subseteq> set base64url_alphabet"
    unfolding urlsafe_b64encode_def by (rule set_encode_digits) (simp_all add: alphabet_defs)
  moreover have "list_all url_char base64url_alphabet" by code_simp
  ultimately show "list_all url_char (urlsafe_b64encode bs)" by (auto simp: list_all_iff)
  show "length (urlsafe_b64encode bs) = (8 * length bs + (6 - 8 * length bs mod 6) mod 6) div 6"
    by (simp add: urlsafe_b64encode_def length_encode_digits)
qed

section \<open>Numbers\<close>

lemma strip_digits: "list_all is_digit s \<Longrightarrow> strip s = s"
proof (cases "s = []")
  case False
  assume d: "list_all is_digit s"
  then have "is_digit (hd s)" "is_digit (last s)"
    using False by (simp_all add: list_all_iff)
  then show ?thesis using False by (auto simp: strip_id_iff isspace_def is_digit_def)
qed (simp add: strip_def lstrip_def rstrip_def)

lemma those_digits:
  "list_all is_digit s \<Longrightarrow> those (map (decimal_digit env) s) = Some (map (\<lambda>c. c - 48) s)"
  by (induction s) (auto simp: decimal_digit_def is_digit_def)

lemma foldl_digits: "foldl (\<lambda>a d. 10 * a + d) a (map (\<lambda>c. c - 48) s) = foldl (\<lambda>a c. 10 * a + (c - 48)) a s"
  for a :: nat
  by (induction s arbitrary: a) auto

lemma python_int_dec_int: "0 \<le> i \<Longrightarrow> python_int env (dec_int i) = Inr i"
proof -
  assume i: "0 \<le> i"
  let ?s = "dec_nat (nat i)"
  have d: "list_all is_digit ?s" "?s \<noteq> []" using dec_nat_digits by auto
  then have "95 \<notin> set ?s" "\<not> next_is 45 ?s" "\<not> next_is 43 ?s"
    by (cases ?s; auto simp: is_digit_def next_is_def list_all_iff)+
  then show ?thesis
    using d(1) d(2) [symmetric] i digits_value_dec_nat [of "nat i"]
    by (simp add: python_int_def dec_int_def strip_digits split_on_absent those_digits foldl_digits
        digits_value_def Let_def)
qed

section \<open>Tokens\<close>

lemma split_max_part: "c \<notin> set p \<Longrightarrow> split_max (Suc n) c (p @ c # r) = p # split_max n c r"
  by (simp add: partition_def takeWhile_append dropWhile_append)

lemma url_char_flow: "url_char c \<Longrightarrow> flow_char env c"
  by (auto simp: url_char_def flow_char_def char_class_defs)

lemma valid_flow_no_dot: "valid_flow env flow \<Longrightarrow> 46 \<notin> set flow"
  by (auto simp: valid_flow_def flow_char_def list_all_iff char_class_defs)

lemma url_text_plain: "list_all url_char s \<Longrightarrow> 46 \<notin> set s \<and> isascii s"
  by (auto simp: list_all_iff url_char_def isascii_def char_class_defs)

lemma csrf_signature_Inr:
  "csrf_signature env key payload = Inr sig \<longleftrightarrow>
     isascii payload \<and> sig = urlsafe_b64encode (hmac_sha256 env key (ascii_bytes payload))"
  by (auto simp: csrf_signature_def)

text \<open>A token in its printed form is read back as its parts.\<close>

lemma split_csrf_token:
  assumes "valid_flow env flow" "list_all url_char nonce" "0 \<le> i"
  shows "split_max 4 46 (csrf_payload i flow nonce @ 46 # sig) = [lit ''v2'', dec_int i, flow, nonce, sig]"
proof -
  have four: "(4 :: nat) = Suc (Suc (Suc (Suc 0)))" by simp
  have "46 \<notin> set (dec_int i)"
    using dec_nat_digits [of "nat i"] assms(3) by (auto simp: dec_int_def list_all_iff is_digit_def)
  then show ?thesis
    using valid_flow_no_dot [OF assms(1)] url_text_plain [OF assms(2)]
      split_max_part [of 46 "lit ''v2''"]
    unfolding csrf_payload_def four
    by (simp add: split_max_part lit_def del: split_max.simps(2))
qed

lemma token_printable:
  assumes "isascii flow" "valid_flow env flow" "list_all url_char nonce" "list_all url_char sig" "0 \<le> i"
  shows "\<not> contains_forbidden_header_characters (csrf_payload i flow nonce @ 46 # sig)"
proof -
  have "list_all (\<lambda>c. 32 < c \<and> c \<noteq> 127) flow"
    using assms(1,2) by (fastforce simp: valid_flow_def isascii_def list_all_iff flow_char_def char_class_defs)
  moreover have "list_all (\<lambda>c. 32 < c \<and> c \<noteq> 127) (dec_int i)"
    using dec_nat_digits [of "nat i"] assms(5) by (fastforce simp: dec_int_def list_all_iff is_digit_def)
  ultimately show ?thesis
    using assms(3,4)
    by (fastforce simp: contains_forbidden_header_characters_def csrf_payload_def list_ex_iff list_all_iff
        url_char_def char_class_defs lit_def)
qed

lemma isascii_csrf_payload:
  assumes "isascii (csrf_payload i flow nonce)" shows "isascii flow"
  using assms by (simp add: csrf_payload_def isascii_def)

lemma length_csrf_token:
  assumes "valid_flow env flow" "length nonce = 32" "0 \<le> i" "i < 10 ^ 100"
  shows "length (csrf_payload i flow nonce) \<le> 212"
proof -
  have "length (dec_int i) \<le> 100" using dec_nat_length [of "nat i" 100] assms(3,4) by (simp add: dec_int_def)
  then show ?thesis using assms(1,2) by (simp add: csrf_payload_def valid_flow_def lit_def)
qed

lemma isascii_dec_int: "isascii (dec_int i)"
proof -
  have "isascii (dec_nat n)" for n
    using dec_nat_digits [of n] by (fastforce simp: isascii_def list_all_iff is_digit_def)
  then show ?thesis by (simp add: dec_int_def isascii_def)
qed

text \<open>Issuing a token never fails for a new flow, nor for one that an accepted token had.\<close>

definition issuable :: "security_env \<Rightarrow> pystr option \<Rightarrow> bool" where
  "issuable env flow_id \<longleftrightarrow> (case flow_id of None \<Rightarrow> True | Some f \<Rightarrow> valid_flow env f \<and> isascii f)"

lemma new_csrf_token_returns:
  assumes len: "\<And>d n. length (token_bytes env d n) = n" and ok: "issuable env flow_id"
  shows "\<exists>token. new_csrf_token env key flow_id s
    = (Inr token, s\<lparr>readings := Suc (readings s), draws := draws s + (if flow_id = None then 2 else 1)\<rparr>)"
proof -
  have n: "isascii (urlsafe_b64encode bs)" for bs
    using url_text_plain [OF urlsafe_b64encode_text(1)] by blast
  have f: "valid_flow env (urlsafe_b64encode (token_bytes env d 18))" for d
    using urlsafe_b64encode_text [of "token_bytes env d 18"]
    by (auto simp: valid_flow_def len elim!: list.pred_mono_strong intro!: url_char_flow)
  have "isascii (csrf_payload i flow (urlsafe_b64encode bs))" if "isascii flow" for i flow bs
    using that n [of bs] isascii_dec_int [of i] by (simp add: csrf_payload_def isascii_def lit_def)
  then show ?thesis
    using ok n f
    by (auto simp: issuable_def new_csrf_token_def bindA_def read_wall_def token_urlsafe_def returnA_def
        liftE_def Let_def csrf_signature_def split: option.splits)
qed

text \<open>An issued token in its parts, and its check at a time within its age.\<close>

lemma new_csrf_token_parts:
  assumes len: "\<And>d n. length (token_bytes env d n) = n"
    and new: "new_csrf_token env key flow_id s = (Inr token, t)" and i: "i = wall_seconds env (readings s)"
  obtains flow nonce sig where
    "token = csrf_payload i flow nonce @ 46 # sig"
    "valid_flow env flow" "isascii flow" "flow_id = None \<or> flow_id = Some flow"
    "nonce = urlsafe_b64encode (token_bytes env (draws t - 1) 24)" "length nonce = 32"
    "csrf_signature env key (csrf_payload i flow nonce) = Inr sig"
    "list_all url_char nonce" "list_all url_char sig"
proof -
  obtain flow nonce sig where parts: "token = csrf_payload i flow nonce @ 46 # sig"
    "valid_flow env flow" "flow_id = None \<or> flow_id = Some flow"
    "nonce = urlsafe_b64encode (token_bytes env (draws t - 1) 24)"
    and sig: "csrf_signature env key (csrf_payload i flow nonce) = Inr sig"
    using new i
    by (auto simp: new_csrf_token_def bindA_def read_wall_def token_urlsafe_def returnA_def raiseA_def
        liftE_def Let_def split: option.splits if_splits sum.splits prod.splits)
  have "length nonce = 32"
    using urlsafe_b64encode_text(2) [of "token_bytes env (draws t - 1) 24"] by (simp add: parts(4) len)
  moreover have "isascii flow" "list_all url_char nonce" "list_all url_char sig"
    using sig urlsafe_b64encode_text(1) isascii_csrf_payload by (auto simp: csrf_signature_Inr parts(4))
  ultimately show thesis using that parts sig by blast
qed

lemma issued_token_verifies:
  assumes lens: "\<And>k m. length (hmac_sha256 env k m) = 32" "\<And>d n. length (token_bytes env d n) = n"
    and new: "new_csrf_token env key flow_id s = (Inr token, t)"
    and issued: "i = wall_seconds env (readings s)" "0 \<le> i" "i < 10 ^ 100"
  shows "\<exists>nonce flow. (\<forall>u :: 'e store. i - 60 \<le> wall_seconds env (readings u) \<longrightarrow>
             wall_seconds env (readings u) - i \<le> max_age \<longrightarrow>
             verify_csrf_token env token key max_age u
               = (Inr (Some (nonce, i, flow)), u\<lparr>readings := Suc (readings u)\<rparr>))
           \<and> (flow_id = None \<or> flow_id = Some flow)
           \<and> nonce = urlsafe_b64encode (token_bytes env (draws t - 1) 24)
           \<and> isascii token \<and> token \<noteq> [] \<and> isascii nonce \<and> issuable env (Some flow)"
proof -
  from new_csrf_token_parts [OF lens(2) new issued(1)] obtain flow nonce sig where
    token: "token = csrf_payload i flow nonce @ 46 # sig"
    and flow: "valid_flow env flow" "isascii flow" "flow_id = None \<or> flow_id = Some flow"
    and nonce: "nonce = urlsafe_b64encode (token_bytes env (draws t - 1) 24)" "length nonce = 32"
    and sig: "csrf_signature env key (csrf_payload i flow nonce) = Inr sig"
    and chars: "list_all url_char nonce" "list_all url_char sig" .
  have l: "length sig = 43"
    using urlsafe_b64encode_text(2) [of "hmac_sha256 env key (ascii_bytes (csrf_payload i flow nonce))"] sig
    by (auto simp: csrf_signature_Inr lens)
  note facts = token_printable [OF flow(2,1) chars issued(2)]
    length_csrf_token [OF flow(1) nonce(2) issued(2,3)] split_csrf_token [OF flow(1) chars(1) issued(2)]
    python_int_dec_int [OF issued(2)] sig
  have "verify_csrf_token env token key max_age u = (Inr (Some (nonce, i, flow)), u\<lparr>readings := Suc (readings u)\<rparr>)"
    if "i - 60 \<le> wall_seconds env (readings u)" "wall_seconds env (readings u) - i \<le> max_age" for u :: "'e store"
    using l nonce(2) flow(1) that url_text_plain [OF chars(2)] unfolding token
    by (auto simp: facts verify_csrf_token_def bindA_def read_wall_def returnA_def liftE_def
        compare_digest_def not_less)
  moreover have "isascii token" "token \<noteq> []" "isascii nonce"
    using sig url_text_plain [OF chars(1)] url_text_plain [OF chars(2)]
    by (auto simp: token csrf_signature_Inr isascii_def)
  ultimately show ?thesis using flow nonce(1) by (auto simp: issuable_def)
qed

text \<open>
  C30. A token that \<open>new_csrf_token\<close> issued at one time is accepted by \<open>verify_csrf_token\<close> at any
  later reading of the clock within its age, and yields the nonce drawn for it, its time of issue
  and its flow. Digests of HMAC-SHA256 have 32 bytes and \<open>secrets.token_bytes(n)\<close> has \<open>n\<close>.
\<close>

theorem csrf_token_roundtrip:
  assumes lens: "\<And>k m. length (hmac_sha256 env k m) = 32" "\<And>d n. length (token_bytes env d n) = n"
    and new: "new_csrf_token env key flow_id s = (Inr token, t)"
    and issued: "i = wall_seconds env (readings s)" "0 \<le> i" "i < 10 ^ 100"
    and age: "i - 60 \<le> wall_seconds env (readings u)" "wall_seconds env (readings u) - i \<le> max_age"
  shows "\<exists>nonce flow. fst (verify_csrf_token env token key max_age u) = Inr (Some (nonce, i, flow))
           \<and> (flow_id = None \<or> flow_id = Some flow)
           \<and> nonce = urlsafe_b64encode (token_bytes env (draws t - 1) 24)"
  using issued_token_verifies [OF lens new issued, of max_age] age by fastforce

text \<open>A concrete issue and check: one clock reading and two draws later the token is accepted.\<close>

theorem csrf_token_roundtrip_witness:
  "case new_csrf_token sample_security_env [1, 2, 3] None (sample_process ()) of
     (Inr token, t) \<Rightarrow>
       \<exists>nonce flow. fst (verify_csrf_token sample_security_env token [1, 2, 3] 3600 t) = Inr (Some (nonce, 1000, flow))
         \<and> (None = None \<or> None = Some flow)
         \<and> nonce = urlsafe_b64encode (token_bytes sample_security_env (draws t - 1) 24)
   | _ \<Rightarrow> False"
proof -
  obtain token t where
    new: "new_csrf_token sample_security_env [1, 2, 3] None (sample_process ()) = (Inr token, t)" "readings t = 1"
    using new_csrf_token_returns [of sample_security_env None "[1, 2, 3]" "sample_process ()"]
    by (auto simp: sample_security_lengths issuable_def sample_process_def)
  show ?thesis
    using csrf_token_roundtrip [OF sample_security_lengths new(1) refl, of t 3600]
    by (simp add: new sample_clock) (simp add: sample_process_def)
qed

section \<open>Progress\<close>

lemma map_of_purge: "map_of es key = Some st \<Longrightarrow> now < cc_expires_at st \<Longrightarrow> map_of (purge now es) key = Some st"
  by (induction es) (auto simp: purge_def split: if_splits)

text \<open>
  A nonce that \<open>replace\<close> just installed can be used: until the lifetime is over, the next call that
  presents it accepts it. Without this a registry that forgets everything would do.
\<close>

lemma replace_installs:
  assumes "replace env c base key nonce s = (r, t)"
  shows "r = Inr () \<and> map_of (db t) key
      = Some \<lparr>cc_base = base, cc_nonce = nonce, cc_expires_at = monotonic env (readings s) + ttl c * 10 ^ 9\<rparr>"
  using assms
  by (auto simp: replace_def bindA_def seqA_def read_monotonic_def modify_def executeA_def map_of_put_last)

lemma current_nonce_usable:
  assumes "map_of (db s) key = Some st" "isascii (cc_nonce st)" "monotonic env (readings s) < cc_expires_at st"
  shows "fst (is_current env key (cc_nonce st) s) = Inr True"
    and "fst (rotate env c base key (cc_nonce st) replacement s) = Inr True"
  using map_of_purge [OF assms(1,3)] assms(2)
  by (auto simp: is_current_def rotate_def bindA_def seqA_def read_monotonic_def modify_def executeA_def
      selectA_def returnA_def liftE_def compare_digest_def)

end
