(* ===== verification/Http_Guard.thy ===== *)
theory Http_Guard
  imports Http_Security Csrf_Correct
begin

text \<open>
  What the middleware of \<open>security.py\<close> guarantees for every handler: all responses whose headers no
  handler has sent itself carry the protective headers and no CORS header, and a write influences nothing outside the middleware
  unless it passed the host, origin, content type, cookie, token and single-use checks. The last
  section shows the other direction, that a browser which follows the protocol is served.
\<close>

section \<open>Results of actions\<close>

definition returns :: "('a \<Rightarrow> bool) \<Rightarrow> ('d, 'a) act \<Rightarrow> bool" where
  "returns P m \<longleftrightarrow> (\<forall>s x t. m s = (Inr x, t) \<longrightarrow> P x)"

named_theorems returns_rules \<open>introduction rules for results\<close>

lemma returnsD: "returns P m \<Longrightarrow> m s = (Inr x, t) \<Longrightarrow> P x"
  by (auto simp: returns_def)

lemma returns_return [returns_rules]: "P x \<Longrightarrow> returns P (returnA x)"
  by (simp add: returns_def returnA_def)

lemma returns_raise [returns_rules]: "returns P (raiseA e)"
  by (simp add: returns_def raiseA_def)

lemma returns_lift [returns_rules]: "(\<And>x. r = Inr x \<Longrightarrow> P x) \<Longrightarrow> returns P (liftE r)"
  by (simp add: returns_def liftE_def)

lemma returns_bind: "returns Q m \<Longrightarrow> (\<And>x. Q x \<Longrightarrow> returns P (f x)) \<Longrightarrow> returns P (bindA m f)"
  by (fastforce simp: returns_def bindA_Inr)

lemma returns_bind_any [returns_rules]: "(\<And>x. returns P (f x)) \<Longrightarrow> returns P (bindA m f)"
  by (rule returns_bind [of "\<lambda>_. True"]) (simp_all add: returns_def)

lemma returns_seq [returns_rules]: "returns P n \<Longrightarrow> returns P (seqA m n)"
  unfolding seqA_def by (rule returns_bind_any)

lemma returns_if [returns_rules]:
  "(b \<Longrightarrow> returns P m) \<Longrightarrow> (\<not> b \<Longrightarrow> returns P n) \<Longrightarrow> returns P (if b then m else n)"
  by simp

lemma returns_option [returns_rules]:
  "(v = None \<Longrightarrow> returns P m) \<Longrightarrow> (\<And>x. v = Some x \<Longrightarrow> returns P (f x)) \<Longrightarrow>
     returns P (case v of None \<Rightarrow> m | Some x \<Rightarrow> f x)"
  by (cases v) auto

lemma returns_prod [returns_rules]: "(\<And>x y. v = (x, y) \<Longrightarrow> returns P (f x y)) \<Longrightarrow> returns P (case v of (x, y) \<Rightarrow> f x y)"
  by (cases v) auto

section \<open>Response headers\<close>

definition hardened :: "http_response \<Rightarrow> bool" where
  "hardened r \<longleftrightarrow> (\<forall>(n, v) \<in> set (resp_headers r). \<not> cors_name n)
     \<and> (\<forall>(n, v) \<in> set default_headers. getall n (resp_headers r) \<noteq> [])"

lemma getall_Nil_iff: "getall n hs = [] \<longleftrightarrow> (\<forall>(m, v) \<in> set hs. lower m \<noteq> lower n)"
  by (auto simp: getall_def filter_empty_conv)

text \<open>Dropping the CORS fields drops them all and keeps the others in order.\<close>

lemma drop_cors_filter:
  "drop_cors ns hs = Inr hs' \<Longrightarrow>
     hs' = filter (\<lambda>(n, _). \<not> (\<exists>m \<in> set ns. cors_name m \<and> lower m = lower n)) hs"
proof (induction ns hs rule: drop_cors.induct)
  case (2 n ns hs)
  show ?case
  proof (cases "cors_name n")
    case True
    with 2 obtain mid where mid: "del_header n hs = Inr mid" "drop_cors ns mid = Inr hs'"
      by (auto simp: res_simps)
    then have "mid = filter (\<lambda>(k, _). lower k \<noteq> lower n) hs" by (auto simp: del_header_def split: if_splits)
    then show ?thesis using "2.IH"(1) [OF True mid] True by (auto intro!: filter_cong)
  next
    case False
    with 2 show ?thesis by (auto intro!: filter_cong)
  qed
qed simp

lemma drop_cors_all:
  assumes "drop_cors (map fst hs) hs = Inr hs'"
  shows "hs' = filter (\<lambda>(n, _). \<not> cors_name n) hs"
proof -
  have "cors_name m \<Longrightarrow> lower m = lower n \<Longrightarrow> cors_name n" for m n by (simp add: cors_name_def)
  then show ?thesis unfolding drop_cors_filter [OF assms] by (intro filter_cong refl) force
qed

lemma setdefault_present: "getall m hs \<noteq> [] \<or> lower m = lower n \<Longrightarrow> getall m (setdefault n v hs) \<noteq> []"
  by (auto simp: setdefault_def getall_Nil_iff)

lemma fold_setdefault_present:
  "getall m hs \<noteq> [] \<or> m \<in> fst ` set ds \<Longrightarrow> getall m (fold (\<lambda>(n, v). setdefault n v) ds hs) \<noteq> []"
proof (induction ds arbitrary: hs)
  case (Cons d ds)
  then show ?case using setdefault_present [of m hs "fst d" "snd d"] by (cases d) auto
qed simp

lemma default_headers_not_cors: "n \<in> fst ` set default_headers \<Longrightarrow> \<not> cors_name n"
proof -
  have "list_all (\<lambda>n. \<not> cors_name n) (map fst default_headers)" by code_simp
  then show "n \<in> fst ` set default_headers \<Longrightarrow> \<not> cors_name n" by (auto simp: list_all_iff)
qed

lemma getall_filter_cors:
  assumes "\<not> cors_name n" shows "getall n (filter (\<lambda>(m, _). \<not> cors_name m) hs) = getall n hs"
proof -
  have "lower m = lower n \<Longrightarrow> \<not> cors_name m" for m using assms by (simp add: cors_name_def)
  then show ?thesis by (auto simp: getall_def intro!: arg_cong [of _ _ "map snd"] filter_cong)
qed

lemma apply_security_headers_hardened:
  assumes "apply_security_headers r = Inr r'"
  shows "hardened r'"
proof -
  let ?hs = "fold (\<lambda>(n, v). setdefault n v) default_headers (resp_headers r)"
  have r': "resp_headers r' = filter (\<lambda>(n, _). \<not> cors_name n) ?hs"
    using assms by (auto simp: apply_security_headers_def Let_def res_simps dest!: drop_cors_all)
  have "getall n (resp_headers r') \<noteq> []" if "(n, v) \<in> set default_headers" for n v
  proof -
    have n: "n \<in> fst ` set default_headers" using that by (rule rev_image_eqI) simp
    then show ?thesis
      unfolding r' using getall_filter_cors [OF default_headers_not_cors [OF n]] fold_setdefault_present by simp
  qed
  then show ?thesis by (auto simp: hardened_def r')
qed

lemma getall_set_header: "getall m hs \<noteq> [] \<Longrightarrow> getall m (set_header n v hs) \<noteq> []"
  by (induction n v hs rule: set_header.induct) (auto simp: getall_Nil_iff split: if_splits)

lemma set_set_header: "set (set_header n v hs) \<subseteq> insert (n, v) (set hs)"
  by (induction n v hs rule: set_header.induct) auto

lemma hardened_put_header:
  "hardened r \<Longrightarrow> \<not> cors_name (lit name) \<Longrightarrow> hardened (put_header name v r)"
  using set_set_header [of "lit name" v "resp_headers r"]
  by (auto simp: hardened_def put_header_def dest: getall_set_header)

lemma hardened_set_csrf_cookie [simp]: "hardened (set_csrf_cookie c token r) = hardened r"
  by (simp add: hardened_def set_csrf_cookie_def)

lemma csrf_header_not_cors: "\<not> cors_name (lit ''X-CSRF-Token'')"
  by code_simp

text \<open>
  What leaves the middleware: hardened headers, and if the fields were already sent then these are of
  kind \<open>H\<close>. Responses that the middleware builds itself are never prepared.
\<close>

definition guarded :: "(headers \<Rightarrow> bool) \<Rightarrow> http_response \<Rightarrow> bool" where
  "guarded H r \<longleftrightarrow> hardened r \<and> (\<forall>hs. resp_prepared r = Some hs \<longrightarrow> H hs)"

lemma apply_keeps_prepared: "apply_security_headers r = Inr r' \<Longrightarrow> resp_prepared r' = resp_prepared r"
  by (auto simp: apply_security_headers_def Let_def res_simps)

lemma apply_security_headers_guarded:
  "apply_security_headers r = Inr r' \<Longrightarrow> (\<And>hs. resp_prepared r = Some hs \<Longrightarrow> H hs) \<Longrightarrow> guarded H r'"
  by (simp add: guarded_def apply_security_headers_hardened apply_keeps_prepared)

lemma error_response_unprepared:
  "error_response request status code message hs = Inr r \<Longrightarrow> resp_prepared r = None"
  by (auto simp: error_response_def res_simps split: if_splits)

lemma http_exception_unprepared: "http_exception_response request exc = Inr r \<Longrightarrow> resp_prepared r = None"
  by (auto simp: http_exception_response_def dest: error_response_unprepared split: if_splits)

lemma unprepared_guarded:
  "error_response request status code message hs = Inr r \<Longrightarrow> apply_security_headers r = Inr r' \<Longrightarrow> guarded H r'"
  "http_exception_response request exc = Inr r \<Longrightarrow> apply_security_headers r = Inr r' \<Longrightarrow> guarded H r'"
  by (erule apply_security_headers_guarded, simp add: error_response_unprepared http_exception_unprepared)+

lemma prepared_fields [simp]:
  "resp_prepared (set_csrf_cookie c token r) = resp_prepared r"
  "resp_prepared (put_header name v r) = resp_prepared r"
  by (simp_all add: set_csrf_cookie_def put_header_def)

lemma guarded_csrf_fields:
  "guarded H r \<Longrightarrow> guarded H (set_csrf_cookie c token r)"
  "guarded H r \<Longrightarrow> guarded H (put_header ''X-CSRF-Token'' v r)"
  by (simp_all add: guarded_def hardened_put_header csrf_header_not_cors)

lemma returns_hardened_call:
  assumes "\<And>s r t hs. call s = (Inr (Responded r), t) \<Longrightarrow> resp_prepared r = Some hs \<Longrightarrow> H hs"
  shows "returns (guarded H) (hardened_call request call)"
proof -
  have "returns (\<lambda>outcome. \<forall>r hs. outcome = Responded r \<and> resp_prepared r = Some hs \<longrightarrow> H hs) call"
    using assms by (auto simp: returns_def)
  then show ?thesis unfolding hardened_call_def
  proof (rule returns_bind)
    fix outcome
    assume "\<forall>r hs. outcome = Responded r \<and> resp_prepared r = Some hs \<longrightarrow> H hs"
    then have "returns (\<lambda>r. \<forall>hs. resp_prepared r = Some hs \<longrightarrow> H hs)
        (case outcome of Responded response \<Rightarrow> returnA response
         | HttpRaised exc \<Rightarrow> liftE (http_exception_response request exc))"
      by (auto split: handler_outcome.split intro!: returns_rules dest: http_exception_unprepared)
    then show "returns (guarded H) (bindA (case outcome of Responded response \<Rightarrow> returnA response
         | HttpRaised exc \<Rightarrow> liftE (http_exception_response request exc)) (\<lambda>response.
           liftE (apply_security_headers response)))"
      by (rule returns_bind) (auto intro!: returns_rules intro: apply_security_headers_guarded)
  qed
qed

lemma returns_hardened_error [returns_rules]: "returns (guarded H) (hardened_error request status code message hs)"
  unfolding hardened_error_def
  by (intro returns_rules)
    (auto simp: res_simps intro: unprepared_guarded)

lemma returns_recoverable [returns_rules]:
  "returns (guarded H) (recoverable_csrf_rejection env p request message scope flow_id code)"
  unfolding recoverable_csrf_rejection_def
  by (rule returns_bind [of "\<lambda>r. resp_prepared r = None"], simp add: returns_def liftE_def error_response_unprepared)
    (intro returns_rules, auto intro: apply_security_headers_guarded)

abbreviation guarded_admission :: "(headers \<Rightarrow> bool) \<Rightarrow> admission \<Rightarrow> bool" where
  "guarded_admission H a \<equiv> (case a of Reject r \<Rightarrow> guarded H r | Pass _ _ \<Rightarrow> True)"

lemma returns_reject [returns_rules]: "returns (guarded H) m \<Longrightarrow> returns (guarded_admission H) (rejectA m)"
  unfolding rejectA_def by (erule returns_bind) (simp add: returns_return)

lemma returns_pass [returns_rules]: "returns (guarded_admission H) (returnA (Pass token after))"
  by (simp add: returns_return)

lemma returns_admit_submission [returns_rules]:
  "returns (guarded_admission H)
     (admit_submission env p read_form request scope flow_id base state_key token nonce)"
  unfolding admit_submission_def exchange_token_def
  by (rule returns_bind_any)
    (auto split: submission.splits simp: res_simps intro!: returns_rules intro: unprepared_guarded)

lemma returns_admit: "returns (guarded_admission H) (admit env p read_form request)"
  unfolding admit_def admit_safe_def admit_write_def issue_token_def
  by (intro returns_rules)

lemma returns_after_response:
  "guarded H r \<Longrightarrow> returns (guarded H) (after_response env p request after r)"
  unfolding after_response_def
  by (cases after) (auto intro!: returns_rules guarded_csrf_fields)

text \<open>
  C31. Unless a handler has already sent the headers of its response by preparing it, every response
  that leaves the middleware goes out with each of the protective headers and without any
  \<open>Access-Control-\<close> header, so no page of another origin can read it. Headers that are already sent
  are those with which a handler prepared the response it returned for this request; the
  middleware's own responses are never among them.
\<close>

theorem responses_hardened:
  assumes "security_middleware env p read_form handler request s = (Inr response, t)"
  shows "case resp_prepared response of
      None \<Rightarrow> (\<forall>(n, v) \<in> set (wire_headers response). \<not> cors_name n)
        \<and> (\<forall>(n, v) \<in> set default_headers. getall n (wire_headers response) \<noteq> [])
    | Some hs \<Rightarrow> wire_headers response = hs
        \<and> (\<exists>token u r v. handler request token u = (Inr (Responded r), v) \<and> resp_prepared r = Some hs)"
proof -
  let ?H = "\<lambda>hs. \<exists>token u r v. handler request token u = (Inr (Responded r), v) \<and> resp_prepared r = Some hs"
  have "returns (guarded ?H) (bindA (hardened_call request (handler request token)) (after_response env p request after))"
    for token after
  proof (rule returns_bind)
    show "returns (guarded ?H) (hardened_call request (handler request token))"
      by (rule returns_hardened_call) blast
  qed (rule returns_after_response)
  then have "returns (guarded ?H) (security_middleware env p read_form handler request)"
    unfolding security_middleware_def
    by (intro returns_bind [OF returns_admit]) (auto split: admission.splits intro!: returns_return)
  from returnsD [OF this assms] show ?thesis
    by (auto simp: guarded_def hardened_def wire_headers_def split: option.split)
qed

section \<open>Writes\<close>

lemma rejectA_Pass: "rejectA m s \<noteq> (Inr (Pass token after), t)"
  by (auto simp: rejectA_def bindA_Inr returnA_def)

lemma with_states_Inr:
  "with_states m s = (Inr x, t) \<Longrightarrow>
     \<exists>u v. m u = (Inr x, v) \<and> db u = registry (db s) \<and> registry (db t) = db v"
  by (auto simp: with_states_def split: prod.splits) (force intro: exI)

text \<open>
  What a write that reaches its handler has shown: the registry \<open>before\<close> held its nonce, and the
  exchange of this nonce for a new one left \<open>after\<close>.
\<close>

definition nonce_exchanged ::
  "security_env \<Rightarrow> 'w csrf_policy \<Rightarrow> CsrfScope \<Rightarrow> pystr \<Rightarrow> pystr \<Rightarrow> csrf_entries \<Rightarrow> csrf_entries \<Rightarrow> bool" where
  "nonce_exchanged env p scope flow nonce before after \<longleftrightarrow>
     (\<exists>base state_key replacement u v. state_identity env (csrf_key p) scope flow = Inr (base, state_key)
        \<and> rotate env (states p) base state_key nonce replacement u = (Inr True, v) \<and> db u = before \<and> db v = after)"

lemma exchange_token_Pass:
  assumes "exchange_token env p request scope flow_id base state_key nonce s = (Inr (Pass token after), t)"
    and ident: "state_identity env (csrf_key p) scope flow_id = Inr (base, state_key)"
  shows "nonce_exchanged env p scope flow_id nonce (registry (db s)) (registry (db t))"
proof -
  have keep: "new_csrf_token env k f s = (Inr x, u) \<Longrightarrow> db u = db s"
    "token_parts env p tok s' = (Inr y, u') \<Longrightarrow> db u' = db s'" for k f u x tok y s' u'
    by (auto simp: new_csrf_token_def token_parts_def verify_csrf_token_def bindA_def read_wall_def token_urlsafe_def
        returnA_def raiseA_def liftE_def Let_def split: option.splits if_splits sum.splits prod.splits list.splits)
  have "\<exists>replacement u v. rotate env (states p) base state_key nonce replacement u = (Inr True, v)
      \<and> db u = registry (db s) \<and> registry (db t) = db v"
    using assms(1) unfolding exchange_token_def bindA_Inr
    by (auto simp: rejectA_Pass returnA_def bindA_Inr split: if_splits prod.splits dest!: with_states_Inr keep) blast
  then show ?thesis unfolding nonce_exchanged_def using ident by metis
qed

lemma admit_submission_Pass:
  assumes "admit_submission env p read_form request scope flow_id base state_key token nonce s
      = (Inr (Pass shown after), t)"
    and "state_identity env (csrf_key p) scope flow_id = Inr (base, state_key)"
  shows "\<exists>u. submitted_csrf_token read_form request s = (Inr (Submitted (Some token)), u)
    \<and> nonce_exchanged env p scope flow_id nonce (registry (db u)) (registry (db t))"
proof -
  from assms(1) obtain submission u where
    sub: "submitted_csrf_token read_form request s = (Inr submission, u)"
    and rest: "(case submission of
       SubmissionRaised exc \<Rightarrow>
         rejectA (liftE (bind_res (http_exception_response request exc) apply_security_headers))
     | Submitted submitted \<Rightarrow>
         bindA (case submitted of None \<Rightarrow> returnA False | Some t \<Rightarrow> liftE (compare_digest token t)) (\<lambda>same.
         if \<not> same then
           rejectA (recoverable_csrf_rejection env p request ''CSRF check failed; refresh.'' scope flow_id ''csrf_failed'')
         else exchange_token env p request scope flow_id base state_key nonce)) u = (Inr (Pass shown after), t)"
    unfolding admit_submission_def bindA_Inr by blast
  from rest have "submission = Submitted (Some token)
    \<and> exchange_token env p request scope flow_id base state_key nonce u = (Inr (Pass shown after), t)"
    by (auto simp: rejectA_Pass bindA_Inr returnA_def liftE_def compare_digest_def
        split: submission.splits option.splits if_splits)
  then show ?thesis using sub exchange_token_Pass [OF _ assms(2)] by auto
qed

lemma admit_write_Pass:
  assumes "admit_write env p read_form request scope cookie flow_id base state_key s = (Inr (Pass shown after), t)"
    and "state_identity env (csrf_key p) scope flow_id = Inr (base, state_key)"
  shows "req_method request = lit ''POST'' \<and> same_origin env (config p) request = Inr True
    \<and> \<not> cross_site_fetch request \<and> content_type_ok request
    \<and> (\<exists>token nonce flow u v. cookie = Some (token, nonce, flow)
         \<and> submitted_csrf_token read_form request u = (Inr (Submitted (Some token)), v)
         \<and> nonce_exchanged env p scope flow_id nonce (registry (db v)) (registry (db t)))"
proof -
  have checks: "req_method request = lit ''POST'' \<and> same_origin env (config p) request = Inr True
    \<and> \<not> cross_site_fetch request \<and> content_type_ok request
    \<and> (\<exists>token nonce flow u. cookie = Some (token, nonce, flow)
         \<and> admit_submission env p read_form request scope flow_id base state_key token nonce u = (Inr (Pass shown after), t))"
    using assms(1) unfolding admit_write_def seqA_def
    by (auto simp: rejectA_Pass bindA_Inr liftE_def split: option.splits if_splits prod.splits)
  then obtain token nonce flow u where cookie: "cookie = Some (token, nonce, flow)"
    and sub: "admit_submission env p read_form request scope flow_id base state_key token nonce u
      = (Inr (Pass shown after), t)"
    by blast
  from admit_submission_Pass [OF sub assms(2)] cookie checks show ?thesis by blast
qed

lemma verified_cookie_Some:
  "verified_cookie env p request s = (Inr (Some (token, nonce, flow)), t) \<Longrightarrow>
     map_of (req_cookies request) (csrf_cookie_name (config p)) = Some token
     \<and> (\<exists>issued. verify_csrf_token env token (csrf_key p) (csrf_max_age (config p)) s
          = (Inr (Some (nonce, issued, flow)), t))"
  by (auto simp: verified_cookie_def bindA_Inr returnA_def split: option.splits if_splits)

lemma admit_Pass:
  fixes p :: "'w csrf_policy"
  assumes "admit env p read_form request s = (Inr (Pass shown after), t)" "req_method request \<notin> SAFE_METHODS"
  shows "req_method request = lit ''POST'' \<and> host_header_ok env (config p) request
    \<and> same_origin env (config p) request = Inr True \<and> \<not> cross_site_fetch request \<and> content_type_ok request
    \<and> (\<exists>token nonce issued flow scope (u :: 'w process store) u' v v'.
         map_of (req_cookies request) (csrf_cookie_name (config p)) = Some token
         \<and> verify_csrf_token env token (csrf_key p) (csrf_max_age (config p)) u = (Inr (Some (nonce, issued, flow)), u')
         \<and> submitted_csrf_token read_form request v = (Inr (Submitted (Some token)), v')
         \<and> nonce_exchanged env p scope flow nonce (registry (db v')) (registry (db t)))"
proof -
  from assms(1) have host: "host_header_ok env (config p) request"
    by (auto simp: admit_def rejectA_Pass split: if_splits)
  with assms obtain scope cookie flow_id base state_key and u u' w :: "'w process store" where
    steps: "verified_cookie env p request u = (Inr cookie, u')" "cookie_flow env p cookie u' = (Inr flow_id, w)"
      "state_identity env (csrf_key p) scope flow_id = Inr (base, state_key)"
    and "\<exists>w. admit_write env p read_form request scope cookie flow_id base state_key w = (Inr (Pass shown after), t)"
    by (auto simp: admit_def bindA_Inr liftE_def split: prod.splits) blast
  from this(4) obtain w' where
    "admit_write env p read_form request scope cookie flow_id base state_key w' = (Inr (Pass shown after), t)" ..
  note w = admit_write_Pass [OF this steps(3)]
  then obtain token nonce flow v v' where cookie: "cookie = Some (token, nonce, flow)"
    "submitted_csrf_token read_form request v = (Inr (Submitted (Some token)), v')"
    "nonce_exchanged env p scope flow_id nonce (registry (db v')) (registry (db t))"
    by blast
  with steps(2) have "flow_id = flow" by (auto simp: cookie_flow_def returnA_def)
  with w host cookie verified_cookie_Some [OF steps(1) [unfolded cookie(1)]] show ?thesis by blast
qed

text \<open>
  C25. A write reaches its handler only through every check. If the outcome of a request that is
  neither \<open>GET\<close> nor \<open>HEAD\<close> depends on the handler at all, then it is a \<open>POST\<close> with one allowed
  \<open>Host\<close>, of the same origin, not fetched across sites, with the content type of its path; its
  cookie is an authentic token of this process and within its age; the token it submitted is that
  cookie; and the handler starts from a registry in which the token's nonce was current and has
  just been exchanged.
\<close>

theorem writes_guarded:
  fixes p :: "'w csrf_policy"
  assumes "req_method request \<notin> SAFE_METHODS"
    and "security_middleware env p read_form h1 request s \<noteq> security_middleware env p read_form h2 request s"
  shows "req_method request = lit ''POST'' \<and> host_header_ok env (config p) request
    \<and> same_origin env (config p) request = Inr True \<and> \<not> cross_site_fetch request \<and> content_type_ok request
    \<and> (\<exists>token nonce issued flow scope shown after t (u :: 'w process store) u' v v'.
         map_of (req_cookies request) (csrf_cookie_name (config p)) = Some token
         \<and> verify_csrf_token env token (csrf_key p) (csrf_max_age (config p)) u = (Inr (Some (nonce, issued, flow)), u')
         \<and> submitted_csrf_token (read_form request) request v = (Inr (Submitted (Some token)), v')
         \<and> admit env p (read_form request) request s = (Inr (Pass shown after), t)
         \<and> nonce_exchanged env p scope flow nonce (registry (db v')) (registry (db t)))"
proof -
  obtain shown after t where admitted: "admit env p (read_form request) request s = (Inr (Pass shown after), t)"
    using assms(2) unfolding security_middleware_def bindA_def
    by (auto split: prod.splits sum.splits admission.splits)
  from admit_Pass [OF admitted assms(1)] admitted show ?thesis by blast
qed

section \<open>A browser that follows the protocol\<close>

text \<open>
  The exchange below takes place while the clocks move less than the age of a token and its life in
  the registry. The lengths are those of HMAC-SHA256 and of the system's random source.
\<close>

definition timely :: "security_env \<Rightarrow> 'w csrf_policy \<Rightarrow> bool" where
  "timely env p \<longleftrightarrow>
     (\<forall>k m. length (hmac_sha256 env k m) = 32) \<and> (\<forall>d n. length (token_bytes env d n) = n)
     \<and> (\<forall>i. 0 \<le> wall_seconds env i \<and> wall_seconds env i < 10 ^ 100)
     \<and> (\<forall>i j. wall_seconds env i - 60 \<le> wall_seconds env j
           \<and> wall_seconds env j - wall_seconds env i \<le> csrf_max_age (config p))
     \<and> (\<forall>i j. monotonic env j < monotonic env i + ttl (states p) * 10 ^ 9)"

text \<open>A token that verifies whenever it is presented.\<close>

definition authentic :: "security_env \<Rightarrow> 'w csrf_policy \<Rightarrow> pystr \<Rightarrow> pystr \<Rightarrow> pystr \<Rightarrow> bool" where
  "authentic env p token nonce flow \<longleftrightarrow> isascii token \<and> token \<noteq> [] \<and> isascii nonce \<and> issuable env (Some flow)
     \<and> (\<forall>u :: 'w process store. \<exists>i. verify_csrf_token env token (csrf_key p) (csrf_max_age (config p)) u
          = (Inr (Some (nonce, i, flow)), u\<lparr>readings := Suc (readings u)\<rparr>))"

lemma new_token_authentic:
  fixes p :: "'w csrf_policy" and s :: "'w process store"
  assumes t: "timely env p" and new: "new_csrf_token env (csrf_key p) flow_id s = (Inr token, t)"
  shows "\<exists>nonce flow. authentic env p token nonce flow \<and> (flow_id = None \<or> flow_id = Some flow)"
proof -
  have lens: "\<And>k m. length (hmac_sha256 env k m) = 32" "\<And>d n. length (token_bytes env d n) = n"
    and clock: "0 \<le> wall_seconds env i" "wall_seconds env i < 10 ^ 100"
      "wall_seconds env i - 60 \<le> wall_seconds env j"
      "wall_seconds env j - wall_seconds env i \<le> csrf_max_age (config p)" for i j
    using t by (auto simp: timely_def)
  from issued_token_verifies [OF lens new refl clock(1,2), where max_age = "csrf_max_age (config p)"
      and 'e = "'w process"]
  show ?thesis using clock(3,4) unfolding authentic_def by blast
qed

lemma token_parts_authentic:
  fixes p :: "'w csrf_policy" and u :: "'w process store"
  assumes "authentic env p token nonce flow"
  shows "token_parts env p token u = (Inr (nonce, flow), u\<lparr>readings := Suc (readings u)\<rparr>)"
proof -
  obtain i where "verify_csrf_token env token (csrf_key p) (csrf_max_age (config p)) u
      = (Inr (Some (nonce, i, flow)), u\<lparr>readings := Suc (readings u)\<rparr>)"
    using assms by (auto simp: authentic_def)
  then show ?thesis by (simp add: token_parts_def bindA_def returnA_def)
qed

text \<open>Issuing a token for a flow: it is authentic, and the process has moved only its clock and its draws.\<close>

lemma issue_authentic:
  fixes p :: "'w csrf_policy" and s :: "'w process store"
  assumes "timely env p" "issuable env flow_id"
  obtains token nonce flow t where
    "new_csrf_token env (csrf_key p) flow_id s = (Inr token, t)" "authentic env p token nonce flow"
    "flow_id = None \<or> flow_id = Some flow" "db t = db s"
proof -
  have len: "\<And>d n. length (token_bytes env d n) = n" using assms(1) by (simp add: timely_def)
  from new_csrf_token_returns [OF len assms(2), of "csrf_key p" s] obtain token t where
    new: "new_csrf_token env (csrf_key p) flow_id s = (Inr token, t)" "db t = db s"
    by force
  from new_token_authentic [OF assms(1) new(1)] new that show thesis by blast
qed

text \<open>What a safe request leaves behind when its response sets the cookie.\<close>

lemma issue_token_installs:
  fixes p :: "'w csrf_policy"
  assumes t: "timely env p" and iss: "issuable env (Some flow)"
    and pass: "issue_token env p flow base key s = (Inr (Pass shown after), t)"
  shows "\<exists>token nonce st. shown = Some token \<and> after = CookieAfter token \<and> authentic env p token nonce flow
    \<and> map_of (registry (db t)) key = Some st \<and> cc_nonce st = nonce \<and> (\<forall>j. monotonic env j < cc_expires_at st)"
proof -
  obtain token nonce u where new: "new_csrf_token env (csrf_key p) (Some flow) s = (Inr token, u)"
    "authentic env p token nonce flow" "db u = db s"
    by (rule issue_authentic [OF t iss]) auto
  have "shown = Some token \<and> after = CookieAfter token
      \<and> with_states (replace env (states p) base key nonce) (u\<lparr>readings := Suc (readings u)\<rparr>) = (Inr (), t)"
    using pass new(1) by (auto simp: issue_token_def bindA_Inr seqA_def token_parts_authentic [OF new(2)] returnA_def)
  moreover from this obtain st where "map_of (registry (db t)) key = Some st" "cc_nonce st = nonce"
    "\<exists>i. cc_expires_at st = monotonic env i + ttl (states p) * 10 ^ 9"
    by (auto simp: with_states_def split: prod.splits dest!: replace_installs) force
  ultimately show ?thesis using new(2) t by (auto simp: timely_def)
qed

lemma exchange_token_passes:
  fixes p :: "'w csrf_policy"
  assumes t: "timely env p" and a: "authentic env p token nonce flow"
    and entry: "map_of (registry (db s)) key = Some st" "cc_nonce st = nonce" "\<forall>j. monotonic env j < cc_expires_at st"
  shows "\<exists>shown u. exchange_token env p request scope flow base key nonce s
    = (Inr (Pass (Some shown) (RotatedAfter scope flow shown)), u)"
proof -
  from a have iss: "issuable env (Some flow)" "isascii nonce" by (auto simp: authentic_def)
  obtain shown nonce' v where new: "new_csrf_token env (csrf_key p) (Some flow) s = (Inr shown, v)"
    "authentic env p shown nonce' flow" "db v = db s"
    by (rule issue_authentic [OF t iss(1)]) auto
  let ?v = "v\<lparr>readings := Suc (readings v)\<rparr>"
  have "fst (with_states (rotate env (states p) base key nonce nonce') ?v) = Inr True"
    using current_nonce_usable(2) [of "\<lparr>db = registry (db ?v), draws = draws ?v, readings = readings ?v, closed = closed ?v\<rparr>"
        key st env "states p" base nonce'] entry iss(2) new(3)
    by (auto simp: with_states_def split: prod.splits)
  then obtain u where "with_states (rotate env (states p) base key nonce nonce') ?v = (Inr True, u)"
    by (cases "with_states (rotate env (states p) base key nonce nonce') ?v") auto
  then show ?thesis
    by (simp add: exchange_token_def bindA_def new(1) token_parts_authentic [OF new(2)] returnA_def)
qed

text \<open>A write as the browser sends it: the cookie's token again in the header.\<close>

definition proper_write :: "security_env \<Rightarrow> 'w csrf_policy \<Rightarrow> http_request \<Rightarrow> pystr \<Rightarrow> bool" where
  "proper_write env p request token \<longleftrightarrow> req_method request = lit ''POST''
     \<and> host_header_ok env (config p) request \<and> same_origin env (config p) request = Inr True
     \<and> \<not> cross_site_fetch request \<and> content_type_ok request
     \<and> map_of (req_cookies request) (csrf_cookie_name (config p)) = Some token
     \<and> getall (lit ''X-CSRF-Token'') (req_headers request) = [token]"

lemma proper_write_passes:
  fixes p :: "'w csrf_policy"
  assumes t: "timely env p" and a: "authentic env p token nonce flow"
    and ident: "state_identity env (csrf_key p) scope flow = Inr (base, key)"
    and entry: "map_of (registry (db s)) key = Some st" "cc_nonce st = nonce" "\<forall>j. monotonic env j < cc_expires_at st"
    and post: "proper_write env p request token" and scope: "request_scope p request s = (Inr scope, s)"
  shows "\<exists>shown u. admit env p read_form request s = (Inr (Pass (Some shown) (RotatedAfter scope flow shown)), u)"
proof -
  let ?s = "s\<lparr>readings := Suc (readings s)\<rparr>"
  have "req_method request \<notin> SAFE_METHODS" using post by (auto simp: proper_write_def SAFE_METHODS_def lit_def)
  moreover have "verified_cookie env p request s = (Inr (Some (token, nonce, flow)), ?s)"
  proof -
    from a obtain i where "verify_csrf_token env token (csrf_key p) (csrf_max_age (config p)) s
        = (Inr (Some (nonce, i, flow)), ?s)"
      by (auto simp: authentic_def)
    then show ?thesis using post a
      by (simp add: verified_cookie_def proper_write_def authentic_def bindA_def returnA_def)
  qed
  moreover have "admit_write env p read_form request scope (Some (token, nonce, flow)) flow base key ?s
      = exchange_token env p request scope flow base key nonce ?s"
    using post a
    by (simp add: admit_write_def seqA_def bindA_def returnA_def liftE_def proper_write_def admit_submission_def
        submitted_csrf_token_def Let_def authentic_def compare_digest_def)
  moreover have "host_header_ok env (config p) request" using post by (simp add: proper_write_def)
  ultimately have "admit env p read_form request s = exchange_token env p request scope flow base key nonce ?s"
    by (simp add: admit_def bindA_def scope cookie_flow_def returnA_def liftE_def ident)
  then show ?thesis using exchange_token_passes [OF t a, of ?s key st] entry by simp
qed

lemma verified_flow_issuable:
  assumes "verify_csrf_token env token key age s = (Inr (Some (nonce, i, flow)), t)"
  shows "issuable env (Some flow)"
  using assms isascii_csrf_payload
  by (auto simp: verify_csrf_token_def issuable_def bindA_Inr returnA_def liftE_def csrf_signature_Inr
      split: if_splits list.splits sum.splits)

text \<open>A first visit, without a cookie, is given a token that the registry knows.\<close>

lemma first_visit_issues:
  fixes p :: "'w csrf_policy"
  assumes t: "timely env p" and safe: "req_method request \<in> SAFE_METHODS" "req_path request \<notin> set (tokenless_paths p)"
    and host: "host_header_ok env (config p) request"
    and no_cookie: "map_of (req_cookies request) (csrf_cookie_name (config p)) = None"
    and scope: "request_scope p request s = (Inr scope, s)" and ident_text: "utf8_encode (scope_identity scope) = Inr identity"
  shows "\<exists>token nonce flow base key st t. admit env p read_form request s = (Inr (Pass (Some token) (CookieAfter token)), t)
    \<and> authentic env p token nonce flow \<and> state_identity env (csrf_key p) scope flow = Inr (base, key)
    \<and> map_of (registry (db t)) key = Some st \<and> cc_nonce st = nonce \<and> (\<forall>j. monotonic env j < cc_expires_at st)"
proof -
  have iss0: "issuable env None" by (simp add: issuable_def)
  obtain first n flow u where first: "new_csrf_token env (csrf_key p) None s = (Inr first, u)"
    "authentic env p first n flow"
    by (rule issue_authentic [OF t iss0, of s]) auto
  let ?u = "u\<lparr>readings := Suc (readings u)\<rparr>"
  have iss: "issuable env (Some flow)" using first(2) by (simp add: authentic_def)
  have "isascii (lit ''session'')" by (simp add: isascii_def lit_def)
  then have "isascii (if partition_by_flow scope then flow else lit ''session'')"
    using iss by (simp add: issuable_def)
  then obtain base key where ident: "state_identity env (csrf_key p) scope flow = Inr (base, key)"
    unfolding state_identity_def ident_text bind_res_simps Let_def by simp
  have "admit env p read_form request s = issue_token env p flow base key ?u"
    using safe host no_cookie
    by (simp add: admit_def bindA_def scope verified_cookie_def cookie_flow_def returnA_def liftE_def first(1)
        token_parts_authentic [OF first(2)] ident admit_safe_def)
  moreover obtain token nonce v where new: "new_csrf_token env (csrf_key p) (Some flow) ?u = (Inr token, v)"
    "authentic env p token nonce flow"
    by (rule issue_authentic [OF t iss, of ?u]) auto
  moreover obtain w where "with_states (replace env (states p) base key nonce) (v\<lparr>readings := Suc (readings v)\<rparr>) = (Inr (), w)"
  proof -
    let ?v = "v\<lparr>readings := Suc (readings v)\<rparr>"
    let ?r = "\<lparr>db = registry (db ?v), draws = draws ?v, readings = readings ?v, closed = closed ?v\<rparr>"
    obtain r x where "replace env (states p) base key nonce ?r = (r, x)" by fastforce
    with replace_installs [OF this] show thesis using that by (simp add: with_states_def)
  qed
  ultimately have "admit env p read_form request s = (Inr (Pass (Some token) (CookieAfter token)), w)"
    "issue_token env p flow base key ?u = (Inr (Pass (Some token) (CookieAfter token)), w)"
    by (simp_all add: issue_token_def bindA_def seqA_def token_parts_authentic returnA_def)
  with issue_token_installs [OF t iss this(2)] ident show ?thesis by blast
qed

text \<open>
  C28. A browser that follows the protocol is served. A first \<open>GET\<close> or \<open>HEAD\<close> gives it a token; a
  write of the same scope that presents this token in the cookie and in the header, with the right
  host, origin and content type, while the registry is untouched and the clocks stay within the
  token's age, is passed to the handler.
\<close>

theorem issued_token_accepted:
  fixes p :: "'w csrf_policy"
  assumes "timely env p"
    and "req_method get \<in> SAFE_METHODS" "req_path get \<notin> set (tokenless_paths p)" "host_header_ok env (config p) get"
    and "map_of (req_cookies get) (csrf_cookie_name (config p)) = None"
    and "request_scope p get s = (Inr scope, s)" "utf8_encode (scope_identity scope) = Inr identity"
  shows "\<exists>token t. admit env p read_form get s = (Inr (Pass (Some token) (CookieAfter token)), t)
    \<and> (\<forall>post u read_form'. db u = db t \<longrightarrow> proper_write env p post token \<longrightarrow>
          request_scope p post u = (Inr scope, u) \<longrightarrow>
          (\<exists>shown after v. admit env p read_form' post u = (Inr (Pass (Some shown) after), v)))"
proof -
  obtain token nonce flow base key st t where
    issued: "admit env p read_form get s = (Inr (Pass (Some token) (CookieAfter token)), t)"
      "authentic env p token nonce flow" "state_identity env (csrf_key p) scope flow = Inr (base, key)"
      "map_of (registry (db t)) key = Some st" "cc_nonce st = nonce" "\<forall>j. monotonic env j < cc_expires_at st"
    using first_visit_issues [OF assms] by blast
  have "\<exists>shown after v. admit env p read_form' post u = (Inr (Pass (Some shown) after), v)"
    if "db u = db t" "proper_write env p post token" "request_scope p post u = (Inr scope, u)" for post u read_form'
    using proper_write_passes [OF assms(1) issued(2,3) _ issued(5,6) that(2,3), of read_form'] issued(4) that(1) by auto
  with issued(1) show ?thesis by blast
qed

section \<open>Concrete requests\<close>

definition steady_env :: security_env where
  "steady_env = sample_security_env\<lparr>wall_seconds := \<lambda>_. 1000, monotonic := \<lambda>_. 0\<rparr>"

definition sample_policy :: "unit csrf_policy" where
  "sample_policy =
     \<lparr>config = \<lparr>allowed_hosts = [lit ''mail''], session_signing_key = replicate 32 7, public_origins = [],
        secure_cookies = True, csrf_cookie_name = lit ''csrf'', csrf_max_age = 3600,
        request_body_timeout = 10 ^ 9\<rparr>,
      scope_resolver = None, tokenless_paths = [lit ''/health''],
      states = \<lparr>capacity = 4096, flows_per_identity = 8, ttl = 3600\<rparr>, csrf_key = replicate 32 9\<rparr>"

definition sample_get :: http_request where
  "sample_get = \<lparr>req_method = lit ''GET'', req_path = lit ''/'', req_scheme = lit ''http'', req_host = lit ''mail'',
     req_remote = None, req_headers = [(lit ''host'', lit ''mail'')], req_cookies = [], req_content_type = []\<rparr>"

definition sample_post :: "pystr \<Rightarrow> http_request" where
  "sample_post token = \<lparr>req_method = lit ''POST'', req_path = lit ''/login'', req_scheme = lit ''http'',
     req_host = lit ''mail'', req_remote = None,
     req_headers = [(lit ''Host'', lit ''mail''), (lit ''Origin'', lit ''http://mail''),
       (lit ''Content-Type'', lit ''application/x-www-form-urlencoded''), (lit ''x-csrf-token'', token)],
     req_cookies = [(lit ''csrf'', token)], req_content_type = lit ''application/x-www-form-urlencoded''\<rparr>"

definition no_form :: "(unit process, form_outcome) act" where
  "no_form = returnA (Form [])"

abbreviation sample_start :: "unit process store" where
  "sample_start \<equiv> sample_process \<lparr>registry = [], world = ()\<rparr>"

lemma steady_timely: "timely steady_env sample_policy"
  by (simp add: timely_def steady_env_def sample_security_env_def sample_policy_def)

lemma sample_scope:
  "request_scope sample_policy sample_get s = (Inr \<lparr>scope_identity = lit ''client:unknown'', partition_by_flow = True\<rparr>, s)"
  "request_scope sample_policy (sample_post token) s
     = (Inr \<lparr>scope_identity = lit ''client:unknown'', partition_by_flow = True\<rparr>, s)"
  by (simp_all add: request_scope_def sample_policy_def sample_get_def sample_post_def bindA_def returnA_def
      contains_forbidden_header_characters_def lit_def)

lemmas url_eval = urlsplit_def split_scheme_def scheme_char_def partition_def rpartition_def check_netloc_def
  check_bracketed_netloc_def url_userinfo_def url_hostinfo_def url_hostname_def url_port_def idna_encode_def
  py_lower_def rstrip_dots_def contains_forbidden_header_characters_def text_eval Let_def

lemma sample_authority: "normalize_authority env (lit ''mail'') = Inr (lit ''mail'', None)"
  by (simp add: normalize_authority_def url_eval)

lemma sample_origin: "normalize_origin env (lit ''http://mail'') = Inr (lit ''http://mail'')"
  by (simp add: normalize_origin_def url_eval)

lemma sample_host: "host_header_ok steady_env (config sample_policy) sample_get"
  by (simp add: host_header_ok_def sample_get_def sample_policy_def host_is_allowed_def sample_authority)
    (simp add: getall_def text_eval host_is_allowed_def sample_authority [unfolded lit_def, simplified])

lemma sample_proper_write: "proper_write steady_env sample_policy (sample_post token) token"
proof -
  have h: "getall (lit ''Host'') (req_headers (sample_post token)) = [lit ''mail'']"
    "getall (lit ''Origin'') (req_headers (sample_post token)) = [lit ''http://mail'']"
    "getall (lit ''Referer'') (req_headers (sample_post token)) = []"
    "getall (lit ''Sec-Fetch-Site'') (req_headers (sample_post token)) = []"
    "getall (lit ''Content-Type'') (req_headers (sample_post token)) = [lit ''application/x-www-form-urlencoded'']"
    "getall (lit ''X-CSRF-Token'') (req_headers (sample_post token)) = [token]"
    by (simp_all add: sample_post_def getall_def text_eval)
  have "same_origin steady_env (config sample_policy) (sample_post token) = Inr True"
  proof -
    have "lit ''http'' @ lit ''://'' @ lit ''mail'' = lit ''http://mail''" "lit ''http://mail'' \<noteq> lit ''null''"
      "isascii (lit ''http://mail'')"
      by (simp_all add: lit_def isascii_def)
    then show ?thesis
      by (simp add: same_origin_def h origin_is_allowed_def origin_matches_def normalized_origins_def sample_origin
          compare_digest_def sample_policy_def) (simp add: sample_post_def sample_origin compare_digest_def)
  qed
  then show ?thesis
    by (simp add: proper_write_def h host_header_ok_def host_is_allowed_def sample_authority cross_site_fetch_def
        content_type_ok_def sample_policy_def)
      (simp add: sample_post_def required_content_type_def is_api_path_def lit_def)
qed

lemma sample_get_facts:
  "req_method sample_get \<in> SAFE_METHODS" "req_path sample_get \<notin> set (tokenless_paths sample_policy)"
  "map_of (req_cookies sample_get) (csrf_cookie_name (config sample_policy)) = None"
  by (simp_all add: sample_get_def sample_policy_def SAFE_METHODS_def lit_def)

lemma sample_identity:
  "utf8_encode (scope_identity \<lparr>scope_identity = lit ''client:unknown'', partition_by_flow = True\<rparr>)
     = Inr (map of_nat (lit ''client:unknown''))"
  using utf8_encode_ascii [of "lit ''client:unknown''"] by (simp add: lit_def isascii_def)

lemmas sample_visit = steady_timely sample_get_facts(1,2) sample_host sample_get_facts(3) sample_scope(1) sample_identity

theorem responses_hardened_witness:
  "case security_middleware steady_env sample_policy (\<lambda>_. no_form)
      (\<lambda>_ _. returnA (Responded \<lparr>resp_status = 200, resp_reason = None,
         resp_headers = [(lit ''Access-Control-Allow-Origin'', lit ''*'')], resp_body = None, resp_cookies = [], resp_prepared = None\<rparr>))
      (sample_get\<lparr>req_path := lit ''/health''\<rparr>) sample_start of
     (Inr response, t) \<Rightarrow> (\<forall>(n, v) \<in> set (wire_headers response). \<not> cors_name n)
       \<and> (\<forall>(n, v) \<in> set default_headers. getall n (wire_headers response) \<noteq> [])
   | _ \<Rightarrow> False"
proof -
  let ?h = "\<lambda>_ _. returnA (Responded \<lparr>resp_status = 200, resp_reason = None,
         resp_headers = [(lit ''Access-Control-Allow-Origin'', lit ''*'')], resp_body = None, resp_cookies = [], resp_prepared = None\<rparr>)"
  have host: "host_header_ok steady_env (config sample_policy) (sample_get\<lparr>req_path := lit ''/health''\<rparr>)"
    using sample_host by (simp add: host_header_ok_def)
  have "\<exists>r. apply_security_headers \<lparr>resp_status = 200, resp_reason = None,
         resp_headers = [(lit ''Access-Control-Allow-Origin'', lit ''*'')], resp_body = None, resp_cookies = [], resp_prepared = None\<rparr> = Inr r"
    by (simp add: apply_security_headers_def default_headers_def setdefault_def getall_def text_eval drop_cors.simps
        cors_name_def del_header_def)
  then obtain r where r: "apply_security_headers \<lparr>resp_status = 200, resp_reason = None,
         resp_headers = [(lit ''Access-Control-Allow-Origin'', lit ''*'')], resp_body = None, resp_cookies = [], resp_prepared = None\<rparr> = Inr r" ..
  from apply_keeps_prepared [OF r] have fresh: "resp_prepared r = None" by simp
  from r have run: "security_middleware steady_env sample_policy (\<lambda>_. no_form) ?h (sample_get\<lparr>req_path := lit ''/health''\<rparr>)
      sample_start = (Inr r, sample_start)"
    using sample_get_facts(1)
    by (simp add: security_middleware_def admit_def host bindA_def returnA_def hardened_call_def liftE_def
        after_response_def) (simp add: sample_policy_def)
  show ?thesis unfolding run using responses_hardened [OF run] fresh by simp
qed

theorem writes_guarded_witness:
  "\<exists>token t. admit steady_env sample_policy no_form sample_get sample_start
      = (Inr (Pass (Some token) (CookieAfter token)), t)
    \<and> req_method (sample_post token) = lit ''POST'' \<and> host_header_ok steady_env (config sample_policy) (sample_post token)
    \<and> same_origin steady_env (config sample_policy) (sample_post token) = Inr True"
proof -
  obtain token nonce flow base key st t where
    issued: "admit steady_env sample_policy no_form sample_get sample_start
        = (Inr (Pass (Some token) (CookieAfter token)), t)"
      "authentic steady_env sample_policy token nonce flow"
      "state_identity steady_env (csrf_key sample_policy)
         \<lparr>scope_identity = lit ''client:unknown'', partition_by_flow = True\<rparr> flow = Inr (base, key)"
      "map_of (registry (db t)) key = Some st" "cc_nonce st = nonce" "\<forall>j. monotonic steady_env j < cc_expires_at st"
    using first_visit_issues [OF sample_visit] by blast
  from proper_write_passes [OF steady_timely issued(2-6) sample_proper_write sample_scope(2), of no_form]
  obtain shown after u where pass: "admit steady_env sample_policy no_form (sample_post token) t
      = (Inr (Pass (Some shown) after), u)"
    by blast
  have "security_middleware steady_env sample_policy (\<lambda>_. no_form) (\<lambda>_ _. raiseA OSError) (sample_post token) t
    \<noteq> security_middleware steady_env sample_policy (\<lambda>_. no_form) (\<lambda>_ _. raiseA KeyError) (sample_post token) t"
    by (simp add: security_middleware_def bindA_def pass hardened_call_def raiseA_def)
  moreover have "req_method (sample_post token) \<notin> SAFE_METHODS"
    by (simp add: sample_post_def SAFE_METHODS_def lit_def)
  ultimately show ?thesis using writes_guarded issued(1) by blast
qed

theorem issued_token_accepted_witness:
  "\<exists>token t shown after v. admit steady_env sample_policy no_form sample_get sample_start
      = (Inr (Pass (Some token) (CookieAfter token)), t)
    \<and> admit steady_env sample_policy no_form (sample_post token) t = (Inr (Pass (Some shown) after), v)"
proof -
  show ?thesis
    using issued_token_accepted [OF sample_visit, of no_form sample_start] sample_proper_write sample_scope(2) by blast
qed

section \<open>Defects\<close>

text \<open>
  The event stream of \<open>mail_events\<close> is prepared inside its handler, so the fields that the middleware
  adds afterwards never reach the browser: it goes out without two of the protective headers.
\<close>

lemma event_stream_not_hardened:
  assumes "resp_prepared r = Some event_stream_headers" "apply_security_headers r = Inr r'"
  shows "getall (lit ''Cross-Origin-Opener-Policy'') (wire_headers r') = []"
    and "getall (lit ''Permissions-Policy'') (wire_headers r') = []"
proof -
  have "wire_headers r' = event_stream_headers"
    using apply_keeps_prepared [OF assms(2)] assms(1) by (simp add: wire_headers_def)
  moreover have "getall (lit ''Cross-Origin-Opener-Policy'') event_stream_headers = []"
    "getall (lit ''Permissions-Policy'') event_stream_headers = []"
    by code_simp+
  ultimately show "getall (lit ''Cross-Origin-Opener-Policy'') (wire_headers r') = []"
    "getall (lit ''Permissions-Policy'') (wire_headers r') = []" by simp_all
qed

text \<open>
  A handler that adds the same CORS field twice makes the removal fail: the loop runs over the names
  as they were, and the second \<open>del\<close> of a name that the first one removed raises \<open>KeyError\<close>. The
  response is then an internal error rather than a response without the field.
\<close>

lemma duplicate_cors_header_raises:
  "apply_security_headers \<lparr>resp_status = 200, resp_reason = None,
     resp_headers = [(lit ''Access-Control-Allow-Origin'', lit ''a''), (lit ''Access-Control-Allow-Origin'', lit ''b'')],
     resp_body = None, resp_cookies = [], resp_prepared = None\<rparr> = Inl KeyError"
  by (simp add: apply_security_headers_def default_headers_def setdefault_def getall_def text_eval drop_cors.simps
      cors_name_def del_header_def)

text \<open>
  A token with a character beyond ASCII in its flow, where \<open>str.isalnum\<close> accepts it, is not refused
  with \<open>None\<close>: signing its payload raises \<open>UnicodeEncodeError\<close>.
\<close>

lemma verify_raises_beyond_ascii:
  assumes "valid_flow env flow" "\<not> isascii flow" "list_all url_char nonce" "nonce \<noteq> []" "length nonce \<le> 64"
    and "length (csrf_payload i flow nonce @ 46 # sig) \<le> 256"
    and "\<not> contains_forbidden_header_characters (csrf_payload i flow nonce @ 46 # sig)"
    and "0 \<le> i" "i - 60 \<le> wall_seconds env (readings s)" "wall_seconds env (readings s) - i \<le> max_age"
  shows "fst (verify_csrf_token env (csrf_payload i flow nonce @ 46 # sig) key max_age s) = Inl UnicodeEncodeError"
proof -
  have "\<not> isascii (csrf_payload i flow nonce)" using assms(2) isascii_csrf_payload by blast
  then show ?thesis
    using assms split_csrf_token [OF assms(1,3,8), of sig] python_int_dec_int [OF assms(8), of env]
    by (auto simp: verify_csrf_token_def bindA_def read_wall_def liftE_def csrf_signature_def not_less)
qed

end
