(* ===== verification/Audit_Log.thy ===== *)
theory Audit_Log
  imports Json_Correct
begin

text \<open>
  \<open>audit.py\<close>: the details of an audit record are copied without the values of sensitive names, without
  objects, and to a bounded depth; the record is then printed as one line of JSON. \<open>str_of\<close> stands
  for \<open>str()\<close> of a key that is not text.

  Proved here: the line does not depend on anything stored under a sensitive name, at any depth,
  and printing it fails for no value but an integer too long to print.
\<close>

section \<open>Sensitive names\<close>

definition SENSITIVE_WORDS :: "pystr list" where
  "SENSITIVE_WORDS = map lit [''password'', ''secret'', ''token'', ''body'', ''raw'', ''attachment'',
     ''private_key'', ''session_key'']"

text \<open>
  A character matches a letter of the pattern without regard to case. Beyond ASCII the regular
  expression engine folds dotted and dotless i, long s and the Kelvin sign to letters.
\<close>

definition ignorecase :: "nat \<Rightarrow> nat \<Rightarrow> bool" where
  "ignorecase c x \<longleftrightarrow> lower_char c = x \<or> (x = 105 \<and> (c = 304 \<or> c = 305)) \<or> (x = 115 \<and> c = 383)
     \<or> (x = 107 \<and> c = 8490)"

text \<open>\<open>(?:_|$)\<close>; the dollar also matches before a newline at the end.\<close>

definition name_part_ends :: "pystr \<Rightarrow> bool" where
  "name_part_ends s \<longleftrightarrow> s = [] \<or> s = [10] \<or> hd s = 95"

definition sensitive_here :: "pystr \<Rightarrow> bool" where
  "sensitive_here s \<longleftrightarrow>
     list_ex (\<lambda>w. length w \<le> length s \<and> list_all2 ignorecase (take (length w) s) w
       \<and> name_part_ends (drop (length w) s)) SENSITIVE_WORDS"

text \<open>\<open>search\<close>, with the flag that tells whether \<open>(?:^|_)\<close> has just matched.\<close>

fun search_name :: "bool \<Rightarrow> pystr \<Rightarrow> bool" where
  "search_name begins [] = False"
| "search_name begins (c # s) \<longleftrightarrow> begins \<and> sensitive_here (c # s) \<or> search_name (c = 95) s"

definition SENSITIVE_NAME :: "pystr \<Rightarrow> bool" where
  "SENSITIVE_NAME s = search_name True s"

section \<open>Redaction\<close>

definition key_name :: "(pyval \<Rightarrow> pystr) \<Rightarrow> pyval \<Rightarrow> pystr" where
  "key_name str_of k = (case k of PyStr s \<Rightarrow> s | _ \<Rightarrow> str_of k)"

definition type_tag :: "string \<Rightarrow> pyval" where
  "type_tag name = PyStr (lit (''<'' @ name @ ''>''))"

function safe_value :: "(pyval \<Rightarrow> pystr) \<Rightarrow> nat \<Rightarrow> pyval \<Rightarrow> pyval" where
  "safe_value str_of depth v =
     (if 8 \<le> depth then PyStr (lit ''[TRUNCATED]'')
      else case v of
        PyDict items \<Rightarrow>
          py_dict (dict_of_pairs (map (\<lambda>(name, item).
            (key_name str_of name,
             if SENSITIVE_NAME (key_name str_of name) then PyStr (lit ''[REDACTED]'')
             else safe_value str_of (depth + 1) item)) items))
      | PyList vs \<Rightarrow> PyList (map (safe_value str_of (depth + 1)) vs)
      | PyTuple vs \<Rightarrow> PyList (map (safe_value str_of (depth + 1)) vs)
      | PySet vs \<Rightarrow> PyList (map (safe_value str_of (depth + 1)) vs)
      | PyBytes _ \<Rightarrow> type_tag ''bytes''
      | PyOther name \<Rightarrow> type_tag name
      | _ \<Rightarrow> v)"
  by pat_completeness auto
termination by (relation "measure (\<lambda>(_, depth, _). 8 - depth)") auto

declare safe_value.simps [simp del]

definition redact :: "(pyval \<Rightarrow> pystr) \<Rightarrow> pyval \<Rightarrow> pyval" where
  "redact str_of details = safe_value str_of 0 details"

text \<open>\<open>json.dumps\<close> as it is called here also prints floats that are not finite.\<close>

fun name_floats :: "pyval \<Rightarrow> pyval" where
  "name_floats (PyFloat s) =
     PyFloat (if s = ''nan'' then ''NaN'' else if s = ''inf'' then ''Infinity''
              else if s = ''-inf'' then ''-Infinity'' else s)"
| "name_floats (PyList vs) = PyList (map name_floats vs)"
| "name_floats (PyDict items) = PyDict (map (\<lambda>(k, v). (k, name_floats v)) items)"
| "name_floats v = v"

definition record_audit ::
  "(pyval \<Rightarrow> pystr) \<Rightarrow> pystr \<Rightarrow> pystr \<Rightarrow> pystr \<Rightarrow> pyval option \<Rightarrow> pystr res" where
  "record_audit str_of now action outcome details =
     dumps True False (name_floats (PyDict
       [(PyStr (lit ''time''), PyStr now), (PyStr (lit ''action''), PyStr action),
        (PyStr (lit ''outcome''), PyStr outcome),
        (PyStr (lit ''fields''), redact str_of (case details of None \<Rightarrow> PyDict [] | Some f \<Rightarrow> f))]))"

section \<open>Secrets do not reach the log\<close>

text \<open>Values that agree outside sensitive names and byte strings.\<close>

inductive same_public :: "(pyval \<Rightarrow> pystr) \<Rightarrow> pyval \<Rightarrow> pyval \<Rightarrow> bool" for str_of where
  same: "same_public str_of v v"
| bytes: "same_public str_of (PyBytes b) (PyBytes c)"
| list: "list_all2 (same_public str_of) vs ws \<Longrightarrow> same_public str_of (PyList vs) (PyList ws)"
| tuple: "list_all2 (same_public str_of) vs ws \<Longrightarrow> same_public str_of (PyTuple vs) (PyTuple ws)"
| dict: "list_all2 (\<lambda>x y. fst x = fst y
      \<and> (SENSITIVE_NAME (key_name str_of (fst x)) \<or> same_public str_of (snd x) (snd y))) vs ws \<Longrightarrow>
    same_public str_of (PyDict vs) (PyDict ws)"

lemma safe_value_public: "same_public str_of v w \<Longrightarrow> safe_value str_of depth v = safe_value str_of depth w"
proof (induction arbitrary: depth rule: same_public.induct)
  case (list vs ws)
  have "map (safe_value str_of d) vs = map (safe_value str_of d) ws" for d
    using list.IH by (auto simp: list_all2_conv_all_nth intro!: nth_equalityI)
  then show ?case by (simp add: safe_value.simps)
next
  case (tuple vs ws)
  have "map (safe_value str_of d) vs = map (safe_value str_of d) ws" for d
    using tuple.IH by (auto simp: list_all2_conv_all_nth intro!: nth_equalityI)
  then show ?case by (simp add: safe_value.simps)
next
  case (dict vs ws)
  let ?f = "\<lambda>d (name, item). (key_name str_of name,
    if SENSITIVE_NAME (key_name str_of name) then PyStr (lit ''[REDACTED]'') else safe_value str_of d item)"
  have "map (?f d) vs = map (?f d) ws" for d
    using dict.IH by (intro nth_equalityI) (auto simp: list_all2_conv_all_nth case_prod_beta)
  then show ?case by (simp add: safe_value.simps)
qed (simp_all add: safe_value.simps)

text \<open>What is left is printable: a record fails only over an integer too long for \<open>str\<close>.\<close>

lemma dict_insert_values: "(k', w) \<in> set (dict_insert m k v) \<Longrightarrow> w = v \<or> (k', w) \<in> set m"
  by (induction m) (auto split: if_splits)

lemma dict_of_pairs_values: "(k, w) \<in> set (dict_of_pairs ps) \<Longrightarrow> w \<in> snd ` set ps"
proof (induction ps rule: rev_induct)
  case (snoc p ps)
  then show ?case
    by (cases p) (auto simp: dict_of_pairs_def image_iff dest!: dict_insert_values)
qed (simp add: dict_of_pairs_def)

lemma dumps_safe_value: "raises_only {ValueError} (dumps True False (name_floats (safe_value str_of depth v)))"
proof (induction str_of depth v rule: safe_value.induct)
  case (1 str_of depth v)
  have elements: "raises_only {ValueError} (dumps True False (name_floats (PyList (map (safe_value str_of (depth + 1)) vs))))"
    if "\<And>x. x \<in> set vs \<Longrightarrow> raises_only {ValueError} (dumps True False (name_floats (safe_value str_of (depth + 1) x)))" for vs
    using that by (auto intro!: raises_only_bind raises_only_traverse)
  have members: "raises_only {ValueError} (dumps True False (name_floats (py_dict m)))"
    if "\<And>k w. (k, w) \<in> set m \<Longrightarrow> raises_only {ValueError} (dumps True False (name_floats w))" for m
  proof -
    have "text_keys (map (\<lambda>(k, v). (k, name_floats v)) (map (\<lambda>(k, v). (PyStr k, v)) m))
        = Inr (map (\<lambda>(k, v). (k, name_floats v)) m)"
      by (simp add: text_keys_Inr comp_def case_prod_beta)
    then show ?thesis
      using that by (auto simp: py_dict_def intro!: raises_only_bind raises_only_traverse)
  qed
  show ?case
  proof (cases "8 \<le> depth")
    case True
    then show ?thesis by (subst safe_value.simps) simp
  next
    case False
    show ?thesis
    proof (cases v)
      case (PyDict items)
      have "raises_only {ValueError} (dumps True False (name_floats w))"
        if "(k, w) \<in> set (dict_of_pairs (map (\<lambda>(name, item). (key_name str_of name,
              if SENSITIVE_NAME (key_name str_of name) then PyStr (lit ''[REDACTED]'')
              else safe_value str_of (depth + 1) item)) items))" for k w
        using dict_of_pairs_values [OF that] "1.IH"(4) [OF False PyDict] by (auto split: if_splits)
      then show ?thesis using False PyDict by (subst safe_value.simps) (simp add: members)
    next
      case (PyList vs)
      then show ?thesis using False elements [of vs] "1.IH"(1) [OF False PyList] by (subst safe_value.simps) simp
    next
      case (PyTuple vs)
      then show ?thesis using False elements [of vs] "1.IH"(2) [OF False PyTuple] by (subst safe_value.simps) simp
    next
      case (PySet vs)
      then show ?thesis using False elements [of vs] "1.IH"(3) [OF False PySet] by (subst safe_value.simps) simp
    qed (subst safe_value.simps; simp add: False type_tag_def raises_only_def)+
  qed
qed

lemma record_audit_raises:
  "record_audit str_of now action outcome details = Inl e \<Longrightarrow> e = ValueError"
  using dumps_safe_value [of str_of 0 "case details of None \<Rightarrow> PyDict [] | Some f \<Rightarrow> f"]
  by (auto simp: record_audit_def redact_def raises_only_def bind_res_def split: sum.splits)

text \<open>
  C38. An audit line reveals nothing that is stored under a sensitive name: two sets of fields that
  agree outside such names and outside byte strings, at whatever depth they occur, give the same
  line.
\<close>

theorem audit_hides_secrets:
  assumes "same_public str_of details details'"
  shows "record_audit str_of now action outcome (Some details) = record_audit str_of now action outcome (Some details')"
  using safe_value_public [OF assms, of 0] by (simp add: record_audit_def redact_def)

text \<open>Two logins with different passwords leave the same line.\<close>

theorem audit_hides_secrets_witness:
  "record_audit (\<lambda>_. []) (lit ''t'') (lit ''login'') (lit ''denied'')
      (Some (PyDict [(PyStr (lit ''user''), PyStr (lit ''a'')),
        (PyStr (lit ''form''), PyDict [(PyStr (lit ''New_Password''), PyStr (lit ''hunter2''))])]))
   = record_audit (\<lambda>_. []) (lit ''t'') (lit ''login'') (lit ''denied'')
      (Some (PyDict [(PyStr (lit ''user''), PyStr (lit ''a'')),
        (PyStr (lit ''form''), PyDict [(PyStr (lit ''New_Password''), PyStr (lit ''swordfish''))])]))"
proof (rule audit_hides_secrets)
  have "SENSITIVE_NAME (lit ''New_Password'')" by code_simp
  then show "same_public (\<lambda>_. [])
      (PyDict [(PyStr (lit ''user''), PyStr (lit ''a'')),
        (PyStr (lit ''form''), PyDict [(PyStr (lit ''New_Password''), PyStr (lit ''hunter2''))])])
      (PyDict [(PyStr (lit ''user''), PyStr (lit ''a'')),
        (PyStr (lit ''form''), PyDict [(PyStr (lit ''New_Password''), PyStr (lit ''swordfish''))])])"
    by (auto intro!: same_public.dict same_public.same simp: key_name_def)
qed

end
