(* ===== verification/Rule_Snapshots.thy ===== *)
theory Rule_Snapshots
  imports Json_Correct Binary_Text Store_Monad
begin

text \<open>
  \<open>rule_snapshots.py\<close>: one file per account with its filing rules, in a directory that the delivery
  filter reads. The state is the directory; every call of the operating system is an action that
  may fail, as \<open>io_fault\<close> of the environment says for its number, and then has no effect. A process
  that dies at some call leaves the directory that a failure of this and all later calls leaves, so
  the failures include every crash.
\<close>

section \<open>The directory\<close>

record file_entry =
  is_regular :: bool
  is_symlink :: bool
  nlink :: int
  perm :: nat
  content :: bytes

record snapshot_dir =
  dir_is_directory :: bool
  dir_is_symlink :: bool
  dir_perm :: nat
  dir_uid :: int
  dir_entries :: "(pystr \<times> file_entry) list"

record snapshot_env =
  sha256 :: "bytes \<Rightarrow> bytes"
  io_fault :: "nat \<Rightarrow> exn option"
  path_is_specific :: bool
  is_posix :: bool
  euid :: int
  temp_suffix :: "nat \<Rightarrow> pystr"
  float_repr :: "pystr \<Rightarrow> string"
  decode_wide :: "bytes \<Rightarrow> pystr res"
  json_limit :: nat

type_synonym 'a dir_act = "(snapshot_dir, 'a) act"

text \<open>One call of the operating system.\<close>

definition ioA :: "snapshot_env \<Rightarrow> (snapshot_dir \<Rightarrow> ('a \<times> snapshot_dir) res) \<Rightarrow> 'a dir_act" where
  "ioA env f s =
     (let s' = s\<lparr>readings := Suc (readings s)\<rparr> in
      case io_fault env (readings s) of
        Some e \<Rightarrow> (Inl e, s')
      | None \<Rightarrow> executeA f s')"

definition put_entry :: "pystr \<Rightarrow> file_entry \<Rightarrow> (pystr \<times> file_entry) list \<Rightarrow> (pystr \<times> file_entry) list" where
  "put_entry name f es = (name, f) # filter (\<lambda>(n, _). n \<noteq> name) es"

definition drop_entry :: "pystr \<Rightarrow> (pystr \<times> file_entry) list \<Rightarrow> (pystr \<times> file_entry) list" where
  "drop_entry name es = filter (\<lambda>(n, _). n \<noteq> name) es"

definition lstat :: "snapshot_env \<Rightarrow> pystr \<Rightarrow> file_entry dir_act" where
  "lstat env name = ioA env (\<lambda>d.
     case map_of (dir_entries d) name of None \<Rightarrow> Inl FileNotFoundError | Some f \<Rightarrow> Inr (f, d))"

definition read_bytes :: "snapshot_env \<Rightarrow> pystr \<Rightarrow> bytes dir_act" where
  "read_bytes env name = ioA env (\<lambda>d.
     case map_of (dir_entries d) name of None \<Rightarrow> Inl FileNotFoundError | Some f \<Rightarrow> Inr (content f, d))"

text \<open>\<open>target.exists() or target.is_symlink()\<close>.\<close>

definition entry_exists :: "snapshot_env \<Rightarrow> pystr \<Rightarrow> bool dir_act" where
  "entry_exists env name = ioA env (\<lambda>d. Inr (map_of (dir_entries d) name \<noteq> None, d))"

definition change_entry :: "snapshot_env \<Rightarrow> pystr \<Rightarrow> (file_entry \<Rightarrow> file_entry) \<Rightarrow> unit dir_act" where
  "change_entry env name g = ioA env (\<lambda>d.
     case map_of (dir_entries d) name of
       None \<Rightarrow> Inl OSError
     | Some f \<Rightarrow> Inr ((), d\<lparr>dir_entries := put_entry name (g f) (dir_entries d)\<rparr>))"

text \<open>\<open>mkstemp\<close> opens a name that is not in use.\<close>

definition mkstemp :: "snapshot_env \<Rightarrow> pystr dir_act" where
  "mkstemp env s =
     (let name = lit ''.snapshot-'' @ temp_suffix env (draws s) in
      ioA env (\<lambda>d.
        if map_of (dir_entries d) name \<noteq> None then Inl OSError
        else Inr (name, d\<lparr>dir_entries := put_entry name
          \<lparr>is_regular = True, is_symlink = False, nlink = 1, perm = 384, content = []\<rparr> (dir_entries d)\<rparr>))
      (s\<lparr>draws := Suc (draws s)\<rparr>))"

definition os_replace :: "snapshot_env \<Rightarrow> pystr \<Rightarrow> pystr \<Rightarrow> unit dir_act" where
  "os_replace env temporary target = ioA env (\<lambda>d.
     case map_of (dir_entries d) temporary of
       None \<Rightarrow> Inl FileNotFoundError
     | Some f \<Rightarrow> Inr ((), d\<lparr>dir_entries := put_entry target f (drop_entry temporary (dir_entries d))\<rparr>))"

definition unlink :: "snapshot_env \<Rightarrow> bool \<Rightarrow> pystr \<Rightarrow> unit dir_act" where
  "unlink env missing_ok name = ioA env (\<lambda>d.
     if map_of (dir_entries d) name = None \<and> \<not> missing_ok then Inl FileNotFoundError
     else Inr ((), d\<lparr>dir_entries := drop_entry name (dir_entries d)\<rparr>))"

definition sync_directory :: "snapshot_env \<Rightarrow> unit dir_act" where
  "sync_directory env = (if is_posix env then ioA env (\<lambda>d. Inr ((), d)) else returnA ())"

section \<open>Checks\<close>

definition require_snapshot_directory :: "snapshot_env \<Rightarrow> bool \<Rightarrow> unit dir_act" where
  "require_snapshot_directory env writable =
     (if \<not> path_is_specific env then raiseA RuleSnapshotError
      else
        bindA (ioA env (\<lambda>d. Inr (d, d))) (\<lambda>metadata.
        if \<not> dir_is_directory metadata \<or> dir_is_symlink metadata then raiseA RuleSnapshotError
        else if is_posix env \<and> (dir_perm metadata mod 8 \<noteq> 0 \<or> writable \<and> dir_uid metadata \<noteq> euid env)
        then raiseA RuleSnapshotError
        else returnA ()))"

definition private_file :: "file_entry \<Rightarrow> bool" where
  "private_file f \<longleftrightarrow> is_regular f \<and> \<not> is_symlink f \<and> nlink f = 1 \<and> perm f mod 8 = 0"

definition require_snapshot_file :: "snapshot_env \<Rightarrow> pystr \<Rightarrow> unit dir_act" where
  "require_snapshot_file env name =
     bindA (lstat env name) (\<lambda>f. if private_file f then returnA () else raiseA RuleSnapshotError)"

section \<open>Documents\<close>

definition MAX_SNAPSHOT_BYTES :: nat where "MAX_SNAPSHOT_BYTES = 256 * 1024"
definition SNAPSHOT_VERSION :: int where "SNAPSHOT_VERSION = 1"

definition snapshot_name :: "snapshot_env \<Rightarrow> pystr \<Rightarrow> pystr res" where
  "snapshot_name env canonical_email =
     (if canonical_email = [] \<or> \<not> isascii canonical_email then Inl ValueError
      else Inr (hex (sha256 env (ascii_bytes canonical_email)) @ lit ''.json''))"

definition SNAPSHOT_FILE_RE :: "pystr \<Rightarrow> bool" where
  "SNAPSHOT_FILE_RE name \<longleftrightarrow> length name = 69 \<and> list_all (\<lambda>c. c \<in> set hex_alphabet) (take 64 name)
     \<and> drop 64 name = lit ''.json''"

definition snapshot_document :: "pystr \<Rightarrow> pyval list \<Rightarrow> pyval" where
  "snapshot_document account rules =
     PyDict [(PyStr (lit ''version''), PyInt SNAPSHOT_VERSION), (PyStr (lit ''account''), PyStr account),
       (PyStr (lit ''rules''), PyList rules)]"

text \<open>\<open>dict(rule)\<close> of a mapping.\<close>

definition as_dict :: "pyval \<Rightarrow> pyval res" where
  "as_dict v = (case v of PyDict items \<Rightarrow> Inr v | _ \<Rightarrow> Inl TypeError)"

definition build_snapshot :: "pystr \<Rightarrow> pyval \<Rightarrow> bytes res" where
  "build_snapshot canonical_email rules =
     bind_res (case rules of
         PyList vs \<Rightarrow> if 100 < length vs then Inl ValueError else Inr vs
       | PyTuple vs \<Rightarrow> if 100 < length vs then Inl ValueError else Inr vs
       | _ \<Rightarrow> Inl ValueError) (\<lambda>vs.
     bind_res (traverse as_dict vs) (\<lambda>dicts.
     case bind_res (dumps False True (snapshot_document canonical_email dicts)) utf8_encode of
       Inl e \<Rightarrow> if e = TypeError \<or> is_value_error e then Inl ValueError else Inl e
     | Inr encoded \<Rightarrow>
         if \<not> (2 \<le> length encoded \<and> length encoded \<le> MAX_SNAPSHOT_BYTES) then Inl ValueError
         else Inr encoded))"

section \<open>Publishing\<close>

text \<open>\<open>except BaseException: temporary.unlink(missing_ok=True); raise\<close>\<close>

definition discard_on_error :: "snapshot_env \<Rightarrow> pystr \<Rightarrow> 'a dir_act \<Rightarrow> 'a dir_act" where
  "discard_on_error env temporary body =
     tryA body (\<lambda>e. seqA (unlink env True temporary) (raiseA e))"

definition publish_snapshot ::
  "snapshot_env \<Rightarrow> pystr \<Rightarrow> pyval \<Rightarrow> int option \<Rightarrow> pystr dir_act" where
  "publish_snapshot env canonical_email rules group_id =
     seqA (require_snapshot_directory env True)
     (bindA (liftE (build_snapshot canonical_email rules)) (\<lambda>payload.
     bindA (liftE (snapshot_name env canonical_email)) (\<lambda>target.
     bindA (entry_exists env target) (\<lambda>exists.
     seqA (if exists then require_snapshot_file env target else returnA ())
     (bindA (mkstemp env) (\<lambda>temporary.
     discard_on_error env temporary
       (seqA (change_entry env temporary (\<lambda>f. f\<lparr>perm := 416\<rparr>))
       (seqA (if group_id \<noteq> None \<and> is_posix env then ioA env (\<lambda>d. Inr ((), d)) else returnA ())
       (seqA (change_entry env temporary (\<lambda>f. f\<lparr>content := payload\<rparr>))
       (seqA (os_replace env temporary target)
       (seqA (sync_directory env)
       (seqA (require_snapshot_file env target)
       (bindA (read_bytes env target) (\<lambda>data.
        if data \<noteq> payload then raiseA RuleSnapshotError else returnA target))))))))))))))"

definition remove_snapshot :: "snapshot_env \<Rightarrow> pystr \<Rightarrow> unit dir_act" where
  "remove_snapshot env canonical_email =
     seqA (require_snapshot_directory env True)
     (bindA (liftE (snapshot_name env canonical_email)) (\<lambda>target.
     bindA (tryA (seqA (require_snapshot_file env target) (returnA True))
             (\<lambda>e. if e = FileNotFoundError then returnA False else raiseA e)) (\<lambda>found.
     if \<not> found then returnA ()
     else seqA (unlink env False target) (sync_directory env))))"

text \<open>The scan of \<open>replace_snapshot_set\<close>: the verified snapshots, and whether something else is there.\<close>

fun scan_entries :: "snapshot_env \<Rightarrow> pystr list \<Rightarrow> (pystr list \<times> bool) dir_act" where
  "scan_entries env [] = returnA ([], False)"
| "scan_entries env (n # ns) =
     bindA (if \<not> SNAPSHOT_FILE_RE n \<and> \<not> prefix (lit ''.snapshot-'') n then returnA False
            else tryA (seqA (require_snapshot_file env n) (returnA True))
                   (\<lambda>e. if e = FileNotFoundError \<or> e = RuleSnapshotError then returnA False else raiseA e)) (\<lambda>good.
     bindA (scan_entries env ns) (\<lambda>(existing, unsafe).
     returnA (if good then (n # existing, unsafe) else (existing, True))))"

definition replace_snapshot_set ::
  "snapshot_env \<Rightarrow> (pystr \<times> pyval) list \<Rightarrow> int option \<Rightarrow> unit dir_act" where
  "replace_snapshot_set env snapshots group_id =
     (let items = sort_key fst snapshots in
      seqA (require_snapshot_directory env True)
      (bindA (liftE (traverse (\<lambda>(account, rules). build_snapshot account rules) items)) (\<lambda>prepared.
      bindA (ioA env (\<lambda>d. Inr (map fst (dir_entries d), d))) (\<lambda>names.
      bindA (scan_entries env names) (\<lambda>(existing, unsafe).
      seqA (forA existing (unlink env False))
      (seqA (sync_directory env)
      (if unsafe then raiseA RuleSnapshotError
       else forA (zip items prepared) (\<lambda>((account, rules), payload).
         bindA (publish_snapshot env account rules group_id) (\<lambda>path.
         bindA (read_bytes env path) (\<lambda>data.
         if data \<noteq> payload then raiseA RuleSnapshotError else returnA ()))))))))))"

section \<open>Loading\<close>

text \<open>\<open>json.loads\<close> of bytes detects the encoding by byte order marks and null bytes.\<close>

datatype json_encoding = Utf8 | Utf8_Sig | Wide

definition detect_encoding :: "bytes \<Rightarrow> json_encoding" where
  "detect_encoding b =
     (if prefix [0, 0, 254, 255] b \<or> prefix [255, 254, 0, 0] b \<or> prefix [254, 255] b \<or> prefix [255, 254] b then Wide
      else if prefix [239, 187, 191] b then Utf8_Sig
      else if 4 \<le> length b \<or> length b = 2 then (if b ! 0 = 0 \<or> b ! 1 = 0 then Wide else Utf8)
      else Utf8)"

definition decode_json_bytes :: "snapshot_env \<Rightarrow> bytes \<Rightarrow> pystr res" where
  "decode_json_bytes env b =
     (case detect_encoding b of
        Utf8 \<Rightarrow> utf8_decode_surrogatepass b
      | Utf8_Sig \<Rightarrow> utf8_decode_surrogatepass (drop 3 b)
      | Wide \<Rightarrow> decode_wide env b)"

definition unique_object :: "(pystr \<times> pyval) list \<Rightarrow> pyval res" where
  "unique_object pairs = (if distinct (map fst pairs) then Inr (py_dict pairs) else Inl ValueError)"

definition constant_value :: "pystr \<Rightarrow> pyval res" where
  "constant_value s =
     Inr (PyFloat (if s = lit ''NaN'' then ''nan'' else if s = lit ''Infinity'' then ''inf'' else ''-inf''))"

definition snapshot_hooks :: "snapshot_env \<Rightarrow> json_hooks" where
  "snapshot_hooks env =
     \<lparr>parse_int = default_parse_int, parse_float = (\<lambda>s. Inr (PyFloat (float_repr env s))),
      parse_constant = constant_value, object_pairs = unique_object, recursion_limit = json_limit env\<rparr>"

text \<open>\<open>value == 1\<close> also holds for the other numbers that equal one.\<close>

definition equals_one :: "pyval \<Rightarrow> bool" where
  "equals_one v \<longleftrightarrow> v = PyInt SNAPSHOT_VERSION \<or> v = PyBool True \<or> v = PyFloat ''1.0''"

definition dict_field :: "(pyval \<times> pyval) list \<Rightarrow> string \<Rightarrow> pyval" where
  "dict_field items name = (case map_of items (PyStr (lit name)) of None \<Rightarrow> PyNone | Some v \<Rightarrow> v)"

definition valid_document :: "pystr \<Rightarrow> pyval \<Rightarrow> bool" where
  "valid_document canonical_email v =
     (case v of
        PyDict items \<Rightarrow>
          fst ` set items = {PyStr (lit ''version''), PyStr (lit ''account''), PyStr (lit ''rules'')}
          \<and> equals_one (dict_field items ''version'')
          \<and> dict_field items ''account'' = PyStr canonical_email
          \<and> (case dict_field items ''rules'' of PyList rules \<Rightarrow> length rules \<le> 100 | _ \<Rightarrow> False)
      | _ \<Rightarrow> False)"

definition parse_snapshot :: "snapshot_env \<Rightarrow> pystr \<Rightarrow> bytes \<Rightarrow> pyval res" where
  "parse_snapshot env canonical_email data =
     (if \<not> (2 \<le> length data \<and> length data \<le> MAX_SNAPSHOT_BYTES) then Inl RuleSnapshotError
      else case bind_res (decode_json_bytes env data) (loads (snapshot_hooks env)) of
        Inl e \<Rightarrow> if is_value_error e then Inl RuleSnapshotError else Inl e
      | Inr v \<Rightarrow> if valid_document canonical_email v then Inr v else Inl RuleSnapshotError)"

definition load_snapshot :: "snapshot_env \<Rightarrow> pystr \<Rightarrow> pyval option dir_act" where
  "load_snapshot env canonical_email =
     seqA (require_snapshot_directory env False)
     (bindA (liftE (snapshot_name env canonical_email)) (\<lambda>name.
     bindA (tryA (seqA (require_snapshot_file env name)
                   (bindA (read_bytes env name) (\<lambda>data. returnA (Some data))))
             (\<lambda>e. if e = FileNotFoundError then returnA None else raiseA e)) (\<lambda>found.
     case found of
       None \<Rightarrow> returnA None
     | Some data \<Rightarrow> bindA (liftE (parse_snapshot env canonical_email data)) (\<lambda>v. returnA (Some v)))))"

end
