(* ===== verification/Filter_Bridge.thy ===== *)
theory Filter_Bridge
  imports Rule_Snapshots Filing_Rules Identity Helper_Protocol Csrf_Tokens
begin

text \<open>
  Delivery-time filing: \<open>filter_bridge.py\<close>, the server that maddy's filter command asks for the target
  folder of a message, and \<open>filter_client.py\<close>, the command itself. Parsing a raw message is a
  parameter, as is the reading of IP addresses. The server's state is its connection and the
  snapshot directory.
\<close>

record filter_env =
  fe_snapshots :: snapshot_env
  fe_text :: security_env
  casefold_table :: "pystr \<Rightarrow> pystr"
  parse_rule_message :: "bytes \<Rightarrow> RuleMessage res"
  parse_ip_address :: "pystr \<Rightarrow> ip_address option"
  egid :: int
  groups :: "int list"

definition FILTER_PROTOCOL :: pystr where "FILTER_PROTOCOL = lit ''MADDYWEB-FILTER/1''"
definition DEFAULT_FILTER_PORT :: int where "DEFAULT_FILTER_PORT = 18787"
definition MAX_PROTOCOL_LINE_BYTES :: nat where "MAX_PROTOCOL_LINE_BYTES = 512"
definition MAX_FILTER_MESSAGE_BYTES :: nat where "MAX_FILTER_MESSAGE_BYTES = 25 * 1024 * 1024"
definition MAX_FILTER_RESPONSE_BYTES :: nat where "MAX_FILTER_RESPONSE_BYTES = 1025"

definition TOKEN_RE :: "pystr \<Rightarrow> bool" where
  "TOKEN_RE s \<longleftrightarrow> length s = 64 \<and> list_all (\<lambda>c. c \<in> set hex_alphabet) s"

definition RULE_ID_RE :: "pystr \<Rightarrow> bool" where
  "RULE_ID_RE s \<longleftrightarrow> length s = 32 \<and> list_all (\<lambda>c. c \<in> set hex_alphabet) s"

section \<open>Configuration of both ends\<close>

text \<open>The endpoint both ends accept: a private IPv4 address and the fixed port.\<close>

definition private_endpoint :: "filter_env \<Rightarrow> exn \<Rightarrow> pystr \<Rightarrow> pystr \<Rightarrow> (pystr \<times> int) res" where
  "private_endpoint env err host raw_port =
     (case (parse_ip_address env host, python_int (fe_text env) raw_port) of
        (Some address, Inr port) \<Rightarrow>
          if \<not> is_ipv4 address \<or> is_unspecified address \<or> is_multicast address
             \<or> \<not> (is_loopback address \<or> is_private address) \<or> port \<noteq> DEFAULT_FILTER_PORT
          then Inl err
          else Inr (ip_text address, port)
      | _ \<Rightarrow> Inl err)"

definition parse_filter_listen :: "filter_env \<Rightarrow> pyval \<Rightarrow> (pystr \<times> int) res" where
  "parse_filter_listen env value =
     (case value of
        PyStr v \<Rightarrow>
          if count_list v 58 \<noteq> 1 then Inl FilterBridgeError
          else (case rsplit_once 58 v of (host, raw_port) \<Rightarrow> private_endpoint env FilterBridgeError host raw_port)
      | _ \<Rightarrow> Inl FilterBridgeError)"

text \<open>A configuration file as both ends see it: the failure of \<open>lstat\<close>, its metadata, and the result of reading it as ASCII.\<close>

record private_file_view =
  pf_path_ok :: bool
  pf_lstat :: "exn option"
  pf_regular :: bool
  pf_symlink :: bool
  pf_nlink :: int
  pf_uid :: int
  pf_gid :: int
  pf_mode :: nat
  pf_text :: "pystr res"

definition load_bridge_token :: "filter_env \<Rightarrow> private_file_view \<Rightarrow> pystr res" where
  "load_bridge_token env f =
     (if \<not> pf_path_ok f then Inl FilterBridgeError
      else case pf_lstat f of Some e \<Rightarrow> Inl e | None \<Rightarrow>
      if \<not> pf_regular f \<or> pf_symlink f \<or> pf_nlink f \<noteq> 1 then Inl FilterBridgeError
      else if is_posix (fe_snapshots env) \<and> (pf_uid f \<noteq> 0 \<or> pf_gid f \<noteq> egid env \<or> pf_mode f \<noteq> 416)
      then Inl FilterBridgeError
      else case pf_text f of
        Inl e \<Rightarrow> if is_os_error e \<or> e = UnicodeDecodeError then Inl FilterBridgeError else Inl e
      | Inr t \<Rightarrow> if TOKEN_RE (strip t) then Inr (strip t) else Inl FilterBridgeError)"

definition client_file_metadata_is_valid :: "filter_env \<Rightarrow> private_file_view \<Rightarrow> bool" where
  "client_file_metadata_is_valid env f \<longleftrightarrow>
     \<not> is_posix (fe_snapshots env)
     \<or> (pf_uid f = 0 \<and> pf_gid f \<in> set (egid env # groups env) \<and> pf_mode f = 416)"

definition read_root_owned_client_file :: "filter_env \<Rightarrow> private_file_view \<Rightarrow> pystr res" where
  "read_root_owned_client_file env f =
     (if \<not> pf_path_ok f then Inl FilterClientError
      else case pf_lstat f of Some e \<Rightarrow> Inl e | None \<Rightarrow>
      if \<not> pf_regular f \<or> pf_symlink f \<or> pf_nlink f \<noteq> 1 then Inl FilterClientError
      else if \<not> client_file_metadata_is_valid env f then Inl FilterClientError
      else case pf_text f of
        Inl e \<Rightarrow> if is_os_error e \<or> e = UnicodeDecodeError then Inl FilterClientError else Inl e
      | Inr t \<Rightarrow>
          if t = [] \<or> last t \<noteq> 10 \<or> 10 \<in> set (butlast t) \<or> 13 \<in> set t then Inl FilterClientError
          else Inr (butlast t))"

definition load_client_endpoint :: "filter_env \<Rightarrow> private_file_view \<Rightarrow> (pystr \<times> int) res" where
  "load_client_endpoint env f =
     bind_res (read_root_owned_client_file env f) (\<lambda>v.
     if count_list v 58 \<noteq> 1 then Inl FilterClientError
     else case partition 58 v of (host, _, raw_port) \<Rightarrow> private_endpoint env FilterClientError host raw_port)"

definition load_client_token :: "filter_env \<Rightarrow> private_file_view \<Rightarrow> pystr res" where
  "load_client_token env f =
     bind_res (read_root_owned_client_file env f) (\<lambda>v. if TOKEN_RE v then Inr v else Inl FilterClientError)"

section \<open>Evaluation\<close>

definition PUBLISHED_KEYS :: "pyval set" where
  "PUBLISHED_KEYS = (PyStr \<circ> lit) ` {''rule_id'', ''enabled'', ''position'', ''condition'', ''target_mailbox'',
     ''stop_processing'', ''revision''}"

type_synonym prepared_rule = "int \<times> bool \<times> CompiledRule"

fun prepare_rules :: "(pystr \<Rightarrow> pystr) \<Rightarrow> pystr list \<Rightarrow> pyval list \<Rightarrow> prepared_rule list res" where
  "prepare_rules uni seen [] = Inr []"
| "prepare_rules uni seen (v # vs) =
     (case v of
        PyDict items \<Rightarrow>
          if fst ` set items \<noteq> PUBLISHED_KEYS then Inl FilterBridgeError
          else (case (dict_field items ''rule_id'', dict_field items ''position'', dict_field items ''enabled'',
                      dict_field items ''stop_processing'', dict_field items ''revision'') of
             (PyStr rule_id, PyInt position, PyBool enabled, PyBool stop_processing, PyInt revision) \<Rightarrow>
               if \<not> RULE_ID_RE rule_id \<or> rule_id \<in> set seen \<or> \<not> (0 \<le> position \<and> position < 100) \<or> revision < 1
               then Inl FilterBridgeError
               else if \<not> enabled then prepare_rules uni (rule_id # seen) vs
               else
                 bind_res (Rule_from_mapping uni
                   (PyDict [(PyStr (lit ''condition''), dict_field items ''condition''),
                     (PyStr (lit ''target_mailbox''), dict_field items ''target_mailbox'')])) (\<lambda>rule.
                 bind_res (compile_rule uni rule) (\<lambda>compiled.
                 bind_res (prepare_rules uni (rule_id # seen) vs) (\<lambda>rest.
                 Inr ((position, stop_processing, compiled) # rest))))
           | _ \<Rightarrow> Inl FilterBridgeError)
      | _ \<Rightarrow> Inl FilterBridgeError)"

fun select_target :: "(pystr \<Rightarrow> pystr) \<Rightarrow> RuleMessage \<Rightarrow> prepared_rule list \<Rightarrow> pystr option \<Rightarrow> pystr option" where
  "select_target uni m [] target = target"
| "select_target uni m ((position, stop_processing, compiled) # rest) target =
     (if matches uni compiled m then
        (let target = Some (target_mailbox (compiled_from compiled)) in
         if stop_processing then target else select_target uni m rest target)
      else select_target uni m rest target)"

definition evaluate_document :: "filter_env \<Rightarrow> pyval \<Rightarrow> bytes \<Rightarrow> pystr option res" where
  "evaluate_document env document raw_message =
     (let uni = casefold_table env in
      case document of
        PyDict items \<Rightarrow>
          (case dict_field items ''rules'' of
             PyList raw_rules \<Rightarrow>
               if 100 < length raw_rules then Inl FilterBridgeError
               else
                 bind_res (prepare_rules uni [] raw_rules) (\<lambda>prepared.
                 if \<not> distinct (map fst prepared) then Inl FilterBridgeError
                 else case parse_rule_message env raw_message of
                   Inl _ \<Rightarrow> Inr None
                 | Inr message \<Rightarrow> Inr (select_target uni message (sort_key fst prepared) None))
           | _ \<Rightarrow> Inl FilterBridgeError)
      | _ \<Rightarrow> Inl FilterBridgeError)"

definition evaluate_filter_message :: "filter_env \<Rightarrow> pystr \<Rightarrow> bytes \<Rightarrow> pystr option dir_act" where
  "evaluate_filter_message env canonical_email raw_message =
     bindA (liftE (canonicalize_email (PyStr canonical_email))) (\<lambda>account.
     if \<not> (1 \<le> length raw_message \<and> length raw_message \<le> MAX_FILTER_MESSAGE_BYTES) then returnA None
     else
       bindA (load_snapshot (fe_snapshots env) account) (\<lambda>document.
       case document of
         None \<Rightarrow> returnA None
       | Some document \<Rightarrow> liftE (evaluate_document env document raw_message)))"

definition render_filter_target :: "pystr option \<Rightarrow> bytes" where
  "render_filter_target target =
     (case target of
        None \<Rightarrow> []
      | Some t \<Rightarrow>
          (case utf8_encode t of
             Inl _ \<Rightarrow> []
           | Inr rendered \<Rightarrow>
               if rendered = [] \<or> 10 \<in> set rendered \<or> 13 \<in> set rendered \<or> 1024 < length rendered then []
               else rendered @ [10]))"

text \<open>\<open>str.decode("ascii")\<close>.\<close>

definition ascii_decode :: "bytes \<Rightarrow> pystr option" where
  "ascii_decode b = (if list_all (\<lambda>w. unat w < 128) b then Some (map unat b) else None)"

definition authenticated_account :: "bytes \<Rightarrow> pystr \<Rightarrow> pystr option" where
  "authenticated_account line expected_token =
     (if line = [] \<or> MAX_PROTOCOL_LINE_BYTES < length line then None
      else case ascii_decode line of
        None \<Rightarrow> None
      | Some decoded \<Rightarrow>
          (case split_on 32 decoded of
             [protocol, supplied_token, raw_account] \<Rightarrow>
               if protocol \<noteq> FILTER_PROTOCOL \<or> \<not> TOKEN_RE expected_token \<or> supplied_token \<noteq> expected_token
               then None
               else (case canonicalize_email (PyStr raw_account) of Inl _ \<Rightarrow> None | Inr account \<Rightarrow> Some account)
           | _ \<Rightarrow> None))"

text \<open>\<open>except (FilterBridgeError, RuleValidationError, OSError, ValueError)\<close>\<close>

definition failed_closed :: "exn \<Rightarrow> bool" where
  "failed_closed e \<longleftrightarrow> e = FilterBridgeError \<or> is_value_error e \<or> is_os_error e"

definition evaluate_closed :: "filter_env \<Rightarrow> pystr \<Rightarrow> bytes \<Rightarrow> pystr option dir_act" where
  "evaluate_closed env account raw_message =
     tryA (evaluate_filter_message env account raw_message)
       (\<lambda>e. if failed_closed e then returnA None else raiseA e)"

definition evaluate_bridge_payload :: "filter_env \<Rightarrow> bytes \<Rightarrow> pystr \<Rightarrow> bytes dir_act" where
  "evaluate_bridge_payload env payload expected_token =
     (if \<not> (1 \<le> length payload \<and> length payload \<le> MAX_PROTOCOL_LINE_BYTES + MAX_FILTER_MESSAGE_BYTES)
      then returnA []
      else
        let line = takeWhile (\<lambda>b. b \<noteq> 10) payload; raw_message = tl (dropWhile (\<lambda>b. b \<noteq> 10) payload) in
        if 10 \<notin> set payload \<or> raw_message = [] \<or> MAX_PROTOCOL_LINE_BYTES < length line then returnA []
        else case authenticated_account line expected_token of
          None \<Rightarrow> returnA []
        | Some account \<Rightarrow>
            bindA (evaluate_closed env account raw_message) (\<lambda>target. returnA (render_filter_target target)))"

section \<open>The server\<close>

record bridge =
  conn :: wire
  snaps :: snapshot_dir

definition on_conn :: "'a wire_act \<Rightarrow> (bridge, 'a) act" where
  "on_conn m s =
     (case m \<lparr>db = conn (db s), draws = draws s, readings = readings s, closed = closed s\<rparr> of
        (r, t) \<Rightarrow> (r, \<lparr>db = (db s)\<lparr>conn := db t\<rparr>, draws = draws t, readings = readings t, closed = closed t\<rparr>))"

definition on_snaps :: "'a dir_act \<Rightarrow> (bridge, 'a) act" where
  "on_snaps m s =
     (case m \<lparr>db = snaps (db s), draws = draws s, readings = readings s, closed = closed s\<rparr> of
        (r, t) \<Rightarrow> (r, \<lparr>db = (db s)\<lparr>snaps := db t\<rparr>, draws = draws t, readings = readings t, closed = closed t\<rparr>))"

text \<open>Each turn of a loop below ends it or makes the measure smaller.\<close>

lemma loop_shrinks: "x \<noteq> [] \<Longrightarrow> \<not> n < k \<Longrightarrow> Suc n - (k + length x) < Suc n - k"
  by (cases x) auto

lemma loop_shrinks_within: "x \<noteq> [] \<Longrightarrow> \<not> n < k + length x \<Longrightarrow> Suc n - (k + length x) < Suc n - k"
  by (cases x) auto

text \<open>The two receiving loops; \<open>None\<close> is the \<open>return\<close> that ends the request without an answer.\<close>

function read_control :: "bytes \<Rightarrow> bytes option wire_act" where
  "read_control control =
     (if 10 \<in> set control \<or> MAX_PROTOCOL_LINE_BYTES < length control then returnA (Some control)
      else
        bindA (recv (min 4096 (MAX_PROTOCOL_LINE_BYTES + 1 - length control))) (\<lambda>chunk.
        if chunk = [] then returnA None else read_control (control @ chunk)))"
  by pat_completeness auto
termination by (relation "measure (\<lambda>control. MAX_PROTOCOL_LINE_BYTES + 1 - length control)") (auto intro: loop_shrinks loop_shrinks_within)

declare read_control.simps [simp del]

function read_body :: "bytes \<Rightarrow> bytes option wire_act" where
  "read_body spool =
     (if MAX_FILTER_MESSAGE_BYTES < length spool then returnA (Some spool)
      else
        bindA (recv (min (64 * 1024) (MAX_FILTER_MESSAGE_BYTES + 1 - length spool))) (\<lambda>chunk.
        if chunk = [] then returnA (Some spool)
        else if MAX_FILTER_MESSAGE_BYTES < length (spool @ chunk) then returnA None
        else read_body (spool @ chunk)))"
  by pat_completeness auto
termination by (relation "measure (\<lambda>spool. MAX_FILTER_MESSAGE_BYTES + 1 - length spool)") (auto intro: loop_shrinks loop_shrinks_within)

declare read_body.simps [simp del]

definition handle_request :: "filter_env \<Rightarrow> pystr \<Rightarrow> (bridge, unit) act" where
  "handle_request env expected_token =
     bindA (on_conn (read_control [])) (\<lambda>control.
     case control of
       None \<Rightarrow> returnA ()
     | Some control \<Rightarrow>
         let line = takeWhile (\<lambda>b. b \<noteq> 10) control; remainder = tl (dropWhile (\<lambda>b. b \<noteq> 10) control) in
         if 10 \<notin> set control \<or> MAX_PROTOCOL_LINE_BYTES < length line then returnA ()
         else case authenticated_account line expected_token of
           None \<Rightarrow> returnA ()
         | Some account \<Rightarrow>
             if MAX_FILTER_MESSAGE_BYTES < length remainder then returnA ()
             else
               bindA (on_conn (read_body remainder)) (\<lambda>body.
               case body of
                 None \<Rightarrow> returnA ()
               | Some raw_message \<Rightarrow>
                   if raw_message = [] then returnA ()
                   else
                     bindA (on_snaps (evaluate_closed env account raw_message)) (\<lambda>target.
                     let response = render_filter_target target in
                     if response = [] then returnA () else on_conn (sendall response))))"

definition handle :: "filter_env \<Rightarrow> pystr \<Rightarrow> (bridge, unit) act" where
  "handle env expected_token =
     tryA (handle_request env expected_token) (\<lambda>e. if is_os_error e then returnA () else raiseA e)"

section \<open>The bounded server\<close>

text \<open>
  \<open>_BoundedFilterServer\<close>: the free slots of its semaphore and the connections with a thread of their
  own. A connection without a slot is closed at once; a thread that cannot be started gives its
  slot back, as does one that ends, in whatever way.
\<close>

definition MAX_FILTER_CONNECTIONS :: nat where "MAX_FILTER_CONNECTIONS = 8"

record filter_server =
  free_slots :: nat
  handling :: "nat list"

definition new_filter_server :: filter_server where
  "new_filter_server = \<lparr>free_slots = MAX_FILTER_CONNECTIONS, handling = []\<rparr>"

inductive filter_server_step :: "filter_server \<Rightarrow> filter_server \<Rightarrow> bool" where
  refused: "free_slots s = 0 \<Longrightarrow> filter_server_step s s"
| not_started: "0 < free_slots s \<Longrightarrow> filter_server_step s s"
| started: "0 < free_slots s \<Longrightarrow> c \<notin> set (handling s) \<Longrightarrow>
    filter_server_step s (s\<lparr>free_slots := free_slots s - 1, handling := c # handling s\<rparr>)"
| finished: "c \<in> set (handling s) \<Longrightarrow>
    filter_server_step s (s\<lparr>free_slots := free_slots s + 1, handling := remove1 c (handling s)\<rparr>)"

lemma filter_server_slots:
  "filter_server_step\<^sup>*\<^sup>* new_filter_server s \<Longrightarrow> free_slots s + length (handling s) = MAX_FILTER_CONNECTIONS"
proof (induction rule: rtranclp_induct)
  case base
  show ?case by (simp add: new_filter_server_def)
next
  case (step s t)
  from step.hyps(2) show ?case
  proof cases
    case (finished c)
    then obtain n where "length (handling s) = Suc n" by (cases "handling s") auto
    with finished step.IH show ?thesis by (simp add: length_remove1)
  qed (use step.IH in auto)
qed

section \<open>The client\<close>

definition validated_response :: "bytes \<Rightarrow> bytes" where
  "validated_response response =
     (if response = [] then []
      else if MAX_FILTER_RESPONSE_BYTES < length response \<or> last response \<noteq> 10 \<or> count_list response 10 \<noteq> 1
              \<or> 13 \<in> set response
      then []
      else case utf8_decode (butlast response) of
        Inl _ \<Rightarrow> []
      | Inr rendered \<Rightarrow>
          if rendered = [] \<or> list_ex (\<lambda>c. c < 32 \<or> c = 127) rendered then [] else response)"

function send_message :: "nat \<Rightarrow> nat wire_act" where
  "send_message transferred =
     (if MAX_FILTER_MESSAGE_BYTES < transferred then raiseA FilterClientError
      else
        bindA source_read (\<lambda>r.
        case r of
          ReadBytes chunk \<Rightarrow>
            if chunk = [] then returnA transferred
            else if MAX_FILTER_MESSAGE_BYTES < transferred + length chunk then raiseA FilterClientError
            else seqA (sendall chunk) (send_message (transferred + length chunk))
        | ReadOther truth \<Rightarrow> if truth then raiseA FilterClientError else returnA transferred
        | ReadRaises e \<Rightarrow> raiseA e))"
  by pat_completeness auto
termination by (relation "measure (\<lambda>transferred. MAX_FILTER_MESSAGE_BYTES + 1 - transferred)") (auto intro: loop_shrinks loop_shrinks_within)

declare send_message.simps [simp del]

function receive_response_bytes :: "bytes \<Rightarrow> bytes wire_act" where
  "receive_response_bytes response =
     (if MAX_FILTER_RESPONSE_BYTES < length response then returnA response
      else
        bindA (recv (MAX_FILTER_RESPONSE_BYTES + 1 - length response)) (\<lambda>chunk.
        if chunk = [] then returnA response else receive_response_bytes (response @ chunk)))"
  by pat_completeness auto
termination by (relation "measure (\<lambda>response. MAX_FILTER_RESPONSE_BYTES + 1 - length response)") (auto intro: loop_shrinks loop_shrinks_within)

declare receive_response_bytes.simps [simp del]

definition client_header :: "pystr \<Rightarrow> pystr \<Rightarrow> bytes res" where
  "client_header token account =
     (if isascii token \<and> isascii account
      then Inr (ascii_bytes (FILTER_PROTOCOL @ 32 # token @ 32 # account) @ [10])
      else Inl UnicodeEncodeError)"

definition filter_exchange ::
  "filter_env \<Rightarrow> pystr \<Rightarrow> private_file_view \<Rightarrow> private_file_view \<Rightarrow> unit wire_act" where
  "filter_exchange env account endpoint_file token_file =
     bindA (liftE (canonicalize_email (PyStr account))) (\<lambda>canonical_account.
     bindA (liftE (load_client_endpoint env endpoint_file)) (\<lambda>endpoint.
     bindA (liftE (load_client_token env token_file)) (\<lambda>token.
     bindA (liftE (client_header token canonical_account)) (\<lambda>header.
     seqA connect
     (seqA (sendall header)
     (bindA (send_message 0) (\<lambda>transferred.
      if transferred = 0 then raiseA FilterClientError
      else
        seqA shutdown_write
        (bindA (receive_response_bytes []) (\<lambda>response.
         let rendered = validated_response response in
         if rendered = [] then returnA () else sink_write rendered)))))))))"

definition run_filter_client ::
  "filter_env \<Rightarrow> pystr \<Rightarrow> private_file_view \<Rightarrow> private_file_view \<Rightarrow> int wire_act" where
  "run_filter_client env account endpoint_file token_file =
     seqA (tryA (filter_exchange env account endpoint_file token_file)
             (\<lambda>e. if e = FilterClientError \<or> is_os_error e \<or> is_value_error e then returnA () else raiseA e))
     (returnA 0)"

definition filter_client_main ::
  "filter_env \<Rightarrow> pystr list \<Rightarrow> private_file_view \<Rightarrow> private_file_view \<Rightarrow> int wire_act" where
  "filter_client_main env arguments endpoint_file token_file =
     (case arguments of
        [account] \<Rightarrow> run_filter_client env account endpoint_file token_file
      | _ \<Rightarrow> returnA 0)"

end
