(* ===== verification/Rule_Snapshots_Correct.thy ===== *)
theory Rule_Snapshots_Correct
  imports Rule_Snapshots
begin

text \<open>
  Storage of filing rules under failures and crashes: publishing one account is atomic, replacing
  the whole set purges the old snapshots first and never leaves old and new ones side by side, and a published snapshot is read
  back as it was written.
\<close>

section \<open>Weakest preconditions of the calls\<close>

lemma wp_io:
  assumes "\<And>x d'. f d = Inr (x, d') \<Longrightarrow> Q x d'" "\<And>e. E e d"
  shows "wp (ioA env f) Q E d"
  using assms
  by (auto simp: wp_def ioA_def Let_def executeA_def split: option.splits sum.splits prod.splits)

text \<open>The rules for single calls: what a call does when it succeeds, and the error case.\<close>

lemma wp_lstat [wp_rules]:
  "(\<And>f. map_of (dir_entries d) n = Some f \<Longrightarrow> Q f d) \<Longrightarrow> (\<And>e. E e d) \<Longrightarrow> wp (lstat env n) Q E d"
  unfolding lstat_def by (rule wp_io) (auto split: option.splits)

lemma wp_read_bytes [wp_rules]:
  "(\<And>f. map_of (dir_entries d) n = Some f \<Longrightarrow> Q (content f) d) \<Longrightarrow> (\<And>e. E e d) \<Longrightarrow> wp (read_bytes env n) Q E d"
  unfolding read_bytes_def by (rule wp_io) (auto split: option.splits)

lemma wp_entry_exists [wp_rules]:
  "Q (map_of (dir_entries d) n \<noteq> None) d \<Longrightarrow> (\<And>e. E e d) \<Longrightarrow> wp (entry_exists env n) Q E d"
  unfolding entry_exists_def by (rule wp_io) auto

lemma wp_change_entry [wp_rules]:
  "(\<And>f. map_of (dir_entries d) n = Some f \<Longrightarrow> Q () (d\<lparr>dir_entries := put_entry n (g f) (dir_entries d)\<rparr>)) \<Longrightarrow>
   (\<And>e. E e d) \<Longrightarrow> wp (change_entry env n g) Q E d"
  unfolding change_entry_def by (rule wp_io) (auto split: option.splits)

lemma wp_os_replace [wp_rules]:
  "(\<And>f. map_of (dir_entries d) n = Some f \<Longrightarrow>
      Q () (d\<lparr>dir_entries := put_entry m f (drop_entry n (dir_entries d))\<rparr>)) \<Longrightarrow>
   (\<And>e. E e d) \<Longrightarrow> wp (os_replace env n m) Q E d"
  unfolding os_replace_def by (rule wp_io) (auto split: option.splits)

lemma wp_unlink [wp_rules]:
  "Q () (d\<lparr>dir_entries := drop_entry n (dir_entries d)\<rparr>) \<Longrightarrow> (\<And>e. E e d) \<Longrightarrow> wp (unlink env ok n) Q E d"
  unfolding unlink_def by (rule wp_io) (auto split: if_splits)

lemma wp_sync [wp_rules]: "Q () d \<Longrightarrow> (\<And>e. E e d) \<Longrightarrow> wp (sync_directory env) Q E d"
  unfolding sync_directory_def by (auto intro!: wp_io wp_return)

lemma wp_io_same: "Q () d \<Longrightarrow> (\<And>e. E e d) \<Longrightarrow> wp (ioA env (\<lambda>d. Inr ((), d))) Q E d"
  by (rule wp_io) auto

definition temp_entry :: file_entry where
  "temp_entry = \<lparr>is_regular = True, is_symlink = False, nlink = 1, perm = 384, content = []\<rparr>"

lemma wp_mkstemp [wp_rules]:
  assumes "\<And>x. map_of (dir_entries d) (lit ''.snapshot-'' @ x) = None \<Longrightarrow>
      Q (lit ''.snapshot-'' @ x) (d\<lparr>dir_entries := put_entry (lit ''.snapshot-'' @ x) temp_entry (dir_entries d)\<rparr>)"
    and "\<And>e. E e d"
  shows "wp (mkstemp env) Q E d"
  using assms
  by (auto simp: wp_def mkstemp_def ioA_def Let_def executeA_def temp_entry_def split: option.splits if_splits)

lemma wp_require_directory [wp_rules]:
  "Q () d \<Longrightarrow> (\<And>e. E e d) \<Longrightarrow> wp (require_snapshot_directory env w) Q E d"
  unfolding require_snapshot_directory_def by (auto intro!: wp_rules wp_io)

lemma wp_require_file [wp_rules]:
  "(\<And>f. map_of (dir_entries d) n = Some f \<Longrightarrow> private_file f \<Longrightarrow> Q () d) \<Longrightarrow> (\<And>e. E e d) \<Longrightarrow>
     wp (require_snapshot_file env n) Q E d"
  unfolding require_snapshot_file_def by (auto intro!: wp_rules)

section \<open>The directory as readers see it\<close>

lemma map_of_drop_entry: "map_of (drop_entry n es) = (map_of es)(n := None)"
  by (induction es) (auto simp: drop_entry_def)

lemma map_of_put_entry: "map_of (put_entry n f es) = (map_of es)(n \<mapsto> f)"
  using map_of_drop_entry [of n es] by (auto simp: put_entry_def drop_entry_def)

text \<open>Readers open only files with the name of a snapshot; temporary files are invisible to them.\<close>

definition published :: "snapshot_dir \<Rightarrow> pystr \<rightharpoonup> file_entry" where
  "published d n = (if prefix (lit ''.snapshot-'') n then None else map_of (dir_entries d) n)"

lemma published_temp [simp]:
  "published (d\<lparr>dir_entries := put_entry (lit ''.snapshot-'' @ x) f es\<rparr>) = published (d\<lparr>dir_entries := es\<rparr>)"
  "published (d\<lparr>dir_entries := drop_entry (lit ''.snapshot-'' @ x) es\<rparr>) = published (d\<lparr>dir_entries := es\<rparr>)"
  "published (d\<lparr>dir_entries := dir_entries d\<rparr>) = published d"
  by (auto simp: published_def map_of_put_entry map_of_drop_entry)

lemma published_put:
  "\<not> prefix (lit ''.snapshot-'') n \<Longrightarrow>
     published (d\<lparr>dir_entries := put_entry n f es\<rparr>) = (published (d\<lparr>dir_entries := es\<rparr>))(n \<mapsto> f)"
  by (auto simp: published_def map_of_put_entry)

lemma snapshot_name_visible: "snapshot_name env a = Inr n \<Longrightarrow> \<not> prefix (lit ''.snapshot-'') n"
proof -
  have h: "set (hex b) \<subseteq> set hex_alphabet" for b
    unfolding hex_def by (rule set_encode_digits) (simp_all add: alphabet_defs)
  have "\<not> prefix (lit ''.snapshot-'') (hex b @ lit ''.json'')" for b
  proof (cases "hex b")
    case (Cons c cs)
    then have "c \<noteq> 46" using h [of b] by (auto simp: alphabet_defs)
    then show ?thesis by (simp add: Cons lit_def)
  qed (simp add: lit_def)
  then show "snapshot_name env a = Inr n \<Longrightarrow> \<not> prefix (lit ''.snapshot-'') n"
    by (auto simp: snapshot_name_def split: if_splits)
qed

text \<open>A publication: the file of the account is new, everything else as it was.\<close>

definition publication :: "snapshot_env \<Rightarrow> pystr \<Rightarrow> pyval \<Rightarrow> snapshot_dir \<Rightarrow> snapshot_dir \<Rightarrow> pystr \<Rightarrow> bool" where
  "publication env account rules d d' target \<longleftrightarrow>
     snapshot_name env account = Inr target \<and> dir_perm d' = dir_perm d \<and> dir_uid d' = dir_uid d
     \<and> dir_is_directory d' = dir_is_directory d \<and> dir_is_symlink d' = dir_is_symlink d
     \<and> (\<exists>f. published d' = (published d)(target \<mapsto> f) \<and> private_file f
           \<and> build_snapshot account rules = Inr (content f))"

definition unpublished :: "snapshot_env \<Rightarrow> pystr \<Rightarrow> pyval \<Rightarrow> snapshot_dir \<Rightarrow> snapshot_dir \<Rightarrow> bool" where
  "unpublished env account rules d d' \<longleftrightarrow>
     published d' = published d \<or> (\<exists>target. publication env account rules d d' target)"

lemma unpublished_drop_temp:
  "unpublished env account rules d d' \<Longrightarrow>
     unpublished env account rules d (d'\<lparr>dir_entries := drop_entry (lit ''.snapshot-'' @ x) (dir_entries d')\<rparr>)"
  by (auto simp: unpublished_def publication_def)

lemma unpublished_same: "published d' = published d \<Longrightarrow> unpublished env account rules d d'"
  by (simp add: unpublished_def)

lemma publicationI:
  assumes "snapshot_name env account = Inr target" "build_snapshot account rules = Inr (content f)" "private_file f"
    and "published (d\<lparr>dir_entries := es\<rparr>) = published d"
  shows "publication env account rules d (d\<lparr>dir_entries := put_entry target f es\<rparr>) target"
  using assms published_put [OF snapshot_name_visible [OF assms(1)]] by (auto simp: publication_def)

lemma wp_publish:
  "wp (publish_snapshot env account rules group_id)
     (\<lambda>target d'. publication env account rules d d' target) (\<lambda>e d'. unpublished env account rules d d') d"
proof -
  have same: "unpublished env account rules d d" by (simp add: unpublished_def)
  have body: "wp (seqA (change_entry env t (\<lambda>f. f\<lparr>perm := 416\<rparr>))
       (seqA (if group_id \<noteq> None \<and> is_posix env then ioA env (\<lambda>d. Inr ((), d)) else returnA ())
       (seqA (change_entry env t (\<lambda>f. f\<lparr>content := payload\<rparr>))
       (seqA (os_replace env t target)
       (seqA (sync_directory env)
       (seqA (require_snapshot_file env target)
       (bindA (read_bytes env target) (\<lambda>data.
        if data \<noteq> payload then raiseA RuleSnapshotError else returnA target))))))))
     (\<lambda>target d'. publication env account rules d d' target) (\<lambda>e d'. unpublished env account rules d d')
     (d\<lparr>dir_entries := put_entry t temp_entry (dir_entries d)\<rparr>)"
    if t: "t = lit ''.snapshot-'' @ x"
      and target: "build_snapshot account rules = Inr payload" "snapshot_name env account = Inr target" for payload target t x
  proof -
    let ?f = "temp_entry\<lparr>perm := 416, content := payload\<rparr>"
    have f: "private_file ?f" "content ?f = payload" by (simp_all add: private_file_def temp_entry_def)
    let ?new = "\<lambda>es. d\<lparr>dir_entries := put_entry target ?f (drop_entry t es)\<rparr>"
    have new: "publication env account rules d (?new es) target"
      if "published (d\<lparr>dir_entries := es\<rparr>) = published d" for es
      using publicationI [OF target(2) _ f(1), where rules = rules and d = d and es = "drop_entry t es"] target(1) f(2) that by (simp add: t)
    then have err: "unpublished env account rules d (?new es)"
      if "published (d\<lparr>dir_entries := es\<rparr>) = published d" for es
      using that by (auto simp: unpublished_def)
    show ?thesis
      by (intro wp_rules wp_io_same) (auto simp: map_of_put_entry t new [unfolded t] err [unfolded t] unpublished_same)
  qed
  have discard: "wp (discard_on_error env (lit ''.snapshot-'' @ x) m) Q (\<lambda>e d'. unpublished env account rules d d') d1"
    if "wp m Q (\<lambda>e d'. unpublished env account rules d d') d1" for x and m :: "pystr dir_act" and Q d1
    unfolding discard_on_error_def
    by (rule wp_try, rule wp_mono [OF that]) (auto intro!: wp_seq wp_unlink wp_raise unpublished_drop_temp)
  show ?thesis
    unfolding publish_snapshot_def
    by (intro wp_seq wp_bind wp_require_directory wp_lift wp_entry_exists wp_if wp_require_file wp_return wp_mkstemp
        discard [OF body [OF refl]] same)
qed

text \<open>
  C32. Publishing is atomic under every failure and crash: afterwards readers see either exactly what
  they saw before, or in addition the complete new file of the account, private and with the
  announced content. When the call returns, it is the latter.
\<close>

theorem publish_snapshot_atomic:
  "case publish_snapshot env account rules group_id s of (r, t) \<Rightarrow>
     (published (db t) = published (db s) \<and> (\<exists>e. r = Inl e))
     \<or> (\<exists>target f. snapshot_name env account = Inr target \<and> published (db t) = (published (db s))(target \<mapsto> f)
          \<and> private_file f \<and> build_snapshot account rules = Inr (content f)
          \<and> (r = Inr target \<or> (\<exists>e. r = Inl e)))"
proof -
  obtain r t where r: "publish_snapshot env account rules group_id s = (r, t)" by force
  from wp_outcome [OF wp_publish r] show ?thesis
    unfolding r by (cases r) (auto simp: unpublished_def publication_def)
qed

section \<open>Replacing the whole set\<close>

lemma wp_scan_entries:
  "wp (scan_entries env ns)
     (\<lambda>(existing, unsafe) d'. d' = d \<and> set existing \<subseteq> set ns \<and> (\<not> unsafe \<longrightarrow> existing = ns)) (\<lambda>e d'. d' = d) d"
proof (induction ns)
  case Nil
  show ?case by (simp add: wp_return)
next
  case (Cons n ns)
  show ?case
    unfolding scan_entries.simps
    by (intro wp_bind wp_if wp_return wp_try wp_seq wp_require_file)
      (auto intro!: wp_rules wp_mono [OF Cons.IH])
qed

definition all_new :: "snapshot_env \<Rightarrow> (pystr \<times> pyval) list \<Rightarrow> snapshot_dir \<Rightarrow> bool" where
  "all_new env snapshots d \<longleftrightarrow>
     (\<forall>name f. published d name = Some f \<longrightarrow> private_file f \<and>
        (\<exists>(account, rules) \<in> set snapshots. snapshot_name env account = Inr name
           \<and> build_snapshot account rules = Inr (content f)))"

lemma all_new_publication:
  assumes new: "all_new env snapshots d" and mem: "(account, rules) \<in> set snapshots"
    and pub: "publication env account rules d d' target"
  shows "all_new env snapshots d'"
  unfolding all_new_def
proof (intro allI impI)
  fix name f
  assume f: "published d' name = Some f"
  from pub obtain g where g: "published d' = (published d)(target \<mapsto> g)" "private_file g"
    "build_snapshot account rules = Inr (content g)" "snapshot_name env account = Inr target"
    by (auto simp: publication_def)
  show "private_file f \<and> (\<exists>(account, rules) \<in> set snapshots. snapshot_name env account = Inr name
      \<and> build_snapshot account rules = Inr (content f))"
  proof (cases "name = target")
    case True
    with f g mem show ?thesis by auto
  next
    case False
    with f g(1) have "published d name = Some f" by simp
    with new show ?thesis unfolding all_new_def by blast
  qed
qed

lemma all_new_unpublished:
  assumes "all_new env snapshots d" "(account, rules) \<in> set snapshots" "unpublished env account rules d d'"
  shows "all_new env snapshots d'"
  using assms(3) unfolding unpublished_def
proof
  assume "published d' = published d"
  with assms(1) show ?thesis by (simp add: all_new_def)
qed (use all_new_publication [OF assms(1,2)] in blast)

definition names_of :: "snapshot_env \<Rightarrow> (pystr \<times> pyval) list \<Rightarrow> pystr set" where
  "names_of env snapshots = {name. \<exists>(account, rules) \<in> set snapshots. snapshot_name env account = Inr name}"

text \<open>The loop that publishes, from an empty directory.\<close>

abbreviation publish_prepared ::
  "snapshot_env \<Rightarrow> int option \<Rightarrow> (pystr \<times> pyval) list \<Rightarrow> bytes list \<Rightarrow> unit dir_act" where
  "publish_prepared env group_id items prepared \<equiv>
     forA (zip items prepared) (\<lambda>((account, rules), payload).
       bindA (publish_snapshot env account rules group_id) (\<lambda>path.
       bindA (read_bytes env path) (\<lambda>data.
       if data \<noteq> payload then raiseA RuleSnapshotError else returnA ())))"

lemma wp_publish_all:
  assumes "set items \<subseteq> set snapshots" "all_new env snapshots d" "length prepared = length items"
  shows "wp (publish_prepared env group_id items prepared)
     (\<lambda>_ d'. all_new env snapshots d' \<and> dom (published d') = dom (published d) \<union> names_of env items)
     (\<lambda>e d'. all_new env snapshots d') d"
  using assms
proof (induction items arbitrary: prepared d)
  case Nil
  then show ?case by (simp add: wp_return names_of_def)
next
  case (Cons item items)
  obtain account rules where item: "item = (account, rules)" by force
  obtain payload prepared' where prep: "prepared = payload # prepared'" using Cons.prems(3) by (cases prepared) auto
  have mem: "(account, rules) \<in> set snapshots" using Cons.prems(1) item by simp
  have rest: "wp (publish_prepared env group_id items prepared')
     (\<lambda>_ d''. all_new env snapshots d'' \<and> dom (published d'') = dom (published d) \<union> names_of env (item # items))
     (\<lambda>e d''. all_new env snapshots d'') d'"
    if "publication env account rules d d' target" for d' target
  proof -
    have "all_new env snapshots d'" by (rule all_new_publication [OF Cons.prems(2) mem that])
    moreover have "dom (published d') = insert target (dom (published d))" "snapshot_name env account = Inr target"
      using that by (auto simp: publication_def)
    ultimately show ?thesis
      using Cons.prems prep by (intro wp_mono [OF Cons.IH]) (auto simp: names_of_def item)
  qed
  show ?case
    unfolding prep item zip_Cons_Cons forA.simps split
    by (intro wp_seq wp_bind wp_mono [OF wp_publish])
      (auto intro!: wp_read_bytes wp_if wp_raise wp_return rest [unfolded item] all_new_unpublished [OF Cons.prems(2) mem]
        simp: unpublished_def)
qed

lemma published_le: "map_of (dir_entries d') \<subseteq>\<^sub>m map_of (dir_entries d) \<Longrightarrow> published d' \<subseteq>\<^sub>m published d"
  by (auto simp: published_def map_le_def dom_def split: if_splits)

lemma restrict_le [simp]: "m |` A \<subseteq>\<^sub>m m"
  by (auto simp: map_le_def restrict_map_def split: if_splits)

lemma wp_purge_entries:
  "wp (forA existing (unlink env False))
     (\<lambda>_ d'. map_of (dir_entries d') = (map_of (dir_entries d)) |` (- set existing))
     (\<lambda>e d'. map_of (dir_entries d') \<subseteq>\<^sub>m map_of (dir_entries d)) d"
proof (rule wp_for [where I = "\<lambda>ys d'. \<exists>xs. existing = xs @ ys \<and>
      map_of (dir_entries d') = (map_of (dir_entries d)) |` (- set xs)"])
  fix n ys and d' :: snapshot_dir
  assume "\<exists>xs. existing = xs @ n # ys \<and> map_of (dir_entries d') = (map_of (dir_entries d)) |` (- set xs)"
  then obtain xs where xs: "existing = xs @ n # ys" "map_of (dir_entries d') = (map_of (dir_entries d)) |` (- set xs)"
    by blast
  have "map_of (dir_entries d') \<subseteq>\<^sub>m map_of (dir_entries d)" by (simp add: xs(2))
  moreover have "existing = (xs @ [n]) @ ys" using xs(1) by simp
  moreover have "map_of (drop_entry n (dir_entries d')) = (map_of (dir_entries d)) |` (- set (xs @ [n]))"
    by (auto simp: map_of_drop_entry xs(2) restrict_map_def)
  ultimately show "wp (unlink env False n)
      (\<lambda>_ d'. \<exists>xs. existing = xs @ ys \<and> map_of (dir_entries d') = (map_of (dir_entries d)) |` (- set xs))
      (\<lambda>e d'. map_of (dir_entries d') \<subseteq>\<^sub>m map_of (dir_entries d)) d'"
    by (intro wp_unlink) (auto intro!: exI [of _ "xs @ [n]"])
qed (auto intro: exI [of _ "[]"])

text \<open>Without regard to the calls that failed: what readers see is old, or it is new.\<close>

lemma wp_replace_set:
  "wp (replace_snapshot_set env snapshots group_id)
     (\<lambda>_ d'. all_new env snapshots d' \<and> dom (published d') = names_of env snapshots)
     (\<lambda>e d'. published d' \<subseteq>\<^sub>m published d \<or> all_new env snapshots d') d"
proof -
  let ?items = "sort_key fst snapshots"
  have publish: "wp (publish_prepared env group_id ?items prepared)
       (\<lambda>_ d'. all_new env snapshots d' \<and> dom (published d') = names_of env snapshots)
       (\<lambda>e d'. published d' \<subseteq>\<^sub>m published d \<or> all_new env snapshots d') d1"
    if "map_of (dir_entries d1) = (map_of (dir_entries d)) |` (- set (map fst (dir_entries d)))"
      "traverse (\<lambda>(account, rules). build_snapshot account rules) ?items = Inr prepared" for d1 prepared
  proof -
    have "map_of (dir_entries d1) = Map.empty"
      unfolding that(1) by (auto simp: restrict_map_def map_of_eq_None_iff fun_eq_iff)
    then have e: "published d1 = Map.empty" by (auto simp: published_def)
    then have "all_new env snapshots d1" by (simp add: all_new_def)
    moreover have "length prepared = length ?items" using that(2) by (auto simp: res_simps dest: list_all2_lengthD)
    ultimately show ?thesis
      by (intro wp_mono [OF wp_publish_all [of ?items snapshots]]) (auto simp: e names_of_def)
  qed
  show ?thesis
    unfolding replace_snapshot_set_def Let_def
    by (intro wp_seq wp_bind wp_require_directory wp_lift wp_io wp_mono [OF wp_scan_entries])
      (auto intro!: wp_seq wp_mono [OF wp_purge_entries] wp_sync wp_raise publish published_le)
qed

text \<open>
  An entry that the purge takes: it has the name of a snapshot or of a temporary file and is a private
  single-link regular file. The purge asks for the directory, its listing, the state of every entry
  with such a name, and the removal of each that passes.
\<close>

definition candidate :: "pystr \<Rightarrow> bool" where
  "candidate n \<longleftrightarrow> SNAPSHOT_FILE_RE n \<or> prefix (lit ''.snapshot-'') n"

definition verified :: "snapshot_dir \<Rightarrow> pystr \<Rightarrow> bool" where
  "verified d n \<longleftrightarrow> candidate n \<and> (\<exists>f. map_of (dir_entries d) n = Some f \<and> private_file f)"

definition purge_calls :: "snapshot_dir \<Rightarrow> nat" where
  "purge_calls d = 2 + length (filter candidate (map fst (dir_entries d)))
     + length (filter (verified d) (map fst (dir_entries d)))"

abbreviation faultless :: "snapshot_env \<Rightarrow> nat \<Rightarrow> nat \<Rightarrow> bool" where
  "faultless env k n \<equiv> (\<forall>i. k \<le> i \<and> i < k + n \<longrightarrow> io_fault env i = None)"

lemma io_faultless: "io_fault env (readings s) = None \<Longrightarrow>
    ioA env f s = executeA f (s\<lparr>readings := Suc (readings s)\<rparr>)"
  by (simp add: ioA_def Let_def)

lemma require_directory_reads:
  "require_snapshot_directory env w s = (Inr x, u) \<Longrightarrow> u = s\<lparr>readings := Suc (readings s)\<rparr>"
  by (auto simp: require_snapshot_directory_def bindA_Inr ioA_def Let_def executeA_def raiseA_def returnA_def
      split: if_splits option.splits)

lemma require_file_faultless:
  "io_fault env (readings s) = None \<Longrightarrow> require_snapshot_file env m s =
     (case map_of (dir_entries (db s)) m of
        None \<Rightarrow> Inl FileNotFoundError
      | Some f \<Rightarrow> if private_file f then Inr () else Inl RuleSnapshotError,
      s\<lparr>readings := Suc (readings s)\<rparr>)"
  by (simp add: require_snapshot_file_def lstat_def io_faultless bindA_def executeA_def returnA_def raiseA_def
      split: option.split)

lemma scan_faultless:
  "faultless env (readings s) (length (filter candidate ns)) \<Longrightarrow> scan_entries env ns s =
     (Inr (filter (verified (db s)) ns, \<exists>n \<in> set ns. \<not> verified (db s) n),
      s\<lparr>readings := readings s + length (filter candidate ns)\<rparr>)"
proof (induction ns arbitrary: s)
  case Nil
  show ?case by (simp add: returnA_def)
next
  case (Cons n ns)
  show ?case
  proof (cases "candidate n")
    case False
    then have "faultless env (readings s) (length (filter candidate ns))" using Cons.prems by simp
    from Cons.IH [OF this] have "scan_entries env ns s = (Inr (filter (verified (db s)) ns,
        \<exists>n \<in> set ns. \<not> verified (db s) n), s\<lparr>readings := readings s + length (filter candidate ns)\<rparr>)" .
    moreover have "\<not> SNAPSHOT_FILE_RE n" "\<not> prefix (lit ''.snapshot-'') n" "\<not> verified (db s) n"
      using False by (simp_all add: candidate_def verified_def)
    ultimately show ?thesis using False by (simp add: bindA_def returnA_def)
  next
    case True
    let ?u = "s\<lparr>readings := Suc (readings s)\<rparr>"
    have "faultless env (readings ?u) (length (filter candidate ns))" using Cons.prems True by auto
    from Cons.IH [OF this] have rest: "scan_entries env ns ?u =
        (Inr (filter (verified (db s)) ns, \<exists>n \<in> set ns. \<not> verified (db s) n),
         s\<lparr>readings := Suc (readings s + length (filter candidate ns))\<rparr>)" by simp
    have "io_fault env (readings s) = None" using Cons.prems True by simp
    from require_file_faultless [OF this, of n]
    have "tryA (seqA (require_snapshot_file env n) (returnA True))
        (\<lambda>e. if e = FileNotFoundError \<or> e = RuleSnapshotError then returnA False else raiseA e) s
      = (Inr (verified (db s) n), ?u)"
      using True by (auto simp: tryA_def seqA_def bindA_def returnA_def verified_def split: option.splits)
    moreover have "\<not> (\<not> SNAPSHOT_FILE_RE n \<and> \<not> prefix (lit ''.snapshot-'') n)"
      using True by (simp add: candidate_def)
    ultimately show ?thesis using True rest
      by (simp only: scan_entries.simps if_False) (simp add: bindA_def returnA_def)
  qed
qed

lemma purge_faultless:
  "faultless env (readings s) (length ns) \<Longrightarrow> distinct ns \<Longrightarrow> set ns \<subseteq> dom (map_of (dir_entries (db s))) \<Longrightarrow>
   \<exists>u. forA ns (unlink env False) s = (Inr (), u)
     \<and> map_of (dir_entries (db u)) = (map_of (dir_entries (db s))) |` (- set ns)"
proof (induction ns arbitrary: s)
  case Nil
  show ?case by (simp add: returnA_def)
next
  case (Cons n ns)
  let ?u = "s\<lparr>readings := Suc (readings s), db := (db s)\<lparr>dir_entries := drop_entry n (dir_entries (db s))\<rparr>\<rparr>"
  have "io_fault env (readings s) = None" "map_of (dir_entries (db s)) n \<noteq> None" using Cons.prems by auto
  then have first: "unlink env False n s = (Inr (), ?u)"
    by (auto simp: unlink_def io_faultless executeA_def)
  have "\<exists>v. forA ns (unlink env False) ?u = (Inr (), v)
     \<and> map_of (dir_entries (db v)) = (map_of (dir_entries (db ?u))) |` (- set ns)"
    using Cons.prems by (intro Cons.IH) (auto simp: map_of_drop_entry)
  then obtain v where "forA ns (unlink env False) ?u = (Inr (), v)"
    "map_of (dir_entries (db v)) = (map_of (drop_entry n (dir_entries (db s)))) |` (- set ns)" by auto
  with first show ?case
    by (intro exI [of _ v]) (auto simp: seqA_def bindA_def map_of_drop_entry restrict_map_def fun_eq_iff)
qed

text \<open>After the purge only what it left, or files of the new set.\<close>

lemma wp_after_purge:
  assumes "\<not> unsafe \<Longrightarrow> published d = Map.empty" "length prepared = length items" "set items \<subseteq> set snapshots"
  shows "wp (seqA (sync_directory env) (if unsafe then raiseA RuleSnapshotError
       else publish_prepared env group_id items prepared))
     (\<lambda>_ _. True) (\<lambda>_ d'. published d' = published d \<or> all_new env snapshots d') d"
proof -
  have "wp (publish_prepared env group_id items prepared)
     (\<lambda>_ _. True) (\<lambda>_ d'. published d' = published d \<or> all_new env snapshots d') d" if "\<not> unsafe"
    using assms that by (intro wp_mono [OF wp_publish_all [of items snapshots]]) (auto simp: all_new_def)
  then show ?thesis by (intro wp_seq wp_sync wp_if wp_raise) auto
qed

lemma purged_set:
  assumes entries: "distinct (map fst (dir_entries (db s)))"
    and dir: "require_snapshot_directory env True s = (Inr (), u)"
    and built: "traverse (\<lambda>(account, rules). build_snapshot account rules) (sort_key fst snapshots) = Inr prepared"
    and calm: "faultless env (readings s) (purge_calls (db s))"
    and fails: "replace_snapshot_set env snapshots group_id s = (Inl e, t)"
  shows "published (db t) = published (db s) |` {n. \<not> verified (db s) n} \<or> all_new env snapshots (db t)"
proof -
  let ?items = "sort_key fst snapshots"
  let ?names = "map fst (dir_entries (db s))"
  let ?existing = "filter (verified (db s)) ?names"
  let ?unsafe = "\<exists>n \<in> set ?names. \<not> verified (db s) n"
  let ?u = "s\<lparr>readings := Suc (readings s)\<rparr>"
  let ?v = "s\<lparr>readings := Suc (Suc (readings s))\<rparr>"
  let ?w = "s\<lparr>readings := Suc (Suc (readings s)) + length (filter candidate ?names)\<rparr>"
  have u: "u = ?u" by (rule require_directory_reads [OF dir])
  have lifted: "liftE (traverse (\<lambda>(account, rules). build_snapshot account rules) ?items) ?u = (Inr prepared, ?u)"
    by (simp add: liftE_def built)
  have listing: "ioA env (\<lambda>d. Inr (map fst (dir_entries d), d)) ?u = (Inr ?names, ?v)"
    using calm by (simp add: io_faultless executeA_def purge_calls_def)
  have "faultless env (readings ?v) (length (filter candidate ?names))"
    using calm by (auto simp: purge_calls_def)
  from scan_faultless [OF this] have scan: "scan_entries env ?names ?v = (Inr (?existing, ?unsafe), ?w)" by simp
  have "\<exists>x. forA ?existing (unlink env False) ?w = (Inr (), x)
      \<and> map_of (dir_entries (db x)) = (map_of (dir_entries (db ?w))) |` (- set ?existing)"
    using calm entries by (intro purge_faultless) (auto simp: purge_calls_def verified_def)
  then obtain x where x: "forA ?existing (unlink env False) ?w = (Inr (), x)"
    "map_of (dir_entries (db x)) = (map_of (dir_entries (db s))) |` (- set ?existing)" by auto
  have known: "n \<in> set ?names" if "verified (db s) n" for n
    using that by (auto simp: verified_def dest: map_of_SomeD intro: rev_image_eqI)
  have pub: "published (db x) = published (db s) |` {n. \<not> verified (db s) n}"
    using known by (auto simp: published_def x(2) restrict_map_def fun_eq_iff)
  have "seqA (sync_directory env) (if ?unsafe then raiseA RuleSnapshotError
       else publish_prepared env group_id ?items prepared) x = (Inl e, t)"
    using fails
    by (simp only: replace_snapshot_set_def Let_def seqA_def bindA_def dir [unfolded u] lifted listing scan x(1)
        prod.case sum.case)
  moreover have "wp (seqA (sync_directory env) (if ?unsafe then raiseA RuleSnapshotError
       else publish_prepared env group_id ?items prepared))
     (\<lambda>_ _. True) (\<lambda>_ d'. published d' = published (db x) \<or> all_new env snapshots d') (db x)"
  proof (rule wp_after_purge)
    assume "\<not> ?unsafe"
    then show "published (db x) = Map.empty"
      unfolding pub by (auto simp: restrict_map_def fun_eq_iff published_def map_of_eq_None_iff)
  qed (use built in \<open>auto simp: res_simps dest: list_all2_lengthD\<close>)
  ultimately show ?thesis using wpD(2) pub by fastforce
qed

text \<open>
  C33. Replacing the set leaves no older rule set behind and never mixes two. When the call returns,
  readers see exactly one complete file for each account of the new set. When it raises, then
  either readers see only complete files of the new set, or the purge was finished and they see
  exactly the entries that are not private snapshot files, as when the call raises because of such
  an entry. Old snapshots can remain only if the directory was refused, a snapshot of the new set
  cannot be built, or a system call failed before the purge was done; they are then a part of what
  was visible before.
\<close>

theorem replace_snapshot_set_outcome:
  assumes "distinct (map fst (dir_entries (db s)))"
  shows "case replace_snapshot_set env snapshots group_id s of
     (Inr _, t) \<Rightarrow> all_new env snapshots (db t) \<and> dom (published (db t)) = names_of env snapshots
   | (Inl e, t) \<Rightarrow>
       all_new env snapshots (db t)
       \<or> published (db t) = published (db s) |` {n. \<not> verified (db s) n}
       \<or> (published (db t) \<subseteq>\<^sub>m published (db s)
          \<and> ((\<exists>e'. fst (require_snapshot_directory env True s) = Inl e')
             \<or> (\<exists>e'. traverse (\<lambda>(account, rules). build_snapshot account rules) (sort_key fst snapshots) = Inl e')
             \<or> (\<exists>i. readings s \<le> i \<and> i < readings s + purge_calls (db s) \<and> io_fault env i \<noteq> None)))"
proof -
  obtain r t where run: "replace_snapshot_set env snapshots group_id s = (r, t)" by force
  note outcome = wp_outcome [OF wp_replace_set run]
  show ?thesis
  proof (cases r)
    case (Inr x)
    with run outcome show ?thesis by simp
  next
    case (Inl e)
    have "published (db t) = published (db s) |` {n. \<not> verified (db s) n} \<or> all_new env snapshots (db t)"
      if "fst (require_snapshot_directory env True s) = Inr ()"
        "traverse (\<lambda>(account, rules). build_snapshot account rules) (sort_key fst snapshots) = Inr prepared"
        "faultless env (readings s) (purge_calls (db s))" for prepared
      using purged_set [OF assms _ that(2,3)] that(1) run Inl by (metis prod.collapse)
    with run outcome Inl show ?thesis
      by (cases "fst (require_snapshot_directory env True s)";
          cases "traverse (\<lambda>(account, rules). build_snapshot account rules) (sort_key fst snapshots)") auto
  qed
qed

text \<open>A directory with one snapshot and an unexpected file: the snapshot goes before the call raises.\<close>

definition calm_env :: snapshot_env where
  "calm_env =
     \<lparr>sha256 = (\<lambda>b. replicate 32 7), io_fault = (\<lambda>n. None), path_is_specific = True, is_posix = True, euid = 0,
      temp_suffix = (\<lambda>n. lit ''x''), float_repr = (\<lambda>s. []), decode_wide = (\<lambda>b. Inl UnicodeDecodeError),
      json_limit = 900\<rparr>"

definition sample_file :: file_entry where
  "sample_file = \<lparr>is_regular = True, is_symlink = False, nlink = 1, perm = 416, content = [123, 125]\<rparr>"

definition cluttered :: "snapshot_dir store" where
  "cluttered =
     \<lparr>db = \<lparr>dir_is_directory = True, dir_is_symlink = False, dir_perm = 448, dir_uid = 0,
        dir_entries = [(replicate 64 97 @ lit ''.json'', sample_file), (lit ''unexpected'', sample_file)]\<rparr>,
      draws = 0, readings = 0, closed = False\<rparr>"

theorem replace_snapshot_set_outcome_witness:
  "distinct (map fst (dir_entries (db cluttered))) \<and> verified (db cluttered) (replicate 64 97 @ lit ''.json'')
   \<and> fst (replace_snapshot_set calm_env [] None cluttered) = Inl RuleSnapshotError
   \<and> published (db (snd (replace_snapshot_set calm_env [] None cluttered)))
       = published (db cluttered) |` {n. \<not> verified (db cluttered) n}"
proof -
  have d: "distinct (map fst (dir_entries (db cluttered)))" by code_simp
  have v: "verified (db cluttered) (replicate 64 97 @ lit ''.json'')"
  proof -
    have "candidate (replicate 64 97 @ lit ''.json'')" by code_simp
    then show ?thesis by (simp add: verified_def cluttered_def sample_file_def private_file_def)
  qed
  have e: "fst (replace_snapshot_set calm_env [] None cluttered) = Inl RuleSnapshotError" by code_simp
  have left: "published (db (snd (replace_snapshot_set calm_env [] None cluttered))) (lit ''unexpected'') = Some sample_file"
    by code_simp
  have "\<not> all_new calm_env [] (db (snd (replace_snapshot_set calm_env [] None cluttered)))"
    using left by (auto simp: all_new_def)
  moreover have "fst (require_snapshot_directory calm_env True cluttered) = Inr ()" by code_simp
  ultimately show ?thesis
    using replace_snapshot_set_outcome [OF d, of calm_env "[]" None] d v e
    by (auto simp: calm_env_def split: prod.splits sum.splits)
qed

text \<open>
  The documentation promises that no older rule set stays active. A set that cannot be built, for
  instance because one account's rules are too large, is refused before anything is removed.
\<close>

lemma unbuildable_set_keeps_old:
  assumes "traverse (\<lambda>(account, rules). build_snapshot account rules) (sort_key fst snapshots) = Inl e"
  shows "case replace_snapshot_set env snapshots group_id s of (r, t) \<Rightarrow> db t = db s"
proof -
  have wp: "wp (replace_snapshot_set env snapshots group_id) (\<lambda>_ d'. False) (\<lambda>e d'. d' = d) d" for d
    unfolding replace_snapshot_set_def Let_def
    by (intro wp_seq wp_bind wp_require_directory wp_lift) (use assms in auto)
  obtain r t where r: "replace_snapshot_set env snapshots group_id s = (r, t)" by force
  from wp_outcome [OF wp r] show ?thesis unfolding r by (cases r) auto
qed

section \<open>Reading back\<close>

definition printable_int :: "int \<Rightarrow> bool" where
  "printable_int i \<longleftrightarrow> length (dec_nat (nat \<bar>i\<bar>)) \<le> INT_MAX_STR_DIGITS"

definition float_kept :: "snapshot_env \<Rightarrow> string \<Rightarrow> bool" where
  "float_kept env s \<longleftrightarrow> float_text (lit s) \<and> float_repr env (lit s) = s"

lemma filter_digits: "list_all is_digit s \<Longrightarrow> filter is_digit s = s"
  by (simp add: list_all_iff)

lemma default_parse_int_dec_int: "printable_int i \<Longrightarrow> default_parse_int (dec_int i) = Inr (PyInt i)"
proof -
  assume p: "printable_int i"
  have d: "filter is_digit (dec_nat n) = dec_nat n" for n using dec_nat_digits by (intro filter_digits) blast
  have "filter is_digit (dec_int i) = dec_nat (nat \<bar>i\<bar>)"
    by (simp add: dec_int_def d is_digit_def)
  with p show ?thesis by (simp add: default_parse_int_def printable_int_def)
qed

interpretation snapshot_json: json_reader "snapshot_hooks env" printable_int "float_kept env" for env
  by unfold_locales
    (simp_all add: snapshot_hooks_def default_parse_int_dec_int float_kept_def unique_object_def)

lemma canon_document:
  "json_canon True (snapshot_document account rules) =
     PyDict [(PyStr (lit ''account''), PyStr account), (PyStr (lit ''rules''), PyList (map (json_canon True) rules)),
       (PyStr (lit ''version''), PyInt 1)]"
  by (simp add: snapshot_document_def SNAPSHOT_VERSION_def lit_def)

lemma build_snapshot_text:
  assumes "build_snapshot account (PyList rules) = Inr payload"
  obtains t where "dumps False True (snapshot_document account rules) = Inr t" "utf8_encode t = Inr payload"
    "length rules \<le> 100" "2 \<le> length payload" "length payload \<le> MAX_SNAPSHOT_BYTES"
proof -
  from assms obtain dicts where d: "traverse as_dict rules = Inr dicts" "length rules \<le> 100"
    and rest: "(case bind_res (dumps False True (snapshot_document account dicts)) utf8_encode of
       Inl e \<Rightarrow> if e = TypeError \<or> is_value_error e then Inl ValueError else Inl e
     | Inr encoded \<Rightarrow>
         if \<not> (2 \<le> length encoded \<and> length encoded \<le> MAX_SNAPSHOT_BYTES) then Inl ValueError
         else Inr encoded) = Inr payload"
    by (auto simp: build_snapshot_def res_simps split: if_splits)
  have "as_dict v = Inr w \<Longrightarrow> v = w" for v w by (cases v) (auto simp: as_dict_def)
  then have "list_all2 (=) rules dicts" using d(1) by (auto simp: res_simps elim!: list_all2_mono)
  then have "dicts = rules" by (simp add: list.rel_eq)
  with rest that d(2) show thesis
    by (auto simp: bind_res_def split: sum.splits if_splits)
qed

lemma dumps_document:
  assumes "dumps False True (snapshot_document account rules) = Inr t"
  shows "\<exists>r. t = 123 # 34 # r"
proof -
  have keys: "sort_key fst [(lit ''version'', PyInt SNAPSHOT_VERSION), (lit ''account'', PyStr account), (lit ''rules'', PyList rules)]
    = [(lit ''account'', PyStr account), (lit ''rules'', PyList rules), (lit ''version'', PyInt SNAPSHOT_VERSION)]"
    by (simp add: lit_def)
  show ?thesis
    using assms unfolding snapshot_document_def dumps_simps text_keys.simps bind_res_simps if_True keys
    by (auto simp: res_simps list_all2_Cons1 dump_string_def)
qed

lemma detect_encoding_document:
  assumes "dumps False True (snapshot_document account rules) = Inr t" "utf8_encode t = Inr payload"
  shows "detect_encoding payload = Utf8"
proof -
  obtain r where "t = 123 # 34 # r" using dumps_document [OF assms(1)] by blast
  then obtain p where "payload = 123 # 34 # p"
    using assms(2) by (auto simp: utf8_encode_def utf8_units_def split: if_splits)
  then show ?thesis by (simp add: detect_encoding_def)
qed

text \<open>The content of a published file is read as the document it was written for.\<close>

lemma parse_built_snapshot:
  assumes "build_snapshot account (PyList rules) = Inr payload"
    and ok: "json_value False printable_int (float_kept env) (snapshot_document account rules)"
    and depth: "json_depth (snapshot_document account rules) \<le> json_limit env"
  shows "parse_snapshot env account payload = Inr (json_canon True (snapshot_document account rules))"
proof -
  from build_snapshot_text [OF assms(1)] obtain t where
    t: "dumps False True (snapshot_document account rules) = Inr t" "utf8_encode t = Inr payload"
    and size: "length rules \<le> 100" "2 \<le> length payload" "length payload \<le> MAX_SNAPSHOT_BYTES" .
  have "recursion_limit (snapshot_hooks env) = json_limit env" by (simp add: snapshot_hooks_def)
  then have l: "loads (snapshot_hooks env) t = Inr (json_canon True (snapshot_document account rules))"
    using snapshot_json.loads_dumps [OF t(1) ok] depth by simp
  have d: "decode_json_bytes env payload = Inr t"
    using detect_encoding_document [OF t] utf8_decode_surrogatepass_encode [OF t(2)] by (simp add: decode_json_bytes_def)
  have "valid_document account (json_canon True (snapshot_document account rules))"
    using size(1) by (auto simp: canon_document valid_document_def dict_field_def equals_one_def SNAPSHOT_VERSION_def lit_def)
  then show ?thesis using l d size(2,3) by (simp add: parse_snapshot_def)
qed

definition readable_dir :: "snapshot_env \<Rightarrow> snapshot_dir \<Rightarrow> bool" where
  "readable_dir env d \<longleftrightarrow> path_is_specific env \<and> dir_is_directory d \<and> \<not> dir_is_symlink d
     \<and> (is_posix env \<longrightarrow> dir_perm d mod 8 = 0)"

lemma load_published:
  assumes dir: "readable_dir env (db u)"
    and entry: "published (db u) name = Some f" "private_file f" "snapshot_name env account = Inr name"
    and doc: "parse_snapshot env account (content f) = Inr v"
    and calm: "\<forall>i \<ge> readings u. io_fault env i = None"
  shows "load_snapshot env account u = (Inr (Some v), u\<lparr>readings := readings u + 3\<rparr>)"
proof -
  have f: "map_of (dir_entries (db u)) name = Some f"
    using entry(1) by (auto simp: published_def split: if_splits)
  have calm': "io_fault env (readings u) = None" "io_fault env (Suc (readings u)) = None"
    "io_fault env (Suc (Suc (readings u))) = None"
    using calm by auto
  show ?thesis
    using dir entry(2)
    by (auto simp: load_snapshot_def seqA_def bindA_def tryA_def require_snapshot_directory_def require_snapshot_file_def
        lstat_def read_bytes_def ioA_def executeA_def returnA_def liftE_def readable_dir_def calm' f entry(3) doc Let_def
        numeral_3_eq_3)
qed

lemma publish_readable:
  assumes "publish_snapshot env account rules group_id s = (Inr path, t)"
  shows "readable_dir env (db s)"
proof -
  obtain u where "require_snapshot_directory env True s = (Inr (), u)"
    using assms by (auto simp: publish_snapshot_def seqA_def bindA_Inr)
  then show ?thesis
    by (auto simp: require_snapshot_directory_def readable_dir_def bindA_Inr ioA_def executeA_def raiseA_def Let_def
        split: if_splits option.splits)
qed

text \<open>
  A snapshot that was published is what the filter reads: loading the account finds the document
  with the rules as they were given, their members in sorted order, as long as the calls of the
  operating system succeed.
\<close>

lemma published_snapshot_loads:
  assumes "publish_snapshot env account (PyList rules) group_id s = (Inr path, t)" "db u = db t"
    and "json_value False printable_int (float_kept env) (snapshot_document account rules)"
    and "json_depth (snapshot_document account rules) \<le> json_limit env"
    and "\<forall>i \<ge> readings u. io_fault env i = None"
  shows "fst (load_snapshot env account u) = Inr (Some (json_canon True (snapshot_document account rules)))"
proof -
  from wp_outcome [OF wp_publish assms(1)] have pub: "publication env account (PyList rules) (db s) (db t) path" by simp
  then obtain f where f: "published (db u) path = Some f" "private_file f" "snapshot_name env account = Inr path"
    "build_snapshot account (PyList rules) = Inr (content f)"
    by (auto simp: publication_def assms(2))
  have "readable_dir env (db u)"
    using publish_readable [OF assms(1)] pub by (auto simp: readable_dir_def publication_def assms(2))
  from load_published [OF this f(1-3) parse_built_snapshot [OF f(4) assms(3,4)] assms(5)] show ?thesis by simp
qed

end
