(* ===== verification/Filter_Rules.thy ===== *)
theory Filter_Rules
  imports Filter_Bridge Rule_Snapshots_Correct Csrf_Sample Filing_Rules_Correct Helper_Protocol_Correct "HOL-Library.Multiset"
begin

text \<open>
  From the store to the folder: rules that were published are evaluated at delivery exactly as they
  were given. The parser of rule documents does not depend on the order of members, which is the
  only thing printing and reading a snapshot changes; so storage, JSON and the rule parser compose.
  Then what the evaluation selects among the rules that match.
\<close>

section \<open>The order of members is irrelevant\<close>

text \<open>Documents whose dictionaries have distinct text keys; every document read from JSON is one.\<close>

abbreviation json_ok :: "snapshot_env \<Rightarrow> pyval \<Rightarrow> bool" where
  "json_ok env \<equiv> json_value False printable_int (float_kept env)"

abbreviation canon :: "pyval \<Rightarrow> pyval" where
  "canon \<equiv> json_canon True"

lemma json_ok_dict:
  assumes "json_ok env (PyDict items)"
  obtains m where "items = map (\<lambda>(k, v). (PyStr k, v)) m" "distinct (map fst m)" "\<forall>(k, v) \<in> set m. json_ok env v"
proof -
  have "\<exists>m. items = map (\<lambda>(k, v). (PyStr k, v)) m"
  proof -
    have "\<forall>x \<in> set items. \<exists>y. x = (\<lambda>(k, v). (PyStr k, v)) y"
      using assms by fastforce
    then show ?thesis by (metis ex_map_conv)
  qed
  then obtain m where m: "items = map (\<lambda>(k, v). (PyStr k, v)) m" ..
  have "distinct (map fst m)"
    using assms by (auto simp: m comp_def case_prod_beta distinct_map inj_on_def)
  with that m assms show thesis by fastforce
qed

definition canon_mapping :: "(pystr \<times> pyval) list \<Rightarrow> (pystr \<times> pyval) list" where
  "canon_mapping m = sort_key fst (map (\<lambda>(k, v). (k, canon v)) m)"

lemma canon_dict:
  "canon (PyDict (map (\<lambda>(k, v). (PyStr k, v)) m)) = PyDict (map (\<lambda>(k, v). (PyStr k, v)) (canon_mapping m))"
  unfolding canon_mapping_def by (simp add: sort_key_map comp_def case_prod_beta)

lemma map_of_canon_mapping:
  assumes "distinct (map fst m)"
  shows "map_of (canon_mapping m) k = map_option canon (map_of m k)"
proof -
  let ?c = "map (\<lambda>(k, v). (k, canon v)) m"
  have d: "distinct (map fst ?c)" using assms by (simp add: comp_def case_prod_beta)
  moreover have "distinct (map fst (canon_mapping m))"
  proof -
    have "mset (map fst (canon_mapping m)) = mset (map fst ?c)" by (simp only: mset_map mset_sort canon_mapping_def)
    with d show ?thesis by (metis mset_eq_imp_distinct_iff)
  qed
  ultimately have "map_of (canon_mapping m) = map_of ?c"
    by (subst map_of_inject_set) (auto simp: canon_mapping_def)
  then have "map_of (canon_mapping m) k = map_of ?c k" by simp
  also have "\<dots> = map_option canon (map_of m k)" by (simp add: map_of_map)
  finally show ?thesis .
qed

lemma fst_canon_mapping: "fst ` set (canon_mapping m) = fst ` set m"
  by (auto simp: canon_mapping_def image_iff) force+

lemma py_get_canon:
  "distinct (map fst m) \<Longrightarrow> py_get (canon_mapping m) k = canon (py_get m k)"
  by (simp add: py_get_def map_of_canon_mapping split: option.splits)

lemma require_keys_canon: "require_keys (canon_mapping m) required optional = require_keys m required optional"
  by (simp add: require_keys_def fst_canon_mapping)

lemma keys_as_text_map [simp]: "keys_as_text (map (\<lambda>(k, v). (PyStr k, v)) m) = Some m"
  by (induction m) auto

text \<open>The validators look at text, numbers and truth values only, which printing does not change.\<close>

lemma canon_scalar [simp]:
  "canon v = PyStr s \<longleftrightarrow> v = PyStr s" "canon v = PyInt i \<longleftrightarrow> v = PyInt i" "canon v = PyBool b \<longleftrightarrow> v = PyBool b"
  "canon v = PyNone \<longleftrightarrow> v = PyNone"
  by (cases v; simp add: Let_def)+

lemma enum_value_canon [simp]: "enum_value val members (canon v) = enum_value val members v"
  by (cases v) (simp_all add: enum_value_def Let_def)

lemma validate_text_canon [simp]: "validate_text a b (canon v) = validate_text a b v"
  by (cases v) (simp_all add: validate_text_def Let_def)

lemma validators_canon [simp]:
  "validate_header_name uni (canon v) = validate_header_name uni v"
  "validate_target_mailbox (canon v) = validate_target_mailbox v"
  "mk_StringCondition uni f opr (canon v) (canon w) = mk_StringCondition uni f opr v w"
  "mk_NumericCondition (canon u) (canon v) (canon w) = mk_NumericCondition u v w"
  "mk_BooleanCondition (canon u) (canon v) (canon w) = mk_BooleanCondition u v w"
  by (simp_all add: validate_header_name_def validate_target_mailbox_def mk_StringCondition_def)
    (cases w; simp add: mk_NumericCondition_def mk_BooleanCondition_def Let_def)+

lemma parse_test_condition_canon:
  assumes "distinct (map fst m)"
  shows "parse_test_condition uni (canon_mapping m) = parse_test_condition uni m"
proof -
  have mem: "canon v \<in> set (map (PyStr \<circ> f) xs) \<longleftrightarrow> v \<in> set (map (PyStr \<circ> f) xs)" for v f and xs :: "'b list"
    by (cases v) (auto simp: Let_def)
  show ?thesis
    unfolding parse_test_condition_def Let_def py_get_canon [OF assms] require_keys_canon enum_value_canon
      validators_canon canon_scalar mem by (rule refl)
qed

lemma as_sequence_canon: "as_sequence (canon v) = map_option (map canon) (as_sequence v)"
  by (cases v) (simp_all add: Let_def)

lemma json_ok_elements: "json_ok env v \<Longrightarrow> as_sequence v = Some vs \<Longrightarrow> x \<in> set vs \<Longrightarrow> json_ok env x"
  by (cases v) auto

lemma condition_from_mapping_canon:
  "json_ok env v \<Longrightarrow> condition_from_mapping uni depth (canon v) = condition_from_mapping uni depth v"
proof (induction "Suc MAX_RULE_DEPTH - depth" arbitrary: depth v rule: less_induct)
  case less
  show ?case
  proof (cases "MAX_RULE_DEPTH < depth \<or> (\<forall>items. v \<noteq> PyDict items)")
    case True
    then show ?thesis
      by (subst (1 2) condition_from_mapping.simps) (cases v; auto simp: require_mapping_def)
  next
    case False
    then obtain items where items: "v = PyDict items" by auto
    with less.prems obtain m where m: "items = map (\<lambda>(k, v). (PyStr k, v)) m" "distinct (map fst m)"
      "\<forall>(k, v) \<in> set m. json_ok env v"
      using json_ok_dict by blast
    have child: "condition_from_mapping uni (depth + 1) (canon x) = condition_from_mapping uni (depth + 1) x"
      if "json_ok env x" for x
      using False that by (intro less.hyps) auto
    have req: "require_mapping v = Inr m" "require_mapping (canon v) = Inr (canon_mapping m)"
      by (simp_all add: items m(1) canon_dict require_mapping_def del: json_canon.simps)
    have ok: "json_ok env (py_get m k)" for k
      using m(3) by (auto simp: py_get_def split: option.splits dest: map_of_SomeD)
    have children: "traverse (condition_from_mapping uni (depth + 1)) (map canon vs)
        = traverse (condition_from_mapping uni (depth + 1)) vs"
      if "as_sequence (py_get m k) = Some vs" for k vs
    proof -
      have "\<forall>x \<in> set vs. json_ok env x" using json_ok_elements [OF ok that] by blast
      then show ?thesis by (induction vs) (auto simp: child [simplified])
    qed
    show ?thesis
      by (subst (1 2) condition_from_mapping.simps)
        (auto simp: req map_of_canon_mapping [OF m(2)] parse_test_condition_canon [OF m(2)] require_keys_canon
          py_get_canon [OF m(2)] as_sequence_canon children [simplified] child [OF ok, simplified] Let_def
          split: option.splits pyval.splits)
  qed
qed

section \<open>Preparing rules\<close>

lemma map_of_text_keys: "map_of (map (\<lambda>(k, v). (PyStr k, v)) m) (PyStr k) = map_of m k"
  by (induction m) auto

lemma dict_field_mapping: "dict_field (map (\<lambda>(k, v). (PyStr k, v)) m) name = py_get m (lit name)"
  by (simp add: dict_field_def py_get_def map_of_text_keys)

lemma dict_field_canon:
  "distinct (map fst m) \<Longrightarrow> dict_field (map (\<lambda>(k, v). (PyStr k, v)) (canon_mapping m)) name
     = canon (dict_field (map (\<lambda>(k, v). (PyStr k, v)) m) name)"
  by (simp add: dict_field_mapping py_get_canon)

lemma json_ok_field: "json_ok env (PyDict items) \<Longrightarrow> json_ok env (dict_field items name)"
  by (auto simp: dict_field_def split: option.splits dest!: map_of_SomeD)

lemma Rule_from_mapping_canon:
  assumes "json_ok env c"
  shows "Rule_from_mapping uni (PyDict [(PyStr (lit ''condition''), canon c), (PyStr (lit ''target_mailbox''), canon v)])
       = Rule_from_mapping uni (PyDict [(PyStr (lit ''condition''), c), (PyStr (lit ''target_mailbox''), v)])"
proof -
  have keys: "keys_as_text [(PyStr (lit ''condition''), c), (PyStr (lit ''target_mailbox''), v)]
      = Some [(lit ''condition'', c), (lit ''target_mailbox'', v)]" for c v
    by simp
  show ?thesis
    by (simp add: Rule_from_mapping_def require_mapping_def require_keys_def py_get_def mk_Rule_def
        condition_from_mapping_canon [OF assms])
qed

lemma prepare_rules_canon:
  "\<forall>v \<in> set vs. json_ok env v \<Longrightarrow> prepare_rules uni seen (map canon vs) = prepare_rules uni seen vs"
proof (induction vs arbitrary: seen)
  case Nil
  then show ?case by simp
next
  case (Cons v vs)
  then have IH: "prepare_rules uni seen (map canon vs) = prepare_rules uni seen vs" for seen by simp
  show ?case
  proof (cases "\<exists>items. v = PyDict items")
    case False
    then show ?thesis by (cases v) simp_all
  next
    case True
    then obtain items where v: "v = PyDict items" by blast
    with Cons.prems have ok: "json_ok env (PyDict items)" by simp
    then obtain m where m: "items = map (\<lambda>(k, v). (PyStr k, v)) m" "distinct (map fst m)"
      by (rule json_ok_dict)
    let ?items = "map (\<lambda>(k, v). (PyStr k, v)) (canon_mapping m)"
    have canon_v: "canon v = PyDict ?items" unfolding v m(1) by (rule canon_dict)
    have keys: "fst ` set ?items = fst ` set items"
      using fst_canon_mapping [of m] unfolding m(1) by (auto simp: image_image image_iff case_prod_beta)
    have field: "dict_field ?items name = canon (dict_field items name)" for name
      unfolding m(1) by (rule dict_field_canon [OF m(2)])
    have rule: "Rule_from_mapping uni (PyDict [(PyStr (lit ''condition''), canon (dict_field items ''condition'')),
          (PyStr (lit ''target_mailbox''), canon w)])
        = Rule_from_mapping uni (PyDict [(PyStr (lit ''condition''), dict_field items ''condition''),
          (PyStr (lit ''target_mailbox''), w)])" for w
      by (rule Rule_from_mapping_canon [OF json_ok_field [OF ok]])
    have scalars: "(case (canon a, canon b, canon c, canon d, canon e) of
          (PyStr a, PyInt b, PyBool c, PyBool d, PyInt e) \<Rightarrow> F a b c d e | _ \<Rightarrow> z)
        = (case (a, b, c, d, e) of (PyStr a, PyInt b, PyBool c, PyBool d, PyInt e) \<Rightarrow> F a b c d e | _ \<Rightarrow> z)"
      for a b c d e and F :: "_ \<Rightarrow> _ \<Rightarrow> _ \<Rightarrow> _ \<Rightarrow> _ \<Rightarrow> 'r" and z
      by (cases a; simp add: Let_def; cases b; simp add: Let_def; cases c; simp add: Let_def; cases d;
          simp add: Let_def; cases e; simp add: Let_def)
    show ?thesis
      unfolding list.map canon_v unfolding v prepare_rules.simps pyval.case keys field scalars rule IH
      by (rule refl)
  qed
qed

section \<open>What the evaluation selects\<close>

text \<open>
  The specification: of the rules that match, in order of their positions, those up to and
  including the first that stops; the last of them gives the folder.
\<close>

definition up_to_stop :: "prepared_rule list \<Rightarrow> prepared_rule list" where
  "up_to_stop hits =
     takeWhile (\<lambda>(position, stop, compiled). \<not> stop) hits
     @ take 1 (dropWhile (\<lambda>(position, stop, compiled). \<not> stop) hits)"

definition filing_target :: "(pystr \<Rightarrow> pystr) \<Rightarrow> RuleMessage \<Rightarrow> prepared_rule list \<Rightarrow> pystr option" where
  "filing_target uni m prepared =
     (let hits = filter (\<lambda>(position, stop, compiled). matches uni compiled m) (sort_key fst prepared) in
      if hits = [] then None
      else case last (up_to_stop hits) of
        (position, stop, compiled) \<Rightarrow> Some (target_mailbox (compiled_from compiled)))"

lemma up_to_stop_simps [simp]:
  "up_to_stop [] = []"
  "up_to_stop ((p, stop, c) # hits) = (if stop then [(p, stop, c)] else (p, stop, c) # up_to_stop hits)"
  by (simp_all add: up_to_stop_def)

lemma up_to_stop_empty [simp]: "up_to_stop hits = [] \<longleftrightarrow> hits = []"
  by (cases hits) (auto split: if_splits)

lemma select_target_hits:
  "select_target uni m rules target =
     (let hits = filter (\<lambda>(position, stop, compiled). matches uni compiled m) rules in
      if hits = [] then target
      else case last (up_to_stop hits) of
        (position, stop, compiled) \<Rightarrow> Some (target_mailbox (compiled_from compiled)))"
  unfolding Let_def by (induction rules arbitrary: target) (auto simp del: filter_empty_conv)

lemma select_target_sorted: "select_target uni m (sort_key fst prepared) None = filing_target uni m prepared"
  unfolding select_target_hits filing_target_def by (rule refl)

text \<open>In a sound directory and without failures, publication succeeds.\<close>

lemma publish_succeeds:
  assumes dir: "readable_dir env (db s)" "is_posix env \<longrightarrow> dir_uid (db s) = euid env"
    and build: "build_snapshot account rules = Inr payload" "snapshot_name env account = Inr target"
    and free: "map_of (dir_entries (db s)) target = None"
      "map_of (dir_entries (db s)) (lit ''.snapshot-'' @ temp_suffix env (draws s)) = None"
    and calm: "\<forall>i. io_fault env i = None"
  shows "\<exists>t. publish_snapshot env account rules group_id s = (Inr target, t)"
proof -
  have ne: "target \<noteq> lit ''.snapshot-'' @ x" for x using snapshot_name_visible [OF build(2)] by auto
  note sub = require_snapshot_directory_def entry_exists_def mkstemp_def discard_on_error_def change_entry_def
    os_replace_def sync_directory_def require_snapshot_file_def lstat_def read_bytes_def
    ioA_def executeA_def seqA_def bindA_def tryA_def returnA_def liftE_def Let_def
  show ?thesis
    using dir ne [of "temp_suffix env (draws s)"]
    by (auto simp: publish_snapshot_def sub build free calm readable_dir_def map_of_put_entry map_of_drop_entry
        private_file_def)
qed

section \<open>Delivery\<close>

lemma evaluate_canon_document:
  assumes "json_ok (fe_snapshots env) (snapshot_document account rules)" "length rules \<le> 100"
  shows "evaluate_document env (canon (snapshot_document account rules)) raw =
    bind_res (prepare_rules (casefold_table env) [] rules) (\<lambda>prepared.
      if \<not> distinct (map fst prepared) then Inl FilterBridgeError
      else case parse_rule_message env raw of
        Inl _ \<Rightarrow> Inr None
      | Inr message \<Rightarrow> Inr (filing_target (casefold_table env) message prepared))"
proof -
  have "\<forall>v \<in> set rules. json_ok (fe_snapshots env) v"
    using assms(1) by (simp add: snapshot_document_def)
  from prepare_rules_canon [OF this]
  have "prepare_rules uni [] (map canon rules) = prepare_rules uni [] rules" for uni by simp
  with assms(2) show ?thesis
    unfolding select_target_sorted [symmetric]
    by (simp add: evaluate_document_def canon_document dict_field_def Let_def)
qed

text \<open>
  C34. Rules that were published decide where a message is filed. After a successful publication, while
  the directory stays as it is and can be read, the evaluation of a message of acceptable size for
  that account prepares the rules exactly as they were given and selects, among those that match, the
  last one up to and including the first rule that stops; a message that cannot be parsed is not
  filed.
\<close>

theorem published_rules_file_messages:
  assumes "publish_snapshot (fe_snapshots env) account (PyList rules) group_id s = (Inr snapshot, t)" "db u = db t"
    and "json_value False printable_int (float_kept (fe_snapshots env)) (snapshot_document account rules)"
    and "json_depth (snapshot_document account rules) \<le> json_limit (fe_snapshots env)"
    and "\<forall>i \<ge> readings u. io_fault (fe_snapshots env) i = None"
    and "canonicalize_email (PyStr account) = Inr account"
    and "raw \<noteq> []" "length raw \<le> MAX_FILTER_MESSAGE_BYTES"
  shows "fst (evaluate_filter_message env account raw u) =
    bind_res (prepare_rules (casefold_table env) [] rules) (\<lambda>prepared.
      if \<not> distinct (map fst prepared) then Inl FilterBridgeError
      else case parse_rule_message env raw of
        Inl _ \<Rightarrow> Inr None
      | Inr message \<Rightarrow> Inr (filing_target (casefold_table env) message prepared))"
proof -
  from wp_outcome [OF wp_publish assms(1)]
  have "publication (fe_snapshots env) account (PyList rules) (db s) (db t) snapshot" by simp
  then obtain payload where "build_snapshot account (PyList rules) = Inr payload"
    by (auto simp: publication_def)
  then have len: "length rules \<le> 100" by (auto simp: build_snapshot_def split: if_splits)
  from published_snapshot_loads [OF assms(1-5)] obtain u'
    where load: "load_snapshot (fe_snapshots env) account u = (Inr (Some (canon (snapshot_document account rules))), u')"
    by (metis prod.collapse)
  have "1 \<le> length raw" using assms(7) by (cases raw) auto
  with assms(6,8) load show ?thesis
    by (simp add: evaluate_filter_message_def bindA_def liftE_def evaluate_canon_document [OF assms(3) len])
qed

text \<open>A directory, one rule and a message that it matches.\<close>

definition sample_filter_env :: filter_env where
  "sample_filter_env =
     \<lparr>fe_snapshots =
        \<lparr>sha256 = (\<lambda>b. replicate 32 7), io_fault = (\<lambda>n. None), path_is_specific = True, is_posix = True, euid = 0,
         temp_suffix = (\<lambda>n. lit ''x''), float_repr = (\<lambda>s. []), decode_wide = (\<lambda>b. Inl UnicodeDecodeError),
         json_limit = 900\<rparr>,
      fe_text = sample_security_env,
      casefold_table = id,
      parse_rule_message = (\<lambda>b. Inr \<lparr>headers = [(lit ''subject'', lit ''hi'')], message_size = 3, has_attachment = False,
         envelope_sender = None, envelope_recipients = []\<rparr>),
      parse_ip_address = (\<lambda>s. None), egid = 0, groups = []\<rparr>"

definition sample_rule :: pyval where
  "sample_rule = PyDict
     [(PyStr (lit ''rule_id''), PyStr (lit ''aaaaaaaaaaaaaaaaaaaaaaaaaaaaaaaa'')), (PyStr (lit ''enabled''), PyBool True),
      (PyStr (lit ''position''), PyInt 0),
      (PyStr (lit ''condition''), PyDict [(PyStr (lit ''field''), PyStr (lit ''size'')),
         (PyStr (lit ''operator''), PyStr (lit ''gt'')), (PyStr (lit ''value''), PyInt 2)]),
      (PyStr (lit ''target_mailbox''), PyStr (lit ''Kept'')), (PyStr (lit ''stop_processing''), PyBool True),
      (PyStr (lit ''revision''), PyInt 1)]"

definition sample_directory :: "snapshot_dir store" where
  "sample_directory = sample_process
     \<lparr>dir_is_directory = True, dir_is_symlink = False, dir_perm = 448, dir_uid = 0, dir_entries = []\<rparr>"

lemma sample_builds: "\<exists>payload. build_snapshot (lit ''a@b.de'') (PyList [sample_rule]) = Inr payload"
  by (simp add: build_snapshot_def sample_rule_def as_dict_def snapshot_document_def SNAPSHOT_VERSION_def frame_eval MAX_SNAPSHOT_BYTES_def)

definition sample_parsed_rule :: Rule where
  "sample_parsed_rule = \<lparr>condition = NumericCondition SIZE GT 2, target_mailbox = lit ''Kept''\<rparr>"

lemma sample_parsed_rule_wf: "wf_rule sample_parsed_rule"
  by (simp add: sample_parsed_rule_def wf_rule_def within_budget_def valid_text_value_def rule_limits
      is_control_or_surrogate_def utf8_length_def utf8_char_length_def text_eval)

lemma sample_rule_parses:
  "Rule_from_mapping uni (PyDict [(PyStr (lit ''condition''), PyDict [(PyStr (lit ''field''), PyStr (lit ''size'')),
     (PyStr (lit ''operator''), PyStr (lit ''gt'')), (PyStr (lit ''value''), PyInt 2)]),
     (PyStr (lit ''target_mailbox''), PyStr (lit ''Kept''))]) = Inr sample_parsed_rule"
  using Rule_roundtrip [OF sample_parsed_rule_wf] by (simp add: sample_parsed_rule_def Rule_to_mapping_def)

definition sample_prepared :: prepared_rule where
  "sample_prepared = (0, True,
     \<lparr>compiled_from = sample_parsed_rule, compiled_condition = compile_condition id (NumericCondition SIZE GT 2)\<rparr>)"

lemma sample_rule_prepared: "prepare_rules id [] [sample_rule] = Inr [sample_prepared]"
proof -
  have "RULE_ID_RE (lit ''aaaaaaaaaaaaaaaaaaaaaaaaaaaaaaaa'')" by (simp add: RULE_ID_RE_def list_all_iff hex_alphabet_def lit_def)
  moreover have "validate_condition_budget (NumericCondition SIZE GT 2) = Inr ()"
    by (subst validate_condition_budget_iff) (simp add: rule_limits)
  then have "compile_rule id sample_parsed_rule = Inr (snd (snd sample_prepared))"
    by (simp add: compile_rule_def sample_parsed_rule_def sample_prepared_def)
  ultimately show ?thesis
    by (simp add: sample_rule_def PUBLISHED_KEYS_def dict_field_def sample_rule_parses sample_prepared_def)
qed

theorem published_rules_file_messages_witness:
  "\<exists>t. publish_snapshot (fe_snapshots sample_filter_env) (lit ''a@b.de'') (PyList [sample_rule]) None sample_directory
       = (Inr (hex (replicate 32 7) @ lit ''.json''), t)
     \<and> fst (evaluate_filter_message sample_filter_env (lit ''a@b.de'') [1, 2, 3] t) = Inr (Some (lit ''Kept''))"
proof -
  obtain payload where "build_snapshot (lit ''a@b.de'') (PyList [sample_rule]) = Inr payload"
    using sample_builds by blast
  then obtain t where t: "publish_snapshot (fe_snapshots sample_filter_env) (lit ''a@b.de'') (PyList [sample_rule]) None
       sample_directory = (Inr (hex (replicate 32 7) @ lit ''.json''), t)"
    using publish_succeeds [of "fe_snapshots sample_filter_env" sample_directory "lit ''a@b.de''" "PyList [sample_rule]"
        payload "hex (replicate 32 7) @ lit ''.json''" None]
    by (auto simp: sample_filter_env_def sample_directory_def readable_dir_def snapshot_name_def text_eval)
  have "json_ok (fe_snapshots sample_filter_env) (snapshot_document (lit ''a@b.de'') [sample_rule])"
    by (simp add: snapshot_document_def sample_rule_def json_char_def printable_int_def dec_nat.simps
        INT_MAX_STR_DIGITS_def SNAPSHOT_VERSION_def text_eval)
  moreover have "canonicalize_email (PyStr (lit ''a@b.de'')) = Inr (lit ''a@b.de'')"
    by (simp add: canonicalize_email_def canonicalize_text_def text_eval identity_eval)
  moreover have "json_depth (snapshot_document (lit ''a@b.de'') [sample_rule]) \<le> json_limit (fe_snapshots sample_filter_env)"
    by (simp add: snapshot_document_def sample_rule_def sample_filter_env_def)
  moreover have "\<forall>i \<ge> readings t. io_fault (fe_snapshots sample_filter_env) i = None"
    by (simp add: sample_filter_env_def)
  moreover have "length [1, 2, 3 :: 8 word] \<le> MAX_FILTER_MESSAGE_BYTES" by (simp add: MAX_FILTER_MESSAGE_BYTES_def)
  ultimately have "fst (evaluate_filter_message sample_filter_env (lit ''a@b.de'') [1, 2, 3] t) =
      Inr (filing_target id \<lparr>headers = [(lit ''subject'', lit ''hi'')], message_size = 3, has_attachment = False,
         envelope_sender = None, envelope_recipients = []\<rparr> [sample_prepared])"
    using published_rules_file_messages [OF t refl, of "[1, 2, 3]"] sample_rule_prepared
    by (simp add: sample_filter_env_def)
  also have "\<dots> = Inr (Some (lit ''Kept''))"
    by (simp add: filing_target_def sample_prepared_def matches_def numeric_result_def truth_of_def sample_parsed_rule_def)
  finally show ?thesis using t by blast
qed

end
