(* ===== verification/Filter_Correct.thy ===== *)
theory Filter_Correct
  imports Filter_Rules
begin

text \<open>
  The two ends of the filter connection: the server answers what the in-memory evaluation gives, in
  whatever pieces the request arrives; the client accepts what the server renders for the target
  of any rule, and never makes a delivery fail.
\<close>

section \<open>The server receives the whole request\<close>

lemma recv_piece:
  assumes "arrives_as (incoming (db s)) b" "0 < n"
  obtains "b = []" "recv n s = (Inr [], s)"
  | c rest es where "b = c @ rest" "c \<noteq> []" "length c \<le> n" "recv n s = (Inr c, with_input s es)" "arrives_as es rest"
proof (cases "incoming (db s)")
  case Nil
  with assms that(1) show thesis by (simp add: arrives_as_def recv_def wireA_def)
next
  case (Cons e es)
  with assms(1) obtain x where e: "e = Arrives x" "x \<noteq> []" by (cases e) (auto simp: arrives_as_def)
  show thesis
  proof (cases "length x \<le> n")
    case True
    then show thesis
      using assms(1) Cons e
      by (intro that(2) [of x "concat (map event_bytes es)" es])
        (auto simp: arrives_as_def recv_def wireA_def with_input_def)
  next
    case False
    then show thesis
      using assms Cons e
      by (intro that(2) [of "take n x" "drop n x @ concat (map event_bytes es)" "Arrives (drop n x) # es"])
        (auto simp: arrives_as_def recv_def wireA_def with_input_def)
  qed
qed

text \<open>The control line: everything up to a piece that completes a line or exceeds the limit.\<close>

definition control_read :: "bytes \<Rightarrow> bytes option \<Rightarrow> net_event list \<Rightarrow> bool" where
  "control_read b r es \<longleftrightarrow>
     (case r of
        None \<Rightarrow> 10 \<notin> set b
      | Some c \<Rightarrow> (10 \<in> set c \<or> MAX_PROTOCOL_LINE_BYTES < length c) \<and> length c \<le> Suc MAX_PROTOCOL_LINE_BYTES
          \<and> (\<exists>rest. b = c @ rest \<and> arrives_as es rest))"

lemma read_control_arrives:
  "arrives_as (incoming (db s)) b \<Longrightarrow> length control \<le> Suc MAX_PROTOCOL_LINE_BYTES \<Longrightarrow>
     \<exists>r es. read_control control s = (Inr r, with_input s es) \<and> control_read (control @ b) r es"
proof (induction control arbitrary: s b rule: read_control.induct)
  case (1 control)
  show ?case
  proof (cases "10 \<in> set control \<or> MAX_PROTOCOL_LINE_BYTES < length control")
    case True
    then show ?thesis
      using "1.prems"
      by (subst read_control.simps)
        (auto simp: returnA_def control_read_def with_input_def intro!: exI [of _ "incoming (db s)"])
  next
    case False
    let ?n = "min 4096 (MAX_PROTOCOL_LINE_BYTES + 1 - length control)"
    have "0 < ?n" using False by auto
    from "1.prems"(1) this show ?thesis
    proof (cases rule: recv_piece)
      case 1
      then show ?thesis using False
        by (subst read_control.simps)
          (auto simp: bindA_def returnA_def control_read_def with_input_def intro!: exI [of _ "incoming (db s)"])
    next
      case (2 c rest es)
      then have "\<exists>r es'. read_control (control @ c) (with_input s es) = (Inr r, with_input (with_input s es) es')
          \<and> control_read ((control @ c) @ rest) r es'"
        by (intro "1.IH" [OF False]) (use "1.prems"(2) in auto)
      then show ?thesis
        using False 2 by (subst read_control.simps) (auto simp: bindA_def)
    qed
  qed
qed

lemma read_body_arrives:
  "arrives_as (incoming (db s)) b \<Longrightarrow> length spool \<le> MAX_FILTER_MESSAGE_BYTES \<Longrightarrow>
     \<exists>es. read_body spool s =
       (Inr (if length (spool @ b) \<le> MAX_FILTER_MESSAGE_BYTES then Some (spool @ b) else None), with_input s es)"
proof (induction spool arbitrary: s b rule: read_body.induct)
  case (1 spool)
  let ?n = "min (64 * 1024) (MAX_FILTER_MESSAGE_BYTES + 1 - length spool)"
  have start: "\<not> MAX_FILTER_MESSAGE_BYTES < length spool" using "1.prems"(2) by simp
  then have "0 < ?n" by auto
  from "1.prems"(1) this show ?case
  proof (cases rule: recv_piece)
    case 1
    then show ?thesis using start
      by (subst read_body.simps) (auto simp: bindA_def returnA_def with_input_def intro!: exI [of _ "incoming (db s)"])
  next
    case (2 c rest es)
    show ?thesis
    proof (cases "MAX_FILTER_MESSAGE_BYTES < length (spool @ c)")
      case True
      then show ?thesis using 2 start by (subst read_body.simps) (auto simp: bindA_def returnA_def)
    next
      case False
      then have "\<exists>es'. read_body (spool @ c) (with_input s es) =
          (Inr (if length ((spool @ c) @ rest) \<le> MAX_FILTER_MESSAGE_BYTES then Some ((spool @ c) @ rest) else None),
            with_input (with_input s es) es')"
        by (intro "1.IH" [OF start 2(2)]) (use 2(5) in auto)
      then show ?thesis using 2 start False by (subst read_body.simps) (auto simp: bindA_def)
    qed
  qed
qed

section \<open>The server answers what the evaluation gives\<close>

definition snaps_store :: "bridge store \<Rightarrow> snapshot_dir store" where
  "snaps_store s = \<lparr>db = snaps (db s), draws = draws s, readings = readings s, closed = closed s\<rparr>"

definition conn_input :: "bridge store \<Rightarrow> net_event list \<Rightarrow> bridge store" where
  "conn_input s es = s\<lparr>db := (db s)\<lparr>conn := (conn (db s))\<lparr>incoming := es\<rparr>\<rparr>\<rparr>"

lemma conn_input_simps [simp]:
  "incoming (conn (db (conn_input s es))) = es" "conn_input (conn_input s es) es' = conn_input s es'"
  "snaps_store (conn_input s es) = snaps_store s" "snaps (db (conn_input s es)) = snaps (db s)"
  "outgoing (conn (db (conn_input s es))) = outgoing (conn (db s))"
  "send_results (conn (db (conn_input s es))) = send_results (conn (db s))"
  by (simp_all add: conn_input_def snaps_store_def)

lemma on_conn_input:
  assumes "m \<lparr>db = conn (db s), draws = draws s, readings = readings s, closed = closed s\<rparr> = (r,
    with_input \<lparr>db = conn (db s), draws = draws s, readings = readings s, closed = closed s\<rparr> es)"
  shows "on_conn m s = (r, conn_input s es)"
  by (cases s) (use assms in \<open>simp add: on_conn_def with_input_def conn_input_def\<close>)

text \<open>The answer of a request: what is sent, how it ends, and what it leaves of the snapshots.\<close>

definition answers :: "bytes res \<Rightarrow> snapshot_dir \<Rightarrow> bridge store \<Rightarrow> unit res \<times> bridge store \<Rightarrow> bool" where
  "answers r d s out \<longleftrightarrow>
     (case r of
        Inr b \<Rightarrow> fst out = Inr () \<and> outgoing (conn (db (snd out))) = outgoing (conn (db s)) @ b
      | Inl e \<Rightarrow> fst out = Inl e \<and> outgoing (conn (db (snd out))) = outgoing (conn (db s)))
     \<and> snaps (db (snd out)) = d"

lemma silent_answer: "answers (Inr []) (snaps (db s)) s (Inr (), conn_input s es)"
  by (simp add: answers_def)

lemma answers_input [simp]: "answers r d (conn_input s es) out = answers r d s out"
  by (cases r) (simp_all add: answers_def)

text \<open>After the control line: evaluation and response.\<close>

lemma respond_answers:
  assumes "evaluate_closed env account raw (snaps_store s) = (r, u)" "send_results (conn (db s)) = []"
  shows "answers (bind_res r (\<lambda>target. Inr (render_filter_target target))) (db u) s
    (bindA (on_snaps (evaluate_closed env account raw)) (\<lambda>target.
       let response = render_filter_target target in
       if response = [] then returnA () else on_conn (sendall response)) s)"
proof -
  have e: "on_snaps (evaluate_closed env account raw) s =
      (r, \<lparr>db = (db s)\<lparr>snaps := db u\<rparr>, draws = draws u, readings = readings u, closed = closed u\<rparr>)"
    using assms(1) by (simp add: on_snaps_def snaps_store_def)
  show ?thesis
    using assms(2)
    by (cases r) (auto simp: bindA_def e Let_def returnA_def answers_def on_conn_def sendall_def wireA_def)
qed

lemma evaluate_closed_kept:
  "evaluate_closed env account raw s = (Inl e, t) \<Longrightarrow> \<not> is_os_error e"
  by (auto simp: evaluate_closed_def tryA_def raiseA_def returnA_def failed_closed_def
      split: prod.splits sum.splits if_splits)

lemma authenticated_account_canonical:
  "authenticated_account line token = Some account \<Longrightarrow> canonicalize_email (PyStr account) = Inr account"
  by (auto simp: authenticated_account_def split: if_splits option.splits list.splits sum.splits
      dest: canonicalize_email_idem)

lemma evaluate_closed_oversized:
  assumes "MAX_FILTER_MESSAGE_BYTES < length raw" "canonicalize_email (PyStr account) = Inr account"
  shows "evaluate_closed env account raw s = (Inr None, s)"
  using assms by (simp add: evaluate_closed_def evaluate_filter_message_def tryA_def bindA_def liftE_def returnA_def)

text \<open>The request line and the message are where the pieces put them.\<close>

lemma take_line:
  assumes "10 \<in> set (c :: bytes)"
  shows "takeWhile (\<lambda>b. b \<noteq> 10) (c @ rest) = takeWhile (\<lambda>b. b \<noteq> 10) c"
    "tl (dropWhile (\<lambda>b. b \<noteq> 10) (c @ rest)) = tl (dropWhile (\<lambda>b. b \<noteq> 10) c) @ rest"
proof -
  show "takeWhile (\<lambda>b. b \<noteq> 10) (c @ rest) = takeWhile (\<lambda>b. b \<noteq> 10) c" using assms by (auto simp: takeWhile_append)
  have "dropWhile (\<lambda>b. b \<noteq> 10) c \<noteq> []" using assms by (simp add: dropWhile_eq_Nil_conv)
  then show "tl (dropWhile (\<lambda>b. b \<noteq> 10) (c @ rest)) = tl (dropWhile (\<lambda>b. b \<noteq> 10) c) @ rest"
    using assms by (auto simp: dropWhile_append)
qed

lemma rest_shorter: "length (tl (dropWhile P xs)) \<le> length xs"
  by (metis diff_le_self dual_order.trans length_dropWhile_le length_tl)

text \<open>A request is admitted when its line is complete, within the limit and authenticated.\<close>

definition admitted :: "bytes \<Rightarrow> pystr \<Rightarrow> bytes option \<Rightarrow> bool" where
  "admitted payload token c \<longleftrightarrow>
     (\<exists>x. c = Some x \<and> 10 \<in> set x) \<and> length (takeWhile (\<lambda>b. b \<noteq> 10) payload) \<le> MAX_PROTOCOL_LINE_BYTES
     \<and> authenticated_account (takeWhile (\<lambda>b. b \<noteq> 10) payload) token \<noteq> None"

lemma rejected_silently:
  assumes c: "on_conn (read_control []) s = (Inr c, conn_input s es)" "control_read payload c es"
    and "\<not> admitted payload token c"
  shows "evaluate_bridge_payload env payload token d = (Inr [], d) \<and> handle_request env token s = (Inr (), conn_input s es)"
proof (cases c)
  case None
  then show ?thesis
    using c by (simp add: control_read_def evaluate_bridge_payload_def handle_request_def bindA_def returnA_def Let_def)
next
  case (Some x)
  let ?line = "takeWhile (\<lambda>b. b \<noteq> 10) payload"
  from Some c(2) obtain rest where x: "payload = x @ rest" "10 \<in> set x \<or> MAX_PROTOCOL_LINE_BYTES < length x"
    by (auto simp: control_read_def)
  show ?thesis
  proof (cases "10 \<in> set x")
    case True
    with assms(3) Some have "MAX_PROTOCOL_LINE_BYTES < length ?line \<or> authenticated_account ?line token = None"
      by (auto simp: admitted_def)
    with True show ?thesis
      using c(1) Some take_line [OF True, of rest]
      by (auto simp: x(1) evaluate_bridge_payload_def handle_request_def bindA_def returnA_def Let_def)
  next
    case False
    then have "MAX_PROTOCOL_LINE_BYTES < length ?line" using x by (simp add: takeWhile_append)
    with False show ?thesis
      using c(1) Some by (simp add: evaluate_bridge_payload_def handle_request_def bindA_def returnA_def Let_def)
  qed
qed

lemma admitted_request:
  assumes c: "on_conn (read_control []) s = (Inr c, conn_input s es)" "control_read payload c es"
    and size: "length payload \<le> MAX_PROTOCOL_LINE_BYTES + MAX_FILTER_MESSAGE_BYTES"
    and adm: "admitted payload token c"
    and raw: "raw = tl (dropWhile (\<lambda>b. b \<noteq> 10) payload)"
  obtains account es' where "canonicalize_email (PyStr account) = Inr account"
    "handle_request env token s =
        (if raw = [] \<or> MAX_FILTER_MESSAGE_BYTES < length raw then (Inr (), conn_input s es')
         else bindA (on_snaps (evaluate_closed env account raw)) (\<lambda>target.
           let response = render_filter_target target in
           if response = [] then returnA () else on_conn (sendall response)) (conn_input s es'))"
    "evaluate_bridge_payload env payload token d =
        (if raw = [] then (Inr [], d)
         else bindA (evaluate_closed env account raw) (\<lambda>target. returnA (render_filter_target target)) d)"
proof -
  let ?line = "takeWhile (\<lambda>b. b \<noteq> 10) payload"
  from adm obtain x account where x: "c = Some x" "10 \<in> set x" "length ?line \<le> MAX_PROTOCOL_LINE_BYTES"
    and account: "authenticated_account ?line token = Some account" by (auto simp: admitted_def)
  from x c(2) obtain rest where rest: "payload = x @ rest" "arrives_as es rest" "length x \<le> Suc MAX_PROTOCOL_LINE_BYTES"
    by (auto simp: control_read_def)
  let ?remainder = "tl (dropWhile (\<lambda>b. b \<noteq> 10) x)"
  note line = take_line [OF x(2), of rest]
  have raw': "raw = ?remainder @ rest" using line rest raw by simp
  have "length ?remainder \<le> length x" by (rule rest_shorter)
  then have small: "\<not> MAX_FILTER_MESSAGE_BYTES < length ?remainder"
    using rest(3) by (simp add: MAX_FILTER_MESSAGE_BYTES_def MAX_PROTOCOL_LINE_BYTES_def)
  obtain es' where body: "on_conn (read_body ?remainder) (conn_input s es) =
      (Inr (if length raw \<le> MAX_FILTER_MESSAGE_BYTES then Some raw else None), conn_input s es')"
    using read_body_arrives [of "\<lparr>db = conn (db (conn_input s es)), draws = draws (conn_input s es),
        readings = readings (conn_input s es), closed = closed (conn_input s es)\<rparr>" rest ?remainder]
      on_conn_input [of "read_body ?remainder" "conn_input s es"] rest(2) small raw'
    by fastforce
  show thesis
  proof (rule that [of account es', OF authenticated_account_canonical [OF account]])
    show "handle_request env token s =
        (if raw = [] \<or> MAX_FILTER_MESSAGE_BYTES < length raw then (Inr (), conn_input s es')
         else bindA (on_snaps (evaluate_closed env account raw)) (\<lambda>target.
           let response = render_filter_target target in
           if response = [] then returnA () else on_conn (sendall response)) (conn_input s es'))"
      using c(1) x account small body line rest(1)
      by (auto simp: handle_request_def bindA_def returnA_def Let_def)
    have "payload \<noteq> []" using x(2) rest(1) by auto
    then show "evaluate_bridge_payload env payload token d = (if raw = [] then (Inr [], d)
         else bindA (evaluate_closed env account raw) (\<lambda>target. returnA (render_filter_target target)) d)"
      using x account size rest(1) raw
      by (auto simp: evaluate_bridge_payload_def returnA_def Let_def Suc_le_eq)
  qed
qed

lemma handle_request_answers:
  assumes arrives: "arrives_as (incoming (conn (db s))) payload"
    and size: "length payload \<le> MAX_PROTOCOL_LINE_BYTES + MAX_FILTER_MESSAGE_BYTES"
    and send: "send_results (conn (db s)) = []"
    and ev: "evaluate_bridge_payload env payload token (snaps_store s) = (r, u)"
  shows "answers r (db u) s (handle_request env token s)"
proof -
  let ?w = "\<lparr>db = conn (db s), draws = draws s, readings = readings s, closed = closed s\<rparr>"
  obtain c es where c: "on_conn (read_control []) s = (Inr c, conn_input s es)" "control_read payload c es"
    using read_control_arrives [of ?w payload "[]"] arrives on_conn_input [of "read_control []" s] by fastforce
  have silent: "answers r (db u) s (Inr (), conn_input s es')"
    if "evaluate_bridge_payload env payload token (snaps_store s) = (Inr [], snaps_store s)" for es'
    using ev that silent_answer [of s es'] by (auto simp: snaps_store_def)
  show ?thesis
  proof (cases "admitted payload token c")
    case False
    then show ?thesis using rejected_silently [OF c] silent by simp
  next
    case True
    define raw where raw: "raw = tl (dropWhile (\<lambda>b. b \<noteq> 10) payload)"
    obtain account es' where canonical: "canonicalize_email (PyStr account) = Inr account"
      and handled: "handle_request env token s =
        (if raw = [] \<or> MAX_FILTER_MESSAGE_BYTES < length raw then (Inr (), conn_input s es')
         else bindA (on_snaps (evaluate_closed env account raw)) (\<lambda>target.
           let response = render_filter_target target in
           if response = [] then returnA () else on_conn (sendall response)) (conn_input s es'))"
      and evaluated: "evaluate_bridge_payload env payload token (snaps_store s) =
        (if raw = [] then (Inr [], snaps_store s)
         else bindA (evaluate_closed env account raw) (\<lambda>target. returnA (render_filter_target target)) (snaps_store s))"
      by (rule admitted_request [OF c size True raw])
    obtain r' u' where r': "evaluate_closed env account raw (snaps_store s) = (r', u')" by force
    show ?thesis
    proof (cases "raw = [] \<or> MAX_FILTER_MESSAGE_BYTES < length raw")
      case True
      then show ?thesis
        using silent [of es'] evaluate_closed_oversized [OF _ canonical]
        by (auto simp: handled evaluated bindA_def returnA_def render_filter_target_def)
    next
      case False
      have "r = bind_res r' (\<lambda>target. Inr (render_filter_target target))" "u = u'"
        using ev evaluated False r' by (cases r'; simp add: bindA_def returnA_def)+
      then show ?thesis
        using respond_answers [of env account raw "conn_input s es'"] r' send handled False by simp
    qed
  qed
qed

text \<open>
  C35. The server of the filter bridge answers a connection exactly as the in-memory evaluation of the
  bytes that arrive: in whatever pieces a request of acceptable size comes, \<open>handle\<close> sends what
  \<open>evaluate_bridge_payload\<close> returns (nothing for a request that is incomplete or not authenticated)
  and ends normally, or ends with the exception that the evaluation raises and sends nothing; it
  leaves the snapshots as the evaluation does.
\<close>

theorem handle_answers_payload:
  assumes "arrives_as (incoming (conn (db s))) payload"
    and "length payload \<le> MAX_PROTOCOL_LINE_BYTES + MAX_FILTER_MESSAGE_BYTES"
    and "send_results (conn (db s)) = []"
  shows "case evaluate_bridge_payload env payload token (snaps_store s) of (r, u) \<Rightarrow>
    answers r (db u) s (handle env token s)"
proof -
  obtain r u where ev: "evaluate_bridge_payload env payload token (snaps_store s) = (r, u)" by force
  have "\<not> is_os_error e" if "r = Inl e" for e
    using ev that
    by (auto simp: evaluate_bridge_payload_def returnA_def bindA_def Let_def
        split: if_splits option.splits prod.splits sum.splits dest: evaluate_closed_kept)
  with handle_request_answers [OF assms ev] show ?thesis
    unfolding ev
    by (cases r) (auto simp: handle_def answers_def tryA_def raiseA_def split: prod.splits sum.splits)
qed

section \<open>The client's request\<close>

lemma canonical_text_chars:
  assumes "canonicalize_email (PyStr account) = Inr account" "c \<in> set account"
  shows "c < 128" "\<not> isspace c"
proof -
  obtain l d where d: "strip account = l @ 64 # d" "isascii (strip account)" "\<not> invalid_local l"
    "\<not> list_ex invalid_label (split_on 46 d)" "account = lower l @ 64 # lower d"
    using assms(1) by (auto simp: canonicalize_email_def canonicalize_text_Inr_iff)
  have "account = lower (strip account)" using d(1,5) by (simp add: lower_char_def)
  then have "isascii account" using d(2) by (metis isascii_lower)
  with assms(2) show "c < 128" by (auto simp: isascii_def list_all_iff)
  have l: "\<not> isspace x" if "x \<in> set l" for x
    using d(3) that by (auto simp: invalid_local_def fullmatch_plus_def list_all_iff dest: pattern_not_space)
  have dd: "\<not> isspace x" if x: "x \<in> set d" for x
  proof (cases "x = 46")
    case False
    then obtain w where "w \<in> set (split_on 46 d)" "x \<in> set w" using split_on_member [OF x] by blast
    then show ?thesis using d(4)
      by (auto simp: list_ex_iff invalid_label_def fullmatch_plus_def list_all_iff dest: pattern_not_space)
  qed (simp add: isspace_def)
  have low: "isspace (lower_char x) \<longleftrightarrow> isspace x" for x by (auto simp: lower_char_def char_class_defs isspace_def)
  have "\<not> isspace 64" by (simp add: isspace_def)
  then show "\<not> isspace c" using assms(2) l dd by (auto simp: d(5) lower_def low)
qed

lemma client_request_line:
  assumes token: "TOKEN_RE token" and account: "canonicalize_email (PyStr account) = Inr account"
  defines "line \<equiv> ascii_bytes (FILTER_PROTOCOL @ 32 # token @ 32 # account)"
  shows "client_header token account = Inr (line @ [10])" "10 \<notin> set line"
    "length line \<le> 337" "line \<noteq> []" "authenticated_account line token = Some account"
proof -
  let ?text = "FILTER_PROTOCOL @ 32 # token @ 32 # account"
  have tok: "c < 128 \<and> c \<noteq> 10 \<and> c \<noteq> 32" if "c \<in> set token" for c
    using token that by (auto simp: TOKEN_RE_def list_all_iff hex_alphabet_def)
  have acc: "c < 128 \<and> c \<noteq> 10 \<and> c \<noteq> 32" if "c \<in> set account" for c
    using canonical_text_chars [OF account that] by (auto simp: isspace_def)
  have prot: "c < 128 \<and> c \<noteq> 10 \<and> c \<noteq> 32" if "c \<in> set FILTER_PROTOCOL" for c
    using that by (auto simp: FILTER_PROTOCOL_def lit_def)
  have small: "c < 128 \<and> c \<noteq> 10" if "c \<in> set ?text" for c
    using that tok acc prot by auto
  have len: "length account \<le> 254"
    using account by (auto simp: canonicalize_email_def canonicalize_text_Inr_iff)
  then show l: "length line \<le> 337"
    using token by (simp add: line_def ascii_bytes_def FILTER_PROTOCOL_def lit_def TOKEN_RE_def)
  show ne: "line \<noteq> []" by (simp add: line_def ascii_bytes_def)
  show "client_header token account = Inr (line @ [10])"
    using tok acc by (simp add: client_header_def isascii_def list_all_iff line_def)
  have units: "map unat line = ?text"
    using small unfolding line_def ascii_bytes_def by (intro map_unat_of_nat) force
  then have chars: "unat b \<in> set ?text" if "b \<in> set line" for b
    using that by (metis image_eqI list.set_map)
  show "10 \<notin> set line" using chars small by force
  have "32 \<notin> set FILTER_PROTOCOL" "32 \<notin> set token" "32 \<notin> set account"
    using tok [of 32] acc [of 32] prot [of 32] by blast+
  then have "split_on 32 ?text = [FILTER_PROTOCOL, token, account]" by (simp add: split_on_app split_on_absent)
  moreover have "ascii_decode line = Some ?text"
    using chars small units by (fastforce simp: ascii_decode_def list_all_iff)
  ultimately show "authenticated_account line token = Some account"
    using l ne token account by (simp add: authenticated_account_def MAX_PROTOCOL_LINE_BYTES_def)
qed

text \<open>
  C36. The server understands the client: the bytes that the client sends for an account, its request
  line and the message, are evaluated by the server as that message for that account, provided both
  hold the same token and the message is not empty and within the limit.
\<close>

theorem client_request_evaluated:
  assumes "TOKEN_RE token" "canonicalize_email (PyStr account) = Inr account"
    and "client_header token account = Inr header"
    and "message \<noteq> []" "length message \<le> MAX_FILTER_MESSAGE_BYTES"
  shows "evaluate_bridge_payload env (header @ message) token d =
    bindA (evaluate_closed env account message) (\<lambda>target. returnA (render_filter_target target)) d"
proof -
  let ?line = "ascii_bytes (FILTER_PROTOCOL @ 32 # token @ 32 # account)"
  note line = client_request_line [OF assms(1,2)]
  have h: "header @ message = ?line @ 10 # message" using line(1) assms(3) by simp
  have t: "takeWhile (\<lambda>b. b \<noteq> 10) (header @ message) = ?line"
    and m: "tl (dropWhile (\<lambda>b. b \<noteq> 10) (header @ message)) = message"
    using line(2) unfolding h by (auto simp: takeWhile_append dropWhile_append)
  have "length (header @ message) \<le> MAX_PROTOCOL_LINE_BYTES + MAX_FILTER_MESSAGE_BYTES"
    "length ?line \<le> MAX_PROTOCOL_LINE_BYTES"
    using line(3) assms(5) by (simp_all add: h MAX_PROTOCOL_LINE_BYTES_def)
  moreover have "10 \<in> set (header @ message)" "1 \<le> length (header @ message)" by (simp_all add: h)
  ultimately show ?thesis
    unfolding evaluate_bridge_payload_def Let_def t m using assms(4) line(5) by simp
qed

section \<open>The response\<close>

lemma utf8_units_length: "length (utf8_units c) = utf8_char_length c"
  by (simp add: utf8_units_def utf8_char_length_def)

lemma utf8_encode_length: "utf8_encode s = Inr b \<Longrightarrow> length b = utf8_length s"
  by (auto simp: utf8_encode_def utf8_length_def length_concat comp_def utf8_units_length split: if_splits)

text \<open>
  The client passes on what the server answers: for every valid target folder, which is what every
  rule of the store has, the server renders the folder's name and a line feed, and the client's
  check of the response accepts exactly these bytes.
\<close>

lemma target_passes_client:
  assumes "validate_target_mailbox (PyStr t) = Inr mailbox" "\<forall>c \<in> set t. c < 1114112"
  shows "\<exists>b. utf8_encode t = Inr b \<and> render_filter_target (Some t) = b @ [10]
    \<and> validated_response (render_filter_target (Some t)) = b @ [10]"
proof -
  have t: "t \<noteq> []" "\<forall>c \<in> set t. \<not> is_control_or_surrogate c" "utf8_length t \<le> 1024"
    using assms(1)
    by (auto simp: validate_target_mailbox_def res_simps valid_text_value_def list_ex_iff rule_limits split: if_splits)
  then have "list_all is_scalar t"
    using assms(2) by (fastforce simp: list_all_iff is_scalar_def is_control_or_surrogate_def)
  then obtain b where b: "utf8_encode t = Inr b" by (simp add: utf8_encode_def)
  have len: "length b \<le> 1024" using utf8_encode_length [OF b] t(3) by simp
  have "b \<noteq> []" using t(1) utf8_encode_units(2) [OF b] by (cases t) auto
  moreover have "10 \<notin> set b" "13 \<notin> set b"
    using utf8_small_byte [OF b, of 10] utf8_small_byte [OF b, of 13] t(2) by (fastforce simp: is_control_or_surrogate_def)+
  ultimately show ?thesis
    using b len t utf8_decode_encode [OF b]
    by (auto simp: render_filter_target_def validated_response_def MAX_FILTER_RESPONSE_BYTES_def list_ex_iff
        is_control_or_surrogate_def count_list_0_iff)
qed

section \<open>The client fails open\<close>

text \<open>What the sockets, the message source and the two configuration files can raise.\<close>

definition wire_faults :: "wire \<Rightarrow> exn set" where
  "wire_faults w = faults w \<union> {e. connect_result w = Some e} \<union> {e. Some e \<in> set (send_results w)}
     \<union> {e. ReadRaises e \<in> set (source w)}"

definition file_faults :: "private_file_view \<Rightarrow> exn set" where
  "file_faults f = {e. pf_lstat f = Some e \<or> pf_text f = Inl e}"

text \<open>Everything before the response leaves the output alone and raises only such faults.\<close>

definition quiet :: "wire \<Rightarrow> wire \<Rightarrow> bool" where
  "quiet d w \<longleftrightarrow> sink w = sink d \<and> wire_faults w \<subseteq> wire_faults d"

lemma quiet_refl [simp]: "quiet d d"
  by (simp add: quiet_def)

lemma quiet_trans: "quiet d w \<Longrightarrow> quiet w v \<Longrightarrow> quiet d v"
  by (auto simp: quiet_def)

lemma quiet_taken: "taken d w c \<Longrightarrow> quiet d w"
proof -
  assume t: "taken d w c"
  then have e: "w\<lparr>incoming := []\<rparr> = d\<lparr>incoming := []\<rparr>" "faults w \<subseteq> faults d" by (simp_all add: taken_def)
  have "connect_result w = connect_result d" "send_results w = send_results d" "source w = source d"
    using arg_cong [OF e(1), of connect_result] arg_cong [OF e(1), of send_results] arg_cong [OF e(1), of source]
    by simp_all
  with e(2) taken_sink(1) [OF t] show ?thesis by (auto simp: quiet_def wire_faults_def)
qed

lemma wp_quiet_recv:
  "(\<And>c w. quiet d w \<Longrightarrow> Q c w) \<Longrightarrow> (\<And>e w. quiet d w \<Longrightarrow> e \<in> wire_faults d \<Longrightarrow> E e w) \<Longrightarrow> wp (recv n) Q E d"
  by (rule wp_recv) (auto dest: quiet_taken simp: wire_faults_def)

lemma wp_quiet_steps:
  assumes "\<And>w. quiet d w \<Longrightarrow> Q () w" "\<And>e w. quiet d w \<Longrightarrow> e \<in> wire_faults d \<Longrightarrow> E e w"
  shows "wp (sendall b) Q E d" "wp shutdown_write Q E d" "wp connect Q E d"
  unfolding sendall_def shutdown_write_def connect_def
  by (rule wp_wire; auto split: list.splits option.splits intro!: assms simp: quiet_def wire_faults_def faults_def)+

lemma wp_quiet_source:
  assumes "\<And>r w. quiet d w \<Longrightarrow> (\<forall>e. r \<noteq> ReadRaises e) \<Longrightarrow> Q r w" "\<And>e w. quiet d w \<Longrightarrow> e \<in> wire_faults d \<Longrightarrow> E e w"
  shows "wp source_read Q E d"
  unfolding source_read_def
  by (rule wp_wire; auto split: list.splits read_result.splits intro!: assms simp: quiet_def wire_faults_def faults_def)

definition client_raises :: "wire \<Rightarrow> exn \<Rightarrow> wire \<Rightarrow> bool" where
  "client_raises d e w \<longleftrightarrow> quiet d w \<and> (e = FilterClientError \<or> e \<in> wire_faults d)"

lemma client_raises_trans: "quiet d w \<Longrightarrow> client_raises w e v \<Longrightarrow> client_raises d e v"
  by (auto simp: client_raises_def quiet_def)

lemma wp_send_message: "wp (send_message n) (\<lambda>_. quiet d) (client_raises d) d"
proof (induction n arbitrary: d rule: send_message.induct)
  case (1 n)
  show ?case
  proof (cases "MAX_FILTER_MESSAGE_BYTES < n")
    case True
    then show ?thesis by (subst send_message.simps) (auto intro!: wp_raise simp: client_raises_def)
  next
    case False
    have step: "wp (seqA (sendall c) (send_message (n + length c))) (\<lambda>_. quiet d) (client_raises d) w"
      if "quiet d w" "c \<noteq> []" "\<not> MAX_FILTER_MESSAGE_BYTES < n + length c" for c w
      using that False
      by (intro wp_seq wp_quiet_steps wp_mono [OF "1.IH" [OF False]])
        (auto intro: quiet_trans client_raises_trans simp: client_raises_def quiet_def)
    show ?thesis
      using False
      by (subst send_message.simps)
        (auto intro!: wp_bind wp_quiet_source wp_raise wp_return step simp: client_raises_def split: read_result.splits)
  qed
qed

lemma wp_receive_answer: "wp (receive_response_bytes b) (\<lambda>_. quiet d) (client_raises d) d"
proof (induction b arbitrary: d rule: receive_response_bytes.induct)
  case (1 b)
  show ?case
    by (subst receive_response_bytes.simps)
      (auto intro!: wp_bind wp_quiet_recv wp_return wp_mono [OF "1.IH"] intro: quiet_trans client_raises_trans
        simp: client_raises_def)
qed

text \<open>What is written is one line: a name in UTF-8 without control characters.\<close>

definition folder_line :: "bytes \<Rightarrow> bool" where
  "folder_line b \<longleftrightarrow> (\<exists>name encoded. utf8_encode name = Inr encoded \<and> b = encoded @ [10] \<and> name \<noteq> []
     \<and> (\<forall>c \<in> set name. 32 \<le> c \<and> c \<noteq> 127) \<and> length b \<le> MAX_FILTER_RESPONSE_BYTES)"

lemma validated_line: "validated_response r \<noteq> [] \<Longrightarrow> validated_response r = r \<and> folder_line r"
proof -
  assume v: "validated_response r \<noteq> []"
  then obtain name where r: "r \<noteq> []" "length r \<le> MAX_FILTER_RESPONSE_BYTES" "last r = 10"
    and name: "utf8_decode (butlast r) = Inr name" "name \<noteq> []" "\<forall>c \<in> set name. \<not> (c < 32 \<or> c = 127)"
    by (auto simp: validated_response_def list_ex_iff split: if_splits sum.splits)
  have "r = butlast r @ [10]" using r(1,3) by (metis append_butlast_last_id)
  with r(2) name utf8_encode_decode [OF name(1)] have "folder_line r"
    unfolding folder_line_def by (intro exI [of _ name] exI [of _ "butlast r"]) auto
  moreover have "validated_response r = r" using v by (auto simp: validated_response_def split: if_splits sum.splits)
  ultimately show ?thesis by simp
qed

lemma client_files_raise:
  assumes "load_client_endpoint env f = Inl e \<or> load_client_token env f = Inl e"
  shows "e = FilterClientError \<or> e \<in> file_faults f"
proof -
  have "e = FilterClientError \<or> e \<in> file_faults f" if "read_root_owned_client_file env f = Inl e"
    using that by (auto simp: read_root_owned_client_file_def file_faults_def split: if_splits sum.splits option.splits)
  then show ?thesis
    using assms
    by (auto simp: load_client_endpoint_def load_client_token_def private_endpoint_def bind_res_def
        split: sum.splits if_splits prod.splits option.splits)
qed

definition client_output :: "wire \<Rightarrow> wire \<Rightarrow> bool" where
  "client_output d w \<longleftrightarrow> sink w = sink d \<or> (\<exists>line. folder_line line \<and> sink w = sink d @ line)"

lemma wp_filter_exchange:
  "wp (filter_exchange env account ef tf) (\<lambda>_. client_output d)
     (\<lambda>e w. sink w = sink d \<and> (e = FilterClientError \<or> is_value_error e
        \<or> e \<in> wire_faults d \<union> file_faults ef \<union> file_faults tf)) d"
  (is "wp _ ?Q ?E d")
proof -
  have raised: "?E e w" if "client_raises d e w" for e w
    using that by (auto simp: client_raises_def quiet_def)
  have email: "is_value_error e" if "canonicalize_email v = Inl e" for v e
    using that
    by (auto simp: canonicalize_email_def canonicalize_text_def Let_def split: pyval.splits if_splits prod.splits)
  have header: "is_value_error e" if "client_header t a = Inl e" for t a e
    using that by (auto simp: client_header_def split: if_splits)
  have respond: "wp (bindA (receive_response_bytes []) (\<lambda>response.
      let rendered = validated_response response in
      if rendered = [] then returnA () else sink_write rendered)) ?Q ?E w" if q: "quiet d w" for w
  proof (rule wp_bind, rule wp_mono [OF wp_receive_answer], goal_cases)
    case (1 r v)
    then have "sink v = sink d" using q by (simp add: quiet_def)
    with validated_line [of r] show ?case
      by (auto simp: Let_def client_output_def sink_write_def intro!: wp_if wp_return wp_wire)
  next
    case (2 e v)
    then show ?case using raised client_raises_trans [OF q] by blast
  qed
  have talk: "wp (seqA connect (seqA (sendall h) (bindA (send_message 0) (\<lambda>n.
      if n = 0 then raiseA FilterClientError
      else seqA shutdown_write (bindA (receive_response_bytes []) (\<lambda>response.
         let rendered = validated_response response in
         if rendered = [] then returnA () else sink_write rendered)))))) ?Q ?E d" for h
    by (intro wp_seq wp_bind wp_quiet_steps wp_mono [OF wp_send_message] wp_if wp_raise respond)
      (auto simp: client_raises_def intro: quiet_trans simp: quiet_def)
  have endpoint: "?E e d" if "load_client_endpoint env ef = Inl e" for e
    using client_files_raise [of env ef e] that by auto
  have token: "?E e d" if "load_client_token env tf = Inl e" for e
    using client_files_raise [of env tf e] that by auto
  show ?thesis
    unfolding filter_exchange_def
    by (intro wp_bind wp_lift talk) (use email header endpoint token in auto)
qed

text \<open>
  C37. The filter command fails open: whatever the server, the network, the message source and the
  configuration files do, it returns 0 and has written nothing or exactly one folder line of at
  most 1025 bytes without control characters; the only exceptions it lets through are those that
  are no operating system or value errors, when one of them was raised underneath, and then it
  has written nothing.
\<close>

theorem client_fails_open:
  "case run_filter_client env account ef tf s of
     (Inr n, t) \<Rightarrow> n = 0 \<and> client_output (db s) (db t)
   | (Inl e, t) \<Rightarrow> sink (db t) = sink (db s) \<and> \<not> is_os_error e \<and> \<not> is_value_error e
       \<and> e \<in> wire_faults (db s) \<union> file_faults ef \<union> file_faults tf"
proof -
  let ?E = "\<lambda>e w. sink w = sink (db s) \<and> \<not> is_os_error e \<and> \<not> is_value_error e
       \<and> e \<in> wire_faults (db s) \<union> file_faults ef \<union> file_faults tf"
  have "wp (run_filter_client env account ef tf) (\<lambda>n w. n = 0 \<and> client_output (db s) w) ?E (db s)"
    unfolding run_filter_client_def
    by (intro wp_seq wp_try wp_mono [OF wp_filter_exchange])
      (auto intro!: wp_if wp_return wp_raise simp: client_output_def)
  moreover obtain r t where r: "run_filter_client env account ef tf s = (r, t)" by force
  ultimately have "case r of Inl e \<Rightarrow> ?E e (db t) | Inr n \<Rightarrow> n = 0 \<and> client_output (db s) (db t)"
    using wp_outcome by blast
  then show ?thesis unfolding r by (cases r) auto
qed

section \<open>Witnesses\<close>

definition sample_token :: pystr where
  "sample_token = replicate 64 97"

lemma sample_token_ok: "TOKEN_RE sample_token"
  by (simp add: TOKEN_RE_def sample_token_def list_all_iff hex_alphabet_def)

lemma sample_account_ok: "canonicalize_email (PyStr (lit ''a@b.de'')) = Inr (lit ''a@b.de'')"
  by (simp add: canonicalize_email_def canonicalize_text_def text_eval identity_eval)

definition sample_bridge :: "bytes \<Rightarrow> bridge store" where
  "sample_bridge b = sample_process
     \<lparr>conn = db (sample_wire [Arrives (take 5 b), Arrives (drop 5 b)]), snaps = db sample_directory\<rparr>"

text \<open>A request in two pieces that the server does not authenticate.\<close>

theorem handle_answers_payload_witness:
  "answers (Inr []) (db sample_directory) (sample_bridge (replicate 9 65)) (handle sample_filter_env sample_token (sample_bridge (replicate 9 65)))"
proof -
  let ?s = "sample_bridge (replicate 9 65)"
  have "arrives_as (incoming (conn (db ?s))) (replicate 9 65)"
    by (simp add: sample_bridge_def sample_wire_def arrives_as_def flip: replicate_add)
  moreover have "send_results (conn (db ?s)) = []" by (simp add: sample_bridge_def sample_wire_def)
  moreover have "evaluate_bridge_payload sample_filter_env (replicate 9 65) sample_token (snaps_store ?s)
      = (Inr [], snaps_store ?s)"
    by (simp add: evaluate_bridge_payload_def returnA_def Let_def)
  ultimately show ?thesis
    using handle_answers_payload [of ?s "replicate 9 65" sample_filter_env sample_token]
    by (simp add: MAX_FILTER_MESSAGE_BYTES_def snaps_store_def sample_bridge_def)
qed

theorem client_request_evaluated_witness:
  "\<exists>header. client_header sample_token (lit ''a@b.de'') = Inr header
     \<and> evaluate_bridge_payload sample_filter_env (header @ [1, 2, 3]) sample_token sample_directory =
       bindA (evaluate_closed sample_filter_env (lit ''a@b.de'') [1, 2, 3])
         (\<lambda>target. returnA (render_filter_target target)) sample_directory"
  using client_request_evaluated [OF sample_token_ok sample_account_ok client_request_line(1) [OF sample_token_ok sample_account_ok], of "[1, 2, 3]"]
    client_request_line(1) [OF sample_token_ok sample_account_ok]
  by (simp add: MAX_FILTER_MESSAGE_BYTES_def)

lemma target_passes_client_example:
  "\<exists>b. utf8_encode (lit ''Kept'') = Inr b \<and> render_filter_target (Some (lit ''Kept'')) = b @ [10]
    \<and> validated_response (render_filter_target (Some (lit ''Kept''))) = b @ [10]"
proof -
  have "validate_target_mailbox (PyStr (lit ''Kept'')) = Inr (lit ''Kept'')"
    by (simp add: validate_target_mailbox_def validate_text_def rule_limits
      is_control_or_surrogate_def utf8_length_def utf8_char_length_def text_eval)
  from target_passes_client [OF this] show ?thesis by (simp add: lit_def)
qed

end
