(* ===== verification/Posix_Path.thy ===== *)
theory Posix_Path
  imports Prelude
begin

text \<open>
  \<open>pathlib.PurePosixPath\<close> as the configuration and the command builders use it: the number of slashes of
  the root (two are kept, three or more count as one) and the components, without empty ones and
  single dots. Components are never resolved, so \<open>..\<close> stays a component.
\<close>

record pure_path =
  path_slashes :: nat
  path_parts :: "pystr list"

definition leading_slashes :: "pystr \<Rightarrow> nat" where
  "leading_slashes s = length (takeWhile (\<lambda>c. c = 47) s)"

definition pure_path :: "pystr \<Rightarrow> pure_path" where
  "pure_path s =
     \<lparr>path_slashes = (if leading_slashes s = 0 then 0 else if leading_slashes s = 2 then 2 else 1),
      path_parts = filter (\<lambda>p. p \<noteq> [] \<and> p \<noteq> [46]) (split_on 47 s)\<rparr>"

definition path_str :: "pure_path \<Rightarrow> pystr" where
  "path_str p =
     (if path_slashes p = 0 \<and> path_parts p = [] then [46]
      else replicate (path_slashes p) 47 @ join_on 47 (path_parts p))"

definition is_absolute :: "pure_path \<Rightarrow> bool" where
  "is_absolute p \<longleftrightarrow> 0 < path_slashes p"

definition path_name :: "pure_path \<Rightarrow> pystr" where
  "path_name p = (if path_parts p = [] then [] else last (path_parts p))"

definition path_parent :: "pure_path \<Rightarrow> pure_path" where
  "path_parent p = p\<lparr>path_parts := butlast (path_parts p)\<rparr>"

definition path_child :: "pure_path \<Rightarrow> string \<Rightarrow> pure_path" where
  "path_child p name = p\<lparr>path_parts := path_parts p @ [lit name]\<rparr>"

definition is_relative_to :: "pure_path \<Rightarrow> pure_path \<Rightarrow> bool" where
  "is_relative_to p q \<longleftrightarrow> path_slashes p = path_slashes q \<and> prefix (path_parts q) (path_parts p)"

abbreviation posix :: "string \<Rightarrow> pure_path" where
  "posix s \<equiv> pure_path (lit s)"

section \<open>Paths and their text\<close>

definition wf_path :: "pure_path \<Rightarrow> bool" where
  "wf_path p \<longleftrightarrow> path_slashes p \<le> 2
     \<and> (\<forall>x \<in> set (path_parts p). x \<noteq> [] \<and> x \<noteq> [46] \<and> 47 \<notin> set x)"

lemma split_on_parts: "x \<in> set (split_on c s) \<Longrightarrow> c \<notin> set x"
  by (induction s arbitrary: x) (auto split: if_splits list.splits)

lemma pure_path_wf: "wf_path (pure_path s)"
  by (auto simp: wf_path_def pure_path_def dest: split_on_parts)

lemma split_join: "xs \<noteq> [] \<Longrightarrow> \<forall>x \<in> set xs. c \<notin> set x \<Longrightarrow> split_on c (join_on c xs) = xs"
proof (induction xs)
  case (Cons x xs)
  then show ?case by (cases xs) (auto simp: split_on_app split_on_absent)
qed simp

lemma split_on_replicate: "split_on c (replicate n c @ s) = replicate n [] @ split_on c s"
  by (induction n) auto

lemma join_head:
  "xs \<noteq> [] \<Longrightarrow> \<forall>x \<in> set xs. x \<noteq> [] \<and> c \<notin> set x \<Longrightarrow> \<exists>a r. join_on c xs = a # r \<and> a \<noteq> c"
proof (cases xs)
  case (Cons x ys)
  assume "\<forall>x \<in> set xs. x \<noteq> [] \<and> c \<notin> set x"
  with Cons obtain a r where "x = a # r" "a \<noteq> c" by (cases x) auto
  with Cons show ?thesis by (cases ys) auto
qed simp

lemma leading_slashes_str:
  assumes "wf_path p"
  shows "leading_slashes (replicate n 47 @ join_on 47 (path_parts p)) = n"
proof (cases "path_parts p = []")
  case True
  then show ?thesis by (simp add: leading_slashes_def takeWhile_replicate)
next
  case False
  then obtain a r where "join_on 47 (path_parts p) = a # r" "a \<noteq> 47"
    using join_head [of "path_parts p" 47] assms by (auto simp: wf_path_def)
  then show ?thesis by (simp add: leading_slashes_def takeWhile_append takeWhile_replicate)
qed

lemma pure_path_str: "wf_path p \<Longrightarrow> pure_path (path_str p) = p"
proof -
  assume wf: "wf_path p"
  show ?thesis
  proof (cases "path_slashes p = 0 \<and> path_parts p = []")
    case True
    then show ?thesis by (cases p) (simp add: path_str_def pure_path_def leading_slashes_def)
  next
    case False
    have "filter (\<lambda>x. x \<noteq> [] \<and> x \<noteq> [46]) (split_on 47 (replicate (path_slashes p) 47 @ join_on 47 (path_parts p))) = path_parts p"
    proof (cases "path_parts p = []")
      case True
      then show ?thesis using split_on_replicate [of 47 "path_slashes p" "[]"] by simp
    next
      case ne: False
      then show ?thesis
        using wf split_join [of "path_parts p" 47] by (auto simp: split_on_replicate wf_path_def filter_id_conv)
    qed
    moreover have str: "path_str p = replicate (path_slashes p) 47 @ join_on 47 (path_parts p)"
      using False by (simp only: path_str_def if_False)
    ultimately have "path_parts (pure_path (path_str p)) = path_parts p" by (simp add: pure_path_def)
    moreover have "leading_slashes (path_str p) = path_slashes p"
      unfolding str by (rule leading_slashes_str [OF wf])
    then have "path_slashes (pure_path (path_str p)) = path_slashes p"
      using wf by (auto simp: pure_path_def wf_path_def)
    ultimately show ?thesis by (intro pure_path.equality) simp_all
  qed
qed

text \<open>A path below another begins with its text and a slash.\<close>

lemma join_app: "xs \<noteq> [] \<Longrightarrow> ys \<noteq> [] \<Longrightarrow> join_on c (xs @ ys) = join_on c xs @ c # join_on c ys"
proof (induction xs)
  case (Cons x xs)
  then show ?case by (cases xs) (auto simp: join_on_Cons)
qed simp

lemma relative_text:
  assumes "is_relative_to p q" "path_parts q \<noteq> []"
  shows "path_str p = path_str q \<or> prefix (path_str q @ [47]) (path_str p)"
proof -
  obtain ys where ys: "path_parts p = path_parts q @ ys" using assms(1) by (auto simp: is_relative_to_def prefix_def)
  show ?thesis
  proof (cases "ys = []")
    case True
    then show ?thesis using assms ys by (simp add: path_str_def is_relative_to_def)
  next
    case False
    then have "path_str p = path_str q @ 47 # join_on 47 ys"
      using assms ys by (simp add: path_str_def is_relative_to_def join_app)
    then show ?thesis by (auto simp: prefix_def)
  qed
qed

end
