(* ===== verification/App_Config.thy ===== *)
theory App_Config
  imports Posix_Path Url_Text Csrf_Tokens Filing_Rules
begin

text \<open>
  \<open>config.py\<close>: the closed TOML configuration. A document is a dictionary as \<open>tomllib\<close> returns it; reading
  the file and parsing TOML is a parameter of \<open>load_config\<close>, as are the reading of IP addresses and
  the Unicode tables. A number is kept as the integer or as the \<open>repr\<close> of the float it came from;
  \<open>repr\<close> is monotone and exact on small integers, so comparing it as a decimal decides the bounds.
\<close>

record config_env =
  cfg_text :: security_env
  cfg_ip :: "pystr \<Rightarrow> ip_address option"
  cfg_upper :: "nat \<Rightarrow> pystr"

section \<open>Values\<close>

type_synonym raw_table = "(pystr \<times> pyval) list"

definition config_closed :: "raw_table \<Rightarrow> string list \<Rightarrow> unit res" where
  "config_closed values allowed =
     (if fst ` set values - set (map lit allowed) \<noteq> {} then Inl ConfigError else Inr ())"

definition raw_get :: "raw_table \<Rightarrow> string \<Rightarrow> pyval \<Rightarrow> pyval" where
  "raw_get raw key dflt = (case map_of raw (lit key) of None \<Rightarrow> dflt | Some v \<Rightarrow> v)"

definition config_string :: "raw_table \<Rightarrow> string \<Rightarrow> pystr \<Rightarrow> pystr res" where
  "config_string raw key dflt =
     (case raw_get raw key (PyStr dflt) of PyStr s \<Rightarrow> Inr s | _ \<Rightarrow> Inl ConfigError)"

definition config_integer :: "raw_table \<Rightarrow> string \<Rightarrow> int \<Rightarrow> int res" where
  "config_integer raw key dflt =
     (case raw_get raw key (PyInt dflt) of PyInt i \<Rightarrow> Inr i | _ \<Rightarrow> Inl ConfigError)"

datatype config_float = FloatOfInt int | FloatRepr string

text \<open>\<open>float(value)\<close> of an integer that rounds beyond the largest float raises \<open>OverflowError\<close>.\<close>

definition config_number :: "raw_table \<Rightarrow> string \<Rightarrow> int \<Rightarrow> config_float res" where
  "config_number raw key dflt =
     (case raw_get raw key (PyInt dflt) of
        PyInt i \<Rightarrow> if \<bar>i\<bar> < 2 ^ 1024 - 2 ^ 970 then Inr (FloatOfInt i) else Inl OverflowError
      | PyFloat s \<Rightarrow> Inr (FloatRepr s)
      | _ \<Rightarrow> Inl ConfigError)"

definition config_boolean :: "raw_table \<Rightarrow> string \<Rightarrow> bool \<Rightarrow> bool res" where
  "config_boolean raw key dflt =
     (case raw_get raw key (PyBool dflt) of PyBool b \<Rightarrow> Inr b | _ \<Rightarrow> Inl ConfigError)"

fun text_item :: "pyval \<Rightarrow> pystr res" where
  "text_item (PyStr s) = Inr s"
| "text_item _ = Inl ConfigError"

definition config_strings :: "raw_table \<Rightarrow> string \<Rightarrow> pystr list \<Rightarrow> pystr list res" where
  "config_strings raw key dflt =
     (case raw_get raw key (PyTuple (map PyStr dflt)) of
        PyList vs \<Rightarrow> traverse text_item vs
      | PyTuple vs \<Rightarrow> traverse text_item vs
      | _ \<Rightarrow> Inl ConfigError)"

text \<open>The decimal \<open>m * 10 ^ e\<close> that a \<open>repr\<close> of a finite float denotes.\<close>

definition repr_decimal :: "string \<Rightarrow> (int \<times> int) option" where
  "repr_decimal s =
     (let negative = (s \<noteq> [] \<and> hd s = CHR ''-'');
          body = lit (if negative then tl s else s);
          (mantissa, has_exponent, exponent) = partition 101 body;
          (whole, _, fraction) = partition 46 mantissa;
          down = next_is 45 exponent;
          power = (if down \<or> next_is 43 exponent then tl exponent else exponent)
      in if whole = [] \<or> \<not> list_all is_digit (whole @ fraction @ power) then None
         else let m = int (decimal_value (whole @ fraction));
                  e = (if has_exponent then int (decimal_value power) else 0)
              in Some (if negative then - m else m, (if down then - e else e) - int (length fraction)))"

definition decimal_at_least :: "int \<Rightarrow> int \<times> int \<Rightarrow> bool" where
  "decimal_at_least lo d = (case d of (m, e) \<Rightarrow>
     if 0 \<le> e then lo \<le> m * 10 ^ nat e else lo * 10 ^ nat (- e) \<le> m)"

definition decimal_at_most :: "int \<Rightarrow> int \<times> int \<Rightarrow> bool" where
  "decimal_at_most hi d = (case d of (m, e) \<Rightarrow>
     if 0 \<le> e then m * 10 ^ nat e \<le> hi else m \<le> hi * 10 ^ nat (- e))"

text \<open>\<open>lo <= value <= hi\<close>; not a number is never between.\<close>

definition float_between :: "int \<Rightarrow> int \<Rightarrow> config_float \<Rightarrow> bool" where
  "float_between lo hi v =
     (case v of
        FloatOfInt i \<Rightarrow> lo \<le> i \<and> i \<le> hi
      | FloatRepr s \<Rightarrow>
          (case repr_decimal s of None \<Rightarrow> False | Some d \<Rightarrow> decimal_at_least lo d \<and> decimal_at_most hi d))"

definition control_character :: "nat \<Rightarrow> bool" where
  "control_character c \<longleftrightarrow> c < 32 \<or> c = 127"

definition absolute :: "pystr \<Rightarrow> pure_path res" where
  "absolute value =
     (if value = [] \<or> 92 \<in> set value \<or> list_ex control_character value then Inl ConfigError
      else
        let p = pure_path value in
        if \<not> is_absolute p \<or> lit ''.'' \<in> set (path_parts p) \<or> lit ''..'' \<in> set (path_parts p)
        then Inl ConfigError else Inr p)"

text \<open>\<open>_absolute(_string(...))\<close>.\<close>

definition config_path :: "raw_table \<Rightarrow> string \<Rightarrow> string \<Rightarrow> pure_path res" where
  "config_path raw key dflt = bind_res (config_string raw key (path_str (posix dflt))) absolute"

definition dns_label :: "pystr \<Rightarrow> bool" where
  "dns_label l \<longleftrightarrow> l \<noteq> [] \<and> length l \<le> 63 \<and> list_all (\<lambda>c. is_lower_alpha c \<or> is_digit c \<or> c = 45) l
     \<and> hd l \<noteq> 45 \<and> last l \<noteq> 45"

definition DNS_HOST_RE :: "pystr \<Rightarrow> bool" where
  "DNS_HOST_RE s \<longleftrightarrow> 1 \<le> length s \<and> length s \<le> 253 \<and> list_all dns_label (split_on 46 s)"

definition rstrip_char :: "nat \<Rightarrow> pystr \<Rightarrow> pystr" where
  "rstrip_char c s = rev (dropWhile (\<lambda>x. x = c) (rev s))"

definition config_lower :: "config_env \<Rightarrow> pystr \<Rightarrow> pystr" where
  "config_lower env s = py_lower (text_env.truncate (cfg_text env)) s"

definition host :: "config_env \<Rightarrow> pystr \<Rightarrow> pystr res" where
  "host env value =
     (let candidate = config_lower env (rstrip_char 46 (strip value)) in
      if candidate = [] \<or> candidate \<noteq> config_lower env value
         \<or> list_ex (\<lambda>c. c < 33 \<or> 126 < c) candidate then Inl ConfigError
      else case cfg_ip env candidate of
        None \<Rightarrow> if DNS_HOST_RE candidate then Inr candidate else Inl ConfigError
      | Some address \<Rightarrow> if is_ipv4 address then Inr candidate else Inl ConfigError)"

definition dns_name :: "config_env \<Rightarrow> pystr \<Rightarrow> pystr res" where
  "dns_name env value =
     bind_res (host env value) (\<lambda>candidate.
     if cfg_ip env candidate = None then Inr candidate else Inl ConfigError)"

definition https_origin :: "config_env \<Rightarrow> pystr \<Rightarrow> pystr res" where
  "https_origin env value =
     (let tenv = text_env.truncate (cfg_text env) in
      case bind_res (urlsplit tenv value) (\<lambda>parsed. bind_res (url_port parsed) (\<lambda>port. Inr (parsed, port))) of
        Inl e \<Rightarrow> if is_value_error e then Inl ConfigError else Inl e
      | Inr (parsed, port) \<Rightarrow>
          if scheme parsed \<noteq> lit ''https'' \<or> url_userinfo parsed \<noteq> (None, None)
             \<or> path parsed \<notin> {[], lit ''/''} \<or> query parsed \<noteq> [] \<or> fragment parsed \<noteq> []
             \<or> port \<notin> {None, Some 443}
          then Inl ConfigError
          else case url_hostname tenv parsed of
            None \<Rightarrow> Inl ConfigError
          | Some name \<Rightarrow> bind_res (host env name) (\<lambda>h. Inr (lit ''https://'' @ h)))"

section \<open>Sections\<close>

text \<open>\<open>tuple(dict.fromkeys(values))\<close>: the first occurrence of each value.\<close>

definition unique :: "'a list \<Rightarrow> 'a list" where
  "unique xs = rev (remdups (rev xs))"

definition in_range :: "int \<Rightarrow> int \<Rightarrow> int \<Rightarrow> unit res" where
  "in_range lo hi v = (if lo \<le> v \<and> v \<le> hi then Inr () else Inl ConfigError)"

definition DEFAULT_WEB_HOST :: pystr where "DEFAULT_WEB_HOST = lit ''127.0.0.1''"
definition DEFAULT_WEB_PORT :: int where "DEFAULT_WEB_PORT = 8787"

record ServerConfig =
  listen :: pystr
  allowed_hosts :: "pystr list"
  concurrency :: int
  backlog :: int
  keepalive_seconds :: int
  request_body_timeout_seconds :: config_float
  max_upload_bytes :: int
  page_size :: int
  temp_dir :: pure_path

definition SERVER_KEYS :: "string list" where
  "SERVER_KEYS = [''listen'', ''allowed_hosts'', ''concurrency'', ''backlog'', ''keepalive_seconds'',
     ''request_body_timeout_seconds'', ''max_upload_bytes'', ''page_size'', ''temp_dir'']"

text \<open>The endpoint; what \<open>try\<close> catches is a value or type error.\<close>

definition listen_port :: "config_env \<Rightarrow> raw_table \<Rightarrow> int res" where
  "listen_port env raw =
     bind_res (config_string raw ''listen'' (DEFAULT_WEB_HOST @ 58 # dec_int DEFAULT_WEB_PORT)) (\<lambda>text.
     if 58 \<notin> set text then Inl ConfigError
     else case rsplit_once 58 text of (name, port_text) \<Rightarrow>
       (case (python_int (cfg_text env) port_text, cfg_ip env name) of
          (Inr port, Some address) \<Rightarrow>
            if ip_text address \<noteq> DEFAULT_WEB_HOST then Inl ConfigError
            else bind_res (in_range 1 65535 port) (\<lambda>_. Inr port)
        | _ \<Rightarrow> Inl ConfigError))"

definition ServerConfig_from_dict :: "config_env \<Rightarrow> raw_table \<Rightarrow> ServerConfig res" where
  "ServerConfig_from_dict env raw =
     bind_res (config_closed raw SERVER_KEYS) (\<lambda>_.
     bind_res (listen_port env raw) (\<lambda>port.
     bind_res (config_strings raw ''allowed_hosts'' [lit ''127.0.0.1'', lit ''localhost'']) (\<lambda>names.
     bind_res (traverse (host env) names) (\<lambda>checked.
     let hosts = unique checked in
     if hosts = [] then Inl ConfigError
     else
     bind_res (config_integer raw ''concurrency'' 8) (\<lambda>cc.
     bind_res (config_integer raw ''backlog'' 16) (\<lambda>bl.
     bind_res (config_integer raw ''keepalive_seconds'' 5) (\<lambda>keepalive.
     bind_res (config_number raw ''request_body_timeout_seconds'' 15) (\<lambda>request_body_timeout.
     bind_res (config_integer raw ''max_upload_bytes'' (20 * 1024 * 1024)) (\<lambda>max_upload.
     bind_res (config_integer raw ''page_size'' 50) (\<lambda>ps.
     bind_res (in_range 1 64 cc) (\<lambda>_.
     bind_res (in_range 1 256 bl) (\<lambda>_.
     bind_res (in_range 1 30 keepalive) (\<lambda>_.
     if \<not> float_between 1 120 request_body_timeout then Inl ConfigError
     else
     bind_res (in_range 1024 (100 * 1024 * 1024) max_upload) (\<lambda>_.
     bind_res (in_range 1 200 ps) (\<lambda>_.
     bind_res (config_path raw ''temp_dir'' ''/var/tmp/maddyweb'') (\<lambda>tmp.
     Inr \<lparr>listen = DEFAULT_WEB_HOST @ 58 # dec_int port, allowed_hosts = hosts, concurrency = cc, backlog = bl,
          keepalive_seconds = keepalive, request_body_timeout_seconds = request_body_timeout,
          max_upload_bytes = max_upload, page_size = ps, temp_dir = tmp\<rparr>))))))))))))))))"

definition host_port :: "config_env \<Rightarrow> ServerConfig \<Rightarrow> (pystr \<times> int) res" where
  "host_port env c =
     (case rsplit_once 58 (listen c) of (name, port) \<Rightarrow> bind_res (python_int (cfg_text env) port) (\<lambda>p. Inr (name, p)))"

record MaddyConfig =
  maddy_mode :: pystr
  docker_submission_scope :: pystr
  container :: pystr
  maddy_binary :: pure_path
  maddy_config_path :: pure_path
  data_dir :: pure_path
  service_user :: pystr
  helper_socket :: pure_path
  submission_host :: pystr
  submission_port :: int
  maddy_timeout_seconds :: config_float

definition MADDY_KEYS :: "string list" where
  "MADDY_KEYS = [''mode'', ''docker_submission_scope'', ''container'', ''binary'', ''config_path'', ''data_dir'',
     ''service_user'', ''helper_socket'', ''submission_host'', ''submission_port'', ''command_timeout_seconds'']"

definition name_char :: "nat \<Rightarrow> bool" where
  "name_char c \<longleftrightarrow> is_ascii_alnum c \<or> c = 95 \<or> c = 46 \<or> c = 45"

text \<open>\<open>[a-zA-Z0-9][a-zA-Z0-9_.-]{0,n}\<close>\<close>

definition bounded_name :: "nat \<Rightarrow> pystr \<Rightarrow> bool" where
  "bounded_name n s \<longleftrightarrow> s \<noteq> [] \<and> is_ascii_alnum (hd s) \<and> list_all name_char (tl s) \<and> length (tl s) \<le> n"

definition CONTAINER_RE :: "pystr \<Rightarrow> bool" where "CONTAINER_RE = bounded_name 127"
definition CERT_RE :: "pystr \<Rightarrow> bool" where "CERT_RE = bounded_name 252"

definition UNIT_RE :: "pystr \<Rightarrow> bool" where
  "UNIT_RE s \<longleftrightarrow> suffix (lit ''.timer'') s
     \<and> (let stem = take (length s - 6) s in
        stem \<noteq> [] \<and> is_ascii_alnum (hd stem) \<and> list_all (\<lambda>c. name_char c \<or> c = 64) (tl stem))"

definition service_user_ok :: "pystr \<Rightarrow> bool" where
  "service_user_ok s \<longleftrightarrow> s \<noteq> [] \<and> (is_lower_alpha (hd s) \<or> hd s = 95) \<and> length (tl s) \<le> 31
     \<and> list_all (\<lambda>c. is_lower_alpha c \<or> is_digit c \<or> c = 95 \<or> c = 45) (tl s)"

definition MaddyConfig_from_dict :: "raw_table \<Rightarrow> MaddyConfig res" where
  "MaddyConfig_from_dict raw =
     bind_res (config_closed raw MADDY_KEYS) (\<lambda>_.
     if map_of raw (lit ''mode'') = None then Inl ConfigError
     else
     bind_res (config_string raw ''mode'' (lit ''docker'')) (\<lambda>mode.
     if mode \<notin> {lit ''docker'', lit ''native''} then Inl ConfigError
     else
     bind_res (config_string raw ''docker_submission_scope'' (lit ''container'')) (\<lambda>scope.
     if scope \<notin> {lit ''container'', lit ''host-loopback''} then Inl ConfigError
     else if mode = lit ''native'' \<and> scope = lit ''host-loopback'' then Inl ConfigError
     else
     let docker = (mode = lit ''docker'');
         default_config_path = (if docker then ''/data/maddy.conf'' else ''/etc/maddy/maddy.conf'');
         default_data_dir = (if docker then ''/data'' else ''/var/lib/maddy'') in
     bind_res (config_string raw ''container'' (lit ''maddy'')) (\<lambda>name.
     if \<not> CONTAINER_RE name then Inl ConfigError
     else
     bind_res (config_string raw ''service_user'' (lit ''maddy'')) (\<lambda>user.
     if \<not> service_user_ok user then Inl ConfigError
     else
     bind_res (config_string raw ''submission_host'' (lit ''127.0.0.1'')) (\<lambda>shost.
     if shost \<noteq> lit ''127.0.0.1'' then Inl ConfigError
     else
     bind_res (config_integer raw ''submission_port'' 1587) (\<lambda>port.
     bind_res (config_number raw ''command_timeout_seconds'' 15) (\<lambda>timeout.
     if port \<noteq> 1587 then Inl ConfigError
     else if \<not> float_between 1 120 timeout then Inl ConfigError
     else
     bind_res (config_path raw ''binary'' ''/usr/bin/maddy'') (\<lambda>bin.
     bind_res (config_path raw ''config_path'' default_config_path) (\<lambda>conf.
     bind_res (config_path raw ''data_dir'' default_data_dir) (\<lambda>data.
     bind_res (config_path raw ''helper_socket'' ''/run/maddyweb/helper.sock'') (\<lambda>sock.
     Inr \<lparr>maddy_mode = mode, docker_submission_scope = scope, container = name, maddy_binary = bin,
          maddy_config_path = conf, data_dir = data, service_user = user, helper_socket = sock,
          submission_host = shost, submission_port = port, maddy_timeout_seconds = timeout\<rparr>))))))))))))"

record CertificateConfig =
  certs_enabled :: bool
  cert_names :: "pystr list"
  certbot_binary :: pure_path
  openssl_binary :: pure_path
  nginx_binary :: pure_path
  renewal_dir :: pure_path
  webroot_roots :: "pure_path list"
  live_dir :: pure_path
  timer_unit :: pystr
  deployed_cert_path :: pure_path
  deployed_key_path :: pure_path
  cert_timeout_seconds :: config_float

definition CERTIFICATE_KEYS :: "string list" where
  "CERTIFICATE_KEYS = [''enabled'', ''names'', ''certbot_binary'', ''openssl_binary'', ''nginx_binary'',
     ''renewal_dir'', ''webroot_roots'', ''live_dir'', ''timer_unit'', ''deployed_cert_path'',
     ''deployed_key_path'', ''command_timeout_seconds'']"

definition CUSTOM_CERTBOT_CONFIG_ROOTS :: "pure_path list" where
  "CUSTOM_CERTBOT_CONFIG_ROOTS = [posix ''/var/lib/maddyweb/certbot'', posix ''/srv/maddyweb/certbot'']"

definition PERMITTED_WEBROOT_ROOTS :: "pure_path list" where
  "PERMITTED_WEBROOT_ROOTS = [posix ''/var/www'', posix ''/srv/www'']"

definition below_any :: "pure_path list \<Rightarrow> pure_path \<Rightarrow> bool" where
  "below_any roots p \<longleftrightarrow> list_ex (\<lambda>root. p = root \<or> is_relative_to p root) roots"

definition CertificateConfig_from_dict :: "raw_table \<Rightarrow> pystr \<Rightarrow> CertificateConfig res" where
  "CertificateConfig_from_dict raw mode =
     (let docker = (mode = lit ''docker'');
          default_cert = (if docker then ''/data/tls/fullchain.pem'' else ''/var/lib/maddy/tls/fullchain.pem'');
          default_key = (if docker then ''/data/tls/privkey.pem'' else ''/var/lib/maddy/tls/privkey.pem'') in
     bind_res (config_closed raw CERTIFICATE_KEYS) (\<lambda>_.
     bind_res (config_boolean raw ''enabled'' False) (\<lambda>enabled.
     bind_res (config_strings raw ''names'' []) (\<lambda>names.
     if \<not> list_all CERT_RE names then Inl ConfigError
     else if enabled \<and> names = [] then Inl ConfigError
     else
     bind_res (config_string raw ''timer_unit'' (lit ''certbot-renew.timer'')) (\<lambda>timer.
     if \<not> UNIT_RE timer then Inl ConfigError
     else
     bind_res (config_number raw ''command_timeout_seconds'' 300) (\<lambda>timeout.
     if \<not> float_between 30 900 timeout then Inl ConfigError
     else
     bind_res (config_strings raw ''webroot_roots'' []) (\<lambda>webroots.
     bind_res (traverse absolute webroots) (\<lambda>roots.
     if \<not> distinct roots then Inl ConfigError
     else if \<not> list_all (below_any PERMITTED_WEBROOT_ROOTS) roots then Inl ConfigError
     else
     bind_res (config_path raw ''renewal_dir'' ''/etc/letsencrypt/renewal'') (\<lambda>renewal.
     if path_name renewal \<noteq> lit ''renewal'' then Inl ConfigError
     else if path_parent renewal \<noteq> posix ''/etc/letsencrypt''
             \<and> \<not> below_any CUSTOM_CERTBOT_CONFIG_ROOTS (path_parent renewal) then Inl ConfigError
     else
     bind_res (config_path raw ''live_dir'' ''/etc/letsencrypt/live'') (\<lambda>live.
     if live \<noteq> path_child (path_parent renewal) ''live'' then Inl ConfigError
     else
     bind_res (config_path raw ''certbot_binary'' ''/usr/bin/certbot'') (\<lambda>certbot.
     bind_res (config_path raw ''openssl_binary'' ''/usr/bin/openssl'') (\<lambda>openssl.
     bind_res (config_path raw ''nginx_binary'' ''/usr/bin/nginx'') (\<lambda>nginx.
     bind_res (config_path raw ''deployed_cert_path'' default_cert) (\<lambda>cert.
     bind_res (config_path raw ''deployed_key_path'' default_key) (\<lambda>key.
     Inr \<lparr>certs_enabled = enabled, cert_names = names, certbot_binary = certbot, openssl_binary = openssl,
          nginx_binary = nginx, renewal_dir = renewal, webroot_roots = roots, live_dir = live, timer_unit = timer,
          deployed_cert_path = cert, deployed_key_path = key, cert_timeout_seconds = timeout\<rparr>)))))))))))))))"

record AppSecurityConfig =
  session_key_file :: pure_path
  auth_state_dir :: pure_path
  csrf_ttl_seconds :: int
  session_cookie_name :: pystr
  app_csrf_cookie_name :: pystr
  public_origin :: pystr
  login_domain :: pystr
  totp_issuer :: pystr

definition SECURITY_KEYS :: "string list" where
  "SECURITY_KEYS = [''session_key_file'', ''auth_state_dir'', ''csrf_ttl_seconds'', ''session_cookie_name'',
     ''csrf_cookie_name'', ''public_origin'', ''login_domain'', ''totp_issuer'']"

definition cookie_char :: "nat \<Rightarrow> bool" where
  "cookie_char c \<longleftrightarrow> is_ascii_alnum c \<or> c \<in> set (lit ''!#$%&*+.^_`|~-'') \<or> c = 39"

definition host_cookie :: "pystr \<Rightarrow> bool" where
  "host_cookie s \<longleftrightarrow> prefix (lit ''__Host-'') s \<and> list_all cookie_char s \<and> 1 \<le> length s \<and> length s \<le> 64"

definition AppSecurityConfig_from_dict :: "config_env \<Rightarrow> raw_table \<Rightarrow> AppSecurityConfig res" where
  "AppSecurityConfig_from_dict env raw =
     bind_res (config_closed raw SECURITY_KEYS) (\<lambda>_.
     bind_res (config_integer raw ''csrf_ttl_seconds'' 900) (\<lambda>ttl.
     bind_res (in_range 60 3600 ttl) (\<lambda>_.
     bind_res (config_string raw ''session_cookie_name'' (lit ''__Host-maddyweb-session'')) (\<lambda>session_cookie.
     bind_res (config_string raw ''csrf_cookie_name'' (lit ''__Host-maddyweb-csrf'')) (\<lambda>csrf_cookie.
     if \<not> host_cookie session_cookie \<or> \<not> host_cookie csrf_cookie then Inl ConfigError
     else if session_cookie = csrf_cookie then Inl ConfigError
     else
     bind_res (config_string raw ''public_origin'' []) (\<lambda>origin_value.
     bind_res (if origin_value \<noteq> [] then https_origin env origin_value else Inr []) (\<lambda>origin.
     bind_res (config_string raw ''login_domain'' []) (\<lambda>domain_value.
     bind_res (if domain_value \<noteq> [] then dns_name env domain_value else Inr []) (\<lambda>domain.
     bind_res (config_string raw ''totp_issuer'' (lit ''MaddyWeb'')) (\<lambda>issuer.
     if \<not> (1 \<le> length issuer \<and> length issuer \<le> 64) \<or> \<not> isascii issuer \<or> list_ex control_character issuer
        \<or> 58 \<in> set issuer then Inl ConfigError
     else
     bind_res (config_path raw ''auth_state_dir'' ''/var/lib/maddyweb-auth'') (\<lambda>auth_dir.
     if auth_dir \<noteq> posix ''/var/lib/maddyweb-auth'' then Inl ConfigError
     else
     bind_res (config_path raw ''session_key_file'' ''/var/lib/maddyweb/session.key'') (\<lambda>key_file.
     Inr \<lparr>session_key_file = key_file, auth_state_dir = auth_dir, csrf_ttl_seconds = ttl,
          session_cookie_name = session_cookie, app_csrf_cookie_name = csrf_cookie, public_origin = origin,
          login_domain = domain, totp_issuer = issuer\<rparr>))))))))))))"

definition config_upper :: "config_env \<Rightarrow> pystr \<Rightarrow> pystr" where
  "config_upper env s = concat (map (\<lambda>c. if c < 128 then [if is_lower_alpha c then c - 32 else c] else cfg_upper env c) s)"

definition LoggingConfig_from_dict :: "config_env \<Rightarrow> raw_table \<Rightarrow> pystr res" where
  "LoggingConfig_from_dict env raw =
     bind_res (config_closed raw [''level'']) (\<lambda>_.
     bind_res (config_string raw ''level'' (lit ''INFO'')) (\<lambda>text.
     let level = config_upper env text in
     if level \<notin> set (map lit [''DEBUG'', ''INFO'', ''WARNING'', ''ERROR'']) then Inl ConfigError else Inr level))"

section \<open>The application\<close>

record AppConfig =
  app_server :: ServerConfig
  app_maddy :: MaddyConfig
  app_certificates :: CertificateConfig
  app_security :: AppSecurityConfig
  app_logging :: pystr

definition SECTIONS :: "string list" where
  "SECTIONS = [''server'', ''maddy'', ''certificates'', ''security'', ''logging'']"

text \<open>A table; \<open>tomllib\<close> gives text keys only, and a key of another type would fail in the error message.\<close>

definition config_table :: "raw_table \<Rightarrow> string \<Rightarrow> raw_table res" where
  "config_table raw name =
     (case raw_get raw name (PyDict []) of
        PyDict items \<Rightarrow> (case keys_as_text items of None \<Rightarrow> Inl TypeError | Some t \<Rightarrow> Inr t)
      | _ \<Rightarrow> Inl ConfigError)"

definition is_table :: "pyval \<Rightarrow> bool" where
  "is_table v = (case v of PyDict _ \<Rightarrow> True | _ \<Rightarrow> False)"

definition AppConfig_from_dict :: "config_env \<Rightarrow> raw_table \<Rightarrow> AppConfig res" where
  "AppConfig_from_dict env raw =
     bind_res (config_closed raw SECTIONS) (\<lambda>_.
     if \<not> list_all (\<lambda>(name, v). is_table v) raw then Inl ConfigError
     else if map_of raw (lit ''maddy'') = None then Inl ConfigError
     else
     bind_res (config_table raw ''maddy'') (\<lambda>maddy_raw.
     bind_res (MaddyConfig_from_dict maddy_raw) (\<lambda>maddy.
     bind_res (config_table raw ''certificates'') (\<lambda>certificates_raw.
     bind_res (CertificateConfig_from_dict certificates_raw (maddy_mode maddy)) (\<lambda>certificates.
     if certs_enabled certificates \<and> maddy_mode maddy = lit ''docker''
        \<and> \<not> (is_relative_to (deployed_cert_path certificates) (data_dir maddy)
              \<and> is_relative_to (deployed_key_path certificates) (data_dir maddy))
     then Inl ConfigError
     else
     bind_res (config_table raw ''server'') (\<lambda>server_raw.
     bind_res (ServerConfig_from_dict env server_raw) (\<lambda>server.
     bind_res (config_table raw ''security'') (\<lambda>security_raw.
     bind_res (AppSecurityConfig_from_dict env security_raw) (\<lambda>security.
     bind_res (if public_origin security = [] then Inr True
               else bind_res (urlsplit (text_env.truncate (cfg_text env)) (public_origin security)) (\<lambda>u.
                 Inr (case url_hostname (text_env.truncate (cfg_text env)) u of
                        None \<Rightarrow> False | Some name \<Rightarrow> name \<in> set (allowed_hosts server)))) (\<lambda>listed.
     if \<not> listed then Inl ConfigError
     else
     bind_res (config_table raw ''logging'') (\<lambda>logging_raw.
     bind_res (LoggingConfig_from_dict env logging_raw) (\<lambda>level.
     Inr \<lparr>app_server = server, app_maddy = maddy, app_certificates = certificates, app_security = security,
          app_logging = level\<rparr>))))))))))))"

text \<open>What reading and parsing the file gave.\<close>

datatype toml_outcome = TomlDocument raw_table | TomlUnreadable | TomlDecodeError | TomlRaises exn

definition load_config :: "config_env \<Rightarrow> toml_outcome \<Rightarrow> AppConfig res" where
  "load_config env outcome =
     (case outcome of
        TomlDocument raw \<Rightarrow> AppConfig_from_dict env raw
      | TomlUnreadable \<Rightarrow> Inl ConfigError
      | TomlDecodeError \<Rightarrow> Inl ConfigError
      | TomlRaises e \<Rightarrow> Inl e)"

end
