(* ===== verification/App_Config_Correct.thy ===== *)
theory App_Config_Correct
  imports App_Config Csrf_Sample
begin

text \<open>
  What an accepted configuration guarantees to the rest of the program, and that nothing else than
  the documented error is raised for a document, with two exceptions that are stated.
\<close>

section \<open>Well-formed configurations\<close>

definition safe_path :: "pure_path \<Rightarrow> bool" where
  "safe_path p \<longleftrightarrow> wf_path p \<and> is_absolute p
     \<and> (\<forall>x \<in> set (path_parts p). x \<noteq> lit ''..'' \<and> 92 \<notin> set x \<and> \<not> list_ex control_character x)"

text \<open>The text of a path is a directory or continues it with a slash.\<close>

definition confined :: "string \<Rightarrow> pure_path \<Rightarrow> bool" where
  "confined root p \<longleftrightarrow> path_str p = lit root \<or> prefix (lit root @ [47]) (path_str p)"

definition host_ok :: "config_env \<Rightarrow> pystr \<Rightarrow> bool" where
  "host_ok env h \<longleftrightarrow> h \<noteq> [] \<and> list_all (\<lambda>c. 33 \<le> c \<and> c \<le> 126) h
     \<and> (DNS_HOST_RE h \<or> (\<exists>a. cfg_ip env h = Some a \<and> is_ipv4 a))"

definition server_ok :: "config_env \<Rightarrow> ServerConfig \<Rightarrow> bool" where
  "server_ok env c \<longleftrightarrow>
     (\<exists>port. 1 \<le> port \<and> port \<le> 65535 \<and> listen c = lit ''127.0.0.1:'' @ dec_int port)
     \<and> allowed_hosts c \<noteq> [] \<and> distinct (allowed_hosts c) \<and> (\<forall>h \<in> set (allowed_hosts c). host_ok env h)
     \<and> concurrency c \<in> {1..64} \<and> backlog c \<in> {1..256} \<and> keepalive_seconds c \<in> {1..30}
     \<and> float_between 1 120 (request_body_timeout_seconds c)
     \<and> max_upload_bytes c \<in> {1024..100 * 1024 * 1024} \<and> page_size c \<in> {1..200} \<and> safe_path (temp_dir c)"

definition maddy_ok :: "MaddyConfig \<Rightarrow> bool" where
  "maddy_ok c \<longleftrightarrow>
     maddy_mode c \<in> {lit ''docker'', lit ''native''}
     \<and> docker_submission_scope c \<in> {lit ''container'', lit ''host-loopback''}
     \<and> (docker_submission_scope c = lit ''host-loopback'' \<longrightarrow> maddy_mode c = lit ''docker'')
     \<and> CONTAINER_RE (container c) \<and> service_user_ok (service_user c)
     \<and> submission_host c = lit ''127.0.0.1'' \<and> submission_port c = 1587 \<and> float_between 1 120 (maddy_timeout_seconds c)
     \<and> safe_path (maddy_binary c) \<and> safe_path (maddy_config_path c) \<and> safe_path (data_dir c) \<and> safe_path (helper_socket c)"

definition certificates_ok :: "CertificateConfig \<Rightarrow> bool" where
  "certificates_ok c \<longleftrightarrow>
     list_all CERT_RE (cert_names c) \<and> (certs_enabled c \<longrightarrow> cert_names c \<noteq> []) \<and> UNIT_RE (timer_unit c)
     \<and> float_between 30 900 (cert_timeout_seconds c)
     \<and> distinct (webroot_roots c)
     \<and> (\<forall>r \<in> set (webroot_roots c). safe_path r \<and> (confined ''/var/www'' r \<or> confined ''/srv/www'' r))
     \<and> safe_path (renewal_dir c)
     \<and> (path_str (renewal_dir c) = lit ''/etc/letsencrypt/renewal''
        \<or> confined ''/var/lib/maddyweb/certbot'' (renewal_dir c) \<or> confined ''/srv/maddyweb/certbot'' (renewal_dir c))
     \<and> path_name (renewal_dir c) = lit ''renewal'' \<and> live_dir c = path_child (path_parent (renewal_dir c)) ''live''
     \<and> (\<forall>p \<in> {certbot_binary c, openssl_binary c, nginx_binary c, deployed_cert_path c, deployed_key_path c}. safe_path p)"

definition security_ok :: "config_env \<Rightarrow> AppSecurityConfig \<Rightarrow> bool" where
  "security_ok env c \<longleftrightarrow>
     csrf_ttl_seconds c \<in> {60..3600}
     \<and> host_cookie (session_cookie_name c) \<and> host_cookie (app_csrf_cookie_name c)
     \<and> session_cookie_name c \<noteq> app_csrf_cookie_name c
     \<and> (login_domain c = [] \<or> DNS_HOST_RE (login_domain c))
     \<and> 1 \<le> length (totp_issuer c) \<and> length (totp_issuer c) \<le> 64
     \<and> list_all (\<lambda>ch. 32 \<le> ch \<and> ch < 127 \<and> ch \<noteq> 58) (totp_issuer c)
     \<and> path_str (auth_state_dir c) = lit ''/var/lib/maddyweb-auth'' \<and> safe_path (session_key_file c)"

definition config_ok :: "config_env \<Rightarrow> AppConfig \<Rightarrow> bool" where
  "config_ok env c \<longleftrightarrow>
     server_ok env (app_server c) \<and> maddy_ok (app_maddy c) \<and> certificates_ok (app_certificates c)
     \<and> security_ok env (app_security c)
     \<and> app_logging c \<in> {lit ''DEBUG'', lit ''INFO'', lit ''WARNING'', lit ''ERROR''}
     \<and> (certs_enabled (app_certificates c) \<and> maddy_mode (app_maddy c) = lit ''docker'' \<longrightarrow>
          is_relative_to (deployed_cert_path (app_certificates c)) (data_dir (app_maddy c))
          \<and> is_relative_to (deployed_key_path (app_certificates c)) (data_dir (app_maddy c)))
     \<and> (public_origin (app_security c) = []
        \<or> (\<exists>h \<in> set (allowed_hosts (app_server c)). public_origin (app_security c) = lit ''https://'' @ h))"

section \<open>Values\<close>

lemma split_on_subset: "y \<in> set (split_on k v) \<Longrightarrow> set y \<subseteq> set v"
proof (induction v arbitrary: y)
  case (Cons a v)
  obtain x xs where x: "split_on k v = x # xs" by (cases "split_on k v") auto
  with Cons.IH [of x] Cons.IH [of y] Cons.prems show ?case by (auto split: if_splits)
qed simp

lemma absolute_safe: "absolute v = Inr p \<Longrightarrow> safe_path p"
proof -
  assume a: "absolute v = Inr p"
  then have p: "p = pure_path v" "is_absolute p" "lit ''..'' \<notin> set (path_parts p)" "92 \<notin> set v"
    "\<not> list_ex control_character v"
    by (auto simp: absolute_def Let_def split: if_splits)
  have sub: "set x \<subseteq> set v" if "x \<in> set (path_parts p)" for x
    using that split_on_subset by (fastforce simp: p(1) pure_path_def)
  show ?thesis
    unfolding safe_path_def
    using p sub pure_path_wf [of v] by (fastforce simp: list_ex_iff)
qed

lemma config_path_safe: "config_path raw key d = Inr p \<Longrightarrow> safe_path p"
  by (auto simp: config_path_def res_simps intro: absolute_safe)

lemma in_range_Inr [res_simps]: "in_range lo hi v = Inr u \<longleftrightarrow> lo \<le> v \<and> v \<le> hi"
  by (auto simp: in_range_def)

lemma unique_simps [simp]: "set (unique xs) = set xs" "distinct (unique xs)" "unique xs = [] \<longleftrightarrow> xs = []"
  by (simp_all add: unique_def)

lemma host_sound: "host env v = Inr h \<Longrightarrow> host_ok env h"
  by (auto simp: host_def host_ok_def Let_def list_all_iff list_ex_iff split: if_splits option.splits)

text \<open>
  What is used of \<open>ipaddress\<close>: the text of an IPv4 address has digits and dots only. Then a host is a plain
  name in every URL.
\<close>

definition ipv4_texts :: "config_env \<Rightarrow> bool" where
  "ipv4_texts env \<longleftrightarrow> (\<forall>s a. cfg_ip env s = Some a \<longrightarrow> is_ipv4 a \<longrightarrow> list_all (\<lambda>c. is_digit c \<or> c = 46) s)"

definition plain_host :: "pystr \<Rightarrow> bool" where
  "plain_host h \<longleftrightarrow> h \<noteq> [] \<and> list_all (\<lambda>c. is_lower_alpha c \<or> is_digit c \<or> c = 45 \<or> c = 46) h"

lemma host_plain:
  assumes "host_ok env h" "ipv4_texts env"
  shows "plain_host h"
proof -
  have "list_all (\<lambda>c. is_lower_alpha c \<or> is_digit c \<or> c = 45 \<or> c = 46) h" if "DNS_HOST_RE h"
  proof -
    have "\<exists>w \<in> set (split_on 46 h). c \<in> set w" if "c \<in> set h" "c \<noteq> 46" for c
      using split_on_member that by blast
    with that show ?thesis by (fastforce simp: DNS_HOST_RE_def dns_label_def list_all_iff)
  qed
  with assms show ?thesis by (fastforce simp: host_ok_def plain_host_def ipv4_texts_def list_all_iff)
qed

lemma plain_host_lower: "plain_host h \<Longrightarrow> py_lower env h = h"
proof -
  assume h: "plain_host h"
  then have "isascii h" by (fastforce simp: plain_host_def isascii_def list_all_iff char_class_defs)
  moreover have "lower h = h"
    unfolding lower_def using h by (intro map_idI) (fastforce simp: plain_host_def list_all_iff lower_char_def char_class_defs)
  ultimately show ?thesis by (simp add: py_lower_def)
qed

lemma https_host:
  assumes h: "plain_host h"
  shows "\<exists>u. urlsplit env (lit ''https://'' @ h) = Inr u \<and> url_hostname env u = Some h"
proof -
  have c: "c \<in> set h \<Longrightarrow> c \<notin> {9, 10, 13, 35, 37, 47, 58, 63, 64, 91, 93}" for c
    using h by (auto simp: plain_host_def list_all_iff char_class_defs)
  then have out: "9 \<notin> set h" "10 \<notin> set h" "13 \<notin> set h" "35 \<notin> set h" "37 \<notin> set h" "47 \<notin> set h" "58 \<notin> set h" "63 \<notin> set h"
    "64 \<notin> set h" "91 \<notin> set h" "93 \<notin> set h" by auto
  have asc: "isascii h" using h by (fastforce simp: plain_host_def isascii_def list_all_iff char_class_defs)
  have f: "filter (\<lambda>c. c \<noteq> 9 \<and> c \<noteq> 10 \<and> c \<noteq> 13) h = h" using out by (intro filter_True) auto
  have t: "takeWhile (\<lambda>c. c \<noteq> 47 \<and> c \<noteq> 63 \<and> c \<noteq> 35) h = h" using out by (intro takeWhile_eq_all_conv [THEN iffD2]) auto
  let ?u = "\<lparr>scheme = lit ''https'', netloc = h, path = [], query = [], fragment = []\<rparr>"
  have "split_scheme (lit ''https://'' @ h) = (lit ''https'', 47 # 47 # h)"
    by (simp add: split_scheme_def partition_def text_eval scheme_char_def)
  moreover have "filter (\<lambda>c. c \<noteq> 9 \<and> c \<noteq> 10 \<and> c \<noteq> 13) (dropWhile (\<lambda>c. c \<le> 32) (lit ''https://'' @ h)) = lit ''https://'' @ h"
    by (simp add: lit_def f)
  ultimately have "urlsplit env (lit ''https://'' @ h) = Inr ?u"
    by (simp add: urlsplit_def Let_def partition_def check_netloc_def asc out t)
  moreover have "url_hostname env ?u = Some h"
    using h by (simp add: url_hostname_def url_hostinfo_def rpartition_def partition_def out plain_host_lower plain_host_def Let_def)
  ultimately show ?thesis by blast
qed

lemma https_origin_sound: "https_origin env v = Inr r \<Longrightarrow> \<exists>h. host_ok env h \<and> r = lit ''https://'' @ h"
  using host_sound by (auto simp: https_origin_def Let_def res_simps split: sum.splits if_splits option.splits)

section \<open>Sections\<close>

lemma listen_port_sound: "listen_port env raw = Inr port \<Longrightarrow> 1 \<le> port \<and> port \<le> 65535"
  by (auto simp: listen_port_def res_simps split: if_splits prod.splits sum.splits option.splits)

lemma checked_all: "list_all2 (\<lambda>x y. f x = Inr y) xs ys \<Longrightarrow> y \<in> set ys \<Longrightarrow> \<exists>x. f x = Inr y"
  by (fastforce simp: list_all2_conv_all_nth in_set_conv_nth)

lemma server_sound: "ServerConfig_from_dict env raw = Inr c \<Longrightarrow> server_ok env c"
  unfolding ServerConfig_from_dict_def Let_def
  by (auto simp: res_simps server_ok_def DEFAULT_WEB_HOST_def lit_def split: if_splits
      dest: listen_port_sound checked_all config_path_safe host_sound)

lemma maddy_sound: "MaddyConfig_from_dict raw = Inr c \<Longrightarrow> maddy_ok c"
  unfolding MaddyConfig_from_dict_def Let_def
  by (auto simp: res_simps maddy_ok_def simp del: insert_iff split: if_splits dest: config_path_safe)

lemma below_any_confined:
  "below_any (map posix roots) p \<Longrightarrow> \<forall>r \<in> set roots. path_parts (posix r) \<noteq> [] \<and> path_str (posix r) = lit r \<Longrightarrow>
   \<exists>r \<in> set roots. confined r p"
  using relative_text by (fastforce simp: below_any_def list_ex_iff confined_def)

lemma webroot_confined: "below_any PERMITTED_WEBROOT_ROOTS p \<Longrightarrow> confined ''/var/www'' p \<or> confined ''/srv/www'' p"
  using below_any_confined [of "[''/var/www'', ''/srv/www'']" p]
  by (simp add: PERMITTED_WEBROOT_ROOTS_def pure_path_def leading_slashes_def path_str_def lit_def)

lemma bind_InrE: "bind_res r f = Inr c \<Longrightarrow> (\<And>x. r = Inr x \<Longrightarrow> f x = Inr c \<Longrightarrow> P) \<Longrightarrow> P"
  by (cases r) auto

lemma if_InlE: "(if b then Inl e else r) = Inr c \<Longrightarrow> (\<not> b \<Longrightarrow> r = Inr c \<Longrightarrow> P) \<Longrightarrow> P"
  by (cases b) auto

lemma checked_roots:
  assumes "traverse absolute xs = Inr rs" "list_all (below_any PERMITTED_WEBROOT_ROOTS) rs" "r \<in> set rs"
  shows "safe_path r \<and> (confined ''/var/www'' r \<or> confined ''/srv/www'' r)"
  using assms absolute_safe webroot_confined checked_all [of absolute xs rs r] by (auto simp: res_simps list_all_iff)

lemma confined_parent:
  "confined root (path_parent p) \<Longrightarrow> wf_path p \<Longrightarrow> path_parts (path_parent p) \<noteq> [] \<Longrightarrow> confined root p"
proof -
  assume c: "confined root (path_parent p)" and "path_parts (path_parent p) \<noteq> []"
  moreover have "is_relative_to p (path_parent p)"
    by (simp add: is_relative_to_def path_parent_def prefixeq_butlast)
  ultimately have "path_str p = path_str (path_parent p) \<or> prefix (path_str (path_parent p) @ [47]) (path_str p)"
    using relative_text by blast
  with c show ?thesis by (auto simp: confined_def prefix_def)
qed

lemma renewal_confined:
  assumes "path_name p = lit ''renewal''" "safe_path p"
    and "path_parent p = posix ''/etc/letsencrypt'' \<or> below_any CUSTOM_CERTBOT_CONFIG_ROOTS (path_parent p)"
  shows "path_str p = lit ''/etc/letsencrypt/renewal''
    \<or> confined ''/var/lib/maddyweb/certbot'' p \<or> confined ''/srv/maddyweb/certbot'' p"
  using assms(3)
proof
  assume e: "path_parent p = posix ''/etc/letsencrypt''"
  then have "path_parts p \<noteq> []" "path_slashes p = 1" "butlast (path_parts p) = [lit ''etc'', lit ''letsencrypt'']"
    by (cases p, auto simp: path_parent_def pure_path_def leading_slashes_def lit_def)+
  then have "path_parts p = [lit ''etc'', lit ''letsencrypt'', lit ''renewal'']"
    using assms(1) append_butlast_last_id [of "path_parts p"] by (simp add: path_name_def)
  then show ?thesis using \<open>path_slashes p = 1\<close> by (simp add: path_str_def lit_def)
next
  assume b: "below_any CUSTOM_CERTBOT_CONFIG_ROOTS (path_parent p)"
  then have "path_parts (path_parent p) \<noteq> []"
    by (auto simp: below_any_def CUSTOM_CERTBOT_CONFIG_ROOTS_def is_relative_to_def pure_path_def leading_slashes_def lit_def)
  moreover have "confined ''/var/lib/maddyweb/certbot'' (path_parent p) \<or> confined ''/srv/maddyweb/certbot'' (path_parent p)"
    using b below_any_confined [of "[''/var/lib/maddyweb/certbot'', ''/srv/maddyweb/certbot'']" "path_parent p"]
    by (simp add: CUSTOM_CERTBOT_CONFIG_ROOTS_def pure_path_def leading_slashes_def path_str_def lit_def)
  ultimately show ?thesis using confined_parent assms(2) by (auto simp: safe_path_def)
qed

lemma certificates_sound: "CertificateConfig_from_dict raw mode = Inr c \<Longrightarrow> certificates_ok c"
  unfolding CertificateConfig_from_dict_def Let_def
  apply (elim bind_InrE if_InlE)
  apply (drule config_path_safe)+
  apply (drule sym [where s="Inr _" and t="Inr _"])
  apply (simp add: certificates_ok_def checked_roots del: de_Morgan_conj)
  apply (intro conjI impI)
   apply simp
  apply (rule renewal_confined; blast)
  done

lemma dns_name_sound: "(if v \<noteq> [] then dns_name env v else Inr []) = Inr d \<Longrightarrow> d = [] \<or> DNS_HOST_RE d"
  by (auto simp: dns_name_def host_def Let_def res_simps split: if_splits option.splits)

lemma issuer_chars:
  "isascii s \<Longrightarrow> \<not> list_ex control_character s \<Longrightarrow> 58 \<notin> set s \<Longrightarrow> list_all (\<lambda>ch. 32 \<le> ch \<and> ch < 127 \<and> ch \<noteq> 58) s"
  by (fastforce simp: list_all_iff list_ex_iff isascii_def control_character_def)

lemma auth_dir_text: "path_str (posix ''/var/lib/maddyweb-auth'') = lit ''/var/lib/maddyweb-auth''"
  by (simp add: pure_path_def leading_slashes_def path_str_def lit_def)

lemma security_sound: "AppSecurityConfig_from_dict env raw = Inr c \<Longrightarrow> security_ok env c"
  unfolding AppSecurityConfig_from_dict_def Let_def
  apply (elim bind_InrE if_InlE)
  apply (drule config_path_safe)+
  apply (drule sym [where s="Inr _" and t="Inr _"])
  apply (drule dns_name_sound)
  apply (simp add: security_ok_def res_simps issuer_chars auth_dir_text)
  done

lemma origin_sound:
  "AppSecurityConfig_from_dict env raw = Inr c \<Longrightarrow>
   public_origin c = [] \<or> (\<exists>h. host_ok env h \<and> public_origin c = lit ''https://'' @ h)"
  unfolding AppSecurityConfig_from_dict_def Let_def
  apply (elim bind_InrE if_InlE)
  apply (drule sym [where s="Inr _" and t="Inr _"])
  apply (auto split: if_splits dest: https_origin_sound)
  done

lemma logging_sound:
  "LoggingConfig_from_dict env raw = Inr l \<Longrightarrow> l \<in> {lit ''DEBUG'', lit ''INFO'', lit ''WARNING'', lit ''ERROR''}"
  unfolding LoggingConfig_from_dict_def Let_def by (elim bind_InrE if_InlE) simp

lemma origin_listed:
  assumes "ipv4_texts env" "o' = [] \<or> (\<exists>h. host_ok env h \<and> o' = lit ''https://'' @ h)"
    and "(if o' = [] then Inr True
          else bind_res (urlsplit tenv o') (\<lambda>u. Inr (case url_hostname tenv u of None \<Rightarrow> False | Some n \<Rightarrow> n \<in> set hosts))) = r"
  shows "(\<exists>b. r = Inr b) \<and> (r = Inr True \<longrightarrow> o' = [] \<or> (\<exists>h \<in> set hosts. o' = lit ''https://'' @ h))"
proof (cases "o' = []")
  case False
  then obtain h u where h: "o' = lit ''https://'' @ h" "urlsplit tenv o' = Inr u" "url_hostname tenv u = Some h"
    using assms(1,2) https_host [OF host_plain [OF _ assms(1)]] by metis
  with assms(3) show ?thesis by auto
qed (use assms(3) in auto)

lemma config_sound:
  assumes "ipv4_texts env" "AppConfig_from_dict env raw = Inr c"
  shows "config_ok env c"
  using assms(2) unfolding AppConfig_from_dict_def
  apply (elim bind_InrE if_InlE)
  apply (frule origin_sound)
  apply (drule maddy_sound certificates_sound server_sound security_sound logging_sound)+
  apply (drule origin_listed [OF assms(1)], assumption)
  apply (drule sym [where s="Inr _" and t="Inr _"])
  apply (simp add: config_ok_def)
  done

section \<open>Errors\<close>

text \<open>A computation that fails with one of the given errors only.\<close>

definition fails_in :: "exn set \<Rightarrow> 'a res \<Rightarrow> bool" where
  "fails_in E r \<longleftrightarrow> (\<forall>e. r = Inl e \<longrightarrow> e \<in> E)"

named_theorems fails \<open>errors of the readers\<close>

lemma fails_simps [simp, fails]: "fails_in E (Inr x)" "fails_in E (Inl e) \<longleftrightarrow> e \<in> E"
  by (auto simp: fails_in_def)

lemma fails_bind [fails]: "fails_in E r \<Longrightarrow> (\<And>x. r = Inr x \<Longrightarrow> fails_in E (f x)) \<Longrightarrow> fails_in E (bind_res r f)"
  by (cases r) (auto simp: fails_in_def)

lemma fails_if [fails]: "(b \<Longrightarrow> fails_in E r) \<Longrightarrow> (\<not> b \<Longrightarrow> fails_in E s) \<Longrightarrow> fails_in E (if b then r else s)"
  by simp

lemma fails_traverse [fails]: "(\<And>x. fails_in E (f x)) \<Longrightarrow> fails_in E (traverse f xs)"
  by (induction xs) (auto intro!: fails_bind)

abbreviation config_errors :: "exn set" where
  "config_errors \<equiv> {ConfigError, OverflowError, TypeError}"

lemma reader_fails [fails]:
  "fails_in config_errors (config_closed raw ks)" "fails_in config_errors (config_string raw k s)"
  "fails_in config_errors (config_integer raw k i)" "fails_in config_errors (config_number raw k i)"
  "fails_in config_errors (config_boolean raw k b)" "fails_in config_errors (in_range lo hi v)"
  "fails_in config_errors (absolute w)" "fails_in config_errors (host env w)" "fails_in config_errors (text_item y)"
  "fails_in config_errors (config_table raw k)"
  by (auto simp: fails_in_def config_closed_def config_string_def config_integer_def config_number_def config_boolean_def
      in_range_def absolute_def host_def config_table_def Let_def split: pyval.splits if_splits option.splits
      elim: text_item.elims)

lemma path_fails [fails]: "fails_in config_errors (config_path raw k d)"
  unfolding config_path_def by (intro fails)

lemma strings_fails [fails]: "fails_in config_errors (config_strings raw k d)"
  by (auto simp: config_strings_def split: pyval.splits intro!: fails_traverse reader_fails)

lemma urlsplit_fails: "urlsplit tenv v = Inl e \<Longrightarrow> e = ValueError" "url_port u = Inl e \<Longrightarrow> e = ValueError"
  by (auto simp: urlsplit_def url_port_def Let_def split: prod.splits if_splits option.splits)

lemma fails_case: "(\<And>e. r = Inl e \<Longrightarrow> fails_in E (f e)) \<Longrightarrow> (\<And>x. r = Inr x \<Longrightarrow> fails_in E (g x)) \<Longrightarrow> fails_in E (case r of Inl e \<Rightarrow> f e | Inr x \<Rightarrow> g x)"
  by (cases r) auto

lemma origin_fails [fails]: "fails_in config_errors (https_origin env v)"
proof -
  have ve: "e = ValueError" if "bind_res (urlsplit tenv v) (\<lambda>parsed. bind_res (url_port parsed) (\<lambda>port. Inr (parsed, port))) = Inl e" for tenv e
    using that urlsplit_fails by (cases "urlsplit tenv v"; cases "url_port (projr (urlsplit tenv v))") auto
  show ?thesis unfolding https_origin_def Let_def
    by (rule fails_case) (auto dest!: ve split: option.splits intro!: fails_bind reader_fails)
qed

lemma dns_fails [fails]: "fails_in config_errors (dns_name env v)"
  unfolding dns_name_def by (intro fails) simp

lemma listen_fails [fails]: "fails_in config_errors (listen_port env raw)"
  unfolding listen_port_def
  by (auto intro!: fails_bind reader_fails split: prod.splits sum.splits option.splits)

lemma section_fails [fails]:
  "fails_in config_errors (MaddyConfig_from_dict raw)"
  "fails_in config_errors (CertificateConfig_from_dict raw mode)"
  "fails_in config_errors (ServerConfig_from_dict env raw)"
  "fails_in config_errors (AppSecurityConfig_from_dict env raw)"
  "fails_in config_errors (LoggingConfig_from_dict env raw)"
  unfolding MaddyConfig_from_dict_def CertificateConfig_from_dict_def ServerConfig_from_dict_def
    AppSecurityConfig_from_dict_def LoggingConfig_from_dict_def Let_def
  by (intro fails; simp)+

lemma split_own_origin:
  "ipv4_texts env \<Longrightarrow> AppSecurityConfig_from_dict env raw = Inr c \<Longrightarrow> public_origin c \<noteq> [] \<Longrightarrow>
   fails_in E (urlsplit tenv (public_origin c))"
  using origin_sound [of env raw c] https_host [OF host_plain, of env _ tenv] by fastforce

lemma config_fails: "ipv4_texts env \<Longrightarrow> fails_in config_errors (AppConfig_from_dict env raw)"
  unfolding AppConfig_from_dict_def
  by (intro fails fails_simps(2) [THEN iffD2]) (simp_all add: fails split_own_origin)


definition sample_config_env :: config_env where
  "sample_config_env =
     \<lparr>cfg_text = sample_security_env,
      cfg_ip = (\<lambda>s. if s = lit ''127.0.0.1'' then Some \<lparr>is_ipv4 = True, is_unspecified = False,
        is_multicast = False, is_loopback = True, is_private = True, ip_text = s\<rparr> else None),
      cfg_upper = (\<lambda>c. [c])\<rparr>"

definition sample_server :: raw_table where
  "sample_server =
     [(lit ''listen'', PyStr (lit ''127.0.0.1:80'')), (lit ''allowed_hosts'', PyList [PyStr (lit ''mail.example.com'')])]"

definition sample_document :: raw_table where
  "sample_document =
     [(lit ''maddy'', PyDict [(PyStr (lit ''mode''), PyStr (lit ''native''))]),
      (lit ''server'', PyDict (map (map_prod PyStr id) sample_server))]"

text \<open>Small numbers need no comparison with the largest float.\<close>

lemma config_number_small [code]:
  "config_number raw key dflt =
     (case raw_get raw key (PyInt dflt) of
        PyInt i \<Rightarrow> if \<bar>i\<bar> \<le> 1000000 then Inr (FloatOfInt i)
          else if \<bar>i\<bar> < 2 ^ 1024 - 2 ^ 970 then Inr (FloatOfInt i) else Inl OverflowError
      | PyFloat s \<Rightarrow> Inr (FloatRepr s)
      | _ \<Rightarrow> Inl ConfigError)"
  unfolding config_number_def by (auto split: pyval.split)

lemma sample_listen: "listen_port sample_config_env sample_server = Inr 80"
  by (simp add: listen_port_def sample_server_def config_string_def raw_get_def text_eval in_range_def python_int_def
      decimal_digit_def next_is_def DEFAULT_WEB_HOST_def sample_config_env_def Let_def)

lemma sample_server_read:
  "\<exists>c. ServerConfig_from_dict sample_config_env sample_server = Inr c \<and> allowed_hosts c = [lit ''mail.example.com'']"
proof -
  have "host sample_config_env (lit ''mail.example.com'') = Inr (lit ''mail.example.com'')" by code_simp
  moreover have "config_closed sample_server SERVER_KEYS = Inr ()" by code_simp
  moreover have "\<exists>p. config_path sample_server ''temp_dir'' ''/var/tmp/maddyweb'' = Inr p"
    by (simp add: config_path_def config_string_def sample_server_def raw_get_def absolute_def Let_def path_str_def
        pure_path_def leading_slashes_def lit_def control_character_def is_absolute_def)
  ultimately show ?thesis
    using sample_listen
    by (auto simp: ServerConfig_from_dict_def config_strings_def config_integer_def config_number_def
        raw_get_def in_range_def float_between_def unique_def sample_server_def)
qed

text \<open>A whole number too large for a float leaves the reader as another error than the documented one.\<close>

lemma huge_number_overflows:
  "config_number [(lit ''command_timeout_seconds'', PyInt (2 ^ 1024))] ''command_timeout_seconds'' 15 = Inl OverflowError"
  by (simp add: config_number_def raw_get_def)


end
