(* ===== verification/Cli_Text.thy ===== *)
theory Cli_Text
  imports Utf8_Text Csrf_Tokens
begin

text \<open>
  The string operations of the language that the adapters of command line tools use on output they
  did not write: decoding with replacement characters, lines, words, prefixes of separators of several
  characters.
\<close>

section \<open>Lenient decoding\<close>

text \<open>
  \<open>bytes.decode("utf-8", errors="replace")\<close>: a longest prefix of a character that cannot be completed
  becomes one U+FFFD.
\<close>

definition second_byte_ok :: "nat \<Rightarrow> nat \<Rightarrow> bool" where
  "second_byte_ok a b \<longleftrightarrow>
     (if a = 224 then 160 \<le> b \<and> b < 192
      else if a = 237 then 128 \<le> b \<and> b < 160
      else if a = 240 then 144 \<le> b \<and> b < 192
      else if a = 244 then 128 \<le> b \<and> b < 144
      else is_continuation b)"

definition broken_length :: "nat list \<Rightarrow> nat" where
  "broken_length u =
     (case u of
        a # b # r \<Rightarrow>
          if 224 \<le> a \<and> a < 240 then (if second_byte_ok a b then 2 else 1)
          else if 240 \<le> a \<and> a < 245 then
            (if second_byte_ok a b then (case r of c # _ \<Rightarrow> if is_continuation c then 3 else 2 | [] \<Rightarrow> 2) else 1)
          else 1
      | _ \<Rightarrow> 1)"

lemma broken_length_pos: "0 < broken_length u"
  by (auto simp: broken_length_def split: list.splits)

function utf8_lenient :: "nat list \<Rightarrow> pystr" where
  "utf8_lenient u =
     (if u = [] then []
      else case utf8_next is_scalar u of
        Some (c, r) \<Rightarrow> c # utf8_lenient r
      | None \<Rightarrow> 65533 # utf8_lenient (drop (broken_length u) u))"
  by auto
termination
proof (relation "measure length")
  fix u :: "nat list" assume "u \<noteq> []"
  then show "(drop (broken_length u) u, u) \<in> measure length"
    using broken_length_pos [of u] by (cases u) auto
qed (auto dest: utf8_next_shorter)

declare utf8_lenient.simps [simp del]

definition utf8_decode_replace :: "bytes \<Rightarrow> pystr" where
  "utf8_decode_replace b = utf8_lenient (map unat b)"

section \<open>Lines and words\<close>

definition is_line_break :: "nat \<Rightarrow> bool" where
  "is_line_break c \<longleftrightarrow> (10 \<le> c \<and> c \<le> 13) \<or> (28 \<le> c \<and> c \<le> 30) \<or> c = 133 \<or> c = 8232 \<or> c = 8233"

definition is_byte_break :: "nat \<Rightarrow> bool" where
  "is_byte_break c \<longleftrightarrow> c = 10 \<or> c = 13"

text \<open>\<open>splitlines()\<close>: a carriage return and the line feed behind it end one line.\<close>

definition after_break :: "nat list \<Rightarrow> nat list" where
  "after_break r = (case r of [] \<Rightarrow> [] | a # r' \<Rightarrow> if a = 13 \<and> next_is 10 r' then tl r' else r')"

lemma after_break_shorter:
  "r \<noteq> [] \<Longrightarrow> length (after_break r) < length r" and after_break_Nil [simp]: "after_break [] = []"
  by (cases r; cases "tl r"; auto simp: after_break_def next_is_def)+

function lines_by :: "(nat \<Rightarrow> bool) \<Rightarrow> nat list \<Rightarrow> nat list list" where
  "lines_by brk s =
     (if s = [] then []
      else takeWhile (\<lambda>c. \<not> brk c) s # lines_by brk (after_break (dropWhile (\<lambda>c. \<not> brk c) s)))"
  by auto
termination
proof (relation "measure (length \<circ> snd)")
  fix brk and s :: "nat list" assume s: "s \<noteq> []"
  have "length (after_break d) < length s" if "length d \<le> length s" for d
    using s that after_break_shorter [of d] by (cases "d = []") auto
  then show "((brk, after_break (dropWhile (\<lambda>c. \<not> brk c) s)), brk, s) \<in> measure (length \<circ> snd)"
    using length_dropWhile_le by auto
qed simp

declare lines_by.simps [simp del]

abbreviation splitlines :: "pystr \<Rightarrow> pystr list" where
  "splitlines \<equiv> lines_by is_line_break"

definition byte_lines :: "bytes \<Rightarrow> bytes list" where
  "byte_lines b = map (map of_nat) (lines_by is_byte_break (map unat b))"

text \<open>\<open>str.split()\<close>: the words between white space.\<close>

fun words_of :: "pystr \<Rightarrow> pystr list" where
  "words_of [] = []"
| "words_of (c # s) =
     (if isspace c then words_of s
      else if s = [] \<or> isspace (hd s) then [c] # words_of s
      else case words_of s of [] \<Rightarrow> [[c]] | w # ws \<Rightarrow> (c # w) # ws)"

text \<open>\<open>separator in s\<close>, and \<open>partition\<close> and \<open>split\<close> for a separator of several characters.\<close>

definition contains_text :: "pystr \<Rightarrow> pystr \<Rightarrow> bool" where
  "contains_text needle s \<longleftrightarrow> sublist needle s"

fun partition_text :: "pystr \<Rightarrow> pystr \<Rightarrow> pystr \<times> bool \<times> pystr" where
  "partition_text sep [] = ([], False, [])"
| "partition_text sep (c # r) =
     (if sep \<noteq> [] \<and> prefix sep (c # r) then ([], True, drop (length sep) (c # r))
      else case partition_text sep r of (a, found, b) \<Rightarrow> (c # a, found, b))"

lemma partition_text_shorter: "partition_text sep s = (a, True, b) \<Longrightarrow> length b < length s"
  by (induction s arbitrary: a) (fastforce split: if_splits prod.splits simp: Suc_diff_le)+

function split_text :: "pystr \<Rightarrow> pystr \<Rightarrow> pystr list" where
  "split_text sep s =
     (case partition_text sep s of (a, found, b) \<Rightarrow> if found then a # split_text sep b else [a])"
  by auto
termination by (relation "measure (length \<circ> snd)") (auto dest: partition_text_shorter [OF sym])

declare split_text.simps [simp del]

definition byte_text :: "bytes \<Rightarrow> pystr" where
  "byte_text b = map unat b"

section \<open>Lemmas\<close>

lemma utf8_lenient_ascii: "list_all (\<lambda>c. c < 128) u \<Longrightarrow> utf8_lenient u = u"
  by (induction u) (auto simp: utf8_lenient.simps utf8_next_def)

lemma lines_by_Cons:
  "l \<in> set (lines_by brk s) \<Longrightarrow>
   l = takeWhile (\<lambda>c. \<not> brk c) s \<or> s \<noteq> [] \<and> l \<in> set (lines_by brk (after_break (dropWhile (\<lambda>c. \<not> brk c) s)))"
  by (subst (asm) lines_by.simps) (auto split: if_splits)

lemma lines_no_break: "l \<in> set (lines_by brk s) \<Longrightarrow> \<forall>c \<in> set l. \<not> brk c"
proof (induction brk s rule: lines_by.induct)
  case (1 brk s)
  from lines_by_Cons [OF "1.prems"] "1.IH" show ?case by (auto dest: set_takeWhileD)
qed

lemma lines_subset: "l \<in> set (lines_by brk s) \<Longrightarrow> set l \<subseteq> set s"
proof (induction brk s rule: lines_by.induct)
  case (1 brk s)
  have "set (after_break r) \<subseteq> set r" for r
    by (cases r; cases "tl r") (auto simp: after_break_def next_is_def)
  then have "set (after_break (dropWhile (\<lambda>c. \<not> brk c) s)) \<subseteq> set s"
    using set_dropWhileD by fastforce
  with lines_by_Cons [OF "1.prems"] "1.IH" show ?case by (auto dest: set_takeWhileD)
qed

lemma words_of_parts: "w \<in> set (words_of s) \<Longrightarrow> w \<noteq> [] \<and> set w \<subseteq> set s \<and> (\<forall>c \<in> set w. \<not> isspace c)"
proof (induction s arbitrary: w)
  case (Cons a s)
  show ?case
  proof (cases "isspace a \<or> s = [] \<or> isspace (hd s)")
    case True
    with Cons show ?thesis by (auto split: if_splits)
  next
    case False
    with Cons.IH Cons.prems show ?thesis by (cases "words_of s") fastforce+
  qed
qed simp

end
