(* ===== verification/Maddy_Version.thy ===== *)
theory Maddy_Version
  imports Cli_Text Json_Correct Posix_Path Csrf_Sample
begin

text \<open>
  Versions and capabilities of the mail server as \<open>maddy.py\<close> reads them from the output of
  \<open>maddy version\<close>: the SemVer value with its parser, printer and precedence, the set of tested releases and
  the capabilities of a release. The Unicode decimal digits that \<open>\d\<close> matches come from the environment.
\<close>

section \<open>Versions\<close>

record SemVer =
  major :: int
  minor :: int
  patch :: int
  prerelease :: "pystr list"
  build :: "pystr list"

text \<open>\<open>(0|[1-9]\d*)\<close>; a longer number than \<open>int\<close> converts raises \<open>ValueError\<close>.\<close>

definition is_decimal_char :: "security_env \<Rightarrow> nat \<Rightarrow> bool" where
  "is_decimal_char env c \<longleftrightarrow> decimal_digit env c \<noteq> None"

definition version_number :: "security_env \<Rightarrow> pystr \<Rightarrow> bool" where
  "version_number env s \<longleftrightarrow>
     s = [48] \<or> (s \<noteq> [] \<and> 49 \<le> hd s \<and> hd s \<le> 57 \<and> list_all (is_decimal_char env) (tl s))"

definition decimal_int :: "security_env \<Rightarrow> pystr \<Rightarrow> int res" where
  "decimal_int env s =
     (if INT_MAX_STR_DIGITS < length s then Inl ValueError
      else Inr (int (foldl (\<lambda>a c. 10 * a + the (decimal_digit env c)) 0 s)))"

definition identifier_char :: "nat \<Rightarrow> bool" where
  "identifier_char c \<longleftrightarrow> is_ascii_alnum c \<or> c = 45"

definition identifiers :: "pystr \<Rightarrow> bool" where
  "identifiers s \<longleftrightarrow> list_all (fullmatch_plus identifier_char) (split_on 46 s)"

text \<open>
  \<open>_SEMVER_RE\<close>: the numbers and the two optional groups. No number holds a dash or a plus sign and no identifier a
  plus sign, so the first plus sign starts the build group and the first dash before it the prerelease.
\<close>

definition SEMVER_RE :: "security_env \<Rightarrow> pystr \<Rightarrow> (pystr \<times> pystr \<times> pystr \<times> pystr option \<times> pystr option) option" where
  "SEMVER_RE env s =
     (let s = (if next_is 118 s then tl s else s);
          (head, has_build, b) = partition 43 s;
          (nums, has_pre, p) = partition 45 head
      in case split_on 46 nums of
           [x, y, z] \<Rightarrow>
             if version_number env x \<and> version_number env y \<and> version_number env z
                \<and> (has_pre \<longrightarrow> identifiers p) \<and> (has_build \<longrightarrow> identifiers b)
             then Some (x, y, z, if has_pre then Some p else None, if has_build then Some b else None)
             else None
         | _ \<Rightarrow> None)"

definition all_digits :: "pystr \<Rightarrow> bool" where
  "all_digits s \<longleftrightarrow> fullmatch_plus is_digit s"

definition SemVer_parse :: "security_env \<Rightarrow> pystr \<Rightarrow> SemVer res" where
  "SemVer_parse env text =
     (case SEMVER_RE env (strip text) of
        None \<Rightarrow> Inl (MaddyError VersionParseError)
      | Some (x, y, z, p, b) \<Rightarrow>
          let pre = (case p of None \<Rightarrow> [] | Some t \<Rightarrow> split_on 46 t) in
          if list_ex (\<lambda>i. all_digits i \<and> 1 < length i \<and> hd i = 48) pre
          then Inl (MaddyError VersionParseError)
          else
            bind_res (decimal_int env x) (\<lambda>ma.
            bind_res (decimal_int env y) (\<lambda>mi.
            bind_res (decimal_int env z) (\<lambda>pa.
            Inr \<lparr>major = ma, minor = mi, patch = pa, prerelease = pre,
                 build = (case b of None \<Rightarrow> [] | Some t \<Rightarrow> split_on 46 t)\<rparr>))))"

definition from_maddy_output :: "security_env \<Rightarrow> bytes \<Rightarrow> SemVer res" where
  "from_maddy_output env output =
     (let lines = splitlines (utf8_decode_replace output);
          first_line = (if lines \<noteq> [] then strip (hd lines) else []);
          tokens = words_of first_line;
          tokens = (if tokens \<noteq> [] \<and> py_lower (text_env.truncate env) (hd tokens) = lit ''maddy'' then tl tokens else tokens)
      in if tokens = [] then Inl (MaddyError VersionParseError) else SemVer_parse env (hd tokens))"

definition SemVer_str :: "SemVer \<Rightarrow> pystr" where
  "SemVer_str v =
     dec_int (major v) @ 46 # dec_int (minor v) @ 46 # dec_int (patch v)
       @ (if prerelease v \<noteq> [] then 45 # join_on 46 (prerelease v) else [])
       @ (if build v \<noteq> [] then 43 # join_on 46 (build v) else [])"

text \<open>
  \<open>==\<close> of the dataclass leaves the build metadata out; \<open>total_ordering\<close> derives the other comparisons.
  The service compares releases only, so \<open>int\<close> never meets an identifier with more digits than it converts.
\<close>

definition SemVer_eq :: "SemVer \<Rightarrow> SemVer \<Rightarrow> bool" where
  "SemVer_eq v w \<longleftrightarrow> major v = major w \<and> minor v = minor w \<and> patch v = patch w \<and> prerelease v = prerelease w"

fun prerelease_less :: "pystr list \<Rightarrow> pystr list \<Rightarrow> bool" where
  "prerelease_less (own # os) (theirs # ts) =
     (if own = theirs then prerelease_less os ts
      else if all_digits own \<and> all_digits theirs then digits_value own < digits_value theirs
      else if all_digits own \<noteq> all_digits theirs then all_digits own
      else own < theirs)"
| "prerelease_less os ts = (length os < length ts)"

definition SemVer_lt :: "SemVer \<Rightarrow> SemVer \<Rightarrow> bool" where
  "SemVer_lt v w =
     (let own_core = (major v, minor v, patch v); other_core = (major w, minor w, patch w) in
      if own_core \<noteq> other_core then own_core < other_core
      else if prerelease v = [] then prerelease w \<noteq> []
      else if prerelease w = [] then True
      else prerelease_less (prerelease v) (prerelease w))"

definition SemVer_le :: "SemVer \<Rightarrow> SemVer \<Rightarrow> bool" where
  "SemVer_le v w \<longleftrightarrow> SemVer_lt v w \<or> SemVer_eq v w"

section \<open>Supported releases\<close>

definition release :: "int \<Rightarrow> int \<Rightarrow> int \<Rightarrow> SemVer" where
  "release x y z = \<lparr>major = x, minor = y, patch = z, prerelease = [], build = []\<rparr>"

definition MIN_SUPPORTED_VERSION :: SemVer where "MIN_SUPPORTED_VERSION = release 0 8 2"
definition MAX_SUPPORTED_VERSION :: SemVer where "MAX_SUPPORTED_VERSION = release 0 9 5"

definition TESTED_RELEASES :: "SemVer list" where
  "TESTED_RELEASES = [release 0 8 2, release 0 9 0, release 0 9 1, release 0 9 2, release 0 9 3, release 0 9 4, release 0 9 5]"

datatype Capability =
    DIAGNOSTICS | VERIFY_CONFIG | ACCOUNT_ADMIN | MAILBOX_ADMIN | MESSAGE_ADMIN | CERTIFICATE_FILE_ADMIN
  | TLS_RELOAD | ZERO_DOWNTIME_RELOAD | LDAP_AUTH_SAFE | EXPLICIT_CLI_LIFECYCLE

definition BASE_CAPABILITIES :: "Capability set" where
  "BASE_CAPABILITIES = {DIAGNOSTICS, ACCOUNT_ADMIN, MAILBOX_ADMIN, MESSAGE_ADMIN, CERTIFICATE_FILE_ADMIN, TLS_RELOAD}"

definition require_supported_version :: "SemVer \<Rightarrow> bool \<Rightarrow> SemVer res" where
  "require_supported_version v known_release =
     (if prerelease v \<noteq> [] then Inl (MaddyError UnsupportedVersion)
      else if build v \<noteq> [] then Inl (MaddyError UnsupportedVersion)
      else if \<not> (SemVer_le MIN_SUPPORTED_VERSION v \<and> SemVer_le v MAX_SUPPORTED_VERSION) then Inl (MaddyError UnsupportedVersion)
      else if known_release \<and> \<not> list_ex (SemVer_eq v) TESTED_RELEASES then Inl (MaddyError UnsupportedVersion)
      else Inr v)"

definition capabilities_for :: "SemVer \<Rightarrow> Capability set res" where
  "capabilities_for v =
     bind_res (require_supported_version v True) (\<lambda>_.
     Inr (BASE_CAPABILITIES
       \<union> (if SemVer_le (release 0 9 0) v then {ZERO_DOWNTIME_RELOAD, VERIFY_CONFIG} else {})
       \<union> (if SemVer_le (release 0 9 3) v then {LDAP_AUTH_SAFE} else {})
       \<union> (if SemVer_le (release 0 9 4) v then {EXPLICIT_CLI_LIFECYCLE} else {})))"

section \<open>Precedence\<close>

text \<open>
  The order of the SemVer specification: the numbers first, a release after its prereleases, identifiers one
  by one, numeric ones by value and before the others.
\<close>

definition identifier_key :: "pystr \<Rightarrow> nat \<times> nat \<times> pystr" where
  "identifier_key i = (if all_digits i then (0, digits_value i, []) else (1, 0, i))"

definition precedence :: "SemVer \<Rightarrow> int \<times> int \<times> int \<times> bool \<times> (nat \<times> nat \<times> pystr) list" where
  "precedence v = (major v, minor v, patch v, prerelease v = [], map identifier_key (prerelease v))"

definition wf_identifier :: "pystr \<Rightarrow> bool" where
  "wf_identifier i \<longleftrightarrow> fullmatch_plus identifier_char i \<and> \<not> (all_digits i \<and> 1 < length i \<and> hd i = 48)"

lemma digits_value_bounds:
  "list_all is_digit s \<Longrightarrow> s \<noteq> [] \<Longrightarrow> hd s \<noteq> 48 \<Longrightarrow>
   10 ^ (length s - 1) \<le> digits_value s \<and> digits_value s < 10 ^ length s"
proof (induction s rule: rev_induct)
  case (snoc c s)
  show ?case
  proof (cases "s = []")
    case True
    with snoc.prems show ?thesis by (auto simp: digits_value_def is_digit_def)
  next
    case False
    with snoc have b: "10 ^ (length s - 1) \<le> digits_value s" "digits_value s < 10 ^ length s"
      by (auto simp: hd_append)
    from False have "10 ^ length s = 10 * (10::nat) ^ (length s - 1)" by (cases s) auto
    with b snoc.prems show ?thesis by (auto simp: digits_value_snoc is_digit_def)
  qed
qed simp

lemma last_digit_eq: "10 * a + x = 10 * b + y \<Longrightarrow> x < 10 \<Longrightarrow> y < 10 \<Longrightarrow> a = b \<and> x = (y :: nat)"
  by presburger

lemma digits_value_inj:
  "length s = length t \<Longrightarrow> list_all is_digit s \<Longrightarrow> list_all is_digit t \<Longrightarrow> digits_value s = digits_value t \<Longrightarrow> s = t"
proof (induction s arbitrary: t rule: rev_induct)
  case (snoc c s)
  from snoc.prems(1) obtain t' d where t: "t = t' @ [d]" by (metis append_butlast_last_id length_0_conv length_append_singleton nat.distinct(1))
  have cd: "c - 48 < 10" "d - 48 < 10" "48 \<le> c" "48 \<le> d" using snoc.prems t by (auto simp: is_digit_def)
  from snoc.prems t have "10 * digits_value s + (c - 48) = 10 * digits_value t' + (d - 48)" by (simp add: digits_value_snoc)
  then have "digits_value s = digits_value t' \<and> c - 48 = d - 48" by (rule last_digit_eq) (rule cd)+
  then have "digits_value s = digits_value t'" "c = d" using cd by auto
  with snoc.IH [of t'] snoc.prems t show ?case by auto
qed simp

lemma digits_value_eq:
  assumes "wf_identifier s" "wf_identifier t" "all_digits s" "all_digits t" "digits_value s = digits_value t"
  shows "s = t"
proof -
  have d: "list_all is_digit s" "s \<noteq> []" "list_all is_digit t" "t \<noteq> []" using assms by (auto simp: all_digits_def fullmatch_plus_def)
  have form: "u = [48] \<or> hd u \<noteq> 48" if "wf_identifier u" "all_digits u" for u
    using that by (cases u; cases "tl u") (auto simp: wf_identifier_def all_digits_def fullmatch_plus_def)
  have zero: "digits_value [48] = 0" by (simp add: digits_value_def)
  have pos: "0 < digits_value u" if "list_all is_digit u" "u \<noteq> []" "hd u \<noteq> 48" for u
    using digits_value_bounds [OF that] by (metis le_zero_eq not_gr_zero power_not_zero zero_neq_numeral)
  have len: "length s = length t" if h: "hd s \<noteq> 48" "hd t \<noteq> 48"
  proof (rule ccontr)
    have lt: False if "length u < length w" "list_all is_digit u" "u \<noteq> []" "hd u \<noteq> 48"
      "list_all is_digit w" "w \<noteq> []" "hd w \<noteq> 48" "digits_value u = digits_value w" for u w :: pystr
    proof -
      have "digits_value u < 10 ^ length u" "10 ^ (length w - 1) \<le> digits_value w"
        using digits_value_bounds that by blast+
      moreover have "(10::nat) ^ length u \<le> 10 ^ (length w - 1)" using that(1) by (intro power_increasing) auto
      ultimately show False using that(8) by linarith
    qed
    assume "length s \<noteq> length t"
    with lt [of s t] lt [of t s] d h assms(5) show False by (auto simp: neq_iff)
  qed
  show ?thesis
  proof (cases "s = [48] \<or> t = [48]")
    case True
    then show ?thesis using form [OF assms(1,3)] form [OF assms(2,4)] pos [of s] pos [of t] zero d assms(5) by auto
  next
    case False
    then show ?thesis using form [OF assms(1,3)] form [OF assms(2,4)] digits_value_inj [OF len] d assms(5) by auto
  qed
qed

lemma identifier_key_inj:
  "wf_identifier i \<Longrightarrow> wf_identifier j \<Longrightarrow> identifier_key i = identifier_key j \<longleftrightarrow> i = j"
  using digits_value_eq [of i j] by (auto simp: identifier_key_def split: if_splits)

lemma empty_less_list: "([] :: 'a :: linorder list) < xs \<longleftrightarrow> xs \<noteq> []" "\<not> xs < ([] :: 'a list)"
  by (cases xs; simp)+

lemma prerelease_less_key:
  "list_all wf_identifier os \<Longrightarrow> list_all wf_identifier ts \<Longrightarrow>
   prerelease_less os ts \<longleftrightarrow> map identifier_key os < map identifier_key ts"
proof (induction os ts rule: prerelease_less.induct)
  case (1 own os theirs ts)
  then have inj: "identifier_key own = identifier_key theirs \<longleftrightarrow> own = theirs" by (simp add: identifier_key_inj)
  show ?case
  proof (cases "own = theirs")
    case True
    with 1 show ?thesis by simp
  next
    case False
    then have "prerelease_less (own # os) (theirs # ts) \<longleftrightarrow> identifier_key own < identifier_key theirs"
      by (auto simp: identifier_key_def less_prod_def')
    with False inj show ?thesis by (simp add: Cons_less_Cons)
  qed
qed (auto simp: empty_less_list)

lemma map_key_inj:
  "list_all wf_identifier os \<Longrightarrow> list_all wf_identifier ts \<Longrightarrow> map identifier_key os = map identifier_key ts \<longleftrightarrow> os = ts"
  by (rule inj_on_map_eq_map) (auto simp: inj_on_def list_all_iff identifier_key_inj)

lemma precedence_order:
  assumes "list_all wf_identifier (prerelease v)" "list_all wf_identifier (prerelease w)"
    and "prerelease v = [] \<longleftrightarrow> prerelease w = []"
  shows "SemVer_lt v w \<longleftrightarrow> precedence v < precedence w" "SemVer_eq v w \<longleftrightarrow> precedence v = precedence w"
  using prerelease_less_key [OF assms(1,2)] map_key_inj [OF assms(1,2)] assms(3)
  by (auto simp: SemVer_lt_def SemVer_eq_def precedence_def less_prod_def' Let_def)

text \<open>Between a release and a prerelease of the same numbers the comparison answers yes in both directions.\<close>

lemma release_and_prerelease_both_less:
  "major v = major w \<Longrightarrow> minor v = minor w \<Longrightarrow> patch v = patch w \<Longrightarrow> prerelease v = [] \<Longrightarrow> prerelease w \<noteq> [] \<Longrightarrow>
   SemVer_lt v w \<and> SemVer_lt w v"
  by (simp add: SemVer_lt_def)

section \<open>Reading and printing\<close>

definition wf_semver :: "SemVer \<Rightarrow> bool" where
  "wf_semver v \<longleftrightarrow>
     (\<forall>n \<in> {major v, minor v, patch v}. 0 \<le> n \<and> length (dec_int n) \<le> INT_MAX_STR_DIGITS)
     \<and> list_all wf_identifier (prerelease v) \<and> list_all (fullmatch_plus identifier_char) (build v)"

lemma partition_found: "c \<notin> set a \<Longrightarrow> partition c (a @ c # b) = (a, True, b)"
  by (auto simp: partition_def) (induction a; auto)+

lemma partition_absent: "c \<notin> set a \<Longrightarrow> partition c a = (a, False, [])"
  by (simp add: partition_def)

lemma dec_int_digits: "0 \<le> n \<Longrightarrow> list_all is_digit (dec_int n) \<and> dec_int n \<noteq> []"
  using dec_nat_digits by (auto simp: dec_int_def)

lemma version_number_dec: "0 \<le> n \<Longrightarrow> version_number env (dec_int n)"
proof (cases "n = 0")
  case True
  then show ?thesis by (simp add: version_number_def dec_int_def dec_nat.simps)
next
  case False
  assume "0 \<le> n"
  then have "list_all is_digit (dec_nat (nat n))" "dec_nat (nat n) \<noteq> []" "hd (dec_nat (nat n)) \<noteq> 48"
    using dec_nat_digits dec_nat_head [of "nat n"] False by auto
  then show ?thesis using \<open>0 \<le> n\<close>
    by (cases "dec_nat (nat n)") (auto simp: version_number_def dec_int_def is_digit_def list_all_iff is_decimal_char_def decimal_digit_def)
qed

lemma decimal_int_dec: "0 \<le> n \<Longrightarrow> length (dec_int n) \<le> INT_MAX_STR_DIGITS \<Longrightarrow> decimal_int env (dec_int n) = Inr n"
proof -
  assume n: "0 \<le> n" "length (dec_int n) \<le> INT_MAX_STR_DIGITS"
  have "foldl (\<lambda>a c. 10 * a + the (decimal_digit env c)) a s = foldl (\<lambda>a c. 10 * a + (c - 48)) a s"
    if "list_all is_digit s" for s and a :: nat
    using that by (induction s arbitrary: a) (auto simp: decimal_digit_def is_digit_def)
  then have "decimal_int env (dec_int n) = Inr (int (digits_value (dec_int n)))"
    using n dec_int_digits [of n] by (simp add: decimal_int_def digits_value_def)
  moreover have "int_value (dec_int n) = int (digits_value (dec_int n))"
    using dec_int_digits [OF n(1)] by (cases "dec_int n") (auto simp: int_value_def is_digit_def)
  ultimately show ?thesis by simp
qed

lemma identifiers_join: "xs \<noteq> [] \<Longrightarrow> list_all (fullmatch_plus identifier_char) xs \<Longrightarrow> split_on 46 (join_on 46 xs) = xs"
  by (rule split_join) (fastforce simp: list_all_iff fullmatch_plus_def identifier_char_def char_class_defs)+

lemma set_join_pieces: "set (join_on c xs) \<subseteq> insert c (\<Union> (set ` set xs))"
proof (induction xs)
  case (Cons x xs)
  then show ?case by (cases xs) auto
qed simp

lemma join_chars:
  "list_all (fullmatch_plus identifier_char) xs \<Longrightarrow> c \<in> set (join_on 46 xs) \<Longrightarrow> identifier_char c \<or> c = 46"
  using set_join_pieces [of 46 xs] by (fastforce simp: list_all_iff fullmatch_plus_def)

lemma last_join: "xs \<noteq> [] \<Longrightarrow> \<forall>x \<in> set xs. x \<noteq> [] \<Longrightarrow> last (join_on c xs) = last (last xs) \<and> join_on c xs \<noteq> []"
proof (induction xs)
  case (Cons x xs)
  then show ?case by (cases xs) auto
qed simp

definition version_numbers :: "SemVer \<Rightarrow> pystr" where
  "version_numbers v = dec_int (major v) @ 46 # dec_int (minor v) @ 46 # dec_int (patch v)"

lemma version_numbers_chars: "wf_semver v \<Longrightarrow> c \<in> set (version_numbers v) \<Longrightarrow> is_digit c \<or> c = 46"
  using dec_int_digits by (fastforce simp: version_numbers_def wf_semver_def list_all_iff)

lemma version_numbers_split:
  assumes "wf_semver v"
  shows "split_on 46 (version_numbers v) = [dec_int (major v), dec_int (minor v), dec_int (patch v)]"
proof -
  have "46 \<notin> set (dec_int n)" if "0 \<le> n" for n
    using dec_int_digits [OF that] by (auto simp: list_all_iff is_digit_def)
  with assms show ?thesis by (simp add: version_numbers_def split_on_app split_on_absent wf_semver_def)
qed

lemma strip_str:
  assumes wf: "wf_semver v"
  shows "strip (SemVer_str v) = SemVer_str v" and "\<not> next_is 118 (SemVer_str v)"
proof -
  have ch: "c \<in> set (SemVer_str v) \<Longrightarrow> is_digit c \<or> identifier_char c \<or> c \<in> {43, 45, 46}" for c
    using version_numbers_chars [OF wf, of c] join_chars [of "prerelease v" c] join_chars [of "build v" c] wf
    by (auto simp: SemVer_str_def version_numbers_def wf_semver_def wf_identifier_def list_all_iff split: if_splits)
  obtain a r where s: "SemVer_str v = a # r" "is_digit a"
    using dec_int_digits [of "major v"] wf by (cases "dec_int (major v)") (auto simp: SemVer_str_def wf_semver_def)
  have "\<not> isspace c" if "c \<in> set (SemVer_str v)" for c
    using ch [OF that] by (auto simp: isspace_def identifier_char_def char_class_defs)
  then show "strip (SemVer_str v) = SemVer_str v" using s strip_id_iff [of "SemVer_str v"] by simp
  show "\<not> next_is 118 (SemVer_str v)" using s by (simp add: next_is_def is_digit_def)
qed

lemma SEMVER_RE_str:
  assumes wf: "wf_semver v"
  shows "SEMVER_RE env (SemVer_str v) =
    Some (dec_int (major v), dec_int (minor v), dec_int (patch v),
          if prerelease v \<noteq> [] then Some (join_on 46 (prerelease v)) else None,
          if build v \<noteq> [] then Some (join_on 46 (build v)) else None)"
proof -
  let ?p = "if prerelease v \<noteq> [] then 45 # join_on 46 (prerelease v) else []"
  let ?b = "if build v \<noteq> [] then 43 # join_on 46 (build v) else []"
  have str: "SemVer_str v = (version_numbers v @ ?p) @ ?b" by (simp add: SemVer_str_def version_numbers_def)
  have pre: "list_all (fullmatch_plus identifier_char) (prerelease v)" and bld: "list_all (fullmatch_plus identifier_char) (build v)"
    using wf by (auto simp: wf_semver_def wf_identifier_def list_all_iff)
  have no43: "43 \<notin> set (version_numbers v @ ?p)"
    using version_numbers_chars [OF wf, of 43] join_chars [OF pre, of 43] by (auto simp: identifier_char_def char_class_defs)
  have no45: "45 \<notin> set (version_numbers v)"
    using version_numbers_chars [OF wf, of 45] by (auto simp: is_digit_def)
  have "partition 43 (SemVer_str v) = (version_numbers v @ ?p, build v \<noteq> [], if build v \<noteq> [] then join_on 46 (build v) else [])"
    unfolding str using partition_found [OF no43] partition_absent [OF no43] by auto
  moreover have "partition 45 (version_numbers v @ ?p) = (version_numbers v, prerelease v \<noteq> [], if prerelease v \<noteq> [] then join_on 46 (prerelease v) else [])"
    using partition_found [OF no45] partition_absent [OF no45] by auto
  ultimately show ?thesis
    using strip_str(2) [OF wf] version_numbers_split [OF wf] wf pre bld
    by (auto simp: SEMVER_RE_def Let_def version_number_dec wf_semver_def identifiers_def identifiers_join)
qed

lemma SemVer_parse_str: "wf_semver v \<Longrightarrow> SemVer_parse env (SemVer_str v) = Inr v"
proof -
  assume wf: "wf_semver v"
  have pre: "list_all (fullmatch_plus identifier_char) (prerelease v)" and bld: "list_all (fullmatch_plus identifier_char) (build v)"
    using wf by (auto simp: wf_semver_def wf_identifier_def list_all_iff)
  have "\<not> list_ex (\<lambda>i. all_digits i \<and> 1 < length i \<and> hd i = 48) (prerelease v)"
    using wf by (auto simp: wf_semver_def wf_identifier_def list_all_iff list_ex_iff)
  then show ?thesis
    using wf pre bld
    by (cases v) (auto simp: SemVer_parse_def strip_str SEMVER_RE_str decimal_int_dec identifiers_join wf_semver_def Let_def)
qed

text \<open>The decimal digits beyond ASCII have one-digit values.\<close>

definition decimal_tables :: "security_env \<Rightarrow> bool" where
  "decimal_tables env \<longleftrightarrow> (\<forall>c d. nonascii_decimal env c = Some d \<longrightarrow> d < 10)"

lemma decimal_fold_bound:
  "decimal_tables env \<Longrightarrow> list_all (is_decimal_char env) s \<Longrightarrow>
   foldl (\<lambda>a c. 10 * a + the (decimal_digit env c)) 0 s < 10 ^ length s"
proof (induction s rule: rev_induct)
  case (snoc c s)
  then have "the (decimal_digit env c) < 10"
    by (auto simp: is_decimal_char_def decimal_digit_def decimal_tables_def is_digit_def split: if_splits)
  with snoc show ?case by simp
qed simp

lemma decimal_int_range:
  assumes "decimal_tables env" "version_number env s" "decimal_int env s = Inr n"
  shows "0 \<le> n \<and> length (dec_int n) \<le> INT_MAX_STR_DIGITS"
proof -
  let ?n = "foldl (\<lambda>a c. 10 * a + the (decimal_digit env c)) 0 s"
  have s: "list_all (is_decimal_char env) s" "s \<noteq> []" "length s \<le> INT_MAX_STR_DIGITS" "n = int ?n"
    using assms by (cases s; auto simp: version_number_def decimal_int_def is_decimal_char_def decimal_digit_def is_digit_def
        split: if_splits)+
  then have "length (dec_nat ?n) \<le> length s" using dec_nat_length decimal_fold_bound assms(1) by blast
  with s show ?thesis by (simp add: dec_int_def)
qed

lemma SemVer_parse_wf:
  assumes "decimal_tables env" "SemVer_parse env s = Inr v"
  shows "wf_semver v"
proof -
  obtain x y z p b where r: "SEMVER_RE env (strip s) = Some (x, y, z, p, b)"
    and v: "\<not> list_ex (\<lambda>i. all_digits i \<and> 1 < length i \<and> hd i = 48) (prerelease v)"
    "decimal_int env x = Inr (major v)" "decimal_int env y = Inr (minor v)" "decimal_int env z = Inr (patch v)"
    "prerelease v = (case p of None \<Rightarrow> [] | Some t \<Rightarrow> split_on 46 t)" "build v = (case b of None \<Rightarrow> [] | Some t \<Rightarrow> split_on 46 t)"
    using assms(2) by (auto simp: SemVer_parse_def Let_def res_simps split: option.splits if_splits prod.splits)
  from r have m: "version_number env x" "version_number env y" "version_number env z"
    "p \<noteq> None \<Longrightarrow> identifiers (the p)" "b \<noteq> None \<Longrightarrow> identifiers (the b)"
    by (auto simp: SEMVER_RE_def Let_def split: prod.splits list.splits if_splits)
  have "list_all wf_identifier (prerelease v)" "list_all (fullmatch_plus identifier_char) (build v)"
    using v m(4,5) by (auto simp: wf_identifier_def identifiers_def list_all_iff list_ex_iff split: option.splits)
  then show ?thesis using decimal_int_range [OF assms(1)] v(2-4) m(1-3) by (auto simp: wf_semver_def)
qed

text \<open>The contract of the digit tables gives the contract of a codec for versions.\<close>

locale decimal_env =
  fixes env :: security_env
  assumes one_digit: "decimal_tables env"
begin

lemma parsed_identifiers: "SemVer_parse env s = Inr v \<Longrightarrow> list_all wf_identifier (prerelease v)"
  using SemVer_parse_wf [OF one_digit] by (simp add: wf_semver_def)

end

sublocale decimal_env \<subseteq> semver: codec "SemVer_parse env" SemVer_str wf_semver
  by unfold_locales (simp_all add: SemVer_parse_str SemVer_parse_wf [OF one_digit])

context decimal_env
begin

lemmas version_reparse = semver.reparse

end

interpretation sample_decimals: decimal_env sample_security_env
  by unfold_locales (simp add: decimal_tables_def sample_security_env_def)

text \<open>A parsed version prints to a text that is read as the same version.\<close>

lemma semver_roundtrip:
  "decimal_tables env \<Longrightarrow> SemVer_parse env s = Inr v \<Longrightarrow> SemVer_parse env (SemVer_str v) = Inr v"
  using decimal_env.version_reparse decimal_env.intro by blast

text \<open>
  C40. Two versions that the parser accepts, both releases or both prereleases, are ordered by \<open>__lt__\<close>
  exactly as the SemVer specification orders them: numbers first, then identifier by identifier, numeric identifiers by value
  and below the others, a longer list above its prefixes; \<open>==\<close> holds exactly for versions of equal precedence.
\<close>

theorem semver_precedence:
  assumes "decimal_tables env" "SemVer_parse env a = Inr v" "SemVer_parse env b = Inr w"
    and "prerelease v = [] \<longleftrightarrow> prerelease w = []"
  shows "(SemVer_lt v w \<longleftrightarrow> precedence v < precedence w) \<and> (SemVer_eq v w \<longleftrightarrow> precedence v = precedence w)"
proof -
  have "decimal_env env" by (rule decimal_env.intro) (rule assms)
  from decimal_env.parsed_identifiers [OF this] assms precedence_order show ?thesis by blast
qed

definition sample_rc :: "string \<Rightarrow> pystr list \<Rightarrow> SemVer" where
  "sample_rc n b = \<lparr>major = 1, minor = 2, patch = 3, prerelease = [lit ''rc'', lit n], build = b\<rparr>"

theorem semver_precedence_witness:
  "SemVer_lt (sample_rc ''9'' []) (sample_rc ''10'' [lit ''x''])
     \<and> precedence (sample_rc ''9'' []) < precedence (sample_rc ''10'' [lit ''x''])"
proof -
  have wf: "wf_semver (sample_rc ''9'' [])" "wf_semver (sample_rc ''10'' [lit ''x''])"
    by (simp_all add: wf_semver_def sample_rc_def wf_identifier_def all_digits_def identifier_char_def text_eval dec_int_def
        dec_nat.simps INT_MAX_STR_DIGITS_def)
  have lt: "SemVer_lt (sample_rc ''9'' []) (sample_rc ''10'' [lit ''x''])"
    by (simp add: SemVer_lt_def sample_rc_def all_digits_def text_eval digits_value_def)
  show ?thesis
    using semver_precedence [OF sample_decimals.one_digit SemVer_parse_str [OF wf(1)] SemVer_parse_str [OF wf(2)]] lt
    by (simp add: sample_rc_def)
qed

end
