(* ===== verification/Maddy_Output.thy ===== *)
theory Maddy_Output
  imports Maddy_Version Binary_Text
begin

text \<open>
  What \<open>maddy.py\<close> lets into a command line and what it takes out of the output of the mail server: the validators
  of arguments, and the strict reader of message listings with its bounded decoding of encoded words.
  Unicode categories and the character sets that \<open>bytes.decode\<close> knows are parameters; a decoding that
  fails gives \<open>None\<close>.
\<close>

record output_env =
  out_text :: security_env
  casefold_nonascii :: "pystr \<Rightarrow> pystr"
  unicode_category :: "nat \<Rightarrow> string"
  charset_decode :: "pystr \<Rightarrow> bytes \<Rightarrow> pystr option"

definition out_lower :: "'a output_env_scheme \<Rightarrow> pystr \<Rightarrow> pystr" where
  "out_lower env s = py_lower (text_env.truncate (out_text env)) s"

definition out_casefold :: "'a output_env_scheme \<Rightarrow> pystr \<Rightarrow> pystr" where
  "out_casefold env s = (if isascii s then lower s else casefold_nonascii env s)"

definition MAX_MESSAGE_LIST_OUTPUT_BYTES :: nat where "MAX_MESSAGE_LIST_OUTPUT_BYTES = 4 * 1024 * 1024"
definition MAX_MESSAGE_OUTPUT_LINE_CHARS :: nat where "MAX_MESSAGE_OUTPUT_LINE_CHARS = 64 * 1024"
definition MAX_ENVELOPE_HEADER_INPUT_CHARS :: nat where "MAX_ENVELOPE_HEADER_INPUT_CHARS = 4096"
definition MAX_ENVELOPE_HEADER_OUTPUT_CHARS :: nat where "MAX_ENVELOPE_HEADER_OUTPUT_CHARS = 512"
definition MAX_ENCODED_WORDS_PER_HEADER :: nat where "MAX_ENCODED_WORDS_PER_HEADER = 64"
definition MAX_IMAP_UID :: int where "MAX_IMAP_UID = 2 ^ 32 - 1"

abbreviation mismatch :: "'a res" where
  "mismatch \<equiv> Inl (MaddyError CapabilityFingerprintError)"

section \<open>Arguments\<close>

definition fixed_token :: "pystr \<Rightarrow> pystr res" where
  "fixed_token v =
     (if v = [] \<or> 4096 < length v \<or> list_ex (\<lambda>c. c < 32) v then Inl InvalidMaddyArgument else Inr v)"

definition safe_positional :: "nat \<Rightarrow> pystr \<Rightarrow> pystr res" where
  "safe_positional max_length v =
     (if v = [] \<or> max_length < length v then Inl InvalidMaddyArgument
      else if next_is 45 v \<or> list_ex (\<lambda>c. c < 32 \<or> c = 127) v then Inl InvalidMaddyArgument
      else Inr v)"

definition argument_char :: "nat \<Rightarrow> bool" where
  "argument_char c \<longleftrightarrow> is_ascii_alnum c \<or> c = 95 \<or> c = 46 \<or> c = 45"

definition is_alpha_or_underscore :: "nat \<Rightarrow> bool" where
  "is_alpha_or_underscore c \<longleftrightarrow> is_lower_alpha c \<or> is_upper_alpha c \<or> c = 95"

definition BLOCK_RE :: "pystr \<Rightarrow> bool" where
  "BLOCK_RE s \<longleftrightarrow> s \<noteq> [] \<and> is_alpha_or_underscore (hd s) \<and> length (tl s) \<le> 127 \<and> list_all argument_char (tl s)"

definition safe_block :: "pystr \<Rightarrow> pystr res" where
  "safe_block v = (if BLOCK_RE v then Inr v else Inl InvalidMaddyArgument)"

text \<open>\<open>[1-9]\d*|\*\<close>\<close>

definition sequence_number :: "security_env \<Rightarrow> pystr \<Rightarrow> bool" where
  "sequence_number env s \<longleftrightarrow>
     s = [42] \<or> (s \<noteq> [] \<and> 49 \<le> hd s \<and> hd s \<le> 57 \<and> list_all (is_decimal_char env) (tl s))"

definition SEQSET_RE :: "security_env \<Rightarrow> pystr \<Rightarrow> bool" where
  "SEQSET_RE env s \<longleftrightarrow>
     list_all (\<lambda>range. let parts = split_on 58 range in length parts \<le> 2 \<and> list_all (sequence_number env) parts)
       (split_on 44 s)"

definition safe_seqset :: "security_env \<Rightarrow> pystr \<Rightarrow> pystr res" where
  "safe_seqset env v = (if SEQSET_RE env v then Inr v else Inl InvalidMaddyArgument)"

definition safe_uid :: "pystr \<Rightarrow> pystr res" where
  "safe_uid v =
     (if \<not> fullmatch_plus is_digit v \<or> next_is 48 v \<or> 10 < length v then Inl InvalidMaddyArgument
      else let uid = int (digits_value v) in
        if \<not> (1 \<le> uid \<and> uid \<le> MAX_IMAP_UID) then Inl InvalidMaddyArgument else Inr (dec_int uid))"

definition KEYWORD_RE :: "pystr \<Rightarrow> bool" where
  "KEYWORD_RE s \<longleftrightarrow> s \<noteq> [] \<and> is_ascii_alnum (hd s) \<and> length (tl s) \<le> 63 \<and> list_all argument_char (tl s)"

definition SYSTEM_FLAGS :: "pystr list" where
  "SYSTEM_FLAGS = map (\<lambda>f. 92 # lit f) [''Answered'', ''Flagged'', ''Deleted'', ''Seen'', ''Draft'']"

definition safe_flag :: "pystr \<Rightarrow> pystr res" where
  "safe_flag v = (if v \<notin> set SYSTEM_FLAGS \<and> \<not> KEYWORD_RE v then Inl InvalidMaddyArgument else Inr v)"

definition password_input :: "pystr \<Rightarrow> bytes res" where
  "password_input password =
     (if password = [] \<or> 1024 < length password \<or> 10 \<in> set password \<or> 13 \<in> set password \<or> 0 \<in> set password
      then Inl InvalidMaddyArgument
      else bind_res (utf8_encode password) (\<lambda>b. Inr (b @ [10])))"

section \<open>Flags and integers\<close>

definition bracketed :: "pystr \<Rightarrow> bool" where
  "bracketed v \<longleftrightarrow> next_is 91 v \<and> last v = 93"

definition parse_flags :: "pystr \<Rightarrow> pystr list" where
  "parse_flags v = (let v = strip v in if \<not> bracketed v then [] else words_of (butlast (tl v)))"

definition strict_flags :: "pystr \<Rightarrow> pystr list res" where
  "strict_flags v =
     (let flags = parse_flags v in
      if \<not> bracketed (strip v) then mismatch
      else if list_ex (list_ex (\<lambda>c. c < 32)) flags then mismatch
      else Inr flags)"

definition strict_output_integer :: "int \<Rightarrow> int \<Rightarrow> pystr \<Rightarrow> int res" where
  "strict_output_integer minimum maximum v =
     (let candidate = strip v;
          digits = (if next_is 45 candidate then tl candidate else candidate)
      in if digits = [] \<or> 20 < length digits \<or> \<not> list_all is_digit digits then mismatch
         else let parsed = int_value candidate in
           if \<not> (minimum \<le> parsed \<and> parsed \<le> maximum) then mismatch else Inr parsed)"

section \<open>Headers of envelopes\<close>

definition UNSAFE_HEADER_CATEGORIES :: "string set" where
  "UNSAFE_HEADER_CATEGORIES = {''Cc'', ''Cf'', ''Cs'', ''Zl'', ''Zp''}"

definition safe_display_header :: "'a output_env_scheme \<Rightarrow> nat \<Rightarrow> pystr \<Rightarrow> pystr" where
  "safe_display_header env maximum v =
     take maximum (filter (\<lambda>c. unicode_category env c \<notin> UNSAFE_HEADER_CATEGORIES) v)"

definition header_control :: "nat \<Rightarrow> bool" where
  "header_control c \<longleftrightarrow> c < 32 \<or> c = 127"

text \<open>\<open>re.sub(r"[\x00-\x1f\x7f]+", " ", value)\<close>\<close>

fun blank_controls :: "bool \<Rightarrow> pystr \<Rightarrow> pystr" where
  "blank_controls inside [] = []"
| "blank_controls inside (c # s) =
     (if header_control c then (if inside then [] else [32]) @ blank_controls True s
      else c # blank_controls False s)"

definition clean_envelope_header :: "'a output_env_scheme \<Rightarrow> pystr \<Rightarrow> pystr" where
  "clean_envelope_header env v =
     safe_display_header env MAX_ENVELOPE_HEADER_OUTPUT_CHARS (strip (blank_controls False v))"

fun decode_q_word :: "pystr \<Rightarrow> bytes option" where
  "decode_q_word [] = Some []"
| "decode_q_word (c # s) =
     (if c = 95 then map_option (\<lambda>r. 32 # r) (decode_q_word s)
      else if c = 61 then
        (case s of
           a # b # r \<Rightarrow>
             (case (hex_value a, hex_value b) of
                (Some x, Some y) \<Rightarrow> map_option (\<lambda>r. of_nat (16 * x + y) # r) (decode_q_word r)
              | _ \<Rightarrow> None)
         | _ \<Rightarrow> None)
      else if 33 \<le> c \<and> c \<le> 126 then map_option (\<lambda>r. of_nat c # r) (decode_q_word s)
      else None)"

definition base64_alphabet :: pystr where
  "base64_alphabet = ascii_upper @ ascii_lower @ [48..<58] @ [43, 47]"

text \<open>
  The pattern \<open>[A-Za-z0-9+/]+={0,2}\<close>, the length test, padding to a multiple of four and
  \<open>b64decode(validate=True)\<close>, which refuses padding that does not complete a group of two or three characters.
\<close>

definition decode_b_word :: "pystr \<Rightarrow> bytes option" where
  "decode_b_word payload =
     (let data = takeWhile (\<lambda>c. c \<noteq> 61) payload; pad = drop (length data) payload in
      if data = [] \<or> \<not> list_all (\<lambda>c. c \<in> set base64_alphabet) data \<or> 2 < length pad \<or> \<not> list_all (\<lambda>c. c = 61) pad then None
      else if length payload mod 4 = 1 then None
      else if length data mod 4 = 1 \<or> (length data mod 4 = 0 \<and> pad \<noteq> []) then None
      else decode_digits 6 base64_alphabet data)"

definition decode_encoded_word :: "'a output_env_scheme \<Rightarrow> pystr \<Rightarrow> nat \<Rightarrow> pystr \<Rightarrow> pystr option" where
  "decode_encoded_word env charset encoding payload =
     (if \<not> list_all (\<lambda>c. 33 \<le> c \<and> c \<le> 126) charset then None
      else case (if lower_char encoding = 98 then decode_b_word payload else decode_q_word payload) of
        None \<Rightarrow> None
      | Some raw \<Rightarrow>
          (case charset_decode env charset raw of
             None \<Rightarrow> None
           | Some rendered \<Rightarrow> if \<not> list_all is_scalar rendered \<or> rendered = [] then None else Some rendered))"

text \<open>\<open>_ENCODED_WORD_RE\<close> at the front of a text: character set, encoding, payload and the text behind.\<close>

definition word_char :: "nat \<Rightarrow> bool" where
  "word_char c \<longleftrightarrow> c \<noteq> 63 \<and> \<not> isspace c"

definition match_encoded_word :: "pystr \<Rightarrow> (pystr \<times> nat \<times> pystr \<times> pystr) option" where
  "match_encoded_word s =
     (if \<not> prefix (lit ''=?'') s then None
      else
        let r = drop 2 s; charset = takeWhile word_char r; r2 = drop (length charset) r in
        if charset = [] \<or> 127 < length charset then None
        else case r2 of
          q # e # q2 # r3 \<Rightarrow>
            let payload = takeWhile word_char r3; r4 = drop (length payload) r3 in
            if q = 63 \<and> e \<in> {66, 98, 81, 113} \<and> q2 = 63 \<and> payload \<noteq> [] \<and> length payload \<le> 4096 \<and> prefix (lit ''?='') r4
            then Some (charset, e, payload, drop 2 r4) else None
        | _ \<Rightarrow> None)"

lemma drop_shorter: "drop n s = a # r \<Longrightarrow> length r < length s"
  by (metis diff_le_self length_Cons length_drop less_eq_Suc_le)

lemma match_encoded_word_shorter: "match_encoded_word s = Some (a, b, c, r) \<Longrightarrow> length r < length s"
  by (auto simp: match_encoded_word_def Let_def split: if_splits list.splits dest!: drop_shorter)

text \<open>
  The loop over \<open>finditer\<close>: the text since the last word, whether the last word was decoded, how many words were seen. Too many words
  give \<open>None\<close>. White space between two decoded words is dropped.
\<close>

definition separator_text :: "bool \<Rightarrow> pystr option \<Rightarrow> pystr \<Rightarrow> pystr" where
  "separator_text previous_word_decoded decoded sep =
     (if previous_word_decoded \<and> decoded \<noteq> None \<and> list_all (\<lambda>c. c = 32 \<or> c = 9) sep then [] else sep)"

function envelope_pieces :: "'a output_env_scheme \<Rightarrow> bool \<Rightarrow> nat \<Rightarrow> pystr \<Rightarrow> pystr \<Rightarrow> (nat \<times> pystr) option" where
  "envelope_pieces env previous_word_decoded word_count sep s =
     (if s = [] then Some (word_count, sep)
      else case match_encoded_word s of
        None \<Rightarrow> envelope_pieces env previous_word_decoded word_count (sep @ [hd s]) (tl s)
      | Some (charset, encoding, payload, rest) \<Rightarrow>
          if MAX_ENCODED_WORDS_PER_HEADER < Suc word_count then None
          else
            let decoded = decode_encoded_word env charset encoding payload;
                word = (case decoded of None \<Rightarrow> take (length s - length rest) s | Some t \<Rightarrow> t)
            in map_option (\<lambda>(n, t). (n, separator_text previous_word_decoded decoded sep @ word @ t))
                 (envelope_pieces env (decoded \<noteq> None) (Suc word_count) [] rest))"
  by pat_completeness auto
termination
  by (relation "measure (\<lambda>(env, p, n, sep, s). length s)") (auto dest: match_encoded_word_shorter)

declare envelope_pieces.simps [simp del]

definition decode_envelope_header :: "'a output_env_scheme \<Rightarrow> pystr \<Rightarrow> pystr" where
  "decode_envelope_header env v =
     (let fallback = clean_envelope_header env v in
      if \<not> contains_text (lit ''=?'') v \<or> MAX_ENVELOPE_HEADER_INPUT_CHARS < length v then fallback
      else case envelope_pieces env False 0 [] v of
        None \<Rightarrow> fallback
      | Some (word_count, text) \<Rightarrow> if word_count = 0 then fallback else clean_envelope_header env text)"

section \<open>Message listings\<close>

text \<open>A record of a listing: a dictionary with the keys that the output had.\<close>

record message_record =
  msg_uid :: "int option"
  msg_sequence_number :: "int option"
  msg_flags :: "pystr list option"
  msg_body_size :: "int option"
  msg_internal_date_unix :: "int option"
  msg_internal_date :: "pystr option"
  msg_date_unix :: "int option"
  msg_date :: "pystr option"
  msg_headers :: "string \<rightharpoonup> pystr"

definition empty_message :: message_record where
  "empty_message =
     \<lparr>msg_uid = None, msg_sequence_number = None, msg_flags = None, msg_body_size = None, msg_internal_date_unix = None,
      msg_internal_date = None, msg_date_unix = None, msg_date = None, msg_headers = Map.empty\<rparr>"

text \<open>\<open>^UID ([1-9]\d*): (.*?) - (.*)$\<close>\<close>

definition compact_line :: "security_env \<Rightarrow> pystr \<Rightarrow> (pystr \<times> pystr \<times> pystr) option" where
  "compact_line env line =
     (if \<not> prefix (lit ''UID '') line then None
      else
        let r = drop 4 line; uid = takeWhile (is_decimal_char env) r; r2 = drop (length uid) r in
        if uid = [] \<or> \<not> (49 \<le> hd uid \<and> hd uid \<le> 57) \<or> \<not> prefix (lit '': '') r2 then None
        else case partition_text (lit '' - '') (drop 2 r2) of
          (sender, found, subject) \<Rightarrow> if found then Some (uid, sender, subject) else None)"

fun compact_records :: "'a output_env_scheme \<Rightarrow> pystr list \<Rightarrow> message_record list res" where
  "compact_records env [] = Inr []"
| "compact_records env (line # lines) =
     (case compact_line (out_text env) line of
        None \<Rightarrow> mismatch
      | Some (uid, sender, subject) \<Rightarrow>
          bind_res (strict_output_integer 1 MAX_IMAP_UID uid) (\<lambda>n.
          let r = empty_message\<lparr>msg_uid := Some n,
                msg_headers := [''from'' \<mapsto> decode_envelope_header env sender, ''subject'' \<mapsto> decode_envelope_header env subject]\<rparr>
          in case lines of
               [] \<Rightarrow> Inr [r]
             | next_line # lines' \<Rightarrow>
                 let details = strip next_line in
                 case partition_text (lit '', '') details of
                   (flag_text, separator, date_text) \<Rightarrow>
                     if separator then
                       bind_res (strict_flags flag_text) (\<lambda>flags.
                       bind_res (compact_records env lines') (\<lambda>rs.
                       Inr (r\<lparr>msg_flags := Some flags, msg_date := Some date_text\<rparr> # rs)))
                     else if \<not> prefix (lit ''UID '') details then mismatch
                     else bind_res (compact_records env lines) (\<lambda>rs. Inr (r # rs))))"

definition INT64_MIN :: int where "INT64_MIN = - (2 ^ 63)"
definition INT64_MAX :: int where "INT64_MAX = 2 ^ 63 - 1"

definition unix_and_human :: "pystr \<Rightarrow> (int \<times> pystr) res" where
  "unix_and_human v =
     (case partition 32 v of (unix, _, human) \<Rightarrow>
        bind_res (strict_output_integer INT64_MIN INT64_MAX unix) (\<lambda>n. Inr (n, if human \<noteq> [] then human else v)))"

definition metadata_field :: "'a output_env_scheme \<Rightarrow> pystr \<Rightarrow> pystr \<Rightarrow> message_record \<Rightarrow> message_record res" where
  "metadata_field env raw_key raw_value r =
     (let key = out_lower env (strip raw_key); v = strip raw_value in
      if key = lit ''uid'' then bind_res (strict_output_integer 1 MAX_IMAP_UID v) (\<lambda>n. Inr (r\<lparr>msg_uid := Some n\<rparr>))
      else if key = lit ''sequence number'' then
        bind_res (strict_output_integer 1 MAX_IMAP_UID v) (\<lambda>n. Inr (r\<lparr>msg_sequence_number := Some n\<rparr>))
      else if key = lit ''flags'' then bind_res (strict_flags v) (\<lambda>fs. Inr (r\<lparr>msg_flags := Some fs\<rparr>))
      else if key = lit ''body size'' then
        bind_res (strict_output_integer 0 INT64_MAX v) (\<lambda>n. Inr (r\<lparr>msg_body_size := Some n\<rparr>))
      else if key = lit ''internal date'' then
        bind_res (unix_and_human v) (\<lambda>(n, h). Inr (r\<lparr>msg_internal_date_unix := Some n, msg_internal_date := Some h\<rparr>))
      else Inr r)"

definition ENVELOPE_KEYS :: "(string \<times> string) list" where
  "ENVELOPE_KEYS = [(''from'', ''from''), (''to'', ''to''), (''cc'', ''cc''), (''bcc'', ''bcc''), (''in-reply-to'', ''in_reply_to''),
     (''message-id'', ''message_id''), (''subject'', ''subject'')]"

definition RFC2047_ENVELOPE_FIELDS :: "string list" where
  "RFC2047_ENVELOPE_FIELDS = [''from'', ''to'', ''cc'', ''bcc'', ''subject'']"

definition envelope_field :: "'a output_env_scheme \<Rightarrow> pystr \<Rightarrow> pystr \<Rightarrow> message_record \<Rightarrow> message_record res" where
  "envelope_field env raw_key raw_value r =
     (let normalized = out_lower env (strip raw_key); v = strip raw_value in
      if normalized = lit ''date'' then
        bind_res (unix_and_human v) (\<lambda>(n, h). Inr (r\<lparr>msg_date_unix := Some n, msg_date := Some h\<rparr>))
      else case find (\<lambda>(k, name). lit k = normalized) ENVELOPE_KEYS of
        None \<Rightarrow> Inr r
      | Some (k, name) \<Rightarrow>
          Inr (r\<lparr>msg_headers := (msg_headers r)(name \<mapsto>
            (if k \<in> set RFC2047_ENVELOPE_FIELDS then decode_envelope_header env v else v))\<rparr>))"

text \<open>The lines of a section: a line without a colon is blank or does not belong there.\<close>

fun section_fields :: "(pystr \<Rightarrow> pystr \<Rightarrow> message_record \<Rightarrow> message_record res) \<Rightarrow> pystr list \<Rightarrow> message_record \<Rightarrow> message_record res" where
  "section_fields f [] r = Inr r"
| "section_fields f (line # lines) r =
     (case partition 58 line of (key, separator, v) \<Rightarrow>
        if \<not> separator then (if strip line \<noteq> [] then mismatch else section_fields f lines r)
        else bind_res (f key v r) (section_fields f lines))"

definition message_block :: "'a output_env_scheme \<Rightarrow> pystr \<Rightarrow> message_record res" where
  "message_block env block =
     (case partition_text (lit ''- Envelope:'') block of (metadata_text, marker, envelope_text) \<Rightarrow>
        if \<not> marker then mismatch
        else
          bind_res (section_fields (metadata_field env) (splitlines metadata_text) (empty_message\<lparr>msg_flags := Some []\<rparr>)) (\<lambda>r.
          bind_res (section_fields (envelope_field env) (splitlines envelope_text) r) (\<lambda>r.
          case msg_uid r of
            None \<Rightarrow> mismatch
          | Some uid \<Rightarrow> if 1 \<le> uid \<and> uid \<le> MAX_IMAP_UID then Inr r else mismatch)))"

definition META_MARKER :: pystr where "META_MARKER = lit ''- Server meta-data:''"

text \<open>The caller passes bytes.\<close>

definition parse_message_list :: "'a output_env_scheme \<Rightarrow> bytes \<Rightarrow> message_record list res" where
  "parse_message_list env raw =
     (if MAX_MESSAGE_LIST_OUTPUT_BYTES < length raw then mismatch
      else case utf8_decode raw of
        Inl _ \<Rightarrow> mismatch
      | Inr output \<Rightarrow>
          if list_ex (\<lambda>line. MAX_MESSAGE_OUTPUT_LINE_CHARS < length line) (splitlines output) then mismatch
          else if strip output = [] then Inr []
          else if \<not> contains_text META_MARKER output then
            compact_records env (filter (\<lambda>line. strip line \<noteq> []) (splitlines output))
          else if \<not> prefix META_MARKER (lstrip output) then mismatch
          else
            let blocks = tl (split_text META_MARKER output) in
            if blocks = [] then mismatch else traverse (message_block env) blocks)"

end
