(* ===== verification/Maddy_Config.thy ===== *)
theory Maddy_Config
  imports Maddy_Output
begin

text \<open>
  The reader of the mail server's own configuration in \<open>maddy.py\<close>, by which writes are refused when an old release uses LDAP
  or when the command line cannot see what the service sees: \<open>_config_tokens_and_text\<close> and
  \<open>_legacy_dynamic_config_is_unsafe\<close>.
\<close>

section \<open>Tokens\<close>

abbreviation config_unsafe :: "'a res" where
  "config_unsafe \<equiv> Inl (MaddyError RuntimeConfigUnsafe)"

definition is_brace :: "nat \<Rightarrow> bool" where
  "is_brace c \<longleftrightarrow> c = 123 \<or> c = 125"

definition is_blank :: "nat \<Rightarrow> bool" where
  "is_blank c \<longleftrightarrow> c = 32 \<or> c = 9"

definition strip_blanks :: "pystr \<Rightarrow> pystr" where
  "strip_blanks s = rev (dropWhile is_blank (rev (dropWhile is_blank s)))"

text \<open>A line without its comment, and whether it ends inside quotes or after a backslash.\<close>

fun clean_config_line :: "bool \<Rightarrow> bool \<Rightarrow> pystr \<Rightarrow> pystr \<times> bool" where
  "clean_config_line quoted escaped [] = ([], quoted \<or> escaped)"
| "clean_config_line quoted escaped (c # s) =
     (if escaped then map_prod ((#) c) id (clean_config_line quoted False s)
      else if quoted \<and> c = 92 then map_prod ((#) c) id (clean_config_line quoted True s)
      else if c = 34 then map_prod ((#) c) id (clean_config_line (\<not> quoted) escaped s)
      else if c = 35 \<and> \<not> quoted then ([], False)
      else map_prod ((#) c) id (clean_config_line quoted escaped s))"

text \<open>A quoted token behind its opening quote, and the line behind its closing quote.\<close>

fun quoted_token :: "pystr \<Rightarrow> (pystr \<times> pystr) res" where
  "quoted_token [] = config_unsafe"
| "quoted_token (c # s) =
     (if c = 34 then Inr ([], s)
      else if c = 92 then
        (case s of
           [] \<Rightarrow> config_unsafe
         | x # r \<Rightarrow> bind_res (quoted_token r) (\<lambda>(t, rest). Inr ((if x = 34 then [34] else [92, x]) @ t, rest)))
      else bind_res (quoted_token s) (\<lambda>(t, rest). Inr (c # t, rest)))"

lemma quoted_token_shorter: "quoted_token s = Inr (t, rest) \<Longrightarrow> length rest < length s"
proof (induction s arbitrary: t rule: quoted_token.induct)
  case (2 c s)
  then show ?case by (fastforce simp: res_simps less_SucI split: if_splits list.splits)
qed simp

definition token_char :: "nat \<Rightarrow> bool" where
  "token_char c \<longleftrightarrow> \<not> isspace c \<and> \<not> is_brace c"

function line_tokens :: "pystr \<Rightarrow> pystr list res" where
  "line_tokens line =
     (case line of
        [] \<Rightarrow> Inr []
      | c # s \<Rightarrow>
          if isspace c then line_tokens s
          else if is_brace c then bind_res (line_tokens s) (\<lambda>ts. Inr ([c] # ts))
          else if c = 39 then config_unsafe
          else if c = 34 then
            (case quoted_token s of
               Inl e \<Rightarrow> Inl e
             | Inr (t, rest) \<Rightarrow>
                 if rest \<noteq> [] \<and> token_char (hd rest) then config_unsafe
                 else bind_res (line_tokens rest) (\<lambda>ts. Inr (t # ts)))
          else bind_res (line_tokens (dropWhile token_char s)) (\<lambda>ts. Inr ((c # takeWhile token_char s) # ts)))"
  by pat_completeness auto
termination
  by (relation "measure length") (auto dest: quoted_token_shorter simp: less_Suc_eq_le length_dropWhile_le intro: less_imp_le)

declare line_tokens.simps [simp del]

definition config_line :: "pystr \<Rightarrow> (pystr list \<times> pystr) res" where
  "config_line raw_line =
     (case clean_config_line False False raw_line of (line, ambiguous) \<Rightarrow>
        if ambiguous then config_unsafe
        else if (let t = dropWhile is_blank (rev line) in next_is 92 t) then config_unsafe
        else bind_res (line_tokens line) (\<lambda>ts. Inr (ts, line)))"

definition config_tokens_and_text :: "pystr \<Rightarrow> (pystr list \<times> pystr) res" where
  "config_tokens_and_text config_text =
     (if 65279 \<in> set config_text then config_unsafe
      else bind_res (traverse config_line (splitlines config_text)) (\<lambda>ls.
        Inr (concat (map fst ls), join_on 10 (map snd ls))))"

section \<open>Macros\<close>

text \<open>\<open>_CONFIG_MACRO_REFERENCE_RE\<close> at the front of a text: what is behind it.\<close>

definition match_macro :: "pystr \<Rightarrow> pystr option" where
  "match_macro s =
     (if \<not> prefix (lit ''$('') s then None
      else
        let r = drop 2 s; name = takeWhile argument_char r; r2 = drop (length name) r in
        if BLOCK_RE name \<and> next_is 41 r2 then Some (tl r2) else None)"

lemma match_macro_shorter: "match_macro s = Some r \<Longrightarrow> length r < length s"
  by (cases s) (auto simp: match_macro_def Let_def lit_def split: if_splits)

function remove_macros :: "pystr \<Rightarrow> pystr" where
  "remove_macros s =
     (case s of
        [] \<Rightarrow> []
      | c # r \<Rightarrow> (case match_macro (c # r) of None \<Rightarrow> c # remove_macros r | Some rest \<Rightarrow> remove_macros rest))"
  by pat_completeness auto
termination by (relation "measure length") (auto dest!: match_macro_shorter)

declare remove_macros.simps [simp del]

fun has_macro :: "pystr \<Rightarrow> bool" where
  "has_macro [] = False"
| "has_macro (c # s) = (match_macro (c # s) \<noteq> None \<or> has_macro s)"

text \<open>\<open>_CONFIG_MACRO_ASSIGNMENT_RE\<close>: the right-hand side.\<close>

definition macro_assignment :: "pystr \<Rightarrow> pystr option" where
  "macro_assignment line =
     (case match_macro (dropWhile is_blank line) of
        None \<Rightarrow> None
      | Some r \<Rightarrow> (let r = dropWhile is_blank r in if next_is 61 r then Some (strip_blanks (tl r)) else None))"

text \<open>
  \<open>_AUTH_PROVIDER_CONTEXT_RE\<close>: a provider word that does not continue another word, with an optional quote before it, followed
  by a quote, a dot, a blank, a brace, an equals sign, a macro or the end.
\<close>

definition PROVIDER_WORDS :: "string list" where
  "PROVIDER_WORDS = [''auth'', ''pass'', ''user'', ''table'', ''auth_map'']"

definition provider_end :: "pystr \<Rightarrow> bool" where
  "provider_end r \<longleftrightarrow> r = [] \<or> hd r \<in> {34, 46, 32, 9, 123, 61} \<or> prefix (lit ''$('') r"

definition provider_here :: "pystr \<Rightarrow> bool" where
  "provider_here s \<longleftrightarrow> list_ex (\<lambda>w. prefix (lit w) s \<and> provider_end (drop (length w) s)) PROVIDER_WORDS"

fun provider_context :: "nat option \<Rightarrow> pystr \<Rightarrow> bool" where
  "provider_context before [] = False"
| "provider_context before (c # s) =
     (((case before of None \<Rightarrow> True | Some b \<Rightarrow> \<not> argument_char b)
        \<and> (provider_here (c # s) \<or> (c = 34 \<and> provider_here s)))
      \<or> provider_context (Some c) s)"

definition SAFE_CONTEXT_WORDS :: "string list" where
  "SAFE_CONTEXT_WORDS = [''hostname'', ''entry'', ''destination'', ''source'', ''dkim'', ''autogenerated_msg_domain'']"

definition word_ends :: "pystr \<Rightarrow> bool" where
  "word_ends r \<longleftrightarrow> r = [] \<or> is_blank (hd r)"

definition safe_macro_context :: "pystr \<Rightarrow> bool" where
  "safe_macro_context line =
     (let s = dropWhile is_blank line in
      list_ex (\<lambda>w. prefix (lit w) s \<and> word_ends (drop (length w) s)) SAFE_CONTEXT_WORDS
      \<or> (prefix (lit ''tls'') s
         \<and> (let r = drop 3 s; f = dropWhile is_blank r in
            r \<noteq> f \<and> prefix (lit ''file'') f \<and> word_ends (drop 4 f))))"

section \<open>Dynamic configuration\<close>

definition OFFICIAL_DOCKER_ENV_ASSIGNMENTS :: "pystr list" where
  "OFFICIAL_DOCKER_ENV_ASSIGNMENTS =
     [lit ''$(hostname) = {env:MADDY_HOSTNAME}'', lit ''$(primary_domain) = {env:MADDY_DOMAIN}'']"

definition joins_brace :: "nat option \<Rightarrow> bool" where
  "joins_brace neighbour = (case neighbour of None \<Rightarrow> False | Some c \<Rightarrow> token_char c)"

fun adjacent_brace :: "nat option \<Rightarrow> pystr \<Rightarrow> bool" where
  "adjacent_brace before [] = False"
| "adjacent_brace before (c # s) =
     ((is_brace c \<and> (joins_brace before \<or> joins_brace (if s = [] then None else Some (hd s)))) \<or> adjacent_brace (Some c) s)"

fun brace_depth :: "bool \<Rightarrow> bool \<Rightarrow> int \<Rightarrow> pystr \<Rightarrow> int res" where
  "brace_depth quoted escaped depth [] = Inr depth"
| "brace_depth quoted escaped depth (c # s) =
     (if escaped then brace_depth quoted False depth s
      else if quoted \<and> c = 92 then brace_depth quoted True depth s
      else if c = 34 then brace_depth (\<not> quoted) escaped depth s
      else if quoted then brace_depth quoted escaped depth s
      else if c = 123 then brace_depth quoted escaped (depth + 1) s
      else if c = 125 then (if depth - 1 < 0 then config_unsafe else brace_depth quoted escaped (depth - 1) s)
      else brace_depth quoted escaped depth s)"

text \<open>The loop over the lines: \<open>None\<close> when it returns \<open>True\<close>, otherwise the depth of blocks at the end.\<close>

fun dynamic_lines :: "bool \<Rightarrow> int \<Rightarrow> (pystr \<times> pystr) list \<Rightarrow> int option res" where
  "dynamic_lines allow depth [] = Inr (Some depth)"
| "dynamic_lines allow depth ((raw_line, clean_line) # lines) =
     (if contains_text (lit ''$('') (remove_macros clean_line) then Inr None
      else if contains_text (lit ''{env:'') clean_line then
        (let raw_assignment = strip_blanks raw_line; clean_assignment = strip_blanks clean_line in
         if \<not> allow \<or> depth \<noteq> 0 \<or> raw_assignment \<noteq> clean_assignment \<or> raw_assignment \<notin> set OFFICIAL_DOCKER_ENV_ASSIGNMENTS
         then Inr None else dynamic_lines allow depth lines)
      else if (case macro_assignment clean_line of None \<Rightarrow> False | Some rhs \<Rightarrow> list_ex is_brace rhs) then Inr None
      else if has_macro clean_line \<and> adjacent_brace None clean_line then Inr None
      else bind_res (brace_depth False False depth clean_line) (\<lambda>d. dynamic_lines allow d lines))"

definition unsafe_macro_line :: "pystr \<Rightarrow> bool" where
  "unsafe_macro_line line \<longleftrightarrow>
     has_macro line \<and> macro_assignment line = None
     \<and> (61 \<in> set line \<or> provider_context None line \<or> \<not> safe_macro_context line)"

definition legacy_dynamic_config_is_unsafe :: "pystr \<Rightarrow> pystr \<Rightarrow> bool \<Rightarrow> bool res" where
  "legacy_dynamic_config_is_unsafe config_text uncommented_text allow =
     (let raw_lines = splitlines config_text;
          clean_lines = (if raw_lines \<noteq> [] then split_on 10 uncommented_text else [])
      in if length raw_lines \<noteq> length clean_lines then config_unsafe
         else bind_res (dynamic_lines allow 0 (zip raw_lines clean_lines)) (\<lambda>result.
           case result of
             None \<Rightarrow> Inr True
           | Some depth \<Rightarrow> if depth \<noteq> 0 then config_unsafe else Inr (list_ex unsafe_macro_line clean_lines)))"

end
