(* ===== verification/Maddy_Service.thy ===== *)
theory Maddy_Service
  imports Maddy_Config App_Config Rule_Snapshots
begin

text \<open>
  The adapter of the mail server's command line in \<open>maddy.py\<close>: the target with its fixed command prefixes
  and the operations of \<open>MaddyService\<close>. The runner and the file system are parameters that may answer every
  request differently: what they answer is a function of everything that happened before, the history, which the
  state of the model carries. \<open>json.loads\<close> is the one of the standard library; \<open>str\<close> of values that are not text,
  SHA-256, \<open>datetime.fromisoformat\<close>, random tokens and the iteration order of sets are parameters as well.
\<close>

section \<open>Targets\<close>

datatype DeploymentMode = NATIVE | DOCKER

record MaddyTarget =
  target_mode :: DeploymentMode
  maddy_executable :: pystr
  target_config_path :: "pystr option"
  target_container :: "pystr option"
  docker_executable :: pystr
  target_service_user :: "pystr option"
  systemctl_executable :: pystr
  systemd_unit :: pystr

definition deployment_mode :: "pystr \<Rightarrow> DeploymentMode option" where
  "deployment_mode s = (if s = lit ''native'' then Some NATIVE else if s = lit ''docker'' then Some DOCKER else None)"

definition TARGET_CONTAINER_RE :: "pystr \<Rightarrow> bool" where
  "TARGET_CONTAINER_RE s \<longleftrightarrow> s \<noteq> [] \<and> is_ascii_alnum (hd s) \<and> length (tl s) \<le> 127 \<and> list_all argument_char (tl s)"

definition unit_name :: "pystr \<Rightarrow> bool" where
  "unit_name s \<longleftrightarrow> 1 \<le> length s \<and> length s \<le> 128 \<and> list_all (\<lambda>c. argument_char c \<or> c = 64) s"

text \<open>\<open>__post_init__\<close> of a target whose mode is an enumeration member.\<close>

definition mk_MaddyTarget :: "MaddyTarget \<Rightarrow> MaddyTarget res" where
  "mk_MaddyTarget t =
     bind_res (fixed_token (maddy_executable t)) (\<lambda>_.
     bind_res (fixed_token (docker_executable t)) (\<lambda>_.
     bind_res (fixed_token (systemctl_executable t)) (\<lambda>_.
     if \<not> (is_absolute (pure_path (maddy_executable t)) \<and> is_absolute (pure_path (docker_executable t))
           \<and> is_absolute (pure_path (systemctl_executable t))) then Inl InvalidMaddyArgument
     else if docker_executable t \<noteq> lit ''/usr/bin/docker'' then Inl InvalidMaddyArgument
     else if systemctl_executable t \<noteq> lit ''/usr/bin/systemctl'' then Inl InvalidMaddyArgument
     else bind_res (case target_config_path t of None \<Rightarrow> Inr [] | Some p \<Rightarrow> fixed_token p) (\<lambda>_.
     if (case target_mode t of
           DOCKER \<Rightarrow> (case target_container t of None \<Rightarrow> True | Some c \<Rightarrow> \<not> TARGET_CONTAINER_RE c)
         | NATIVE \<Rightarrow> target_container t \<noteq> None) then Inl InvalidMaddyArgument
     else if \<not> unit_name (systemd_unit t) then Inl InvalidMaddyArgument
     else if (case target_service_user t of None \<Rightarrow> False | Some u \<Rightarrow> \<not> service_user_ok u) then Inl InvalidMaddyArgument
     else Inr t))))"

definition DEFAULT_TARGET :: MaddyTarget where
  "DEFAULT_TARGET =
     \<lparr>target_mode = NATIVE, maddy_executable = lit ''/usr/bin/maddy'', target_config_path = None, target_container = None,
      docker_executable = lit ''/usr/bin/docker'', target_service_user = Some (lit ''maddy''),
      systemctl_executable = lit ''/usr/bin/systemctl'', systemd_unit = lit ''maddy.service''\<rparr>"

definition MaddyTarget_from_config :: "MaddyConfig \<Rightarrow> MaddyTarget res" where
  "MaddyTarget_from_config c =
     (case deployment_mode (maddy_mode c) of
        None \<Rightarrow> Inl ValueError
      | Some DOCKER \<Rightarrow>
          mk_MaddyTarget (DEFAULT_TARGET\<lparr>target_mode := DOCKER, target_container := Some (container c),
            maddy_executable := lit ''/bin/maddy'', target_config_path := Some (lit ''/data/maddy.conf''), target_service_user := None\<rparr>)
      | Some NATIVE \<Rightarrow>
          mk_MaddyTarget (DEFAULT_TARGET\<lparr>maddy_executable := path_str (maddy_binary c),
            target_config_path := Some (path_str (maddy_config_path c)), target_service_user := Some (service_user c)\<rparr>))"

text \<open>\<open>str(self.container)\<close>; a valid Docker target has a container.\<close>

definition container_text :: "MaddyTarget \<Rightarrow> pystr" where
  "container_text t = (case target_container t of None \<Rightarrow> lit ''None'' | Some c \<Rightarrow> c)"

definition command_argv :: "MaddyTarget \<Rightarrow> pystr list \<Rightarrow> bool \<Rightarrow> bool \<Rightarrow> pystr list" where
  "command_argv t words has_stdin use_config =
     (let inner = maddy_executable t
            # (if use_config then (case target_config_path t of None \<Rightarrow> [] | Some p \<Rightarrow> [lit ''-config'', p]) else [])
            @ words
      in case target_mode t of
           NATIVE \<Rightarrow> inner
         | DOCKER \<Rightarrow> [docker_executable t, lit ''exec''] @ (if has_stdin then [lit ''-i''] else []) @ container_text t # inner)"

definition argv :: "MaddyTarget \<Rightarrow> pystr list \<Rightarrow> bool \<Rightarrow> bool \<Rightarrow> pystr list res" where
  "argv t words has_stdin use_config =
     (if words = [] then Inl InvalidMaddyArgument
      else bind_res (traverse fixed_token words) (\<lambda>checked. Inr (command_argv t checked has_stdin use_config)))"

definition reload_argv :: "MaddyTarget \<Rightarrow> pystr list" where
  "reload_argv t =
     (case target_mode t of
        DOCKER \<Rightarrow> [docker_executable t, lit ''kill'', lit ''--signal=USR2'', container_text t]
      | NATIVE \<Rightarrow> [systemctl_executable t, lit ''reload'', systemd_unit t])"

definition config_read_argv :: "MaddyTarget \<Rightarrow> pystr list res" where
  "config_read_argv t =
     (case (target_mode t, target_config_path t) of
        (DOCKER, Some p) \<Rightarrow> Inr [docker_executable t, lit ''exec'', container_text t, lit ''/bin/cat'', p]
      | _ \<Rightarrow> Inl InvalidMaddyArgument)"

definition run_as_user :: "MaddyTarget \<Rightarrow> pystr option" where
  "run_as_user t = (case target_mode t of NATIVE \<Rightarrow> target_service_user t | DOCKER \<Rightarrow> None)"

section \<open>The service\<close>

record run_request =
  req_argv :: "pystr list"
  req_input :: "bytes option"
  req_stream :: "int option"
  req_sink :: bool
  req_max_output :: nat
  req_user :: "pystr option"

record command_result =
  returncode :: int
  stdout :: bytes
  stderr :: bytes
  streamed_stdout_bytes :: nat

text \<open>
  What happens outside: a command of \<open>_invoke\<close> with its words, a command given to the runner directly, and the
  two system calls on the configuration file of a native target.
\<close>

datatype maddy_event = Invoked "pystr list" run_request | Direct run_request | ConfigStat | ConfigRead

record maddy_env = output_env +
  svc_target :: MaddyTarget
  svc_auth_block :: pystr
  svc_storage_block :: pystr
  svc_json :: snapshot_env
  svc_str :: "pyval \<Rightarrow> pystr"
  svc_isoformat :: "pystr \<Rightarrow> bool option"
  svc_token_hex :: "nat \<Rightarrow> pystr"
  svc_set_order :: "pystr list \<Rightarrow> pystr list"
  svc_answer :: "maddy_event list \<Rightarrow> run_request \<Rightarrow> command_result res"
  svc_config_size :: "maddy_event list \<Rightarrow> nat res"
  svc_config_bytes :: "maddy_event list \<Rightarrow> bytes res"

record maddy_state =
  installed_version :: "SemVer option"
  installed_version_error :: bool
  supported_version :: "SemVer option"
  cli_fingerprint :: "(pystr \<times> pystr list) option"
  cli_fingerprint_version :: "SemVer option"
  config_checked :: bool
  config_has_ldap :: bool
  config_has_import :: bool
  config_has_env :: bool
  config_unsafe_dynamic :: bool
  output_contract_failure :: bool
  history :: "maddy_event list"

type_synonym 'a maddy_act = "(maddy_state, 'a) act"

abbreviation maddy_fail :: "maddy_error \<Rightarrow> 'a maddy_act" where
  "maddy_fail e \<equiv> raiseA (MaddyError e)"

definition setA :: "(maddy_state \<Rightarrow> maddy_state) \<Rightarrow> unit maddy_act" where
  "setA f = executeA (\<lambda>d. Inr ((), f d))"

definition outside :: "maddy_event \<Rightarrow> (maddy_event list \<Rightarrow> 'a res) \<Rightarrow> 'a maddy_act" where
  "outside ev answer =
     bindA (selectA history) (\<lambda>h. seqA (setA (\<lambda>d. d\<lparr>history := history d @ [ev]\<rparr>)) (liftE (answer h)))"

text \<open>\<open>MaddyService.__init__\<close> with a given version and fingerprint.\<close>

definition new_service :: "SemVer option \<Rightarrow> (pystr \<times> pystr list) option \<Rightarrow> maddy_event list \<Rightarrow> maddy_state" where
  "new_service version fingerprint h =
     (let supported = (case version of None \<Rightarrow> None
                       | Some v \<Rightarrow> (case require_supported_version v True of Inl _ \<Rightarrow> None | Inr w \<Rightarrow> Some w)) in
      \<lparr>installed_version = version, installed_version_error = False, supported_version = supported,
       cli_fingerprint = fingerprint, cli_fingerprint_version = (if fingerprint \<noteq> None then supported else None),
       config_checked = False, config_has_ldap = False, config_has_import = False, config_has_env = False,
       config_unsafe_dynamic = False, output_contract_failure = False, history = h\<rparr>)"

section \<open>Invocation\<close>

text \<open>\<open>bytes.strip()\<close>\<close>

definition byte_space :: "nat \<Rightarrow> bool" where
  "byte_space c \<longleftrightarrow> (9 \<le> c \<and> c \<le> 13) \<or> c = 32"

definition strip_bytes :: "bytes \<Rightarrow> bytes" where
  "strip_bytes b = (let space = (\<lambda>x. byte_space (unat x)) in rev (dropWhile space (rev (dropWhile space b))))"

text \<open>
  A failure record in one line of output. The two decoding errors are skipped; an integer with too many digits
  raises \<open>ValueError\<close>, which is not one of them, and is told apart by a hook that raises another error.
\<close>

definition event_hooks :: "maddy_env \<Rightarrow> json_hooks" where
  "event_hooks env =
     (snapshot_hooks (svc_json env))\<lparr>parse_int := (\<lambda>s. case default_parse_int s of Inl _ \<Rightarrow> Inl LookupError | Inr v \<Rightarrow> Inr v),
       object_pairs := default_object_pairs\<rparr>"

definition str_of :: "maddy_env \<Rightarrow> pyval \<Rightarrow> pystr" where
  "str_of env v = (case v of PyStr s \<Rightarrow> s | _ \<Rightarrow> svc_str env v)"

definition dict_get :: "(pyval \<times> pyval) list \<Rightarrow> string \<Rightarrow> pyval \<Rightarrow> pyval" where
  "dict_get items key dflt = (case map_of items (PyStr (lit key)) of None \<Rightarrow> dflt | Some v \<Rightarrow> v)"

definition failure_event :: "maddy_env \<Rightarrow> pyval \<Rightarrow> bool" where
  "failure_event env v =
     (case v of
        PyDict items \<Rightarrow>
          map_of items (PyStr (lit ''reason'')) \<noteq> None
          \<and> (let level = out_lower env (str_of env (dict_get items ''level'' (PyStr [])));
                 message = out_lower env (str_of env (dict_get items ''msg'' (dict_get items ''message'' (PyStr []))))
             in level \<in> {lit ''error'', lit ''fatal''} \<or> contains_text (lit ''failed'') message)
      | _ \<Rightarrow> False)"

definition failure_line :: "maddy_env \<Rightarrow> bytes \<Rightarrow> bool res" where
  "failure_line env raw_line =
     (let line = strip_bytes raw_line in
      if \<not> (line \<noteq> [] \<and> hd line = 123 \<and> last line = 125) then Inr False
      else case bind_res (decode_json_bytes (svc_json env) line) (loads (event_hooks env)) of
        Inr v \<Rightarrow> Inr (failure_event env v)
      | Inl e \<Rightarrow> if e \<in> {ValueError, UnicodeDecodeError} then Inr False
                 else if e = LookupError then Inl ValueError else Inl e)"

fun failure_lines :: "maddy_env \<Rightarrow> bytes list \<Rightarrow> bool res" where
  "failure_lines env [] = Inr False"
| "failure_lines env (l # ls) = bind_res (failure_line env l) (\<lambda>f. if f then Inr True else failure_lines env ls)"

fun reported_streams :: "maddy_env \<Rightarrow> bytes list \<Rightarrow> bool res" where
  "reported_streams env [] = Inr False"
| "reported_streams env (raw # streams) =
     (if sublist (ascii_bytes (lit ''app.Run failed'')) raw then Inr True
      else bind_res (failure_lines env (byte_lines raw)) (\<lambda>f. if f then Inr True else reported_streams env streams))"

definition reported_application_failure :: "maddy_env \<Rightarrow> command_result \<Rightarrow> bool res" where
  "reported_application_failure env result = reported_streams env [stdout result, stderr result]"

record invoke_options =
  opt_input :: "bytes option"
  opt_stream :: "int option"
  opt_sink :: bool
  opt_use_config :: bool
  opt_max_output :: nat
  opt_as_service_user :: bool

definition DEFAULT_MAX_OUTPUT_BYTES :: nat where "DEFAULT_MAX_OUTPUT_BYTES = 8 * 1024 * 1024"
definition DEFAULT_MAX_INPUT_BYTES :: nat where "DEFAULT_MAX_INPUT_BYTES = 32 * 1024 * 1024"

definition plain :: invoke_options where
  "plain = \<lparr>opt_input = None, opt_stream = None, opt_sink = False, opt_use_config = True,
     opt_max_output = DEFAULT_MAX_OUTPUT_BYTES, opt_as_service_user = True\<rparr>"

definition invoke_with :: "maddy_env \<Rightarrow> invoke_options \<Rightarrow> pystr list \<Rightarrow> command_result maddy_act" where
  "invoke_with env opts words =
     bindA (liftE (argv (svc_target env) words (opt_input opts \<noteq> None \<or> opt_stream opts \<noteq> None) (opt_use_config opts))) (\<lambda>args.
     let request = \<lparr>req_argv = args, req_input = opt_input opts, req_stream = opt_stream opts, req_sink = opt_sink opts,
           req_max_output = opt_max_output opts,
           req_user = (if opt_as_service_user opts then run_as_user (svc_target env) else None)\<rparr> in
     bindA (outside (Invoked words request) (\<lambda>h. svc_answer env h request)) (\<lambda>result.
     if returncode result \<noteq> 0 then maddy_fail CommandFailed
     else bindA (liftE (reported_application_failure env result)) (\<lambda>failed.
     if failed then maddy_fail CommandFailed else returnA result)))"

abbreviation invoke :: "maddy_env \<Rightarrow> pystr list \<Rightarrow> command_result maddy_act" where
  "invoke env \<equiv> invoke_with env plain"

section \<open>Version\<close>

definition probe_installed_version :: "maddy_env \<Rightarrow> bool \<Rightarrow> SemVer maddy_act" where
  "probe_installed_version env refresh =
     bindA (selectA id) (\<lambda>d.
     if \<not> refresh \<and> installed_version d \<noteq> None then returnA (the (installed_version d))
     else if \<not> refresh \<and> installed_version_error d then maddy_fail VersionParseError
     else bindA (invoke_with env (plain\<lparr>opt_use_config := False, opt_max_output := 64 * 1024\<rparr>) [lit ''version'']) (\<lambda>result.
       case from_maddy_output (out_text env) (stdout result) of
         Inl e \<Rightarrow>
           if e = MaddyError VersionParseError then
             seqA (setA (\<lambda>d. d\<lparr>installed_version := None, installed_version_error := True, supported_version := None\<rparr>)) (raiseA e)
           else raiseA e
       | Inr installed \<Rightarrow>
           seqA (setA (\<lambda>d. d\<lparr>installed_version := Some installed, installed_version_error := False, supported_version := None\<rparr>))
           (returnA installed)))"

definition probe_version :: "maddy_env \<Rightarrow> bool \<Rightarrow> SemVer maddy_act" where
  "probe_version env refresh =
     bindA (selectA supported_version) (\<lambda>v.
     if v \<noteq> None \<and> \<not> refresh then returnA (the v)
     else bindA (probe_installed_version env refresh) (\<lambda>installed.
     bindA (liftE (require_supported_version installed True)) (\<lambda>w.
     seqA (setA (\<lambda>d. d\<lparr>supported_version := Some w\<rparr>)) (returnA w))))"

definition capabilities :: "maddy_env \<Rightarrow> Capability set maddy_act" where
  "capabilities env = bindA (probe_version env False) (\<lambda>v. liftE (capabilities_for v))"

section \<open>The help contract\<close>

definition ADMIN_GROUP_ACTIONS :: "(string \<times> string list) list" where
  "ADMIN_GROUP_ACTIONS =
     [(''creds'', [''list'', ''create'', ''remove'', ''password'']),
      (''imap-acct'', [''list'', ''create'', ''remove'', ''appendlimit'']),
      (''imap-mboxes'', [''list'', ''create'', ''remove'', ''rename'']),
      (''imap-msgs'', [''add'', ''add-flags'', ''rem-flags'', ''set-flags'', ''remove'', ''copy'', ''move'', ''list'', ''dump''])]"

definition ACTION_PROFILE :: "((string \<times> string) \<times> string \<times> string list) list" where
  "ACTION_PROFILE =
     [((''creds'', ''list''), [], [''cfg-block'']),
      ((''creds'', ''create''), ''USERNAME'', [''cfg-block'', ''password'', ''hash'', ''bcrypt-cost'']),
      ((''creds'', ''remove''), ''USERNAME'', [''cfg-block'', ''yes'']),
      ((''creds'', ''password''), ''USERNAME'', [''cfg-block'', ''password'']),
      ((''imap-acct'', ''list''), [], [''cfg-block'']),
      ((''imap-acct'', ''create''), ''USERNAME'', [''cfg-block'', ''no-specialuse'', ''sent-name'', ''trash-name'', ''junk-name'',
         ''drafts-name'', ''archive-name'']),
      ((''imap-acct'', ''remove''), ''USERNAME'', [''cfg-block'', ''yes'']),
      ((''imap-acct'', ''appendlimit''), ''USERNAME'', [''cfg-block'', ''value'']),
      ((''imap-mboxes'', ''list''), ''USERNAME'', [''cfg-block'', ''subscribed'']),
      ((''imap-mboxes'', ''create''), ''USERNAME NAME'', [''cfg-block'', ''special'']),
      ((''imap-mboxes'', ''remove''), ''USERNAME MAILBOX'', [''cfg-block'', ''yes'']),
      ((''imap-mboxes'', ''rename''), ''USERNAME OLDNAME NEWNAME'', [''cfg-block'']),
      ((''imap-msgs'', ''add''), ''USERNAME MAILBOX'', [''cfg-block'', ''flag'', ''date'']),
      ((''imap-msgs'', ''add-flags''), ''USERNAME MAILBOX SEQ FLAGS...'', [''cfg-block'', ''uid'']),
      ((''imap-msgs'', ''rem-flags''), ''USERNAME MAILBOX SEQ FLAGS...'', [''cfg-block'', ''uid'']),
      ((''imap-msgs'', ''set-flags''), ''USERNAME MAILBOX SEQ FLAGS...'', [''cfg-block'', ''uid'']),
      ((''imap-msgs'', ''remove''), ''USERNAME MAILBOX SEQSET'', [''cfg-block'', ''uid'', ''yes'']),
      ((''imap-msgs'', ''copy''), ''USERNAME SRCMAILBOX SEQSET TGTMAILBOX'', [''cfg-block'', ''uid'']),
      ((''imap-msgs'', ''move''), ''USERNAME SRCMAILBOX SEQSET TGTMAILBOX'', [''cfg-block'', ''uid'']),
      ((''imap-msgs'', ''list''), ''USERNAME MAILBOX [SEQSET]'', [''cfg-block'', ''uid'', ''full'']),
      ((''imap-msgs'', ''dump''), ''USERNAME MAILBOX SEQ'', [''cfg-block'', ''uid''])]"

definition command_char :: "nat \<Rightarrow> bool" where
  "command_char c \<longleftrightarrow> is_lower_alpha c \<or> is_digit c \<or> c = 45"

text \<open>\<open>^\s{2,}([a-z][a-z0-9-]*)(?:,\s*[a-z])?(?:\s{2,}|$)\<close>\<close>

definition column_gap :: "pystr \<Rightarrow> bool" where
  "column_gap r \<longleftrightarrow> r = [] \<or> (2 \<le> length (takeWhile isspace r))"

definition command_line :: "pystr \<Rightarrow> pystr option" where
  "command_line line =
     (let indent = takeWhile isspace line; r = drop (length indent) line;
          name = takeWhile command_char r; r2 = drop (length name) r
      in if length indent < 2 \<or> name = [] \<or> \<not> is_lower_alpha (hd name) then None
         else if next_is 44 r2 then
           (let r3 = dropWhile isspace (tl r2) in
            if r3 \<noteq> [] \<and> is_lower_alpha (hd r3) \<and> column_gap (tl r3) then Some name else None)
         else if column_gap r2 then Some name else None)"

definition cut_at :: "string \<Rightarrow> pystr \<Rightarrow> pystr" where
  "cut_at marker s = fst (partition_text (lit marker) s)"

definition help_commands :: "pystr \<Rightarrow> pystr set res" where
  "help_commands help_text =
     (case partition_text (lit ''COMMANDS:'') help_text of (_, found, sect) \<Rightarrow>
        if \<not> found then mismatch
        else Inr (set (List.map_filter command_line (splitlines (cut_at ''GLOBAL OPTIONS:'' (cut_at ''OPTIONS:'' sect)))) - {lit ''help''}))"

text \<open>\<open>re.findall(r"--([a-z][a-z0-9-]*)", text)\<close>\<close>

function long_options :: "pystr \<Rightarrow> pystr list" where
  "long_options s =
     (case s of
        [] \<Rightarrow> []
      | c # r \<Rightarrow>
          if prefix (lit ''--'') s \<and> drop 2 s \<noteq> [] \<and> is_lower_alpha (hd (drop 2 s)) then
            takeWhile command_char (drop 2 s) # long_options (dropWhile command_char (drop 2 s))
          else long_options r)"
  by pat_completeness auto
termination
proof (relation "measure length")
  fix s :: pystr and c r assume "s = c # r"
  then show "(dropWhile command_char (drop 2 s), s) \<in> measure length"
    using length_dropWhile_le [of command_char "drop 2 s"] by auto
qed auto

declare long_options.simps [simp del]

definition section_title :: "pystr \<Rightarrow> bool" where
  "section_title line \<longleftrightarrow> line \<noteq> [] \<and> \<not> isspace (hd line) \<and> (let t = rstrip line in t \<noteq> [] \<and> last t = 58)"

definition help_options :: "pystr \<Rightarrow> pystr set res" where
  "help_options help_text =
     (case dropWhile (\<lambda>line. strip line \<noteq> lit ''OPTIONS:'') (splitlines help_text) of
        [] \<Rightarrow> mismatch
      | _ # lines \<Rightarrow>
          Inr (set (long_options (join_on 10 (takeWhile (\<lambda>line. \<not> section_title line) lines))) - {lit ''help''}))"

definition help_text_of :: "command_result \<Rightarrow> pystr" where
  "help_text_of result = utf8_decode_replace (stdout result @ stderr result)"

definition help_of :: "maddy_env \<Rightarrow> pystr list \<Rightarrow> pystr maddy_act" where
  "help_of env words =
     bindA (invoke_with env (plain\<lparr>opt_max_output := 512 * 1024\<rparr>) (words @ [lit ''--help''])) (\<lambda>result.
     returnA (help_text_of result))"

text \<open>One group and one action of the profile: the line for the digest, or a mismatch.\<close>

definition check_group :: "maddy_env \<Rightarrow> string \<times> string list \<Rightarrow> pystr maddy_act" where
  "check_group env g =
     (case g of (grp, expected) \<Rightarrow>
        bindA (help_of env [lit grp]) (\<lambda>text.
        bindA (liftE (help_commands text)) (\<lambda>found.
        if found \<noteq> set (map lit expected) then maddy_fail CapabilityFingerprintError
        else returnA (lit grp @ 58 # join_on 44 (sort (map lit expected))))))"

definition check_action :: "maddy_env \<Rightarrow> (string \<times> string) \<times> string \<times> string list \<Rightarrow> pystr maddy_act" where
  "check_action env a =
     (case a of ((grp, action), usage, expected) \<Rightarrow>
        bindA (help_of env [lit grp, lit action]) (\<lambda>text.
        if usage \<noteq> [] \<and> \<not> contains_text (lit usage) (join_on 32 (words_of text)) then maddy_fail CapabilityFingerprintError
        else bindA (liftE (help_options text)) (\<lambda>found.
        if found \<noteq> set (map lit expected) then maddy_fail CapabilityFingerprintError
        else returnA (lit grp @ 32 # lit action @ 124 # lit usage @ 124 # join_on 44 (sort (map lit expected))))))"

definition PROFILED_RELEASES :: "pystr list" where
  "PROFILED_RELEASES = map SemVer_str TESTED_RELEASES"

definition profile_signatures :: "pystr list" where
  "profile_signatures =
     lit ''--help'' # map (\<lambda>(g, _). lit g @ lit '' --help'') ADMIN_GROUP_ACTIONS
       @ map (\<lambda>((g, a), _). lit g @ 32 # lit a @ lit '' --help'') ACTION_PROFILE"

definition scan_profile :: "maddy_env \<Rightarrow> SemVer \<Rightarrow> (pystr \<times> pystr list) maddy_act" where
  "scan_profile env version =
     bindA (help_of env []) (\<lambda>top_help.
     bindA (liftE (help_commands top_help)) (\<lambda>top_commands.
     let groups = map (lit \<circ> fst) ADMIN_GROUP_ACTIONS;
         has_verify_config = (lit ''verify-config'' \<in> top_commands) in
     if \<not> set groups \<subseteq> top_commands \<or> has_verify_config \<noteq> SemVer_le (release 0 9 0) version
     then maddy_fail CapabilityFingerprintError
     else
     bindA (mapA (check_group env) ADMIN_GROUP_ACTIONS) (\<lambda>group_lines.
     bindA (mapA (check_action env) ACTION_PROFILE) (\<lambda>action_lines.
     let top = lit ''top:'' @ join_on 44 (sort (groups @ (if has_verify_config then [lit ''verify-config''] else [])));
         profile = join_on 10 (top # group_lines @ action_lines) in
     bindA (liftE (utf8_encode profile)) (\<lambda>b.
     returnA (hex (sha256 (svc_json env) b), profile_signatures))))))"

definition probe_cli_fingerprint :: "maddy_env \<Rightarrow> bool \<Rightarrow> (pystr \<times> pystr list) maddy_act" where
  "probe_cli_fingerprint env refresh =
     bindA (probe_version env False) (\<lambda>version.
     bindA (selectA id) (\<lambda>d.
     if cli_fingerprint d \<noteq> None \<and> (case cli_fingerprint_version d of None \<Rightarrow> False | Some w \<Rightarrow> SemVer_eq w version) \<and> \<not> refresh
     then returnA (the (cli_fingerprint d))
     else if SemVer_str version \<notin> set PROFILED_RELEASES then maddy_fail CapabilityFingerprintError
     else bindA (scan_profile env version) (\<lambda>fingerprint.
       seqA (setA (\<lambda>d. d\<lparr>cli_fingerprint := Some fingerprint, cli_fingerprint_version := Some version\<rparr>))
       (returnA fingerprint))))"

section \<open>The effective configuration\<close>

definition read_effective_config :: "maddy_env \<Rightarrow> pystr maddy_act" where
  "read_effective_config env =
     (case target_config_path (svc_target env) of
        None \<Rightarrow> maddy_fail LegacyLDAPUnsafe
      | Some p \<Rightarrow>
          (case target_mode (svc_target env) of
             NATIVE \<Rightarrow>
               bindA (tryA
                 (bindA (outside ConfigStat (svc_config_size env)) (\<lambda>size.
                  if size = 0 \<or> 2 * 1024 * 1024 < size then maddy_fail LegacyLDAPUnsafe
                  else bindA (outside ConfigRead (svc_config_bytes env)) (\<lambda>data. returnA (size, data))))
                 (\<lambda>e. if is_os_error e then maddy_fail LegacyLDAPUnsafe else raiseA e)) (\<lambda>(size, data).
               if length data \<noteq> size then maddy_fail LegacyLDAPUnsafe
               else returnA (utf8_decode_replace data))
           | DOCKER \<Rightarrow>
               bindA (liftE (config_read_argv (svc_target env))) (\<lambda>args.
               let request = \<lparr>req_argv = args, req_input = None, req_stream = None, req_sink = False,
                     req_max_output = 2 * 1024 * 1024, req_user = None\<rparr> in
               bindA (outside (Direct request) (\<lambda>h. svc_answer env h request)) (\<lambda>result.
               bindA (if returncode result \<noteq> 0 then returnA True else liftE (reported_application_failure env result)) (\<lambda>failed.
               if failed then maddy_fail LegacyLDAPUnsafe
               else returnA (utf8_decode_replace (stdout result)))))))"

definition check_config :: "maddy_env \<Rightarrow> unit maddy_act" where
  "check_config env =
     bindA (read_effective_config env) (\<lambda>config_text.
     bindA (liftE (config_tokens_and_text config_text)) (\<lambda>(tokens, uncommented).
     seqA (setA (\<lambda>d. d\<lparr>
       config_has_ldap := lit ''auth.ldap'' \<in> set tokens \<or> lit ''table.ldap'' \<in> set tokens \<or> lit ''ldap'' \<in> set tokens,
       config_has_import := lit ''import'' \<in> set tokens,
       config_has_env := contains_text (lit ''{env:'') uncommented\<rparr>))
     (bindA (liftE (legacy_dynamic_config_is_unsafe config_text uncommented (target_mode (svc_target env) = DOCKER))) (\<lambda>unsafe.
     setA (\<lambda>d. d\<lparr>config_unsafe_dynamic := unsafe, config_checked := True\<rparr>)))))"

definition ensure_legacy_auth_safe :: "maddy_env \<Rightarrow> SemVer \<Rightarrow> unit maddy_act" where
  "ensure_legacy_auth_safe env version =
     (let legacy = SemVer_lt version (release 0 9 3); native = (target_mode (svc_target env) = NATIVE) in
      if \<not> legacy \<and> \<not> native then returnA ()
      else
        bindA (selectA config_checked) (\<lambda>checked.
        seqA (if checked then returnA () else check_config env)
        (bindA (selectA id) (\<lambda>d.
        if legacy \<and> config_has_ldap d then maddy_fail LegacyLDAPUnsafe
        else if legacy \<and> config_has_import d then maddy_fail LegacyLDAPUnsafe
        else if legacy \<and> config_unsafe_dynamic d then maddy_fail LegacyLDAPUnsafe
        else if native \<and> (config_has_env d \<or> config_unsafe_dynamic d) then maddy_fail RuntimeConfigUnsafe
        else if native \<and> config_has_import d then maddy_fail RuntimeConfigUnsafe
        else returnA ()))))"

section \<open>The write gate\<close>

record safety_status =
  safety_version :: pystr
  writes_enabled :: bool
  safety_reason :: "maddy_error option"
  safety_fingerprint :: "pystr option"

definition startup_safety_status :: "maddy_env \<Rightarrow> safety_status maddy_act" where
  "startup_safety_status env =
     bindA (probe_version env False) (\<lambda>version.
     let blocked = (\<lambda>reason. \<lparr>safety_version = SemVer_str version, writes_enabled = False, safety_reason = Some reason,
           safety_fingerprint = None\<rparr>) in
     bindA (selectA output_contract_failure) (\<lambda>failed.
     if failed then returnA (blocked CapabilityFingerprintError)
     else tryA
       (bindA (probe_cli_fingerprint env False) (\<lambda>fingerprint.
        seqA (ensure_legacy_auth_safe env version)
        (returnA \<lparr>safety_version = SemVer_str version, writes_enabled = True, safety_reason = None,
           safety_fingerprint = Some (fst fingerprint)\<rparr>)))
       (\<lambda>e. case e of
          MaddyError CapabilityFingerprintError \<Rightarrow> returnA (blocked CapabilityFingerprintError)
        | MaddyError LegacyLDAPUnsafe \<Rightarrow> returnA (blocked LegacyLDAPUnsafe)
        | MaddyError RuntimeConfigUnsafe \<Rightarrow> returnA (blocked RuntimeConfigUnsafe)
        | _ \<Rightarrow> raiseA e)))"

definition require_write_safety :: "maddy_env \<Rightarrow> Capability \<Rightarrow> SemVer maddy_act" where
  "require_write_safety env capability =
     bindA (probe_version env True) (\<lambda>version.
     bindA (selectA output_contract_failure) (\<lambda>failed.
     if failed then maddy_fail CapabilityFingerprintError
     else bindA (liftE (capabilities_for version)) (\<lambda>caps.
     if capability \<notin> caps then maddy_fail UnsupportedCapability
     else
       seqA (if SemVer_lt version (release 0 9 3) \<or> target_mode (svc_target env) = NATIVE
             then setA (\<lambda>d. d\<lparr>config_checked := False\<rparr>) else returnA ())
       (seqA (ensure_legacy_auth_safe env version)
       (seqA (probe_cli_fingerprint env False) (returnA version))))))"

text \<open>\<open>_require\<close> without and with \<open>write=True\<close>.\<close>

definition require_read :: "maddy_env \<Rightarrow> Capability \<Rightarrow> SemVer maddy_act" where
  "require_read env capability =
     bindA (probe_version env False) (\<lambda>version.
     bindA (liftE (capabilities_for version)) (\<lambda>caps.
     if capability \<notin> caps then maddy_fail UnsupportedCapability else returnA version))"

definition require :: "maddy_env \<Rightarrow> Capability \<Rightarrow> bool \<Rightarrow> SemVer maddy_act" where
  "require env capability write =
     (if write then require_write_safety env capability else require_read env capability)"

record version_document =
  doc_version :: pystr
  doc_mode :: DeploymentMode
  doc_capabilities :: "Capability set"
  doc_writes_enabled :: bool
  doc_fingerprint :: "pystr option"
  doc_block_reason :: "maddy_error option"

definition version_info :: "maddy_env \<Rightarrow> version_document maddy_act" where
  "version_info env =
     (let mode = target_mode (svc_target env);
          blocked = (\<lambda>text reason. \<lparr>doc_version = text, doc_mode = mode, doc_capabilities = {}, doc_writes_enabled = False,
            doc_fingerprint = None, doc_block_reason = Some reason\<rparr>) in
      bindA (tryA (bindA (probe_installed_version env False) (\<lambda>v. returnA (Some v)))
        (\<lambda>e. if e = MaddyError VersionParseError then returnA None else raiseA e)) (\<lambda>found.
      case found of
        None \<Rightarrow> returnA (blocked (lit ''unknown'') VersionParseError)
      | Some installed \<Rightarrow>
          (case require_supported_version installed True of
             Inl _ \<Rightarrow> returnA (blocked (SemVer_str installed) UnsupportedVersion)
           | Inr version \<Rightarrow>
               bindA (startup_safety_status env) (\<lambda>safety.
               bindA (liftE (capabilities_for version)) (\<lambda>caps.
               returnA \<lparr>doc_version = SemVer_str version, doc_mode = mode, doc_capabilities = caps,
                 doc_writes_enabled = writes_enabled safety, doc_fingerprint = safety_fingerprint safety,
                 doc_block_reason = safety_reason safety\<rparr>)))))"

definition verify_config :: "maddy_env \<Rightarrow> pystr maddy_act" where
  "verify_config env =
     seqA (require_read env VERIFY_CONFIG)
     (bindA (invoke_with env (plain\<lparr>opt_max_output := 256 * 1024\<rparr>) [lit ''verify-config'']) (\<lambda>result.
     returnA (strip (help_text_of result))))"

end
