(* ===== verification/Maddy_Operations.thy ===== *)
theory Maddy_Operations
  imports Maddy_Service
begin

text \<open>
  The operations of \<open>MaddyService\<close> on accounts, mailboxes and messages, with the compensation of a failed account
  creation and the quarantine by which a mailbox is emptied and removed.
\<close>

section \<open>Accounts\<close>

definition credentials :: "maddy_env \<Rightarrow> string \<Rightarrow> pystr list \<Rightarrow> bytes option \<Rightarrow> bool option \<Rightarrow> command_result maddy_act" where
  "credentials env action args input write =
     (let write = (case write of None \<Rightarrow> action \<noteq> ''list'' | Some w \<Rightarrow> w) in
      seqA (require env ACCOUNT_ADMIN write)
      (invoke_with env (plain\<lparr>opt_input := input\<rparr>)
        ([lit ''creds'', lit action, lit ''--cfg-block'', svc_auth_block env] @ args)))"

definition imap_accounts :: "maddy_env \<Rightarrow> string \<Rightarrow> pystr list \<Rightarrow> bool option \<Rightarrow> command_result maddy_act" where
  "imap_accounts env action args write =
     (let write = (case write of None \<Rightarrow> action \<noteq> ''list'' | Some w \<Rightarrow> w) in
      seqA (require env ACCOUNT_ADMIN write)
      (invoke env ([lit ''imap-acct'', lit action, lit ''--cfg-block'', svc_storage_block env] @ args)))"

definition fail_output_contract :: "'a maddy_act" where
  "fail_output_contract =
     seqA (setA (\<lambda>d. d\<lparr>output_contract_failure := True\<rparr>)) (maddy_fail CapabilityFingerprintError)"

definition account_line_ok :: "pystr \<Rightarrow> bool" where
  "account_line_ok line \<longleftrightarrow>
     length line \<le> 254 \<and> \<not> next_is 45 line \<and> \<not> list_ex (\<lambda>c. isspace c \<or> c < 32) line"

definition account_lines :: "maddy_env \<Rightarrow> command_result \<Rightarrow> string \<Rightarrow> pystr list maddy_act" where
  "account_lines env result empty_marker =
     (case utf8_decode (stdout result) of
        Inl _ \<Rightarrow> fail_output_contract
      | Inr text \<Rightarrow>
          (let lines = filter (\<lambda>l. l \<noteq> []) (map strip (splitlines text)) in
           if length lines = 1 \<and> out_casefold env (hd lines) = out_casefold env (lit empty_marker) then returnA []
           else if \<not> list_all account_line_ok lines then fail_output_contract
           else returnA lines))"

definition list_credentials :: "maddy_env \<Rightarrow> pystr list maddy_act" where
  "list_credentials env =
     bindA (credentials env ''list'' [] None None) (\<lambda>result. account_lines env result ''No users.'')"

definition list_imap_accounts :: "maddy_env \<Rightarrow> pystr list maddy_act" where
  "list_imap_accounts env =
     bindA (imap_accounts env ''list'' [] None) (\<lambda>result. account_lines env result ''No users.'')"

definition is_decimal_text :: "security_env \<Rightarrow> pystr \<Rightarrow> bool" where
  "is_decimal_text env s \<longleftrightarrow> s \<noteq> [] \<and> list_all (is_decimal_char env) s"

definition get_append_limit :: "maddy_env \<Rightarrow> pystr \<Rightarrow> int option maddy_act" where
  "get_append_limit env username =
     bindA (liftE (safe_positional 254 username)) (\<lambda>username.
     bindA (imap_accounts env ''appendlimit'' [username] (Some False)) (\<lambda>result.
     let v = strip (utf8_decode_replace (stdout result)) in
     if v = [] \<or> out_lower env v \<in> {lit ''none'', lit ''unlimited'', lit ''no limit''} then returnA None
     else if \<not> is_decimal_text (out_text env) v then maddy_fail UnspecificMaddyError
     else bindA (liftE (decimal_int (out_text env) v)) (\<lambda>n. returnA (Some n))))"

record account_entry =
  entry_username :: pystr
  has_credentials :: bool
  has_mailbox :: bool
  append_limit :: "int option"
  append_limit_error :: bool

definition account_entry_of :: "maddy_env \<Rightarrow> bool \<Rightarrow> pystr list \<Rightarrow> pystr list \<Rightarrow> pystr \<Rightarrow> account_entry maddy_act" where
  "account_entry_of env include_append_limits creds mailboxes username =
     (let entry = \<lparr>entry_username = username, has_credentials = username \<in> set creds, has_mailbox = username \<in> set mailboxes,
                   append_limit = None, append_limit_error = False\<rparr> in
      if username \<in> set mailboxes \<and> include_append_limits then
        tryA (bindA (get_append_limit env username) (\<lambda>limit. returnA (entry\<lparr>append_limit := limit\<rparr>)))
          (\<lambda>e. if is_maddy_error e then returnA (entry\<lparr>append_limit_error := True\<rparr>) else raiseA e)
      else returnA entry)"

definition list_accounts :: "maddy_env \<Rightarrow> bool \<Rightarrow> account_entry list maddy_act" where
  "list_accounts env include_append_limits =
     bindA (list_credentials env) (\<lambda>creds.
     bindA (list_imap_accounts env) (\<lambda>mailboxes.
     mapA (account_entry_of env include_append_limits creds mailboxes)
       (sort_key (out_casefold env) (svc_set_order env (remdups (creds @ mailboxes))))))"

text \<open>\<open>observe\<close>: two attempts to see whether the name is listed.\<close>

definition observe_once :: "pystr \<Rightarrow> pystr list maddy_act \<Rightarrow> bool option maddy_act" where
  "observe_once username listing =
     tryA (bindA listing (\<lambda>names. returnA (Some (username \<in> set names))))
       (\<lambda>e. if is_maddy_error e then returnA None else raiseA e)"

definition observe :: "pystr \<Rightarrow> pystr list maddy_act \<Rightarrow> bool option maddy_act" where
  "observe username listing =
     bindA (observe_once username listing) (\<lambda>seen.
     case seen of None \<Rightarrow> observe_once username listing | Some b \<Rightarrow> returnA (Some b))"

definition suppress_maddy :: "'a maddy_act \<Rightarrow> unit maddy_act" where
  "suppress_maddy m = tryA (seqA m (returnA ())) (\<lambda>e. if is_maddy_error e then returnA () else raiseA e)"

definition compensate_account_creation :: "maddy_env \<Rightarrow> pystr \<Rightarrow> pystr list \<Rightarrow> pystr list \<Rightarrow> (string list \<times> bool) maddy_act" where
  "compensate_account_creation env username credential_baseline mailbox_baseline =
     (let credential_was_present = (username \<in> set credential_baseline);
          mailbox_was_present = (username \<in> set mailbox_baseline) in
      bindA (observe username (list_credentials env)) (\<lambda>credential_is_present.
      bindA (observe username (list_imap_accounts env)) (\<lambda>mailbox_is_present.
      let credential_was_created = (\<not> credential_was_present \<and> credential_is_present = Some True);
          mailbox_was_created = (\<not> mailbox_was_present \<and> mailbox_is_present = Some True) in
      seqA (if mailbox_was_created then suppress_maddy (imap_accounts env ''remove'' [lit ''-y'', username] None) else returnA ())
      (seqA (if credential_was_created then suppress_maddy (credentials env ''remove'' [lit ''-y'', username] None None) else returnA ())
      (bindA (observe username (list_credentials env)) (\<lambda>final_credential.
      bindA (observe username (list_imap_accounts env)) (\<lambda>final_mailbox.
      let credential_was_created = (credential_was_created \<or> (\<not> credential_was_present \<and> final_credential = Some True));
          mailbox_was_created = (mailbox_was_created \<or> (\<not> mailbox_was_present \<and> final_mailbox = Some True)) in
      returnA
        ((if credential_was_created then [''credentials.create''] else []) @ (if mailbox_was_created then [''mailbox.create''] else []),
         final_credential = Some credential_was_present \<and> final_mailbox = Some mailbox_was_present))))))))"

definition create_account :: "maddy_env \<Rightarrow> pystr \<Rightarrow> pystr \<Rightarrow> pystr maddy_act" where
  "create_account env username password =
     bindA (liftE (safe_positional 254 username)) (\<lambda>username.
     bindA (liftE (password_input password)) (\<lambda>password_data.
     bindA (list_credentials env) (\<lambda>credential_baseline.
     bindA (list_imap_accounts env) (\<lambda>mailbox_baseline.
     seqA (tryA
       (seqA (credentials env ''create'' [username] (Some password_data) None)
       (seqA (imap_accounts env ''create'' [username] None)
       (bindA (list_credentials env) (\<lambda>creds.
        if username \<notin> set creds then maddy_fail UnspecificMaddyError
        else bindA (list_imap_accounts env) (\<lambda>mailboxes.
        if username \<notin> set mailboxes then maddy_fail UnspecificMaddyError else returnA ())))))
       (\<lambda>e. if \<not> is_maddy_error e then raiseA e
         else bindA (compensate_account_creation env username credential_baseline mailbox_baseline) (\<lambda>(completed, rollback_succeeded).
           if completed = [] \<and> rollback_succeeded then raiseA e
           else maddy_fail (PartialOperationError completed (Some rollback_succeeded)))))
     (returnA username)))))"

definition change_password :: "maddy_env \<Rightarrow> pystr \<Rightarrow> pystr \<Rightarrow> unit maddy_act" where
  "change_password env username password =
     bindA (liftE (safe_positional 254 username)) (\<lambda>username.
     bindA (liftE (password_input password)) (\<lambda>password_data.
     seqA (credentials env ''password'' [username] (Some password_data) None)
     (bindA (list_credentials env) (\<lambda>creds.
     if username \<notin> set creds then maddy_fail UnspecificMaddyError else returnA ()))))"

definition disable_credentials :: "maddy_env \<Rightarrow> pystr \<Rightarrow> unit maddy_act" where
  "disable_credentials env username =
     bindA (liftE (safe_positional 254 username)) (\<lambda>username.
     seqA (credentials env ''remove'' [lit ''-y'', username] None (Some True))
     (bindA (list_credentials env) (\<lambda>creds.
     if username \<in> set creds then maddy_fail UnspecificMaddyError else returnA ())))"

definition delete_imap_account :: "maddy_env \<Rightarrow> pystr \<Rightarrow> unit maddy_act" where
  "delete_imap_account env username =
     bindA (liftE (safe_positional 254 username)) (\<lambda>username.
     seqA (imap_accounts env ''remove'' [lit ''-y'', username] (Some True))
     (bindA (list_imap_accounts env) (\<lambda>mailboxes.
     if username \<in> set mailboxes then maddy_fail UnspecificMaddyError else returnA ())))"

definition delete_maddy_account :: "maddy_env \<Rightarrow> pystr \<Rightarrow> unit maddy_act" where
  "delete_maddy_account env username =
     bindA (liftE (safe_positional 254 username)) (\<lambda>username.
     seqA (disable_credentials env username)
     (tryA (delete_imap_account env username)
       (\<lambda>e. if is_maddy_error e then maddy_fail (PartialOperationError [''credentials.remove''] None) else raiseA e)))"

definition set_append_limit :: "maddy_env \<Rightarrow> pystr \<Rightarrow> int \<Rightarrow> int option maddy_act" where
  "set_append_limit env username v =
     bindA (liftE (safe_positional 254 username)) (\<lambda>username.
     if \<not> (0 \<le> v \<and> v \<le> 4 * 1024 ^ 3) then raiseA InvalidMaddyArgument
     else
       seqA (imap_accounts env ''appendlimit'' [lit ''--value'', dec_int v, username] (Some True))
       (bindA (get_append_limit env username) (\<lambda>observed.
       let expected = (if v = 0 then None else Some v) in
       if observed \<noteq> expected then maddy_fail UnspecificMaddyError else returnA expected)))"

section \<open>Mailboxes\<close>

record mailbox_entry =
  mailbox_name :: pystr
  mailbox_attributes :: "pystr list"

definition mailbox_line :: "pystr \<Rightarrow> mailbox_entry res" where
  "mailbox_line line =
     (case partition 9 line of (name, separator, attributes) \<Rightarrow>
        if name = [] \<or> 255 < length name \<or> next_is 45 name \<or> list_ex (\<lambda>c. c < 32) name
           \<or> (separator \<and> \<not> next_is 91 (strip attributes)) then mismatch
        else bind_res (if separator then strict_flags attributes else Inr []) (\<lambda>fs.
          Inr \<lparr>mailbox_name = name, mailbox_attributes = fs\<rparr>))"

definition list_mailboxes :: "maddy_env \<Rightarrow> pystr \<Rightarrow> bool \<Rightarrow> mailbox_entry list maddy_act" where
  "list_mailboxes env username subscribed_only =
     seqA (require_read env MAILBOX_ADMIN)
     (bindA (liftE (safe_positional 254 username)) (\<lambda>username.
     bindA (invoke env ([lit ''imap-mboxes'', lit ''list'', lit ''--cfg-block'', svc_storage_block env]
         @ (if subscribed_only then [lit ''--subscribed''] else []) @ [username])) (\<lambda>result.
     case utf8_decode (stdout result) of
       Inl _ \<Rightarrow> fail_output_contract
     | Inr text \<Rightarrow>
         (let lines = filter (\<lambda>l. strip l \<noteq> []) (splitlines text);
              lines = (if length lines = 1 \<and> out_casefold env (strip (hd lines)) = lit ''no mailboxes.'' then [] else lines)
          in case traverse mailbox_line lines of
               Inl _ \<Rightarrow> fail_output_contract
             | Inr entries \<Rightarrow> returnA entries))))"

definition SPECIAL_USES :: "string list" where
  "SPECIAL_USES = [''archive'', ''drafts'', ''junk'', ''sent'', ''trash'']"

definition PROTECTED_MAILBOX_NAMES :: "string list" where
  "PROTECTED_MAILBOX_NAMES = ''inbox'' # SPECIAL_USES"

definition PROTECTED_SPECIAL_USE_FLAGS :: "pystr list" where
  "PROTECTED_SPECIAL_USE_FLAGS =
     map (\<lambda>f. 92 # lit f) [''all'', ''archive'', ''drafts'', ''flagged'', ''important'', ''junk'', ''sent'', ''trash'']"

definition protected_name :: "maddy_env \<Rightarrow> pystr \<Rightarrow> bool" where
  "protected_name env mailbox \<longleftrightarrow> out_casefold env mailbox \<in> set (map lit PROTECTED_MAILBOX_NAMES)"

definition require_mutable_in :: "maddy_env \<Rightarrow> pystr \<Rightarrow> mailbox_entry list \<Rightarrow> unit res" where
  "require_mutable_in env mailbox records =
     (case filter (\<lambda>r. mailbox_name r = mailbox) records of
        [r] \<Rightarrow>
          if list_ex (\<lambda>a. out_casefold env a \<in> set PROTECTED_SPECIAL_USE_FLAGS) (mailbox_attributes r) then Inl InvalidMaddyArgument
          else Inr ()
      | _ \<Rightarrow> Inl InvalidMaddyArgument)"

definition require_mutable_mailbox :: "maddy_env \<Rightarrow> pystr \<Rightarrow> pystr \<Rightarrow> mailbox_entry list option \<Rightarrow> unit maddy_act" where
  "require_mutable_mailbox env username mailbox mailboxes =
     (if protected_name env mailbox then raiseA InvalidMaddyArgument
      else bindA (case mailboxes of None \<Rightarrow> list_mailboxes env username False | Some ms \<Rightarrow> returnA ms) (\<lambda>records.
        liftE (require_mutable_in env mailbox records)))"

definition mailbox_names :: "maddy_env \<Rightarrow> pystr \<Rightarrow> pystr set maddy_act" where
  "mailbox_names env username =
     bindA (list_mailboxes env username False) (\<lambda>entries. returnA (mailbox_name ` set entries))"

definition mboxes_command :: "maddy_env \<Rightarrow> string \<Rightarrow> pystr list \<Rightarrow> command_result maddy_act" where
  "mboxes_command env action args =
     invoke env ([lit ''imap-mboxes'', lit action, lit ''--cfg-block'', svc_storage_block env] @ args)"

definition create_mailbox :: "maddy_env \<Rightarrow> pystr \<Rightarrow> pystr \<Rightarrow> pystr option \<Rightarrow> unit maddy_act" where
  "create_mailbox env username mailbox special =
     seqA (require env MAILBOX_ADMIN True)
     (bindA (liftE (safe_positional 254 username)) (\<lambda>username.
     bindA (liftE (safe_positional 255 mailbox)) (\<lambda>mailbox.
     bindA (case special of
         Some sp \<Rightarrow>
           (let sp = out_lower env sp in
            if sp \<notin> set (map lit SPECIAL_USES) then raiseA InvalidMaddyArgument else returnA [lit ''--special'', sp])
       | None \<Rightarrow> if protected_name env mailbox then raiseA InvalidMaddyArgument else returnA []) (\<lambda>options.
     if out_casefold env mailbox = lit ''inbox'' then raiseA InvalidMaddyArgument
     else
       seqA (mboxes_command env ''create'' (options @ [username, mailbox]))
       (bindA (mailbox_names env username) (\<lambda>names.
       if mailbox \<notin> names then maddy_fail UnspecificMaddyError else returnA ()))))))"

definition capitalize :: "pystr \<Rightarrow> pystr" where
  "capitalize s = (case s of [] \<Rightarrow> [] | c # r \<Rightarrow> (if is_lower_alpha c then c - 32 else c) # lower r)"

definition resolve_special_mailbox :: "maddy_env \<Rightarrow> pystr \<Rightarrow> pystr \<Rightarrow> pystr maddy_act" where
  "resolve_special_mailbox env username special =
     (let special = out_lower env special in
      if special \<notin> set (map lit SPECIAL_USES) then raiseA InvalidMaddyArgument
      else bindA (list_mailboxes env username False) (\<lambda>entries.
        let flagged = filter (\<lambda>r. 92 # special \<in> set (map (out_lower env) (mailbox_attributes r))) entries;
            matches = map mailbox_name
              (if flagged \<noteq> [] then flagged else filter (\<lambda>r. mailbox_name r = capitalize special) entries)
        in case matches of
             [name] \<Rightarrow> liftE (safe_positional 255 name)
           | _ \<Rightarrow> maddy_fail UnspecificMaddyError))"

definition delete_mailbox :: "maddy_env \<Rightarrow> pystr \<Rightarrow> pystr \<Rightarrow> unit maddy_act" where
  "delete_mailbox env username mailbox =
     seqA (require env MAILBOX_ADMIN True)
     (bindA (liftE (safe_positional 254 username)) (\<lambda>username.
     bindA (liftE (safe_positional 255 mailbox)) (\<lambda>mailbox.
     seqA (require_mutable_mailbox env username mailbox None)
     (seqA (mboxes_command env ''remove'' [lit ''-y'', username, mailbox])
     (bindA (mailbox_names env username) (\<lambda>names.
     if mailbox \<in> names then maddy_fail UnspecificMaddyError else returnA ()))))))"

definition rename_mailbox :: "maddy_env \<Rightarrow> pystr \<Rightarrow> pystr \<Rightarrow> pystr \<Rightarrow> unit maddy_act" where
  "rename_mailbox env username old_name new_name =
     seqA (require env MAILBOX_ADMIN True)
     (bindA (liftE (safe_positional 254 username)) (\<lambda>username.
     bindA (liftE (safe_positional 255 old_name)) (\<lambda>old_name.
     bindA (liftE (safe_positional 255 new_name)) (\<lambda>new_name.
     bindA (list_mailboxes env username False) (\<lambda>entries.
     seqA (require_mutable_mailbox env username old_name (Some entries))
     (if protected_name env new_name then raiseA InvalidMaddyArgument
      else
        seqA (mboxes_command env ''rename'' [username, old_name, new_name])
        (bindA (mailbox_names env username) (\<lambda>names.
        if old_name \<in> names \<or> new_name \<notin> names then maddy_fail UnspecificMaddyError else returnA ()))))))))"

section \<open>Messages\<close>

definition list_message_set :: "maddy_env \<Rightarrow> pystr \<Rightarrow> pystr \<Rightarrow> pystr \<Rightarrow> bool \<Rightarrow> bool \<Rightarrow> message_record list maddy_act" where
  "list_message_set env username mailbox message_set full use_uids =
     seqA (require_read env MESSAGE_ADMIN)
     (bindA (liftE (safe_positional 254 username)) (\<lambda>username.
     bindA (liftE (safe_positional 255 mailbox)) (\<lambda>mailbox.
     bindA (liftE (safe_seqset (out_text env) message_set)) (\<lambda>message_set.
     bindA (invoke_with env (plain\<lparr>opt_max_output := MAX_MESSAGE_LIST_OUTPUT_BYTES\<rparr>)
       ([lit ''imap-msgs'', lit ''list''] @ (if use_uids then [lit ''--uid''] else []) @ (if full then [lit ''--full''] else [])
         @ [lit ''--cfg-block'', svc_storage_block env] @ [username, mailbox, message_set])) (\<lambda>result.
     case parse_message_list env (stdout result) of
       Inl _ \<Rightarrow> fail_output_contract
     | Inr records \<Rightarrow> returnA records)))))"

definition list_messages :: "maddy_env \<Rightarrow> pystr \<Rightarrow> pystr \<Rightarrow> pystr \<Rightarrow> bool \<Rightarrow> message_record list maddy_act" where
  "list_messages env username mailbox uid_set full = list_message_set env username mailbox uid_set full True"

definition valid_uid :: "int option \<Rightarrow> bool" where
  "valid_uid u = (case u of None \<Rightarrow> False | Some n \<Rightarrow> 1 \<le> n \<and> n \<le> MAX_IMAP_UID)"

definition latest_message_uid :: "maddy_env \<Rightarrow> pystr \<Rightarrow> pystr \<Rightarrow> int maddy_act" where
  "latest_message_uid env username mailbox =
     bindA (list_message_set env username mailbox (lit ''*'') False True) (\<lambda>records.
     case records of
       [] \<Rightarrow> returnA 0
     | [r] \<Rightarrow> if \<not> valid_uid (msg_uid r) then maddy_fail UnspecificMaddyError else returnA (the (msg_uid r))
     | _ \<Rightarrow> maddy_fail UnspecificMaddyError)"

definition positive :: "int option \<Rightarrow> bool" where
  "positive n = (case n of None \<Rightarrow> False | Some i \<Rightarrow> 0 < i)"

fun window_metadata_ok :: "int set \<Rightarrow> message_record list \<Rightarrow> bool" where
  "window_metadata_ok seen [] = True"
| "window_metadata_ok seen (r # rs) =
     (valid_uid (msg_uid r) \<and> positive (msg_sequence_number r) \<and> the (msg_uid r) \<notin> seen
      \<and> window_metadata_ok (insert (the (msg_uid r)) seen) rs)"

definition list_message_window :: "maddy_env \<Rightarrow> pystr \<Rightarrow> pystr \<Rightarrow> int \<Rightarrow> int \<Rightarrow> message_record list maddy_act" where
  "list_message_window env username mailbox limit cursor_uid =
     (if \<not> (1 \<le> limit \<and> limit \<le> 200) then raiseA InvalidMaddyArgument
      else if \<not> (0 \<le> cursor_uid \<and> cursor_uid \<le> MAX_IMAP_UID) then raiseA InvalidMaddyArgument
      else
        bindA (list_message_set env username mailbox (if cursor_uid = 0 then lit ''*'' else dec_int cursor_uid) True True) (\<lambda>anchors.
        case anchors of
          [] \<Rightarrow> if cursor_uid = 0 then returnA [] else maddy_fail StaleMessageCursor
        | [anchor] \<Rightarrow>
            if \<not> valid_uid (msg_uid anchor) \<or> \<not> positive (msg_sequence_number anchor) then maddy_fail UnspecificMaddyError
            else
              let anchor_uid = the (msg_uid anchor); anchor_sequence = the (msg_sequence_number anchor) in
              if cursor_uid \<noteq> 0 \<and> anchor_uid \<noteq> cursor_uid then maddy_fail StaleMessageCursor
              else
                bindA (list_message_set env username mailbox
                  (dec_int (max 1 (anchor_sequence - limit)) @ 58 # dec_int anchor_sequence) True False) (\<lambda>records.
                if limit + 1 < int (length records) then maddy_fail UnspecificMaddyError
                else if \<not> window_metadata_ok {} records then maddy_fail UnspecificMaddyError
                else
                  let records = sort_key (\<lambda>r. - the (msg_uid r)) records;
                      matching = filter (\<lambda>r. msg_uid r = Some anchor_uid) records in
                  if length matching \<noteq> 1 \<or> msg_sequence_number (hd matching) \<noteq> Some anchor_sequence
                     \<or> records = [] \<or> msg_uid (hd records) \<noteq> Some anchor_uid then maddy_fail StaleMessageCursor
                  else returnA records)
        | _ \<Rightarrow> maddy_fail UnspecificMaddyError))"

text \<open>A UID is given as an integer or a text.\<close>

definition dump_message_to :: "maddy_env \<Rightarrow> pystr \<Rightarrow> pystr \<Rightarrow> pystr \<Rightarrow> nat \<Rightarrow> nat maddy_act" where
  "dump_message_to env username mailbox uid_text max_bytes =
     seqA (require_read env MESSAGE_ADMIN)
     (bindA (liftE (safe_positional 254 username)) (\<lambda>username.
     bindA (liftE (safe_positional 255 mailbox)) (\<lambda>mailbox.
     bindA (if \<not> is_decimal_text (out_text env) uid_text then raiseA InvalidMaddyArgument
            else bindA (liftE (decimal_int (out_text env) uid_text)) (\<lambda>n.
              if n \<le> 0 then raiseA InvalidMaddyArgument else returnA ())) (\<lambda>_.
     bindA (invoke_with env (plain\<lparr>opt_max_output := max_bytes, opt_sink := True\<rparr>)
       ([lit ''imap-msgs'', lit ''dump'', lit ''--cfg-block'', svc_storage_block env, lit ''--uid''] @ [username, mailbox, uid_text])) (\<lambda>result.
     returnA (streamed_stdout_bytes result))))))"

datatype message_content = ContentBytes bytes | ContentStream int

definition checked_content :: "message_content \<Rightarrow> (bytes option \<times> int option) res" where
  "checked_content message =
     (case message of
        ContentBytes b \<Rightarrow>
          if b = [] \<or> DEFAULT_MAX_INPUT_BYTES < length b then Inl InvalidMaddyArgument else Inr (Some b, None)
      | ContentStream n \<Rightarrow>
          if n \<le> 0 \<or> int DEFAULT_MAX_INPUT_BYTES < n then Inl InvalidMaddyArgument else Inr (None, Some n))"

definition date_options :: "maddy_env \<Rightarrow> pystr option \<Rightarrow> pystr list res" where
  "date_options env internal_date =
     (case internal_date of
        None \<Rightarrow> Inr []
      | Some d \<Rightarrow>
          (case svc_isoformat env (concat (map (\<lambda>c. if c = 90 then lit ''+00:00'' else [c]) d)) of
             Some True \<Rightarrow> Inr [lit ''--date'', d]
           | _ \<Rightarrow> Inl InvalidMaddyArgument))"

definition append_message ::
  "maddy_env \<Rightarrow> pystr \<Rightarrow> pystr \<Rightarrow> message_content \<Rightarrow> pystr list \<Rightarrow> pystr option \<Rightarrow> int maddy_act" where
  "append_message env username mailbox message flags internal_date =
     seqA (require env MESSAGE_ADMIN True)
     (bindA (liftE (safe_positional 254 username)) (\<lambda>username.
     bindA (liftE (safe_positional 255 mailbox)) (\<lambda>mailbox.
     bindA (liftE (checked_content message)) (\<lambda>(input, stream).
     bindA (liftE (traverse safe_flag flags)) (\<lambda>flags.
     bindA (liftE (date_options env internal_date)) (\<lambda>date.
     bindA (invoke_with env (plain\<lparr>opt_input := input, opt_stream := stream\<rparr>)
       ([lit ''imap-msgs'', lit ''add'', lit ''--cfg-block'', svc_storage_block env]
         @ concat (map (\<lambda>f. [lit ''--flag'', f]) flags) @ date @ [username, mailbox])) (\<lambda>result.
     let uid = strip (utf8_decode_replace (stdout result)) in
     if \<not> is_decimal_text (out_text env) uid then maddy_fail UnspecificMaddyError
     else bindA (liftE (decimal_int (out_text env) uid)) (\<lambda>uid_number.
     if uid_number \<le> 0 then maddy_fail UnspecificMaddyError
     else bindA (list_messages env username mailbox (dec_int uid_number) True) (\<lambda>messages.
     if \<not> list_ex (\<lambda>m. msg_uid m = Some uid_number) messages then maddy_fail UnspecificMaddyError
     else returnA uid_number)))))))))"

definition message_uid_operation :: "maddy_env \<Rightarrow> string \<Rightarrow> pystr \<Rightarrow> pystr \<Rightarrow> pystr \<Rightarrow> bool \<Rightarrow> pystr list \<Rightarrow> unit maddy_act" where
  "message_uid_operation env action username mailbox uid_set destructive flags =
     seqA (require env MESSAGE_ADMIN True)
     (bindA (liftE (safe_positional 254 username)) (\<lambda>username.
     bindA (liftE (safe_positional 255 mailbox)) (\<lambda>mailbox.
     bindA (liftE (safe_seqset (out_text env) uid_set)) (\<lambda>uid_set.
     bindA (liftE (traverse safe_flag flags)) (\<lambda>flags.
     seqA (invoke env ([lit ''imap-msgs'', lit action, lit ''--cfg-block'', svc_storage_block env, lit ''--uid'']
         @ (if destructive then [lit ''-y''] else []) @ [username, mailbox, uid_set] @ flags))
     (returnA ()))))))"

definition message_transfer :: "maddy_env \<Rightarrow> string \<Rightarrow> pystr \<Rightarrow> pystr \<Rightarrow> pystr \<Rightarrow> pystr \<Rightarrow> unit maddy_act" where
  "message_transfer env action username source uid_set target =
     seqA (require env MESSAGE_ADMIN True)
     (bindA (liftE (safe_positional 254 username)) (\<lambda>username.
     bindA (liftE (safe_positional 255 source)) (\<lambda>source.
     bindA (liftE (safe_positional 255 target)) (\<lambda>target.
     bindA (liftE (safe_seqset (out_text env) uid_set)) (\<lambda>uid_set.
     seqA (invoke env ([lit ''imap-msgs'', lit action, lit ''--cfg-block'', svc_storage_block env, lit ''--uid'']
         @ [username, source, uid_set, target]))
     (returnA ()))))))"

definition delete_messages :: "maddy_env \<Rightarrow> pystr \<Rightarrow> pystr \<Rightarrow> pystr \<Rightarrow> unit maddy_act" where
  "delete_messages env username mailbox uid_set =
     seqA (message_uid_operation env ''remove'' username mailbox uid_set True [])
     (bindA (list_messages env username mailbox uid_set True) (\<lambda>remaining.
     if remaining \<noteq> [] then maddy_fail UnspecificMaddyError else returnA ()))"

definition delete_message :: "maddy_env \<Rightarrow> pystr \<Rightarrow> pystr \<Rightarrow> pystr \<Rightarrow> unit maddy_act" where
  "delete_message env username mailbox uid =
     bindA (liftE (safe_uid uid)) (\<lambda>uid. delete_messages env username mailbox uid)"

definition move_message :: "maddy_env \<Rightarrow> pystr \<Rightarrow> pystr \<Rightarrow> pystr \<Rightarrow> pystr \<Rightarrow> unit maddy_act" where
  "move_message env username source uid target =
     (if source = target \<or> (out_casefold env source = lit ''inbox'' \<and> out_casefold env target = lit ''inbox'')
      then raiseA InvalidMaddyArgument
      else bindA (liftE (safe_uid uid)) (\<lambda>uid. message_transfer env ''move'' username source uid target))"

definition set_message_seen :: "maddy_env \<Rightarrow> pystr \<Rightarrow> pystr \<Rightarrow> pystr \<Rightarrow> bool \<Rightarrow> unit maddy_act" where
  "set_message_seen env username mailbox uid seen =
     bindA (liftE (safe_uid uid)) (\<lambda>uid.
     message_uid_operation env (if seen then ''add-flags'' else ''rem-flags'') username mailbox uid False [92 # lit ''Seen''])"

definition change_message_flags :: "maddy_env \<Rightarrow> string \<Rightarrow> pystr \<Rightarrow> pystr \<Rightarrow> pystr \<Rightarrow> pystr list \<Rightarrow> unit maddy_act" where
  "change_message_flags env action username mailbox uid_set flags =
     (if flags = [] then raiseA InvalidMaddyArgument
      else message_uid_operation env action username mailbox uid_set False flags)"

definition reload :: "maddy_env \<Rightarrow> unit maddy_act" where
  "reload env =
     seqA (require_read env TLS_RELOAD)
     (let request = \<lparr>req_argv = reload_argv (svc_target env), req_input = None, req_stream = None, req_sink = False,
            req_max_output = 256 * 1024, req_user = None\<rparr> in
      bindA (outside (Direct request) (\<lambda>h. svc_answer env h request)) (\<lambda>result.
      if returncode result \<noteq> 0 then maddy_fail CommandFailed else returnA ()))"

section \<open>Emptying and removing a mailbox\<close>

definition MAILBOX_QUARANTINE_PREFIX :: pystr where "MAILBOX_QUARANTINE_PREFIX = lit ''MaddyWeb Quarantine ''"

fun new_mailbox_quarantine_name :: "maddy_env \<Rightarrow> nat \<Rightarrow> pystr list \<Rightarrow> pystr maddy_act" where
  "new_mailbox_quarantine_name env 0 existing = maddy_fail UnspecificMaddyError"
| "new_mailbox_quarantine_name env (Suc attempts) existing =
     bindA (\<lambda>s. (Inr (svc_token_hex env (draws s)), s\<lparr>draws := Suc (draws s)\<rparr>)) (\<lambda>token.
     bindA (liftE (safe_positional 255 (MAILBOX_QUARANTINE_PREFIX @ token))) (\<lambda>candidate.
     if candidate \<notin> set existing then returnA candidate else new_mailbox_quarantine_name env attempts existing))"

definition MAILBOX_QUARANTINE_ATTEMPTS :: nat where "MAILBOX_QUARANTINE_ATTEMPTS = 4"

definition restore_mailbox_quarantine :: "maddy_env \<Rightarrow> pystr \<Rightarrow> pystr \<Rightarrow> pystr \<Rightarrow> unit maddy_act" where
  "restore_mailbox_quarantine env username mailbox quarantine =
     suppress_maddy
       (bindA (mailbox_names env username) (\<lambda>observed.
        if mailbox \<in> observed \<or> quarantine \<notin> observed then returnA ()
        else
          seqA (mboxes_command env ''rename'' [username, quarantine, mailbox])
          (bindA (mailbox_names env username) (\<lambda>restored.
          if mailbox \<notin> restored \<or> quarantine \<in> restored then maddy_fail UnspecificMaddyError else returnA ()))))"

definition empty_and_remove :: "maddy_env \<Rightarrow> pystr \<Rightarrow> pystr \<Rightarrow> pystr \<Rightarrow> pystr \<Rightarrow> unit maddy_act" where
  "empty_and_remove env username mailbox quarantine target =
     seqA (mboxes_command env ''rename'' [username, mailbox, quarantine])
     (bindA (mailbox_names env username) (\<lambda>renamed.
     if mailbox \<in> renamed \<or> quarantine \<notin> renamed \<or> target \<notin> renamed then maddy_fail UnspecificMaddyError
     else
     bindA (latest_message_uid env username quarantine) (\<lambda>anchor_uid.
     let snapshot_uids = lit ''1:'' @ dec_int anchor_uid in
     seqA (if anchor_uid \<noteq> 0 then message_transfer env ''copy'' username quarantine snapshot_uids target else returnA ())
     (bindA (mailbox_names env username) (\<lambda>after_copy.
     if mailbox \<in> after_copy then maddy_fail UnspecificMaddyError
     else if quarantine \<notin> after_copy \<or> target \<notin> after_copy then maddy_fail UnspecificMaddyError
     else
     seqA (if anchor_uid \<noteq> 0 then message_uid_operation env ''remove'' username quarantine snapshot_uids True [] else returnA ())
     (bindA (list_message_window env username quarantine 1 0) (\<lambda>left.
     if left \<noteq> [] then maddy_fail UnspecificMaddyError
     else
     bindA (mailbox_names env username) (\<lambda>before_remove.
     if mailbox \<in> before_remove then maddy_fail UnspecificMaddyError
     else if quarantine \<notin> before_remove \<or> target \<notin> before_remove then maddy_fail UnspecificMaddyError
     else
     seqA (mboxes_command env ''remove'' [lit ''-y'', username, quarantine])
     (bindA (mailbox_names env username) (\<lambda>observed.
     if mailbox \<in> observed \<or> quarantine \<in> observed then maddy_fail UnspecificMaddyError
     else if target \<notin> observed then maddy_fail UnspecificMaddyError
     else returnA ()))))))))))"

definition migrate_and_delete_mailbox :: "maddy_env \<Rightarrow> pystr \<Rightarrow> pystr \<Rightarrow> pystr \<Rightarrow> unit maddy_act" where
  "migrate_and_delete_mailbox env username mailbox target =
     seqA (require env MAILBOX_ADMIN True)
     (seqA (require env MESSAGE_ADMIN True)
     (bindA (liftE (safe_positional 254 username)) (\<lambda>username.
     bindA (liftE (safe_positional 255 mailbox)) (\<lambda>mailbox.
     bindA (liftE (safe_positional 255 target)) (\<lambda>target.
     bindA (list_mailboxes env username False) (\<lambda>mailboxes.
     seqA (require_mutable_mailbox env username mailbox (Some mailboxes))
     (if list_ex (\<lambda>r. prefix (mailbox @ [47]) (mailbox_name r)) mailboxes then raiseA InvalidMaddyArgument
      else if mailbox = target then raiseA InvalidMaddyArgument
      else if length (filter (\<lambda>r. mailbox_name r = target) mailboxes) \<noteq> 1 then raiseA InvalidMaddyArgument
      else
        bindA (new_mailbox_quarantine_name env MAILBOX_QUARANTINE_ATTEMPTS (map mailbox_name mailboxes)) (\<lambda>quarantine.
        tryA (empty_and_remove env username mailbox quarantine target)
          (\<lambda>e. if is_maddy_error e then seqA (restore_mailbox_quarantine env username mailbox quarantine) (raiseA e)
                else raiseA e)))))))))"

end
