(* ===== verification/Maddy_Safety.thy ===== *)
theory Maddy_Safety
  imports Maddy_Operations
begin

text \<open>
  What every operation of the mail-server adapter gives to the runner. Whatever the arguments, the earlier history and
  the answers: each command has one of the fixed shapes with operands that no option parser takes for
  options, and each command that changes something comes after a version probe of the same call that a tested
  release answered. The proofs are one invariant over histories, kept by every step of every operation.
\<close>

section \<open>Command shapes\<close>

text \<open>What stands where a value is expected: not empty, no option, no ASCII control character.\<close>

definition operand :: "pystr \<Rightarrow> bool" where
  "operand x \<longleftrightarrow> x \<noteq> [] \<and> \<not> next_is 45 x \<and> \<not> list_ex (\<lambda>c. c < 32 \<or> c = 127) x"

definition account_prefixes :: "pystr \<Rightarrow> pystr \<Rightarrow> pystr list list" where
  "account_prefixes auth storage =
     map (\<lambda>a. [lit ''creds'', lit a, lit ''--cfg-block'', auth]) [''list'', ''create'', ''password'']
     @ [[lit ''creds'', lit ''remove'', lit ''--cfg-block'', auth, lit ''-y'']]
     @ map (\<lambda>a. [lit ''imap-acct'', lit a, lit ''--cfg-block'', storage]) [''list'', ''create'', ''appendlimit'']
     @ [[lit ''imap-acct'', lit ''remove'', lit ''--cfg-block'', storage, lit ''-y''],
        [lit ''imap-acct'', lit ''appendlimit'', lit ''--cfg-block'', storage, lit ''--value'']]"

definition mailbox_prefixes :: "pystr \<Rightarrow> pystr list list" where
  "mailbox_prefixes storage =
     map (\<lambda>a. [lit ''imap-mboxes'', lit a, lit ''--cfg-block'', storage]) [''list'', ''create'', ''rename'']
     @ [[lit ''imap-mboxes'', lit ''list'', lit ''--cfg-block'', storage, lit ''--subscribed''],
        [lit ''imap-mboxes'', lit ''create'', lit ''--cfg-block'', storage, lit ''--special''],
        [lit ''imap-mboxes'', lit ''remove'', lit ''--cfg-block'', storage, lit ''-y'']]"

definition message_prefixes :: "pystr \<Rightarrow> pystr list list" where
  "message_prefixes storage =
     map (\<lambda>a. [lit ''imap-msgs'', lit a, lit ''--cfg-block'', storage, lit ''--uid''])
       [''dump'', ''copy'', ''move'', ''add-flags'', ''rem-flags'', ''set-flags'']
     @ [[lit ''imap-msgs'', lit ''remove'', lit ''--cfg-block'', storage, lit ''--uid'', lit ''-y'']]
     @ map (\<lambda>opts. [lit ''imap-msgs'', lit ''list''] @ map lit opts @ [lit ''--cfg-block'', storage])
       [[], [''--uid''], [''--full''], [''--uid'', ''--full'']]"

definition information_commands :: "pystr list list" where
  "information_commands =
     [[lit ''version''], [lit ''verify-config''], [lit ''--help'']]
     @ map (\<lambda>(g, _). [lit g, lit ''--help'']) ADMIN_GROUP_ACTIONS
     @ map (\<lambda>((g, a), _). [lit g, lit a, lit ''--help'']) ACTION_PROFILE"

text \<open>
  A flag of the list or of the keyword form, and a date that \<open>fromisoformat\<close> reads with a time zone
  once each \<open>Z\<close> is written out.
\<close>

definition checked_flag :: "pystr \<Rightarrow> bool" where
  "checked_flag f \<longleftrightarrow> f \<in> set SYSTEM_FLAGS \<or> KEYWORD_RE f"

definition zoned_date :: "maddy_env \<Rightarrow> pystr \<Rightarrow> bool" where
  "zoned_date env d \<longleftrightarrow>
     svc_isoformat env (concat (map (\<lambda>c. if c = 90 then lit ''+00:00'' else [c]) d)) = Some True"

definition append_command :: "maddy_env \<Rightarrow> pystr list \<Rightarrow> bool" where
  "append_command env ws \<longleftrightarrow>
     (\<exists>flags date args. ws = [lit ''imap-msgs'', lit ''add'', lit ''--cfg-block'', svc_storage_block env]
        @ concat (map (\<lambda>f. [lit ''--flag'', f]) flags) @ date @ args
      \<and> list_all operand flags \<and> list_all checked_flag flags \<and> list_all operand args
      \<and> (date = [] \<or> (\<exists>d. date = [lit ''--date'', d] \<and> zoned_date env d)))"

definition allowed_words :: "maddy_env \<Rightarrow> pystr list \<Rightarrow> bool" where
  "allowed_words env ws \<longleftrightarrow>
     ws \<in> set information_commands
     \<or> (\<exists>fixed args. ws = fixed @ args \<and> list_all operand args
          \<and> fixed \<in> set (account_prefixes (svc_auth_block env) (svc_storage_block env)
              @ mailbox_prefixes (svc_storage_block env) @ message_prefixes (svc_storage_block env)))
     \<or> append_command env ws"

text \<open>Commands that change accounts, mailboxes or messages.\<close>

definition MUTATING_ACTIONS :: "(string \<times> string) list" where
  "MUTATING_ACTIONS =
     [(''creds'', ''create''), (''creds'', ''remove''), (''creds'', ''password''), (''imap-acct'', ''create''), (''imap-acct'', ''remove''),
      (''imap-mboxes'', ''create''), (''imap-mboxes'', ''remove''), (''imap-mboxes'', ''rename''),
      (''imap-msgs'', ''add''), (''imap-msgs'', ''add-flags''), (''imap-msgs'', ''rem-flags''), (''imap-msgs'', ''set-flags''),
      (''imap-msgs'', ''remove''), (''imap-msgs'', ''copy''), (''imap-msgs'', ''move'')]"

definition mutating :: "pystr list \<Rightarrow> bool" where
  "mutating ws =
     (case ws of
        g # a # r \<Rightarrow>
          ((g, a) \<in> set (map (map_prod lit lit) MUTATING_ACTIONS) \<and> r \<noteq> [lit ''--help''])
          \<or> (g = lit ''imap-acct'' \<and> a = lit ''appendlimit'' \<and> take 1 (drop 2 r) = [lit ''--value''])
      | _ \<Rightarrow> False)"

section \<open>Histories\<close>

definition probe_event :: "maddy_env \<Rightarrow> maddy_event list \<Rightarrow> maddy_event \<Rightarrow> bool" where
  "probe_event env h e \<longleftrightarrow>
     (\<exists>request result v. e = Invoked [lit ''version''] request \<and> svc_answer env h request = Inr result \<and> returncode result = 0
       \<and> from_maddy_output (out_text env) (stdout result) = Inr v \<and> require_supported_version v True = Inr v)"

text \<open>A call that started after the history \<open>h0\<close> has probed the version.\<close>

definition probed :: "maddy_env \<Rightarrow> maddy_event list \<Rightarrow> maddy_event list \<Rightarrow> bool" where
  "probed env h0 h \<longleftrightarrow> (\<exists>a e b. h = h0 @ a @ e # b \<and> probe_event env (h0 @ a) e)"

definition event_shape :: "maddy_env \<Rightarrow> maddy_event \<Rightarrow> bool" where
  "event_shape env e =
     (case e of
        Invoked ws request \<Rightarrow>
          allowed_words env ws \<and> (\<exists>has_stdin use_config. req_argv request = command_argv (svc_target env) ws has_stdin use_config)
      | Direct request \<Rightarrow>
          req_argv request = reload_argv (svc_target env) \<or> config_read_argv (svc_target env) = Inr (req_argv request)
      | _ \<Rightarrow> True)"

definition event_gated :: "maddy_env \<Rightarrow> maddy_event list \<Rightarrow> maddy_event list \<Rightarrow> maddy_event \<Rightarrow> bool" where
  "event_gated env h0 h e = (case e of Invoked ws request \<Rightarrow> mutating ws \<longrightarrow> probed env h0 h | _ \<Rightarrow> True)"

definition trace_ok :: "maddy_env \<Rightarrow> maddy_event list \<Rightarrow> maddy_event list \<Rightarrow> bool" where
  "trace_ok env h0 h \<longleftrightarrow>
     (\<exists>es. h = h0 @ es \<and> (\<forall>a e b. es = a @ e # b \<longrightarrow> event_shape env e \<and> event_gated env h0 (h0 @ a) e))"

definition gate :: "maddy_env \<Rightarrow> maddy_event list \<Rightarrow> bool \<Rightarrow> maddy_state \<Rightarrow> bool" where
  "gate env h0 open_gate d \<longleftrightarrow> trace_ok env h0 (history d) \<and> (open_gate \<longrightarrow> probed env h0 (history d))"

lemma probed_append: "probed env h0 h \<Longrightarrow> probed env h0 (h @ es)"
  unfolding probed_def by force

lemma trace_ok_start: "trace_ok env h h"
  by (simp add: trace_ok_def)

lemma trace_ok_snoc:
  assumes "trace_ok env h0 h" "event_shape env e" "event_gated env h0 h e"
  shows "trace_ok env h0 (h @ [e])"
proof -
  obtain es where es: "h = h0 @ es" "\<And>a e b. es = a @ e # b \<Longrightarrow> event_shape env e \<and> event_gated env h0 (h0 @ a) e"
    using assms(1) unfolding trace_ok_def by blast
  have "event_shape env f \<and> event_gated env h0 (h0 @ a) f" if "es @ [e] = a @ f # b" for a f b
  proof (cases b rule: rev_cases)
    case Nil
    with that assms es show ?thesis by simp
  next
    case (snoc b' c)
    with that have "es = a @ f # b'" by simp
    with es(2) show ?thesis .
  qed
  with es(1) show ?thesis unfolding trace_ok_def by fastforce
qed

lemma gate_snoc:
  "gate env h0 b d \<Longrightarrow> event_shape env e \<Longrightarrow> event_gated env h0 (history d) e \<Longrightarrow> gate env h0 b (d\<lparr>history := history d @ [e]\<rparr>)"
  by (auto simp: gate_def intro: trace_ok_snoc probed_append)

section \<open>Keeping the gate\<close>

text \<open>
  An operation keeps the gate when histories stay in order whether or not the version was probed; with \<open>behind\<close> it is only
  run after the probe.
\<close>

definition keeps :: "maddy_env \<Rightarrow> bool \<Rightarrow> 'a maddy_act \<Rightarrow> bool" where
  "keeps env behind m \<longleftrightarrow> (\<forall>h0 b. (behind \<longrightarrow> b) \<longrightarrow> preserves (gate env h0 b) m)"

named_theorems keep_rules \<open>operations that keep the gate\<close>

lemma keepsI: "(\<And>h0 b d. (behind \<longrightarrow> b) \<Longrightarrow> gate env h0 b d \<Longrightarrow> wp m (\<lambda>_. gate env h0 b) (\<lambda>_. gate env h0 b) d) \<Longrightarrow> keeps env behind m"
  by (simp add: keeps_def preserves_def)

lemma keepsD: "keeps env behind m \<Longrightarrow> (behind \<longrightarrow> b) \<Longrightarrow> gate env h0 b d \<Longrightarrow> wp m (\<lambda>_. gate env h0 b) (\<lambda>_. gate env h0 b) d"
  by (simp add: keeps_def preserves_def)

lemma keeps_behind: "keeps env False m \<Longrightarrow> keeps env behind m"
  by (simp add: keeps_def)

lemma keeps_basic [keep_rules]:
  "keeps env behind (returnA x)" "keeps env behind (raiseA e)" "keeps env behind (selectA q)" "keeps env behind (liftE r)"
  by (auto intro!: keepsI wp_rules)

lemma keeps_bind: "keeps env behind m \<Longrightarrow> (\<And>x. keeps env behind (f x)) \<Longrightarrow> keeps env behind (bindA m f)"
  by (rule keepsI, rule wp_bind, rule wp_mono [OF keepsD]) (auto intro: keepsD)

lemma keeps_lift_bind: "(\<And>x. r = Inr x \<Longrightarrow> keeps env behind (f x)) \<Longrightarrow> keeps env behind (bindA (liftE r) f)"
  by (rule keepsI) (auto intro!: wp_bind wp_lift intro: keepsD)

lemma keeps_seq: "keeps env behind m \<Longrightarrow> keeps env behind n \<Longrightarrow> keeps env behind (seqA m n)"
  unfolding seqA_def by (rule keeps_bind)

lemma keeps_try:
  assumes m: "keeps env behind m" and h: "\<And>e. keeps env behind (h e)"
  shows "keeps env behind (tryA m h)"
proof (rule keepsI, rule wp_try)
  fix h0 b d assume b: "behind \<longrightarrow> b" "gate env h0 b d"
  show "wp m (\<lambda>_. gate env h0 b) (\<lambda>e. wp (h e) (\<lambda>_. gate env h0 b) (\<lambda>_. gate env h0 b)) d"
    by (rule wp_mono [OF keepsD [OF m b]]) (simp_all add: keepsD [OF h b(1)])
qed

lemma keeps_if: "(c \<Longrightarrow> keeps env behind m) \<Longrightarrow> (\<not> c \<Longrightarrow> keeps env behind n) \<Longrightarrow> keeps env behind (if c then m else n)"
  by simp

lemma keeps_option:
  "(v = None \<Longrightarrow> keeps env behind m) \<Longrightarrow> (\<And>x. v = Some x \<Longrightarrow> keeps env behind (f x)) \<Longrightarrow>
   keeps env behind (case v of None \<Rightarrow> m | Some x \<Rightarrow> f x)"
  by (cases v) auto

lemma keeps_sum:
  "(\<And>e. r = Inl e \<Longrightarrow> keeps env behind (f e)) \<Longrightarrow> (\<And>x. r = Inr x \<Longrightarrow> keeps env behind (g x)) \<Longrightarrow>
   keeps env behind (case r of Inl e \<Rightarrow> f e | Inr x \<Rightarrow> g x)"
  by (cases r) auto

lemma keeps_prod: "(\<And>x y. v = (x, y) \<Longrightarrow> keeps env behind (f x y)) \<Longrightarrow> keeps env behind (case v of (x, y) \<Rightarrow> f x y)"
  by (cases v) auto

lemma keeps_list:
  "keeps env behind m \<Longrightarrow> (\<And>x xs. keeps env behind (f x xs)) \<Longrightarrow> keeps env behind (case v of [] \<Rightarrow> m | x # xs \<Rightarrow> f x xs)"
  by (cases v) auto

lemma keeps_let: "keeps env behind (f v) \<Longrightarrow> keeps env behind (let x = v in f x)"
  by simp

lemma keeps_map: "(\<And>x. x \<in> set xs \<Longrightarrow> keeps env behind (f x)) \<Longrightarrow> keeps env behind (mapA f xs)"
  by (rule keepsI, rule wp_mapA_inv) (auto intro: keepsD)

lemma keeps_draw: "keeps env behind (\<lambda>s. (Inr (f (draws s)), s\<lparr>draws := Suc (draws s)\<rparr>))"
  by (auto intro!: keepsI wpI)

lemmas keep_steps = keeps_lift_bind keeps_bind keeps_seq keeps_try keeps_if keeps_option keeps_sum keeps_prod keeps_list keeps_let
  keeps_map keeps_draw

section \<open>Steps\<close>

lemma keeps_set [keep_rules]: "(\<And>d. history (f d) = history d) \<Longrightarrow> keeps env behind (setA f)"
  unfolding setA_def by (rule keepsI, rule wp_execute) (auto simp: gate_def)

lemma wp_outside:
  "(\<And>x. answer (history d) = Inr x \<Longrightarrow> Q x (d\<lparr>history := history d @ [e]\<rparr>)) \<Longrightarrow>
   (\<And>f. answer (history d) = Inl f \<Longrightarrow> E f (d\<lparr>history := history d @ [e]\<rparr>)) \<Longrightarrow> wp (outside e answer) Q E d"
  unfolding outside_def setA_def by (auto intro!: wp_rules wp_execute)

lemma keeps_outside:
  assumes "\<And>h0 b d. (behind \<longrightarrow> b) \<Longrightarrow> gate env h0 b d \<Longrightarrow> event_gated env h0 (history d) e" and "event_shape env e"
  shows "keeps env behind (outside e answer)"
  by (rule keepsI, rule wp_outside) (auto intro: gate_snoc assms)

lemma argv_words: "argv t ws i c = Inr args \<Longrightarrow> args = command_argv t ws i c"
proof -
  assume "argv t ws i c = Inr args"
  moreover have "ys = xs" if "list_all2 (\<lambda>x y. fixed_token x = Inr y) xs ys" for xs ys
    using that by (induction xs ys rule: list_all2_induct) (auto simp: fixed_token_def split: if_splits)
  ultimately show ?thesis by (auto simp: argv_def res_simps split: if_splits)
qed

text \<open>A command that changes nothing runs at any time, one that changes something behind the gate.\<close>

lemma keeps_invoke [keep_rules]:
  assumes "mutating ws \<Longrightarrow> behind" "allowed_words env ws"
  shows "keeps env behind (invoke_with env opts ws)"
  unfolding invoke_with_def Let_def
proof (intro keep_steps keep_rules keeps_outside)
  fix args i c
  assume "argv (svc_target env) ws i c = Inr args"
  then have "args = command_argv (svc_target env) ws i c" by (rule argv_words)
  then show "event_shape env (Invoked ws \<lparr>req_argv = args, req_input = ip, req_stream = st, req_sink = sk, req_max_output = mx, req_user = us\<rparr>)"
    for ip st sk mx us using assms(2) by (auto simp: event_shape_def)
qed (use assms(1) in \<open>auto simp: event_gated_def gate_def\<close>)

section \<open>Opening the gate\<close>

definition opens :: "maddy_env \<Rightarrow> 'a maddy_act \<Rightarrow> bool" where
  "opens env m \<longleftrightarrow> (\<forall>h0 b d. gate env h0 b d \<longrightarrow> wp m (\<lambda>_. gate env h0 True) (\<lambda>_. gate env h0 b) d)"

lemma gate_weaken: "gate env h0 True d \<Longrightarrow> gate env h0 b d"
  by (simp add: gate_def)

lemma opens_keeps: "opens env m \<Longrightarrow> keeps env behind m"
  by (rule keepsI) (auto simp: opens_def intro: wp_mono gate_weaken)

lemma opens_bind:
  assumes m: "opens env m" and f: "\<And>x. keeps env True (f x)"
  shows "opens env (bindA m f)"
  unfolding opens_def
proof (intro allI impI wp_bind)
  fix h0 b d assume "gate env h0 b d"
  with m have "wp m (\<lambda>_. gate env h0 True) (\<lambda>_. gate env h0 b) d" by (simp add: opens_def)
  moreover have "wp (f x) (\<lambda>_. gate env h0 True) (\<lambda>_. gate env h0 b) d'" if "gate env h0 True d'" for x d'
    by (rule wp_mono [OF keepsD [OF f _ that]]) (use that in \<open>auto intro: gate_weaken\<close>)
  ultimately show "wp m (\<lambda>x. wp (f x) (\<lambda>_. gate env h0 True) (\<lambda>_. gate env h0 b)) (\<lambda>_. gate env h0 b) d"
    by (auto elim: wp_mono)
qed

lemma opens_seq: "opens env m \<Longrightarrow> keeps env True n \<Longrightarrow> opens env (seqA m n)"
  unfolding seqA_def by (rule opens_bind)

lemma keeps_open_seq: "opens env m \<Longrightarrow> keeps env True n \<Longrightarrow> keeps env behind (seqA m n)"
  by (rule opens_keeps) (rule opens_seq)

lemma information_allowed: "ws \<in> set information_commands \<Longrightarrow> allowed_words env ws"
  by (simp add: allowed_words_def)

lemma information_quiet: "ws \<in> set information_commands \<Longrightarrow> \<not> mutating ws"
  by (auto simp: information_commands_def mutating_def MUTATING_ACTIONS_def ADMIN_GROUP_ACTIONS_def ACTION_PROFILE_def)

lemma keeps_information: "ws \<in> set information_commands \<Longrightarrow> keeps env behind (invoke_with env opts ws)"
  by (rule keeps_invoke) (auto dest: information_quiet intro: information_allowed)

lemma version_command: "[lit ''version''] \<in> set information_commands"
  by (simp add: information_commands_def)

lemma keeps_probe_installed [keep_rules]: "keeps env behind (probe_installed_version env refresh)"
  unfolding probe_installed_version_def
  by (intro keep_steps keep_rules keeps_information version_command; simp)

lemma keeps_probe_version [keep_rules]: "keeps env behind (probe_version env refresh)"
  unfolding probe_version_def by (intro keep_steps keep_rules) auto

text \<open>A command that returned left one event behind, which the runner answered with exit status zero.\<close>

lemma wp_invoke:
  assumes "\<And>request result. svc_answer env (history d) request = Inr result \<Longrightarrow> returncode result = 0 \<Longrightarrow>
      req_argv request = command_argv (svc_target env) ws (opt_input opts \<noteq> None \<or> opt_stream opts \<noteq> None) (opt_use_config opts) \<Longrightarrow>
      Q result (d\<lparr>history := history d @ [Invoked ws request]\<rparr>)"
    and "\<And>e. E e d" "\<And>e request. req_argv request = command_argv (svc_target env) ws (opt_input opts \<noteq> None \<or> opt_stream opts \<noteq> None) (opt_use_config opts) \<Longrightarrow>
      E e (d\<lparr>history := history d @ [Invoked ws request]\<rparr>)"
  shows "wp (invoke_with env opts ws) Q E d"
  unfolding invoke_with_def Let_def
  by (intro wp_rules wp_outside) (auto dest: argv_words intro!: assms wp_rules split: if_splits)

lemma wp_sum:
  "(\<And>e. r = Inl e \<Longrightarrow> wp (f e) Q E d) \<Longrightarrow> (\<And>x. r = Inr x \<Longrightarrow> wp (g x) Q E d) \<Longrightarrow>
   wp (case r of Inl e \<Rightarrow> f e | Inr x \<Rightarrow> g x) Q E d"
  by (cases r) auto

lemma opens_probe: "opens env (probe_version env True)"
  unfolding opens_def
proof (intro allI impI)
  fix h0 b d assume g: "gate env h0 b d"
  have ev: "gate env h0 b (d\<lparr>history := history d @ [Invoked [lit ''version''] request]\<rparr>)"
    if "req_argv request = command_argv (svc_target env) [lit ''version''] i c" for request i c
    using g by (rule gate_snoc)
      (use that information_allowed [OF version_command] information_quiet [OF version_command] in \<open>auto simp: event_shape_def event_gated_def\<close>)
  have sup: "require_supported_version v True = Inr w \<Longrightarrow> w = v" for v w
    by (auto simp: require_supported_version_def split: if_splits)
  have pr: "gate env h0 True (d\<lparr>history := history d @ [Invoked [lit ''version''] request]\<rparr>)"
    if "req_argv request = command_argv (svc_target env) [lit ''version''] i c"
      "svc_answer env (history d) request = Inr result" "returncode result = 0"
      "from_maddy_output (out_text env) (stdout result) = Inr v" "require_supported_version v True = Inr w"
    for request i c result v w
  proof -
    obtain es where es: "history d = h0 @ es" using g by (auto simp: gate_def trace_ok_def)
    have "probe_event env (h0 @ es) (Invoked [lit ''version''] request)" using that es sup [OF that(5)] by (auto simp: probe_event_def)
    then have "probed env h0 (history d @ [Invoked [lit ''version''] request])" using es unfolding probed_def by auto
    with ev [OF that(1)] show ?thesis by (simp add: gate_def)
  qed
  have same: "gate env h0 c (f e) = gate env h0 c e" if "history (f e) = history e" for f e c
    using that by (simp add: gate_def)
  show "wp (probe_version env True) (\<lambda>_. gate env h0 True) (\<lambda>_. gate env h0 b) d"
    unfolding probe_version_def probe_installed_version_def setA_def
    by (auto intro!: wp_rules wp_execute wp_invoke wp_sum simp: same g intro: ev pr)
qed

section \<open>Probes and gates of the service\<close>

lemma profile_commands:
  "g \<in> set ADMIN_GROUP_ACTIONS \<Longrightarrow> [lit (fst g), lit ''--help''] \<in> set information_commands"
  "p \<in> set ACTION_PROFILE \<Longrightarrow> [lit (fst (fst p)), lit (snd (fst p)), lit ''--help''] \<in> set information_commands"
  by (simp_all add: information_commands_def case_prod_unfold image_iff) blast+

lemma keeps_help: "ws @ [lit ''--help''] \<in> set information_commands \<Longrightarrow> keeps env behind (help_of env ws)"
  unfolding help_of_def by (intro keep_steps keep_rules keeps_information) auto

lemma keeps_groups [keep_rules]: "keeps env behind (mapA (check_group env) ADMIN_GROUP_ACTIONS)"
proof (rule keeps_map)
  fix g assume "g \<in> set ADMIN_GROUP_ACTIONS"
  then show "keeps env behind (check_group env g)"
    unfolding check_group_def using profile_commands(1) [of g]
    by (auto intro!: keep_steps keep_rules keeps_help split: prod.splits)
qed

lemma keeps_actions [keep_rules]: "keeps env behind (mapA (check_action env) ACTION_PROFILE)"
proof (rule keeps_map)
  fix p assume "p \<in> set ACTION_PROFILE"
  then show "keeps env behind (check_action env p)"
    unfolding check_action_def using profile_commands(2) [of p]
    by (auto intro!: keep_steps keep_rules keeps_help split: prod.splits)
qed

lemma keeps_scan_profile [keep_rules]: "keeps env behind (scan_profile env version)"
  unfolding scan_profile_def
  by (intro keep_steps keep_rules keeps_help) (simp add: information_commands_def)

lemma keeps_fingerprint [keep_rules]: "keeps env behind (probe_cli_fingerprint env refresh)"
  unfolding probe_cli_fingerprint_def by (intro keep_steps keep_rules) auto

lemma keeps_read_config [keep_rules]: "keeps env behind (read_effective_config env)"
  unfolding read_effective_config_def
  by (auto intro!: keep_steps keep_rules keeps_outside simp: event_shape_def event_gated_def split: DeploymentMode.split)

lemma keeps_check_config [keep_rules]: "keeps env behind (check_config env)"
  unfolding check_config_def by (intro keep_steps keep_rules) auto

lemma keeps_legacy [keep_rules]: "keeps env behind (ensure_legacy_auth_safe env version)"
  unfolding ensure_legacy_auth_safe_def by (intro keep_steps keep_rules)

lemma opens_require: "opens env (require env capability True)"
  unfolding require_def if_True require_write_safety_def
  by (rule opens_bind, rule opens_probe) (intro keep_steps keep_rules; simp)

lemma keeps_require_read [keep_rules]: "keeps env behind (require_read env capability)"
  unfolding require_read_def by (intro keep_steps keep_rules)

lemma keeps_require [keep_rules]: "keeps env behind (require env capability write)"
  using opens_keeps [OF opens_require] keeps_require_read by (cases "write = True") (auto simp: require_def)

lemma keeps_capabilities [keep_rules]: "keeps env behind (capabilities env)"
  unfolding capabilities_def by (intro keep_steps keep_rules)

lemma keeps_startup [keep_rules]: "keeps env behind (startup_safety_status env)"
  unfolding startup_safety_status_def
  by (intro keep_steps keep_rules) (auto intro: keep_rules split: exn.split maddy_error.split)

lemma keeps_version_info [keep_rules]: "keeps env behind (version_info env)"
  unfolding version_info_def by (intro keep_steps keep_rules)

lemma keeps_verify_config [keep_rules]: "keeps env behind (verify_config env)"
  unfolding verify_config_def
  by (intro keep_steps keep_rules keeps_information) (simp add: information_commands_def)

lemma keeps_fail_contract [keep_rules]: "keeps env behind fail_output_contract"
  unfolding fail_output_contract_def by (intro keep_steps keep_rules) simp

end
