(* ===== verification/Maddy_Gated.thy ===== *)
theory Maddy_Gated
  imports Maddy_Safety
begin

text \<open>
  Every operation of the adapter keeps the gate: what the validators let through, which commands are allowed, one lemma per operation.
\<close>

section \<open>Operands\<close>

lemma operand_positional: "safe_positional n v = Inr x \<Longrightarrow> operand x"
  by (auto simp: safe_positional_def operand_def list_ex_iff split: if_splits)

lemma is_decimal_char_bound: "is_decimal_char env c \<Longrightarrow> 48 \<le> c \<and> c \<noteq> 127"
  by (auto simp: is_decimal_char_def decimal_digit_def is_digit_def split: if_splits)

lemma operand_chars: "x \<noteq> [] \<Longrightarrow> hd x \<noteq> 45 \<Longrightarrow> (\<And>c. c \<in> set x \<Longrightarrow> 32 \<le> c \<and> c \<noteq> 127) \<Longrightarrow> operand x"
  by (fastforce simp: operand_def next_is_def list_ex_iff)

lemma sequence_number_chars: "sequence_number env s \<Longrightarrow> s \<noteq> [] \<and> (\<forall>c \<in> set s. c = 42 \<or> 48 \<le> c \<and> c \<noteq> 127)"
  by (cases s) (auto simp: sequence_number_def list_all_iff dest: is_decimal_char_bound)

lemma operand_seqset: "safe_seqset env v = Inr x \<Longrightarrow> operand x"
proof -
  assume "safe_seqset env v = Inr x"
  then have x: "SEQSET_RE env x" by (auto simp: safe_seqset_def split: if_splits)
  have part: "w \<noteq> [] \<and> (\<forall>c \<in> set w. c = 42 \<or> 48 \<le> c \<and> c \<noteq> 127)" if "r \<in> set (split_on 44 x)" "w \<in> set (split_on 58 r)" for r w
    using x that sequence_number_chars by (fastforce simp: SEQSET_RE_def list_all_iff Let_def)
  have char: "32 \<le> c \<and> c \<noteq> 127" "c \<noteq> 45" if "c \<in> set x" for c
  proof -
    have "c = 44 \<or> (\<exists>r \<in> set (split_on 44 x). c \<in> set r)" using that split_on_member [of c x 44] by blast
    moreover have "c = 58 \<or> (\<exists>w \<in> set (split_on 58 r). c \<in> set w)" if "c \<in> set r" for r
      using that split_on_member [of c r 58] by blast
    ultimately have "c = 44 \<or> c = 58 \<or> c = 42 \<or> 48 \<le> c \<and> c \<noteq> 127" using part by blast
    then show "32 \<le> c \<and> c \<noteq> 127" "c \<noteq> 45" by auto
  qed
  have "x \<noteq> []" using part [of "[]" "[]"] by auto
  with char show ?thesis by (intro operand_chars) (auto dest: hd_in_set)
qed

lemma operand_dec: "0 \<le> n \<Longrightarrow> operand (dec_int n)"
  using dec_int_digits [of n] by (intro operand_chars; cases "dec_int n") (auto simp: list_all_iff is_digit_def)

lemma flag_checked: "safe_flag v = Inr x \<Longrightarrow> checked_flag x"
  by (auto simp: safe_flag_def checked_flag_def split: if_splits)

lemma operand_flag: "safe_flag v = Inr x \<Longrightarrow> operand x"
proof -
  assume "safe_flag v = Inr x"
  from flag_checked [OF this] show ?thesis unfolding checked_flag_def
  proof
    assume "x \<in> set SYSTEM_FLAGS"
    then show ?thesis by (auto simp: SYSTEM_FLAGS_def operand_def next_is_def lit_def)
  next
    assume "KEYWORD_RE x"
    then show ?thesis
      by (intro operand_chars; cases x) (auto simp: KEYWORD_RE_def argument_char_def char_class_defs list_all_iff)
  qed
qed

lemma operand_flags: "traverse safe_flag fs = Inr xs \<Longrightarrow> list_all operand xs"
  using operand_flag by (fastforce simp: res_simps list_all2_conv_all_nth list_all_length)

lemma flags_checked: "traverse safe_flag fs = Inr xs \<Longrightarrow> list_all checked_flag xs"
  using flag_checked by (fastforce simp: res_simps list_all2_conv_all_nth list_all_length)

lemma operand_decimal: "is_decimal_text env s \<Longrightarrow> operand s"
  using is_decimal_char_bound by (intro operand_chars; cases s) (fastforce simp: is_decimal_text_def list_all_iff)+

lemma operand_lit [simp]: "operand (lit s) \<longleftrightarrow> s \<noteq> [] \<and> hd s \<noteq> CHR ''-'' \<and> list_all (\<lambda>c. 32 \<le> (of_char c :: nat) \<and> of_char c \<noteq> (127 :: nat)) s"
  by (cases s) (auto simp: operand_def next_is_def lit_def list_ex_iff list_all_iff not_less of_char_eq_iff [of _ "CHR ''-''", simplified])

lemmas operands = operand_positional operand_seqset operand_dec operand_flags operand_decimal

section \<open>Allowed commands\<close>

lemma allowedI:
  "ws = fixed @ args \<Longrightarrow> list_all operand args \<Longrightarrow>
   fixed \<in> set (account_prefixes (svc_auth_block env) (svc_storage_block env) @ mailbox_prefixes (svc_storage_block env)
     @ message_prefixes (svc_storage_block env)) \<Longrightarrow> allowed_words env ws"
  unfolding allowed_words_def by blast

lemma allowed_split:
  "list_all operand (drop n ws) \<Longrightarrow>
   take n ws \<in> set (account_prefixes (svc_auth_block env) (svc_storage_block env) @ mailbox_prefixes (svc_storage_block env)
     @ message_prefixes (svc_storage_block env)) \<Longrightarrow> allowed_words env ws"
  by (rule allowedI [where fixed = "take n ws" and args = "drop n ws"]) auto

lemma allowed_accounts:
  "a \<in> {''list'', ''create'', ''password''} \<Longrightarrow> list_all operand args \<Longrightarrow>
   allowed_words env ([lit ''creds'', lit a, lit ''--cfg-block'', svc_auth_block env] @ args)"
  "a \<in> {''list'', ''create'', ''appendlimit''} \<Longrightarrow> list_all operand args \<Longrightarrow>
   allowed_words env ([lit ''imap-acct'', lit a, lit ''--cfg-block'', svc_storage_block env] @ args)"
  by (rule allowed_split [where n = 4]; auto simp: account_prefixes_def)+

lemma allowed_account_removal:
  "operand u \<Longrightarrow> allowed_words env ([lit ''creds'', lit ''remove'', lit ''--cfg-block'', svc_auth_block env] @ [lit ''-y'', u])"
  "operand u \<Longrightarrow> allowed_words env ([lit ''imap-acct'', lit ''remove'', lit ''--cfg-block'', svc_storage_block env] @ [lit ''-y'', u])"
  "operand v \<Longrightarrow> operand u \<Longrightarrow>
   allowed_words env ([lit ''imap-acct'', lit ''appendlimit'', lit ''--cfg-block'', svc_storage_block env] @ [lit ''--value'', v, u])"
  by (rule allowed_split [where n = 5]; simp add: account_prefixes_def)+

lemma allowed_mailboxes:
  "a \<in> {''list'', ''create'', ''rename''} \<Longrightarrow> list_all operand args \<Longrightarrow>
   allowed_words env ([lit ''imap-mboxes'', lit a, lit ''--cfg-block'', svc_storage_block env] @ args)"
  by (rule allowed_split [where n = 4]; auto simp: mailbox_prefixes_def)

lemma allowed_mailbox_options:
  "list_all operand args \<Longrightarrow> allowed_words env ([lit ''imap-mboxes'', lit ''list'', lit ''--cfg-block'', svc_storage_block env] @ lit ''--subscribed'' # args)"
  "list_all operand args \<Longrightarrow> allowed_words env ([lit ''imap-mboxes'', lit ''create'', lit ''--cfg-block'', svc_storage_block env] @ lit ''--special'' # args)"
  "list_all operand args \<Longrightarrow> allowed_words env ([lit ''imap-mboxes'', lit ''remove'', lit ''--cfg-block'', svc_storage_block env] @ lit ''-y'' # args)"
  by (rule allowed_split [where n = 5]; simp add: mailbox_prefixes_def)+

lemma allowed_messages:
  "a \<in> {''dump'', ''copy'', ''move'', ''add-flags'', ''rem-flags'', ''set-flags''} \<Longrightarrow> list_all operand args \<Longrightarrow>
   allowed_words env ([lit ''imap-msgs'', lit a, lit ''--cfg-block'', svc_storage_block env, lit ''--uid''] @ args)"
  by (rule allowed_split [where n = 5]; auto simp: message_prefixes_def)

lemma allowed_message_removal:
  "list_all operand args \<Longrightarrow>
   allowed_words env ([lit ''imap-msgs'', lit ''remove'', lit ''--cfg-block'', svc_storage_block env, lit ''--uid''] @ lit ''-y'' # args)"
  by (rule allowed_split [where n = 6]; simp add: message_prefixes_def)

lemma allowed_message_list:
  "list_all operand args \<Longrightarrow>
   allowed_words env ([lit ''imap-msgs'', lit ''list''] @ (if use_uids then [lit ''--uid''] else []) @ (if full then [lit ''--full''] else [])
     @ [lit ''--cfg-block'', svc_storage_block env] @ args)"
  by (rule allowedI [where fixed = "[lit ''imap-msgs'', lit ''list''] @ (if use_uids then [lit ''--uid''] else [])
        @ (if full then [lit ''--full''] else []) @ [lit ''--cfg-block'', svc_storage_block env]"])
     (auto simp: message_prefixes_def)

lemma quiet_commands [simp]:
  "\<not> mutating (lit ''creds'' # lit ''list'' # r)"
  "\<not> mutating (lit ''imap-acct'' # lit ''list'' # r)"
  "\<not> mutating (lit ''imap-mboxes'' # lit ''list'' # r)"
  "\<not> mutating (lit ''imap-msgs'' # lit ''list'' # r)"
  "\<not> mutating (lit ''imap-msgs'' # lit ''dump'' # r)"
  "operand u \<Longrightarrow> \<not> mutating [lit ''imap-acct'', lit ''appendlimit'', x, y, u]"
  by (auto simp: mutating_def MUTATING_ACTIONS_def)

section \<open>Account operations\<close>

lemma keeps_credentials:
  assumes "allowed_words env ([lit ''creds'', lit a, lit ''--cfg-block'', svc_auth_block env] @ args)"
    and "mutating ([lit ''creds'', lit a, lit ''--cfg-block'', svc_auth_block env] @ args) \<Longrightarrow> (case w of None \<Rightarrow> a \<noteq> ''list'' | Some w \<Rightarrow> w)"
  shows "keeps env behind (credentials env a args input w)"
proof (cases "case w of None \<Rightarrow> a \<noteq> ''list'' | Some w \<Rightarrow> w")
  case True
  then show ?thesis unfolding credentials_def Let_def
    by (simp only:) (intro keeps_open_seq opens_require keeps_invoke assms(1); simp)
next
  case False
  then show ?thesis unfolding credentials_def Let_def
    using assms by (intro keeps_seq keeps_require keeps_invoke) auto
qed

lemma keeps_imap_accounts:
  assumes "allowed_words env ([lit ''imap-acct'', lit a, lit ''--cfg-block'', svc_storage_block env] @ args)"
    and "mutating ([lit ''imap-acct'', lit a, lit ''--cfg-block'', svc_storage_block env] @ args) \<Longrightarrow> (case w of None \<Rightarrow> a \<noteq> ''list'' | Some w \<Rightarrow> w)"
  shows "keeps env behind (imap_accounts env a args w)"
proof (cases "case w of None \<Rightarrow> a \<noteq> ''list'' | Some w \<Rightarrow> w")
  case True
  then show ?thesis unfolding imap_accounts_def Let_def
    by (simp only:) (intro keeps_open_seq opens_require keeps_invoke assms(1); simp)
next
  case False
  then show ?thesis unfolding imap_accounts_def Let_def
    using assms by (intro keeps_seq keeps_require keeps_invoke) auto
qed

lemma keeps_account_lines [keep_rules]: "keeps env behind (account_lines env result marker)"
  unfolding account_lines_def Let_def by (intro keep_steps keep_rules)

lemma keeps_list_credentials [keep_rules]: "keeps env behind (list_credentials env)"
  unfolding list_credentials_def by (intro keep_steps keep_rules keeps_credentials allowed_accounts) auto

lemma keeps_list_imap_accounts [keep_rules]: "keeps env behind (list_imap_accounts env)"
  unfolding list_imap_accounts_def by (intro keep_steps keep_rules keeps_imap_accounts allowed_accounts) auto

lemma keeps_get_append_limit [keep_rules]: "keeps env behind (get_append_limit env username)"
  unfolding get_append_limit_def
  by (intro keep_steps keep_rules keeps_imap_accounts allowed_accounts) (auto dest: operands)

lemma keeps_list_accounts [keep_rules]: "keeps env behind (list_accounts env include)"
  unfolding list_accounts_def account_entry_of_def by (intro keep_steps keep_rules)

lemma keeps_observe [keep_rules]: "keeps env behind listing \<Longrightarrow> keeps env behind (observe username listing)"
  unfolding observe_def observe_once_def by (intro keep_steps keep_rules)

lemma keeps_suppress [keep_rules]: "keeps env behind m \<Longrightarrow> keeps env behind (suppress_maddy m)"
  unfolding suppress_maddy_def by (intro keep_steps keep_rules)

lemma keeps_remove_account:
  "operand u \<Longrightarrow> w \<noteq> Some False \<Longrightarrow> keeps env behind (credentials env ''remove'' [lit ''-y'', u] None w)"
  "operand u \<Longrightarrow> w \<noteq> Some False \<Longrightarrow> keeps env behind (imap_accounts env ''remove'' [lit ''-y'', u] w)"
  by (intro keeps_credentials keeps_imap_accounts allowed_account_removal; auto split: option.splits)+

lemma keeps_compensate: "operand u \<Longrightarrow> keeps env behind (compensate_account_creation env u cb mb)"
  unfolding compensate_account_creation_def
  by (intro keep_steps keep_rules keeps_remove_account) auto

lemma keeps_create_account [keep_rules]: "keeps env behind (create_account env username password)"
  unfolding create_account_def
  by (intro keep_steps keep_rules keeps_credentials keeps_imap_accounts allowed_accounts keeps_compensate) (auto dest: operands)

lemma keeps_change_password [keep_rules]: "keeps env behind (change_password env username password)"
  unfolding change_password_def
  by (intro keep_steps keep_rules keeps_credentials allowed_accounts) (auto dest: operands)

lemma keeps_disable_credentials [keep_rules]: "keeps env behind (disable_credentials env username)"
  unfolding disable_credentials_def by (intro keep_steps keep_rules keeps_remove_account) (auto dest: operands)

lemma keeps_delete_imap_account [keep_rules]: "keeps env behind (delete_imap_account env username)"
  unfolding delete_imap_account_def by (intro keep_steps keep_rules keeps_remove_account) (auto dest: operands)

lemma keeps_delete_account [keep_rules]: "keeps env behind (delete_maddy_account env username)"
  unfolding delete_maddy_account_def by (intro keep_steps keep_rules)

lemma keeps_set_append_limit [keep_rules]: "keeps env behind (set_append_limit env username v)"
  unfolding set_append_limit_def
  by (intro keep_steps keep_rules keeps_imap_accounts allowed_account_removal) (auto dest: operands intro: operand_dec)

section \<open>Mailbox operations\<close>

lemma keeps_list_mailboxes [keep_rules]: "keeps env behind (list_mailboxes env username subscribed)"
  unfolding list_mailboxes_def Let_def
  by (cases subscribed)
     (intro keep_steps keep_rules; auto dest: operands intro!: allowed_mailboxes allowed_mailbox_options
       simp: allowed_mailboxes [where a = "''list''", simplified] allowed_mailbox_options(1) [simplified])+

lemma keeps_mailbox_names [keep_rules]: "keeps env behind (mailbox_names env username)"
  unfolding mailbox_names_def by (intro keep_steps keep_rules)

lemma keeps_require_mutable [keep_rules]: "keeps env behind (require_mutable_mailbox env username mailbox mailboxes)"
  unfolding require_mutable_mailbox_def by (intro keep_steps keep_rules)

lemma keeps_mboxes_command:
  "a \<in> {''create'', ''rename''} \<Longrightarrow> list_all operand args \<Longrightarrow> keeps env True (mboxes_command env a args)"
  "list_all operand args \<Longrightarrow> keeps env True (mboxes_command env ''create'' (lit ''--special'' # args))"
  "list_all operand args \<Longrightarrow> keeps env True (mboxes_command env ''remove'' (lit ''-y'' # args))"
  unfolding mboxes_command_def
  by (intro keeps_invoke allowed_mailboxes allowed_mailbox_options; auto)+

lemma special_operand: "s \<in> set (map lit SPECIAL_USES) \<Longrightarrow> operand s"
  by (auto simp: SPECIAL_USES_def)

lemma bind_outcomes:
  "bindA (returnA x) f = f x" "bindA (raiseA e) f = raiseA e"
  "bindA (if c then m else n) f = (if c then bindA m f else bindA n f)"
  by (auto simp: bindA_def returnA_def raiseA_def)

lemma keeps_create_mailbox [keep_rules]: "keeps env behind (create_mailbox env username mailbox special)"
  unfolding create_mailbox_def
proof (intro keeps_open_seq opens_require keeps_lift_bind)
  fix u m assume u: "safe_positional 254 username = Inr u" "safe_positional 255 mailbox = Inr m"
  have "operand u" "operand m" using u by (auto dest: operands)
  have cmd: "keeps env True (seqA (mboxes_command env ''create'' (options @ [u, m]))
      (bindA (mailbox_names env u) (\<lambda>names. if m \<notin> names then maddy_fail UnspecificMaddyError else returnA ())))"
    if "options = [] \<or> (\<exists>s. options = [lit ''--special'', s] \<and> operand s)" for options
    using that
  proof
    assume "options = []"
    with \<open>operand u\<close> \<open>operand m\<close> show ?thesis
      by (auto intro!: keeps_seq keeps_bind keeps_if keep_rules keeps_mboxes_command(1))
  next
    assume "\<exists>s. options = [lit ''--special'', s] \<and> operand s"
    with \<open>operand u\<close> \<open>operand m\<close> show ?thesis
      by (auto intro!: keeps_seq keeps_bind keeps_if keep_rules keeps_mboxes_command(2))
  qed
  show "keeps env True (bindA (case special of
       Some sp \<Rightarrow> (let sp = out_lower env sp in
          if sp \<notin> set (map lit SPECIAL_USES) then raiseA InvalidMaddyArgument else returnA [lit ''--special'', sp])
     | None \<Rightarrow> if protected_name env m then raiseA InvalidMaddyArgument else returnA []) (\<lambda>options.
     if out_casefold env m = lit ''inbox'' then raiseA InvalidMaddyArgument
     else seqA (mboxes_command env ''create'' (options @ [u, m]))
       (bindA (mailbox_names env u) (\<lambda>names. if m \<notin> names then maddy_fail UnspecificMaddyError else returnA ()))))"
    by (cases special) (auto simp only: Let_def option.case bind_outcomes simp_thms intro!: keeps_if keep_rules cmd special_operand)
qed

lemma keeps_resolve_special [keep_rules]: "keeps env behind (resolve_special_mailbox env username special)"
  unfolding resolve_special_mailbox_def by (intro keep_steps keep_rules)

lemma keeps_delete_mailbox [keep_rules]: "keeps env behind (delete_mailbox env username mailbox)"
  unfolding delete_mailbox_def
  by (rule keeps_open_seq, rule opens_require) (intro keep_steps keep_rules keeps_mboxes_command(3); auto dest: operands)

lemma keeps_rename_mailbox [keep_rules]: "keeps env behind (rename_mailbox env username old new)"
  unfolding rename_mailbox_def
  by (rule keeps_open_seq, rule opens_require) (intro keep_steps keep_rules keeps_mboxes_command(1); auto dest: operands)

section \<open>Message operations\<close>

lemma keeps_list_message_set [keep_rules]: "keeps env behind (list_message_set env username mailbox message_set full use_uids)"
  unfolding list_message_set_def
  by (intro keep_steps keep_rules allowed_message_list) (auto dest: operands)

lemma keeps_list_messages [keep_rules]: "keeps env behind (list_messages env username mailbox uid_set full)"
  unfolding list_messages_def by (rule keep_rules)

lemma keeps_latest_uid [keep_rules]: "keeps env behind (latest_message_uid env username mailbox)"
  unfolding latest_message_uid_def by (intro keep_steps keep_rules)

lemma keeps_window [keep_rules]: "keeps env behind (list_message_window env username mailbox limit cursor)"
  unfolding list_message_window_def by (intro keep_steps keep_rules)

lemma keeps_dump [keep_rules]: "keeps env behind (dump_message_to env username mailbox uid_text max_bytes)"
proof (cases "is_decimal_text (out_text env) uid_text")
  case True
  then show ?thesis unfolding dump_message_to_def
    by (intro keep_steps keep_rules allowed_messages) (auto dest: operands)
next
  case False
  then have "dump_message_to env username mailbox uid_text max_bytes =
     seqA (require_read env MESSAGE_ADMIN) (bindA (liftE (safe_positional 254 username)) (\<lambda>u.
       bindA (liftE (safe_positional 255 mailbox)) (\<lambda>m. raiseA InvalidMaddyArgument)))"
    by (simp add: dump_message_to_def bindA_def [abs_def] raiseA_def [abs_def])
  then show ?thesis by (simp only:) (intro keep_steps keep_rules)
qed

lemma allowed_append:
  assumes "traverse safe_flag flags = Inr fs" "date_options env internal_date = Inr date" "operand u" "operand m"
  shows "allowed_words env ([lit ''imap-msgs'', lit ''add'', lit ''--cfg-block'', svc_storage_block env]
         @ concat (map (\<lambda>f. [lit ''--flag'', f]) fs) @ date @ [u, m])"
proof -
  have "date = [] \<or> (\<exists>d. date = [lit ''--date'', d] \<and> zoned_date env d)"
    using assms(2) by (auto simp: date_options_def zoned_date_def split: option.splits bool.splits)
  then have "append_command env ([lit ''imap-msgs'', lit ''add'', lit ''--cfg-block'', svc_storage_block env]
         @ concat (map (\<lambda>f. [lit ''--flag'', f]) fs) @ date @ [u, m])"
    unfolding append_command_def using operand_flags [OF assms(1)] flags_checked [OF assms(1)] assms(3,4)
    by (intro exI [of _ fs] exI [of _ date] exI [of _ "[u, m]"]) auto
  then show ?thesis by (simp add: allowed_words_def)
qed

lemma keeps_append [keep_rules]: "keeps env behind (append_message env username mailbox message flags internal_date)"
  unfolding append_message_def
  by (rule keeps_open_seq, rule opens_require) (intro keep_steps keep_rules allowed_append; auto dest: operands)

lemma allowed_uid_words:
  assumes "if destructive then a = ''remove'' else a \<in> {''add-flags'', ''rem-flags'', ''set-flags''}"
    and "operand u" "operand m" "operand s" "list_all operand fs"
  shows "allowed_words env ([lit ''imap-msgs'', lit a, lit ''--cfg-block'', svc_storage_block env, lit ''--uid'']
     @ (if destructive then [lit ''-y''] else []) @ [u, m, s] @ fs)"
  using assms allowed_message_removal [of "u # m # s # fs" env] allowed_messages [of a "u # m # s # fs" env]
  by (cases destructive) auto

lemma keeps_uid_operation:
  assumes "if destructive then a = ''remove'' else a \<in> {''add-flags'', ''rem-flags'', ''set-flags''}"
  shows "keeps env behind (message_uid_operation env a username mailbox uid_set destructive flags)"
  unfolding message_uid_operation_def
  by (rule keeps_open_seq, rule opens_require)
     (intro keep_steps keep_rules allowed_uid_words assms; auto dest: operands)

lemma keeps_transfer:
  "a \<in> {''copy'', ''move''} \<Longrightarrow> keeps env behind (message_transfer env a username source uid_set target)"
  unfolding message_transfer_def
  by (rule keeps_open_seq, rule opens_require) (intro keep_steps keep_rules allowed_messages; auto dest: operands)

lemma keeps_delete_messages [keep_rules]: "keeps env behind (delete_messages env username mailbox uid_set)"
  unfolding delete_messages_def by (intro keep_steps keep_rules keeps_uid_operation) simp

lemma keeps_delete_message [keep_rules]: "keeps env behind (delete_message env username mailbox uid)"
  unfolding delete_message_def by (intro keep_steps keep_rules)

lemma keeps_move_message [keep_rules]: "keeps env behind (move_message env username source uid target)"
  unfolding move_message_def by (intro keep_steps keep_rules keeps_transfer) simp

lemma keeps_set_seen [keep_rules]: "keeps env behind (set_message_seen env username mailbox uid seen)"
  unfolding set_message_seen_def by (intro keep_steps keep_rules keeps_uid_operation) simp

lemma keeps_change_flags:
  "a \<in> {''add-flags'', ''rem-flags'', ''set-flags''} \<Longrightarrow> keeps env behind (change_message_flags env a username mailbox uid_set flags)"
  unfolding change_message_flags_def by (intro keep_steps keep_rules keeps_uid_operation) simp_all

lemma keeps_reload [keep_rules]: "keeps env behind (reload env)"
  unfolding reload_def Let_def
  by (intro keep_steps keep_rules keeps_outside) (auto simp: event_shape_def event_gated_def)

section \<open>Removing a mailbox\<close>

lemma keeps_quarantine_name [keep_rules]: "keeps env behind (new_mailbox_quarantine_name env n existing)"
  by (induction n) (auto intro!: keep_steps keep_rules)

lemma keeps_restore: "operand u \<Longrightarrow> operand m \<Longrightarrow> operand q \<Longrightarrow> keeps env True (restore_mailbox_quarantine env u m q)"
  unfolding restore_mailbox_quarantine_def
  by (intro keep_rules keep_steps keeps_mboxes_command(1)) auto

lemma keeps_empty_and_remove:
  "operand u \<Longrightarrow> operand m \<Longrightarrow> operand q \<Longrightarrow> keeps env True (empty_and_remove env u m q target)"
  unfolding empty_and_remove_def
  by (intro keep_steps keep_rules keeps_mboxes_command keeps_transfer keeps_uid_operation) auto

text \<open>The name of a quarantine that is returned has passed \<open>_safe_positional\<close>.\<close>

lemma quarantine_operand: "new_mailbox_quarantine_name env n existing s = (Inr q, t) \<Longrightarrow> operand q"
proof (induction n arbitrary: s)
  case (Suc n)
  then show ?case
    by (auto simp: bindA_Inr liftE_def returnA_def split: if_splits sum.splits dest: operand_positional)
qed (simp add: raiseA_def)

lemma keeps_bind_outcome:
  assumes "keeps env behind m" "\<And>x s t. m s = (Inr x, t) \<Longrightarrow> keeps env behind (f x)"
  shows "keeps env behind (bindA m f)"
proof (rule keepsI, rule wp_bind)
  fix h0 b d assume g: "behind \<longrightarrow> b" "gate env h0 b d"
  have "wp m (\<lambda>x d'. gate env h0 b d' \<and> (\<exists>s t. m s = (Inr x, t))) (\<lambda>_. gate env h0 b) d"
    using keepsD [OF assms(1) g] by (auto intro!: wpI dest: wpD)
  then show "wp m (\<lambda>x. wp (f x) (\<lambda>_. gate env h0 b) (\<lambda>_. gate env h0 b)) (\<lambda>_. gate env h0 b) d"
    by (rule wp_mono) (use assms(2) g(1) in \<open>auto intro: keepsD\<close>)
qed

lemma keeps_migrate [keep_rules]: "keeps env behind (migrate_and_delete_mailbox env username mailbox target)"
  unfolding migrate_and_delete_mailbox_def
  by (rule keeps_open_seq, rule opens_require)
     (intro keeps_lift_bind keeps_bind_outcome keeps_seq keeps_if keeps_try keep_rules keeps_restore keeps_empty_and_remove;
      auto dest: operands quarantine_operand)

end
