(* ===== verification/Maddy_Correct.thy ===== *)
theory Maddy_Correct
  imports Maddy_Gated
begin

text \<open>
  The calls that \<open>MaddyService\<close> offers as one type, and the two theorems over all of them: which commands the runner
  is given, and that nothing is changed before the installed version has been probed in the same call.
\<close>

section \<open>Calls\<close>

datatype maddy_call =
    ProbeInstalledVersion bool | ProbeVersion bool | Capabilities | ProbeCliFingerprint bool
  | StartupSafetyStatus | RequireWriteSafety Capability | VersionInfo | VerifyConfig
  | ListCredentials | ListImapAccounts | ListAccounts bool
  | CreateAccount pystr pystr | ChangePassword pystr pystr | DisableCredentials pystr
  | DeleteImapAccount pystr | DeleteAccount pystr | GetAppendLimit pystr | SetAppendLimit pystr int
  | ListMailboxes pystr bool | CreateMailbox pystr pystr "pystr option" | ResolveSpecialMailbox pystr pystr
  | DeleteMailbox pystr pystr | MigrateAndDeleteMailbox pystr pystr pystr | RenameMailbox pystr pystr pystr
  | ListMessages pystr pystr pystr bool | LatestMessageUid pystr pystr | ListMessageWindow pystr pystr int int
  | DumpMessage pystr pystr pystr nat | AppendMessage pystr pystr message_content "pystr list" "pystr option"
  | DeleteMessages pystr pystr pystr | DeleteMessage pystr pystr pystr
  | CopyMessages pystr pystr pystr pystr | MoveMessages pystr pystr pystr pystr | MoveMessage pystr pystr pystr pystr
  | SetMessageSeen pystr pystr pystr bool
  | SetMessageFlags pystr pystr pystr "pystr list" | AddMessageFlags pystr pystr pystr "pystr list"
  | RemoveMessageFlags pystr pystr pystr "pystr list" | Reload

text \<open>The call without its result: what it does to the service and which requests it makes.\<close>

definition ignoring :: "'a maddy_act \<Rightarrow> unit maddy_act" where
  "ignoring m = seqA m (returnA ())"

fun run_call :: "maddy_env \<Rightarrow> maddy_call \<Rightarrow> unit maddy_act" where
  "run_call env (ProbeInstalledVersion r) = ignoring (probe_installed_version env r)"
| "run_call env (ProbeVersion r) = ignoring (probe_version env r)"
| "run_call env Capabilities = ignoring (capabilities env)"
| "run_call env (ProbeCliFingerprint r) = ignoring (probe_cli_fingerprint env r)"
| "run_call env StartupSafetyStatus = ignoring (startup_safety_status env)"
| "run_call env (RequireWriteSafety c) = ignoring (require_write_safety env c)"
| "run_call env VersionInfo = ignoring (version_info env)"
| "run_call env VerifyConfig = ignoring (verify_config env)"
| "run_call env ListCredentials = ignoring (list_credentials env)"
| "run_call env ListImapAccounts = ignoring (list_imap_accounts env)"
| "run_call env (ListAccounts l) = ignoring (list_accounts env l)"
| "run_call env (CreateAccount u p) = ignoring (create_account env u p)"
| "run_call env (ChangePassword u p) = change_password env u p"
| "run_call env (DisableCredentials u) = disable_credentials env u"
| "run_call env (DeleteImapAccount u) = delete_imap_account env u"
| "run_call env (DeleteAccount u) = delete_maddy_account env u"
| "run_call env (GetAppendLimit u) = ignoring (get_append_limit env u)"
| "run_call env (SetAppendLimit u v) = ignoring (set_append_limit env u v)"
| "run_call env (ListMailboxes u s) = ignoring (list_mailboxes env u s)"
| "run_call env (CreateMailbox u m s) = create_mailbox env u m s"
| "run_call env (ResolveSpecialMailbox u s) = ignoring (resolve_special_mailbox env u s)"
| "run_call env (DeleteMailbox u m) = delete_mailbox env u m"
| "run_call env (MigrateAndDeleteMailbox u m t) = migrate_and_delete_mailbox env u m t"
| "run_call env (RenameMailbox u m n) = rename_mailbox env u m n"
| "run_call env (ListMessages u m s f) = ignoring (list_messages env u m s f)"
| "run_call env (LatestMessageUid u m) = ignoring (latest_message_uid env u m)"
| "run_call env (ListMessageWindow u m l c) = ignoring (list_message_window env u m l c)"
| "run_call env (DumpMessage u m i n) = ignoring (dump_message_to env u m i n)"
| "run_call env (AppendMessage u m c f d) = ignoring (append_message env u m c f d)"
| "run_call env (DeleteMessages u m s) = delete_messages env u m s"
| "run_call env (DeleteMessage u m i) = delete_message env u m i"
| "run_call env (CopyMessages u m s t) = message_transfer env ''copy'' u m s t"
| "run_call env (MoveMessages u m s t) = message_transfer env ''move'' u m s t"
| "run_call env (MoveMessage u m i t) = move_message env u m i t"
| "run_call env (SetMessageSeen u m i s) = set_message_seen env u m i s"
| "run_call env (SetMessageFlags u m s f) = change_message_flags env ''set-flags'' u m s f"
| "run_call env (AddMessageFlags u m s f) = change_message_flags env ''add-flags'' u m s f"
| "run_call env (RemoveMessageFlags u m s f) = change_message_flags env ''rem-flags'' u m s f"
| "run_call env Reload = reload env"

lemma keeps_ignoring: "keeps env behind m \<Longrightarrow> keeps env behind (ignoring m)"
  unfolding ignoring_def by (intro keep_steps keep_rules)

lemma keeps_write_safety: "keeps env behind (require_write_safety env c)"
  using keeps_require [of env behind c True] by (simp add: require_def)

lemma keeps_call: "keeps env False (run_call env c)"
  by (cases c; simp only: run_call.simps)
     (intro keeps_ignoring keep_rules keeps_write_safety keeps_transfer keeps_change_flags; simp)+

lemma call_trace: "run_call env c s = (r, t) \<Longrightarrow> trace_ok env (history (db s)) (history (db t))"
proof -
  assume run: "run_call env c s = (r, t)"
  have "gate env (history (db s)) False (db s)" by (simp add: gate_def trace_ok_start)
  then have "wp (run_call env c) (\<lambda>_. gate env (history (db s)) False) (\<lambda>_. gate env (history (db s)) False) (db s)"
    by (intro keepsD [OF keeps_call]) auto
  from wp_outcome [OF this run] show ?thesis by (cases r) (auto simp: gate_def)
qed

section \<open>Theorems\<close>

text \<open>C9. Whatever a caller passes and whatever the mail server answers, the history of a call only grows, and each
  request it adds is one of the fixed commands: an information command, a prefix of the administration
  interface with its options in place followed by operands that are not empty, do not begin with a dash and have no ASCII control
  character (DEL included), an append whose flags are listed ones or keywords and whose date, if any, was read as ISO 8601
  with a time zone, a reload or the reading of the configuration. Its argument
  vector is the one that the target builds from these words.\<close>

theorem maddy_commands_allowed:
  "\<exists>es. history (db (snd (run_call env c s))) = history (db s) @ es \<and> list_all (event_shape env) es"
proof -
  obtain es where es: "history (db (snd (run_call env c s))) = history (db s) @ es"
    "\<And>a e b. es = a @ e # b \<Longrightarrow> event_shape env e"
    using call_trace [of env c s "fst (run_call env c s)" "snd (run_call env c s)"] unfolding trace_ok_def by fastforce
  have "list_all (event_shape env) es" using es(2) by (metis list_all_iff split_list)
  with es(1) show ?thesis by blast
qed

text \<open>C8. A command that changes accounts, mailboxes or messages is only ever given to the runner after a version
  probe of the same call: earlier in that call the runner was asked for the version, exited with
  status zero, and its output names one of the tested releases. What an earlier call had found out is never enough.\<close>

theorem maddy_writes_gated:
  assumes "run_call env c s = (r, t)"
    and "history (db t) = history (db s) @ before @ Invoked ws request # later" and "mutating ws"
  shows "\<exists>a e b. before = a @ e # b \<and> probe_event env (history (db s) @ a) e"
proof -
  have "event_gated env (history (db s)) (history (db s) @ before) (Invoked ws request)"
    using call_trace [OF assms(1)] assms(2) unfolding trace_ok_def by auto
  with assms(3) show ?thesis by (auto simp: event_gated_def probed_def)
qed

text \<open>A container with a profiled release, in which a password is changed.\<close>

definition sample_result :: "maddy_event list \<Rightarrow> command_result" where
  "sample_result h =
     \<lparr>returncode = 0, stdout = ascii_bytes (if h = [] then lit ''maddy 0.9.5'' else lit ''a@b.cd''), stderr = [], streamed_stdout_bytes = 0\<rparr>"

definition sample_answer :: "maddy_event list \<Rightarrow> run_request \<Rightarrow> command_result res" where
  "sample_answer h request = Inr (sample_result h)"

definition sample_maddy_env :: maddy_env where
  "sample_maddy_env =
     \<lparr>out_text = sample_security_env, casefold_nonascii = id, unicode_category = (\<lambda>_. ''Lu''), charset_decode = (\<lambda>_ _. None),
      svc_target = DEFAULT_TARGET\<lparr>target_mode := DOCKER, target_container := Some (lit ''maddy''),
        maddy_executable := lit ''/bin/maddy'', target_config_path := Some (lit ''/data/maddy.conf''), target_service_user := None\<rparr>,
      svc_auth_block = lit ''local_authdb'', svc_storage_block = lit ''local_mailboxes'',
      svc_json = \<lparr>sha256 = (\<lambda>b. replicate 32 7), io_fault = (\<lambda>n. None), path_is_specific = True, is_posix = True, euid = 0,
         temp_suffix = (\<lambda>n. lit ''x''), float_repr = (\<lambda>s. []), decode_wide = (\<lambda>b. Inl UnicodeDecodeError), json_limit = 900\<rparr>,
      svc_str = (\<lambda>_. []), svc_isoformat = (\<lambda>_. None), svc_token_hex = (\<lambda>_. lit ''00''), svc_set_order = id,
      svc_answer = sample_answer, svc_config_size = (\<lambda>_. Inl LookupError), svc_config_bytes = (\<lambda>_. Inl LookupError)\<rparr>"

definition sample_service :: "maddy_event list \<Rightarrow> maddy_state store" where
  "sample_service h = sample_process (new_service (Some (release 0 9 5)) (Some (lit ''00'', [])) h)"

lemma sample_version: "from_maddy_output sample_security_env (ascii_bytes (lit ''maddy 0.9.5'')) = Inr (release 0 9 5)"
  apply (simp add: from_maddy_output_def utf8_decode_replace_def utf8_lenient_ascii ascii_bytes_def text_eval is_line_break_def lines_by.simps
    isspace_def strip_def lstrip_def rstrip_def py_lower_def SemVer_parse_def SEMVER_RE_def partition_def version_number_def decimal_int_def
    INT_MAX_STR_DIGITS_def decimal_digit_def sample_security_env_def release_def next_is_def)
  done

lemma sample_quiet:
  "reported_application_failure sample_maddy_env \<lparr>returncode = 0, stdout = ascii_bytes (lit ''maddy 0.9.5''), stderr = [], streamed_stdout_bytes = 0\<rparr> = Inr False"
  "reported_application_failure sample_maddy_env \<lparr>returncode = 0, stdout = ascii_bytes (lit ''a@b.cd''), stderr = [], streamed_stdout_bytes = 0\<rparr> = Inr False"
  by code_simp+

lemma sample_listed:
  "account_lines sample_maddy_env \<lparr>returncode = 0, stdout = ascii_bytes (lit ''a@b.cd''), stderr = [], streamed_stdout_bytes = 0\<rparr> ''No users.'' s =
   (Inr [lit ''a@b.cd''], s)"
  by (simp add: account_lines_def utf8_decode_def utf8_chars.simps utf8_next_def ascii_bytes_def text_eval is_line_break_def lines_by.simps
    isspace_def strip_def lstrip_def rstrip_def out_casefold_def account_line_ok_def next_is_def returnA_def)

lemma sample_fixed_token: "list_all (\<lambda>w. fixed_token w = Inr w) ws \<Longrightarrow> traverse fixed_token ws = Inr ws"
  by (induction ws) (auto simp: res_simps)

definition sample_event :: "invoke_options \<Rightarrow> pystr list \<Rightarrow> maddy_event" where
  "sample_event opts ws = Invoked ws
     \<lparr>req_argv = command_argv (svc_target sample_maddy_env) ws (opt_input opts \<noteq> None \<or> opt_stream opts \<noteq> None) (opt_use_config opts),
      req_input = opt_input opts, req_stream = opt_stream opts, req_sink = opt_sink opts, req_max_output = opt_max_output opts,
      req_user = (if opt_as_service_user opts then run_as_user (svc_target sample_maddy_env) else None)\<rparr>"

lemma sample_invoke:
  assumes "ws \<noteq> []" "list_all (\<lambda>w. fixed_token w = Inr w) ws"
  shows "invoke_with sample_maddy_env opts ws s =
     (Inr (sample_result (history (db s))), s\<lparr>db := (db s)\<lparr>history := history (db s) @ [sample_event opts ws]\<rparr>\<rparr>)"
proof -
  have "argv t ws i c = Inr (command_argv t ws i c)" for t i c
    using assms by (simp add: argv_def sample_fixed_token)
  moreover have "svc_answer sample_maddy_env = sample_answer" by (simp add: sample_maddy_env_def)
  moreover have "reported_application_failure sample_maddy_env (sample_result h) = Inr False" "returncode (sample_result h) = 0" for h
    by (cases h) (simp_all add: sample_result_def sample_quiet)
  ultimately show ?thesis
    by (simp add: invoke_with_def bindA_def seqA_def liftE_def outside_def setA_def selectA_def executeA_def returnA_def sample_answer_def
        sample_event_def Let_def)
qed

lemmas sample_steps = bindA_def seqA_def liftE_def setA_def selectA_def executeA_def returnA_def sample_invoke Let_def

lemma sample_tokens:
  "fixed_token (lit ''version'') = Inr (lit ''version'')" "fixed_token (lit ''creds'') = Inr (lit ''creds'')"
  "fixed_token (lit ''list'') = Inr (lit ''list'')" "fixed_token (lit ''password'') = Inr (lit ''password'')"
  "fixed_token (lit ''--cfg-block'') = Inr (lit ''--cfg-block'')" "fixed_token (lit ''local_authdb'') = Inr (lit ''local_authdb'')"
  "fixed_token (lit ''a@b.cd'') = Inr (lit ''a@b.cd'')" "safe_positional 254 (lit ''a@b.cd'') = Inr (lit ''a@b.cd'')"
  "password_input (lit ''new'') = Inr (ascii_bytes (lit ''new'') @ [10])"
  by (simp_all add: fixed_token_def safe_positional_def password_input_def text_eval utf8_encode_ascii isascii_def ascii_bytes_def res_simps)

lemma sample_release: "require_supported_version (release 0 9 5) True = Inr (release 0 9 5)"
  "ACCOUNT_ADMIN \<in> projr (capabilities_for (release 0 9 5))" "isl (capabilities_for (release 0 9 5)) = False"
  "SemVer_lt (release 0 9 5) (release 0 9 3) = False" "SemVer_eq (release 0 9 5) (release 0 9 5)"
  by code_simp+

definition version_options :: invoke_options where
  "version_options = plain\<lparr>opt_use_config := False, opt_max_output := 64 * 1024\<rparr>"

lemma sample_fields:
  "out_text sample_maddy_env = sample_security_env" "svc_auth_block sample_maddy_env = lit ''local_authdb''"
  "target_mode (svc_target sample_maddy_env) = DOCKER"
  by (simp_all add: sample_maddy_env_def)

lemma sample_fields_of:
  "installed_version (db (sample_service h)) = Some (release 0 9 5)" "supported_version (db (sample_service h)) = Some (release 0 9 5)"
  "cli_fingerprint (db (sample_service h)) = Some (lit ''00'', [])" "cli_fingerprint_version (db (sample_service h)) = Some (release 0 9 5)"
  "output_contract_failure (db (sample_service h)) = False" "history (db (sample_service h)) = h"
  "sample_service h\<lparr>db := db (sample_service h)\<lparr>history := h'\<rparr>\<rparr> = sample_service h'"
  by (simp_all add: sample_service_def sample_process_def new_service_def sample_release Let_def)

lemma sample_probe:
  "probe_version sample_maddy_env True (sample_service []) = (Inr (release 0 9 5), sample_service [sample_event version_options [lit ''version'']])"
  by (simp add: probe_version_def probe_installed_version_def sample_steps sample_tokens sample_version sample_release sample_result_def
      sample_fields version_options_def sample_service_def sample_process_def new_service_def)

lemma sample_known: "probe_version sample_maddy_env False (sample_service h) = (Inr (release 0 9 5), sample_service h)"
  by (simp add: probe_version_def sample_steps sample_fields_of)

lemma sample_fingerprint: "probe_cli_fingerprint sample_maddy_env False (sample_service h) = (Inr (lit ''00'', []), sample_service h)"
  by (simp add: probe_cli_fingerprint_def sample_steps sample_known sample_fields_of sample_release)

lemma sample_require:
  "require sample_maddy_env ACCOUNT_ADMIN True (sample_service []) = (Inr (release 0 9 5), sample_service [sample_event version_options [lit ''version'']])"
  "require sample_maddy_env ACCOUNT_ADMIN False (sample_service h) = (Inr (release 0 9 5), sample_service h)"
proof -
  obtain caps where caps: "capabilities_for (release 0 9 5) = Inr caps" "ACCOUNT_ADMIN \<in> caps"
    using sample_release(2,3) by (cases "capabilities_for (release 0 9 5)") auto
  show "require sample_maddy_env ACCOUNT_ADMIN True (sample_service []) = (Inr (release 0 9 5), sample_service [sample_event version_options [lit ''version'']])"
    by (simp add: require_def require_write_safety_def sample_steps sample_probe caps sample_fields sample_release ensure_legacy_auth_safe_def
        sample_fingerprint sample_fields_of)
  show "require sample_maddy_env ACCOUNT_ADMIN False (sample_service h) = (Inr (release 0 9 5), sample_service h)"
    by (simp add: require_def require_read_def sample_steps sample_known caps)
qed

definition sample_change :: maddy_event where
  "sample_change = sample_event (plain\<lparr>opt_input := Some (ascii_bytes (lit ''new'') @ [10])\<rparr>)
     [lit ''creds'', lit ''password'', lit ''--cfg-block'', lit ''local_authdb'', lit ''a@b.cd'']"

definition sample_history :: "maddy_event list" where
  "sample_history =
     [sample_event version_options [lit ''version''], sample_change,
      sample_event plain [lit ''creds'', lit ''list'', lit ''--cfg-block'', lit ''local_authdb'']]"

lemma sample_run:
  "run_call sample_maddy_env (ChangePassword (lit ''a@b.cd'') (lit ''new'')) (sample_service []) = (Inr (), sample_service sample_history)"
proof -
  have "credentials sample_maddy_env ''password'' [lit ''a@b.cd''] (Some (ascii_bytes (lit ''new'') @ [10])) None (sample_service []) =
     (Inr (sample_result [sample_change]), sample_service [sample_event version_options [lit ''version''], sample_change])"
    by (simp add: credentials_def sample_steps sample_require sample_fields sample_tokens sample_fields_of sample_change_def sample_result_def)
  moreover have "credentials sample_maddy_env ''list'' [] None None (sample_service (e # h)) =
     (Inr (sample_result [sample_change]), sample_service (e # h @ [sample_event plain [lit ''creds'', lit ''list'', lit ''--cfg-block'', lit ''local_authdb'']]))" for e h
    by (simp add: credentials_def sample_steps sample_require sample_fields sample_tokens sample_fields_of sample_result_def) (simp add: plain_def)
  ultimately show ?thesis
    by (simp add: change_password_def list_credentials_def sample_steps sample_tokens sample_result_def sample_listed sample_history_def)
qed

theorem maddy_writes_gated_witness:
  "\<exists>a e b. [sample_event version_options [lit ''version'']] = a @ e # b \<and> probe_event sample_maddy_env a e"
proof -
  have "mutating [lit ''creds'', lit ''password'', lit ''--cfg-block'', lit ''local_authdb'', lit ''a@b.cd'']"
    by (simp add: mutating_def MUTATING_ACTIONS_def text_eval)
  with maddy_writes_gated [OF sample_run, of "[sample_event version_options [lit ''version'']]"]
  show ?thesis by (simp add: sample_history_def sample_change_def sample_event_def sample_fields_of)
qed

end
