(* ===== verification/Spec2Isabelle.thy ===== *)
theory Spec2Isabelle
  imports Filing_Rules_Correct Auth_Outcomes Auth_Rate_Bounds Mail_Rule_Order Helper_Messages Http_Guard
    Audit_Log Filter_Correct App_Config_Correct Maddy_Correct
begin

text \<open>
  MaddyWeb is a web front end for the maddy mail server. A web process authenticates users and shows their mail; a
  privileged helper runs the administration commands of the mail server; a filter asks, for each delivery, in which
  folder the message belongs. This development models the parts of the Python package \<open>src/src/maddyweb\<close> that hold its
  logic and its security: the authentication store, the HTTP protection, the protocol between the processes, the
  filing rules from their documents to a delivery, the configuration, the audit log, and the adapter of the mail
  server's command line.

  \<^bold>\<open>How programs are modelled.\<close> A Python \<open>str\<close> is a list of code points (\<open>pystr\<close>), \<open>bytes\<close> a list of 8-bit words,
  a value of unknown type a \<open>pyval\<close>, an exception a value of the type \<open>exn\<close> (\<open>Prelude\<close>). Pure functions return \<open>'a res\<close>,
  an exception or a result. Stateful classes are actions \<open>('d, 'a) act\<close> on a state \<open>'d\<close> with the number of random draws
  and clock readings (\<open>Store_Monad\<close>); rules for weakest preconditions with one postcondition for results and one for
  exceptions carry the proofs. What the program takes from elsewhere is a field of an environment record: HMAC, AES-GCM and
  SHA-256, the clock, random bytes, Unicode tables, IP address parsing, MIME parsing, TOML parsing, WebAuthn
  verification, file-system and socket failures, the answers of the mail server. Theorems hold for every value of these
  parameters; the few that need something of them state it as a hypothesis (HMAC-SHA1 digests of 20 bytes, say) and have a witness.

  \<^bold>\<open>Parts and theories.\<close>

  \<^item> Standard library text: \<open>Utf8_Text\<close>, \<open>Binary_Text\<close> (hex, base32, base64), \<open>Json_Text\<close> and \<open>Json_Correct\<close> (the \<open>json\<close> module
    with its hooks; reading inverts printing), \<open>Url_Text\<close>, \<open>Posix_Path\<close>, \<open>Cli_Text\<close>. Locale \<open>codec\<close> (\<open>Prelude\<close>) is
    the contract of a printer and a reader; rule conditions, rules, requests, responses, UTF-8 and versions interpret it. Locale
    \<open>json_reader\<close> is the contract of the hooks, interpreted for the protocol and for snapshots.
  \<^item> \<open>identity.py\<close>: \<open>Identity\<close>, the canonical form of mail addresses.
  \<^item> \<open>auth.py\<close>, class \<open>AuthStore\<close>: \<open>Auth_Codec\<close> (validators, tokens, TOTP, recovery codes), \<open>Auth_Schema\<close> (the nine tables with their
    constraints and cascades), \<open>Auth_Helpers\<close> (the methods that run inside a transaction), \<open>Auth_Accounts\<close>, \<open>Auth_Login\<close>,
    \<open>Auth_Passkeys\<close>, \<open>Auth_Rate\<close>, \<open>Mail_Rule_Store\<close> (the public methods). \<open>Auth_Reachable\<close> makes the store a state machine: any
    sequence of calls with any arguments. Invariants of all reachable states: consistency of the tables (\<open>Auth_Tables\<close>, locale
    \<open>constrained_table\<close> with nine interpretations), resource bounds (\<open>Auth_Limits\<close>, locale \<open>evicting_table\<close>), the life cycle of
    second factors (\<open>Auth_Enrollment\<close>), session times (\<open>Auth_Sessions\<close>), limits of counted attempts (\<open>Auth_Rate_Bounds\<close>) and gap-free rule
    positions (\<open>Mail_Rule_Order\<close>); the locales of \<open>Auth_Frames\<close> carry an invariant over statements on other tables, \<open>fresh_source\<close>
    (\<open>Auth_Fresh\<close>) is the contract of a source of identifiers. What single operations do on every branch: \<open>Auth_Totp\<close>, \<open>Auth_Outcomes\<close>,
    \<open>Auth_Text\<close>. \<open>Auth_Sample\<close> is a concrete environment for the witnesses.
  \<^item> \<open>security.py\<close>: \<open>Csrf_Tokens\<close> (hosts, origins, signed tokens), \<open>Csrf_Store\<close> (the bounded registry of current nonces), \<open>Http_Security\<close>
    (response headers, the middlewares, the limiter). \<open>Csrf_Correct\<close>: tokens are accepted exactly as issued. \<open>Csrf_Register\<close>: the
    registry refines an abstract lossy register (locale \<open>lossy_register\<close>), so a nonce is used once under every
    interleaving. \<open>Http_Guard\<close>: no request that could change something reaches a handler unchecked, and every response
    is hardened unless its handler has sent the headers itself.
  \<^item> \<open>protocol.py\<close>: \<open>Helper_Protocol\<close> (frames, streams, requests, responses, the client) over a connection that cuts bytes into arbitrary
    pieces and may fail; \<open>Helper_Protocol_Correct\<close> and \<open>Helper_Messages\<close> show round trips and what a hostile peer can achieve.
  \<^item> \<open>rules.py\<close>: \<open>Filing_Rules\<close> (documents, compilation, three-valued matching), \<open>Filing_Rules_Correct\<close> (parser and printer are
    inverse, the matcher computes Kleene logic). \<open>rule_snapshots.py\<close>: \<open>Rule_Snapshots\<close> over a directory whose system calls may each fail,
    \<open>Rule_Snapshots_Correct\<close> (atomic publication; a replacement purges before it publishes). \<open>filter_bridge.py\<close> and \<open>filter_client.py\<close>: \<open>Filter_Bridge\<close>; \<open>Filter_Rules\<close>
    composes store, JSON and parser, \<open>Filter_Correct\<close> joins the two ends of the connection and shows that the client never makes a delivery fail.
  \<^item> \<open>audit.py\<close>: \<open>Audit_Log\<close>, with non-interference of sensitive values. \<open>config.py\<close>: \<open>App_Config\<close>, and \<open>App_Config_Correct\<close> on
    what an accepted configuration guarantees.
  \<^item> \<open>maddy.py\<close>: \<open>Maddy_Version\<close> (versions and capabilities; locale \<open>decimal_env\<close> for the Unicode digits), \<open>Maddy_Output\<close>
    (argument validators, the readers of listings), \<open>Maddy_Config\<close> (the analysis of the server's own configuration), \<open>Maddy_Service\<close> (targets,
    invocation, probes, the write gate), \<open>Maddy_Operations\<close> (accounts, mailboxes, messages). The state carries the history of what the
    runner was asked, and each answer is an arbitrary function of that history. \<open>Maddy_Safety\<close> and \<open>Maddy_Gated\<close> prove one invariant over
    histories for every operation; \<open>Maddy_Correct\<close> states it for all calls.

  The parts meet in their types: rules of the store are published as snapshots and evaluated by the filter, the configuration
  builds the target of the mail-server adapter, the addresses of all parts are those of \<open>Identity\<close>.

  \<^bold>\<open>Loops, bounds and fuel.\<close> Loops over data are structural recursion, or functions with a length as measure. The loop that draws
  recovery codes until ten differ may run forever on a bad source: it is a \<open>partial_function (option)\<close>, and that it returns
  as soon as the source has given ten values is a theorem of its own. The retry loops (eight identifiers, four quarantine
  names) count down as the source does. JSON is read up to the recursion limit of the interpreter, a parameter. Connections
  are finite lists of events whose length bounds each reading loop; a connection that gives nothing more has ended.

  \<^bold>\<open>Not modelled.\<close> \<open>web.py\<close> and \<open>gateway.py\<close> (handlers and templates over aiohttp), \<open>helper.py\<close> (dispatch to system
  commands), \<open>mail.py\<close> except one function (IMAP and MIME over library packages), the certificate modules, the command
  line and the release script: they are input and output around the modelled parts. Of \<open>maddy.py\<close> the class
  \<open>SubprocessRunner\<close> (processes, pipes and threads); of \<open>auth.py\<close> opening, checking and migrating the database file: the model starts from an
  empty current schema. Locks are not modelled: each method of a class is one step, as its lock makes it; the CSRF registry and the
  limiter are studied under all interleavings of such steps. Rollback of a failed transaction and the checking of constraints are
  behaviour of SQLite that the model takes over, CHECK clauses with the three-valued logic of SQL.

  Some failures of the surroundings are outside the model: a clock reading of \<open>2 ^ 63\<close> or more, which SQLite refuses to store
  (\<open>OverflowError\<close>); numeric prerelease identifiers with more digits than \<open>int\<close> converts; failures of the temporary spool
  file of the filter server, and of writing to the destination of a stream or of the filter client; and, for a response that a handler
  prepares itself, everything after its headers.
\<close>

end
